(* ===== verification/Prelude.thy ===== *)
theory Prelude
  imports Main "HOL-Library.AList" "HOL-Library.Sublist"
begin

text \<open>
  Shared vocabulary of the development: Go error values and results, 64-bit signed
  arithmetic with its wrap-around, Go maps as association lists, and the generic list
  lemmas the components use.  The collection \<open>go_eval\<close> holds the equations that evaluate
  the library functions of \<open>Go_Strings\<close> and \<open>Go_Values\<close> on concrete inputs.
\<close>

named_theorems go_eval "equations that evaluate Go library functions on concrete inputs"

subsection \<open>Errors and results\<close>

text \<open>
  The sentinel errors of the packages (compared with \<^verbatim>\<open>errors.Is\<close>) are constructors of
  their own; an error that is only ever compared with \<^verbatim>\<open>nil\<close> carries its text.
  \<open>ErrContext\<close> is what \<^verbatim>\<open>ctx.Err()\<close> returns for a cancelled or expired context.
\<close>

datatype goerr =
    ErrNotFound
  | ErrInvalidStatus
  | ErrInvalidTransition
  | ErrSecretKeyRequired
  | ErrLocalRevisionConflict
  | ErrLocalStaleFence
  | ErrLocalIdempotencyConflict
  | ErrUpdaterIdentityPending
  | ErrUpdaterIdentityDrift
  | ErrContext string
  | ErrText string

type_synonym 'a result = "goerr + 'a"

text \<open>Instants are nanoseconds after Go's zero time, so \<^verbatim>\<open>t.IsZero()\<close> is \<open>t = 0\<close>.\<close>

type_synonym instant = int

abbreviation IsZero :: "instant \<Rightarrow> bool" where
  "IsZero t \<equiv> t = 0"

subsection \<open>Signed 64-bit arithmetic\<close>

definition wrap64 :: "int \<Rightarrow> int" where
  "wrap64 x = (x + 2 ^ 63) mod 2 ^ 64 - 2 ^ 63"

definition in64 :: "int \<Rightarrow> bool" where
  "in64 x \<longleftrightarrow> - (2 ^ 63) \<le> x \<and> x < 2 ^ 63"

lemma wrap64_in64 [simp]: "in64 (wrap64 x)"
  by (simp add: wrap64_def in64_def)

lemma wrap64_id: "in64 x \<Longrightarrow> wrap64 x = x"
  by (simp add: wrap64_def in64_def)

lemma wrap64_wrap64 [simp]: "wrap64 (wrap64 x) = wrap64 x"
  by (rule wrap64_id) simp

lemma wrap64_max: "wrap64 (2 ^ 63) = - (2 ^ 63)"
  by (simp add: wrap64_def)

lemma wrap64_add: "wrap64 (wrap64 x + y) = wrap64 (x + y)"
  unfolding wrap64_def by (simp add: mod_simps algebra_simps)

lemma wrap64_add_right: "wrap64 (y + wrap64 x) = wrap64 (y + x)"
  using wrap64_add [of x y] by (simp add: add.commute)

subsection \<open>Go maps as association lists\<close>

text \<open>
  A Go map whose iteration order the code depends on is an association list with distinct
  keys; the list order is the order in which the run iterates, which Go leaves open, and
  every theorem is stated for every list.  \<^verbatim>\<open>m[k] = v\<close> is \<open>AList.update\<close>,
  \<^verbatim>\<open>delete(m, k)\<close> is \<open>AList.delete\<close>, \<^verbatim>\<open>m[k]\<close> is \<open>map_of\<close>.
\<close>

type_synonym 'v gomap = "(string \<times> 'v) list"

definition gomap :: "'v gomap \<Rightarrow> bool" where
  "gomap m \<longleftrightarrow> distinct (map fst m)"

lemma gomap_Nil [simp]: "gomap []"
  by (simp add: gomap_def)

lemma gomap_update [simp]: "gomap m \<Longrightarrow> gomap (AList.update k v m)"
  by (simp add: gomap_def distinct_update)

lemma gomap_delete [simp]: "gomap m \<Longrightarrow> gomap (AList.delete k m)"
  by (simp add: gomap_def distinct_delete)

lemma gomap_filter [simp]: "gomap m \<Longrightarrow> gomap (filter P m)"
  by (simp add: gomap_def distinct_map_filter)

lemma gomap_tl: "gomap (p # m) \<Longrightarrow> gomap m"
  by (simp add: gomap_def)

lemma map_of_update [simp]: "map_of (AList.update k v m) = (map_of m)(k \<mapsto> v)"
  by (rule update_conv')

lemma map_of_delete [simp]: "map_of (AList.delete k m) = (map_of m)(k := None)"
  by (rule delete_conv')

lemma map_fst_update_present: "map_of m k \<noteq> None \<Longrightarrow> map fst (AList.update k v m) = map fst m"
  by (induction m) auto

lemma gomap_eqI:
  assumes "gomap m" "map fst m = map fst m'" "\<And>k. map_of m k = map_of m' k"
  shows "m = m'"
  using assms
proof (induction m arbitrary: m')
  case (Cons p m)
  then obtain q ms where m': "m' = q # ms" "fst q = fst p" "map fst ms = map fst m" by (cases m') auto
  have "snd p = snd q" using Cons.prems(3) [of "fst p"] m' by simp
  moreover have "map_of m k = map_of ms k" for k
  proof (cases "k = fst p")
    case True
    then have "k \<notin> fst ` set m" "k \<notin> fst ` set ms"
      using Cons.prems(1) m'(3) by (auto simp: gomap_def simp flip: set_map)
    then show ?thesis by (simp add: map_of_eq_None_iff [THEN iffD2])
  next
    case False
    then show ?thesis using Cons.prems(3) [of k] m' by auto
  qed
  ultimately show ?case using Cons.IH [of ms] gomap_tl [OF Cons.prems(1)] m' by (simp add: prod_eq_iff)
qed simp

lemma length_update_present: "map_of m k \<noteq> None \<Longrightarrow> length (AList.update k v m) = length m"
  by (induction m) auto

lemma length_update_absent: "map_of m k = None \<Longrightarrow> length (AList.update k v m) = Suc (length m)"
  by (induction m) auto

lemma length_delete_less:
  assumes "k \<in> fst ` set m"
  shows "length (AList.delete k m) < length m"
proof -
  obtain p where "p \<in> set m" "fst p = k" using assms by auto
  then have "length (filter (\<lambda>q. k \<noteq> fst q) m) < length m"
    by (intro length_filter_less) auto
  then show ?thesis by (simp add: AList.delete_eq case_prod_unfold)
qed

lemma map_of_filter_gomap:
  assumes "gomap m"
  shows "map_of (filter P m) k = (case map_of m k of None \<Rightarrow> None | Some v \<Rightarrow> if P (k, v) then Some v else None)"
  using assms
proof (induction m)
  case Nil
  then show ?case by simp
next
  case (Cons p m)
  obtain k' v' where p: "p = (k', v')" by (cases p)
  have "map_of m k' = None" using Cons.prems p by (simp add: gomap_def map_of_eq_None_iff)
  with Cons p show ?case by (auto simp: gomap_def split: option.splits)
qed

subsection \<open>Lists\<close>

lemma prefix_hd: "prefix xs ys \<Longrightarrow> xs \<noteq> [] \<Longrightarrow> hd xs = hd ys"
  by (auto simp: prefix_def)

lemma foldl_invariant:
  assumes "I a" "\<And>x a. x \<in> set xs \<Longrightarrow> I a \<Longrightarrow> I (f a x)"
  shows "I (foldl f a xs)"
  using assms by (induction xs arbitrary: a) auto

lemma map_filter_cong:
  assumes "\<And>x. x \<in> set xs \<Longrightarrow> f x = g x"
  shows "List.map_filter f xs = List.map_filter g xs"
  using assms by (induction xs) (auto simp: map_filter_simps split: option.splits)

lemma last_take_drop:
  assumes "Suc k < length h" "0 < n"
  shows "last (take n (drop (Suc k) h)) = h ! (k + min n (length h - Suc k))"
proof -
  have ne: "take n (drop (Suc k) h) \<noteq> []" using assms by simp
  have "Suc k + (min n (length h - Suc k) - 1) = k + min n (length h - Suc k)" using assms by arith
  then show ?thesis using assms by (simp add: last_conv_nth [OF ne] min.commute)
qed

lemma set_update_subset: "set (AList.update k c al) \<subseteq> insert (k, c) (set al)"
  by (induction al) auto

end
