(* ===== verification/Go_Strings.thy ===== *)
theory Go_Strings
  imports Prelude
begin

text \<open>
  The parts of Go's \<^verbatim>\<open>strings\<close>, \<^verbatim>\<open>unicode/utf8\<close>, \<^verbatim>\<open>strconv\<close> and \<^verbatim>\<open>regexp\<close> packages that
  the program uses.  A Go string is a byte string, and so is \<open>string\<close> here (a list of
  8-bit characters).  Functions that work on runes decode UTF-8 as Go does: an invalid byte
  is the rune U+FFFD of width one.
\<close>

subsection \<open>UTF-8\<close>

definition b2n :: "char \<Rightarrow> nat" where
  "b2n c = of_char c"

definition n2b :: "nat \<Rightarrow> char" where
  "n2b n = char_of n"

definition runeError :: nat where
  "runeError = 65533"

definition cont :: "nat \<Rightarrow> bool" where
  "cont b \<longleftrightarrow> 128 \<le> b \<and> b \<le> 191"

text \<open>\<^verbatim>\<open>utf8.DecodeRuneInString\<close> on a non-empty string: the rune and its width.\<close>

definition decode2 :: "nat \<Rightarrow> nat list \<Rightarrow> nat \<times> nat" where
  "decode2 b0 rest = (case rest of
     b1 # _ \<Rightarrow> if cont b1 then ((b0 - 192) * 64 + (b1 - 128), 2) else (runeError, 1)
   | [] \<Rightarrow> (runeError, 1))"

definition decode3 :: "nat \<Rightarrow> nat list \<Rightarrow> nat \<times> nat" where
  "decode3 b0 rest = (case rest of
     b1 # b2 # _ \<Rightarrow>
       if (if b0 = 224 then 160 else 128) \<le> b1 \<and> b1 \<le> (if b0 = 237 then 159 else 191) \<and> cont b2
       then ((b0 - 224) * 4096 + (b1 - 128) * 64 + (b2 - 128), 3) else (runeError, 1)
   | _ \<Rightarrow> (runeError, 1))"

definition decode4 :: "nat \<Rightarrow> nat list \<Rightarrow> nat \<times> nat" where
  "decode4 b0 rest = (case rest of
     b1 # b2 # b3 # _ \<Rightarrow>
       if (if b0 = 240 then 144 else 128) \<le> b1 \<and> b1 \<le> (if b0 = 244 then 143 else 191) \<and> cont b2 \<and> cont b3
       then ((b0 - 240) * 262144 + (b1 - 128) * 4096 + (b2 - 128) * 64 + (b3 - 128), 4)
       else (runeError, 1)
   | _ \<Rightarrow> (runeError, 1))"

fun decodeRune :: "nat list \<Rightarrow> nat \<times> nat" where
  "decodeRune [] = (runeError, 1)"
| "decodeRune (b0 # rest) =
     (if b0 < 128 then (b0, 1)
      else if 194 \<le> b0 \<and> b0 \<le> 223 then decode2 b0 rest
      else if 224 \<le> b0 \<and> b0 \<le> 239 then decode3 b0 rest
      else if 240 \<le> b0 \<and> b0 \<le> 244 then decode4 b0 rest
      else (runeError, 1))"

lemma decodeRune_width: "0 < snd (decodeRune bs)"
  by (cases bs) (auto simp: decode2_def decode3_def decode4_def split: list.splits)

text \<open>\<^verbatim>\<open>[]rune(s)\<close> and the runes a \<^verbatim>\<open>range\<close> loop over \<^verbatim>\<open>s\<close> visits.\<close>

function runesB :: "nat list \<Rightarrow> nat list" where
  "runesB bs = (if bs = [] then [] else fst (decodeRune bs) # runesB (drop (snd (decodeRune bs)) bs))"
  by pat_completeness auto
termination
proof (relation "measure length")
  fix bs :: "nat list" assume "bs \<noteq> []"
  then show "(drop (snd (decodeRune bs)) bs, bs) \<in> measure length"
    using decodeRune_width [of bs] by (cases bs) auto
qed simp

declare runesB.simps [simp del]

definition runes :: "string \<Rightarrow> nat list" where
  "runes s = runesB (map b2n s)"

definition encodeRune :: "nat \<Rightarrow> string" where
  "encodeRune r =
     (let r = (if r > 1114111 \<or> (55296 \<le> r \<and> r \<le> 57343) then runeError else r) in
      map n2b
       (if r < 128 then [r]
        else if r < 2048 then [192 + r div 64, 128 + r mod 64]
        else if r < 65536 then [224 + r div 4096, 128 + (r div 64) mod 64, 128 + r mod 64]
        else [240 + r div 262144, 128 + (r div 4096) mod 64, 128 + (r div 64) mod 64, 128 + r mod 64]))"

definition ofRunes :: "nat list \<Rightarrow> string" where
  "ofRunes rs = concat (map encodeRune rs)"

definition isASCII :: "string \<Rightarrow> bool" where
  "isASCII s \<longleftrightarrow> list_all (\<lambda>c. b2n c < 128) s"

definition RuneCountInString :: "string \<Rightarrow> nat" where
  "RuneCountInString s = length (runes s)"

subsection \<open>TrimSpace\<close>

text \<open>
  The white space of \<^verbatim>\<open>unicode.IsSpace\<close>, each rune as its UTF-8 bytes.  No encoded rune is a
  proper prefix or suffix of another, so matching bytes at an end of the string is the same
  as decoding the first or last rune.
\<close>

definition spaceSeqs :: "string list" where
  "spaceSeqs = map (map n2b)
     [[9], [10], [11], [12], [13], [32], [194, 133], [194, 160], [225, 154, 128],
      [226, 128, 128], [226, 128, 129], [226, 128, 130], [226, 128, 131], [226, 128, 132],
      [226, 128, 133], [226, 128, 134], [226, 128, 135], [226, 128, 136], [226, 128, 137],
      [226, 128, 138], [226, 128, 168], [226, 128, 169], [226, 128, 175], [226, 129, 159],
      [227, 128, 128]]"

fun stripOne :: "string list \<Rightarrow> string \<Rightarrow> string option" where
  "stripOne [] s = None"
| "stripOne (w # ws) s =
     (if w \<noteq> [] \<and> take (length w) s = w then Some (drop (length w) s) else stripOne ws s)"

lemma stripOne_shorter: "stripOne ws s = Some t \<Longrightarrow> length t < length s"
proof (induction ws)
  case Nil
  then show ?case by simp
next
  case (Cons w ws)
  show ?case
  proof (cases "w \<noteq> [] \<and> take (length w) s = w")
    case True
    with Cons.prems show ?thesis by (cases s; cases w) auto
  next
    case False
    with Cons show ?thesis by simp
  qed
qed

function trimWith :: "string list \<Rightarrow> string \<Rightarrow> string" where
  "trimWith ws s = (case stripOne ws s of None \<Rightarrow> s | Some t \<Rightarrow> trimWith ws t)"
  by pat_completeness auto
termination
  by (relation "measure (\<lambda>(ws, s). length s)") (auto dest: stripOne_shorter)

declare trimWith.simps [simp del]

definition TrimLeftSpace :: "string \<Rightarrow> string" where
  "TrimLeftSpace s = trimWith spaceSeqs s"

definition TrimRightSpace :: "string \<Rightarrow> string" where
  "TrimRightSpace s = rev (trimWith (map rev spaceSeqs) (rev s))"

definition TrimSpace :: "string \<Rightarrow> string" where
  "TrimSpace s = TrimRightSpace (TrimLeftSpace s)"

subsection \<open>Case\<close>

text \<open>
  The simple lower-case mapping of \<^verbatim>\<open>unicode.ToLower\<close> outside ASCII, as ranges
  \<open>(first, last, stride, delta)\<close>.
\<close>

definition lowerRanges :: "(nat \<times> nat \<times> nat \<times> int) list" where
  "lowerRanges = [
    (192, 214, 1, 32), (216, 222, 1, 32), (256, 302, 2, 1), (304, 304, 1, -199),
    (306, 310, 2, 1), (313, 327, 2, 1), (330, 374, 2, 1), (376, 376, 1, -121), (377, 381, 2, 1),
    (385, 385, 1, 210), (386, 388, 2, 1), (390, 390, 1, 206), (391, 391, 1, 1),
    (393, 394, 1, 205), (395, 395, 1, 1), (398, 398, 1, 79), (399, 399, 1, 202),
    (400, 400, 1, 203), (401, 401, 1, 1), (403, 403, 1, 205), (404, 404, 1, 207),
    (406, 406, 1, 211), (407, 407, 1, 209), (408, 408, 1, 1), (412, 412, 1, 211),
    (413, 413, 1, 213), (415, 415, 1, 214), (416, 420, 2, 1), (422, 422, 1, 218),
    (423, 423, 1, 1), (425, 425, 1, 218), (428, 428, 1, 1), (430, 430, 1, 218), (431, 431, 1, 1),
    (433, 434, 1, 217), (435, 437, 2, 1), (439, 439, 1, 219), (440, 440, 1, 1), (444, 444, 1, 1),
    (452, 452, 1, 2), (453, 453, 1, 1), (455, 455, 1, 2), (456, 456, 1, 1), (458, 458, 1, 2),
    (459, 475, 2, 1), (478, 494, 2, 1), (497, 497, 1, 2), (498, 500, 2, 1), (502, 502, 1, -97),
    (503, 503, 1, -56), (504, 542, 2, 1), (544, 544, 1, -130), (546, 562, 2, 1),
    (570, 570, 1, 10795), (571, 571, 1, 1), (573, 573, 1, -163), (574, 574, 1, 10792),
    (577, 577, 1, 1), (579, 579, 1, -195), (580, 580, 1, 69), (581, 581, 1, 71),
    (582, 590, 2, 1), (880, 882, 2, 1), (886, 886, 1, 1), (895, 895, 1, 116), (902, 902, 1, 38),
    (904, 906, 1, 37), (908, 908, 1, 64), (910, 911, 1, 63), (913, 929, 1, 32),
    (931, 939, 1, 32), (975, 975, 1, 8), (984, 1006, 2, 1), (1012, 1012, 1, -60),
    (1015, 1015, 1, 1), (1017, 1017, 1, -7), (1018, 1018, 1, 1), (1021, 1023, 1, -130),
    (1024, 1039, 1, 80), (1040, 1071, 1, 32), (1120, 1152, 2, 1), (1162, 1214, 2, 1),
    (1216, 1216, 1, 15), (1217, 1229, 2, 1), (1232, 1326, 2, 1), (1329, 1366, 1, 48),
    (4256, 4293, 1, 7264), (4295, 4295, 1, 7264), (4301, 4301, 1, 7264), (5024, 5103, 1, 38864),
    (5104, 5109, 1, 8), (7312, 7354, 1, -3008), (7357, 7359, 1, -3008), (7680, 7828, 2, 1),
    (7838, 7838, 1, -7615), (7840, 7934, 2, 1), (7944, 7951, 1, -8), (7960, 7965, 1, -8),
    (7976, 7983, 1, -8), (7992, 7999, 1, -8), (8008, 8013, 1, -8), (8025, 8031, 2, -8),
    (8040, 8047, 1, -8), (8072, 8079, 1, -8), (8088, 8095, 1, -8), (8104, 8111, 1, -8),
    (8120, 8121, 1, -8), (8122, 8123, 1, -74), (8124, 8124, 1, -9), (8136, 8139, 1, -86),
    (8140, 8140, 1, -9), (8152, 8153, 1, -8), (8154, 8155, 1, -100), (8168, 8169, 1, -8),
    (8170, 8171, 1, -112), (8172, 8172, 1, -7), (8184, 8185, 1, -128), (8186, 8187, 1, -126),
    (8188, 8188, 1, -9), (8486, 8486, 1, -7517), (8490, 8490, 1, -8383), (8491, 8491, 1, -8262),
    (8498, 8498, 1, 28), (8544, 8559, 1, 16), (8579, 8579, 1, 1), (9398, 9423, 1, 26),
    (11264, 11311, 1, 48), (11360, 11360, 1, 1), (11362, 11362, 1, -10743),
    (11363, 11363, 1, -3814), (11364, 11364, 1, -10727), (11367, 11371, 2, 1),
    (11373, 11373, 1, -10780), (11374, 11374, 1, -10749), (11375, 11375, 1, -10783),
    (11376, 11376, 1, -10782), (11378, 11378, 1, 1), (11381, 11381, 1, 1),
    (11390, 11391, 1, -10815), (11392, 11490, 2, 1), (11499, 11501, 2, 1), (11506, 11506, 1, 1),
    (42560, 42604, 2, 1), (42624, 42650, 2, 1), (42786, 42798, 2, 1), (42802, 42862, 2, 1),
    (42873, 42875, 2, 1), (42877, 42877, 1, -35332), (42878, 42886, 2, 1), (42891, 42891, 1, 1),
    (42893, 42893, 1, -42280), (42896, 42898, 2, 1), (42902, 42920, 2, 1),
    (42922, 42922, 1, -42308), (42923, 42923, 1, -42319), (42924, 42924, 1, -42315),
    (42925, 42925, 1, -42305), (42926, 42926, 1, -42308), (42928, 42928, 1, -42258),
    (42929, 42929, 1, -42282), (42930, 42930, 1, -42261), (42931, 42931, 1, 928),
    (42932, 42946, 2, 1), (42948, 42948, 1, -48), (42949, 42949, 1, -42307),
    (42950, 42950, 1, -35384), (42951, 42953, 2, 1), (42960, 42960, 1, 1), (42966, 42968, 2, 1),
    (42997, 42997, 1, 1), (65313, 65338, 1, 32), (66560, 66599, 1, 40), (66736, 66771, 1, 40),
    (66928, 66938, 1, 39), (66940, 66954, 1, 39), (66956, 66962, 1, 39), (66964, 66965, 1, 39),
    (68736, 68786, 1, 64), (71840, 71871, 1, 32), (93760, 93791, 1, 32), (125184, 125217, 1, 34)]"

definition toLowerRune :: "nat \<Rightarrow> nat" where
  "toLowerRune r =
     (if r < 128 then (if 65 \<le> r \<and> r \<le> 90 then r + 32 else r)
      else case find (\<lambda>(lo, hi, st, d). lo \<le> r \<and> r \<le> hi \<and> (r - lo) mod st = 0) lowerRanges of
        Some (lo, hi, st, d) \<Rightarrow> nat (int r + d)
      | None \<Rightarrow> r)"

definition lowerByte :: "char \<Rightarrow> char" where
  "lowerByte c = (if 65 \<le> b2n c \<and> b2n c \<le> 90 then n2b (b2n c + 32) else c)"

definition ToLower :: "string \<Rightarrow> string" where
  "ToLower s = (if isASCII s then map lowerByte s else ofRunes (map toLowerRune (runes s)))"

text \<open>
  \<^verbatim>\<open>strings.EqualFold\<close>.  The simple folding orbits that meet ASCII are the letter pairs,
  K with the Kelvin sign and S with the long s; \<open>foldRune\<close> picks one member of these
  orbits, which decides \<^verbatim>\<open>EqualFold\<close> whenever one argument is ASCII, as at every call.
\<close>

definition foldRune :: "nat \<Rightarrow> nat" where
  "foldRune r = (if 65 \<le> r \<and> r \<le> 90 then r + 32 else if r = 8490 then 107 else if r = 383 then 115 else r)"

definition EqualFold :: "string \<Rightarrow> string \<Rightarrow> bool" where
  "EqualFold s t \<longleftrightarrow> map foldRune (runes s) = map foldRune (runes t)"

subsection \<open>Searching, splitting and joining\<close>

definition HasPrefix :: "string \<Rightarrow> string \<Rightarrow> bool" where
  "HasPrefix s p \<longleftrightarrow> take (length p) s = p"

definition HasSuffix :: "string \<Rightarrow> string \<Rightarrow> bool" where
  "HasSuffix s p \<longleftrightarrow> length p \<le> length s \<and> drop (length s - length p) s = p"

fun strContains :: "string \<Rightarrow> string \<Rightarrow> bool" where
  "strContains [] p = (p = [])"
| "strContains (c # s) p = (HasPrefix (c # s) p \<or> strContains s p)"

definition CutPrefix :: "string \<Rightarrow> string \<Rightarrow> string option" where
  "CutPrefix s p = (if HasPrefix s p then Some (drop (length p) s) else None)"

text \<open>\<^verbatim>\<open>strings.Split(s, sep)\<close> for a one-byte separator: always at least one piece.\<close>

fun splitByte :: "char \<Rightarrow> string \<Rightarrow> string list" where
  "splitByte sep [] = [[]]"
| "splitByte sep (c # s) =
     (if c = sep then [] # splitByte sep s
      else case splitByte sep s of [] \<Rightarrow> [[c]] | p # ps \<Rightarrow> (c # p) # ps)"

fun strJoin :: "string list \<Rightarrow> string \<Rightarrow> string" where
  "strJoin [] sep = []"
| "strJoin [x] sep = x"
| "strJoin (x # y # xs) sep = x @ sep @ strJoin (y # xs) sep"

definition ContainsAny :: "string \<Rightarrow> string \<Rightarrow> bool" where
  "ContainsAny s cs \<longleftrightarrow> list_ex (\<lambda>c. c \<in> set cs) s"

subsection \<open>Decimal integers\<close>

definition digitChar :: "nat \<Rightarrow> char" where
  "digitChar d = n2b (48 + d)"

definition isDigit :: "char \<Rightarrow> bool" where
  "isDigit c \<longleftrightarrow> 48 \<le> b2n c \<and> b2n c \<le> 57"

fun natDigits :: "nat \<Rightarrow> string" where
  "natDigits n = (if n < 10 then [digitChar n] else natDigits (n div 10) @ [digitChar (n mod 10)])"

declare natDigits.simps [simp del]

text \<open>\<^verbatim>\<open>strconv.Itoa\<close> and \<^verbatim>\<open>strconv.FormatInt(x, 10)\<close>.\<close>

definition FormatInt :: "int \<Rightarrow> string" where
  "FormatInt x = (if x < 0 then ''-'' @ natDigits (nat (- x)) else natDigits (nat x))"

definition digitsValue :: "string \<Rightarrow> nat" where
  "digitsValue s = foldl (\<lambda>v c. v * 10 + (b2n c - 48)) 0 s"

text \<open>\<^verbatim>\<open>strconv.ParseInt(s, 10, 64)\<close>, and \<^verbatim>\<open>strconv.Atoi\<close> on a 64-bit platform; \<open>None\<close> is an error.\<close>

definition ParseInt :: "string \<Rightarrow> int option" where
  "ParseInt s =
     (let neg = HasPrefix s ''-'';
          body = (if neg \<or> HasPrefix s ''+'' then tl s else s)
      in if body = [] \<or> \<not> list_all isDigit body then None
         else let v = (if neg then - int (digitsValue body) else int (digitsValue body))
              in if in64 v then Some v else None)"

subsection \<open>Regular expressions\<close>

text \<open>
  The patterns of the program are sequences of character classes with repetition bounds and
  ASCII word boundaries.  \<open>rxAt\<close> says whether such a sequence matches a prefix of the
  remaining runes, \<open>prev\<close> being the rune before them; \<open>rxSearch\<close> tries every start, as
  \<^verbatim>\<open>MatchString\<close> of an unanchored pattern does.
\<close>

datatype rxitem = WordB | Cls "nat \<Rightarrow> bool" nat "nat option"

definition wordRune :: "nat \<Rightarrow> bool" where
  "wordRune r \<longleftrightarrow> (48 \<le> r \<and> r \<le> 57) \<or> (65 \<le> r \<and> r \<le> 90) \<or> (97 \<le> r \<and> r \<le> 122) \<or> r = 95"

definition wordDashRune :: "nat \<Rightarrow> bool" where
  "wordDashRune r \<longleftrightarrow> wordRune r \<or> r = 45"

definition atBoundary :: "nat option \<Rightarrow> nat list \<Rightarrow> bool" where
  "atBoundary prev s \<longleftrightarrow>
     (case prev of None \<Rightarrow> False | Some p \<Rightarrow> wordRune p) \<noteq> (case s of [] \<Rightarrow> False | c # _ \<Rightarrow> wordRune c)"

function rxAt :: "rxitem list \<Rightarrow> nat option \<Rightarrow> nat list \<Rightarrow> bool" where
  "rxAt [] prev s = True"
| "rxAt (WordB # is) prev s = (atBoundary prev s \<and> rxAt is prev s)"
| "rxAt (Cls P lo hi # is) prev s =
     ((lo = 0 \<and> rxAt is prev s) \<or>
      (hi \<noteq> Some 0 \<and> (case s of [] \<Rightarrow> False | c # t \<Rightarrow>
         P c \<and> rxAt (Cls P (lo - 1) (map_option (\<lambda>h. h - 1) hi) # is) (Some c) t)))"
  by pat_completeness auto
termination
  by (relation "measures [\<lambda>(is, prev, s). length s, \<lambda>(is, prev, s). length is]") auto

fun rxSearchFrom :: "rxitem list \<Rightarrow> nat option \<Rightarrow> nat list \<Rightarrow> bool" where
  "rxSearchFrom is prev [] = rxAt is prev []"
| "rxSearchFrom is prev (c # s) = (rxAt is prev (c # s) \<or> rxSearchFrom is (Some c) s)"

definition rxSearch :: "rxitem list \<Rightarrow> string \<Rightarrow> bool" where
  "rxSearch is s = rxSearchFrom is None (runes s)"

definition litRune :: "nat \<Rightarrow> rxitem" where
  "litRune r = Cls (\<lambda>c. c = r) 1 (Some 1)"

definition wordByte :: "char \<Rightarrow> bool" where
  "wordByte c = wordRune (b2n c)"

definition alnumByte :: "char \<Rightarrow> bool" where
  "alnumByte c \<longleftrightarrow> wordByte c \<and> c \<noteq> CHR ''_''"

text \<open>\<^verbatim>\<open>^[A-Za-z0-9][A-Za-z0-9._:-]{0,max}$\<close>, an anchored pattern over ASCII bytes.\<close>

definition boundedPattern :: "nat \<Rightarrow> string \<Rightarrow> bool" where
  "boundedPattern mx s \<longleftrightarrow> (case s of [] \<Rightarrow> False | c # rest \<Rightarrow>
     alnumByte c \<and> length rest \<le> mx \<and>
     list_all (\<lambda>b. alnumByte b \<or> b \<in> set ''._:-'') rest)"

text \<open>\<^verbatim>\<open>^[A-Za-z0-9_]+(?:\.[A-Za-z0-9_]+)*$\<close>: words separated by dots.\<close>

definition dottedWords :: "string \<Rightarrow> bool" where
  "dottedWords s \<longleftrightarrow> list_all (\<lambda>w. w \<noteq> [] \<and> list_all wordByte w) (splitByte (CHR ''.'') s)"

subsection \<open>Facts: trimming\<close>

lemma stripOne_None_iff: "stripOne ws s = None \<longleftrightarrow> (\<forall>w\<in>set ws. w \<noteq> [] \<longrightarrow> \<not> prefix w s)"
proof (induction ws)
  case Nil
  then show ?case by simp
next
  case (Cons w ws)
  have "take (length w) s = w \<longleftrightarrow> prefix w s"
    by (metis append_eq_conv_conj prefix_def take_is_prefix)
  with Cons show ?case by auto
qed

lemma stripOne_suffix: "stripOne ws s = Some t \<Longrightarrow> suffix t s"
  by (induction ws) (auto simp: suffix_drop split: if_splits)

lemma trimWith_fixed: "stripOne ws (trimWith ws s) = None"
  by (induction ws s rule: trimWith.induct) (subst trimWith.simps, auto split: option.splits)

lemma trimWith_suffix: "suffix (trimWith ws s) s"
proof (induction ws s rule: trimWith.induct)
  case (1 ws s)
  then show ?case
    by (subst trimWith.simps) (auto split: option.splits dest: stripOne_suffix intro: suffix_order.trans)
qed

lemma trimWith_id: "stripOne ws s = None \<Longrightarrow> trimWith ws s = s"
  by (subst trimWith.simps) simp

lemma TrimRightSpace_prefix: "prefix (TrimRightSpace s) s"
  using trimWith_suffix [of "map rev spaceSeqs" "rev s"]
  by (simp add: TrimRightSpace_def suffix_to_prefix)

lemma TrimLeftSpace_id_iff: "TrimLeftSpace s = s \<longleftrightarrow> stripOne spaceSeqs s = None"
  using trimWith_fixed [of spaceSeqs s] trimWith_id [of spaceSeqs s]
  by (auto simp: TrimLeftSpace_def)

lemma TrimSpace_left_fixed: "stripOne spaceSeqs (TrimSpace s) = None"
proof -
  have "stripOne spaceSeqs (TrimLeftSpace s) = None"
    by (simp add: TrimLeftSpace_def trimWith_fixed)
  then show ?thesis
    using TrimRightSpace_prefix [of "TrimLeftSpace s"]
    by (auto simp: TrimSpace_def stripOne_None_iff intro: prefix_order.trans)
qed

theorem TrimSpace_idem [simp]: "TrimSpace (TrimSpace s) = TrimSpace s"
proof -
  have "TrimLeftSpace (TrimSpace s) = TrimSpace s"
    by (simp add: TrimLeftSpace_id_iff TrimSpace_left_fixed)
  moreover have "TrimRightSpace (TrimSpace s) = TrimSpace s"
    by (simp add: TrimSpace_def TrimRightSpace_def trimWith_fixed trimWith_id)
  ultimately show ?thesis by (simp add: TrimSpace_def [of "TrimSpace s"])
qed

lemma length_TrimSpace: "length (TrimSpace s) \<le> length s"
proof -
  have "length (TrimSpace s) \<le> length (TrimLeftSpace s)"
    unfolding TrimSpace_def by (rule prefix_length_le [OF TrimRightSpace_prefix])
  also have "\<dots> \<le> length s"
    unfolding TrimLeftSpace_def by (rule suffix_length_le [OF trimWith_suffix])
  finally show ?thesis .
qed

lemma set_TrimSpace: "set (TrimSpace s) \<subseteq> set s"
proof -
  have "set (TrimSpace s) \<subseteq> set (TrimLeftSpace s)"
    unfolding TrimSpace_def by (rule set_mono_prefix [OF TrimRightSpace_prefix])
  also have "\<dots> \<subseteq> set s"
    unfolding TrimLeftSpace_def by (rule set_mono_suffix [OF trimWith_suffix])
  finally show ?thesis .
qed

text \<open>A string whose first and last bytes are visible ASCII is its own trimming.\<close>

definition graphic :: "char \<Rightarrow> bool" where
  "graphic c \<longleftrightarrow> 33 \<le> b2n c \<and> b2n c \<le> 126"

lemma spaceSeqs_ends:
  "w \<in> set spaceSeqs \<Longrightarrow> w \<noteq> [] \<and> \<not> graphic (hd w) \<and> \<not> graphic (last w)"
  by (auto simp: spaceSeqs_def n2b_def b2n_def graphic_def)

lemma TrimSpace_Nil [simp, go_eval]: "TrimSpace [] = []"
  using length_TrimSpace [of "[]"] by simp

lemma TrimSpace_graphic:
  assumes "s = [] \<or> (graphic (hd s) \<and> graphic (last s))"
  shows "TrimSpace s = s"
proof (cases "s = []")
  case False
  with assms have gh: "graphic (hd s)" and gl: "graphic (last s)" by auto
  have "\<not> prefix w s" if "w \<in> set spaceSeqs" for w
    using spaceSeqs_ends [OF that] gh by (auto dest: prefix_hd)
  then have "TrimLeftSpace s = s" by (simp add: TrimLeftSpace_id_iff stripOne_None_iff)
  moreover have "\<not> prefix (rev w) (rev s)" if "w \<in> set spaceSeqs" for w
    using spaceSeqs_ends [OF that] gl by (auto dest: prefix_hd simp: hd_rev)
  then have "TrimRightSpace s = s"
    by (simp add: TrimRightSpace_def trimWith_id stripOne_None_iff)
  ultimately show ?thesis by (simp add: TrimSpace_def)
qed simp

lemma TrimSpace_graphic_lit [go_eval]:
  "graphic c \<Longrightarrow> graphic (last (c # s)) \<Longrightarrow> TrimSpace (c # s) = c # s"
  by (rule TrimSpace_graphic) simp

lemmas byte_eval [go_eval] = b2n_def n2b_def graphic_def

text \<open>Evaluating \<open>ToLower\<close> on an ASCII literal.\<close>

lemma ToLower_lit [go_eval]: "isASCII (c # s) \<Longrightarrow> ToLower (c # s) = map lowerByte (c # s)"
  by (simp add: ToLower_def)

lemmas lower_eval [go_eval] = isASCII_def lowerByte_def

subsection \<open>Facts: searching\<close>

lemma HasPrefix_prefix: "HasPrefix s p \<longleftrightarrow> prefix p s"
  unfolding HasPrefix_def by (metis append_eq_conv_conj prefix_def take_is_prefix)

lemma strContains_sublist: "strContains s p \<longleftrightarrow> sublist p s"
proof (induction s)
  case Nil
  show ?case by simp
next
  case (Cons c s)
  then show ?case by (simp add: HasPrefix_prefix sublist_Cons_right)
qed

lemma HasPrefix_append [simp]: "HasPrefix (p @ s) p"
  by (simp add: HasPrefix_def)

lemma splitByte_no_sep: "sep \<notin> set s \<Longrightarrow> splitByte sep s = [s]"
  by (induction s) auto

lemma splitByte_append_sep: "sep \<notin> set a \<Longrightarrow> splitByte sep (a @ sep # s) = a # splitByte sep s"
  by (induction a) auto

lemma splitByte_strJoin:
  "xs \<noteq> [] \<Longrightarrow> \<forall>x\<in>set xs. sep \<notin> set x \<Longrightarrow> splitByte sep (strJoin xs [sep]) = xs"
  by (induction xs "[sep]" rule: strJoin.induct) (auto simp: splitByte_no_sep splitByte_append_sep)

lemma strJoin_inject:
  assumes "strJoin xs [sep] = strJoin ys [sep]" "length xs = length ys"
    "\<forall>x\<in>set xs. sep \<notin> set x" "\<forall>y\<in>set ys. sep \<notin> set y"
  shows "xs = ys"
proof (cases "xs = []")
  case True
  with assms(2) show ?thesis by simp
next
  case False
  with assms have "ys \<noteq> []" by auto
  with False assms show ?thesis by (metis splitByte_strJoin)
qed

subsection \<open>Facts: decimal integers\<close>

lemma b2n_n2b: "n < 256 \<Longrightarrow> b2n (n2b n) = n"
  by (simp add: b2n_def n2b_def)

text \<open>A leading blank of a literal is trimmed.\<close>

lemma stripOne_only:
  "[c] \<in> set ws \<Longrightarrow> list_all (\<lambda>w. w \<noteq> [] \<longrightarrow> hd w = c \<longrightarrow> w = [c]) ws \<Longrightarrow> stripOne ws (c # s) = Some s"
proof (induction ws)
  case (Cons w ws)
  then show ?case by (cases w) auto
qed simp

lemma TrimSpace_space [go_eval]: "TrimSpace (CHR '' '' # s) = TrimSpace s"
proof -
  have sp: "CHR '' '' = n2b 32" by code_simp
  have inj: "n2b a = n2b 32 \<longleftrightarrow> a = 32" if "a < 256" for a
    using that b2n_n2b [of a] b2n_n2b [of 32] by fastforce
  have "stripOne spaceSeqs (CHR '' '' # s) = Some s"
    unfolding sp by (rule stripOne_only) (simp_all add: spaceSeqs_def inj)
  then show ?thesis by (simp add: TrimSpace_def TrimLeftSpace_def trimWith.simps [of _ "CHR '' '' # s"])
qed

lemma digitChar_isDigit: "d < 10 \<Longrightarrow> isDigit (digitChar d) \<and> b2n (digitChar d) - 48 = d"
  by (simp add: digitChar_def isDigit_def b2n_n2b)

lemma natDigits_digits: "list_all isDigit (natDigits n)"
proof (induction n rule: natDigits.induct)
  case (1 n)
  then show ?case
    by (subst natDigits.simps) (auto simp: digitChar_isDigit)
qed

lemma natDigits_nonempty [simp]: "natDigits n \<noteq> []"
  by (subst natDigits.simps) simp

lemma digitsValue_snoc: "digitsValue (s @ [c]) = digitsValue s * 10 + (b2n c - 48)"
  by (simp add: digitsValue_def)

lemma digitsValue_natDigits [simp]: "digitsValue (natDigits n) = n"
proof (induction n rule: natDigits.induct)
  case (1 n)
  show ?case
  proof (cases "n < 10")
    case True
    then show ?thesis
      by (subst natDigits.simps) (simp add: digitsValue_def digitChar_isDigit)
  next
    case False
    with 1 show ?thesis
      by (subst natDigits.simps) (simp add: digitsValue_snoc digitChar_isDigit)
  qed
qed

lemma isDigit_not: "isDigit c \<Longrightarrow> c \<noteq> CHR ''-'' \<and> c \<noteq> CHR ''+'' \<and> c \<noteq> CHR 0x0A"
  by (auto simp: isDigit_def b2n_def)

lemma natDigits_hd_digit: "isDigit (hd (natDigits n))"
  using natDigits_digits [of n] by (cases "natDigits n") auto

lemma natDigits_no_sign: "\<not> HasPrefix (natDigits n) ''-'' \<and> \<not> HasPrefix (natDigits n) ''+''"
  using natDigits_hd_digit [of n]
  by (cases "natDigits n") (auto simp: HasPrefix_def dest: isDigit_not)

theorem ParseInt_FormatInt: "in64 x \<Longrightarrow> ParseInt (FormatInt x) = Some x"
  using natDigits_no_sign [of "nat x"]
  by (simp add: ParseInt_def FormatInt_def natDigits_digits Let_def HasPrefix_def)

lemma FormatInt_inject: "FormatInt x = FormatInt y \<longleftrightarrow> x = y"
proof
  assume eq: "FormatInt x = FormatInt y"
  have "x < 0 \<longleftrightarrow> y < 0"
    using eq natDigits_no_sign [of "nat x"] natDigits_no_sign [of "nat y"]
    by (auto simp: FormatInt_def HasPrefix_def split: if_splits dest: arg_cong [of _ _ "take 1"])
  then show "x = y"
    using eq by (auto simp: FormatInt_def split: if_splits dest: arg_cong [of _ _ digitsValue])
qed simp

lemma FormatInt_no_newline: "CHR 0x0A \<notin> set (FormatInt x)"
  using natDigits_digits [of "nat x"] natDigits_digits [of "nat (- x)"]
  by (auto simp: FormatInt_def list_all_iff dest: isDigit_not)

subsection \<open>Facts: bytes and runes\<close>

lemma decodeN_high:
  assumes "128 \<le> b0"
  shows "b \<in> set (take (snd (decode2 b0 rest)) (b0 # rest)) \<Longrightarrow> 128 \<le> b"
    and "b \<in> set (take (snd (decode3 b0 rest)) (b0 # rest)) \<Longrightarrow> 128 \<le> b"
    and "b \<in> set (take (snd (decode4 b0 rest)) (b0 # rest)) \<Longrightarrow> 128 \<le> b"
proof -
  have w1: "x \<in> set (take (Suc 0) (b0 # rest)) \<Longrightarrow> 128 \<le> x" for x using assms by simp
  show "b \<in> set (take (snd (decode2 b0 rest)) (b0 # rest)) \<Longrightarrow> 128 \<le> b"
    using assms by (cases rest) (auto simp: decode2_def cont_def numeral_2_eq_2 split: if_splits)
  show "128 \<le> b" if b: "b \<in> set (take (snd (decode3 b0 rest)) (b0 # rest))"
  proof (cases "snd (decode3 b0 rest) = Suc 0")
    case False
    then obtain b1 b2 r where "rest = b1 # b2 # r" "128 \<le> b1" "128 \<le> b2" "snd (decode3 b0 rest) = 3"
      by (auto simp: decode3_def cont_def split: list.splits if_splits)
    then show ?thesis using b assms by (auto simp: numeral_3_eq_3)
  qed (use b w1 in simp)
  show "128 \<le> b" if b: "b \<in> set (take (snd (decode4 b0 rest)) (b0 # rest))"
  proof (cases "snd (decode4 b0 rest) = Suc 0")
    case False
    then obtain b1 b2 b3 r where "rest = b1 # b2 # b3 # r" "128 \<le> b1" "128 \<le> b2" "128 \<le> b3" "snd (decode4 b0 rest) = 4"
      by (auto simp: decode4_def cont_def split: list.splits if_splits)
    then show ?thesis using b assms by (auto simp: numeral_eq_Suc)
  qed (use b w1 in simp)
qed

lemma decodeRune_ascii:
  assumes "b \<in> set (take (snd (decodeRune bs)) bs)" "b < 128"
  shows "fst (decodeRune bs) = b"
proof (cases bs)
  case (Cons b0 rest)
  show ?thesis
  proof (cases "b0 < 128")
    case True
    then show ?thesis using assms Cons by simp
  next
    case False
    then have hi: "128 \<le> b0" by simp
    have "128 \<le> b" using assms(1) Cons hi by (auto dest: decodeN_high [OF hi] split: if_splits)
    then show ?thesis using assms(2) by simp
  qed
qed (use assms in simp)

lemma runesB_ascii: "b \<in> set bs \<Longrightarrow> b < 128 \<Longrightarrow> b \<in> set (runesB bs)"
proof (induction bs rule: runesB.induct)
  case (1 bs)
  then have ne: "bs \<noteq> []" by auto
  have "b \<in> set (take (snd (decodeRune bs)) bs) \<or> b \<in> set (drop (snd (decodeRune bs)) bs)"
    using 1(2) by (metis append_take_drop_id set_append Un_iff)
  then show ?case
  proof
    assume "b \<in> set (take (snd (decodeRune bs)) bs)"
    then show ?thesis using decodeRune_ascii [of b bs] 1(3) ne by (subst runesB.simps) auto
  next
    assume "b \<in> set (drop (snd (decodeRune bs)) bs)"
    then show ?thesis using 1 ne by (subst runesB.simps) auto
  qed
qed

lemma runes_ascii: "c \<in> set s \<Longrightarrow> b2n c < 128 \<Longrightarrow> b2n c \<in> set (runes s)"
  by (simp add: runes_def runesB_ascii)

lemma boundedPattern_no_newline:
  assumes "boundedPattern n s"
  shows "CHR 0x0A \<notin> set s"
proof -
  have "\<not> alnumByte (CHR 0x0A)" by (simp add: alnumByte_def wordByte_def wordRune_def b2n_def)
  moreover have "CHR 0x0A \<notin> set ''._:-''" by simp
  ultimately show ?thesis using assms by (cases s) (auto simp: boundedPattern_def list_all_iff)
qed

lemma boundedPattern_graphic: "boundedPattern n s \<Longrightarrow> c \<in> set s \<Longrightarrow> graphic c"
proof -
  have "alnumByte b \<Longrightarrow> graphic b" for b by (auto simp: alnumByte_def wordByte_def wordRune_def graphic_def)
  moreover have "b \<in> set ''._:-'' \<Longrightarrow> graphic b" for b by (auto simp: graphic_def b2n_def)
  ultimately have ok: "alnumByte b \<or> b \<in> set ''._:-'' \<Longrightarrow> graphic b" for b by blast
  assume bp: "boundedPattern n s" and c: "c \<in> set s"
  show ?thesis
  proof (rule ok, cases s)
    case (Cons d ds)
    show "alnumByte c \<or> c \<in> set ''._:-''"
    proof (cases "c = d")
      case True
      then have "alnumByte c" using bp Cons by (simp only: boundedPattern_def list.case)
      then show ?thesis ..
    next
      case False
      then have "c \<in> set ds" using c Cons by simp
      moreover have "list_all (\<lambda>b. alnumByte b \<or> b \<in> set ''._:-'') ds"
        using bp Cons by (simp only: boundedPattern_def list.case)
      ultimately show ?thesis by (simp only: list_all_iff)
    qed
  qed (use c in simp)
qed

lemma boundedPattern_TrimSpace: "boundedPattern n s \<Longrightarrow> TrimSpace s = s"
  by (rule TrimSpace_graphic, cases "s = []") (simp_all add: boundedPattern_graphic)

lemma boundedPattern_nonempty: "boundedPattern n s \<Longrightarrow> s \<noteq> []"
  by (auto simp: boundedPattern_def)

end
