(* ===== verification/Go_Values.thy ===== *)
theory Go_Values
  imports Go_Strings Complex_Main "HOL-Library.Log_Nat"
begin

text \<open>
  Go's \<^verbatim>\<open>float64\<close> and \<^verbatim>\<open>any\<close> values, and the record \<open>goenv\<close> of what a run takes from outside
  the program: environment variables, number parsing and printing of \<^verbatim>\<open>strconv\<close>, the SHA-256
  digest, URL parsing and mail address parsing.
\<close>

subsection \<open>float64\<close>

text \<open>
  A \<^verbatim>\<open>float64\<close> is NaN, an infinity or a finite number.  Comparisons follow IEEE 754: every
  ordering with NaN is false.  The sign of zero is not kept: it is visible only in printed
  text, and printing is a parameter.
\<close>

datatype float64 = NaN | PosInf | NegInf | Fin rat

fun fle :: "float64 \<Rightarrow> float64 \<Rightarrow> bool" where
  "fle NaN y = False"
| "fle x NaN = False"
| "fle NegInf y = True"
| "fle x PosInf = True"
| "fle PosInf y = False"
| "fle x NegInf = False"
| "fle (Fin a) (Fin b) = (a \<le> b)"

definition flt :: "float64 \<Rightarrow> float64 \<Rightarrow> bool" where
  "flt x y \<longleftrightarrow> fle x y \<and> \<not> fle y x"

definition fge :: "float64 \<Rightarrow> float64 \<Rightarrow> bool" where
  "fge x y = fle y x"

definition fgt :: "float64 \<Rightarrow> float64 \<Rightarrow> bool" where
  "fgt x y = flt y x"

definition feq :: "float64 \<Rightarrow> float64 \<Rightarrow> bool" where
  "feq x y \<longleftrightarrow> fle x y \<and> fle y x"

text \<open>Round to nearest, ties to even, with 53 bits of precision and the exponent range of binary64.\<close>

definition ilog2 :: "rat \<Rightarrow> int" where
  "ilog2 x = (let (p, q) = quotient_of x; e = bitlen p - bitlen q
              in if 2 powi e \<le> x then e else e - 1)"

definition roundEven :: "rat \<Rightarrow> int" where
  "roundEven r = (let f = \<lfloor>r\<rfloor>; d = r - of_int f
     in if d < 1 / 2 then f else if 1 / 2 < d then f + 1 else if even f then f else f + 1)"

definition ulp64 :: "rat \<Rightarrow> rat" where
  "ulp64 x = 2 powi (max (ilog2 \<bar>x\<bar>) (- 1022) - 52)"

definition round64 :: "rat \<Rightarrow> float64" where
  "round64 x =
     (if x = 0 then Fin 0
      else let y = of_int (roundEven (x / ulp64 x)) * ulp64 x
           in if 2 powi 1024 \<le> y then PosInf else if y \<le> - (2 powi 1024) then NegInf else Fin y)"

fun fsub :: "float64 \<Rightarrow> float64 \<Rightarrow> float64" where
  "fsub NaN y = NaN"
| "fsub x NaN = NaN"
| "fsub PosInf PosInf = NaN"
| "fsub NegInf NegInf = NaN"
| "fsub PosInf y = PosInf"
| "fsub NegInf y = NegInf"
| "fsub x PosInf = NegInf"
| "fsub x NegInf = PosInf"
| "fsub (Fin a) (Fin b) = round64 (a - b)"

subsection \<open>any\<close>

text \<open>
  A value of static type \<^verbatim>\<open>any\<close>, by dynamic type.  JSON decoding produces \<open>ANil\<close>, \<open>ABool\<close>,
  \<open>AFloat64\<close>, \<open>AStr\<close>, \<open>AList\<close> (\<^verbatim>\<open>[]any\<close>) and \<open>AMap\<close> (\<^verbatim>\<open>map[string]any\<close>, in the order of
  iteration); Go code also stores integers.  \<open>AOther\<close> is any other dynamic type.
\<close>

datatype int_kind = KInt | KInt8 | KInt16 | KInt32 | KInt64
  | KUint | KUint8 | KUint16 | KUint32 | KUint64

datatype any =
    ANil
  | ABool bool
  | AInt int_kind int
  | AFloat32 float64
  | AFloat64 float64
  | AStr string
  | AList "any list"
  | AMap "(string \<times> any) list"
  | AOther

text \<open>A \<^verbatim>\<open>map[string]any\<close> variable: \<open>None\<close> is the nil map.\<close>

type_synonym attrs = "(string \<times> any) list option"

definition attrGet :: "attrs \<Rightarrow> string \<Rightarrow> any option" where
  "attrGet m k = (case m of None \<Rightarrow> None | Some al \<Rightarrow> map_of al k)"

subsection \<open>What a run takes from outside\<close>

text \<open>
  \<^verbatim>\<open>url.Parse\<close> yields the parts of a URL the program reads.
\<close>

record url =
  urlScheme :: string
  urlHost :: string
  urlHostname :: string
  urlUser :: "string option"
  urlPath :: string
  urlRawQuery :: string
  urlFragment :: string

record goenv =
  getenv :: "string \<Rightarrow> string"
  parseFloat :: "string \<Rightarrow> float64 option"
  formatFloat :: "float64 \<Rightarrow> string"
  sha256 :: "string \<Rightarrow> string"
  urlParse :: "string \<Rightarrow> url option"
  parseAddress :: "string \<Rightarrow> string option"

text \<open>\<^verbatim>\<open>hex.EncodeToString\<close> (and \<^verbatim>\<open>%x\<close>) of a byte string.\<close>

definition hexDigit :: "nat \<Rightarrow> char" where
  "hexDigit d = (if d < 10 then n2b (48 + d) else n2b (87 + d))"

definition hexEncode :: "string \<Rightarrow> string" where
  "hexEncode s = concat (map (\<lambda>c. [hexDigit (b2n c div 16), hexDigit (b2n c mod 16)]) s)"

text \<open>
  Non-ASCII string literals of the source, transcribed in ASCII: between two tildes the UTF-8
  bytes are written in hexadecimal, elsewhere the text stands for itself.
\<close>

definition hexVal :: "char \<Rightarrow> nat" where
  "hexVal c = (if b2n c < 58 then b2n c - 48 else b2n c - 87)"

fun jaDecode :: "bool \<Rightarrow> string \<Rightarrow> string" where
  "jaDecode h [] = []"
| "jaDecode h (c # cs) =
     (if c = CHR ''~'' then jaDecode (\<not> h) cs
      else if h then (case cs of [] \<Rightarrow> [] | d # ds \<Rightarrow> n2b (16 * hexVal c + hexVal d) # jaDecode True ds)
      else c # jaDecode False cs)"

definition ja :: "string \<Rightarrow> string" where
  "ja s = jaDecode False s"

text \<open>A SHA-256 digest has 32 bytes.\<close>

definition sha256Sized :: "goenv \<Rightarrow> bool" where
  "sha256Sized env \<longleftrightarrow> (\<forall>s. length (sha256 env s) = 32)"

text \<open>
  A concrete environment with the given variables, on which witnesses evaluate: decimal
  integers and the text NaN parse as numbers, and the digest pads or cuts to 32 bytes.
\<close>

definition concreteEnv :: "(string \<times> string) list \<Rightarrow> goenv" where
  "concreteEnv vars = \<lparr>
     getenv = (\<lambda>k. case map_of vars k of None \<Rightarrow> [] | Some v \<Rightarrow> v),
     parseFloat = (\<lambda>s. if s = ''NaN'' then Some NaN else map_option (\<lambda>n. Fin (of_int n)) (ParseInt s)),
     formatFloat = (\<lambda>x. case x of Fin r \<Rightarrow> FormatInt \<lfloor>r\<rfloor> | _ \<Rightarrow> ''NaN''),
     sha256 = (\<lambda>s. take 32 (s @ replicate 32 (CHR ''0''))),
     urlParse = (\<lambda>_. None),
     parseAddress = Some\<rparr>"

subsection \<open>Facts\<close>

lemma concreteEnv_sha256: "sha256Sized (concreteEnv vars)"
  by (auto simp: sha256Sized_def concreteEnv_def min_def)

lemma fle_refl_iff: "fle x x \<longleftrightarrow> x \<noteq> NaN"
  by (cases x) auto

lemma fle_NaN [simp]: "\<not> fle x NaN"
  by (cases x) auto

lemma flt_simps [simp]: "flt (Fin a) (Fin b) \<longleftrightarrow> a < b" "\<not> flt NaN y" "\<not> flt x NaN"
  by (auto simp: flt_def)

lemma fge_simps [simp]: "fge (Fin a) (Fin b) \<longleftrightarrow> b \<le> a" "\<not> fge NaN y" "\<not> fge x NaN"
  by (simp_all add: fge_def)

lemma fgt_simps [simp]: "fgt (Fin a) (Fin b) \<longleftrightarrow> b < a" "\<not> fgt NaN y" "\<not> fgt x NaN"
  by (auto simp: fgt_def)

lemma feq_simps [simp]: "feq (Fin a) (Fin b) \<longleftrightarrow> a = b" "\<not> feq NaN y" "\<not> feq x NaN"
  by (auto simp: feq_def)

text \<open>The two sides of a comparison exclude each other, also for NaN and the infinities.\<close>

lemma cmp_excl:
  "fgt x y \<Longrightarrow> \<not> fle x y" "flt x y \<Longrightarrow> \<not> fge x y" "fge x y \<Longrightarrow> \<not> flt x y" "fle x y \<Longrightarrow> \<not> fgt x y"
  "feq x y \<Longrightarrow> \<not> fgt x y" "fgt x y \<Longrightarrow> \<not> feq x y"
  by (cases x; cases y; auto simp: flt_def fge_def fgt_def feq_def)+

lemma roundEven_of_int [simp]: "roundEven (of_int n) = n"
  by (simp add: roundEven_def)

lemma roundEven_nonneg: "0 \<le> r \<Longrightarrow> 0 \<le> roundEven r"
  by (auto simp: roundEven_def Let_def)

lemma ulp64_pos: "0 < ulp64 x"
  by (simp add: ulp64_def)

lemma round64_nonneg: "0 \<le> x \<Longrightarrow> fge (round64 x) (Fin 0)"
proof -
  assume x: "0 \<le> x"
  have "0 \<le> of_int (roundEven (x / ulp64 x)) * ulp64 x"
    using x ulp64_pos [of x] by (intro mult_nonneg_nonneg) (simp_all add: roundEven_nonneg)
  moreover have "- (2 powi 1024) < (0::rat)" by simp
  ultimately show ?thesis
    unfolding round64_def by (auto simp: Let_def fge_def)
qed

lemma ilog2_of_int_le:
  assumes "0 < n" "n < 2 ^ k"
  shows "ilog2 (of_int n) \<le> int k - 1"
proof -
  have "bitlen n \<le> int k"
    using assms by (simp add: bitlen_le_iff_power)
  moreover have "bitlen 1 = (1::int)" by (simp add: bitlen_def floorlog_def)
  ultimately show ?thesis by (simp add: ilog2_def quotient_of_int Let_def)
qed

lemma round64_exact_int:
  assumes "\<bar>n\<bar> < 2 ^ 53"
  shows "round64 (of_int n) = Fin (of_int n)"
proof (cases "n = 0")
  case True
  then show ?thesis by (simp add: round64_def)
next
  case False
  define e where "e = max (ilog2 \<bar>of_int n\<bar>) (- 1022) - 52"
  have "ilog2 (of_int \<bar>n\<bar>) \<le> int 53 - 1"
    using False assms by (intro ilog2_of_int_le) auto
  then have e0: "e \<le> 0" by (simp add: e_def)
  have u: "ulp64 (of_int n) = 2 powi e" by (simp add: ulp64_def e_def)
  have "(of_int n :: rat) / 2 powi e = of_int (n * 2 ^ nat (- e))"
    using e0 by (simp add: power_int_def field_simps)
  then have "of_int (roundEven (of_int n / 2 powi e)) = (of_int n :: rat) / 2 powi e"
    by (metis roundEven_of_int)
  then have y: "of_int (roundEven (of_int n / ulp64 (of_int n))) * ulp64 (of_int n) = (of_int n :: rat)"
    by (simp add: u)
  have "(2::rat) powi 1024 = of_int (2 ^ 1024)" by simp
  moreover have "\<bar>n\<bar> < 2 ^ 1024" using assms by simp
  ultimately have "\<not> (2::rat) powi 1024 \<le> of_int n" "\<not> of_int n \<le> - ((2::rat) powi 1024)"
    by linarith+
  with False y show ?thesis by (simp add: round64_def Let_def)
qed

lemma length_hexEncode [simp]: "length (hexEncode s) = 2 * length s"
  by (induction s) (auto simp: hexEncode_def)

lemma hexDigit_hex: "d < 16 \<Longrightarrow> b2n (hexDigit d) \<in> {48..57} \<union> {97..102}"
  by (auto simp: hexDigit_def b2n_n2b)

lemma b2n_bound: "b2n c < 256"
  by (simp add: b2n_def)

lemma hexEncode_hex: "c \<in> set (hexEncode s) \<Longrightarrow> b2n c \<in> {48..57} \<union> {97..102}"
proof -
  assume "c \<in> set (hexEncode s)"
  then obtain x where "c = hexDigit (b2n x div 16) \<or> c = hexDigit (b2n x mod 16)"
    by (auto simp: hexEncode_def)
  moreover have "b2n x div 16 < 16" "b2n x mod 16 < 16"
    using b2n_bound [of x] by (auto simp: less_mult_imp_div_less)
  ultimately show ?thesis using hexDigit_hex by blast
qed

lemma hexVal_hexDigit: "d < 16 \<Longrightarrow> hexVal (hexDigit d) = d"
  by (simp add: hexVal_def hexDigit_def b2n_n2b)

lemma b2n_inject: "b2n c = b2n d \<longleftrightarrow> c = d"
  by (simp add: b2n_def)

text \<open>Hexadecimal encoding loses nothing, so identifiers differ when their random bytes do.\<close>

lemma hexEncode_inject: "hexEncode s = hexEncode s' \<longleftrightarrow> s = s'"
proof (induction s arbitrary: s')
  case Nil
  then show ?case by (cases s') (auto simp: hexEncode_def)
next
  case (Cons c s)
  show ?case
  proof (cases s')
    case (Cons d ds)
    have "hexDigit (b2n c div 16) = hexDigit (b2n d div 16) \<and> hexDigit (b2n c mod 16) = hexDigit (b2n d mod 16) \<longleftrightarrow> c = d"
    proof
      assume "hexDigit (b2n c div 16) = hexDigit (b2n d div 16) \<and> hexDigit (b2n c mod 16) = hexDigit (b2n d mod 16)"
      moreover have "b2n x div 16 < 16" for x using b2n_bound [of x] by (simp add: less_mult_imp_div_less)
      ultimately have "b2n c div 16 = b2n d div 16" "b2n c mod 16 = b2n d mod 16"
        by (metis hexVal_hexDigit, metis hexVal_hexDigit mod_less_divisor zero_less_numeral)
      then have "b2n c = b2n d" by (metis div_mult_mod_eq)
      then show "c = d" by (simp add: b2n_inject)
    qed simp
    with Cons Cons.IH [of ds] show ?thesis by (auto simp: hexEncode_def)
  qed (simp add: hexEncode_def)
qed

end
