(* ===== verification/Detection.thy ===== *)
theory Detection
  imports Go_Values
begin

text \<open>
  Package \<^verbatim>\<open>internal/detection\<close>: the rules that turn one signal into incidents and
  recoveries.  The thresholds come from the environment (\<open>thresholdsFromEnv\<close>).  The lemmas
  at the end characterise when a rule is raised and when it is recovered, for every
  threshold and value including NaN.
\<close>

record detSignal =
  sType :: string
  sName :: string
  sValue :: float64
  sStreamID :: string
  sLive :: bool
  sStatus :: string
  sAttributes :: attrs

record detIncident =
  diRule :: string
  diSeverity :: string
  diSummaryJA :: string

record recovery =
  rcRule :: string
  rcReason :: string

record evaluation =
  evIncidents :: "detIncident list"
  evRecoveries :: "recovery list"

record thresholds =
  HeartbeatAgeSec :: float64
  DiskFreeBytes :: float64
  RemuxSlowMS :: float64
  GDriveUploadRetryCount :: float64
  PacketLossPercent :: float64
  RTMPSReconnectCount :: float64
  EncoderLowFPS :: float64
  EncoderLowBitrateKbps :: float64
  EncoderDroppedFramesTotal :: float64
  AudioSilenceSec :: float64
  AudioClippingTotal :: float64
  DiscordAudioForwardStaleSec :: float64
  DiscordAudioForwardErrors :: float64
  DiscordReconnectCount :: float64
  DiscordVoiceDisconnectCount :: float64
  MediaInputTimeoutSec :: float64
  StreamStartTimeoutMS :: float64
  StreamStopTimeoutMS :: float64

definition envFloat :: "goenv \<Rightarrow> string \<Rightarrow> float64 \<Rightarrow> float64" where
  "envFloat env key fallback =
     (let raw = TrimSpace (getenv env key) in
      if raw = [] then fallback
      else case parseFloat env raw of
        None \<Rightarrow> fallback
      | Some value \<Rightarrow> if fle value (Fin 0) then fallback else value)"

definition thresholdsFromEnv :: "goenv \<Rightarrow> thresholds" where
  "thresholdsFromEnv env = \<lparr>
      HeartbeatAgeSec = envFloat env ''OBSERVABILITY_THRESHOLD_HEARTBEAT_AGE_SEC'' (Fin 30),
      DiskFreeBytes = envFloat env ''OBSERVABILITY_THRESHOLD_DISK_FREE_BYTES'' (Fin (10 * 1024 * 1024 * 1024)),
      RemuxSlowMS = envFloat env ''OBSERVABILITY_THRESHOLD_REMUX_SLOW_MS'' (Fin 300000),
      GDriveUploadRetryCount = envFloat env ''OBSERVABILITY_THRESHOLD_GDRIVE_UPLOAD_RETRY_COUNT'' (Fin 3),
      PacketLossPercent = envFloat env ''OBSERVABILITY_THRESHOLD_PACKET_LOSS_PERCENT'' (Fin 5),
      RTMPSReconnectCount = envFloat env ''OBSERVABILITY_THRESHOLD_RTMPS_RECONNECT_COUNT'' (Fin 3),
      EncoderLowFPS = envFloat env ''OBSERVABILITY_THRESHOLD_ENCODER_LOW_FPS'' (Fin 45),
      EncoderLowBitrateKbps = envFloat env ''OBSERVABILITY_THRESHOLD_ENCODER_LOW_BITRATE_KBPS'' (Fin 3000),
      EncoderDroppedFramesTotal = envFloat env ''OBSERVABILITY_THRESHOLD_ENCODER_DROPPED_FRAMES_TOTAL'' (Fin 30),
      AudioSilenceSec = envFloat env ''OBSERVABILITY_THRESHOLD_AUDIO_SILENCE_SEC'' (Fin 5),
      AudioClippingTotal = envFloat env ''OBSERVABILITY_THRESHOLD_AUDIO_CLIPPING_TOTAL'' (Fin 10),
      DiscordAudioForwardStaleSec = envFloat env ''OBSERVABILITY_THRESHOLD_DISCORD_AUDIO_FORWARD_STALE_SEC'' (Fin 5),
      DiscordAudioForwardErrors = envFloat env ''OBSERVABILITY_THRESHOLD_DISCORD_AUDIO_FORWARD_ERRORS_TOTAL'' (Fin 3),
      DiscordReconnectCount = envFloat env ''OBSERVABILITY_THRESHOLD_DISCORD_RECONNECT_COUNT'' (Fin 3),
      DiscordVoiceDisconnectCount = envFloat env ''OBSERVABILITY_THRESHOLD_DISCORD_VOICE_DISCONNECT_COUNT'' (Fin 1),
      MediaInputTimeoutSec = envFloat env ''OBSERVABILITY_THRESHOLD_MEDIA_INPUT_TIMEOUT_SEC'' (Fin 5),
      StreamStartTimeoutMS = envFloat env ''OBSERVABILITY_THRESHOLD_STREAM_START_TIMEOUT_MS'' (Fin 120000),
      StreamStopTimeoutMS = envFloat env ''OBSERVABILITY_THRESHOLD_STREAM_STOP_TIMEOUT_MS'' (Fin 120000)\<rparr>"

text \<open>\<^verbatim>\<open>attrFloat\<close>: \<open>None\<close> is the second result being false.\<close>

definition attrFloat :: "goenv \<Rightarrow> attrs \<Rightarrow> string \<Rightarrow> float64 option" where
  "attrFloat env attributes key =
     (case attrGet attributes key of
        Some (AFloat64 x) \<Rightarrow> Some x
      | Some (AFloat32 x) \<Rightarrow> Some x
      | Some (AInt KInt n) \<Rightarrow> Some (round64 (of_int n))
      | Some (AInt KInt64 n) \<Rightarrow> Some (round64 (of_int n))
      | Some (AStr t) \<Rightarrow> parseFloat env (TrimSpace t)
      | _ \<Rightarrow> None)"

definition cumulativeCounterValue :: "goenv \<Rightarrow> detSignal \<Rightarrow> float64" where
  "cumulativeCounterValue env s =
     (case attrFloat env (sAttributes s) ''observability.counter_delta'' of
        Some delta \<Rightarrow> if flt delta (Fin 0) then Fin 0 else delta
      | None \<Rightarrow> sValue s)"

text \<open>The Japanese summaries of the rules.\<close>

definition sum_heartbeat_timeout :: string where
  "sum_heartbeat_timeout = ja ''~e382b5e383bce38393e382b9e381ae~ heartbeat ~e3818ce98185e5bbb6e38197e381a6e38184e381bee38199e38082~''"

definition sum_encoder_process_exited :: string where
  "sum_encoder_process_exited = ja ''~e9858de4bfa1e4b8ade381ab~ Encoder process ~e3818ce5819ce6ada2e38197e381bee38197e3819fe38082~''"

definition sum_encoder_process_exited_2 :: string where
  "sum_encoder_process_exited_2 = ja ''Encoder process ~e3818ce795b0e5b8b8e7b582e4ba86e38197e381bee38197e3819fe38082~''"

definition sum_recorder_not_writing :: string where
  "sum_recorder_not_writing = ja ''~e98cb2e794bbe38395e382a1e382a4e383abe381b8e381aee69bb8e3818de8bebce381bfe3818ce5819ce6ada2e38197e381a6e38184e381bee38199e38082~''"

definition sum_recorder_not_writing_2 :: string where
  "sum_recorder_not_writing_2 = ja ''~e98cb2e794bbe38395e382a1e382a4e383abe382b5e382a4e382bae3818ce5a297e38188e381a6e38184e381bee3819be38293e38082~''"

definition sum_disk_low :: string where
  "sum_disk_low = ja ''~e98cb2e794bbe58588e381bee3819fe381af~ host ~e381aee38387e382a3e382b9e382afe7a9bae3818de5aeb9e9878fe3818ce4b88de8b6b3e38197e381a6e38184e381bee38199e38082~''"

definition sum_archive_package_failed :: string where
  "sum_archive_package_failed = ja ''~e382a2e383bce382abe382a4e38396e381ae~ package ~e587a6e79086e381abe5a4b1e69597e38197e381bee38197e3819fe38082~''"

definition sum_archive_remux_slow :: string where
  "sum_archive_remux_slow = ja ''~e382a2e383bce382abe382a4e38396e381ae~ remux ~e587a6e79086e381abe69982e99693e3818ce3818be3818be381a3e381a6e38184e381bee38199e38082~''"

definition sum_gdrive_upload_failed :: string where
  "sum_gdrive_upload_failed = ja ''Google Drive ~e381b8e381ae~ archive upload ~e381abe5a4b1e69597e38197e381bee38197e3819fe38082~''"

definition sum_gdrive_upload_retry_high :: string where
  "sum_gdrive_upload_retry_high = ja ''Google Drive upload ~e381ae~ retry ~e59b9ee695b0e3818ce5a297e38188e381a6e38184e381bee38199e38082~''"

definition sum_high_packet_loss :: string where
  "sum_high_packet_loss = ja ''~e383a1e38387e382a3e382a2e4bc9de98081e381ae~ packet loss ~e3818ce9ab98e3818fe381aae381a3e381a6e38184e381bee38199e38082~''"

definition sum_rtmps_reconnect_loop :: string where
  "sum_rtmps_reconnect_loop = ja ''RTMPS ~e381aee5868de68ea5e7b69ae3818ce7b9b0e3828ae8bf94e38195e3828ce381a6e38184e381bee38199e38082~''"

definition sum_encoder_low_fps :: string where
  "sum_encoder_low_fps = ja ''Encoder ~e381aee587bae58a9b~ FPS ~e3818ce4bd8ee4b88be38197e381a6e38184e381bee38199e38082~''"

definition sum_encoder_bitrate_low :: string where
  "sum_encoder_bitrate_low = ja ''Encoder ~e381aee587bae58a9b~ bitrate ~e3818ce4bd8ee4b88be38197e381a6e38184e381bee38199e38082~''"

definition sum_encoder_dropped_frames_high :: string where
  "sum_encoder_dropped_frames_high = ja ''Encoder ~e381ae~ dropped frames ~e3818ce5a297e38188e381a6e38184e381bee38199e38082~''"

definition sum_audio_silence :: string where
  "sum_audio_silence = ja ''~e9858de4bfa1e99fb3e5a3b0e381aee784a1e99fb3e78ab6e6858be3818ce7b69ae38184e381a6e38184e381bee38199e38082~''"

definition sum_audio_clipping :: string where
  "sum_audio_clipping = ja ''~e9858de4bfa1e99fb3e5a3b0e381ae~ clipping ~e3818ce5a297e38188e381a6e38184e381bee38199e38082~''"

definition sum_discord_audio_not_receiving :: string where
  "sum_discord_audio_not_receiving = ja ''Discord Bot ~e3818ce99fb3e5a3b0~ packet ~e38292e58f97e4bfa1e381a7e3818de381a6e38184e381bee3819be38293e38082~''"

definition sum_discord_audio_forward_inactive :: string where
  "sum_discord_audio_forward_inactive = ja ''Discord ~e99fb3e5a3b0~ packet ~e381ae~ Encoder/Recorder ~e8bba2e98081e3818ce69c89e58ab9e381abe381aae381a3e381a6e38184e381bee3819be38293e38082~''"

definition sum_discord_audio_forward_stale :: string where
  "sum_discord_audio_forward_stale = ja ''Discord ~e99fb3e5a3b0~ packet ~e381ae~ Encoder/Recorder ~e8bba2e98081e3818ce5819ce6bb9ee38197e381a6e38184e381bee38199e38082~''"

definition sum_discord_reconnect_loop :: string where
  "sum_discord_reconnect_loop = ja ''Discord Gateway ~e381aee5868de68ea5e7b69ae3818ce7b9b0e3828ae8bf94e38195e3828ce381a6e38184e381bee38199e38082~''"

definition sum_discord_voice_disconnected :: string where
  "sum_discord_voice_disconnected = ja ''Discord Bot ~e3818ce9858de4bfa1e4b8ade381ae~ voice channel ~e3818be38289e58887e696ade38195e3828ce381bee38197e3819fe38082~''"

definition sum_media_input_timeout :: string where
  "sum_media_input_timeout = ja ''~e383a1e38387e382a3e382a2e585a5e58a9be3818ce382bfe382a4e383a0e382a2e382a6e38388e38197e381a6e38184e381bee38199e38082~''"

definition sum_worker_event_send_failed :: string where
  "sum_worker_event_send_failed = ja ''Worker ~e3818be38289~ Encoder/Recorder ~e381b8e381ae~ event ~e98081e4bfa1e381abe5a4b1e69597e38197e381a6e38184e381bee38199e38082~''"

definition sum_worker_event_send_failed_2 :: string where
  "sum_worker_event_send_failed_2 = ja ''Discord Bot ~e3818be38289~ Worker ~e381b8e381ae~ participant / active-speaker event ~e98081e4bfa1e381abe5a4b1e69597e38197e381a6e38184e381bee38199e38082~''"

definition sum_stream_start_timeout :: string where
  "sum_stream_start_timeout = ja ''~e9858de4bfa1e9968be5a78be587a6e79086e3818ce382bfe382a4e383a0e382a2e382a6e38388e38197e381a6e38184e381bee38199e38082~''"

definition sum_stream_stop_timeout :: string where
  "sum_stream_stop_timeout = ja ''~e9858de4bfa1e5819ce6ada2e587a6e79086e3818ce382bfe382a4e383a0e382a2e382a6e38388e38197e381a6e38184e381bee38199e38082~''"

definition sum_unexpected_stopped :: string where
  "sum_unexpected_stopped = ja ''~e9858de4bfa1e4b8ade381ae~ stream ~e3818ce4ba88e69c9fe3819be3819ae5819ce6ada2e38197e381bee38197e3819fe38082~''"

definition sum_discord_audio_forward_failed :: string where
  "sum_discord_audio_forward_failed = ja ''Discord ~e99fb3e5a3b0~ packet ~e381ae~ Encoder/Recorder ~e8bba2e98081e381abe5a4b1e69597e38197e381a6e38184e381bee38199e38082~''"


definition det :: "string \<Rightarrow> string \<Rightarrow> string \<Rightarrow> detIncident" where
  "det rule severity summary = \<lparr>diRule = rule, diSeverity = severity, diSummaryJA = summary\<rparr>"

definition emit :: "bool \<Rightarrow> string \<Rightarrow> string \<Rightarrow> string \<Rightarrow> detIncident list" where
  "emit cond rule severity summary = (if cond then [det rule severity summary] else [])"

text \<open>
  The attributes of a forward-error signal say that a recent forward succeeded
  (\<^verbatim>\<open>hasLastForwardAge && hasForwardedTotal && forwardedTotal > 0 && lastForwardAge <= stale\<close>).
\<close>

definition recentForward :: "goenv \<Rightarrow> detSignal \<Rightarrow> thresholds \<Rightarrow> bool" where
  "recentForward env s cfg =
     (case (attrFloat env (sAttributes s) ''discord.audio_last_forward_age_sec'',
            attrFloat env (sAttributes s) ''discord.audio_forwarded_total'') of
        (Some lastForwardAge, Some forwardedTotal) \<Rightarrow>
          fgt forwardedTotal (Fin 0) \<and> fle lastForwardAge (DiscordAudioForwardStaleSec cfg)
      | _ \<Rightarrow> False)"

definition evaluateDiscordAudioForwardErrors ::
    "goenv \<Rightarrow> detSignal \<Rightarrow> thresholds \<Rightarrow> detIncident list" where
  "evaluateDiscordAudioForwardErrors env s cfg =
     (if recentForward env s cfg then []
      else let severity =
             (if fge (cumulativeCounterValue env s) (DiscordAudioForwardErrors cfg) \<or>
                 (case attrFloat env (sAttributes s) ''discord.audio_last_forward_age_sec'' of
                    Some lastForwardAge \<Rightarrow> fge lastForwardAge (DiscordAudioForwardStaleSec cfg)
                  | None \<Rightarrow> False)
              then ''error'' else ''warning'')
           in [det ''discord_audio_forward_failed'' severity sum_discord_audio_forward_failed])"

definition evaluateIncidents :: "goenv \<Rightarrow> detSignal \<Rightarrow> detIncident list" where
  "evaluateIncidents env s =
    (let cfg = thresholdsFromEnv env; counter = cumulativeCounterValue env s; v = sValue s in
     concat [
      emit (sName s = ''heartbeat.age_sec'' \<and> fgt v (HeartbeatAgeSec cfg))
        ''heartbeat_timeout'' ''error'' sum_heartbeat_timeout,
      emit (sName s = ''encoder.process_alive'' \<and> sLive s \<and> feq v (Fin 0))
        ''encoder_process_exited'' ''critical'' sum_encoder_process_exited,
      emit (sName s = ''encoder.process.exited'' \<and> sType s = ''error'')
        ''encoder_process_exited'' ''critical'' sum_encoder_process_exited_2,
      emit (sName s = ''recorder.write_bitrate_kbps'' \<and> sLive s \<and> fle v (Fin 0))
        ''recorder_not_writing'' ''critical'' sum_recorder_not_writing,
      emit (sName s = ''recorder.file_size_bytes'' \<and> sLive s \<and> fle v (Fin 0))
        ''recorder_not_writing'' ''critical'' sum_recorder_not_writing_2,
      emit ((sName s = ''recorder.disk_free_bytes'' \<or> sName s = ''host.disk_free_bytes'') \<and> fgt v (Fin 0) \<and> flt v (DiskFreeBytes cfg))
        ''disk_low'' ''error'' sum_disk_low,
      emit (sName s = ''archive.package_status'' \<and> feq v (Fin 0))
        ''archive_package_failed'' ''error'' sum_archive_package_failed,
      emit (sName s = ''recorder.remux_duration_ms'' \<and> fgt v (RemuxSlowMS cfg))
        ''archive_remux_slow'' ''warning'' sum_archive_remux_slow,
      emit (sName s = ''gdrive.upload_status'' \<and> feq v (Fin 0))
        ''gdrive_upload_failed'' ''error'' sum_gdrive_upload_failed,
      emit (sName s = ''gdrive.upload_retry_count'' \<and> fge v (GDriveUploadRetryCount cfg))
        ''gdrive_upload_retry_high'' ''warning'' sum_gdrive_upload_retry_high,
      (if sName s = ''archive.package.failed'' \<or> sName s = ''archive.upload.failed''
        then (if attrGet (sAttributes s) ''failure_phase'' = Some (AStr ''upload'') \<or> sName s = ''archive.upload.failed''
              then [det ''gdrive_upload_failed'' ''error'' sum_gdrive_upload_failed]
              else [det ''archive_package_failed'' ''error'' sum_archive_package_failed])
        else []),
      emit ((sName s = ''srt.packet_loss_percent'' \<or> sName s = ''rtp.packet_loss_percent'') \<and> fge v (PacketLossPercent cfg))
        ''high_packet_loss'' ''warning'' sum_high_packet_loss,
      emit ((sName s = ''rtmp.reconnect_count'' \<or> sName s = ''encoder.rtmp_reconnect_count'') \<and> sLive s \<and> fge counter (RTMPSReconnectCount cfg))
        ''rtmps_reconnect_loop'' ''error'' sum_rtmps_reconnect_loop,
      emit (sName s = ''encoder.output_fps'' \<and> sLive s \<and> fgt v (Fin 0) \<and> flt v (EncoderLowFPS cfg))
        ''encoder_low_fps'' ''warning'' sum_encoder_low_fps,
      emit (sName s = ''encoder.output_bitrate_kbps'' \<and> sLive s \<and> fgt v (Fin 0) \<and> flt v (EncoderLowBitrateKbps cfg))
        ''encoder_bitrate_low'' ''warning'' sum_encoder_bitrate_low,
      emit (sName s = ''encoder.dropped_frames_total'' \<and> sLive s \<and> fge counter (EncoderDroppedFramesTotal cfg))
        ''encoder_dropped_frames_high'' ''warning'' sum_encoder_dropped_frames_high,
      emit (sName s = ''encoder.audio_silence_sec'' \<and> sLive s \<and> fge v (AudioSilenceSec cfg))
        ''audio_silence'' ''warning'' sum_audio_silence,
      emit (sName s = ''encoder.audio_clipping_total'' \<and> sLive s \<and> fge counter (AudioClippingTotal cfg))
        ''audio_clipping'' ''warning'' sum_audio_clipping,
      emit (sName s = ''discord.audio_receiving'' \<and> sLive s \<and> feq v (Fin 0))
        ''discord_audio_not_receiving'' ''warning'' sum_discord_audio_not_receiving,
      emit (sName s = ''discord.audio_forward_active'' \<and> sLive s \<and> feq v (Fin 0))
        ''discord_audio_forward_inactive'' ''warning'' sum_discord_audio_forward_inactive,
      (if sName s = ''discord.audio_forward_errors_total'' \<and> sLive s \<and> fgt counter (Fin 0)
        then evaluateDiscordAudioForwardErrors env s cfg else []),
      emit (sName s = ''discord.audio_last_forward_age_sec'' \<and> sLive s \<and> fge v (DiscordAudioForwardStaleSec cfg))
        ''discord_audio_forward_stale'' ''warning'' sum_discord_audio_forward_stale,
      emit (sName s = ''discord.reconnect_count'' \<and> sLive s \<and> fge counter (DiscordReconnectCount cfg))
        ''discord_reconnect_loop'' ''warning'' sum_discord_reconnect_loop,
      emit (sName s = ''discord.voice_disconnect_count'' \<and> sLive s \<and> fge counter (DiscordVoiceDisconnectCount cfg))
        ''discord_voice_disconnected'' ''error'' sum_discord_voice_disconnected,
      emit (sName s = ''media.input_timeout_sec'' \<and> sLive s \<and> fge v (MediaInputTimeoutSec cfg))
        ''media_input_timeout'' ''error'' sum_media_input_timeout,
      emit (sName s = ''worker.event_send_failures_total'' \<and> fgt counter (Fin 0))
        ''worker_event_send_failed'' ''warning'' sum_worker_event_send_failed,
      emit (sName s = ''discord.worker_event_publish_failures_total'' \<and> fgt counter (Fin 0))
        ''worker_event_send_failed'' ''warning'' sum_worker_event_send_failed_2,
      emit (sName s = ''stream.start_duration_ms'' \<and> fgt v (StreamStartTimeoutMS cfg))
        ''stream_start_timeout'' ''error'' sum_stream_start_timeout,
      emit (sName s = ''stream.stop_duration_ms'' \<and> fgt v (StreamStopTimeoutMS cfg))
        ''stream_stop_timeout'' ''error'' sum_stream_stop_timeout,
      emit (sName s = ''stream.status'' \<and> sLive s \<and> (sStatus s = ''stopped'' \<or> sStatus s = ''failed''))
        ''unexpected_stopped'' ''critical'' sum_unexpected_stopped])"

text \<open>\<^verbatim>\<open>add\<close>: append unless the rule is already there.\<close>

definition addRecovery :: "recovery list \<Rightarrow> string \<times> string \<Rightarrow> recovery list" where
  "addRecovery recoveries rr =
     (if \<exists>e\<in>set recoveries. rcRule e = fst rr then recoveries
      else recoveries @ [\<lparr>rcRule = fst rr, rcReason = snd rr\<rparr>])"

definition streamScopedRules :: "string list" where
  "streamScopedRules =
     [''unexpected_stopped'', ''encoder_process_exited'', ''recorder_not_writing'',
      ''rtmps_reconnect_loop'', ''encoder_low_fps'', ''encoder_bitrate_low'',
      ''encoder_dropped_frames_high'', ''audio_silence'', ''audio_clipping'',
      ''discord_audio_not_receiving'', ''discord_audio_forward_inactive'',
      ''discord_audio_forward_failed'', ''discord_audio_forward_stale'',
      ''discord_reconnect_loop'', ''discord_voice_disconnected'', ''media_input_timeout'',
      ''worker_event_send_failed'', ''stream_start_timeout'', ''stream_stop_timeout'']"

text \<open>The \<^verbatim>\<open>add\<close> calls \<^verbatim>\<open>evaluateRecoveries\<close> makes, in order.\<close>

definition recoveryCalls :: "goenv \<Rightarrow> detSignal \<Rightarrow> (string \<times> string) list" where
  "recoveryCalls env s =
    (let cfg = thresholdsFromEnv env; counter = cumulativeCounterValue env s; v = sValue s in
     concat [
      (if sName s = ''heartbeat.age_sec'' \<and> fle v (HeartbeatAgeSec cfg)
        then [(''heartbeat_timeout'', ''heartbeat_current'')] else []),
      (if sName s = ''encoder.process_alive'' \<and> fgt v (Fin 0)
        then [(''encoder_process_exited'', ''encoder_process_alive'')] else []),
      (if sName s = ''recorder.write_bitrate_kbps'' \<and> fgt v (Fin 0)
        then [(''recorder_not_writing'', ''recorder_writing'')] else []),
      (if (sName s = ''recorder.disk_free_bytes'' \<or> sName s = ''host.disk_free_bytes'') \<and> fge v (DiskFreeBytes cfg)
        then [(''disk_low'', ''disk_capacity_recovered'')] else []),
      (if sName s = ''archive.package_status'' \<and> fgt v (Fin 0)
        then [(''archive_package_failed'', ''archive_package_succeeded'')] else []),
      (if sName s = ''recorder.remux_duration_ms'' \<and> fle v (RemuxSlowMS cfg)
        then [(''archive_remux_slow'', ''archive_remux_duration_recovered'')] else []),
      (if sName s = ''gdrive.upload_status'' \<and> fgt v (Fin 0)
        then [(''gdrive_upload_failed'', ''gdrive_upload_succeeded''), (''gdrive_upload_retry_high'', ''gdrive_upload_succeeded'')] else []),
      (if sName s = ''gdrive.upload_retry_count'' \<and> flt v (GDriveUploadRetryCount cfg)
        then [(''gdrive_upload_retry_high'', ''gdrive_retry_count_recovered'')] else []),
      (if (sName s = ''srt.packet_loss_percent'' \<or> sName s = ''rtp.packet_loss_percent'') \<and> flt v (PacketLossPercent cfg)
        then [(''high_packet_loss'', ''packet_loss_recovered'')] else []),
      (if (sName s = ''rtmp.reconnect_count'' \<or> sName s = ''encoder.rtmp_reconnect_count'') \<and> (\<not> sLive s \<or> flt counter (RTMPSReconnectCount cfg))
        then [(''rtmps_reconnect_loop'', ''rtmps_reconnect_count_recovered'')] else []),
      (if sName s = ''encoder.output_fps'' \<and> (\<not> sLive s \<or> fge v (EncoderLowFPS cfg))
        then [(''encoder_low_fps'', ''encoder_fps_recovered'')] else []),
      (if sName s = ''encoder.output_bitrate_kbps'' \<and> (\<not> sLive s \<or> fge v (EncoderLowBitrateKbps cfg))
        then [(''encoder_bitrate_low'', ''encoder_bitrate_recovered'')] else []),
      (if sName s = ''encoder.dropped_frames_total'' \<and> (\<not> sLive s \<or> flt counter (EncoderDroppedFramesTotal cfg))
        then [(''encoder_dropped_frames_high'', ''encoder_dropped_frames_recovered'')] else []),
      (if sName s = ''encoder.audio_silence_sec'' \<and> (\<not> sLive s \<or> flt v (AudioSilenceSec cfg))
        then [(''audio_silence'', ''audio_signal_recovered'')] else []),
      (if sName s = ''encoder.audio_clipping_total'' \<and> (\<not> sLive s \<or> flt counter (AudioClippingTotal cfg))
        then [(''audio_clipping'', ''audio_clipping_recovered'')] else []),
      (if sName s = ''discord.audio_receiving'' \<and> fgt v (Fin 0)
        then [(''discord_audio_not_receiving'', ''discord_audio_receiving'')] else []),
      (if sName s = ''discord.audio_forward_active'' \<and> fgt v (Fin 0)
        then [(''discord_audio_forward_inactive'', ''discord_audio_forward_active'')] else []),
      (if sName s = ''discord.audio_last_forward_age_sec'' \<and> flt v (DiscordAudioForwardStaleSec cfg)
        then [(''discord_audio_forward_stale'', ''recent_forward_succeeded'')] else []),
      (if sName s = ''discord.audio_forward_errors_total''
        then (if recentForward env s cfg
              then [(''discord_audio_forward_failed'', ''recent_forward_succeeded''),
                    (''discord_audio_forward_stale'', ''recent_forward_succeeded'')]
              else if fle counter (Fin 0) then [(''discord_audio_forward_failed'', ''no_new_forward_errors'')]
              else [])
        else []),
      (if sName s = ''discord.reconnect_count'' \<and> (\<not> sLive s \<or> flt counter (DiscordReconnectCount cfg))
        then [(''discord_reconnect_loop'', ''discord_reconnect_count_recovered'')] else []),
      (if sName s = ''discord.voice_disconnect_count'' \<and> (\<not> sLive s \<or> flt counter (DiscordVoiceDisconnectCount cfg))
        then [(''discord_voice_disconnected'', ''discord_voice_connection_recovered'')] else []),
      (if sName s = ''media.input_timeout_sec'' \<and> (\<not> sLive s \<or> flt v (MediaInputTimeoutSec cfg))
        then [(''media_input_timeout'', ''media_input_recovered'')] else []),
      (if (sName s = ''worker.event_send_failures_total'' \<or> sName s = ''discord.worker_event_publish_failures_total'') \<and> fle counter (Fin 0)
        then [(''worker_event_send_failed'', ''event_delivery_recovered'')] else []),
      (if sName s = ''stream.start_duration_ms'' \<and> fle v (StreamStartTimeoutMS cfg)
        then [(''stream_start_timeout'', ''stream_start_duration_recovered'')] else []),
      (if sName s = ''stream.stop_duration_ms'' \<and> fle v (StreamStopTimeoutMS cfg)
        then [(''stream_stop_timeout'', ''stream_stop_duration_recovered'')] else []),
      (if sName s = ''stream.status'' \<and> \<not> sLive s \<and> sStatus s \<noteq> ''failed''
        then map (\<lambda>rule. (rule, ''stream_not_live'')) streamScopedRules else [])])"

definition evaluateRecoveries :: "goenv \<Rightarrow> detSignal \<Rightarrow> recovery list" where
  "evaluateRecoveries env s = foldl addRecovery [] (recoveryCalls env s)"

definition EvaluateSignal :: "goenv \<Rightarrow> detSignal \<Rightarrow> evaluation" where
  "EvaluateSignal env s = \<lparr>evIncidents = evaluateIncidents env s, evRecoveries = evaluateRecoveries env s\<rparr>"

definition Evaluate :: "goenv \<Rightarrow> detSignal \<Rightarrow> detIncident list" where
  "Evaluate env s = evIncidents (EvaluateSignal env s)"

subsection \<open>Lemmas: one metric name at a time\<close>

text \<open>
  Every condition of the rules tests the name of the signal, so a fact about all signals is
  a finite conjunction over the names the rules mention.
\<close>

definition metricNames :: "string list" where
  "metricNames =
     [''heartbeat.age_sec'', ''encoder.process_alive'', ''encoder.process.exited'',
       ''recorder.write_bitrate_kbps'', ''recorder.file_size_bytes'',
       ''recorder.disk_free_bytes'', ''host.disk_free_bytes'', ''archive.package_status'',
       ''recorder.remux_duration_ms'', ''gdrive.upload_status'', ''gdrive.upload_retry_count'',
       ''archive.package.failed'', ''archive.upload.failed'', ''srt.packet_loss_percent'',
       ''rtp.packet_loss_percent'', ''rtmp.reconnect_count'', ''encoder.rtmp_reconnect_count'',
       ''encoder.output_fps'', ''encoder.output_bitrate_kbps'',
       ''encoder.dropped_frames_total'', ''encoder.audio_silence_sec'',
       ''encoder.audio_clipping_total'', ''discord.audio_receiving'',
       ''discord.audio_forward_active'', ''discord.audio_forward_errors_total'',
       ''discord.audio_last_forward_age_sec'', ''discord.reconnect_count'',
       ''discord.voice_disconnect_count'', ''media.input_timeout_sec'',
       ''worker.event_send_failures_total'', ''discord.worker_event_publish_failures_total'',
       ''stream.start_duration_ms'', ''stream.stop_duration_ms'', ''stream.status'']"

definition detectionRules :: "string list" where
  "detectionRules =
     [''heartbeat_timeout'', ''encoder_process_exited'', ''recorder_not_writing'', ''disk_low'',
      ''archive_package_failed'', ''archive_remux_slow'', ''gdrive_upload_failed'',
      ''gdrive_upload_retry_high'', ''high_packet_loss'', ''rtmps_reconnect_loop'',
      ''encoder_low_fps'', ''encoder_bitrate_low'', ''encoder_dropped_frames_high'',
      ''audio_silence'', ''audio_clipping'', ''discord_audio_not_receiving'',
      ''discord_audio_forward_inactive'', ''discord_audio_forward_failed'',
      ''discord_audio_forward_stale'', ''discord_reconnect_loop'', ''discord_voice_disconnected'',
      ''media_input_timeout'', ''worker_event_send_failed'', ''stream_start_timeout'',
      ''stream_stop_timeout'', ''unexpected_stopped'']"

lemmas incident_rules = evaluateIncidents_def Let_def emit_def det_def evaluateDiscordAudioForwardErrors_def

lemma evaluateIncidents_unknown: "sName s \<notin> set metricNames \<Longrightarrow> evaluateIncidents env s = []"
  by (simp add: evaluateIncidents_def Let_def emit_def metricNames_def)

lemma evaluateIncidents_by_name:
  assumes "list_all (\<lambda>n. sName s = n \<longrightarrow> Q (evaluateIncidents env s)) metricNames" "Q []"
  shows "Q (evaluateIncidents env s)"
proof (cases "sName s \<in> set metricNames")
  case True
  with assms(1) show ?thesis by (simp add: list_all_iff)
next
  case False
  with assms(2) show ?thesis by (simp add: evaluateIncidents_unknown)
qed

lemma evaluateIncidents_length: "length (evaluateIncidents env s) \<le> Suc 0"
proof (rule evaluateIncidents_by_name)
  show "list_all (\<lambda>n. sName s = n \<longrightarrow> length (evaluateIncidents env s) \<le> Suc 0) metricNames"
    unfolding metricNames_def list.pred_inject
    by (intro conjI impI) (simp_all add: incident_rules)
qed simp

lemma evaluateIncidents_catalogue:
  "list_all (\<lambda>i. diRule i \<in> set detectionRules \<and> diSeverity i \<in> {''warning'', ''error'', ''critical''}) (evaluateIncidents env s)"
proof -
  have one: "list_all P (if c then xs else [])" if "list_all P xs" for P c and xs :: "detIncident list"
    using that by simp
  have two: "list_all P (if c then xs else ys)" if "list_all P xs" "list_all P ys" for P c and xs ys :: "detIncident list"
    using that by simp
  show ?thesis
    unfolding evaluateIncidents_def Let_def concat.simps list_all_append emit_def evaluateDiscordAudioForwardErrors_def
    by (intro conjI one two) (simp_all add: detectionRules_def det_def)
qed

lemma raised_not_called:
  assumes "rr \<in> set (recoveryCalls env s)"
  shows "\<forall>i\<in>set (evaluateIncidents env s). diRule i \<noteq> fst rr"
proof (rule evaluateIncidents_by_name)
  show "list_all (\<lambda>n. sName s = n \<longrightarrow> (\<forall>i\<in>set (evaluateIncidents env s). diRule i \<noteq> fst rr)) metricNames"
    unfolding metricNames_def list.pred_inject using assms
    by (intro conjI impI)
      (auto simp: incident_rules recoveryCalls_def streamScopedRules_def dest: cmp_excl split: if_splits)
qed simp

subsection \<open>Lemmas: recoveries\<close>

lemma addRecovery_rules: "set (map rcRule (addRecovery rs rr)) = insert (fst rr) (set (map rcRule rs))"
  by (force simp: addRecovery_def)

lemma addRecovery_distinct: "distinct (map rcRule rs) \<Longrightarrow> distinct (map rcRule (addRecovery rs rr))"
  by (auto simp: addRecovery_def)

lemma foldl_addRecovery_rules:
  "set (map rcRule (foldl addRecovery rs calls)) = set (map rcRule rs) \<union> fst ` set calls"
  by (induction calls arbitrary: rs) (auto simp: addRecovery_rules simp del: set_map)

lemma evaluateRecoveries_rules: "set (map rcRule (evaluateRecoveries env s)) = fst ` set (recoveryCalls env s)"
  by (simp add: evaluateRecoveries_def foldl_addRecovery_rules del: set_map)

lemma evaluateRecoveries_distinct: "distinct (map rcRule (evaluateRecoveries env s))"
  unfolding evaluateRecoveries_def
  by (rule foldl_invariant) (auto intro: addRecovery_distinct)

subsection \<open>Lemmas: thresholds\<close>

lemma envFloat_NaN:
  assumes "TrimSpace (getenv env key) \<noteq> []" "parseFloat env (TrimSpace (getenv env key)) = Some NaN"
  shows "envFloat env key fallback = NaN"
  using assms by (simp add: envFloat_def)

lemma envFloat_positive: "fgt fallback (Fin 0) \<Longrightarrow> envFloat env key fallback = NaN \<or> fgt (envFloat env key fallback) (Fin 0)"
  unfolding envFloat_def Let_def
  by (cases "parseFloat env (TrimSpace (getenv env key))"; cases "the (parseFloat env (TrimSpace (getenv env key)))")
    (auto simp: fgt_def flt_def)

subsection \<open>Properties\<close>

text \<open>
  C4: no signal both raises and recovers the same rule: for every environment (so every
  threshold), value (NaN included) and attribute set, the rules of the incidents
  \<open>EvaluateSignal\<close> reports and those of its recoveries are disjoint, it reports at most one
  incident, and its recoveries name each rule once.
\<close>

theorem EvaluateSignal_consistent:
  "set (map diRule (evIncidents (EvaluateSignal env s))) \<inter>
     set (map rcRule (evRecoveries (EvaluateSignal env s))) = {} \<and>
   length (evIncidents (EvaluateSignal env s)) \<le> 1 \<and>
   distinct (map rcRule (evRecoveries (EvaluateSignal env s)))"
proof -
  have "diRule i \<notin> fst ` set (recoveryCalls env s)" if "i \<in> set (evaluateIncidents env s)" for i
    using raised_not_called [of _ env s] that by auto
  then have "set (map diRule (evaluateIncidents env s)) \<inter> set (map rcRule (evaluateRecoveries env s)) = {}"
    unfolding evaluateRecoveries_rules by auto
  then show ?thesis
    using evaluateIncidents_length [of env s] evaluateRecoveries_distinct [of env s]
    by (simp add: EvaluateSignal_def)
qed

text \<open>
  a threshold variable that parses as NaN passes the \<^verbatim>\<open>value <= 0\<close> guard of \<open>envFloat\<close>
  and silences its rule: with such a heartbeat threshold, no heartbeat signal raises
  \<^verbatim>\<open>heartbeat_timeout\<close> and none recovers it.
\<close>

theorem NaN_threshold_silences_heartbeat:
  assumes "TrimSpace (getenv env ''OBSERVABILITY_THRESHOLD_HEARTBEAT_AGE_SEC'') \<noteq> []"
    and "parseFloat env (TrimSpace (getenv env ''OBSERVABILITY_THRESHOLD_HEARTBEAT_AGE_SEC'')) = Some NaN"
    and "sName s = ''heartbeat.age_sec''"
  shows "evIncidents (EvaluateSignal env s) = [] \<and> evRecoveries (EvaluateSignal env s) = []"
proof -
  have nan: "HeartbeatAgeSec (thresholdsFromEnv env) = NaN"
    using envFloat_NaN [OF assms(1,2)] by (simp add: thresholdsFromEnv_def)
  then show ?thesis
    using assms(3)
    by (simp add: EvaluateSignal_def incident_rules evaluateRecoveries_def recoveryCalls_def)
qed

theorem NaN_threshold_silences_heartbeat_witness:
  "let env = concreteEnv [(''OBSERVABILITY_THRESHOLD_HEARTBEAT_AGE_SEC'', ''NaN'')];
       s = \<lparr>sType = ''metric'', sName = ''heartbeat.age_sec'', sValue = Fin 1000000, sStreamID = [],
            sLive = True, sStatus = [], sAttributes = None\<rparr>
   in evIncidents (EvaluateSignal env s) = [] \<and> evRecoveries (EvaluateSignal env s) = []"
  unfolding Let_def
  by (rule NaN_threshold_silences_heartbeat) (simp_all add: concreteEnv_def go_eval)

end
