(* ===== verification/Diagnostics.thy ===== *)
theory Diagnostics
  imports Go_Values
begin

text \<open>
  Package \<^verbatim>\<open>internal/diagnostics\<close>: the fixed report of each rule.  One definition per case of
  the \<^verbatim>\<open>switch\<close> in \<^verbatim>\<open>JapaneseReport\<close>, with the literal texts of the source.
\<close>

record Report =
  rpSummary :: string
  rpLikelyCause :: string
  rpConfidence :: float64
  rpEvidence :: "string list"
  rpImpact :: string
  rpRecommendedActions :: "string list"
  rpSafeAutoCandidates :: "string list"
  rpApprovalRequired :: "string list"

text \<open>The zero value \<^verbatim>\<open>Report{}\<close>.\<close>

definition zeroReport :: Report where
  "zeroReport = \<lparr>rpSummary = [], rpLikelyCause = [], rpConfidence = Fin 0, rpEvidence = [],
     rpImpact = [], rpRecommendedActions = [], rpSafeAutoCandidates = [], rpApprovalRequired = []\<rparr>"

definition report :: "string \<Rightarrow> string \<Rightarrow> float64 \<Rightarrow> string list \<Rightarrow> string \<Rightarrow>
    string list \<Rightarrow> string list \<Rightarrow> string list \<Rightarrow> Report" where
  "report summary likelyCause confidence evidence impact actions safe approval =
     \<lparr>rpSummary = summary, rpLikelyCause = likelyCause, rpConfidence = confidence,
      rpEvidence = evidence, rpImpact = impact, rpRecommendedActions = actions,
      rpSafeAutoCandidates = safe, rpApprovalRequired = approval\<rparr>"

definition report_heartbeat_timeout :: "string list \<Rightarrow> Report" where
  "report_heartbeat_timeout evidence = report
      (ja ''~e382b5e383bce38393e382b9e381ae~ heartbeat ~e3818ce98185e5bbb6e38197e381a6e38184e381bee38199e38082~'')
      (ja ''~e5afbee8b1a1e382b5e383bce38393e382b9e381aee5819ce6ada2e38081e3838de38383e38388e383afe383bce382afe981aee696ade38081~Control Panel URL ~e381aee8aaa4e3828ae38081e381bee3819fe381af~ service token ~e381aee4b88de4b880e887b4e3818ce88083e38188e38289e3828ce381bee38199e38082~'')
      (round64 (80 / 100)) evidence
      (ja ''~e78ab6e6858be79ba3e8a696e381a8e588b6e5bea1e68c87e7a4bae3818ce98185e5bbb6e38197e38081e9818be794a8e588a4e696ade381abe5bf85e8a681e381aae68385e5a0b1e3818ce4b88de8b6b3e38197e381bee38199e38082~'')
      [
        ja ''~e5afbee8b1a1e382b5e383bce38393e382b9e381aee7a8bce5838de78ab6e6858be38292e7a2bae8aa8de38199e3828b~'',
        ja ''Control Panel URL ~e381a8~ service token ~e38292e7a2bae8aa8de38199e3828b~'',
        ja ''firewall ~e381a8~ reverse proxy ~e38292e7a2bae8aa8de38199e3828b~'']
      [''refresh_service_status'', ''rerun_diagnostics'']
      [''restart_service'']"

definition report_encoder_process_exited :: "string list \<Rightarrow> Report" where
  "report_encoder_process_exited evidence = report
      (ja ''Encoder process ~e3818ce5819ce6ada2e38197e381bee38197e3819fe38082~'')
      (ja ''FFmpeg ~e381aee795b0e5b8b8e7b582e4ba86e38081e585a5e58a9b~ stream ~e381aee696ade7b5b6e38081~RTMPS ~e68ea5e7b69ae5a4b1e69597e38081e381bee3819fe381af~ host resource ~e4b88de8b6b3e3818ce88083e38188e38289e3828ce381bee38199e38082~'')
      (round64 (85 / 100)) evidence
      (ja ''YouTube ~e9858de4bfa1e381a8e98cb2e794bbe3818ce5819ce6ada2e38197e381a6e38184e3828be58fafe883bde680a7e3818ce38182e3828ae381bee38199e38082~'')
      [
        ja ''Encoder/Recorder ~e381ae~ logs.jsonl ~e38292e7a2bae8aa8de38199e3828b~'',
        ja ''~e585a5e58a9b~ URL ~e381a8~ YouTube RTMPS ~e78ab6e6858be38292e7a2bae8aa8de38199e3828b~'',
        ja ''CPU/GPU~e38081e383a1e383a2e383aae38081e38387e382a3e382b9e382afe5aeb9e9878fe38292e7a2bae8aa8de38199e3828b~'']
      [''refresh_service_status'', ''rerun_diagnostics'']
      [''restart_encoder_recorder'', ''restart_youtube_rtmps_output'']"

definition report_recorder_not_writing :: "string list \<Rightarrow> Report" where
  "report_recorder_not_writing evidence = report
      (ja ''~e98cb2e794bbe38395e382a1e382a4e383abe381b8e381aee69bb8e3818de8bebce381bfe3818ce6ada2e381bee381a3e381a6e38184e3828be58fafe883bde680a7e3818ce38182e3828ae381bee38199e38082~'')
      (ja ''FFmpeg ~e587bae58a9be5819ce6ada2e38081e38387e382a3e382b9e382afe5aeb9e9878fe4b88de8b6b3e38081e38395e382a1e382a4e383abe6a8a9e99990e4b88de8b6b3e38081e381bee3819fe381afe585a5e58a9be696ade7b5b6e3818ce88083e38188e38289e3828ce381bee38199e38082~'')
      (round64 (80 / 100)) evidence
      (ja ''~e69c80e7b582e382a2e383bce382abe382a4e38396e3818ce6aca0e6908de381bee3819fe381afe4b88de5ae8ce585a8e381abe381aae3828be58fafe883bde680a7e3818ce38182e3828ae381bee38199e38082~'')
      [
        ja ''archive directory ~e381aee7a9bae3818de5aeb9e9878fe381a8e6a8a9e99990e38292e7a2bae8aa8de38199e3828b~'',
        ja ''final.mkv ~e381aee69bb4e696b0e69982e588bbe381a8e382b5e382a4e382bae38292e7a2bae8aa8de38199e3828b~'',
        ja ''FFmpeg process ~e381aee78ab6e6858be38292e7a2bae8aa8de38199e3828b~'']
      [''refresh_service_status'', ''rerun_diagnostics'']
      [''restart_encoder_recorder'']"

definition report_archive_package_failed :: "string list \<Rightarrow> Report" where
  "report_archive_package_failed evidence = report
      (ja ''~e382a2e383bce382abe382a4e38396e381ae~ package ~e587a6e79086e381abe5a4b1e69597e38197e381bee38197e3819fe38082~'')
      (ja ''final.mkv ~e381aee6aca0e890bde381bee3819fe381afe7a0b4e6908de38081~remux ~e5a4b1e69597e38081~sidecar copy ~e5a4b1e69597e38081~archive directory ~e381aee6a8a9e99990e4b88de8b6b3e38081e38387e382a3e382b9e382afe5aeb9e9878fe4b88de8b6b3e3818ce88083e38188e38289e3828ce381bee38199e38082~'')
      (round64 (82 / 100)) evidence
      (ja ''final.mp4 ~e3818ce4bd9ce68890e38195e3828ce3819ae38081~Google Drive upload ~e381b8e980b2e38281e381aae38184e58fafe883bde680a7e3818ce38182e3828ae381bee38199e38082~'')
      [
        ja ''failure_phase ~e381a8~ error_class ~e38292e7a2bae8aa8de38199e3828b~'',
        ja ''tmp/{stream_id}/final.mkv ~e3818ce5ad98e59ca8e38199e3828be3818be7a2bae8aa8de38199e3828b~'',
        ja ''remux ~e381ae~ FFmpeg log ~e38292e7a2bae8aa8de38199e3828b~'',
        ja ''archive directory ~e381aee6a8a9e99990e381a8e7a9bae3818de5aeb9e9878fe38292e7a2bae8aa8de38199e3828b~'']
      [''retry_package_remux'', ''rerun_diagnostics'']
      [''restart_encoder_recorder'']"

definition report_archive_remux_slow :: "string list \<Rightarrow> Report" where
  "report_archive_remux_slow evidence = report
      (ja ''~e382a2e383bce382abe382a4e38396e381ae~ remux ~e587a6e79086e381abe69982e99693e3818ce3818be3818be381a3e381a6e38184e381bee38199e38082~'')
      (ja ''final.mkv ~e3818ce5a4a7e3818de38184e38081~disk I/O ~e3818ce4bd8ee4b88be38197e381a6e38184e3828be38081~host resource ~e3818ce4b88de8b6b3e38197e381a6e38184e3828be38081e381bee3819fe381af~ source file ~e381aee8aaade381bfe58f96e3828ae3818ce98185e38184e58fafe883bde680a7e3818ce38182e3828ae381bee38199e38082~'')
      (round64 (66 / 100)) evidence
      (ja ''~e9858de4bfa1e5819ce6ada2e5be8ce381ae~ final.mp4 ~e7a2bae5ae9ae381a8~ Google Drive upload ~e9968be5a78be3818ce98185e3828ce381bee38199e38082~'')
      [
        ja ''recorder.remux_duration_ms ~e381a8~ file size ~e38292e7a2bae8aa8de38199e3828b~'',
        ja ''archive directory ~e381ae~ disk I/O ~e381a8e7a9bae3818de5aeb9e9878fe38292e7a2bae8aa8de38199e3828b~'',
        ja ''remux ~e5ae9fe8a18ce69982e381ae~ FFmpeg log ~e38292e7a2bae8aa8de38199e3828b~'']
      [''refresh_service_status'', ''rerun_diagnostics'']
      []"

definition report_gdrive_upload_failed :: "string list \<Rightarrow> Report" where
  "report_gdrive_upload_failed evidence = report
      (ja ''Google Drive ~e381b8e381ae~ archive upload ~e381abe5a4b1e69597e38197e381bee38197e3819fe38082~'')
      (ja ''Service Account ~e381aee6a8a9e99990e38081~Drive folder ~e585b1e69c89e38081~API quota~e38081~network ~e99a9ce5aeb3e38081e381bee3819fe381af~ metadata upload ~e381aee5a4b1e69597e3818ce88083e38188e38289e3828ce381bee38199e38082~'')
      (round64 (75 / 100)) evidence
      (ja ''~e383ade383bce382abe383abe381abe381afe68890e69e9ce789a9e3818ce6ae8be381a3e381a6e38184e381a6e38282e38081~Drive ~e4b88ae381aee585b1e69c89e382a2e383bce382abe382a4e38396e3818ce69caae5ae8ce68890e381aee58fafe883bde680a7e3818ce38182e3828ae381bee38199e38082~'')
      [
        ja ''failure_phase ~e3818c~ upload ~e3818be7a2bae8aa8de38199e3828b~'',
        ja ''Service Account ~e381ab~ Drive folder ~e3818ce585b1e69c89e38195e3828ce381a6e38184e3828be3818be7a2bae8aa8de38199e3828b~'',
        ja ''GOOGLE_DRIVE_FOLDER_ID ~e381a8~ credentials path ~e38292e7a2bae8aa8de38199e3828b~'',
        ja ''retry-upload ~e38292e5ae9fe8a18ce38199e3828b~'']
      [''retry_gdrive_upload'', ''rerun_diagnostics'']
      []"

definition report_gdrive_upload_retry_high :: "string list \<Rightarrow> Report" where
  "report_gdrive_upload_retry_high evidence = report
      (ja ''Google Drive upload ~e381ae~ retry ~e59b9ee695b0e3818ce5a297e38188e381a6e38184e381bee38199e38082~'')
      (ja ''Google Drive API ~e381aee4b880e69982e99a9ce5aeb3e38081~quota ~e588b6e99990e38081~network ~e4b88de5ae89e5ae9ae38081e381bee3819fe381afe5a4a7e5aeb9e9878f~ upload ~e381aee4b8ade696ade3818ce88083e38188e38289e3828ce381bee38199e38082~'')
      (round64 (68 / 100)) evidence
      (ja ''upload ~e5ae8ce4ba86e3818ce98185e5bbb6e38197e38081e382a2e383bce382abe382a4e38396e585b1e69c89e3818ce98185e3828ce3828be58fafe883bde680a7e3818ce38182e3828ae381bee38199e38082~'')
      [
        ja ''upload logs ~e381ae~ retry ~e79086e794b1e38292e7a2bae8aa8de38199e3828b~'',
        ja ''Google API quota ~e381a8~ network ~e38292e7a2bae8aa8de38199e3828b~'',
        ja ''~e5ae8ce4ba86e38197e381a6e38184e381aae38191e3828ce381b0~ retry-upload ~e38292e5ae9fe8a18ce38199e3828b~'']
      [''retry_gdrive_upload'', ''rerun_diagnostics'']
      []"

definition report_high_packet_loss :: "string list \<Rightarrow> Report" where
  "report_high_packet_loss evidence = report
      (ja ''~e383a1e38387e382a3e382a2e4bc9de98081e381ae~ packet loss ~e3818ce9ab98e38184e78ab6e6858be381a7e38199e38082~'')
      (ja ''~e98081e4bfa1e58583~ network~e38081~VPN~e38081~SRT/RTP ~e7b58ce8b7afe38081e381bee3819fe381afe58f97e4bfa1~ host ~e8b2a0e88db7e3818ce88083e38188e38289e3828ce381bee38199e38082~'')
      (round64 (70 / 100)) evidence
      (ja ''~e698a0e5838fe38284e99fb3e5a3b0e381aee6aca0e890bde38081~freeze~e38081e79eace696ade3818ce799bae7949fe38199e3828be58fafe883bde680a7e3818ce38182e3828ae381bee38199e38082~'')
      [
        ja ''~e98081e4bfa1e58583e381a8e58f97e4bfa1e581b4e381ae~ network ~e59381e8b3aae38292e7a2bae8aa8de38199e3828b~'',
        ja ''SRT/RTP ~e7b5b1e8a888e381a8~ host ~e8b2a0e88db7e38292e7a2bae8aa8de38199e3828b~'']
      [''refresh_service_status'', ''rerun_diagnostics'']
      []"

definition report_rtmps_reconnect_loop :: "string list \<Rightarrow> Report" where
  "report_rtmps_reconnect_loop evidence = report
      (ja ''RTMPS ~e381aee5868de68ea5e7b69ae3818ce7b9b0e3828ae8bf94e38195e3828ce381a6e38184e381bee38199e38082~'')
      (ja ''YouTube RTMPS endpoint~e38081~stream key~e38081e4b88ae3828ae59b9ee7b79ae38081e381bee3819fe381af~ FFmpeg ~e587bae58a9be8a8ade5ae9ae381aee5958fe9a18ce3818ce88083e38188e38289e3828ce381bee38199e38082~'')
      (round64 (78 / 100)) evidence
      (ja ''YouTube ~e581b4e381aee9858de4bfa1e3818ce4b88de5ae89e5ae9ae381abe381aae3828ae38081e8a696e881b4e88085e381abe4b8ade696ade3818ce8a68be38188e3828be58fafe883bde680a7e3818ce38182e3828ae381bee38199e38082~'')
      [
        ja ''YouTube stream key ~e381a8~ RTMPS URL ~e38292e7a2bae8aa8de38199e3828b~'',
        ja ''~e4b88ae3828ae5b8afe59f9fe381a8~ encoder bitrate ~e38292e7a2bae8aa8de38199e3828b~'',
        ja ''encoder.rtmp_reconnect_count ~e381aee5a297e58aa0e99693e99a94e38292e7a2bae8aa8de38199e3828b~'',
        ja ''YouTube Studio ~e381ae~ stream health ~e38292e7a2bae8aa8de38199e3828b~'']
      [''refresh_service_status'', ''rerun_diagnostics'']
      [''restart_youtube_rtmps_output'']"

definition report_audio_silence :: "string list \<Rightarrow> Report" where
  "report_audio_silence evidence = report
      (ja ''~e9858de4bfa1e99fb3e5a3b0e381aee784a1e99fb3e78ab6e6858be3818ce7b69ae38184e381a6e38184e381bee38199e38082~'')
      (ja ''Discord voice audio ~e58f97e4bfa1e5819ce6ada2e38081e585a5e58a9b~ mute~e38081e99fb3e5a3b0~ routing~e38081e381bee3819fe381af~ encoder audio mapping ~e381aee5958fe9a18ce3818ce88083e38188e38289e3828ce381bee38199e38082~'')
      (round64 (72 / 100)) evidence
      (ja ''~e383a9e382a4e38396e9858de4bfa1e381a8e382a2e383bce382abe382a4e38396e381abe99fb3e5a3b0e6aca0e890bde3818ce6ae8be3828be58fafe883bde680a7e3818ce38182e3828ae381bee38199e38082~'')
      [
        ja ''Discord Bot ~e381ae~ voice ~e68ea5e7b69ae38292e7a2bae8aa8de38199e3828b~'',
        ja ''Encoder ~e381ae~ audio level ~e381a8~ input mapping ~e38292e7a2bae8aa8de38199e3828b~'',
        ja ''discord.audio_receiving ~e381a8~ encoder.audio_silence_sec ~e38292e5908ce69982e381abe7a2bae8aa8de38199e3828b~'']
      [''refresh_service_status'', ''rerun_diagnostics'']
      [''reconnect_discord_voice'', ''restart_discord_bot'']"

definition report_audio_clipping :: "string list \<Rightarrow> Report" where
  "report_audio_clipping evidence = report
      (ja ''~e9858de4bfa1e99fb3e5a3b0e381ae~ clipping ~e3818ce5a297e38188e381a6e38184e381bee38199e38082~'')
      (ja ''~e585a5e58a9be99fb3e9878fe3818ce9ab98e38199e3818ee3828be38081e8a487e695b0e99fb3e5a3b0e381aee59088e68890e381a7~ headroom ~e3818ce4b88de8b6b3e38197e381a6e38184e3828be38081e381bee3819fe381af~ encoder ~e5898de6aeb5e381ae~ gain ~e8a8ade5ae9ae3818ce9818ee5a4a7e381aae58fafe883bde680a7e3818ce38182e3828ae381bee38199e38082~'')
      (round64 (70 / 100)) evidence
      (ja ''~e8a696e881b4e88085e581b4e381a7e99fb3e589b2e3828ce3818ce799bae7949fe38197e38081e382a2e383bce382abe382a4e38396e381abe38282e6adaae381bfe3818ce6ae8be3828be58fafe883bde680a7e3818ce38182e3828ae381bee38199e38082~'')
      [
        ja ''Discord Bot ~e381a8~ Encoder ~e381ae~ audio level ~e38292e7a2bae8aa8de38199e3828b~'',
        ja ''~e585a5e58a9b~ gain ~e38292e4b88be38192e3828b~'',
        ja ''~e99fb3e5a3b0~ mix ~e381ae~ headroom ~e38292e7a2bae8aa8de38199e3828b~'']
      [''refresh_service_status'', ''rerun_diagnostics'']
      [''restart_encoder_recorder'']"

definition report_discord_audio_not_receiving :: "string list \<Rightarrow> Report" where
  "report_discord_audio_not_receiving evidence = report
      (ja ''Discord Bot ~e3818ce99fb3e5a3b0~ packet ~e38292e58f97e4bfa1e381a7e3818de381a6e38184e381bee3819be38293e38082~'')
      (ja ''Bot ~e3818c~ voice channel ~e381abe58f82e58aa0e381a7e3818de381a6e38184e381aae38184e38081~Discord ~e581b4e6a8a9e99990e3818ce4b88de8b6b3e38197e381a6e38184e3828be38081e381bee3819fe381af~ VC ~e381abe8a9b1e88085e3818ce38184e381aae38184e58fafe883bde680a7e3818ce38182e3828ae381bee38199e38082~'')
      (round64 (76 / 100)) evidence
      (ja ''~e9858de4bfa1e99fb3e5a3b0e3818ce784a1e99fb3e381abe381aae3828ae38081~caption/STT ~e381aee585a5e58a9be38282e6aca0e890bde38199e3828be58fafe883bde680a7e3818ce38182e3828ae381bee38199e38082~'')
      [
        ja ''Discord Bot ~e381ae~ status ~e381a8~ voice ~e68ea5e7b69ae38292e7a2bae8aa8de38199e3828b~'',
        ja ''Discord ~e581b4e381ae~ Connect / Speak ~e6a8a9e99990e38292e7a2bae8aa8de38199e3828b~'',
        ja ''Encoder/Recorder ~e381ae~ /streams/{id}/audio-status ~e381a7~ packets_total ~e381a8~ rtp_forwarded ~e38292e7a2bae8aa8de38199e3828b~'']
      [''refresh_service_status'', ''rerun_diagnostics'']
      [''reconnect_discord_voice'', ''restart_discord_bot'']"

definition report_discord_audio_forward_inactive :: "string list \<Rightarrow> Report" where
  "report_discord_audio_forward_inactive evidence = report
      (ja ''Discord ~e99fb3e5a3b0~ packet ~e381ae~ Encoder/Recorder ~e8bba2e98081e3818ce69c89e58ab9e381abe381aae381a3e381a6e38184e381bee3819be38293e38082~'')
      (ja ''Discord Bot ~e381ae~ ENCODER_AUDIO_TOKEN ~e69caae8a8ade5ae9ae38081~Control Panel ~e3818be38289e381ae~ encoder_audio_url ~e69caae4bc9de692ade38081~Encoder/Recorder public_url ~e69caae8a8ade5ae9ae38081e381bee3819fe381af~ stream assignment ~e4b88de8b6b3e3818ce88083e38188e38289e3828ce381bee38199e38082~'')
      (round64 (78 / 100)) evidence
      (ja ''Bot ~e3818c~ voice channel ~e381abe58f82e58aa0e38197e381a6e38184e381a6e38282~ Encoder/Recorder ~e381abe99fb3e5a3b0e3818ce5b18ae3818be3819ae38081e9858de4bfa1e381a8e382a2e383bce382abe382a4e38396e3818ce784a1e99fb3e381abe381aae3828be58fafe883bde680a7e3818ce38182e3828ae381bee38199e38082~'')
      [
        ja ''Discord Bot ~e381ae~ audio_forward_enabled ~e381a8~ audio_forward_active ~e38292e7a2bae8aa8de38199e3828b~'',
        ja ''ENCODER_AUDIO_TOKEN ~e38292e8a8ade5ae9ae38199e3828b~'',
        ja ''Control Panel ~e381ae~ stream assignment ~e381a8~ Encoder/Recorder public_url ~e38292e7a2bae8aa8de38199e3828b~'']
      [''refresh_service_status'', ''rerun_diagnostics'']
      [''restart_discord_bot'']"

definition report_discord_audio_forward_failed :: "string list \<Rightarrow> Report" where
  "report_discord_audio_forward_failed evidence = report
      (ja ''Discord ~e99fb3e5a3b0~ packet ~e381ae~ Encoder/Recorder ~e8bba2e98081e381abe5a4b1e69597e38197e381a6e38184e381bee38199e38082~'')
      (ja ''Encoder/Recorder ~e381ae~ public URL~e38081~service token~e38081~network ~e588b0e98194e680a7e38081e381bee3819fe381af~ stream assignment ~e381aee4b88de4b880e887b4e3818ce88083e38188e38289e3828ce381bee38199e38082~'')
      (round64 (78 / 100)) evidence
      (ja ''Bot ~e381afe99fb3e5a3b0e38292e58f97e38191e381a6e38184e381a6e38282~ Encoder/Recorder ~e381abe5b18ae3818be3819ae38081e9858de4bfa1e99fb3e5a3b0e3818ce784a1e99fb3e381abe381aae3828be58fafe883bde680a7e3818ce38182e3828ae381bee38199e38082~'')
      [
        ja ''discord.audio_forward_errors_total ~e381a8~ discord.audio_last_forward_age_sec ~e38292e7a2bae8aa8de38199e3828b~'',
        ja ''ENCODER_AUDIO_TOKEN ~e381a8~ SERVICE_CONTROL_TOKEN_SHA256 ~e38292e7a2bae8aa8de38199e3828b~'',
        ja ''Encoder/Recorder ~e381ae~ /streams/{id}/audio/opus ~e381abe588b0e98194e381a7e3818de3828be3818be7a2bae8aa8de38199e3828b~'',
        ja ''retry ~e5be8ce38282~ discord.audio_forwarded_total ~e3818ce5a297e38188e381aae38184e5a0b4e59088e381af~ Encoder/Recorder ~e381a8~ Bot ~e381aee5868de8b5b7e58b95e38292e6a49ce8a88ee38199e3828b~'']
      [''refresh_service_status'', ''rerun_diagnostics'']
      [''restart_discord_bot'', ''restart_encoder_recorder'']"

definition report_discord_audio_forward_recovered :: "string list \<Rightarrow> Report" where
  "report_discord_audio_forward_recovered evidence = report
      (ja ''Discord ~e99fb3e5a3b0~ packet ~e381aee8bba2e98081e381a7e4b880e69982e79a84e381aae5a4b1e69597e3818ce38182e3828ae381bee38197e3819fe3818ce38081e79bb4e8bf91e381aee8bba2e98081e381afe68890e58a9fe38197e381a6e38184e381bee38199e38082~'')
      (ja ''Encoder/Recorder ~e381aee4b880e69982e79a84e381aae6b7b7e99b91e38081~network ~e79eace696ade38081e381bee3819fe381af~ retry ~e381a7e59b9ee5bea9e58fafe883bde381aa~ transient failure ~e3818ce88083e38188e38289e3828ce381bee38199e38082~'')
      (round64 (62 / 100)) evidence
      (ja ''~e78fbee59ca8e381afe99fb3e5a3b0e8bba2e98081e3818ce59b9ee5bea9e38197e381a6e38184e381bee38199e3818ce38081e5a4b1e69597e3818ce7b9b0e3828ae8bf94e38195e3828ce3828be381a8e99fb3e58887e3828ce38284e784a1e99fb3e381abe381a4e381aae3818ce3828be58fafe883bde680a7e3818ce38182e3828ae381bee38199e38082~'')
      [
        ja ''discord.audio_forward_errors_total ~e381aee5a297e58aa0e582bee59091e38292e7a2bae8aa8de38199e3828b~'',
        ja ''discord.audio_forwarded_total ~e3818ce7b699e7b69ae38197e381a6e5a297e38188e381a6e38184e3828be3818be7a2bae8aa8de38199e3828b~'',
        ja ''~e5908ce38198~ incident ~e3818ce7b9b0e3828ae8bf94e38195e3828ce3828be5a0b4e59088e381af~ network ~e381a8~ Encoder/Recorder ~e8b2a0e88db7e38292e7a2bae8aa8de38199e3828b~'']
      [''refresh_service_status'', ''rerun_diagnostics'', ''clear_stale_warning'']
      []"

definition report_discord_audio_forward_stale :: "string list \<Rightarrow> Report" where
  "report_discord_audio_forward_stale evidence = report
      (ja ''Discord ~e99fb3e5a3b0~ packet ~e381ae~ Encoder/Recorder ~e8bba2e98081e3818ce5819ce6bb9ee38197e381a6e38184e381bee38199e38082~'')
      (ja ''Discord Bot ~e381afe8b5b7e58b95e38197e381a6e38184e3828be3818c~ Encoder/Recorder ~e381b8e381ae~ forward ~e3818ce980b2e38293e381a7e38184e381aae38184e38081e381bee3819fe381af~ retry ~e4b8ade381abe5a4b1e69597e3818ce7b69ae38184e381a6e38184e3828be58fafe883bde680a7e3818ce38182e3828ae381bee38199e38082~'')
      (round64 (74 / 100)) evidence
      (ja ''~e99fb3e5a3b0~ packet ~e3818c~ Encoder/Recorder ~e381abe5b18ae3818be3819ae38081e9858de4bfa1e99fb3e5a3b0e381a8e382a2e383bce382abe382a4e38396e99fb3e5a3b0e3818ce6aca0e890bde38199e3828be58fafe883bde680a7e3818ce38182e3828ae381bee38199e38082~'')
      [
        ja ''discord.audio_last_forward_age_sec ~e381a8~ discord.audio_forwarded_total ~e38292e7a2bae8aa8de38199e3828b~'',
        ja ''Encoder/Recorder ~e381ae~ /streams/{id}/audio-status ~e38292e7a2bae8aa8de38199e3828b~'',
        ja ''Bot ~e3818be38289~ Encoder/Recorder public URL ~e381b8e381aee588b0e98194e680a7e38292e7a2bae8aa8de38199e3828b~'']
      [''refresh_service_status'', ''rerun_diagnostics'']
      [''restart_discord_bot'', ''restart_encoder_recorder'']"

definition report_discord_reconnect_loop :: "string list \<Rightarrow> Report" where
  "report_discord_reconnect_loop evidence = report
      (ja ''Discord Gateway ~e381aee5868de68ea5e7b69ae3818ce7b9b0e3828ae8bf94e38195e3828ce381a6e38184e381bee38199e38082~'')
      (ja ''Bot ~e3818be38289~ Discord Gateway ~e381b8e381ae~ network ~e3818ce4b88de5ae89e5ae9ae38081~Discord ~e581b4~ rate limit / gateway close~e38081e381bee3819fe381af~ Bot host ~e381aee4b880e69982e5819ce6ada2e3818ce88083e38188e38289e3828ce381bee38199e38082~'')
      (round64 (70 / 100)) evidence
      (ja ''VC ~e58f82e58aa0e38081~participant tracking~e38081~active speaker~e38081e99fb3e5a3b0~ forward ~e3818ce4b880e69982e79a84e381abe98094e58887e3828ce3828be58fafe883bde680a7e3818ce38182e3828ae381bee38199e38082~'')
      [
        ja ''discord.reconnect_count ~e381aee5a297e58aa0e582bee59091e38292e7a2bae8aa8de38199e3828b~'',
        ja ''Bot host ~e381ae~ network ~e381a8~ DNS ~e38292e7a2bae8aa8de38199e3828b~'',
        ja ''Discord Bot ~e381ae~ gateway log ~e381a8~ service heartbeat ~e38292e7a2bae8aa8de38199e3828b~'']
      [''refresh_service_status'', ''rerun_diagnostics'']
      [''restart_discord_bot'']"

definition report_discord_voice_disconnected :: "string list \<Rightarrow> Report" where
  "report_discord_voice_disconnected evidence = report
      (ja ''Discord Bot ~e3818ce9858de4bfa1e4b8ade381ae~ voice channel ~e3818be38289e58887e696ade38195e3828ce381bee38197e3819fe38082~'')
      (ja ''Bot ~e3818ce6898be58b95e381a7~ VC ~e3818be38289e7a7bbe58b95e383bbe58887e696ade38195e3828ce3819fe38081~Discord voice connection ~e3818ce58887e696ade38195e3828ce3819fe38081e6a8a9e99990e5a489e69bb4e38284~ network ~e79eace696ade3818ce799bae7949fe38197e3819fe58fafe883bde680a7e3818ce38182e3828ae381bee38199e38082~'')
      (round64 (82 / 100)) evidence
      (ja ''~e9858de4bfa1e4b8ade381aee99fb3e5a3b0e585a5e58a9be3818ce6ada2e381bee3828ae38081~Encoder/Recorder ~e381b8e381ae~ audio forward ~e381a8~ caption/STT ~e585a5e58a9be3818ce6aca0e890bde38199e3828be58fafe883bde680a7e3818ce38182e3828ae381bee38199e38082~'')
      [
        ja ''discord.voice_disconnect_count ~e381a8~ discord.voice_connected ~e38292e7a2bae8aa8de38199e3828b~'',
        ja ''Bot ~e3818ce6ada3e38197e38184~ voice channel ~e381abe6ae8be381a3e381a6e38184e3828be3818be7a2bae8aa8de38199e3828b~'',
        ja ''Discord ~e581b4e381ae~ Connect / Speak ~e6a8a9e99990e381a8~ VC ~e7a7bbe58b95e5b1a5e6adb4e38292e7a2bae8aa8de38199e3828b~'',
        ja ''Encoder/Recorder ~e381ae~ /streams/{id}/audio-status ~e381a7~ packet ~e588b0e98194e38292e7a2bae8aa8de38199e3828b~'']
      [''refresh_service_status'', ''rerun_diagnostics'']
      [''reconnect_discord_voice'', ''restart_discord_bot'']"

definition report_media_input_timeout :: "string list \<Rightarrow> Report" where
  "report_media_input_timeout evidence = report
      (ja ''~e383a1e38387e382a3e382a2e585a5e58a9be3818ce382bfe382a4e383a0e382a2e382a6e38388e38197e381a6e38184e381bee38199e38082~'')
      (ja ''Discord Bot ~e3818be38289e381aee99fb3e5a3b0~ packet~e38081e5a496e983a8e585a5e58a9b~ stream~e38081e381bee3819fe381af~ Encoder ~e585a5e58a9be7b58ce8b7afe3818ce98185e5bbb6e38197e381a6e38184e3828be58fafe883bde680a7e3818ce38182e3828ae381bee38199e38082~'')
      (round64 (74 / 100)) evidence
      (ja ''~e9858de4bfa1e698a0e5838fe381bee3819fe381afe99fb3e5a3b0e3818ce5819ce6ada2e38197e38081e98cb2e794bbe381abe38282e6aca0e6908de3818ce6ae8be3828be58fafe883bde680a7e3818ce38182e3828ae381bee38199e38082~'')
      [
        ja ''~e585a5e58a9b~ stream ~e381a8~ Discord audio ingest ~e381aee4b8a1e696b9e38292e7a2bae8aa8de38199e3828b~'',
        ja ''Discord audio bridge mode ~e381a7e381af~ /streams/{id}/audio-status ~e381ae~ last_packet_age_sec ~e38292e7a2bae8aa8de38199e3828b~'',
        ja ''Encoder/Recorder ~e381ae~ process status ~e381a8~ logs.jsonl ~e38292e7a2bae8aa8de38199e3828b~'']
      [''refresh_service_status'', ''rerun_diagnostics'']
      [''restart_encoder_recorder'', ''restart_discord_bot'']"

definition report_encoder_quality :: "string list \<Rightarrow> Report" where
  "report_encoder_quality evidence = report
      (ja ''Encoder ~e381aee587bae58a9be59381e8b3aae3818ce4bd8ee4b88be38197e381a6e38184e381bee38199e38082~'')
      (ja ''~e585a5e58a9be59381e8b3aae38081~CPU/GPU ~e8b2a0e88db7e38081~encoder profile~e38081e381bee3819fe381af~ RTMPS ~e98081e4bfa1e5b8afe59f9fe381aee4b88de8b6b3e3818ce88083e38188e38289e3828ce381bee38199e38082~'')
      (round64 (70 / 100)) evidence
      (ja ''YouTube ~e9858de4bfa1e381aee382abe382afe381a4e3818de38081e794bbe8b3aae4bd8ee4b88be38081e98cb2e794bbe59381e8b3aae4bd8ee4b88be381abe381a4e381aae3818ce3828be58fafe883bde680a7e3818ce38182e3828ae381bee38199e38082~'')
      [
        ja ''Encoder host ~e381ae~ CPU/GPU/~e383a1e383a2e383aae8b2a0e88db7e38292e7a2bae8aa8de38199e3828b~'',
        ja ''encoder profile ~e381ae~ bitrate ~e381a8~ fps ~e38292e7a2bae8aa8de38199e3828b~'',
        ja ''~e585a5e58a9b~ stream ~e381a8e4b88ae3828ae5b8afe59f9fe38292e7a2bae8aa8de38199e3828b~'']
      [''refresh_service_status'', ''rerun_diagnostics'']
      [''restart_encoder_recorder'']"

definition report_worker_event_send_failed :: "string list \<Rightarrow> Report" where
  "report_worker_event_send_failed evidence = report
      (ja ''Worker ~e3818be38289~ Encoder/Recorder ~e381b8e381ae~ event ~e98081e4bfa1e381abe5a4b1e69597e38197e381a6e38184e381bee38199e38082~'')
      (ja ''Encoder/Recorder API ~e5819ce6ada2e38081~ENCODER_RECORDER_URL ~e381bee3819fe381af~ token ~e381aee8aaa4e3828ae38081~network ~e588b0e98194e680a7e38081~stream assignment ~e381aee4b88de4b880e887b4e3818ce88083e38188e38289e3828ce381bee38199e38082~'')
      (round64 (78 / 100)) evidence
      (ja ''caption~e38081~telop~e38081~participant list~e38081~active speaker~e38081~overlay ~e381aee58f8de698a0e3818ce98185e5bbb6e381bee3819fe381afe6aca0e890bde38199e3828be58fafe883bde680a7e3818ce38182e3828ae381bee38199e38082~'')
      [
        ja ''Control Panel ~e381ae~ Streams ~e794bbe99da2e381a7~ Worker event path ~e381a8~ Worker event sidecar ~e38292e7a2bae8aa8de38199e3828b~'',
        ja ''Worker ~e381a8~ Encoder/Recorder ~e381ae~ service health ~e38292e7a2bae8aa8de38199e3828b~'',
        ja ''ENCODER_RECORDER_URL ~e381a8~ ENCODER_RECORDER_TOKEN ~e38292e7a2bae8aa8de38199e3828b~'',
        ja ''Control Panel ~e381ae~ stream assignment ~e38292e7a2bae8aa8de38199e3828b~'']
      [''refresh_service_status'', ''rerun_diagnostics'']
      [''restart_worker'', ''restart_encoder_recorder'']"

definition report_disk_low :: "string list \<Rightarrow> Report" where
  "report_disk_low evidence = report
      (ja ''~e98cb2e794bbe58588e381bee3819fe381af~ host ~e381aee38387e382a3e382b9e382afe7a9bae3818de5aeb9e9878fe3818ce4b88de8b6b3e38197e381a6e38184e381bee38199e38082~'')
      (ja ''~e58fa4e38184~ archive~e38081~logs~e38081e4b880e69982e38395e382a1e382a4e383abe3818ce89384e7a98de38197e381a6e38184e3828be58fafe883bde680a7e3818ce38182e3828ae381bee38199e38082~'')
      (round64 (82 / 100)) evidence
      (ja ''~e98cb2e794bbe5819ce6ada2e38081~remux ~e5a4b1e69597e38081~archive upload ~e5a4b1e69597e381abe381a4e381aae3818ce3828be58fafe883bde680a7e3818ce38182e3828ae381bee38199e38082~'')
      [
        ja ''archive directory ~e381aee7a9bae3818de5aeb9e9878fe38292e7a2bae8aa8de38199e3828b~'',
        ja ''~e4b88de8a681e381aae4b880e69982e38395e382a1e382a4e383abe38292e6898be58b95e381a7e695b4e79086e38199e3828b~'']
      [''refresh_service_status'', ''rerun_diagnostics'']
      []"

definition report_stream_start_timeout :: "string list \<Rightarrow> Report" where
  "report_stream_start_timeout evidence = report
      (ja ''~e9858de4bfa1e9968be5a78be587a6e79086e3818ce683b3e5ae9ae69982e99693e58685e381abe5ae8ce4ba86e38197e381a6e38184e381bee3819be38293e38082~'')
      (ja ''~e589b2e3828ae5bd93e381a6~ service ~e381aee5bf9ce7ad94e98185e5bbb6e38081~Encoder ~e8b5b7e58b95e5a4b1e69597e38081~Discord voice ~e68ea5e7b69ae5a4b1e69597e3818ce88083e38188e38289e3828ce381bee38199e38082~'')
      (round64 (75 / 100)) evidence
      (ja ''~e9858de4bfa1e9968be5a78be3818ce588a9e794a8e88085e381abe5ae8ce4ba86e381a8e38197e381a6e8a68be38188e3819ae38081e6898be58b95e5868de8a9a6e8a18ce3818ce5bf85e8a681e381abe381aae3828be58fafe883bde680a7e3818ce38182e3828ae381bee38199e38082~'')
      [
        ja ''~e589b2e3828ae5bd93e381a6~ service ~e381ae~ heartbeat ~e381a8~ logs ~e38292e7a2bae8aa8de38199e3828b~'',
        ja ''stream job ~e381ae~ dispatch ~e7b590e69e9ce38292e7a2bae8aa8de38199e3828b~'']
      [''refresh_service_status'', ''rerun_diagnostics'']
      [''restart_encoder_recorder'', ''restart_discord_bot'', ''restart_worker'']"

definition report_stream_stop_timeout :: "string list \<Rightarrow> Report" where
  "report_stream_stop_timeout evidence = report
      (ja ''~e9858de4bfa1e5819ce6ada2e587a6e79086e3818ce683b3e5ae9ae69982e99693e58685e381abe5ae8ce4ba86e38197e381a6e38184e381bee3819be38293e38082~'')
      (ja ''Encoder ~e5819ce6ada2e38081~remux~e38081~archive package~e38081e381bee3819fe381af~ upload ~e5be85e381a1e381a7e8a9b0e381bee381a3e381a6e38184e3828be58fafe883bde680a7e3818ce38182e3828ae381bee38199e38082~'')
      (round64 (75 / 100)) evidence
      (ja ''~e98cb2e794bbe38395e382a1e382a4e383abe381aee7a2bae5ae9ae38284e382a2e383bce382abe382a4e38396e4bd9ce68890e3818ce98185e5bbb6e38199e3828be58fafe883bde680a7e3818ce38182e3828ae381bee38199e38082~'')
      [
        ja ''Encoder/Recorder ~e381ae~ process ~e78ab6e6858be38292e7a2bae8aa8de38199e3828b~'',
        ja ''archive package ~e78ab6e6858be38292e7a2bae8aa8de38199e3828b~'']
      [''refresh_service_status'', ''rerun_diagnostics'', ''retry_package_remux'']
      [''restart_encoder_recorder'']"

definition report_unexpected_stopped :: "string list \<Rightarrow> Report" where
  "report_unexpected_stopped evidence = report
      (ja ''~e9858de4bfa1e4b8ade381ae~ stream ~e3818ce4ba88e69c9fe3819be3819ae5819ce6ada2e38197e381bee38197e3819fe38082~'')
      (ja ''Encoder ~e795b0e5b8b8e7b582e4ba86e38081~Control Panel ~e4bba5e5a496e3818be38289e381aee5819ce6ada2e38081~process ~e99a9ce5aeb3e38081e381bee3819fe381afe4b88ae6b581e585a5e58a9be696ade7b5b6e3818ce88083e38188e38289e3828ce381bee38199e38082~'')
      (round64 (80 / 100)) evidence
      (ja ''Live ~e9858de4bfa1e3818ce4b8ade696ade38197e38081e98cb2e794bbe381a8e382a2e383bce382abe382a4e38396e3818ce4b88de5ae8ce585a8e381abe381aae3828be58fafe883bde680a7e3818ce38182e3828ae381bee38199e38082~'')
      [
        ja ''stream lifecycle logs ~e38292e7a2bae8aa8de38199e3828b~'',
        ja ''Encoder/Recorder ~e381a8~ Discord Bot ~e381aee79bb4e8bf91e383ade382b0e38292e7a2bae8aa8de38199e3828b~'']
      [''refresh_service_status'', ''rerun_diagnostics'']
      [''restart_encoder_recorder'', ''restart_discord_bot'']"

definition report_default :: "string list \<Rightarrow> Report" where
  "report_default evidence = report
      (ja ''~e795b0e5b8b8e3818ce6a49ce79fa5e38195e3828ce381bee38197e3819fe38082~'')
      (ja ''~e8a9b3e7b4b0e381aa~ metrics ~e381a8~ logs ~e381aee7a2bae8aa8de3818ce5bf85e8a681e381a7e38199e38082~'')
      (round64 (40 / 100)) evidence
      (ja ''~e5bdb1e99fbfe7af84e59bb2e381afe8bfbde58aa0e7a2bae8aa8de3818ce5bf85e8a681e381a7e38199e38082~'')
      [
        ja ''~e996a2e980a3e383ade382b0e381a8~ metrics ~e38292e7a2bae8aa8de38199e3828b~'']
      [''rerun_diagnostics'']
      []"

definition JapaneseReport :: "string \<Rightarrow> string list \<Rightarrow> Report" where
  "JapaneseReport rule evidence =
     (if rule = ''heartbeat_timeout'' then report_heartbeat_timeout evidence
      else if rule = ''encoder_process_exited'' then report_encoder_process_exited evidence
      else if rule = ''recorder_not_writing'' then report_recorder_not_writing evidence
      else if rule = ''archive_package_failed'' then report_archive_package_failed evidence
      else if rule = ''archive_remux_slow'' then report_archive_remux_slow evidence
      else if rule = ''gdrive_upload_failed'' then report_gdrive_upload_failed evidence
      else if rule = ''gdrive_upload_retry_high'' then report_gdrive_upload_retry_high evidence
      else if rule = ''high_packet_loss'' then report_high_packet_loss evidence
      else if rule = ''rtmps_reconnect_loop'' then report_rtmps_reconnect_loop evidence
      else if rule = ''audio_silence'' then report_audio_silence evidence
      else if rule = ''audio_clipping'' then report_audio_clipping evidence
      else if rule = ''discord_audio_not_receiving'' then report_discord_audio_not_receiving evidence
      else if rule = ''discord_audio_forward_inactive'' then report_discord_audio_forward_inactive evidence
      else if rule = ''discord_audio_forward_failed'' then report_discord_audio_forward_failed evidence
      else if rule = ''discord_audio_forward_recovered'' then report_discord_audio_forward_recovered evidence
      else if rule = ''discord_audio_forward_stale'' then report_discord_audio_forward_stale evidence
      else if rule = ''discord_reconnect_loop'' then report_discord_reconnect_loop evidence
      else if rule = ''discord_voice_disconnected'' then report_discord_voice_disconnected evidence
      else if rule = ''media_input_timeout'' then report_media_input_timeout evidence
      else if rule = ''encoder_low_fps'' \<or> rule = ''encoder_bitrate_low'' \<or> rule = ''encoder_dropped_frames_high'' then report_encoder_quality evidence
      else if rule = ''worker_event_send_failed'' then report_worker_event_send_failed evidence
      else if rule = ''disk_low'' then report_disk_low evidence
      else if rule = ''stream_start_timeout'' then report_stream_start_timeout evidence
      else if rule = ''stream_stop_timeout'' then report_stream_stop_timeout evidence
      else if rule = ''unexpected_stopped'' then report_unexpected_stopped evidence
      else report_default evidence)"

subsection \<open>The actions each report offers\<close>

lemma report_heartbeat_timeout_actions [simp]:
  "rpSafeAutoCandidates (report_heartbeat_timeout ev) = [''refresh_service_status'', ''rerun_diagnostics'']"
  "rpApprovalRequired (report_heartbeat_timeout ev) = [''restart_service'']"
  "rpEvidence (report_heartbeat_timeout ev) = ev"
  by (simp_all add: report_heartbeat_timeout_def report_def)

lemma report_encoder_process_exited_actions [simp]:
  "rpSafeAutoCandidates (report_encoder_process_exited ev) = [''refresh_service_status'', ''rerun_diagnostics'']"
  "rpApprovalRequired (report_encoder_process_exited ev) = [''restart_encoder_recorder'', ''restart_youtube_rtmps_output'']"
  "rpEvidence (report_encoder_process_exited ev) = ev"
  by (simp_all add: report_encoder_process_exited_def report_def)

lemma report_recorder_not_writing_actions [simp]:
  "rpSafeAutoCandidates (report_recorder_not_writing ev) = [''refresh_service_status'', ''rerun_diagnostics'']"
  "rpApprovalRequired (report_recorder_not_writing ev) = [''restart_encoder_recorder'']"
  "rpEvidence (report_recorder_not_writing ev) = ev"
  by (simp_all add: report_recorder_not_writing_def report_def)

lemma report_archive_package_failed_actions [simp]:
  "rpSafeAutoCandidates (report_archive_package_failed ev) = [''retry_package_remux'', ''rerun_diagnostics'']"
  "rpApprovalRequired (report_archive_package_failed ev) = [''restart_encoder_recorder'']"
  "rpEvidence (report_archive_package_failed ev) = ev"
  by (simp_all add: report_archive_package_failed_def report_def)

lemma report_archive_remux_slow_actions [simp]:
  "rpSafeAutoCandidates (report_archive_remux_slow ev) = [''refresh_service_status'', ''rerun_diagnostics'']"
  "rpApprovalRequired (report_archive_remux_slow ev) = []"
  "rpEvidence (report_archive_remux_slow ev) = ev"
  by (simp_all add: report_archive_remux_slow_def report_def)

lemma report_gdrive_upload_failed_actions [simp]:
  "rpSafeAutoCandidates (report_gdrive_upload_failed ev) = [''retry_gdrive_upload'', ''rerun_diagnostics'']"
  "rpApprovalRequired (report_gdrive_upload_failed ev) = []"
  "rpEvidence (report_gdrive_upload_failed ev) = ev"
  by (simp_all add: report_gdrive_upload_failed_def report_def)

lemma report_gdrive_upload_retry_high_actions [simp]:
  "rpSafeAutoCandidates (report_gdrive_upload_retry_high ev) = [''retry_gdrive_upload'', ''rerun_diagnostics'']"
  "rpApprovalRequired (report_gdrive_upload_retry_high ev) = []"
  "rpEvidence (report_gdrive_upload_retry_high ev) = ev"
  by (simp_all add: report_gdrive_upload_retry_high_def report_def)

lemma report_high_packet_loss_actions [simp]:
  "rpSafeAutoCandidates (report_high_packet_loss ev) = [''refresh_service_status'', ''rerun_diagnostics'']"
  "rpApprovalRequired (report_high_packet_loss ev) = []"
  "rpEvidence (report_high_packet_loss ev) = ev"
  by (simp_all add: report_high_packet_loss_def report_def)

lemma report_rtmps_reconnect_loop_actions [simp]:
  "rpSafeAutoCandidates (report_rtmps_reconnect_loop ev) = [''refresh_service_status'', ''rerun_diagnostics'']"
  "rpApprovalRequired (report_rtmps_reconnect_loop ev) = [''restart_youtube_rtmps_output'']"
  "rpEvidence (report_rtmps_reconnect_loop ev) = ev"
  by (simp_all add: report_rtmps_reconnect_loop_def report_def)

lemma report_audio_silence_actions [simp]:
  "rpSafeAutoCandidates (report_audio_silence ev) = [''refresh_service_status'', ''rerun_diagnostics'']"
  "rpApprovalRequired (report_audio_silence ev) = [''reconnect_discord_voice'', ''restart_discord_bot'']"
  "rpEvidence (report_audio_silence ev) = ev"
  by (simp_all add: report_audio_silence_def report_def)

lemma report_audio_clipping_actions [simp]:
  "rpSafeAutoCandidates (report_audio_clipping ev) = [''refresh_service_status'', ''rerun_diagnostics'']"
  "rpApprovalRequired (report_audio_clipping ev) = [''restart_encoder_recorder'']"
  "rpEvidence (report_audio_clipping ev) = ev"
  by (simp_all add: report_audio_clipping_def report_def)

lemma report_discord_audio_not_receiving_actions [simp]:
  "rpSafeAutoCandidates (report_discord_audio_not_receiving ev) = [''refresh_service_status'', ''rerun_diagnostics'']"
  "rpApprovalRequired (report_discord_audio_not_receiving ev) = [''reconnect_discord_voice'', ''restart_discord_bot'']"
  "rpEvidence (report_discord_audio_not_receiving ev) = ev"
  by (simp_all add: report_discord_audio_not_receiving_def report_def)

lemma report_discord_audio_forward_inactive_actions [simp]:
  "rpSafeAutoCandidates (report_discord_audio_forward_inactive ev) = [''refresh_service_status'', ''rerun_diagnostics'']"
  "rpApprovalRequired (report_discord_audio_forward_inactive ev) = [''restart_discord_bot'']"
  "rpEvidence (report_discord_audio_forward_inactive ev) = ev"
  by (simp_all add: report_discord_audio_forward_inactive_def report_def)

lemma report_discord_audio_forward_failed_actions [simp]:
  "rpSafeAutoCandidates (report_discord_audio_forward_failed ev) = [''refresh_service_status'', ''rerun_diagnostics'']"
  "rpApprovalRequired (report_discord_audio_forward_failed ev) = [''restart_discord_bot'', ''restart_encoder_recorder'']"
  "rpEvidence (report_discord_audio_forward_failed ev) = ev"
  by (simp_all add: report_discord_audio_forward_failed_def report_def)

lemma report_discord_audio_forward_recovered_actions [simp]:
  "rpSafeAutoCandidates (report_discord_audio_forward_recovered ev) = [''refresh_service_status'', ''rerun_diagnostics'', ''clear_stale_warning'']"
  "rpApprovalRequired (report_discord_audio_forward_recovered ev) = []"
  "rpEvidence (report_discord_audio_forward_recovered ev) = ev"
  by (simp_all add: report_discord_audio_forward_recovered_def report_def)

lemma report_discord_audio_forward_stale_actions [simp]:
  "rpSafeAutoCandidates (report_discord_audio_forward_stale ev) = [''refresh_service_status'', ''rerun_diagnostics'']"
  "rpApprovalRequired (report_discord_audio_forward_stale ev) = [''restart_discord_bot'', ''restart_encoder_recorder'']"
  "rpEvidence (report_discord_audio_forward_stale ev) = ev"
  by (simp_all add: report_discord_audio_forward_stale_def report_def)

lemma report_discord_reconnect_loop_actions [simp]:
  "rpSafeAutoCandidates (report_discord_reconnect_loop ev) = [''refresh_service_status'', ''rerun_diagnostics'']"
  "rpApprovalRequired (report_discord_reconnect_loop ev) = [''restart_discord_bot'']"
  "rpEvidence (report_discord_reconnect_loop ev) = ev"
  by (simp_all add: report_discord_reconnect_loop_def report_def)

lemma report_discord_voice_disconnected_actions [simp]:
  "rpSafeAutoCandidates (report_discord_voice_disconnected ev) = [''refresh_service_status'', ''rerun_diagnostics'']"
  "rpApprovalRequired (report_discord_voice_disconnected ev) = [''reconnect_discord_voice'', ''restart_discord_bot'']"
  "rpEvidence (report_discord_voice_disconnected ev) = ev"
  by (simp_all add: report_discord_voice_disconnected_def report_def)

lemma report_media_input_timeout_actions [simp]:
  "rpSafeAutoCandidates (report_media_input_timeout ev) = [''refresh_service_status'', ''rerun_diagnostics'']"
  "rpApprovalRequired (report_media_input_timeout ev) = [''restart_encoder_recorder'', ''restart_discord_bot'']"
  "rpEvidence (report_media_input_timeout ev) = ev"
  by (simp_all add: report_media_input_timeout_def report_def)

lemma report_encoder_quality_actions [simp]:
  "rpSafeAutoCandidates (report_encoder_quality ev) = [''refresh_service_status'', ''rerun_diagnostics'']"
  "rpApprovalRequired (report_encoder_quality ev) = [''restart_encoder_recorder'']"
  "rpEvidence (report_encoder_quality ev) = ev"
  by (simp_all add: report_encoder_quality_def report_def)

lemma report_worker_event_send_failed_actions [simp]:
  "rpSafeAutoCandidates (report_worker_event_send_failed ev) = [''refresh_service_status'', ''rerun_diagnostics'']"
  "rpApprovalRequired (report_worker_event_send_failed ev) = [''restart_worker'', ''restart_encoder_recorder'']"
  "rpEvidence (report_worker_event_send_failed ev) = ev"
  by (simp_all add: report_worker_event_send_failed_def report_def)

lemma report_disk_low_actions [simp]:
  "rpSafeAutoCandidates (report_disk_low ev) = [''refresh_service_status'', ''rerun_diagnostics'']"
  "rpApprovalRequired (report_disk_low ev) = []"
  "rpEvidence (report_disk_low ev) = ev"
  by (simp_all add: report_disk_low_def report_def)

lemma report_stream_start_timeout_actions [simp]:
  "rpSafeAutoCandidates (report_stream_start_timeout ev) = [''refresh_service_status'', ''rerun_diagnostics'']"
  "rpApprovalRequired (report_stream_start_timeout ev) = [''restart_encoder_recorder'', ''restart_discord_bot'', ''restart_worker'']"
  "rpEvidence (report_stream_start_timeout ev) = ev"
  by (simp_all add: report_stream_start_timeout_def report_def)

lemma report_stream_stop_timeout_actions [simp]:
  "rpSafeAutoCandidates (report_stream_stop_timeout ev) = [''refresh_service_status'', ''rerun_diagnostics'', ''retry_package_remux'']"
  "rpApprovalRequired (report_stream_stop_timeout ev) = [''restart_encoder_recorder'']"
  "rpEvidence (report_stream_stop_timeout ev) = ev"
  by (simp_all add: report_stream_stop_timeout_def report_def)

lemma report_unexpected_stopped_actions [simp]:
  "rpSafeAutoCandidates (report_unexpected_stopped ev) = [''refresh_service_status'', ''rerun_diagnostics'']"
  "rpApprovalRequired (report_unexpected_stopped ev) = [''restart_encoder_recorder'', ''restart_discord_bot'']"
  "rpEvidence (report_unexpected_stopped ev) = ev"
  by (simp_all add: report_unexpected_stopped_def report_def)

lemma report_default_actions [simp]:
  "rpSafeAutoCandidates (report_default ev) = [''rerun_diagnostics'']"
  "rpApprovalRequired (report_default ev) = []"
  "rpEvidence (report_default ev) = ev"
  by (simp_all add: report_default_def report_def)

end
