(* ===== verification/Store_Types.thy ===== *)
theory Store_Types
  imports Diagnostics
begin

text \<open>
  The data model of \<^verbatim>\<open>internal/store/types.go\<close>.  A pointer or a slice whose \<^verbatim>\<open>nil\<close> the code
  distinguishes is an \<open>option\<close>; record fields carry a prefix naming the struct.
\<close>

record Signal =
  sigID :: string
  sigType :: string
  sigName :: string
  sigServiceID :: string
  sigServiceType :: string
  sigStreamID :: string
  sigStatus :: string
  sigValue :: "float64 option"
  sigAttributes :: attrs
  sigTimestamp :: instant
  sigCreatedAt :: instant

record Incident =
  incID :: string
  incRule :: string
  incSeverity :: string
  incStatus :: string
  incSummaryJA :: string
  incSourceSummary :: string
  incServiceID :: string
  incStreamID :: string
  incSignalID :: string
  incReport :: Report
  incOpenedAt :: instant
  incUpdatedAt :: instant
  incResolvedAt :: "instant option"
  incOccurrenceCount :: int
  incLastSeenAt :: instant
  incResolvedBySignalID :: string
  incResolutionReason :: string
  incSeverityChanged :: bool
  incStatusChanged :: bool
  incNotificationResourceType :: string
  incNotificationResourceID :: string
  incNotificationActor :: string
  incNotificationDetails :: string

text \<open>The zero value \<^verbatim>\<open>Incident{}\<close>.\<close>

definition zeroIncident :: Incident where
  "zeroIncident = \<lparr>incID = [], incRule = [], incSeverity = [], incStatus = [], incSummaryJA = [],
     incSourceSummary = [], incServiceID = [], incStreamID = [], incSignalID = [],
     incReport = zeroReport, incOpenedAt = 0, incUpdatedAt = 0, incResolvedAt = None,
     incOccurrenceCount = 0, incLastSeenAt = 0, incResolvedBySignalID = [],
     incResolutionReason = [], incSeverityChanged = False, incStatusChanged = False,
     incNotificationResourceType = [], incNotificationResourceID = [],
     incNotificationActor = [], incNotificationDetails = []\<rparr>"

record NotificationDelivery =
  ndID :: string
  ndEventType :: string
  ndChannel :: string
  ndTarget :: string
  ndIncidentID :: string
  ndStatus :: string
  ndError :: string
  ndMetadata :: attrs
  ndCreatedAt :: instant

record NotificationChannel =
  chID :: string
  chName :: string
  chType :: string
  chEnabled :: bool
  chUseGlobalSMTP :: bool
  chUseGlobalSMTPSet :: bool
  chWebhookURL :: string
  chMaskedWebhookURL :: string
  chEmailRecipients :: "string list option"
  chSMTPHost :: string
  chSMTPPort :: int
  chSMTPTLS :: bool
  chSMTPFrom :: string
  chSMTPUsername :: string
  chSMTPPassword :: string
  chSMTPPasswordConfigured :: bool
  chMaskedEmailTarget :: string
  chSeverityFilter :: "string list option"
  chEventTypeFilter :: "string list option"
  chCreatedAt :: instant
  chUpdatedAt :: instant

text \<open>What \<^verbatim>\<open>NotificationChannel.MarshalJSON\<close> hands to the JSON encoder.\<close>

record publicNotificationChannelJSON =
  pjID :: string
  pjName :: string
  pjType :: string
  pjEnabled :: bool
  pjUseGlobalSMTP :: bool
  pjMaskedWebhookURL :: string
  pjSMTPPasswordConfigured :: bool
  pjMaskedEmailTarget :: string
  pjSeverityFilter :: "string list option"
  pjEventTypeFilter :: "string list option"
  pjCreatedAt :: instant
  pjUpdatedAt :: instant

definition MarshalJSON :: "NotificationChannel \<Rightarrow> publicNotificationChannelJSON" where
  "MarshalJSON c = \<lparr>
     pjID = chID c, pjName = chName c, pjType = chType c, pjEnabled = chEnabled c,
     pjUseGlobalSMTP = chUseGlobalSMTP c, pjMaskedWebhookURL = chMaskedWebhookURL c,
     pjSMTPPasswordConfigured = chSMTPPasswordConfigured c,
     pjMaskedEmailTarget = chMaskedEmailTarget c, pjSeverityFilter = chSeverityFilter c,
     pjEventTypeFilter = chEventTypeFilter c, pjCreatedAt = chCreatedAt c, pjUpdatedAt = chUpdatedAt c\<rparr>"

record RemediationAction =
  raID :: string
  raIncidentID :: string
  raAction :: string
  raMode :: string
  raStatus :: string
  raSafeAuto :: bool
  raRequiresApproval :: bool
  raResult :: string
  raCreatedAt :: instant
  raUpdatedAt :: instant
  raExecutedAt :: "instant option"

record MetricSnapshot =
  msName :: string
  msServiceID :: string
  msServiceType :: string
  msStreamID :: string
  msStatus :: string
  msValue :: "float64 option"
  msAttributes :: attrs
  msUpdatedAt :: instant

record MetricQuery =
  mqSince :: instant
  mqMaxPointsPerSeries :: int

text \<open>
  What one store operation takes from its surroundings: the error of its context, the clock
  reading and the random bytes for a new identifier (\<open>None\<close> when \<^verbatim>\<open>rand.Read\<close> fails).
\<close>

record tick =
  tkCtx :: "goerr option"
  tkNow :: instant
  tkRand :: "string option"

definition newID :: "string \<Rightarrow> tick \<Rightarrow> string" where
  "newID pre t = (case tkRand t of
     None \<Rightarrow> pre @ ''_id_unavailable''
   | Some b \<Rightarrow> pre @ ''_'' @ hexEncode b)"

lemma newID_nonempty [simp]: "newID p t \<noteq> []"
  by (simp add: newID_def split: option.splits)

end
