(* ===== verification/Channels.thy ===== *)
theory Channels
  imports Store_Types
begin

text \<open>
  Notification channel configuration in \<^verbatim>\<open>internal/store/memory.go\<close>: type normalisation, SMTP
  configuration and the masking of webhook URLs and mail recipients.
\<close>

definition normalizeChannelType :: "string \<Rightarrow> string" where
  "normalizeChannelType value =
     (let normalized = ToLower (TrimSpace value) in
      if normalized = ''discord'' \<or> normalized = ''slack'' then normalized
      else if normalized = ''email'' then ''email''
      else ''generic'')"

definition hasLegacySMTPConfiguration :: "NotificationChannel \<Rightarrow> bool" where
  "hasLegacySMTPConfiguration c \<longleftrightarrow>
     TrimSpace (chSMTPHost c) \<noteq> [] \<or> chSMTPPort c \<noteq> 0 \<or> TrimSpace (chSMTPFrom c) \<noteq> [] \<or>
     TrimSpace (chSMTPUsername c) \<noteq> [] \<or> TrimSpace (chSMTPPassword c) \<noteq> [] \<or>
     chSMTPPasswordConfigured c"

definition clearLegacySMTPConfiguration :: "NotificationChannel \<Rightarrow> NotificationChannel" where
  "clearLegacySMTPConfiguration c = c\<lparr>chSMTPHost := [], chSMTPPort := 0, chSMTPTLS := False,
     chSMTPFrom := [], chSMTPUsername := [], chSMTPPassword := [], chSMTPPasswordConfigured := False\<rparr>"

text \<open>One recipient of \<^verbatim>\<open>maskEmailRecipients\<close>, already trimmed and not empty.\<close>

definition maskRecipient :: "string \<Rightarrow> string" where
  "maskRecipient recipient =
     (case splitByte (CHR ''@'') recipient of
        [local, domain] \<Rightarrow>
          if local = [] \<or> domain = [] then ''<EMAIL>''
          else (if length local > 2 then take 1 local @ ''***'' @ drop (length local - 1) local
                else ''***'') @ ''@<EMAIL_DOMAIN>''
      | _ \<Rightarrow> ''<EMAIL>'')"

definition maskEmailRecipients :: "string list \<Rightarrow> string" where
  "maskEmailRecipients recipients =
     strJoin (map maskRecipient (filter (\<lambda>r. r \<noteq> []) (map TrimSpace recipients))) '',''"

definition maskedWebhookHost :: "string \<Rightarrow> string" where
  "maskedWebhookHost host =
     (let normalized = ToLower (TrimSpace host) in
      if normalized = ''discord.com'' \<or> HasSuffix normalized ''.discord.com'' then ''discord.com''
      else if normalized = ''hooks.slack.com'' then ''hooks.slack.com''
      else ''<WEBHOOK_HOST>'')"

definition maskWebhookURL :: "goenv \<Rightarrow> string \<Rightarrow> string" where
  "maskWebhookURL env raw =
     (if raw = [] then []
      else case urlParse env raw of
        None \<Rightarrow> ''<WEBHOOK_URL>''
      | Some u \<Rightarrow>
          if urlScheme u = [] \<or> urlHost u = [] then ''<WEBHOOK_URL>''
          else urlScheme u @ ''://'' @ maskedWebhookHost (urlHost u) @ ''/<WEBHOOK_PATH>'')"

text \<open>
  \<^verbatim>\<open>normalizeNotificationChannelSecrets\<close>: first the SMTP choice of a mail channel, then the
  masked and derived fields.
\<close>

definition chooseSMTP :: "NotificationChannel \<Rightarrow> NotificationChannel" where
  "chooseSMTP c =
     (let c1 = (if chUseGlobalSMTPSet c \<and> chUseGlobalSMTP c then clearLegacySMTPConfiguration c else c) in
      if \<not> hasLegacySMTPConfiguration c1 then c1\<lparr>chUseGlobalSMTP := True\<rparr>
      else if \<not> chUseGlobalSMTPSet c1 then c1\<lparr>chUseGlobalSMTP := False\<rparr>
      else c1)"

definition normalizeNotificationChannelSecrets :: "goenv \<Rightarrow> NotificationChannel \<Rightarrow> NotificationChannel" where
  "normalizeNotificationChannelSecrets env c =
     (if chType c = ''email'' then
        (let c1 = chooseSMTP c;
             c2 = c1\<lparr>chMaskedWebhookURL := [],
                     chSMTPPasswordConfigured := (TrimSpace (chSMTPPassword c1) \<noteq> [] \<or> chSMTPPasswordConfigured c1),
                     chMaskedEmailTarget := maskEmailRecipients (case chEmailRecipients c1 of None \<Rightarrow> [] | Some rs \<Rightarrow> rs)\<rparr>
         in if \<not> chUseGlobalSMTP c2 \<and> chSMTPPort c2 = 0 then c2\<lparr>chSMTPPort := 587\<rparr> else c2)
      else c\<lparr>chMaskedWebhookURL := maskWebhookURL env (chWebhookURL c)\<rparr>)"

definition publicChannel :: "goenv \<Rightarrow> NotificationChannel \<Rightarrow> NotificationChannel" where
  "publicChannel env c = normalizeNotificationChannelSecrets env c"

subsection \<open>Lemmas\<close>

lemma normalizeChannelType_cases:
  "normalizeChannelType v \<in> {''discord'', ''slack'', ''email'', ''generic''}"
  by (simp add: normalizeChannelType_def Let_def)

lemma maskedWebhookHost_cases:
  "maskedWebhookHost h \<in> {''discord.com'', ''hooks.slack.com'', ''<WEBHOOK_HOST>''}"
  by (simp add: maskedWebhookHost_def Let_def)

lemma hasLegacy_clear [simp]: "\<not> hasLegacySMTPConfiguration (clearLegacySMTPConfiguration c)"
  by (simp add: hasLegacySMTPConfiguration_def clearLegacySMTPConfiguration_def)

lemma clearLegacy_fields [simp]:
  "chUseGlobalSMTP (clearLegacySMTPConfiguration c) = chUseGlobalSMTP c"
  "chUseGlobalSMTPSet (clearLegacySMTPConfiguration c) = chUseGlobalSMTPSet c"
  "chType (clearLegacySMTPConfiguration c) = chType c"
  "chEmailRecipients (clearLegacySMTPConfiguration c) = chEmailRecipients c"
  by (simp_all add: clearLegacySMTPConfiguration_def)

lemma clearLegacy_idem [simp]:
  "clearLegacySMTPConfiguration (clearLegacySMTPConfiguration c) = clearLegacySMTPConfiguration c"
  by (simp add: clearLegacySMTPConfiguration_def)

text \<open>A mail channel after normalisation: global SMTP exactly when there is no legacy configuration, unless the caller chose.\<close>

lemma chooseSMTP_consistent:
  "chUseGlobalSMTP (chooseSMTP c) \<Longrightarrow> \<not> hasLegacySMTPConfiguration (chooseSMTP c)"
proof -
  have keep: "hasLegacySMTPConfiguration (d\<lparr>chUseGlobalSMTP := b\<rparr>) = hasLegacySMTPConfiguration d" for d b
    by (simp add: hasLegacySMTPConfiguration_def)
  show "chUseGlobalSMTP (chooseSMTP c) \<Longrightarrow> \<not> hasLegacySMTPConfiguration (chooseSMTP c)"
    by (simp add: chooseSMTP_def Let_def keep split: if_split_asm)
qed

end
