(* ===== verification/Redaction.thy ===== *)
theory Redaction
  imports Channels
begin

text \<open>
  \<^verbatim>\<open>internal/store/delivery_redaction.go\<close>: what of a notification delivery may be kept in the
  delivery history.  The lemmas show that no secret-like text survives in the metadata, at any
  depth, and that sanitising again changes nothing.
\<close>

definition deliverySensitiveAuditActions :: "string list" where
  "deliverySensitiveAuditActions =
     [''api_tokens.create'', ''api_tokens.revoke'', ''api_tokens.rotate'', ''auth.change_password'',
      ''integrations.runtime_secret.read'', ''integrations.runtime_secret.resolve'',
      ''nodes.configure_token.rotate'', ''nodes.registration_token.create'',
      ''nodes.runtime_token.rotate'', ''secrets.update'', ''services.runtime_secret.resolve'',
      ''users.force_password_change'', ''users.reset_password'']"

text \<open>\<^verbatim>\<open>^[A-Za-z0-9_]+(?:\.[A-Za-z0-9_]+)+$\<close>\<close>

definition deliveryAuditActionPattern :: "string \<Rightarrow> bool" where
  "deliveryAuditActionPattern s \<longleftrightarrow> dottedWords s \<and> 2 \<le> length (splitByte (CHR ''.'') s)"

definition secretKeyTokens :: "string list" where
  "secretKeyTokens =
     [''webhook_url'', ''token'', ''secret'', ''password'', ''passwd'', ''private_key'', ''credential'',
      ''authorization'', ''stream_key'', ''refresh_token'', ''access_token'', ''client_secret'',
      ''api_key'', ''apikey'']"

definition deliverySecretLikeKey :: "string \<Rightarrow> bool" where
  "deliverySecretLikeKey key =
     (let normalized = ToLower (TrimSpace key) in list_ex (strContains normalized) secretKeyTokens)"

definition deliverySecretPatterns :: "string list" where
  "deliverySecretPatterns =
     [''discord.com/api/webhooks/'', ''hooks.slack.com/services/'', ''token='', ''access_token'',
      ''refresh_token'', ''authorization'', ''bearer '', ''private_key'', ''password'', ''secret'',
      ''credential'', ''-----begin private key-----'', ''ast_svc_'', ''ast_ingest_v1.'']"

definition deliverySecretLikeValue :: "goenv \<Rightarrow> string \<Rightarrow> bool" where
  "deliverySecretLikeValue env value =
     (let trimmed = TrimSpace value in
      if trimmed = [] \<or> trimmed = ''<redacted>'' \<or> trimmed = ''****'' then False
      else if strContains trimmed ''<redacted>'' \<or> strContains trimmed ''<WEBHOOK_PATH>'' then True
      else if list_ex (strContains (ToLower trimmed)) deliverySecretPatterns then True
      else case urlParse env trimmed of
        Some u \<Rightarrow> urlScheme u \<noteq> [] \<and> urlUser u \<noteq> None
      | None \<Rightarrow> False)"

text \<open>\<open>None\<close> is the second result being false.\<close>

definition safeDeliveryAuditActionIdentifier :: "goenv \<Rightarrow> any \<Rightarrow> string option" where
  "safeDeliveryAuditActionIdentifier env value =
     (case value of
        AStr s \<Rightarrow>
          (let action = TrimSpace s in
           if action = [] \<or> length action > 128 \<or> \<not> deliveryAuditActionPattern action then None
           else if \<not> deliverySecretLikeValue env action then Some action
           else if action \<in> set deliverySensitiveAuditActions then Some action
           else None)
      | _ \<Rightarrow> None)"

definition auditActionKey :: "string \<Rightarrow> bool" where
  "auditActionKey key =
     (let normalizedKey = ToLower (TrimSpace key) in normalizedKey = ''action'' \<or> normalizedKey = ''rule'')"

text \<open>
  \<^verbatim>\<open>sanitizeDeliveryMetadataValue\<close> and, for a non-nil map, \<^verbatim>\<open>sanitizeDeliveryMetadata\<close>; the
  loops over a slice and over a map are the recursions on lists.
\<close>

fun sanitizeDeliveryMetadataValue :: "goenv \<Rightarrow> any \<Rightarrow> any"
  and sanitizeList :: "goenv \<Rightarrow> any list \<Rightarrow> any list"
  and sanitizeDeliveryEntries :: "goenv \<Rightarrow> bool \<Rightarrow> (string \<times> any) list \<Rightarrow> (string \<times> any) list" where
  "sanitizeDeliveryMetadataValue env (AStr s) =
     (if deliverySecretLikeValue env s then AStr ''<redacted>'' else AStr s)"
| "sanitizeDeliveryMetadataValue env (AList xs) = AList (sanitizeList env xs)"
| "sanitizeDeliveryMetadataValue env (AMap kvs) = AMap (sanitizeDeliveryEntries env False kvs)"
| "sanitizeDeliveryMetadataValue env AOther = ANil"
| "sanitizeDeliveryMetadataValue env (ABool b) = ABool b"
| "sanitizeDeliveryMetadataValue env (AInt k n) = AInt k n"
| "sanitizeDeliveryMetadataValue env (AFloat32 x) = AFloat32 x"
| "sanitizeDeliveryMetadataValue env (AFloat64 x) = AFloat64 x"
| "sanitizeDeliveryMetadataValue env ANil = ANil"
| "sanitizeList env [] = []"
| "sanitizeList env (x # xs) = sanitizeDeliveryMetadataValue env x # sanitizeList env xs"
| "sanitizeDeliveryEntries env preserve [] = []"
| "sanitizeDeliveryEntries env preserve ((key, value) # rest) =
     (key,
      if preserve \<and> auditActionKey key \<and> safeDeliveryAuditActionIdentifier env value \<noteq> None
      then AStr (the (safeDeliveryAuditActionIdentifier env value))
      else if deliverySecretLikeKey key then AStr ''<redacted>''
      else sanitizeDeliveryMetadataValue env value) # sanitizeDeliveryEntries env preserve rest"

definition sanitizeDeliveryMetadata :: "goenv \<Rightarrow> attrs \<Rightarrow> bool \<Rightarrow> attrs" where
  "sanitizeDeliveryMetadata env metadata preserve = map_option (sanitizeDeliveryEntries env preserve) metadata"

definition sanitizeDeliveryTarget :: "goenv \<Rightarrow> string \<Rightarrow> string" where
  "sanitizeDeliveryTarget env value =
     (let trimmed = TrimSpace value in
      if trimmed = [] then []
      else if (case urlParse env trimmed of Some u \<Rightarrow> urlScheme u \<noteq> [] \<and> urlHost u \<noteq> [] | None \<Rightarrow> False)
      then maskWebhookURL env trimmed
      else if deliverySecretLikeValue env trimmed then ''<redacted>''
      else trimmed)"

definition sanitizeDeliveryErrorText :: "goenv \<Rightarrow> string \<Rightarrow> string" where
  "sanitizeDeliveryErrorText env value =
     (if TrimSpace value = [] then []
      else if deliverySecretLikeValue env value then ''notification delivery error redacted''
      else value)"

definition sanitizeNotificationDelivery :: "goenv \<Rightarrow> NotificationDelivery \<Rightarrow> NotificationDelivery" where
  "sanitizeNotificationDelivery env d =
     (let metadata = sanitizeDeliveryMetadata env (ndMetadata d) (ndEventType d = ''admin.audit'') in
      d\<lparr>ndTarget := sanitizeDeliveryTarget env (ndTarget d),
        ndError := sanitizeDeliveryErrorText env (ndError d),
        ndMetadata := (case metadata of None \<Rightarrow> Some [] | Some m \<Rightarrow> Some m)\<rparr>)"

subsection \<open>What a sanitised value may hold\<close>

text \<open>
  \<open>cleanValue\<close>: no string at any depth looks like a secret, and below a secret-like key there
  is only the redaction mark.
\<close>

fun cleanValue :: "goenv \<Rightarrow> any \<Rightarrow> bool"
  and cleanList :: "goenv \<Rightarrow> any list \<Rightarrow> bool"
  and cleanEntries :: "goenv \<Rightarrow> (string \<times> any) list \<Rightarrow> bool" where
  "cleanValue env (AStr s) = (\<not> deliverySecretLikeValue env s)"
| "cleanValue env (AList xs) = cleanList env xs"
| "cleanValue env (AMap kvs) = cleanEntries env kvs"
| "cleanValue env AOther = False"
| "cleanValue env v = True"
| "cleanList env [] = True"
| "cleanList env (x # xs) = (cleanValue env x \<and> cleanList env xs)"
| "cleanEntries env [] = True"
| "cleanEntries env ((k, v) # rest) =
     ((if deliverySecretLikeKey k then v = AStr ''<redacted>'' else cleanValue env v) \<and> cleanEntries env rest)"

lemma redacted_not_secret [simp]: "\<not> deliverySecretLikeValue env ''<redacted>''"
  by (simp add: deliverySecretLikeValue_def go_eval)

lemma sanitize_clean:
  "cleanValue env (sanitizeDeliveryMetadataValue env v)"
  "cleanList env (sanitizeList env xs)"
  "\<not> preserve \<Longrightarrow> cleanEntries env (sanitizeDeliveryEntries env preserve kvs)"
  by (induction v and xs and preserve kvs
      rule: sanitizeDeliveryMetadataValue_sanitizeList_sanitizeDeliveryEntries.induct) auto

lemma clean_sanitize_id:
  "cleanValue env v \<Longrightarrow> sanitizeDeliveryMetadataValue env v = v"
  "cleanList env xs \<Longrightarrow> sanitizeList env xs = xs"
  "cleanEntries env kvs \<Longrightarrow> sanitizeDeliveryEntries env False kvs = kvs"
  by (induction v and xs and kvs rule: cleanValue_cleanList_cleanEntries.induct) (auto split: if_splits)

lemma safeDeliveryAuditActionIdentifier_idem:
  "safeDeliveryAuditActionIdentifier env v = Some a \<Longrightarrow> safeDeliveryAuditActionIdentifier env (AStr a) = Some a"
  by (auto simp: safeDeliveryAuditActionIdentifier_def Let_def split: any.splits if_splits)

lemma redacted_not_action: "safeDeliveryAuditActionIdentifier env (AStr ''<redacted>'') = None"
  by (simp add: safeDeliveryAuditActionIdentifier_def go_eval Let_def deliveryAuditActionPattern_def
      dottedWords_def wordByte_def wordRune_def)

lemma sanitizeValue_no_new_action:
  assumes "safeDeliveryAuditActionIdentifier env v = None"
  shows "safeDeliveryAuditActionIdentifier env (sanitizeDeliveryMetadataValue env v) = None"
  using assms redacted_not_action [of env]
  by (cases v) (auto simp: safeDeliveryAuditActionIdentifier_def split: if_splits)

lemma sanitizeDeliveryEntries_idem:
  "sanitizeDeliveryEntries env p (sanitizeDeliveryEntries env p kvs) = sanitizeDeliveryEntries env p kvs"
proof (induction kvs)
  case (Cons kv kvs)
  obtain k v where kv: "kv = (k, v)" by (cases kv)
  have idem: "sanitizeDeliveryMetadataValue env (sanitizeDeliveryMetadataValue env v)
      = sanitizeDeliveryMetadataValue env v"
    by (rule clean_sanitize_id(1)) (rule sanitize_clean(1))
  show ?case
  proof (cases "safeDeliveryAuditActionIdentifier env v")
    case None
    then show ?thesis
      using Cons.IH idem redacted_not_action [of env] sanitizeValue_no_new_action [OF None]
      by (simp add: kv)
  next
    case (Some a)
    then show ?thesis
      using Cons.IH idem redacted_not_action [of env] safeDeliveryAuditActionIdentifier_idem [OF Some]
      by (auto simp: kv)
  qed
qed simp

definition auditAllowed :: "goenv \<Rightarrow> string \<Rightarrow> any \<Rightarrow> bool" where
  "auditAllowed env k v \<longleftrightarrow> auditActionKey k \<and>
     (\<exists>a. v = AStr a \<and> deliveryAuditActionPattern a \<and> length a \<le> 128 \<and>
          (\<not> deliverySecretLikeValue env a \<or> a \<in> set deliverySensitiveAuditActions))"

lemma safeDeliveryAuditActionIdentifier_allowed:
  "auditActionKey k \<Longrightarrow> safeDeliveryAuditActionIdentifier env v = Some a \<Longrightarrow> auditAllowed env k (AStr a)"
  by (auto simp: auditAllowed_def safeDeliveryAuditActionIdentifier_def Let_def split: any.splits if_splits)

lemma sanitizeDeliveryEntries_safe:
  "(k, v) \<in> set (sanitizeDeliveryEntries env p kvs) \<Longrightarrow>
     cleanEntries env [(k, v)] \<or> (p \<and> auditAllowed env k v)"
proof (induction kvs)
  case (Cons kv kvs)
  obtain k' v' where kv: "kv = (k', v')" by (cases kv)
  show ?case
  proof (cases "(k, v) \<in> set (sanitizeDeliveryEntries env p kvs)")
    case True
    then show ?thesis by (rule Cons.IH)
  next
    case False
    with Cons.prems show ?thesis
      using sanitize_clean(1) [of env v']
      by (auto simp: kv intro: safeDeliveryAuditActionIdentifier_allowed split: if_splits)
  qed
qed simp

subsection \<open>Properties\<close>

text \<open>A delivery with a token below a harmless key, for the witness.\<close>

definition leakyDelivery :: NotificationDelivery where
  "leakyDelivery = \<lparr>ndID = ''ntf_1'', ndEventType = ''incident.opened'', ndChannel = ''generic'',
     ndTarget = ''<WEBHOOK_URL>'', ndIncidentID = ''inc_1'', ndStatus = ''failure'',
     ndError = ''bearer abc'', ndMetadata = Some [(''detail'', AList [AStr ''token=abc'', ABool True])],
     ndCreatedAt = 1\<rparr>"

text \<open>
  C9: what \<^verbatim>\<open>SaveNotificationDelivery\<close> keeps is free of secrets: every metadata entry of a
  sanitised delivery is clean at every depth (no string looks like a secret, a secret-like key
  maps to the redaction mark), except that an \<^verbatim>\<open>admin.audit\<close> delivery may keep, under the keys
  action and rule, a dotted identifier that is not secret-like or is on the fixed list of audit
  actions; and the error text is empty, not secret-like, or the fixed replacement text.
\<close>

theorem sanitizeNotificationDelivery_safe:
  "\<exists>m. ndMetadata (sanitizeNotificationDelivery env d) = Some m \<and>
     (\<forall>(k, v)\<in>set m. cleanEntries env [(k, v)] \<or> (ndEventType d = ''admin.audit'' \<and> auditAllowed env k v)) \<and>
     (let e = ndError (sanitizeNotificationDelivery env d) in
        e = ''notification delivery error redacted'' \<or> \<not> deliverySecretLikeValue env e)"
proof -
  have err: "sanitizeDeliveryErrorText env e = ''notification delivery error redacted'' \<or>
      \<not> deliverySecretLikeValue env (sanitizeDeliveryErrorText env e)" for e
    by (simp add: sanitizeDeliveryErrorText_def deliverySecretLikeValue_def)
  show ?thesis
  proof (cases "ndMetadata d")
    case None
    then show ?thesis
      using err by (simp add: sanitizeNotificationDelivery_def sanitizeDeliveryMetadata_def Let_def)
  next
    case (Some kvs)
    then show ?thesis
      using err sanitizeDeliveryEntries_safe [of _ _ env "ndEventType d = ''admin.audit''" kvs]
      by (auto simp: sanitizeNotificationDelivery_def sanitizeDeliveryMetadata_def Let_def
          simp del: cleanEntries.simps)
  qed
qed

theorem sanitizeNotificationDelivery_safe_witness:
  "\<exists>m. ndMetadata (sanitizeNotificationDelivery (concreteEnv []) leakyDelivery) = Some m \<and>
     (\<forall>(k, v)\<in>set m. cleanEntries (concreteEnv []) [(k, v)] \<or>
        (ndEventType leakyDelivery = ''admin.audit'' \<and> auditAllowed (concreteEnv []) k v)) \<and>
     (let e = ndError (sanitizeNotificationDelivery (concreteEnv []) leakyDelivery) in
        e = ''notification delivery error redacted'' \<or> \<not> deliverySecretLikeValue (concreteEnv []) e)"
  by (rule sanitizeNotificationDelivery_safe [of "concreteEnv []" leakyDelivery])

text \<open>
  Sanitising the metadata and the error text of a delivery is idempotent, so a row that was
  sanitised when it was written reads back unchanged through the second sanitising on the read path.
\<close>

theorem sanitizeNotificationDelivery_idem:
  "ndMetadata (sanitizeNotificationDelivery env (sanitizeNotificationDelivery env d)) =
     ndMetadata (sanitizeNotificationDelivery env d) \<and>
   ndError (sanitizeNotificationDelivery env (sanitizeNotificationDelivery env d)) =
     ndError (sanitizeNotificationDelivery env d)"
  by (auto simp: sanitizeNotificationDelivery_def sanitizeDeliveryMetadata_def sanitizeDeliveryErrorText_def
      Let_def sanitizeDeliveryEntries_idem go_eval split: option.splits)

end
