(* ===== verification/Go_Sort.thy ===== *)
theory Go_Sort
  imports Prelude "HOL-Library.Multiset" "HOL-Library.List_Lexorder" "HOL-Library.Char_ord"
    "HOL-Library.Product_Lexorder"
begin

text \<open>
  \<^verbatim>\<open>sort.Slice\<close>.  Go compares strings byte by byte, which is the lexicographic order of
  \<open>List_Lexorder\<close> over \<open>Char_ord\<close>.  \<open>sortSlice\<close> is the insertion sort Go runs on short slices; for
  longer ones Go leaves the order of equal elements open, and where an order has no equal
  elements (incident history) the sorted list is unique.
\<close>

fun insertBy :: "('a \<Rightarrow> 'a \<Rightarrow> bool) \<Rightarrow> 'a \<Rightarrow> 'a list \<Rightarrow> 'a list" where
  "insertBy lt x [] = [x]"
| "insertBy lt x (y # ys) = (if lt x y then x # y # ys else y # insertBy lt x ys)"

definition sortSlice :: "('a \<Rightarrow> 'a \<Rightarrow> bool) \<Rightarrow> 'a list \<Rightarrow> 'a list" where
  "sortSlice lt xs = foldl (\<lambda>acc x. insertBy lt x acc) [] xs"

lemma mset_insertBy [simp]: "mset (insertBy lt x ys) = add_mset x (mset ys)"
  by (induction ys) auto

lemma mset_foldl_insertBy: "mset (foldl (\<lambda>acc x. insertBy lt x acc) acc xs) = mset acc + mset xs"
  by (induction xs arbitrary: acc) auto

lemma mset_sortSlice [simp]: "mset (sortSlice lt xs) = mset xs"
  by (simp add: sortSlice_def mset_foldl_insertBy)

lemma set_sortSlice [simp]: "set (sortSlice lt xs) = set xs"
  by (metis mset_sortSlice set_mset_mset)

lemma length_sortSlice [simp]: "length (sortSlice lt xs) = length xs"
  by (metis mset_sortSlice size_mset)

lemma distinct_sortSlice [simp]: "distinct (map f (sortSlice lt xs)) = distinct (map f xs)"
proof -
  have "mset (map f (sortSlice lt xs)) = mset (map f xs)" by simp
  then show ?thesis by (rule mset_eq_imp_distinct_iff)
qed

text \<open>Sorting in ascending or descending order of a key with values in a linear order.\<close>

lemma sorted_insertBy_asc:
  assumes "\<And>x y. lt x y \<longleftrightarrow> (key x :: 'b::linorder) < key y" "sorted_wrt (\<lambda>x y. key x \<le> key y) ys"
  shows "sorted_wrt (\<lambda>x y. key x \<le> key y) (insertBy lt x ys)"
  using assms(2)
proof (induction ys)
  case (Cons y ys)
  have "set (insertBy lt x ys) = insert x (set ys)"
    by (metis mset_insertBy set_mset_mset set_mset_add_mset_insert)
  with Cons show ?case using assms(1) [of x y] by (auto intro: order_less_imp_le order_trans)
qed simp

lemma sorted_sortSlice_asc:
  assumes "\<And>x y. lt x y \<longleftrightarrow> (key x :: 'b::linorder) < key y"
  shows "sorted_wrt (\<lambda>x y. key x \<le> key y) (sortSlice lt xs)"
  unfolding sortSlice_def
  by (rule foldl_invariant) (auto intro: sorted_insertBy_asc [of lt key] simp: assms)

lemma sorted_insertBy_desc:
  assumes "\<And>x y. lt x y \<longleftrightarrow> (key x :: 'b::linorder) > key y" "sorted_wrt (\<lambda>x y. key y \<le> key x) ys"
  shows "sorted_wrt (\<lambda>x y. key y \<le> key x) (insertBy lt x ys)"
  using assms(2)
proof (induction ys)
  case (Cons y ys)
  have "set (insertBy lt x ys) = insert x (set ys)"
    by (metis mset_insertBy set_mset_mset set_mset_add_mset_insert)
  with Cons show ?case using assms(1) [of x y] by (auto intro: order_less_imp_le order_trans)
qed simp

lemma sorted_sortSlice_desc:
  assumes "\<And>x y. lt x y \<longleftrightarrow> (key x :: 'b::linorder) > key y"
  shows "sorted_wrt (\<lambda>x y. key y \<le> key x) (sortSlice lt xs)"
  unfolding sortSlice_def
  by (rule foldl_invariant) (auto intro: sorted_insertBy_desc [of lt key] simp: assms)

text \<open>A strictly descending list is determined by its elements.\<close>

lemma strict_desc_unique:
  assumes "sorted_wrt (\<lambda>x y. (key y :: 'b::linorder) < key x) xs" "sorted_wrt (\<lambda>x y. key y < key x) ys"
    "set xs = set ys"
  shows "xs = ys"
  using assms
proof (induction xs arbitrary: ys)
  case (Cons x xs)
  then obtain y ys' where ys: "ys = y # ys'" by (cases ys) auto
  have "x = y"
  proof (rule ccontr)
    assume "x \<noteq> y"
    with Cons.prems ys have "x \<in> set ys'" "y \<in> set xs" by auto
    with Cons.prems ys have "key x < key y" "key y < key x" by auto
    then show False by simp
  qed
  moreover have "x \<notin> set xs" "y \<notin> set ys'" using Cons.prems ys by auto
  ultimately have "set xs = set ys'" using Cons.prems(3) ys by auto
  with Cons.prems ys \<open>x = y\<close> show ?case using Cons.IH [of ys'] by auto
qed simp

lemma strict_desc_filter_take:
  assumes "sorted_wrt (\<lambda>x y. (key y :: 'b::linorder) < key x) xs" "n < length xs"
  shows "filter (\<lambda>x. key x < key (xs ! n)) xs = drop (Suc n) xs"
  using assms
proof (induction xs arbitrary: n)
  case (Cons x xs)
  show ?case
  proof (cases n)
    case 0
    have "filter (\<lambda>z. key z < key x) xs = xs"
      using Cons.prems(1) by (auto simp: filter_id_conv)
    with 0 show ?thesis by simp
  next
    case (Suc m)
    with Cons.prems have "m < length xs" by simp
    then have "key (xs ! m) < key x" using Cons.prems(1) by auto
    then show ?thesis
      using Suc Cons.IH [of m] Cons.prems \<open>m < length xs\<close> by (simp add: not_less_iff_gr_or_eq)
  qed
qed simp

lemma sorted_wrt_strict:
  "sorted_wrt (\<lambda>x y. (key y :: 'b::linorder) \<le> key x) xs \<Longrightarrow> distinct (map key xs) \<Longrightarrow>
   sorted_wrt (\<lambda>x y. key y < key x) xs"
proof (induction xs)
  case (Cons x xs)
  have "key y < key x" if "y \<in> set xs" for y
    using Cons.prems that by (simp add: less_le) (metis imageI)
  with Cons show ?case by simp
qed simp

lemma sortSlice_strict_desc:
  assumes "\<And>x y. lt x y \<longleftrightarrow> (key x :: 'b::linorder) > key y" "distinct (map key xs)"
  shows "sorted_wrt (\<lambda>x y. key y < key x) (sortSlice lt xs)"
  using sorted_sortSlice_desc [of lt key, OF assms(1)] assms(2) by (intro sorted_wrt_strict) simp_all

text \<open>Filtering before or after sorting is the same when no two keys are equal.\<close>

lemma sortSlice_filter:
  assumes "\<And>x y. lt x y \<longleftrightarrow> (key x :: 'b::linorder) > key y" "distinct (map key xs)"
  shows "sortSlice lt (filter P xs) = filter P (sortSlice lt xs)"
proof (rule strict_desc_unique [where key = key])
  show "sorted_wrt (\<lambda>x y. key y < key x) (sortSlice lt (filter P xs))"
    by (rule sortSlice_strict_desc) (use assms in \<open>simp_all add: distinct_map_filter\<close>)
  show "sorted_wrt (\<lambda>x y. key y < key x) (filter P (sortSlice lt xs))"
    by (rule sorted_wrt_filter, rule sortSlice_strict_desc) (use assms in simp_all)
qed auto

lemma sorted_wrt_last:
  "sorted_wrt (\<lambda>x y. (key x :: 'b::linorder) \<le> key y) xs \<Longrightarrow> p \<in> set xs \<Longrightarrow> xs \<noteq> [] \<Longrightarrow> key p \<le> key (last xs)"
  by (induction xs) auto

end
