(* ===== verification/Memory_Store.thy ===== *)
theory Memory_Store
  imports Channels Redaction Go_Sort
begin

text \<open>
  The in-memory store, \<^verbatim>\<open>internal/store/memory.go\<close>.  Every operation runs under the store's
  mutex, so an operation is a function from a \<open>tick\<close> (context error, clock, random bytes) and
  the store to a result and the next store; the order of operations is the order in which they
  take the mutex.
\<close>

record MemoryStore =
  signals :: "Signal list"
  incidents :: "Incident gomap"
  activeIncidents :: "string gomap"
  deliveries :: "NotificationDelivery list"
  channels :: "NotificationChannel gomap"
  remediations :: "RemediationAction gomap"

definition NewMemoryStore :: MemoryStore where
  "NewMemoryStore = \<lparr>signals = [], incidents = [], activeIncidents = [], deliveries = [],
     channels = [], remediations = []\<rparr>"

text \<open>The guard every operation starts with: \<^verbatim>\<open>if err := ctx.Err(); err != nil\<close>.\<close>

definition guarded :: "tick \<Rightarrow> 's \<Rightarrow> ('a result \<times> 's) \<Rightarrow> 'a result \<times> 's" where
  "guarded t s body = (case tkCtx t of Some e \<Rightarrow> (Inl e, s) | None \<Rightarrow> body)"

definition reading :: "tick \<Rightarrow> 'a result \<Rightarrow> 'a result" where
  "reading t body = (case tkCtx t of Some e \<Rightarrow> Inl e | None \<Rightarrow> body)"

lemma guarded_simps [simp]:
  "tkCtx t = None \<Longrightarrow> guarded t s body = body"
  "tkCtx t = Some e \<Longrightarrow> guarded t s body = (Inl e, s)"
  by (simp_all add: guarded_def)

lemma reading_simps [simp]:
  "tkCtx t = None \<Longrightarrow> reading t r = r"
  "tkCtx t = Some e \<Longrightarrow> reading t r = Inl e"
  by (simp_all add: reading_def)

lemma guarded_eq:
  "guarded t s body = (r, s') \<longleftrightarrow>
     (\<exists>e. tkCtx t = Some e \<and> r = Inl e \<and> s' = s) \<or> (tkCtx t = None \<and> body = (r, s'))"
  by (auto simp: guarded_def split: option.splits)

subsection \<open>Signals\<close>

definition SaveSignal :: "tick \<Rightarrow> Signal \<Rightarrow> MemoryStore \<Rightarrow> Signal result \<times> MemoryStore" where
  "SaveSignal t signal s = guarded t s
     (let now = tkNow t;
          s1 = (if sigID signal = [] then signal\<lparr>sigID := newID ''sig'' t\<rparr> else signal);
          s2 = (if IsZero (sigTimestamp s1) then s1\<lparr>sigTimestamp := now\<rparr> else s1);
          s3 = s2\<lparr>sigCreatedAt := now\<rparr>;
          s4 = (if sigAttributes s3 = None then s3\<lparr>sigAttributes := Some []\<rparr> else s3)
      in (Inr s4, s\<lparr>signals := signals s @ [s4]\<rparr>))"

definition metricMatch :: "string \<Rightarrow> string \<Rightarrow> string \<Rightarrow> Signal \<Rightarrow> bool" where
  "metricMatch name serviceID streamID signal \<longleftrightarrow>
     sigName signal = name \<and> sigServiceID signal = serviceID \<and> sigStreamID signal = streamID \<and>
     sigValue signal \<noteq> None"

text \<open>
  The backwards loop of \<^verbatim>\<open>LatestMetricValue\<close>; \<open>None\<close> is the result \<^verbatim>\<open>(0, false)\<close>.
\<close>

definition LatestMetricValue ::
  "tick \<Rightarrow> string \<Rightarrow> string \<Rightarrow> string \<Rightarrow> MemoryStore \<Rightarrow> float64 option result" where
  "LatestMetricValue t name serviceID streamID s = reading t
     (case List.find (metricMatch name serviceID streamID) (rev (signals s)) of
        None \<Rightarrow> Inr None
      | Some signal \<Rightarrow> Inr (sigValue signal))"

definition clampLimit :: "int \<Rightarrow> nat" where
  "clampLimit limit = (if limit \<le> 0 \<or> limit > 1000 then 200 else nat limit)"

definition ListSignals :: "tick \<Rightarrow> int \<Rightarrow> MemoryStore \<Rightarrow> Signal list result" where
  "ListSignals t limit s = reading t
     (Inr (take (clampLimit limit) (sortSlice (\<lambda>a b. sigCreatedAt a > sigCreatedAt b) (signals s))))"

definition GetSignal :: "tick \<Rightarrow> string \<Rightarrow> MemoryStore \<Rightarrow> Signal result" where
  "GetSignal t rawID s = reading t
     (let sid = TrimSpace rawID in
      if sid = [] then Inl ErrNotFound
      else case List.find (\<lambda>signal. sigID signal = sid) (signals s) of
        None \<Rightarrow> Inl ErrNotFound
      | Some signal \<Rightarrow> Inr signal)"

subsection \<open>The incident status machine\<close>

definition validIncidentStatus :: "string \<Rightarrow> bool" where
  "validIncidentStatus status \<longleftrightarrow>
     status \<in> {''open'', ''acknowledged'', ''investigating'', ''mitigated'', ''resolved'', ''ignored''}"

definition isTerminalIncidentStatus :: "string \<Rightarrow> bool" where
  "isTerminalIncidentStatus status \<longleftrightarrow> status = ''resolved'' \<or> status = ''ignored''"

definition canTransitionIncidentStatus :: "string \<Rightarrow> string \<Rightarrow> bool" where
  "canTransitionIncidentStatus current nxt =
     (if current = nxt then True
      else if isTerminalIncidentStatus current then False
      else if current = ''open'' then validIncidentStatus nxt
      else if current = ''acknowledged'' then
        nxt = ''investigating'' \<or> nxt = ''mitigated'' \<or> isTerminalIncidentStatus nxt
      else if current = ''investigating'' then nxt = ''mitigated'' \<or> isTerminalIncidentStatus nxt
      else if current = ''mitigated'' then isTerminalIncidentStatus nxt
      else False)"

definition incidentSeverityRank :: "string \<Rightarrow> int" where
  "incidentSeverityRank severity =
     (let v = ToLower (TrimSpace severity) in
      if v = ''info'' then 1 else if v = ''warning'' then 2
      else if v = ''error'' then 3 else if v = ''critical'' then 4 else 0)"

definition isMoreSevereIncidentSeverity :: "string \<Rightarrow> string \<Rightarrow> bool" where
  "isMoreSevereIncidentSeverity candidate current \<longleftrightarrow>
     incidentSeverityRank candidate > incidentSeverityRank current"

definition incidentKey :: "Incident \<Rightarrow> string" where
  "incidentKey i = incRule i @ [CHR 0x00] @ incServiceID i @ [CHR 0x00] @ incStreamID i"

fun uniqueLoop :: "string list \<Rightarrow> string list \<Rightarrow> string list" where
  "uniqueLoop seen [] = []"
| "uniqueLoop seen (v # vs) =
     (let value = TrimSpace v in
      if value = [] then uniqueLoop seen vs
      else if value \<in> set seen then uniqueLoop seen vs
      else value # uniqueLoop (value # seen) vs)"

definition uniqueNonEmptyStrings :: "string list \<Rightarrow> string list" where
  "uniqueNonEmptyStrings values = uniqueLoop [] values"

subsection \<open>Incident operations\<close>

text \<open>\<^verbatim>\<open>persisted\<close>: the row as stored, without the two transition flags of the result.\<close>

definition persisted :: "Incident \<Rightarrow> Incident" where
  "persisted i = i\<lparr>incSeverityChanged := False, incStatusChanged := False\<rparr>"

definition repeatIncident :: "tick \<Rightarrow> Incident \<Rightarrow> Incident \<Rightarrow> Incident" where
  "repeatIncident t incident existing =
     (let now = tkNow t;
          changed = isMoreSevereIncidentSeverity (incSeverity incident) (incSeverity existing);
          e1 = existing\<lparr>incSeverityChanged := changed\<rparr>;
          e2 = (if changed then e1\<lparr>incSeverity := incSeverity incident\<rparr> else e1)
      in e2\<lparr>incSignalID := incSignalID incident, incSummaryJA := incSummaryJA incident,
            incReport := incReport incident, incUpdatedAt := now, incLastSeenAt := now,
            incOccurrenceCount := wrap64 (incOccurrenceCount existing + 1)\<rparr>)"

definition openIncident :: "tick \<Rightarrow> Incident \<Rightarrow> MemoryStore \<Rightarrow> (Incident \<times> bool) result \<times> MemoryStore" where
  "openIncident t incident s =
     (let i1 = (if incID incident = [] then incident\<lparr>incID := newID ''inc'' t\<rparr> else incident);
          i2 = (if incStatus i1 = [] then i1\<lparr>incStatus := ''open''\<rparr> else i1);
          i3 = i2\<lparr>incOpenedAt := tkNow t, incUpdatedAt := tkNow t, incLastSeenAt := tkNow t,
                  incOccurrenceCount := 1\<rparr>
      in (Inr (i3, True),
          s\<lparr>incidents := AList.update (incID i3) i3 (incidents s),
            activeIncidents := AList.update (incidentKey incident) (incID i3) (activeIncidents s)\<rparr>))"

definition UpsertIncident ::
  "tick \<Rightarrow> Incident \<Rightarrow> MemoryStore \<Rightarrow> (Incident \<times> bool) result \<times> MemoryStore" where
  "UpsertIncident t incident s = guarded t s
     (let key = incidentKey incident in
      case map_of (activeIncidents s) key of
        None \<Rightarrow> openIncident t incident s
      | Some activeID \<Rightarrow>
         (case map_of (incidents s) activeID of
            None \<Rightarrow> openIncident t incident (s\<lparr>activeIncidents := AList.delete key (activeIncidents s)\<rparr>)
          | Some existing \<Rightarrow>
              if isTerminalIncidentStatus (incStatus existing)
              then openIncident t incident (s\<lparr>activeIncidents := AList.delete key (activeIncidents s)\<rparr>)
              else
                (let e = repeatIncident t incident existing
                 in (Inr (e, False),
                     s\<lparr>incidents := AList.update (incID e) (persisted e) (incidents s)\<rparr>))))"

definition incidentNewer :: "Incident \<Rightarrow> Incident \<Rightarrow> bool" where
  "incidentNewer a b = (if incUpdatedAt a = incUpdatedAt b then incID a > incID b
                        else incUpdatedAt a > incUpdatedAt b)"

definition ListIncidents :: "tick \<Rightarrow> MemoryStore \<Rightarrow> Incident list result" where
  "ListIncidents t s = reading t (Inr (sortSlice incidentNewer (map snd (incidents s))))"

definition historyRow :: "instant \<Rightarrow> string \<Rightarrow> string \<Rightarrow> Incident \<Rightarrow> bool" where
  "historyRow before beforeID status i \<longleftrightarrow>
     \<not> (status \<noteq> [] \<and> incStatus i \<noteq> status) \<and>
     \<not> (\<not> IsZero before \<and> (incUpdatedAt i > before \<or> (incUpdatedAt i = before \<and> incID i \<ge> beforeID)))"

definition ListIncidentHistory ::
  "tick \<Rightarrow> int \<Rightarrow> instant \<Rightarrow> string \<Rightarrow> string \<Rightarrow> MemoryStore \<Rightarrow> Incident list result" where
  "ListIncidentHistory t limit before beforeID status s = reading t
     (Inr (take (clampLimit limit)
        (sortSlice incidentNewer (filter (historyRow before beforeID status) (map snd (incidents s))))))"

definition GetIncident :: "tick \<Rightarrow> string \<Rightarrow> MemoryStore \<Rightarrow> Incident result" where
  "GetIncident t iid s = reading t
     (case map_of (incidents s) iid of None \<Rightarrow> Inl ErrNotFound | Some i \<Rightarrow> Inr i)"

definition UpdateIncidentStatus ::
  "tick \<Rightarrow> string \<Rightarrow> string \<Rightarrow> MemoryStore \<Rightarrow> Incident result \<times> MemoryStore" where
  "UpdateIncidentStatus t iid status s = guarded t s
     (if \<not> validIncidentStatus status then (Inl ErrInvalidStatus, s)
      else case map_of (incidents s) iid of
        None \<Rightarrow> (Inl ErrNotFound, s)
      | Some incident \<Rightarrow>
          if incStatus incident = status then (Inr (incident\<lparr>incStatusChanged := False\<rparr>), s)
          else if \<not> canTransitionIncidentStatus (incStatus incident) status
          then (Inl ErrInvalidTransition, s)
          else
            (let now = tkNow t;
                 i1 = incident\<lparr>incStatus := status, incStatusChanged := True, incUpdatedAt := now\<rparr>;
                 terminal = isTerminalIncidentStatus status;
                 i2 = (if terminal then i1\<lparr>incResolvedAt := Some now, incResolutionReason := ''manual''\<rparr>
                       else i1\<lparr>incResolvedAt := None, incResolvedBySignalID := [], incResolutionReason := []\<rparr>);
                 s1 = (if terminal
                       then s\<lparr>activeIncidents := AList.delete (incidentKey i2) (activeIncidents s)\<rparr>
                       else s)
             in (Inr i2, s1\<lparr>incidents := AList.update iid (persisted i2) (incidents s1)\<rparr>)))"

definition resolveIncident :: "tick \<Rightarrow> string \<Rightarrow> string \<Rightarrow> Incident \<Rightarrow> Incident" where
  "resolveIncident t signalID reason i = i\<lparr>incStatus := ''resolved'', incStatusChanged := True,
     incUpdatedAt := tkNow t, incResolvedAt := Some (tkNow t),
     incResolvedBySignalID := TrimSpace signalID, incResolutionReason := TrimSpace reason\<rparr>"

text \<open>One rule of the loop in \<^verbatim>\<open>ResolveActiveIncidents\<close>; the first component is \<^verbatim>\<open>resolved\<close>.\<close>

definition resolveRule ::
  "tick \<Rightarrow> string \<Rightarrow> string \<Rightarrow> string \<Rightarrow> string \<Rightarrow> Incident list \<times> MemoryStore \<Rightarrow> string
     \<Rightarrow> Incident list \<times> MemoryStore" where
  "resolveRule t serviceID streamID signalID reason acc rule =
     (let (resolved, s) = acc;
          key = incidentKey (zeroIncident\<lparr>incRule := rule, incServiceID := serviceID, incStreamID := streamID\<rparr>)
      in case map_of (activeIncidents s) key of
        None \<Rightarrow> (resolved, s)
      | Some iid \<Rightarrow>
         (case map_of (incidents s) iid of
            None \<Rightarrow> (resolved, s\<lparr>activeIncidents := AList.delete key (activeIncidents s)\<rparr>)
          | Some incident \<Rightarrow>
              if isTerminalIncidentStatus (incStatus incident)
              then (resolved, s\<lparr>activeIncidents := AList.delete key (activeIncidents s)\<rparr>)
              else
                (let i = resolveIncident t signalID reason incident
                 in (resolved @ [i],
                     s\<lparr>incidents := AList.update iid (persisted i) (incidents s),
                       activeIncidents := AList.delete key (activeIncidents s)\<rparr>))))"

definition ResolveActiveIncidents ::
  "tick \<Rightarrow> string list \<Rightarrow> string \<Rightarrow> string \<Rightarrow> string \<Rightarrow> string \<Rightarrow> MemoryStore
     \<Rightarrow> Incident list result \<times> MemoryStore" where
  "ResolveActiveIncidents t rules serviceID streamID signalID reason s = guarded t s
     (let (resolved, s') = foldl (resolveRule t serviceID streamID signalID reason) ([], s)
                             (uniqueNonEmptyStrings rules)
      in (Inr resolved, s'))"

definition UpdateIncidentDiagnostic ::
  "tick \<Rightarrow> string \<Rightarrow> string \<Rightarrow> Report \<Rightarrow> MemoryStore \<Rightarrow> (Incident \<times> bool) result \<times> MemoryStore" where
  "UpdateIncidentDiagnostic t rawID rawSignalID rep s = guarded t s
     (let iid = TrimSpace rawID; expectedSignalID = TrimSpace rawSignalID in
      if iid = [] \<or> expectedSignalID = [] then (Inl ErrNotFound, s)
      else case map_of (incidents s) iid of
        None \<Rightarrow> (Inl ErrNotFound, s)
      | Some incident \<Rightarrow>
          if incSignalID incident \<noteq> expectedSignalID then (Inr (incident, False), s)
          else (let i = incident\<lparr>incReport := rep, incUpdatedAt := tkNow t\<rparr>
                in (Inr (i, True), s\<lparr>incidents := AList.update iid i (incidents s)\<rparr>)))"

subsection \<open>Notification deliveries and channels\<close>

definition SaveNotificationDelivery ::
  "goenv \<Rightarrow> tick \<Rightarrow> NotificationDelivery \<Rightarrow> MemoryStore \<Rightarrow> NotificationDelivery result \<times> MemoryStore" where
  "SaveNotificationDelivery env t delivery s = guarded t s
     (let d1 = (if ndID delivery = [] then delivery\<lparr>ndID := newID ''ntf'' t\<rparr> else delivery);
          d2 = (if IsZero (ndCreatedAt d1) then d1\<lparr>ndCreatedAt := tkNow t\<rparr> else d1);
          d3 = (if ndMetadata d2 = None then d2\<lparr>ndMetadata := Some []\<rparr> else d2);
          d4 = sanitizeNotificationDelivery env d3
      in (Inr d4, s\<lparr>deliveries := deliveries s @ [d4]\<rparr>))"

definition ListNotificationDeliveries :: "tick \<Rightarrow> MemoryStore \<Rightarrow> NotificationDelivery list result" where
  "ListNotificationDeliveries t s = reading t
     (Inr (sortSlice (\<lambda>a b. ndCreatedAt a > ndCreatedAt b) (deliveries s)))"

definition ListNotificationChannels :: "goenv \<Rightarrow> tick \<Rightarrow> MemoryStore \<Rightarrow> NotificationChannel list result" where
  "ListNotificationChannels env t s = reading t
     (Inr (sortSlice (\<lambda>a b. chCreatedAt a < chCreatedAt b) (map (publicChannel env) (map snd (channels s)))))"

definition CreateNotificationChannel ::
  "goenv \<Rightarrow> tick \<Rightarrow> NotificationChannel \<Rightarrow> MemoryStore \<Rightarrow> NotificationChannel result \<times> MemoryStore" where
  "CreateNotificationChannel env t channel s = guarded t s
     (let c1 = (if chID channel = [] then channel\<lparr>chID := newID ''ntc'' t\<rparr> else channel);
          c2 = c1\<lparr>chType := normalizeChannelType (chType c1)\<rparr>;
          c3 = normalizeNotificationChannelSecrets env c2;
          c4 = c3\<lparr>chCreatedAt := tkNow t, chUpdatedAt := tkNow t\<rparr>
      in (Inr (publicChannel env c4), s\<lparr>channels := AList.update (chID c4) c4 (channels s)\<rparr>))"

definition GetNotificationChannel :: "goenv \<Rightarrow> tick \<Rightarrow> string \<Rightarrow> MemoryStore \<Rightarrow> NotificationChannel result" where
  "GetNotificationChannel env t cid s = reading t
     (case map_of (channels s) cid of None \<Rightarrow> Inl ErrNotFound | Some c \<Rightarrow> Inr (publicChannel env c))"

text \<open>The merge of \<^verbatim>\<open>UpdateNotificationChannel\<close>: what an update leaves empty keeps its stored value.\<close>

definition mergeChannel :: "NotificationChannel \<Rightarrow> NotificationChannel \<Rightarrow> NotificationChannel" where
  "mergeChannel channel existing =
     (let e1 = (if chName channel \<noteq> [] then existing\<lparr>chName := chName channel\<rparr> else existing);
          e2 = (if chType channel \<noteq> [] then e1\<lparr>chType := normalizeChannelType (chType channel)\<rparr> else e1);
          e3 = e2\<lparr>chEnabled := chEnabled channel\<rparr>;
          e4 = (if chUseGlobalSMTPSet channel then
                  (let e = e3\<lparr>chUseGlobalSMTP := chUseGlobalSMTP channel, chUseGlobalSMTPSet := True\<rparr>
                   in if chUseGlobalSMTP channel then clearLegacySMTPConfiguration e else e)
                else e3);
          e5 = (if chWebhookURL channel \<noteq> [] then e4\<lparr>chWebhookURL := chWebhookURL channel\<rparr> else e4);
          e6 = (case chEmailRecipients channel of None \<Rightarrow> e5
                | Some rs \<Rightarrow> e5\<lparr>chEmailRecipients := (if rs = [] then None else Some rs)\<rparr>);
          e7 = (if chSMTPHost channel \<noteq> [] then e6\<lparr>chSMTPHost := chSMTPHost channel\<rparr> else e6);
          e8 = (if chSMTPPort channel \<noteq> 0 then e7\<lparr>chSMTPPort := chSMTPPort channel\<rparr> else e7);
          e9 = e8\<lparr>chSMTPTLS := chSMTPTLS channel\<rparr>;
          e10 = (if chSMTPFrom channel \<noteq> [] then e9\<lparr>chSMTPFrom := chSMTPFrom channel\<rparr> else e9);
          e11 = (if chSMTPUsername channel \<noteq> [] then e10\<lparr>chSMTPUsername := chSMTPUsername channel\<rparr> else e10);
          e12 = (if chSMTPPassword channel \<noteq> [] then e11\<lparr>chSMTPPassword := chSMTPPassword channel\<rparr> else e11);
          e13 = (case chSeverityFilter channel of None \<Rightarrow> e12
                 | Some fs \<Rightarrow> e12\<lparr>chSeverityFilter := (if fs = [] then None else Some fs)\<rparr>);
          e14 = (case chEventTypeFilter channel of None \<Rightarrow> e13
                 | Some fs \<Rightarrow> e13\<lparr>chEventTypeFilter := (if fs = [] then None else Some fs)\<rparr>)
      in e14)"

definition UpdateNotificationChannel ::
  "goenv \<Rightarrow> tick \<Rightarrow> NotificationChannel \<Rightarrow> MemoryStore \<Rightarrow> NotificationChannel result \<times> MemoryStore" where
  "UpdateNotificationChannel env t channel s = guarded t s
     (case map_of (channels s) (chID channel) of
        None \<Rightarrow> (Inl ErrNotFound, s)
      | Some existing \<Rightarrow>
          (let e = (normalizeNotificationChannelSecrets env (mergeChannel channel existing))\<lparr>chUpdatedAt := tkNow t\<rparr>
           in (Inr (publicChannel env e), s\<lparr>channels := AList.update (chID channel) e (channels s)\<rparr>)))"

definition DeleteNotificationChannel :: "tick \<Rightarrow> string \<Rightarrow> MemoryStore \<Rightarrow> unit result \<times> MemoryStore" where
  "DeleteNotificationChannel t cid s = guarded t s
     (if map_of (channels s) cid = None then (Inl ErrNotFound, s)
      else (Inr (), s\<lparr>channels := AList.delete cid (channels s)\<rparr>))"

subsection \<open>Remediation actions\<close>

definition CreateRemediationAction ::
  "tick \<Rightarrow> RemediationAction \<Rightarrow> MemoryStore \<Rightarrow> RemediationAction result \<times> MemoryStore" where
  "CreateRemediationAction t action s = guarded t s
     (let a1 = (if raID action = [] then action\<lparr>raID := newID ''rem'' t\<rparr> else action);
          a2 = (if raStatus a1 = [] then a1\<lparr>raStatus := ''suggested''\<rparr> else a1);
          a3 = a2\<lparr>raCreatedAt := tkNow t, raUpdatedAt := tkNow t\<rparr>
      in (Inr a3, s\<lparr>remediations := AList.update (raID a3) a3 (remediations s)\<rparr>))"

definition ListRemediationActions :: "tick \<Rightarrow> MemoryStore \<Rightarrow> RemediationAction list result" where
  "ListRemediationActions t s = reading t
     (Inr (sortSlice (\<lambda>a b. raUpdatedAt a > raUpdatedAt b) (map snd (remediations s))))"

definition GetRemediationAction :: "tick \<Rightarrow> string \<Rightarrow> MemoryStore \<Rightarrow> RemediationAction result" where
  "GetRemediationAction t aid s = reading t
     (case map_of (remediations s) aid of None \<Rightarrow> Inl ErrNotFound | Some a \<Rightarrow> Inr a)"

definition UpdateRemediationAction ::
  "tick \<Rightarrow> RemediationAction \<Rightarrow> MemoryStore \<Rightarrow> RemediationAction result \<times> MemoryStore" where
  "UpdateRemediationAction t action s = guarded t s
     (if map_of (remediations s) (raID action) = None then (Inl ErrNotFound, s)
      else (let a = action\<lparr>raUpdatedAt := tkNow t\<rparr>
            in (Inr a, s\<lparr>remediations := AList.update (raID action) a (remediations s)\<rparr>)))"

end
