(* ===== verification/Incident_Lifecycle.thy ===== *)
theory Incident_Lifecycle
  imports Memory_Store
begin

text \<open>
  The incident store as a state machine: its invariant, the step relation whose rules are the
  operations of \<open>Memory_Store\<close>, the life of an incident row along any run, and the refinement
  of the indexed store to a reference store that has no index.
\<close>

subsection \<open>The status machine\<close>

text \<open>Position of a status in the life of an incident; transitions never go back.\<close>

definition statusRank :: "string \<Rightarrow> nat" where
  "statusRank status =
     (if status = ''open'' then 0 else if status = ''acknowledged'' then 1
      else if status = ''investigating'' then 2 else if status = ''mitigated'' then 3 else 4)"

lemmas status_defs = validIncidentStatus_def isTerminalIncidentStatus_def canTransitionIncidentStatus_def

lemma canTransition_rank:
  "validIncidentStatus a \<Longrightarrow> validIncidentStatus b \<Longrightarrow>
   canTransitionIncidentStatus a b \<longleftrightarrow> a = b \<or> statusRank a < statusRank b"
  by (auto simp: status_defs statusRank_def)

lemma canTransition_refl [simp]: "canTransitionIncidentStatus a a"
  by (simp add: status_defs)

lemma canTransition_trans:
  "canTransitionIncidentStatus a b \<Longrightarrow> canTransitionIncidentStatus b c \<Longrightarrow> canTransitionIncidentStatus a c"
  by (auto simp: status_defs split: if_splits)

lemma canTransition_terminal:
  "isTerminalIncidentStatus a \<Longrightarrow> canTransitionIncidentStatus a b \<longleftrightarrow> b = a"
  by (auto simp: status_defs)

lemma canTransition_resolved:
  "validIncidentStatus a \<Longrightarrow> \<not> isTerminalIncidentStatus a \<Longrightarrow> canTransitionIncidentStatus a ''resolved''"
  by (auto simp: status_defs)

lemma valid_simps [simp]: "validIncidentStatus ''open''" "validIncidentStatus ''resolved''"
  "\<not> isTerminalIncidentStatus ''open''" "isTerminalIncidentStatus ''resolved''"
  "canTransitionIncidentStatus ''open'' x \<longleftrightarrow> validIncidentStatus x"
  by (auto simp: status_defs)

subsection \<open>Field lemmas\<close>

lemma persisted_simps [simp]:
  "incID (persisted i) = incID i" "incStatus (persisted i) = incStatus i"
  "incidentKey (persisted i) = incidentKey i" "\<not> incSeverityChanged (persisted i)"
  "\<not> incStatusChanged (persisted i)" "incRule (persisted i) = incRule i"
  "incServiceID (persisted i) = incServiceID i" "incStreamID (persisted i) = incStreamID i"
  "incOpenedAt (persisted i) = incOpenedAt i" "incSeverity (persisted i) = incSeverity i"
  "incOccurrenceCount (persisted i) = incOccurrenceCount i" "incResolvedAt (persisted i) = incResolvedAt i"
  "incResolvedBySignalID (persisted i) = incResolvedBySignalID i" "incSignalID (persisted i) = incSignalID i"
  "incResolutionReason (persisted i) = incResolutionReason i" "incReport (persisted i) = incReport i"
  "incUpdatedAt (persisted i) = incUpdatedAt i" "incLastSeenAt (persisted i) = incLastSeenAt i"
  by (simp_all add: persisted_def incidentKey_def)

lemma repeatIncident_simps [simp]:
  "incID (repeatIncident t i e) = incID e" "incStatus (repeatIncident t i e) = incStatus e"
  "incidentKey (repeatIncident t i e) = incidentKey e" "incOpenedAt (repeatIncident t i e) = incOpenedAt e"
  "incRule (repeatIncident t i e) = incRule e" "incServiceID (repeatIncident t i e) = incServiceID e"
  "incStreamID (repeatIncident t i e) = incStreamID e"
  "incOccurrenceCount (repeatIncident t i e) = wrap64 (incOccurrenceCount e + 1)"
  "incResolvedAt (repeatIncident t i e) = incResolvedAt e"
  "incSignalID (repeatIncident t i e) = incSignalID i"
  "incUpdatedAt (repeatIncident t i e) = tkNow t" "incLastSeenAt (repeatIncident t i e) = tkNow t"
  by (simp_all add: repeatIncident_def Let_def incidentKey_def)

lemma repeatIncident_severity:
  "incSeverity (repeatIncident t i e) =
     (if isMoreSevereIncidentSeverity (incSeverity i) (incSeverity e) then incSeverity i else incSeverity e)"
  by (simp add: repeatIncident_def Let_def)

lemma repeatIncident_rank:
  "incidentSeverityRank (incSeverity (repeatIncident t i e)) =
     max (incidentSeverityRank (incSeverity i)) (incidentSeverityRank (incSeverity e))"
  by (simp add: repeatIncident_severity isMoreSevereIncidentSeverity_def)

lemma resolveIncident_simps [simp]:
  "incID (resolveIncident t sg r i) = incID i" "incStatus (resolveIncident t sg r i) = ''resolved''"
  "incidentKey (resolveIncident t sg r i) = incidentKey i"
  "incRule (resolveIncident t sg r i) = incRule i" "incServiceID (resolveIncident t sg r i) = incServiceID i"
  "incStreamID (resolveIncident t sg r i) = incStreamID i" "incOpenedAt (resolveIncident t sg r i) = incOpenedAt i"
  "incSeverity (resolveIncident t sg r i) = incSeverity i"
  "incOccurrenceCount (resolveIncident t sg r i) = incOccurrenceCount i"
  by (simp_all add: resolveIncident_def incidentKey_def)

subsection \<open>The invariant\<close>

definition activeIncident :: "Incident \<Rightarrow> bool" where
  "activeIncident i \<longleftrightarrow> \<not> isTerminalIncidentStatus (incStatus i)"

text \<open>A row as the store keeps it: valid status, no transition flag, a resolution time exactly when terminal.\<close>

definition rowOK :: "string \<Rightarrow> Incident \<Rightarrow> bool" where
  "rowOK iid i \<longleftrightarrow> incID i = iid \<and> validIncidentStatus (incStatus i) \<and> \<not> incSeverityChanged i \<and>
     \<not> incStatusChanged i \<and> (incResolvedAt i = None \<longleftrightarrow> activeIncident i)"

text \<open>\<open>activeIncidents\<close> is exactly the index of the rows that are not terminal.\<close>

definition indexOK :: "Incident gomap \<Rightarrow> string gomap \<Rightarrow> bool" where
  "indexOK inc act \<longleftrightarrow>
     (\<forall>k iid. map_of act k = Some iid \<longleftrightarrow>
        (\<exists>i. map_of inc iid = Some i \<and> activeIncident i \<and> incidentKey i = k))"

definition storeOK :: "MemoryStore \<Rightarrow> bool" where
  "storeOK s \<longleftrightarrow> gomap (incidents s) \<and> gomap (activeIncidents s) \<and> gomap (channels s) \<and>
     gomap (remediations s) \<and> (\<forall>iid i. map_of (incidents s) iid = Some i \<longrightarrow> rowOK iid i) \<and>
     indexOK (incidents s) (activeIncidents s)"

lemma storeOK_row: "storeOK s \<Longrightarrow> map_of (incidents s) iid = Some i \<Longrightarrow> rowOK iid i"
  by (simp add: storeOK_def)

lemma storeOK_index: "storeOK s \<Longrightarrow> map_of (activeIncidents s) k = Some iid \<longleftrightarrow>
    (\<exists>i. map_of (incidents s) iid = Some i \<and> activeIncident i \<and> incidentKey i = k)"
  by (simp add: storeOK_def indexOK_def)

lemma storeOK_no_index:
  "storeOK s \<Longrightarrow> map_of (activeIncidents s) k = None \<Longrightarrow> map_of (incidents s) iid = Some i \<Longrightarrow>
   activeIncident i \<Longrightarrow> incidentKey i \<noteq> k"
  by (metis option.distinct(1) storeOK_index)

lemma storeOK_unique:
  assumes "storeOK s" "map_of (incidents s) iid = Some i" "map_of (incidents s) jid = Some j"
    "activeIncident i" "activeIncident j" "incidentKey i = incidentKey j"
  shows "iid = jid"
  by (metis assms option.inject storeOK_index)

lemma storeOK_empty: "storeOK NewMemoryStore"
  by (simp add: storeOK_def NewMemoryStore_def indexOK_def)

text \<open>The three ways an operation changes rows: a new active row, an active row kept active, a row closed.\<close>

lemma storeOK_insert:
  assumes "storeOK s" "map_of (incidents s) iid = None" "map_of (activeIncidents s) (incidentKey i) = None"
    "rowOK iid i" "activeIncident i"
  shows "storeOK (s\<lparr>incidents := AList.update iid i (incidents s),
                    activeIncidents := AList.update (incidentKey i) iid (activeIncidents s)\<rparr>)"
  using assms storeOK_no_index [OF assms(1,3)]
  by (auto simp: storeOK_def indexOK_def split: if_splits)

lemma storeOK_keep:
  assumes "storeOK s" "map_of (incidents s) iid = Some e" "rowOK iid i" "incidentKey i = incidentKey e"
    "activeIncident i = activeIncident e"
  shows "storeOK (s\<lparr>incidents := AList.update iid i (incidents s)\<rparr>)"
  using assms by (auto simp: storeOK_def indexOK_def split: if_splits)

lemma storeOK_close:
  assumes ok: "storeOK s" and e: "map_of (incidents s) iid = Some e" "activeIncident e"
    and i: "rowOK iid i" "incidentKey i = incidentKey e" "\<not> activeIncident i"
  shows "storeOK (s\<lparr>incidents := AList.update iid i (incidents s),
                    activeIncidents := AList.delete (incidentKey e) (activeIncidents s)\<rparr>)"
proof -
  have only: "j = iid" if "map_of (incidents s) j = Some x" "activeIncident x" "incidentKey x = incidentKey e" for j x
    using storeOK_unique [OF ok that(1) e(1)] that e(2) by simp
  have "indexOK (AList.update iid i (incidents s)) (AList.delete (incidentKey e) (activeIncidents s))"
    unfolding indexOK_def using i only by (auto simp: storeOK_index [OF ok] e split: if_splits)
  with ok i show ?thesis by (auto simp: storeOK_def)
qed

lemma storeOK_other [simp]:
  "storeOK (s\<lparr>signals := x\<rparr>) = storeOK s" "storeOK (s\<lparr>deliveries := y\<rparr>) = storeOK s"
  by (simp_all add: storeOK_def)

subsection \<open>Each operation keeps the invariant\<close>

text \<open>
  An incident as its only producer, \<^verbatim>\<open>evaluateAndStoreIncidents\<close>, hands it to the store: no
  identifier, resolution or flag of its own and at most the status open.
\<close>

definition rawIncident :: "Incident \<Rightarrow> bool" where
  "rawIncident i \<longleftrightarrow> incID i = [] \<and> incStatus i \<in> {[], ''open''} \<and> incResolvedAt i = None \<and>
     \<not> incSeverityChanged i \<and> \<not> incStatusChanged i"

definition openedRow :: "tick \<Rightarrow> Incident \<Rightarrow> Incident" where
  "openedRow t i = i\<lparr>incID := newID ''inc'' t, incStatus := ''open'', incOpenedAt := tkNow t,
     incUpdatedAt := tkNow t, incLastSeenAt := tkNow t, incOccurrenceCount := 1\<rparr>"

lemma openedRow_simps [simp]:
  "incID (openedRow t i) = newID ''inc'' t" "incStatus (openedRow t i) = ''open''"
  "incidentKey (openedRow t i) = incidentKey i" "incOccurrenceCount (openedRow t i) = 1"
  "incSeverity (openedRow t i) = incSeverity i" "incOpenedAt (openedRow t i) = tkNow t"
  "activeIncident (openedRow t i)" "incReport (openedRow t i) = incReport i"
  by (simp_all add: openedRow_def incidentKey_def activeIncident_def)

lemma rawIncident_row: "rawIncident i \<Longrightarrow> rowOK (newID ''inc'' t) (openedRow t i)"
  by (simp add: rowOK_def rawIncident_def openedRow_def activeIncident_def)

lemma openIncident_raw: "rawIncident i \<Longrightarrow> openIncident t i s =
    (Inr (openedRow t i, True),
     s\<lparr>incidents := AList.update (newID ''inc'' t) (openedRow t i) (incidents s),
       activeIncidents := AList.update (incidentKey i) (newID ''inc'' t) (activeIncidents s)\<rparr>)"
  by (cases i) (auto simp: openIncident_def rawIncident_def openedRow_def Let_def incidentKey_def)

lemma Upsert_new:
  "tkCtx t = None \<Longrightarrow> map_of (activeIncidents s) (incidentKey i) = None \<Longrightarrow>
   UpsertIncident t i s = openIncident t i s"
  by (simp add: UpsertIncident_def)

lemma Upsert_repeat:
  assumes "storeOK s" "tkCtx t = None" "map_of (activeIncidents s) (incidentKey i) = Some iid"
  obtains e where "map_of (incidents s) iid = Some e" "activeIncident e" "incidentKey e = incidentKey i"
    "incID e = iid"
    "UpsertIncident t i s = (Inr (repeatIncident t i e, False),
       s\<lparr>incidents := AList.update iid (persisted (repeatIncident t i e)) (incidents s)\<rparr>)"
proof -
  obtain e where e: "map_of (incidents s) iid = Some e" "activeIncident e" "incidentKey e = incidentKey i"
    using assms by (auto simp: storeOK_index)
  moreover have "incID e = iid" using storeOK_row [OF assms(1) e(1)] by (simp add: rowOK_def)
  ultimately show thesis using that assms by (simp add: UpsertIncident_def activeIncident_def Let_def)
qed

lemma rowOK_repeat: "rowOK iid e \<Longrightarrow> rowOK iid (persisted (repeatIncident t i e))"
  by (simp add: rowOK_def activeIncident_def)

lemma activeIncident_keep [simp]:
  "activeIncident (persisted i) = activeIncident i" "activeIncident (repeatIncident t i e) = activeIncident e"
  "\<not> activeIncident (resolveIncident t sg r e)"
  by (simp_all add: activeIncident_def)

lemma UpsertIncident_storeOK:
  assumes "storeOK s" "rawIncident i" "map_of (incidents s) (newID ''inc'' t) = None"
  shows "storeOK (snd (UpsertIncident t i s))"
proof (cases "tkCtx t")
  case None
  show ?thesis
  proof (cases "map_of (activeIncidents s) (incidentKey i)")
    case None': None
    have "UpsertIncident t i s = openIncident t i s" by (rule Upsert_new [OF None None'])
    then show ?thesis
      using storeOK_insert [of s "newID ''inc'' t" "openedRow t i"] assms None' rawIncident_row
      by (simp add: openIncident_raw)
  next
    case (Some iid)
    obtain e where "map_of (incidents s) iid = Some e"
      "UpsertIncident t i s = (Inr (repeatIncident t i e, False),
         s\<lparr>incidents := AList.update iid (persisted (repeatIncident t i e)) (incidents s)\<rparr>)"
      by (rule Upsert_repeat [OF assms(1) None Some])
    then show ?thesis using assms(1) by (simp add: storeOK_keep rowOK_repeat storeOK_row)
  qed
qed (simp add: UpsertIncident_def assms)

definition restatus :: "tick \<Rightarrow> string \<Rightarrow> Incident \<Rightarrow> Incident" where
  "restatus t status i =
     (if isTerminalIncidentStatus status
      then i\<lparr>incStatus := status, incStatusChanged := True, incUpdatedAt := tkNow t,
             incResolvedAt := Some (tkNow t), incResolutionReason := ''manual''\<rparr>
      else i\<lparr>incStatus := status, incStatusChanged := True, incUpdatedAt := tkNow t,
             incResolvedAt := None, incResolvedBySignalID := [], incResolutionReason := []\<rparr>)"

lemma restatus_simps [simp]:
  "incID (restatus t st i) = incID i" "incStatus (restatus t st i) = st"
  "incidentKey (restatus t st i) = incidentKey i" "incRule (restatus t st i) = incRule i"
  "incServiceID (restatus t st i) = incServiceID i" "incStreamID (restatus t st i) = incStreamID i"
  "incOpenedAt (restatus t st i) = incOpenedAt i" "incSeverity (restatus t st i) = incSeverity i"
  "incOccurrenceCount (restatus t st i) = incOccurrenceCount i"
  "incResolvedAt (restatus t st i) = (if isTerminalIncidentStatus st then Some (tkNow t) else None)"
  by (simp_all add: restatus_def incidentKey_def)

text \<open>The outcomes of a status change, by the checks of the code in their order.\<close>

lemma UpdateIncidentStatus_eq:
  "UpdateIncidentStatus t iid status s =
     (case tkCtx t of Some e \<Rightarrow> (Inl e, s)
      | None \<Rightarrow>
        if \<not> validIncidentStatus status then (Inl ErrInvalidStatus, s)
        else case map_of (incidents s) iid of
          None \<Rightarrow> (Inl ErrNotFound, s)
        | Some i \<Rightarrow>
            if incStatus i = status then (Inr (i\<lparr>incStatusChanged := False\<rparr>), s)
            else if \<not> canTransitionIncidentStatus (incStatus i) status then (Inl ErrInvalidTransition, s)
            else (Inr (restatus t status i),
                  s\<lparr>incidents := AList.update iid (persisted (restatus t status i)) (incidents s),
                    activeIncidents := (if isTerminalIncidentStatus status
                      then AList.delete (incidentKey i) (activeIncidents s) else activeIncidents s)\<rparr>))"
  by (simp add: UpdateIncidentStatus_def restatus_def guarded_def Let_def incidentKey_def split: option.split)

lemma UpdateIncidentStatus_storeOK:
  assumes "storeOK s"
  shows "storeOK (snd (UpdateIncidentStatus t iid status s))"
proof (cases "map_of (incidents s) iid")
  case (Some i)
  have row: "rowOK iid i" by (rule storeOK_row [OF assms Some])
  show ?thesis
  proof (cases "validIncidentStatus status \<and> incStatus i \<noteq> status \<and>
                canTransitionIncidentStatus (incStatus i) status")
    case True
    then have act: "activeIncident i" by (auto simp: activeIncident_def canTransition_terminal)
    have new: "rowOK iid (persisted (restatus t status i))"
      using True row by (simp add: rowOK_def activeIncident_def)
    show ?thesis
    proof (cases "isTerminalIncidentStatus status")
      case closing: True
      then have "\<not> activeIncident (persisted (restatus t status i))" by (simp add: activeIncident_def)
      then show ?thesis
        using storeOK_close [OF assms Some act new] assms Some closing
        by (auto simp: UpdateIncidentStatus_eq split: option.split)
    next
      case nonterm: False
      then have "activeIncident (persisted (restatus t status i))" by (simp add: activeIncident_def)
      then show ?thesis
        using storeOK_keep [OF assms Some new] assms Some nonterm act
        by (auto simp: UpdateIncidentStatus_eq split: option.split)
    qed
  next
    case False
    then show ?thesis using assms Some by (auto simp: UpdateIncidentStatus_eq split: option.split)
  qed
qed (use assms in \<open>auto simp: UpdateIncidentStatus_eq split: option.split\<close>)

lemma UpdateIncidentDiagnostic_storeOK:
  assumes "storeOK s"
  shows "storeOK (snd (UpdateIncidentDiagnostic t iid sg rep s))"
proof -
  have "storeOK (s\<lparr>incidents := AList.update j (i\<lparr>incReport := rep, incUpdatedAt := tkNow t\<rparr>) (incidents s)\<rparr>)"
    if "map_of (incidents s) j = Some i" for j i
    using storeOK_row [OF assms that]
    by (intro storeOK_keep [OF assms that]) (auto simp: rowOK_def activeIncident_def incidentKey_def)
  with assms show ?thesis
    by (simp add: UpdateIncidentDiagnostic_def guarded_def Let_def split: option.split)
qed

subsection \<open>Resolution\<close>

abbreviation ruleKey :: "string \<Rightarrow> string \<Rightarrow> string \<Rightarrow> string" where
  "ruleKey rule serviceID streamID \<equiv>
     incidentKey (zeroIncident\<lparr>incRule := rule, incServiceID := serviceID, incStreamID := streamID\<rparr>)"

text \<open>One rule: nothing when it has no active incident, otherwise that incident is closed.\<close>

lemma resolveRule_none:
  "map_of (activeIncidents s) (ruleKey rule svc str) = None \<Longrightarrow>
   resolveRule t svc str sg r (acc, s) rule = (acc, s)"
  by (simp add: resolveRule_def)

lemma resolveRule_some:
  assumes "storeOK s" "map_of (activeIncidents s) (ruleKey rule svc str) = Some iid"
  obtains e where "map_of (incidents s) iid = Some e" "activeIncident e" "incidentKey e = ruleKey rule svc str"
    "resolveRule t svc str sg r (acc, s) rule =
       (acc @ [resolveIncident t sg r e],
        s\<lparr>incidents := AList.update iid (persisted (resolveIncident t sg r e)) (incidents s),
          activeIncidents := AList.delete (ruleKey rule svc str) (activeIncidents s)\<rparr>)"
proof -
  obtain e where e: "map_of (incidents s) iid = Some e" "activeIncident e" "incidentKey e = ruleKey rule svc str"
    using assms by (auto simp: storeOK_index)
  then show thesis using that assms by (simp add: resolveRule_def activeIncident_def Let_def)
qed

lemma rowOK_resolve: "rowOK iid e \<Longrightarrow> rowOK iid (persisted (resolveIncident t sg r e))"
  by (simp add: rowOK_def activeIncident_def) (simp add: resolveIncident_def)

lemma resolveRule_storeOK:
  assumes "storeOK s"
  shows "storeOK (snd (resolveRule t svc str sg r (acc, s) rule))"
proof (cases "map_of (activeIncidents s) (ruleKey rule svc str)")
  case (Some iid)
  obtain e where "map_of (incidents s) iid = Some e" "activeIncident e" "incidentKey e = ruleKey rule svc str"
    "resolveRule t svc str sg r (acc, s) rule =
       (acc @ [resolveIncident t sg r e],
        s\<lparr>incidents := AList.update iid (persisted (resolveIncident t sg r e)) (incidents s),
          activeIncidents := AList.delete (ruleKey rule svc str) (activeIncidents s)\<rparr>)"
    by (rule resolveRule_some [OF assms Some])
  then show ?thesis
    using storeOK_close [OF assms, of iid e "persisted (resolveIncident t sg r e)"] assms
    by (simp add: rowOK_resolve storeOK_row)
qed (simp add: resolveRule_none assms)

lemma ResolveActiveIncidents_storeOK:
  assumes "storeOK s"
  shows "storeOK (snd (ResolveActiveIncidents t rules svc str sg r s))"
proof -
  have "storeOK (snd (foldl (resolveRule t svc str sg r) ([], s) (uniqueNonEmptyStrings rules)))"
    by (rule foldl_invariant) (use assms resolveRule_storeOK in auto)
  then show ?thesis
    using assms by (simp add: ResolveActiveIncidents_def guarded_def case_prod_unfold Let_def split: option.split)
qed

text \<open>
  What a whole call does.  \<open>closedBy\<close> are the rules' active rows; the call closes exactly
  these and returns them in the order of the rules.
\<close>

definition resolvedRow ::
  "tick \<Rightarrow> string list \<Rightarrow> string \<Rightarrow> string \<Rightarrow> string \<Rightarrow> string \<Rightarrow> Incident \<Rightarrow> Incident" where
  "resolvedRow t rules svc str sg r e =
     (if activeIncident e \<and> incidentKey e \<in> (\<lambda>rule. ruleKey rule svc str) ` set rules
      then persisted (resolveIncident t sg r e) else e)"

definition activeRow :: "MemoryStore \<Rightarrow> string \<Rightarrow> Incident option" where
  "activeRow s key = Option.bind (map_of (activeIncidents s) key) (map_of (incidents s))"

definition closedBy :: "MemoryStore \<Rightarrow> string list \<Rightarrow> string \<Rightarrow> string \<Rightarrow> Incident list" where
  "closedBy s rules svc str = List.map_filter (\<lambda>rule. activeRow s (ruleKey rule svc str)) rules"

lemma activeRow_iff:
  "storeOK s \<Longrightarrow> activeRow s key = Some i \<longleftrightarrow>
     map_of (incidents s) (incID i) = Some i \<and> activeIncident i \<and> incidentKey i = key"
proof -
  assume ok: "storeOK s"
  have "activeRow s key = Some i \<longleftrightarrow>
      (\<exists>iid. map_of (activeIncidents s) key = Some iid \<and> map_of (incidents s) iid = Some i)"
    by (auto simp: activeRow_def bind_eq_Some_conv)
  also have "\<dots> \<longleftrightarrow> (\<exists>iid. map_of (incidents s) iid = Some i \<and> activeIncident i \<and> incidentKey i = key)"
    using storeOK_index [OF ok] by auto
  also have "\<dots> \<longleftrightarrow> map_of (incidents s) (incID i) = Some i \<and> activeIncident i \<and> incidentKey i = key"
    using storeOK_row [OF ok] by (auto simp: rowOK_def)
  finally show ?thesis .
qed

lemma ruleKey_inj: "ruleKey r1 svc str = ruleKey r2 svc str \<longleftrightarrow> r1 = r2"
  by (simp add: incidentKey_def)

lemma resolve_fold:
  assumes "storeOK s" "distinct rules"
  shows "fst (foldl (resolveRule t svc str sg r) (acc, s) rules) =
           acc @ map (resolveIncident t sg r) (closedBy s rules svc str) \<and>
         (\<forall>iid. map_of (incidents (snd (foldl (resolveRule t svc str sg r) (acc, s) rules))) iid =
            map_option (resolvedRow t rules svc str sg r) (map_of (incidents s) iid))"
  using assms
proof (induction rules arbitrary: s acc)
  case Nil
  have "resolvedRow t [] svc str sg r = id" by (auto simp: resolvedRow_def)
  then show ?case by (simp add: closedBy_def map_filter_def id_def option.map_ident)
next
  case (Cons rule rules)
  show ?case
  proof (cases "map_of (activeIncidents s) (ruleKey rule svc str)")
    case None
    have "resolvedRow t (rule # rules) svc str sg r e = resolvedRow t rules svc str sg r e"
      if "map_of (incidents s) iid = Some e" for iid e
      using storeOK_no_index [OF Cons.prems(1) None that] by (auto simp: resolvedRow_def)
    then have "map_option (resolvedRow t (rule # rules) svc str sg r) (map_of (incidents s) iid) =
        map_option (resolvedRow t rules svc str sg r) (map_of (incidents s) iid)" for iid
      by (cases "map_of (incidents s) iid") auto
    then show ?thesis
      using Cons None by (simp add: resolveRule_none closedBy_def map_filter_simps activeRow_def)
  next
    case (Some iid)
    obtain e where e: "map_of (incidents s) iid = Some e" "activeIncident e" "incidentKey e = ruleKey rule svc str"
      and step: "resolveRule t svc str sg r (acc, s) rule =
       (acc @ [resolveIncident t sg r e],
        s\<lparr>incidents := AList.update iid (persisted (resolveIncident t sg r e)) (incidents s),
          activeIncidents := AList.delete (ruleKey rule svc str) (activeIncidents s)\<rparr>)"
      (is "_ = (_, ?s')")
      by (rule resolveRule_some [OF Cons.prems(1) Some])
    have ok': "storeOK ?s'" using resolveRule_storeOK [OF Cons.prems(1), of t svc str sg r acc rule] step by simp
    have other: "activeRow ?s' (ruleKey x svc str) = activeRow s (ruleKey x svc str)" if "x \<noteq> rule" for x
    proof -
      have key: "ruleKey x svc str \<noteq> ruleKey rule svc str" using that by (simp only: ruleKey_inj) simp
      then have "map_of (activeIncidents s) (ruleKey x svc str) \<noteq> Some iid"
        using e by (auto simp: storeOK_index [OF Cons.prems(1)])
      with key show ?thesis
        by (cases "map_of (activeIncidents s) (ruleKey x svc str)") (auto simp: activeRow_def)
    qed
    have closed: "closedBy ?s' rules svc str = closedBy s rules svc str"
      unfolding closedBy_def by (rule map_filter_cong) (metis Cons.prems(2) distinct.simps(2) other)
    have now: "closedBy s (rule # rules) svc str = e # closedBy s rules svc str"
      using Some e by (simp add: closedBy_def map_filter_simps activeRow_def)
    have row: "map_option (resolvedRow t rules svc str sg r) (map_of (incidents ?s') j) =
        map_option (resolvedRow t (rule # rules) svc str sg r) (map_of (incidents s) j)" for j
    proof (cases "j = iid")
      case True
      then show ?thesis using e by (simp add: resolvedRow_def)
    next
      case False
      have "incidentKey x \<noteq> ruleKey rule svc str \<or> \<not> activeIncident x" if "map_of (incidents s) j = Some x" for x
        using storeOK_unique [OF Cons.prems(1) that e(1)] e False by auto
      then show ?thesis using False by (cases "map_of (incidents s) j") (auto simp: resolvedRow_def)
    qed
    show ?thesis using Cons.IH [OF ok', of "acc @ [resolveIncident t sg r e]"] Cons.prems(2) row
      by (simp add: step closed now)
  qed
qed

lemma uniqueLoop_distinct: "distinct (uniqueLoop seen vs) \<and> set (uniqueLoop seen vs) \<inter> set seen = {}"
  by (induction seen vs rule: uniqueLoop.induct) (auto simp: Let_def)

lemma uniqueLoop_set: "set (uniqueLoop seen vs) = (TrimSpace ` set vs - {[]}) - set seen"
  by (induction seen vs rule: uniqueLoop.induct) (auto simp: Let_def)

lemma uniqueNonEmptyStrings_simps [simp]:
  "distinct (uniqueNonEmptyStrings vs)" "set (uniqueNonEmptyStrings vs) = TrimSpace ` set vs - {[]}"
  by (simp_all add: uniqueNonEmptyStrings_def uniqueLoop_distinct uniqueLoop_set)

lemma ResolveActiveIncidents_rows:
  assumes "storeOK s" "tkCtx t = None"
  shows "fst (ResolveActiveIncidents t rules svc str sg r s) =
           Inr (map (resolveIncident t sg r) (closedBy s (uniqueNonEmptyStrings rules) svc str))"
    and "map_of (incidents (snd (ResolveActiveIncidents t rules svc str sg r s))) iid =
           map_option (resolvedRow t (uniqueNonEmptyStrings rules) svc str sg r) (map_of (incidents s) iid)"
  using resolve_fold [OF assms(1), of "uniqueNonEmptyStrings rules" t svc str sg r "[]"] assms(2)
  by (simp_all add: ResolveActiveIncidents_def case_prod_unfold Let_def)

subsection \<open>Runs of the store\<close>

text \<open>
  A step is one operation, with any context, clock and arguments the callers can pass.  The
  only assumption on the random source is that an identifier drawn for a new incident is not
  the identifier of a stored one.
\<close>

inductive store_step :: "goenv \<Rightarrow> MemoryStore \<Rightarrow> MemoryStore \<Rightarrow> bool" for env where
  save_signal: "store_step env s (snd (SaveSignal t signal s))"
| upsert: "rawIncident i \<Longrightarrow> map_of (incidents s) (newID ''inc'' t) = None \<Longrightarrow>
     store_step env s (snd (UpsertIncident t i s))"
| status: "store_step env s (snd (UpdateIncidentStatus t iid status s))"
| resolve: "store_step env s (snd (ResolveActiveIncidents t rules svc str sg r s))"
| diagnostic: "store_step env s (snd (UpdateIncidentDiagnostic t iid sg rep s))"
| delivery: "store_step env s (snd (SaveNotificationDelivery env t d s))"
| channel_create: "store_step env s (snd (CreateNotificationChannel env t c s))"
| channel_update: "store_step env s (snd (UpdateNotificationChannel env t c s))"
| channel_delete: "store_step env s (snd (DeleteNotificationChannel t cid s))"
| action_create: "store_step env s (snd (CreateRemediationAction t a s))"
| action_update: "store_step env s (snd (UpdateRemediationAction t a s))"

inductive store_run :: "goenv \<Rightarrow> MemoryStore \<Rightarrow> MemoryStore \<Rightarrow> bool" for env where
  refl [intro!]: "store_run env s s"
| step: "store_run env s s' \<Longrightarrow> store_step env s' s'' \<Longrightarrow> store_run env s s''"

text \<open>The operations that leave incidents alone.\<close>

lemma incident_frame [simp]:
  "incidents (snd (SaveSignal t signal s)) = incidents s"
  "incidents (snd (SaveNotificationDelivery env t d s)) = incidents s"
  "incidents (snd (CreateNotificationChannel env t c s)) = incidents s"
  "incidents (snd (UpdateNotificationChannel env t c s)) = incidents s"
  "incidents (snd (DeleteNotificationChannel t cid s)) = incidents s"
  "incidents (snd (CreateRemediationAction t a s)) = incidents s"
  "incidents (snd (UpdateRemediationAction t a s)) = incidents s"
  by (simp_all add: SaveSignal_def SaveNotificationDelivery_def CreateNotificationChannel_def
      UpdateNotificationChannel_def DeleteNotificationChannel_def CreateRemediationAction_def
      UpdateRemediationAction_def guarded_def Let_def split: option.split)

lemma storeOK_frame [simp]:
  "storeOK s \<Longrightarrow> storeOK (snd (SaveSignal t signal s))"
  "storeOK s \<Longrightarrow> storeOK (snd (SaveNotificationDelivery env t d s))"
  "storeOK s \<Longrightarrow> storeOK (snd (CreateNotificationChannel env t c s))"
  "storeOK s \<Longrightarrow> storeOK (snd (UpdateNotificationChannel env t c s))"
  "storeOK s \<Longrightarrow> storeOK (snd (DeleteNotificationChannel t cid s))"
  "storeOK s \<Longrightarrow> storeOK (snd (CreateRemediationAction t a s))"
  "storeOK s \<Longrightarrow> storeOK (snd (UpdateRemediationAction t a s))"
  by (simp_all add: SaveSignal_def SaveNotificationDelivery_def CreateNotificationChannel_def
      UpdateNotificationChannel_def DeleteNotificationChannel_def CreateRemediationAction_def
      UpdateRemediationAction_def guarded_def Let_def storeOK_def split: option.split)

lemma store_step_storeOK: "store_step env s s' \<Longrightarrow> storeOK s \<Longrightarrow> storeOK s'"
  by (induction rule: store_step.induct)
    (simp_all add: UpsertIncident_storeOK UpdateIncidentStatus_storeOK ResolveActiveIncidents_storeOK
      UpdateIncidentDiagnostic_storeOK)

lemma store_run_storeOK: "store_run env s s' \<Longrightarrow> storeOK s \<Longrightarrow> storeOK s'"
  by (induction rule: store_run.induct) (auto intro: store_step_storeOK)

subsection \<open>The life of a row\<close>

text \<open>What an earlier and a later version of one row have in common.\<close>

definition rowLater :: "Incident \<Rightarrow> Incident \<Rightarrow> bool" where
  "rowLater i j \<longleftrightarrow>
     incID j = incID i \<and> incidentKey j = incidentKey i \<and> incOpenedAt j = incOpenedAt i \<and>
     canTransitionIncidentStatus (incStatus i) (incStatus j) \<and>
     incidentSeverityRank (incSeverity i) \<le> incidentSeverityRank (incSeverity j) \<and>
     (isTerminalIncidentStatus (incStatus i) \<longrightarrow>
        incStatus j = incStatus i \<and> incSeverity j = incSeverity i \<and> incResolvedAt j = incResolvedAt i \<and>
        incOccurrenceCount j = incOccurrenceCount i \<and> incSignalID j = incSignalID i \<and>
        incResolutionReason j = incResolutionReason i \<and> incResolvedBySignalID j = incResolvedBySignalID i)"

lemma rowLater_refl [simp]: "rowLater i i"
  by (simp add: rowLater_def)

lemma rowLater_trans: "rowLater i j \<Longrightarrow> rowLater j k \<Longrightarrow> rowLater i k"
  by (auto simp: rowLater_def intro: canTransition_trans order_trans)

lemma rowLater_repeat: "activeIncident e \<Longrightarrow> rowLater e (persisted (repeatIncident t i e))"
  by (simp add: rowLater_def activeIncident_def repeatIncident_rank)

lemma rowLater_resolve:
  "activeIncident e \<Longrightarrow> validIncidentStatus (incStatus e) \<Longrightarrow> rowLater e (persisted (resolveIncident t sg r e))"
  by (simp add: rowLater_def activeIncident_def canTransition_resolved)

lemma rowLater_restatus:
  "canTransitionIncidentStatus (incStatus e) st \<Longrightarrow> incStatus e \<noteq> st \<Longrightarrow>
   rowLater e (persisted (restatus t st e))"
  by (auto simp: rowLater_def canTransition_terminal)

lemma rowLater_report: "rowLater e (e\<lparr>incReport := rep, incUpdatedAt := now\<rparr>)"
  by (simp add: rowLater_def incidentKey_def)

definition keepsRows :: "MemoryStore \<Rightarrow> MemoryStore \<Rightarrow> bool" where
  "keepsRows s s' \<longleftrightarrow>
     (\<forall>iid i. map_of (incidents s) iid = Some i \<longrightarrow> (\<exists>j. map_of (incidents s') iid = Some j \<and> rowLater i j))"

lemma keepsRows_same: "incidents s' = incidents s \<Longrightarrow> keepsRows s s'"
  by (simp add: keepsRows_def)

lemma keepsRows_trans: "keepsRows a b \<Longrightarrow> keepsRows b c \<Longrightarrow> keepsRows a c"
  unfolding keepsRows_def by (metis rowLater_trans)

lemma keepsRows_update:
  assumes "\<And>e. map_of (incidents s) iid = Some e \<Longrightarrow> rowLater e i"
    "incidents s' = AList.update iid i (incidents s)"
  shows "keepsRows s s'"
  using assms by (simp add: keepsRows_def)

lemma UpsertIncident_keepsRows:
  assumes "storeOK s" "rawIncident i" "map_of (incidents s) (newID ''inc'' t) = None"
  shows "keepsRows s (snd (UpsertIncident t i s))"
proof (cases "tkCtx t")
  case ctx: None
  show ?thesis
  proof (cases "map_of (activeIncidents s) (incidentKey i)")
    case None
    then show ?thesis using assms ctx
      by (intro keepsRows_update [of s "newID ''inc'' t" "openedRow t i"]) (auto simp: Upsert_new openIncident_raw)
  next
    case (Some iid)
    then show ?thesis
      by (rule Upsert_repeat [OF assms(1) ctx])
        (rule keepsRows_update, auto intro: rowLater_repeat)
  qed
qed (simp add: UpsertIncident_def keepsRows_same)

lemma UpdateIncidentStatus_keepsRows: "keepsRows s (snd (UpdateIncidentStatus t iid st s))"
  by (auto simp: UpdateIncidentStatus_eq keepsRows_def intro: rowLater_restatus split: option.split)

lemma UpdateIncidentDiagnostic_keepsRows: "keepsRows s (snd (UpdateIncidentDiagnostic t iid sg rep s))"
  by (auto simp: UpdateIncidentDiagnostic_def guarded_def Let_def keepsRows_def rowLater_report split: option.split)

lemma ResolveActiveIncidents_keepsRows:
  assumes "storeOK s"
  shows "keepsRows s (snd (ResolveActiveIncidents t rules svc str sg r s))"
proof (cases "tkCtx t")
  case None
  show ?thesis
    using storeOK_row [OF assms]
    by (auto simp: keepsRows_def ResolveActiveIncidents_rows [OF assms None] resolvedRow_def rowOK_def
        intro: rowLater_resolve)
qed (simp add: ResolveActiveIncidents_def keepsRows_same)

lemma store_step_keepsRows: "store_step env s s' \<Longrightarrow> storeOK s \<Longrightarrow> keepsRows s s'"
  by (induction rule: store_step.induct)
    (simp_all add: keepsRows_same UpsertIncident_keepsRows UpdateIncidentStatus_keepsRows
      ResolveActiveIncidents_keepsRows UpdateIncidentDiagnostic_keepsRows)

lemma store_run_keepsRows: "store_run env s s' \<Longrightarrow> storeOK s \<Longrightarrow> keepsRows s s'"
proof (induction rule: store_run.induct)
  case (step s s' s'')
  then show ?case using store_step_keepsRows store_run_storeOK keepsRows_trans by blast
qed (simp add: keepsRows_same)

end
