(* ===== verification/Incident_Spec.thy ===== *)
theory Incident_Spec
  imports Incident_Lifecycle
begin

text \<open>
  The incident store against a reference store without an index, the contract its callers
  rely on as a locale, cursor pagination, and the properties of the incident life cycle.
\<close>

subsection \<open>The reference store\<close>

text \<open>
  The reference keeps only the rows and searches them; the code answers the same question with
  the \<^verbatim>\<open>activeIncidents\<close> index.
\<close>

datatype incidentOp =
    OpUpsert Incident
  | OpStatus string string
  | OpResolve "string list" string string string string
  | OpDiagnostic string string Report

datatype outcome =
    Upserted "(Incident \<times> bool) result"
  | Restated "Incident result"
  | Resolved "Incident list result"
  | Diagnosed "(Incident \<times> bool) result"

fun storeOp :: "tick \<Rightarrow> incidentOp \<Rightarrow> MemoryStore \<Rightarrow> outcome \<times> MemoryStore" where
  "storeOp t (OpUpsert i) s = apfst Upserted (UpsertIncident t i s)"
| "storeOp t (OpStatus iid st) s = apfst Restated (UpdateIncidentStatus t iid st s)"
| "storeOp t (OpResolve rules svc str sg r) s = apfst Resolved (ResolveActiveIncidents t rules svc str sg r s)"
| "storeOp t (OpDiagnostic iid sg rep) s = apfst Diagnosed (UpdateIncidentDiagnostic t iid sg rep s)"

definition refFind :: "Incident gomap \<Rightarrow> string \<Rightarrow> Incident option" where
  "refFind rows key = map_option snd (List.find (\<lambda>(_, e). activeIncident e \<and> incidentKey e = key) rows)"

definition refUpsert :: "tick \<Rightarrow> Incident \<Rightarrow> Incident gomap \<Rightarrow> (Incident \<times> bool) \<times> Incident gomap" where
  "refUpsert t i rows =
     (case refFind rows (incidentKey i) of
        None \<Rightarrow> ((openedRow t i, True), AList.update (newID ''inc'' t) (openedRow t i) rows)
      | Some e \<Rightarrow> ((repeatIncident t i e, False),
                   AList.update (incID e) (persisted (repeatIncident t i e)) rows))"

definition refStatus :: "tick \<Rightarrow> string \<Rightarrow> string \<Rightarrow> Incident gomap \<Rightarrow> Incident result \<times> Incident gomap" where
  "refStatus t iid status rows =
     (case map_of rows iid of
        None \<Rightarrow> (Inl (if validIncidentStatus status then ErrNotFound else ErrInvalidStatus), rows)
      | Some i \<Rightarrow>
          if \<not> validIncidentStatus status then (Inl ErrInvalidStatus, rows)
          else if incStatus i = status then (Inr (i\<lparr>incStatusChanged := False\<rparr>), rows)
          else if statusRank (incStatus i) < statusRank status
          then (Inr (restatus t status i), AList.update iid (persisted (restatus t status i)) rows)
          else (Inl ErrInvalidTransition, rows))"

definition refResolve ::
  "tick \<Rightarrow> string list \<Rightarrow> string \<Rightarrow> string \<Rightarrow> string \<Rightarrow> string \<Rightarrow> Incident gomap \<Rightarrow> Incident list \<times> Incident gomap" where
  "refResolve t rules svc str sg r rows =
     (let names = uniqueNonEmptyStrings rules in
      (List.map_filter (\<lambda>rule. map_option (resolveIncident t sg r) (refFind rows (ruleKey rule svc str))) names,
       map (\<lambda>(iid, e). (iid, resolvedRow t names svc str sg r e)) rows))"

definition refDiagnostic ::
  "tick \<Rightarrow> string \<Rightarrow> string \<Rightarrow> Report \<Rightarrow> Incident gomap \<Rightarrow> (Incident \<times> bool) result \<times> Incident gomap" where
  "refDiagnostic t iid sg rep rows =
     (case map_of rows (TrimSpace iid) of
        None \<Rightarrow> (Inl ErrNotFound, rows)
      | Some i \<Rightarrow>
          if TrimSpace iid = [] \<or> TrimSpace sg = [] then (Inl ErrNotFound, rows)
          else if incSignalID i \<noteq> TrimSpace sg then (Inr (i, False), rows)
          else (Inr (i\<lparr>incReport := rep, incUpdatedAt := tkNow t\<rparr>, True),
                AList.update (TrimSpace iid) (i\<lparr>incReport := rep, incUpdatedAt := tkNow t\<rparr>) rows))"

fun refOp :: "tick \<Rightarrow> incidentOp \<Rightarrow> Incident gomap \<Rightarrow> outcome \<times> Incident gomap" where
  "refOp t (OpUpsert i) rows = apfst (Upserted \<circ> Inr) (refUpsert t i rows)"
| "refOp t (OpStatus iid st) rows = apfst Restated (refStatus t iid st rows)"
| "refOp t (OpResolve rules svc str sg r) rows = apfst (Resolved \<circ> Inr) (refResolve t rules svc str sg r rows)"
| "refOp t (OpDiagnostic iid sg rep) rows = apfst Diagnosed (refDiagnostic t iid sg rep rows)"

text \<open>What a caller passes: raw incidents, with a fresh identifier when one is created.\<close>

fun callable :: "tick \<Rightarrow> incidentOp \<Rightarrow> Incident gomap \<Rightarrow> bool" where
  "callable t (OpUpsert i) rows \<longleftrightarrow> rawIncident i \<and> map_of rows (newID ''inc'' t) = None"
| "callable t _ rows \<longleftrightarrow> True"

subsection \<open>The refinement\<close>

lemma refFind_activeRow:
  assumes "storeOK s"
  shows "refFind (incidents s) key = activeRow s key"
proof (cases "activeRow s key")
  case None
  have "\<not> (activeIncident e \<and> incidentKey e = key)" if "(iid, e) \<in> set (incidents s)" for iid e
  proof -
    have row: "map_of (incidents s) iid = Some e" using that assms by (simp add: storeOK_def gomap_def)
    then have "incID e = iid" using storeOK_row [OF assms] by (simp add: rowOK_def)
    with row None activeRow_iff [OF assms, of key e] show ?thesis by auto
  qed
  then show ?thesis using None by (auto simp: refFind_def find_None_iff)
next
  case (Some i)
  then have i: "map_of (incidents s) (incID i) = Some i" "activeIncident i" "incidentKey i = key"
    using activeRow_iff [OF assms] by auto
  then have "List.find (\<lambda>(_, e). activeIncident e \<and> incidentKey e = key) (incidents s) \<noteq> None"
    by (auto simp: find_None_iff dest: map_of_SomeD)
  then obtain iid e where f: "List.find (\<lambda>(_, e). activeIncident e \<and> incidentKey e = key) (incidents s) = Some (iid, e)"
    by auto
  then have e: "(iid, e) \<in> set (incidents s)" "activeIncident e" "incidentKey e = key"
    by (auto simp: find_Some_iff in_set_conv_nth)
  then have row: "map_of (incidents s) iid = Some e" using assms by (simp add: storeOK_def gomap_def)
  have "iid = incID i" using storeOK_unique [OF assms row i(1)] e i by simp
  then show ?thesis using f row i Some by (simp add: refFind_def)
qed

lemma UpsertIncident_ref:
  assumes "storeOK s" "tkCtx t = None" "rawIncident i"
  shows "fst (UpsertIncident t i s) = Inr (fst (refUpsert t i (incidents s)))"
    and "incidents (snd (UpsertIncident t i s)) = snd (refUpsert t i (incidents s))"
proof -
  have "fst (UpsertIncident t i s) = Inr (fst (refUpsert t i (incidents s))) \<and>
        incidents (snd (UpsertIncident t i s)) = snd (refUpsert t i (incidents s))"
  proof (cases "map_of (activeIncidents s) (incidentKey i)")
    case None
    then show ?thesis using assms
      by (simp add: Upsert_new openIncident_raw refUpsert_def refFind_activeRow activeRow_def)
  next
    case (Some iid)
    then show ?thesis
      by (rule Upsert_repeat [OF assms(1,2)])
        (use assms(1) Some in \<open>simp add: refUpsert_def refFind_activeRow activeRow_def\<close>)
  qed
  then show "fst (UpsertIncident t i s) = Inr (fst (refUpsert t i (incidents s)))"
    and "incidents (snd (UpsertIncident t i s)) = snd (refUpsert t i (incidents s))" by auto
qed

lemma UpdateIncidentStatus_ref:
  assumes "storeOK s" "tkCtx t = None"
  shows "apsnd incidents (UpdateIncidentStatus t iid st s) = refStatus t iid st (incidents s)"
proof (cases "map_of (incidents s) iid")
  case (Some i)
  then have "validIncidentStatus (incStatus i)" using storeOK_row [OF assms(1)] by (auto simp: rowOK_def)
  then show ?thesis using Some assms
    by (simp add: UpdateIncidentStatus_eq refStatus_def canTransition_rank)
qed (simp add: UpdateIncidentStatus_eq refStatus_def assms)

lemma UpdateIncidentDiagnostic_ref:
  assumes "tkCtx t = None"
  shows "apsnd incidents (UpdateIncidentDiagnostic t iid sg rep s) = refDiagnostic t iid sg rep (incidents s)"
  using assms by (simp add: UpdateIncidentDiagnostic_def refDiagnostic_def Let_def split: option.split)

lemma resolveRule_keys:
  assumes "storeOK s"
  shows "map fst (incidents (snd (resolveRule t svc str sg r (acc, s) rule))) = map fst (incidents s)"
proof (cases "map_of (activeIncidents s) (ruleKey rule svc str)")
  case (Some iid)
  then show ?thesis
    by (rule resolveRule_some [OF assms, where t = t and sg = sg and r = r and acc = acc]) (simp add: map_fst_update_present)
qed (simp add: resolveRule_none)

lemma ResolveActiveIncidents_keys:
  assumes "storeOK s"
  shows "map fst (incidents (snd (ResolveActiveIncidents t rules svc str sg r s))) = map fst (incidents s)"
proof -
  let ?I = "\<lambda>acc. storeOK (snd acc) \<and> map fst (incidents (snd acc)) = map fst (incidents s)"
  have "?I (foldl (resolveRule t svc str sg r) ([], s) (uniqueNonEmptyStrings rules))"
    by (rule foldl_invariant [where I = ?I]) (use assms resolveRule_storeOK resolveRule_keys in auto)
  then show ?thesis
    by (simp add: ResolveActiveIncidents_def guarded_def case_prod_unfold Let_def split: option.split)
qed

lemma ResolveActiveIncidents_ref:
  assumes ok: "storeOK s" and ctx: "tkCtx t = None"
  shows "fst (ResolveActiveIncidents t rules svc str sg r s) = Inr (fst (refResolve t rules svc str sg r (incidents s)))"
    and "incidents (snd (ResolveActiveIncidents t rules svc str sg r s)) = snd (refResolve t rules svc str sg r (incidents s))"
proof -
  have "map f (closedBy s rs svc str) =
      List.map_filter (\<lambda>rule. map_option f (refFind (incidents s) (ruleKey rule svc str))) rs" for f :: "Incident \<Rightarrow> Incident" and rs
    unfolding closedBy_def refFind_activeRow [OF ok]
    by (induction rs) (simp_all add: map_filter_simps split: option.split)
  then show "fst (ResolveActiveIncidents t rules svc str sg r s) = Inr (fst (refResolve t rules svc str sg r (incidents s)))"
    by (simp add: ResolveActiveIncidents_rows [OF ok ctx] refResolve_def Let_def)
  show "incidents (snd (ResolveActiveIncidents t rules svc str sg r s)) = snd (refResolve t rules svc str sg r (incidents s))"
    (is "?l = ?r")
  proof (rule gomap_eqI)
    show "gomap ?l" using ResolveActiveIncidents_storeOK [OF ok] by (simp add: storeOK_def)
    show "map fst ?l = map fst ?r"
      by (simp add: ResolveActiveIncidents_keys [OF ok] refResolve_def Let_def case_prod_unfold comp_def)
    show "map_of ?l k = map_of ?r k" for k
      by (simp add: ResolveActiveIncidents_rows [OF ok ctx] refResolve_def Let_def map_of_map)
  qed
qed

lemma storeOp_refines:
  assumes "storeOK s" "tkCtx t = None" "callable t oper (incidents s)"
  shows "apsnd incidents (storeOp t oper s) = refOp t oper (incidents s)"
proof (cases oper)
  case (OpUpsert i)
  then show ?thesis using assms UpsertIncident_ref [OF assms(1,2), of i] by (simp add: prod_eq_iff)
next
  case (OpStatus iid st)
  then show ?thesis
    using UpdateIncidentStatus_ref [OF assms(1,2), of iid st] by (simp add: prod_eq_iff)
next
  case (OpResolve rules svc str sg r)
  then show ?thesis
    using ResolveActiveIncidents_ref [OF assms(1,2), of rules svc str sg r] by (simp add: prod_eq_iff)
next
  case (OpDiagnostic iid sg rep)
  then show ?thesis
    using UpdateIncidentDiagnostic_ref [OF assms(2), of iid sg rep s] by (simp add: prod_eq_iff)
qed

subsection \<open>The contract of a store's incident operations\<close>

text \<open>
  \<^verbatim>\<open>Server\<close> works with any implementation of the store interface.  The locale states what it
  relies on for incidents: an upsert leaves an active row with the incident's key, a
  resolution leaves none, and neither touches rows with other keys.
\<close>

locale incident_store =
  fixes ok :: "'s \<Rightarrow> bool"
    and row :: "'s \<Rightarrow> string \<Rightarrow> Incident option"
    and upsert :: "tick \<Rightarrow> Incident \<Rightarrow> 's \<Rightarrow> (Incident \<times> bool) result \<times> 's"
    and resolve :: "tick \<Rightarrow> string list \<Rightarrow> string \<Rightarrow> string \<Rightarrow> string \<Rightarrow> string \<Rightarrow> 's \<Rightarrow> Incident list result \<times> 's"
  assumes upsert_ok: "ok s \<Longrightarrow> rawIncident i \<Longrightarrow> row s (newID ''inc'' t) = None \<Longrightarrow> ok (snd (upsert t i s))"
    and resolve_ok: "ok s \<Longrightarrow> ok (snd (resolve t rules svc str sg r s))"
    and one_active: "ok s \<Longrightarrow> row s a = Some i \<Longrightarrow> row s b = Some j \<Longrightarrow> activeIncident i \<Longrightarrow>
        activeIncident j \<Longrightarrow> incidentKey i = incidentKey j \<Longrightarrow> a = b"
    and upsert_row: "ok s \<Longrightarrow> tkCtx t = None \<Longrightarrow> rawIncident i \<Longrightarrow> row s (newID ''inc'' t) = None \<Longrightarrow>
        \<exists>e created. fst (upsert t i s) = Inr (e, created) \<and> activeIncident e \<and> incidentKey e = incidentKey i \<and>
          created = (\<forall>iid x. row s iid = Some x \<longrightarrow> activeIncident x \<longrightarrow> incidentKey x \<noteq> incidentKey i) \<and>
          (created \<longrightarrow> incID e = newID ''inc'' t) \<and>
          row (snd (upsert t i s)) = (row s)(incID e \<mapsto> persisted e)"
    and resolve_row: "ok s \<Longrightarrow> tkCtx t = None \<Longrightarrow>
        row (snd (resolve t rules svc str sg r s)) iid =
          map_option (resolvedRow t (uniqueNonEmptyStrings rules) svc str sg r) (row s iid)"
begin

lemma resolve_clears:
  assumes "ok s" "tkCtx t = None" "rule \<in> TrimSpace ` set rules" "rule \<noteq> []"
    "row (snd (resolve t rules svc str sg r s)) iid = Some x" "incidentKey x = ruleKey rule svc str"
  shows "\<not> activeIncident x"
proof -
  obtain e where e: "row s iid = Some e" "x = resolvedRow t (uniqueNonEmptyStrings rules) svc str sg r e"
    using assms(5) by (auto simp: resolve_row [OF assms(1,2)])
  have "incidentKey e = ruleKey rule svc str" using assms(6) e by (auto simp: resolvedRow_def split: if_splits)
  with e assms(3,4) show ?thesis by (auto simp: resolvedRow_def)
qed

text \<open>After a resolution the next detection of the rule opens a new incident.\<close>

lemma recurrence_opens:
  assumes "ok s" "tkCtx t = None" "tkCtx t' = None" "rawIncident i" "rule \<in> TrimSpace ` set rules" "rule \<noteq> []"
    "incidentKey i = ruleKey rule svc str"
    "row (snd (resolve t rules svc str sg r s)) (newID ''inc'' t') = None"
  shows "\<exists>e. fst (upsert t' i (snd (resolve t rules svc str sg r s))) = Inr (e, True) \<and> incID e = newID ''inc'' t'"
proof -
  have ok': "ok (snd (resolve t rules svc str sg r s))" using assms(1) by (rule resolve_ok)
  have none: "\<not> activeIncident x" if "row (snd (resolve t rules svc str sg r s)) iid = Some x"
    "incidentKey x = incidentKey i" for iid x
    using resolve_clears [OF assms(1,2,5,6) that(1)] that(2) assms(7) by simp
  obtain e created where e: "fst (upsert t' i (snd (resolve t rules svc str sg r s))) = Inr (e, created)"
    "created = (\<forall>iid x. row (snd (resolve t rules svc str sg r s)) iid = Some x \<longrightarrow> activeIncident x \<longrightarrow>
       incidentKey x \<noteq> incidentKey i)" "created \<longrightarrow> incID e = newID ''inc'' t'"
    using upsert_row [OF ok' assms(3,4,8)] by blast
  have created using e(2) none by blast
  with e show ?thesis by auto
qed

end

lemma memory_upsert_row:
  assumes "storeOK s" "tkCtx t = None" "rawIncident i" "map_of (incidents s) (newID ''inc'' t) = None"
  shows "\<exists>e created. fst (UpsertIncident t i s) = Inr (e, created) \<and> activeIncident e \<and> incidentKey e = incidentKey i \<and>
          created = (\<forall>iid x. map_of (incidents s) iid = Some x \<longrightarrow> activeIncident x \<longrightarrow> incidentKey x \<noteq> incidentKey i) \<and>
          (created \<longrightarrow> incID e = newID ''inc'' t) \<and>
          map_of (incidents (snd (UpsertIncident t i s))) = (map_of (incidents s))(incID e \<mapsto> persisted e)"
proof (cases "map_of (activeIncidents s) (incidentKey i)")
  case None
  have "persisted (openedRow t i) = openedRow t i" using assms(3) by (simp add: persisted_def openedRow_def rawIncident_def)
  then show ?thesis using None assms storeOK_no_index [OF assms(1) None]
    by (auto simp: Upsert_new openIncident_raw)
next
  case (Some iid)
  obtain e where "map_of (incidents s) iid = Some e" "activeIncident e" "incidentKey e = incidentKey i" "incID e = iid"
    "UpsertIncident t i s = (Inr (repeatIncident t i e, False),
       s\<lparr>incidents := AList.update iid (persisted (repeatIncident t i e)) (incidents s)\<rparr>)"
    by (rule Upsert_repeat [OF assms(1,2) Some])
  then show ?thesis by (intro exI [of _ "repeatIncident t i e"] exI [of _ False]) auto
qed

interpretation mem: incident_store storeOK "\<lambda>s. map_of (incidents s)" UpsertIncident ResolveActiveIncidents
  by unfold_locales
    (rule UpsertIncident_storeOK ResolveActiveIncidents_storeOK storeOK_unique
      ResolveActiveIncidents_rows(2) memory_upsert_row; assumption)+

subsection \<open>Pagination\<close>

abbreviation historyKey :: "Incident \<Rightarrow> instant \<times> string" where
  "historyKey i \<equiv> (incUpdatedAt i, incID i)"

lemma incidentNewer_key: "incidentNewer a b \<longleftrightarrow> historyKey a > historyKey b"
  by (auto simp: incidentNewer_def less_prod_def)

definition history :: "string \<Rightarrow> MemoryStore \<Rightarrow> Incident list" where
  "history status s = sortSlice incidentNewer (filter (historyRow 0 [] status) (map snd (incidents s)))"

lemma storeOK_ids:
  assumes "storeOK s"
  shows "distinct (map historyKey (map snd (incidents s)))"
proof -
  have "incID i = iid" if "(iid, i) \<in> set (incidents s)" for iid i
    using assms that by (auto simp: storeOK_def gomap_def rowOK_def)
  then have eq: "map snd (map historyKey (map snd (incidents s))) = map fst (incidents s)" by auto
  have "distinct (map fst (incidents s))" using assms by (simp add: storeOK_def gomap_def)
  then have "distinct (map snd (map historyKey (map snd (incidents s))))" by (simp only: eq)
  then show ?thesis by (rule distinct_map [THEN iffD1, THEN conjunct1])
qed

lemma history_strict:
  assumes "storeOK s"
  shows "sorted_wrt (\<lambda>x y. historyKey y < historyKey x) (history status s)"
  unfolding history_def
  by (rule sortSlice_strict_desc [where key = historyKey, OF incidentNewer_key])
    (use storeOK_ids [OF assms] in \<open>simp add: distinct_map_filter del: map_map\<close>)

text \<open>A page read with a cursor is the part of the history after the cursor.\<close>

lemma history_page:
  assumes "storeOK s" "tkCtx t = None" "before \<noteq> 0"
  shows "ListIncidentHistory t limit before beforeID status s =
    Inr (take (clampLimit limit) (filter (\<lambda>i. historyKey i < (before, beforeID)) (history status s)))"
proof -
  have "filter (historyRow before beforeID status) xs =
      filter (\<lambda>i. historyKey i < (before, beforeID)) (filter (historyRow 0 [] status) xs)" for xs
    using assms(3) by (auto simp: historyRow_def intro!: filter_cong)
  moreover have "sortSlice incidentNewer (filter P (filter (historyRow 0 [] status) (map snd (incidents s)))) =
      filter P (history status s)" for P
    unfolding history_def
    by (rule sortSlice_filter [where key = historyKey, OF incidentNewer_key])
      (use storeOK_ids [OF assms(1)] in \<open>simp add: distinct_map_filter del: map_map\<close>)
  ultimately show ?thesis using assms(2) by (simp add: ListIncidentHistory_def)
qed

lemma history_first_page:
  "tkCtx t = None \<Longrightarrow> ListIncidentHistory t limit 0 cur status s = Inr (take (clampLimit limit) (history status s))"
  by (simp add: ListIncidentHistory_def history_def historyRow_def cong: filter_cong)

text \<open>A client that reads page after page, each with the last row of the previous page as cursor.\<close>

fun readPages :: "nat \<Rightarrow> tick \<Rightarrow> int \<Rightarrow> instant \<Rightarrow> string \<Rightarrow> string \<Rightarrow> MemoryStore \<Rightarrow> Incident list" where
  "readPages 0 t limit before beforeID status s = []"
| "readPages (Suc fuel) t limit before beforeID status s =
     (case ListIncidentHistory t limit before beforeID status s of
        Inl _ \<Rightarrow> []
      | Inr [] \<Rightarrow> []
      | Inr (p # ps) \<Rightarrow> (p # ps) @ readPages fuel t limit (incUpdatedAt (last (p # ps))) (incID (last (p # ps))) status s)"

lemma clampLimit_pos: "0 < clampLimit limit"
  by (auto simp: clampLimit_def)

lemma readPages_from:
  assumes "storeOK s" "tkCtx t = None" "\<forall>i \<in> set (history status s). incUpdatedAt i \<noteq> 0"
    "k < length (history status s)" "length (history status s) \<le> fuel + k"
  shows "readPages fuel t limit (incUpdatedAt (history status s ! k)) (incID (history status s ! k)) status s =
         drop (Suc k) (history status s)"
  using assms(4,5)
proof (induction fuel arbitrary: k)
  case 0
  then show ?case by simp
next
  case (Suc fuel)
  let ?h = "history status s"
  let ?n = "clampLimit limit"
  have page: "ListIncidentHistory t limit (incUpdatedAt (?h ! k)) (incID (?h ! k)) status s =
      Inr (take ?n (drop (Suc k) ?h))"
    using history_page [OF assms(1,2)] assms(3) Suc.prems(1) strict_desc_filter_take [OF history_strict [OF assms(1)]]
    by simp
  show ?case
  proof (cases "drop (Suc k) ?h")
    case Nil
    then show ?thesis using page by simp
  next
    case (Cons p ps)
    then have "drop (Suc k) ?h \<noteq> []" by simp
    then have len: "Suc k < length ?h" by (simp del: drop_Suc)
    obtain m where n: "?n = Suc m" using clampLimit_pos [of limit] by (cases ?n) auto
    have last: "last (take ?n (drop (Suc k) ?h)) = ?h ! (k + min ?n (length ?h - Suc k))"
      and lt: "k + min ?n (length ?h - Suc k) < length ?h"
      using len n by (simp_all add: last_take_drop)
    have "readPages (Suc fuel) t limit (incUpdatedAt (?h ! k)) (incID (?h ! k)) status s =
        take ?n (drop (Suc k) ?h) @ readPages fuel t limit (incUpdatedAt (last (take ?n (drop (Suc k) ?h))))
          (incID (last (take ?n (drop (Suc k) ?h)))) status s"
      using page Cons n by simp
    also have "\<dots> = take ?n (drop (Suc k) ?h) @ drop (Suc (k + min ?n (length ?h - Suc k))) ?h"
      unfolding last using Suc.prems lt n len by (subst Suc.IH) (auto simp: min_def)
    also have "\<dots> = drop (Suc k) ?h"
      using append_take_drop_id [of ?n "drop (Suc k) ?h"]
      by (cases "?n \<le> length ?h - Suc k") (simp_all add: add.commute [of ?n])
    finally show ?thesis .
  qed
qed


subsection \<open>Incident keys\<close>

lemma append_sep_inject:
  assumes "z \<notin> set a" "z \<notin> set a'" "a @ [z] @ b = a' @ [z] @ b'"
  shows "a = a' \<and> b = b'"
  using assms
proof (induction a arbitrary: a')
  case Nil
  then show ?case by (cases a') auto
next
  case (Cons x a)
  then obtain y ys where "a' = y # ys" by (cases a') auto
  with Cons show ?case by auto
qed

lemma incidentKey_inject:
  assumes "CHR 0x00 \<notin> set (incRule i) \<union> set (incRule j) \<union> set (incServiceID i) \<union> set (incServiceID j)"
  shows "incidentKey i = incidentKey j \<longleftrightarrow>
    incRule i = incRule j \<and> incServiceID i = incServiceID j \<and> incStreamID i = incStreamID j"
proof
  assume eq: "incidentKey i = incidentKey j"
  have r: "incRule i = incRule j \<and>
      incServiceID i @ [CHR 0x00] @ incStreamID i = incServiceID j @ [CHR 0x00] @ incStreamID j"
    by (rule append_sep_inject [of "CHR 0x00"]) (use assms eq in \<open>simp_all add: incidentKey_def\<close>)
  moreover have "incServiceID i = incServiceID j \<and> incStreamID i = incStreamID j"
    by (rule append_sep_inject [of "CHR 0x00"]) (use assms r in simp_all)
  ultimately show "incRule i = incRule j \<and> incServiceID i = incServiceID j \<and> incStreamID i = incStreamID j" by simp
qed (simp add: incidentKey_def)

subsection \<open>Properties of the incident life cycle\<close>

text \<open>A store used by the witnesses: one open incident, created at instant 5.\<close>

definition clock :: "int \<Rightarrow> tick" where
  "clock n = \<lparr>tkCtx = None, tkNow = n, tkRand = Some (replicate 15 (CHR 0x00) @ [n2b (nat n)])\<rparr>"

definition sampleIncident :: "string \<Rightarrow> string \<Rightarrow> Incident" where
  "sampleIncident rule severity = zeroIncident\<lparr>incRule := rule, incSeverity := severity,
     incServiceID := ''svc'', incStreamID := ''stream'', incSignalID := ''sig_1''\<rparr>"

definition sampleStore :: MemoryStore where
  "sampleStore = snd (UpsertIncident (clock 5) (sampleIncident ''rtmp_disconnected'' ''warning'') NewMemoryStore)"

definition sampleRow :: Incident where
  "sampleRow = openedRow (clock 5) (sampleIncident ''rtmp_disconnected'' ''warning'')"

lemma sampleIncident_raw [simp]: "rawIncident (sampleIncident rule sev)"
  by (simp add: rawIncident_def sampleIncident_def zeroIncident_def)

lemma clock_simps [simp]: "tkCtx (clock n) = None" "tkNow (clock n) = n"
  by (simp_all add: clock_def)

lemma clock_fresh: "newID p (clock m) = newID p (clock n) \<longleftrightarrow> n2b (nat m) = n2b (nat n)"
  by (auto simp: newID_def clock_def hexEncode_inject)

lemma sampleStore_eq: "sampleStore = NewMemoryStore
    \<lparr>incidents := [(newID ''inc'' (clock 5), sampleRow)],
     activeIncidents := [(incidentKey sampleRow, newID ''inc'' (clock 5))]\<rparr>"
  by (simp add: sampleStore_def sampleRow_def Upsert_new openIncident_raw NewMemoryStore_def)

lemma sampleStore_run: "store_run env NewMemoryStore sampleStore"
  unfolding sampleStore_def
  by (rule store_run.step [OF store_run.refl]) (auto intro!: store_step.upsert simp: NewMemoryStore_def)

lemma sampleStore_ok: "storeOK sampleStore"
  by (rule store_run_storeOK [OF sampleStore_run storeOK_empty])

text \<open>C1: after any sequence of store operations there is at most one unresolved incident per
  rule, service and stream, and the deduplication index points to exactly that incident.\<close>

theorem one_active_incident:
  assumes "store_run env NewMemoryStore s"
    "map_of (incidents s) a = Some i" "map_of (incidents s) b = Some j"
    "\<not> isTerminalIncidentStatus (incStatus i)" "\<not> isTerminalIncidentStatus (incStatus j)"
    "incRule i = incRule j" "incServiceID i = incServiceID j" "incStreamID i = incStreamID j"
  shows "a = b \<and> i = j \<and> map_of (activeIncidents s) (incidentKey i) = Some a"
proof -
  have ok: "storeOK s" using assms(1) storeOK_empty by (rule store_run_storeOK)
  have act: "activeIncident i" "activeIncident j" using assms(4,5) by (simp_all add: activeIncident_def)
  have "a = b" using storeOK_unique [OF ok assms(2,3) act] assms(6-8) by (simp add: incidentKey_def)
  then show ?thesis using assms(2,3) act ok by (auto simp: storeOK_index)
qed

theorem one_active_incident_witness:
  "newID ''inc'' (clock 5) = newID ''inc'' (clock 5) \<and> sampleRow = sampleRow \<and>
   map_of (activeIncidents sampleStore) (incidentKey sampleRow) = Some (newID ''inc'' (clock 5))"
  by (rule one_active_incident [OF sampleStore_run [of "concreteEnv []"]])
    (simp_all add: sampleStore_eq NewMemoryStore_def, simp_all add: sampleRow_def)

text \<open>No operation ever removes an incident or changes its identity: in every later store
  the row is still there under its identifier, with the same rule, service, stream and opening
  time, a status reachable from the old one, a severity at least as high, and, once it is
  resolved or ignored, the same status, severity, resolution, signal and occurrence count.\<close>

theorem incident_history_kept:
  assumes "store_run env NewMemoryStore s" "store_run env s s'" "map_of (incidents s) iid = Some i"
  shows "\<exists>j. map_of (incidents s') iid = Some j \<and> rowLater i j"
proof -
  have "storeOK s" using assms(1) storeOK_empty by (rule store_run_storeOK)
  then show ?thesis using store_run_keepsRows [OF assms(2)] assms(3) by (simp add: keepsRows_def)
qed

theorem incident_history_kept_witness:
  "\<exists>j. map_of (incidents (snd (UpdateIncidentStatus (clock 9) (newID ''inc'' (clock 5)) ''ignored'' sampleStore)))
     (newID ''inc'' (clock 5)) = Some j \<and> rowLater sampleRow j"
  by (rule incident_history_kept [OF sampleStore_run [of "concreteEnv []"]])
    (auto intro: store_run.step store_step.status simp: sampleStore_eq NewMemoryStore_def)

text \<open>C8: the indexed store implements the reference store without an index: from every
  reachable store, each incident operation (upsert, status change, resolution, diagnostic
  update) returns what a search of the rows would and leaves the same rows.\<close>

theorem incident_store_refines:
  assumes "store_run env NewMemoryStore s" "tkCtx t = None" "callable t oper (incidents s)"
  shows "apsnd incidents (storeOp t oper s) = refOp t oper (incidents s)"
  using storeOp_refines [OF store_run_storeOK [OF assms(1) storeOK_empty] assms(2,3)] .

theorem incident_store_refines_witness:
  "apsnd incidents (storeOp (clock 7) (OpUpsert (sampleIncident ''rtmp_disconnected'' ''critical'')) sampleStore) =
   refOp (clock 7) (OpUpsert (sampleIncident ''rtmp_disconnected'' ''critical'')) (incidents sampleStore)"
  by (rule incident_store_refines [OF sampleStore_run [of "concreteEnv []"]])
    (simp_all add: sampleStore_eq NewMemoryStore_def clock_fresh, simp add: n2b_def)

text \<open>A resolution closes exactly the active incidents of the named rules for that service
  and stream, stamps them with the resolving signal and reason, returns them, and leaves every
  other row as it was.\<close>

theorem resolve_exact:
  assumes "store_run env NewMemoryStore s" "tkCtx t = None"
  shows "map_of (incidents (snd (ResolveActiveIncidents t rules svc str sg reason s))) iid =
     map_option (\<lambda>e. if activeIncident e \<and>
          incidentKey e \<in> (\<lambda>rule. ruleKey rule svc str) ` (TrimSpace ` set rules - {[]})
        then persisted (resolveIncident t sg reason e) else e) (map_of (incidents s) iid)"
  unfolding ResolveActiveIncidents_rows(2) [OF store_run_storeOK [OF assms(1) storeOK_empty] assms(2)]
  by (cases "map_of (incidents s) iid") (simp_all add: resolvedRow_def)

theorem resolve_exact_witness:
  "map_of (incidents (snd (ResolveActiveIncidents (clock 9) ['' rtmp_disconnected''] ''svc'' ''stream'' ''sig_2'' ''ok'' sampleStore)))
     (newID ''inc'' (clock 5)) =
   map_option (\<lambda>e. if activeIncident e \<and>
          incidentKey e \<in> (\<lambda>rule. ruleKey rule ''svc'' ''stream'') ` (TrimSpace ` set ['' rtmp_disconnected''] - {[]})
        then persisted (resolveIncident (clock 9) ''sig_2'' ''ok'' e) else e)
     (map_of (incidents sampleStore) (newID ''inc'' (clock 5)))"
  by (rule resolve_exact [OF sampleStore_run [of "concreteEnv []"]]) simp

text \<open>When a rule fires again after its incident was resolved, the store opens a new row
  with the new identifier instead of reviving the old one.\<close>

theorem recurrence_opens_new_row:
  assumes "store_run env NewMemoryStore s" "tkCtx t = None" "tkCtx t' = None" "rawIncident i"
    "incRule i = rule" "incServiceID i = svc" "incStreamID i = str" "TrimSpace rule = rule" "rule \<noteq> []"
    "map_of (incidents s) (newID ''inc'' t') = None"
  shows "\<exists>e. fst (UpsertIncident t' i (snd (ResolveActiveIncidents t [rule] svc str sg reason s))) = Inr (e, True) \<and>
    incID e = newID ''inc'' t'"
proof -
  have ok: "storeOK s" using assms(1) storeOK_empty by (rule store_run_storeOK)
  show ?thesis
    by (rule mem.recurrence_opens [OF ok assms(2-4)])
      (use assms in \<open>simp_all add: incidentKey_def ResolveActiveIncidents_rows [OF ok assms(2)]\<close>)
qed

theorem recurrence_opens_new_row_witness:
  "\<exists>e. fst (UpsertIncident (clock 12) (sampleIncident ''rtmp_disconnected'' ''warning'')
      (snd (ResolveActiveIncidents (clock 9) [''rtmp_disconnected''] ''svc'' ''stream'' ''sig_2'' ''ok'' sampleStore))) =
        Inr (e, True) \<and> incID e = newID ''inc'' (clock 12)"
  by (rule recurrence_opens_new_row [OF sampleStore_run [of "concreteEnv []"]])
    (simp_all add: sampleStore_eq NewMemoryStore_def clock_fresh go_eval, simp_all add: n2b_def sampleIncident_def)

text \<open>C34: paging through the incident history with the last row of each page as the cursor
  lists every matching row exactly once, newest first, whatever the page size.\<close>

theorem history_pages_complete:
  assumes "storeOK s" "tkCtx t = None" "\<forall>i \<in> set (map snd (incidents s)). incUpdatedAt i \<noteq> 0"
    "length (incidents s) < fuel"
  shows "readPages fuel t limit 0 [] status s =
    sortSlice incidentNewer (filter (\<lambda>i. status = [] \<or> incStatus i = status) (map snd (incidents s)))"
proof -
  let ?h = "history status s"
  have h: "?h = sortSlice incidentNewer (filter (\<lambda>i. status = [] \<or> incStatus i = status) (map snd (incidents s)))"
    by (simp add: history_def historyRow_def imp_conv_disj cong: filter_cong)
  have nz: "\<forall>i \<in> set ?h. incUpdatedAt i \<noteq> 0" using assms(3) by (auto simp: history_def)
  have len: "length ?h \<le> length (incidents s)"
    by (simp add: history_def)
  obtain f where f: "fuel = Suc f" "length (incidents s) \<le> f" using assms(4) by (cases fuel) auto
  have "readPages fuel t limit 0 [] status s = ?h"
  proof (cases "take (clampLimit limit) ?h")
    case Nil
    then have "?h = []" using clampLimit_pos [of limit] by auto
    then show ?thesis by (simp add: f history_first_page [OF assms(2)])
  next
    case (Cons p ps)
    let ?k = "min (clampLimit limit) (length ?h) - 1"
    have ne: "?h \<noteq> []" using Cons by auto
    have k: "?k < length ?h" using ne clampLimit_pos [of limit] by (simp add: min_def) arith
    have last: "last (p # ps) = ?h ! ?k"
      using Cons ne k by (metis last_conv_nth length_take list.distinct(1) min.commute nth_take
          diff_less length_greater_0_conv zero_less_one min.cobounded1 order_less_le_trans)
    have "readPages fuel t limit 0 [] status s = take (clampLimit limit) ?h @ drop (Suc ?k) ?h"
      using readPages_from [OF assms(1,2) nz k, of f limit] f len Cons
      by (simp add: f history_first_page [OF assms(2)] last del: last.simps)
    also have "drop (Suc ?k) ?h = drop (clampLimit limit) ?h"
      using ne clampLimit_pos [of limit] by (simp add: min_def)
    finally show ?thesis by simp
  qed
  with h show ?thesis by simp
qed

theorem history_pages_complete_witness:
  "readPages 2 (clock 9) 1 0 [] [] sampleStore = [sampleRow]"
  using history_pages_complete [of sampleStore "clock 9" 2 1 "[]"] sampleStore_ok
  by (simp add: sampleStore_eq NewMemoryStore_def sampleRow_def openedRow_def sortSlice_def)

text \<open>Two incidents share a deduplication key exactly when rule, service and stream agree,
  provided no rule or service identifier contains a NUL byte.\<close>

theorem incidentKey_separates:
  assumes "CHR 0x00 \<notin> set (incRule i) \<union> set (incRule j) \<union> set (incServiceID i) \<union> set (incServiceID j)"
  shows "incidentKey i = incidentKey j \<longleftrightarrow>
    incRule i = incRule j \<and> incServiceID i = incServiceID j \<and> incStreamID i = incStreamID j"
  by (rule incidentKey_inject [OF assms])

theorem incidentKey_separates_witness:
  "incidentKey (sampleIncident ''rtmp_disconnected'' ''info'') \<noteq> incidentKey (sampleIncident ''low_fps'' ''info'')"
  using incidentKey_separates [of "sampleIncident ''rtmp_disconnected'' ''info''" "sampleIncident ''low_fps'' ''info''"]
  by (simp add: sampleIncident_def zeroIncident_def)

text \<open>the proviso is needed: two different services with a NUL byte in the identifier are
  merged into one incident, so a detection for the second only counts up the first.\<close>

theorem incidentKey_NUL_collision:
  "let i = zeroIncident\<lparr>incRule := ''low_fps'', incServiceID := ''a'', incStreamID := ''b'' @ [CHR 0x00] @ ''c''\<rparr>;
       j = zeroIncident\<lparr>incRule := ''low_fps'', incServiceID := ''a'' @ [CHR 0x00] @ ''b'', incStreamID := ''c''\<rparr>;
       s = snd (UpsertIncident (clock 1) i NewMemoryStore)
   in incServiceID i \<noteq> incServiceID j \<and>
      (\<exists>e. fst (UpsertIncident (clock 2) j s) = Inr (e, False) \<and> incServiceID e = ''a'' \<and> incOccurrenceCount e = 2)"
  by (simp add: UpsertIncident_def openIncident_def repeatIncident_def NewMemoryStore_def incidentKey_def
      zeroIncident_def Let_def wrap64_def isTerminalIncidentStatus_def)

end
