(* ===== verification/Metrics.thy ===== *)
theory Metrics
  imports Memory_Store
begin

text \<open>
  \<^verbatim>\<open>internal/store/metrics.go\<close>: metric time series of the stored signals, at most
  \<^verbatim>\<open>MaxPointsPerSeries\<close> points each.  The SQL of \<^verbatim>\<open>MariaDBStore\<close> hands its rows to the same
  \<open>metricSnapshotsFromSignals\<close>.
\<close>

definition defaultMaxMetricPointsPerSeries :: int where
  "defaultMaxMetricPointsPerSeries = 360"

fun downsampleLoop :: "'p list \<Rightarrow> nat \<Rightarrow> nat list \<Rightarrow> 'p list" where
  "downsampleLoop points m [] = []"
| "downsampleLoop points m (bucket # bs) =
     (let start = bucket * length points div m; stop = (bucket + 1) * length points div m in
      if stop \<le> start then downsampleLoop points m bs
      else points ! (stop - 1) # downsampleLoop points m bs)"

definition downsampleMetricSeries :: "'p list \<Rightarrow> int \<Rightarrow> 'p list" where
  "downsampleMetricSeries points maxPoints =
     (if maxPoints \<le> 0 \<or> int (length points) \<le> maxPoints then points
      else downsampleLoop points (nat maxPoints) [0..<nat maxPoints])"

definition seriesKey :: "Signal \<Rightarrow> string" where
  "seriesKey signal = strJoin [sigServiceID signal, sigServiceType signal, sigStreamID signal, sigName signal] [CHR 0x00]"

definition pointTime :: "Signal \<Rightarrow> instant" where
  "pointTime signal = (if IsZero (sigTimestamp signal) then sigCreatedAt signal else sigTimestamp signal)"

definition snapshotOf :: "Signal \<Rightarrow> MetricSnapshot" where
  "snapshotOf signal = \<lparr>msName = sigName signal, msServiceID = sigServiceID signal,
     msServiceType = sigServiceType signal, msStreamID = sigStreamID signal, msStatus = sigStatus signal,
     msValue = sigValue signal, msAttributes = sigAttributes signal, msUpdatedAt = pointTime signal\<rparr>"

definition inWindow :: "MetricQuery \<Rightarrow> Signal \<Rightarrow> bool" where
  "inWindow q signal \<longleftrightarrow> sigValue signal \<noteq> None \<and> \<not> (\<not> IsZero (mqSince q) \<and> pointTime signal < mqSince q)"

definition addPoint :: "MetricQuery \<Rightarrow> MetricSnapshot list gomap \<Rightarrow> Signal \<Rightarrow> MetricSnapshot list gomap" where
  "addPoint q series signal =
     (if inWindow q signal
      then AList.update (seriesKey signal)
             ((case map_of series (seriesKey signal) of None \<Rightarrow> [] | Some ps \<Rightarrow> ps) @ [snapshotOf signal]) series
      else series)"

definition maxPointsOf :: "MetricQuery \<Rightarrow> int" where
  "maxPointsOf q = (if mqMaxPointsPerSeries q \<le> 0 then defaultMaxMetricPointsPerSeries else mqMaxPointsPerSeries q)"

definition thinSeries :: "int \<Rightarrow> MetricSnapshot list \<Rightarrow> MetricSnapshot list" where
  "thinSeries maxPoints points =
     (let sorted = sortSlice (\<lambda>a b. msUpdatedAt a < msUpdatedAt b) points in
      if int (length sorted) > maxPoints then downsampleMetricSeries sorted maxPoints else sorted)"

definition snapshotBefore :: "MetricSnapshot \<Rightarrow> MetricSnapshot \<Rightarrow> bool" where
  "snapshotBefore a b = (if msUpdatedAt a = msUpdatedAt b
     then msServiceID a @ msName a < msServiceID b @ msName b
     else msUpdatedAt a < msUpdatedAt b)"

definition metricSnapshotsFromSignals :: "Signal list \<Rightarrow> MetricQuery \<Rightarrow> MetricSnapshot list" where
  "metricSnapshotsFromSignals sigs q =
     sortSlice snapshotBefore
       (concat (map (\<lambda>(k, points). thinSeries (maxPointsOf q) points) (foldl (addPoint q) [] sigs)))"

definition ListMetricSnapshots :: "tick \<Rightarrow> MetricQuery \<Rightarrow> MemoryStore \<Rightarrow> MetricSnapshot list result" where
  "ListMetricSnapshots t q s = reading t (Inr (metricSnapshotsFromSignals (signals s) q))"

subsection \<open>Downsampling\<close>

lemma bucket_grows:
  fixes n m b :: nat
  assumes "0 < m" "m < n"
  shows "b * n div m < (b + 1) * n div m"
proof -
  have "b * n div m + 1 = (b * n + m) div m" using assms by simp
  also have "\<dots> \<le> (b + 1) * n div m" using assms by (intro div_le_mono) (simp add: algebra_simps)
  finally show ?thesis by simp
qed

lemma downsampleLoop_map:
  assumes "0 < m" "m < length points"
  shows "downsampleLoop points m bs = map (\<lambda>b. points ! ((b + 1) * length points div m - 1)) bs"
  using bucket_grows [OF assms] by (induction bs) (auto simp: Let_def not_le)

text \<open>The reference: cut the series into \<open>m\<close> consecutive buckets and keep the last point of each.\<close>

definition metricBucket :: "'p list \<Rightarrow> nat \<Rightarrow> nat \<Rightarrow> 'p list" where
  "metricBucket points m b =
     take ((b + 1) * length points div m - b * length points div m) (drop (b * length points div m) points)"

lemma bucket_end:
  fixes n m b :: nat
  assumes "b < m"
  shows "(b + 1) * n div m \<le> n"
proof -
  have "(b + 1) * n \<le> m * n" using assms by (intro mult_le_mono1) simp
  then have "(b + 1) * n div m \<le> m * n div m" by (rule div_le_mono)
  then show ?thesis using assms by simp
qed

lemma metricBucket_last:
  assumes "m < length points" "b < m"
  shows "metricBucket points m b \<noteq> []" "last (metricBucket points m b) = points ! ((b + 1) * length points div m - 1)"
proof -
  have lt: "b * length points div m < (b + 1) * length points div m" using assms by (intro bucket_grows) auto
  have le: "(b + 1) * length points div m \<le> length points" using assms by (intro bucket_end)
  show ne: "metricBucket points m b \<noteq> []" using lt le by (simp add: metricBucket_def)
  have "length (metricBucket points m b) = (b + 1) * length points div m - b * length points div m"
    using le by (simp add: metricBucket_def)
  then show "last (metricBucket points m b) = points ! ((b + 1) * length points div m - 1)"
    using lt le by (simp add: last_conv_nth [OF ne]) (simp add: metricBucket_def)
qed

lemma concat_buckets: "concat (map (metricBucket points m) [0..<k]) = take (k * length points div m) points"
proof (induction k)
  case (Suc k)
  have le: "k * length points div m \<le> (k + 1) * length points div m" by (intro div_le_mono) simp
  have "take (k * length points div m) points @ metricBucket points m k = take ((k + 1) * length points div m) points"
    unfolding metricBucket_def using le by (metis le_add_diff_inverse take_add)
  then show ?case using Suc by simp
qed simp

lemma set_downsample: "set (downsampleMetricSeries points maxPoints) \<subseteq> set points"
proof -
  have "(b + 1) * length points div m - 1 < length points" if "m < length points" "b < m" for b m
  proof -
    have "(b + 1) * length points div m \<le> length points" using that by (intro bucket_end)
    moreover have "0 < length points" using that by linarith
    ultimately show ?thesis by linarith
  qed
  then show ?thesis by (auto simp: downsampleMetricSeries_def downsampleLoop_map)
qed

lemma length_downsample:
  "0 < maxPoints \<Longrightarrow> length (downsampleMetricSeries points maxPoints) = min (length points) (nat maxPoints)"
  by (auto simp: downsampleMetricSeries_def downsampleLoop_map min_def)

lemma last_downsample:
  assumes "0 < maxPoints" "points \<noteq> []"
  shows "last (downsampleMetricSeries points maxPoints) = last points"
proof (cases "int (length points) \<le> maxPoints")
  case False
  then obtain k where k: "nat maxPoints = Suc k" using assms by (cases "nat maxPoints") auto
  then show ?thesis using assms False
    by (simp add: downsampleMetricSeries_def downsampleLoop_map last_conv_nth del: mult_Suc)
qed (simp add: downsampleMetricSeries_def)

text \<open>Downsampling a longer series keeps exactly \<open>maxPoints\<close> points: the series is cut into
  that many consecutive non-empty buckets, which together are the series, and the newest point
  of each bucket is kept.\<close>

theorem downsampleMetricSeries_buckets:
  assumes "0 < maxPoints" "maxPoints < int (length points)"
  shows "downsampleMetricSeries points maxPoints =
      map (\<lambda>b. last (metricBucket points (nat maxPoints) b)) [0..<nat maxPoints] \<and>
    concat (map (metricBucket points (nat maxPoints)) [0..<nat maxPoints]) = points \<and>
    (\<forall>b < nat maxPoints. metricBucket points (nat maxPoints) b \<noteq> [])"
proof -
  have m: "nat maxPoints < length points" "0 < nat maxPoints" using assms by auto
  show ?thesis using assms m
    by (simp add: downsampleMetricSeries_def downsampleLoop_map metricBucket_last concat_buckets)
qed

theorem downsampleMetricSeries_buckets_witness:
  "downsampleMetricSeries [1, 2, 3, 4, 5 :: int] 2 = [2, 5]"
  using downsampleMetricSeries_buckets [of 2 "[1, 2, 3, 4, 5 :: int]", THEN conjunct1]
  by (simp add: metricBucket_def upt_rec)


subsection \<open>Series\<close>

lemma foldl_addPoint_gomap: "gomap acc \<Longrightarrow> gomap (foldl (addPoint q) acc sigs)"
  by (rule foldl_invariant) (simp_all add: addPoint_def)

lemma foldl_addPoint_points:
  "(case map_of (foldl (addPoint q) acc sigs) k of None \<Rightarrow> [] | Some ps \<Rightarrow> ps) =
   (case map_of acc k of None \<Rightarrow> [] | Some ps \<Rightarrow> ps) @
   map snapshotOf (filter (\<lambda>g. inWindow q g \<and> seriesKey g = k) sigs)"
  by (induction sigs arbitrary: acc) (auto simp: addPoint_def)

lemma foldl_addPoint_nonempty:
  assumes "map_of (foldl (addPoint q) [] sigs) k = Some ps"
  shows "ps \<noteq> [] \<and> ps = map snapshotOf (filter (\<lambda>g. inWindow q g \<and> seriesKey g = k) sigs)"
proof -
  let ?I = "\<lambda>m :: MetricSnapshot list gomap. \<forall>k ps. map_of m k = Some ps \<longrightarrow> ps \<noteq> []"
  have "?I (foldl (addPoint q) [] sigs)"
    by (rule foldl_invariant [where I = ?I]) (auto simp: addPoint_def)
  then have "ps \<noteq> []" using assms by blast
  moreover have "ps = map snapshotOf (filter (\<lambda>g. inWindow q g \<and> seriesKey g = k) sigs)"
    using foldl_addPoint_points [of q "[]" sigs k] assms by simp
  ultimately show ?thesis by simp
qed

lemma maxPointsOf_pos: "0 < maxPointsOf q"
  by (simp add: maxPointsOf_def defaultMaxMetricPointsPerSeries_def)

lemma thinSeries_props:
  assumes "0 < m"
  shows "set (thinSeries m ps) \<subseteq> set ps" "int (length (thinSeries m ps)) \<le> m"
    "p \<in> set ps \<Longrightarrow> \<exists>p' \<in> set (thinSeries m ps). msUpdatedAt p \<le> msUpdatedAt p'"
proof -
  let ?s = "sortSlice (\<lambda>a b. msUpdatedAt a < msUpdatedAt b) ps"
  show "set (thinSeries m ps) \<subseteq> set ps"
    using set_downsample [of ?s m] by (simp add: thinSeries_def Let_def)
  show "int (length (thinSeries m ps)) \<le> m"
    using assms by (simp add: thinSeries_def Let_def length_downsample)
  assume p: "p \<in> set ps"
  then have ne: "?s \<noteq> []" by (metis length_pos_if_in_set length_sortSlice list.size(3) less_irrefl)
  have "sorted_wrt (\<lambda>x y. msUpdatedAt x \<le> msUpdatedAt y) ?s" by (rule sorted_sortSlice_asc) simp
  then have "msUpdatedAt p \<le> msUpdatedAt (last ?s)" using p ne by (intro sorted_wrt_last) simp_all
  moreover have "last ?s \<in> set (thinSeries m ps)"
  proof (cases "int (length ps) > m")
    case True
    have "length (downsampleMetricSeries ?s m) > 0" using assms p by (auto simp: length_downsample)
    then have "downsampleMetricSeries ?s m \<noteq> []" by auto
    then show ?thesis using True last_downsample [OF assms ne] last_in_set [of "downsampleMetricSeries ?s m"]
      by (simp add: thinSeries_def Let_def)
  next
    case False
    then show ?thesis using ne last_in_set [OF ne] by (simp add: thinSeries_def Let_def)
  qed
  ultimately show "\<exists>p' \<in> set (thinSeries m ps). msUpdatedAt p \<le> msUpdatedAt p'" by blast
qed

text \<open>The series a point is listed under.\<close>

definition snapshotKey :: "MetricSnapshot \<Rightarrow> string" where
  "snapshotKey p = strJoin [msServiceID p, msServiceType p, msStreamID p, msName p] [CHR 0x00]"

lemma snapshotKey_of [simp]: "snapshotKey (snapshotOf g) = seriesKey g"
  by (simp add: snapshotKey_def snapshotOf_def seriesKey_def)

lemma snapshots_set:
  "p \<in> set (metricSnapshotsFromSignals sigs q) \<longleftrightarrow>
     (\<exists>k ps. map_of (foldl (addPoint q) [] sigs) k = Some ps \<and> p \<in> set (thinSeries (maxPointsOf q) ps))"
proof -
  have "gomap (foldl (addPoint q) [] sigs)" by (rule foldl_addPoint_gomap) simp
  then have "(k, ps) \<in> set (foldl (addPoint q) [] sigs) \<longleftrightarrow> map_of (foldl (addPoint q) [] sigs) k = Some ps" for k ps
    by (simp add: gomap_def)
  then show ?thesis by (auto simp: metricSnapshotsFromSignals_def)
qed

lemma filter_concat_keys:
  assumes "distinct (map fst m)" "\<And>k ps p. (k, ps) \<in> set m \<Longrightarrow> p \<in> set (f ps) \<Longrightarrow> g p = k"
  shows "filter (\<lambda>p. g p = k) (concat (map (\<lambda>(k, ps). f ps) m)) =
         (case map_of m k of None \<Rightarrow> [] | Some ps \<Rightarrow> f ps)"
  using assms
proof (induction m)
  case (Cons kp m)
  obtain k' ps where kp: "kp = (k', ps)" by (cases kp)
  have hd: "filter (\<lambda>p. g p = k) (f ps) = (if k' = k then f ps else [])"
    using Cons.prems(2) [of k' ps] kp by (auto simp: filter_id_conv filter_empty_conv)
  have none: "map_of m k' = None" using Cons.prems(1) kp by (simp add: map_of_eq_None_iff)
  have "filter (\<lambda>p. g p = k) (concat (map (\<lambda>(k, ps). f ps) m)) =
      (case map_of m k of None \<Rightarrow> [] | Some ps \<Rightarrow> f ps)"
    using Cons.prems kp by (intro Cons.IH) auto
  then show ?case using kp hd none by (cases "k' = k") auto
qed simp

lemma series_points:
  "map_of (foldl (addPoint q) [] sigs) k = Some ps \<Longrightarrow> p \<in> set (thinSeries (maxPointsOf q) ps) \<Longrightarrow>
   \<exists>g \<in> set sigs. inWindow q g \<and> seriesKey g = k \<and> p = snapshotOf g"
  using foldl_addPoint_nonempty [of q sigs k ps] thinSeries_props(1) [OF maxPointsOf_pos [of q], of ps] by auto

lemma snapshots_bounded:
  "int (length (filter (\<lambda>p. snapshotKey p = k) (metricSnapshotsFromSignals sigs q))) \<le> maxPointsOf q"
proof -
  let ?m = "foldl (addPoint q) [] sigs"
  let ?c = "concat (map (\<lambda>(k, points). thinSeries (maxPointsOf q) points) ?m)"
  have gm: "distinct (map fst ?m)" using foldl_addPoint_gomap [of "[]" q sigs] by (simp add: gomap_def)
  have key: "snapshotKey p = k" if "(k, ps) \<in> set ?m" "p \<in> set (thinSeries (maxPointsOf q) ps)" for k ps p
    using series_points [of q sigs k ps p] that gm by auto
  have "length (filter (\<lambda>p. snapshotKey p = k) (metricSnapshotsFromSignals sigs q)) =
      length (filter (\<lambda>p. snapshotKey p = k) ?c)"
    unfolding metricSnapshotsFromSignals_def by (metis mset_filter mset_sortSlice size_mset)
  also have "\<dots> = length (case map_of ?m k of None \<Rightarrow> [] | Some ps \<Rightarrow> thinSeries (maxPointsOf q) ps)"
    by (subst filter_concat_keys [OF gm key]) simp_all
  finally show ?thesis using thinSeries_props(2) [OF maxPointsOf_pos [of q]] maxPointsOf_pos [of q]
    by (auto split: option.splits intro: order_less_imp_le)
qed

lemma snapshots_sorted: "sorted (map msUpdatedAt (metricSnapshotsFromSignals sigs q))"
proof -
  have "sorted_wrt (\<lambda>x y. (msUpdatedAt x, msServiceID x @ msName x) \<le> (msUpdatedAt y, msServiceID y @ msName y))
      (metricSnapshotsFromSignals sigs q)"
    unfolding metricSnapshotsFromSignals_def
    by (rule sorted_sortSlice_asc) (auto simp: snapshotBefore_def less_prod_def)
  then show ?thesis
    by (simp add: sorted_map) (rule sorted_wrt_mono_rel [rotated], assumption, auto simp: less_eq_prod_def)
qed

lemma snapshots_newest:
  assumes "g \<in> set sigs" "inWindow q g"
  shows "\<exists>p \<in> set (metricSnapshotsFromSignals sigs q). snapshotKey p = seriesKey g \<and> pointTime g \<le> msUpdatedAt p"
proof -
  let ?m = "foldl (addPoint q) [] sigs"
  obtain ps where ps: "map_of ?m (seriesKey g) = Some ps" "snapshotOf g \<in> set ps"
    using foldl_addPoint_points [of q "[]" sigs "seriesKey g"] assms
    by (cases "map_of ?m (seriesKey g)") (auto simp: filter_empty_conv)
  obtain p where p: "p \<in> set (thinSeries (maxPointsOf q) ps)" "msUpdatedAt (snapshotOf g) \<le> msUpdatedAt p"
    using thinSeries_props(3) [OF maxPointsOf_pos ps(2)] by blast
  then have "p \<in> set (metricSnapshotsFromSignals sigs q)" using ps(1) by (auto simp: snapshots_set)
  moreover have "snapshotKey p = seriesKey g" using series_points [OF ps(1) p(1)] by auto
  moreover have "pointTime g \<le> msUpdatedAt p" using p(2) by (simp add: snapshotOf_def)
  ultimately show ?thesis by blast
qed

text \<open>C36: a metric query lists only points of stored signals inside the time window, in
  ascending time order, at most \<open>MaxPointsPerSeries\<close> (or 360) of each series, and the newest
  point of every series in the window is among them.\<close>

theorem metricSnapshots_correct:
  "set (metricSnapshotsFromSignals sigs q) \<subseteq> snapshotOf ` {g \<in> set sigs. inWindow q g} \<and>
    sorted (map msUpdatedAt (metricSnapshotsFromSignals sigs q)) \<and>
    int (length (filter (\<lambda>p. snapshotKey p = k) (metricSnapshotsFromSignals sigs q))) \<le> maxPointsOf q \<and>
    (\<forall>g \<in> set sigs. inWindow q g \<longrightarrow>
       (\<exists>p \<in> set (metricSnapshotsFromSignals sigs q). snapshotKey p = seriesKey g \<and> pointTime g \<le> msUpdatedAt p))"
  using series_points snapshots_sorted snapshots_bounded snapshots_newest by (fastforce simp: snapshots_set)

definition sampleSignal :: "string \<Rightarrow> rat \<Rightarrow> instant \<Rightarrow> Signal" where
  "sampleSignal name v t = \<lparr>sigID = ''sig_1'', sigType = ''metric'', sigName = name, sigServiceID = ''svc'',
     sigServiceType = ''worker'', sigStreamID = ''stream'', sigStatus = [], sigValue = Some (Fin v),
     sigAttributes = Some [], sigTimestamp = t, sigCreatedAt = t\<rparr>"

theorem metricSnapshots_correct_witness:
  "\<exists>p \<in> set (metricSnapshotsFromSignals [sampleSignal ''encoder.fps'' 30 7, sampleSignal ''encoder.fps'' 20 9]
       \<lparr>mqSince = 5, mqMaxPointsPerSeries = 1\<rparr>).
     snapshotKey p = seriesKey (sampleSignal ''encoder.fps'' 20 9) \<and> 9 \<le> msUpdatedAt p"
  using metricSnapshots_correct [of "[sampleSignal ''encoder.fps'' 30 7, sampleSignal ''encoder.fps'' 20 9]"
      "\<lparr>mqSince = 5, mqMaxPointsPerSeries = 1\<rparr>", THEN conjunct2, THEN conjunct2, THEN conjunct2,
      THEN bspec, of "sampleSignal ''encoder.fps'' 20 9"]
  by (simp add: inWindow_def pointTime_def sampleSignal_def)

end
