(* ===== verification/Local_Transition.thy ===== *)
theory Local_Transition
  imports Store_Types
begin

text \<open>
  \<^verbatim>\<open>internal/remediation/local_transition.go\<close>: the compare-and-swap transition for the actions
  this service may carry out itself, with fencing and idempotency keys.
\<close>

definition boundedIDPattern :: "string \<Rightarrow> bool" where
  "boundedIDPattern s = boundedPattern 127 s"

definition hostIDPattern :: "string \<Rightarrow> bool" where
  "hostIDPattern s = boundedPattern 190 s"

definition LocalRefreshServiceStatus :: string where "LocalRefreshServiceStatus = ''refresh_service_status''"
definition LocalRerunDiagnostics :: string where "LocalRerunDiagnostics = ''rerun_diagnostics''"
definition LocalClearStaleWarning :: string where "LocalClearStaleWarning = ''clear_stale_warning''"

lemmas localActions = LocalRefreshServiceStatus_def LocalRerunDiagnostics_def LocalClearStaleWarning_def

record LocalTransition =
  ltActionID :: string
  ltActionType :: string
  ltExpectedRevision :: int
  ltFence :: int
  ltIdempotencyKey :: string
  ltAuditCorrelationID :: string

record LocalTransitionState =
  lsRevision :: int
  lsFence :: int
  lsStatusRefreshRevision :: int
  lsDiagnosticsRevision :: int
  lsStaleWarning :: bool
  lsAppliedRequests :: "string gomap"

record LocalTransitionResult =
  lrState :: LocalTransitionState
  lrReplayed :: bool

definition validLocalAction :: "string \<Rightarrow> bool" where
  "validLocalAction a \<longleftrightarrow> a = LocalRefreshServiceStatus \<or> a = LocalRerunDiagnostics \<or> a = LocalClearStaleWarning"

text \<open>\<^verbatim>\<open>^[^\x00-\x1f\x7f]+$\<close>.\<close>

definition idempotencyPattern :: "string \<Rightarrow> bool" where
  "idempotencyPattern s \<longleftrightarrow> runes s \<noteq> [] \<and> list_all (\<lambda>r. 31 < r \<and> r \<noteq> 127) (runes s)"

definition localValidate :: "LocalTransition \<Rightarrow> goerr option" where
  "localValidate tr =
     (if \<not> boundedIDPattern (ltActionID tr) \<or> \<not> boundedIDPattern (ltAuditCorrelationID tr)
      then Some (ErrText ''local remediation correlation identity is invalid'')
      else if \<not> validLocalAction (ltActionType tr)
      then Some (ErrText ''local remediation action is unsupported'')
      else if ltExpectedRevision tr < 1 \<or> ltFence tr < 1
      then Some (ErrText ''local remediation revision or fence is invalid'')
      else let n = RuneCountInString (ltIdempotencyKey tr) in
        if n = 0 \<or> n > 128 \<or> \<not> idempotencyPattern (ltIdempotencyKey tr)
        then Some (ErrText ''local remediation idempotency key is invalid'')
        else None)"

definition localCanonical :: "LocalTransition \<Rightarrow> string" where
  "localCanonical tr = strJoin [ltActionID tr, ltActionType tr, FormatInt (ltExpectedRevision tr),
     FormatInt (ltFence tr), ltIdempotencyKey tr, ltAuditCorrelationID tr] [CHR 0x0A]"

definition localTransitionDigest :: "goenv \<Rightarrow> LocalTransition \<Rightarrow> string" where
  "localTransitionDigest env tr = sha256 env (localCanonical tr)"

text \<open>The effect of an action on the state, \<open>None\<close> for the \<^verbatim>\<open>default\<close> branch of the switch.\<close>

definition localEffect :: "string \<Rightarrow> LocalTransitionState \<Rightarrow> LocalTransitionState option" where
  "localEffect a st =
     (if a = LocalRefreshServiceStatus
      then Some (st\<lparr>lsStatusRefreshRevision := wrap64 (lsStatusRefreshRevision st + 1)\<rparr>)
      else if a = LocalRerunDiagnostics
      then Some (st\<lparr>lsDiagnosticsRevision := wrap64 (lsDiagnosticsRevision st + 1)\<rparr>)
      else if a = LocalClearStaleWarning then Some (st\<lparr>lsStaleWarning := False\<rparr>)
      else None)"

text \<open>The result always carries a state; the second component is the error.\<close>

definition ApplyLocalTransition ::
  "goenv \<Rightarrow> LocalTransitionState \<Rightarrow> LocalTransition \<Rightarrow> LocalTransitionResult \<times> goerr option" where
  "ApplyLocalTransition env st tr =
     (let unchanged = \<lparr>lrState = st, lrReplayed = False\<rparr> in
      case localValidate tr of Some e \<Rightarrow> (unchanged, Some e)
      | None \<Rightarrow>
        (let digest = localTransitionDigest env tr in
         case map_of (lsAppliedRequests st) (ltIdempotencyKey tr) of
           Some previousDigest \<Rightarrow>
             if digest \<noteq> previousDigest then (unchanged, Some ErrLocalIdempotencyConflict)
             else (\<lparr>lrState = st, lrReplayed = True\<rparr>, None)
         | None \<Rightarrow>
             if ltExpectedRevision tr \<noteq> lsRevision st then (unchanged, Some ErrLocalRevisionConflict)
             else if ltFence tr \<le> lsFence st then (unchanged, Some ErrLocalStaleFence)
             else case localEffect (ltActionType tr) st of
               None \<Rightarrow> (unchanged, Some (ErrText ''local remediation action is unsupported''))
             | Some next \<Rightarrow>
                 (\<lparr>lrState = next\<lparr>lsRevision := wrap64 (lsRevision next + 1), lsFence := ltFence tr,
                     lsAppliedRequests := AList.update (ltIdempotencyKey tr) digest (lsAppliedRequests st)\<rparr>,
                   lrReplayed = False\<rparr>, None)))"

definition LocalActionForLegacyAction :: "string \<Rightarrow> string option" where
  "LocalActionForLegacyAction action =
     (let a = TrimSpace action in
      if a = LocalRefreshServiceStatus then Some LocalRefreshServiceStatus
      else if a = LocalRerunDiagnostics then Some LocalRerunDiagnostics
      else if a = LocalClearStaleWarning then Some LocalClearStaleWarning
      else None)"

definition IsLocalTransition :: "string \<Rightarrow> bool" where
  "IsLocalTransition action \<longleftrightarrow> LocalActionForLegacyAction action \<noteq> None"

subsection \<open>Outcomes\<close>

text \<open>A transition that took effect.\<close>

definition accepted :: "goenv \<Rightarrow> LocalTransitionState \<Rightarrow> LocalTransition \<Rightarrow> bool" where
  "accepted env st tr \<longleftrightarrow> snd (ApplyLocalTransition env st tr) = None \<and>
     \<not> lrReplayed (fst (ApplyLocalTransition env st tr))"

abbreviation nextState :: "goenv \<Rightarrow> LocalTransitionState \<Rightarrow> LocalTransition \<Rightarrow> LocalTransitionState" where
  "nextState env st tr \<equiv> lrState (fst (ApplyLocalTransition env st tr))"

definition incIf :: "bool \<Rightarrow> int \<Rightarrow> int" where
  "incIf b n = (if b then wrap64 (n + 1) else n)"

lemma not_accepted_same: "\<not> accepted env st tr \<Longrightarrow> nextState env st tr = st"
  by (auto simp: accepted_def ApplyLocalTransition_def Let_def split: option.splits if_splits)

lemma localEffect_fields:
  assumes "localEffect a st = Some n"
  shows "lsRevision n = lsRevision st" "lsFence n = lsFence st" "lsAppliedRequests n = lsAppliedRequests st"
    "lsStatusRefreshRevision n = incIf (a = LocalRefreshServiceStatus) (lsStatusRefreshRevision st)"
    "lsDiagnosticsRevision n = incIf (a = LocalRerunDiagnostics) (lsDiagnosticsRevision st)"
    "lsStaleWarning n = (lsStaleWarning st \<and> a \<noteq> LocalClearStaleWarning)"
  using assms by (auto simp: localEffect_def incIf_def localActions split: if_split_asm)

lemma accepted_effect:
  assumes "accepted env st tr"
  shows "localValidate tr = None" "map_of (lsAppliedRequests st) (ltIdempotencyKey tr) = None"
    "ltExpectedRevision tr = lsRevision st" "lsFence st < ltFence tr"
    "lsRevision (nextState env st tr) = wrap64 (lsRevision st + 1)" "lsFence (nextState env st tr) = ltFence tr"
    "lsStatusRefreshRevision (nextState env st tr) =
       incIf (ltActionType tr = LocalRefreshServiceStatus) (lsStatusRefreshRevision st)"
    "lsDiagnosticsRevision (nextState env st tr) =
       incIf (ltActionType tr = LocalRerunDiagnostics) (lsDiagnosticsRevision st)"
    "lsStaleWarning (nextState env st tr) = (lsStaleWarning st \<and> ltActionType tr \<noteq> LocalClearStaleWarning)"
    "lsAppliedRequests (nextState env st tr) =
       AList.update (ltIdempotencyKey tr) (localTransitionDigest env tr) (lsAppliedRequests st)"
proof -
  from assms obtain n where n: "localEffect (ltActionType tr) st = Some n"
    "nextState env st tr = n\<lparr>lsRevision := wrap64 (lsRevision n + 1), lsFence := ltFence tr,
       lsAppliedRequests := AList.update (ltIdempotencyKey tr) (localTransitionDigest env tr) (lsAppliedRequests st)\<rparr>"
    and guards: "localValidate tr = None" "map_of (lsAppliedRequests st) (ltIdempotencyKey tr) = None"
    "ltExpectedRevision tr = lsRevision st" "lsFence st < ltFence tr"
    by (auto simp: accepted_def ApplyLocalTransition_def Let_def split: option.split_asm if_split_asm)
  show "localValidate tr = None" "map_of (lsAppliedRequests st) (ltIdempotencyKey tr) = None"
      "ltExpectedRevision tr = lsRevision st" "lsFence st < ltFence tr"
      "lsRevision (nextState env st tr) = wrap64 (lsRevision st + 1)" "lsFence (nextState env st tr) = ltFence tr"
      "lsStatusRefreshRevision (nextState env st tr) =
         incIf (ltActionType tr = LocalRefreshServiceStatus) (lsStatusRefreshRevision st)"
      "lsDiagnosticsRevision (nextState env st tr) =
         incIf (ltActionType tr = LocalRerunDiagnostics) (lsDiagnosticsRevision st)"
      "lsStaleWarning (nextState env st tr) = (lsStaleWarning st \<and> ltActionType tr \<noteq> LocalClearStaleWarning)"
      "lsAppliedRequests (nextState env st tr) =
         AList.update (ltIdempotencyKey tr) (localTransitionDigest env tr) (lsAppliedRequests st)"
    by (simp_all add: guards n(2) localEffect_fields [OF n(1)])
qed

lemma Apply_known_key:
  "localValidate tr = None \<Longrightarrow> map_of (lsAppliedRequests st) (ltIdempotencyKey tr) = Some d \<Longrightarrow>
   ApplyLocalTransition env st tr =
     (if localTransitionDigest env tr \<noteq> d then (\<lparr>lrState = st, lrReplayed = False\<rparr>, Some ErrLocalIdempotencyConflict)
      else (\<lparr>lrState = st, lrReplayed = True\<rparr>, None))"
  by (simp add: ApplyLocalTransition_def)

lemma applied_kept:
  assumes "map_of (lsAppliedRequests st) k = Some d"
  shows "map_of (lsAppliedRequests (nextState env st tr)) k = Some d"
proof (cases "accepted env st tr")
  case True
  then have "ltIdempotencyKey tr \<noteq> k" using accepted_effect(2) assms by fastforce
  then show ?thesis using assms by (simp add: accepted_effect(10) [OF True])
qed (simp add: not_accepted_same assms)

text \<open>A sequence of requests; the first component lists the ones that took effect.\<close>

fun applyAll :: "goenv \<Rightarrow> LocalTransitionState \<Rightarrow> LocalTransition list \<Rightarrow> LocalTransition list \<times> LocalTransitionState" where
  "applyAll env st [] = ([], st)"
| "applyAll env st (tr # trs) =
     (let (acc, st') = applyAll env (nextState env st tr) trs
      in (if accepted env st tr then tr # acc else acc, st'))"

lemma applyAll_applied_kept:
  "map_of (lsAppliedRequests st) k = Some d \<Longrightarrow> map_of (lsAppliedRequests (snd (applyAll env st trs))) k = Some d"
  by (induction trs arbitrary: st) (auto simp: applied_kept case_prod_unfold Let_def)

lemma applyAll_keys:
  "map_of (lsAppliedRequests st) k \<noteq> None \<Longrightarrow> k \<notin> ltIdempotencyKey ` set (fst (applyAll env st trs))"
proof (induction trs arbitrary: st)
  case (Cons tr trs)
  have "map_of (lsAppliedRequests (nextState env st tr)) k \<noteq> None" using Cons.prems applied_kept by fastforce
  then have "k \<notin> ltIdempotencyKey ` set (fst (applyAll env (nextState env st tr) trs))" by (rule Cons.IH)
  moreover have "accepted env st tr \<Longrightarrow> ltIdempotencyKey tr \<noteq> k" using accepted_effect(2) Cons.prems by fastforce
  ultimately show ?case by (auto simp: case_prod_unfold Let_def)
qed simp

lemma applyAll_fences:
  "sorted_wrt (<) (lsFence st # map ltFence (fst (applyAll env st trs)))"
proof (induction trs arbitrary: st)
  case (Cons tr trs)
  show ?case
  proof (cases "accepted env st tr")
    case True
    then show ?thesis using Cons [of "nextState env st tr"] accepted_effect(4,6) [OF True]
      by (auto simp: case_prod_unfold Let_def intro: less_trans)
  next
    case False
    then show ?thesis using Cons [of st] by (simp add: not_accepted_same case_prod_unfold Let_def)
  qed
qed simp

lemma applyAll_distinct: "distinct (map ltIdempotencyKey (fst (applyAll env st trs)))"
proof (induction trs arbitrary: st)
  case (Cons tr trs)
  have "ltIdempotencyKey tr \<notin> ltIdempotencyKey ` set (fst (applyAll env (nextState env st tr) trs))"
    if "accepted env st tr"
    using accepted_effect(10) [OF that] by (intro applyAll_keys) simp
  with Cons [of "nextState env st tr"] show ?case by (auto simp: case_prod_unfold Let_def)
qed simp

lemma incIf_count:
  "in64 n \<Longrightarrow> wrap64 (incIf b n + int k) = wrap64 (n + int ((if b then 1 else 0) + k)) \<and> in64 (incIf b n)"
  by (simp add: incIf_def wrap64_add add.assoc add.left_commute)

lemma applyAll_counts:
  assumes "in64 (lsRevision st)" "in64 (lsStatusRefreshRevision st)" "in64 (lsDiagnosticsRevision st)"
  shows "lsRevision (snd (applyAll env st trs)) = wrap64 (lsRevision st + int (length (fst (applyAll env st trs)))) \<and>
    lsStatusRefreshRevision (snd (applyAll env st trs)) = wrap64 (lsStatusRefreshRevision st +
      int (length (filter (\<lambda>tr. ltActionType tr = LocalRefreshServiceStatus) (fst (applyAll env st trs))))) \<and>
    lsDiagnosticsRevision (snd (applyAll env st trs)) = wrap64 (lsDiagnosticsRevision st +
      int (length (filter (\<lambda>tr. ltActionType tr = LocalRerunDiagnostics) (fst (applyAll env st trs)))))"
  using assms
proof (induction trs arbitrary: st)
  case Nil
  then show ?case by (simp add: wrap64_id)
next
  case (Cons tr trs)
  show ?case
  proof (cases "accepted env st tr")
    case True
    note eff = accepted_effect(5,7,8) [OF True]
    have "in64 (lsRevision (nextState env st tr))" "in64 (lsStatusRefreshRevision (nextState env st tr))"
      "in64 (lsDiagnosticsRevision (nextState env st tr))"
      using Cons.prems by (simp_all add: eff incIf_count)
    note ih = Cons.IH [OF this]
    show ?thesis using True ih Cons.prems
      by (auto simp: eff incIf_count wrap64_add wrap64_add_right case_prod_unfold Let_def ac_simps)
  next
    case False
    then show ?thesis using Cons by (simp add: not_accepted_same case_prod_unfold Let_def)
  qed
qed

subsection \<open>The request encoding\<close>

lemma idempotency_no_newline: "idempotencyPattern s \<Longrightarrow> CHR 0x0A \<notin> set s"
  using runes_ascii [of "CHR 0x0A" s] by (force simp: idempotencyPattern_def list_all_iff b2n_def)

lemma validLocal_no_newline:
  assumes "localValidate tr = None"
  shows "CHR 0x0A \<notin> set (ltActionID tr)" "CHR 0x0A \<notin> set (ltActionType tr)"
    "CHR 0x0A \<notin> set (ltIdempotencyKey tr)" "CHR 0x0A \<notin> set (ltAuditCorrelationID tr)"
  using assms
  by (auto simp: localValidate_def Let_def boundedIDPattern_def validLocalAction_def localActions
      dest: boundedPattern_no_newline idempotency_no_newline split: if_splits)

lemma localCanonical_inject:
  assumes "localValidate a = None" "localValidate b = None" "localCanonical a = localCanonical b"
  shows "a = b"
proof -
  have "[ltActionID a, ltActionType a, FormatInt (ltExpectedRevision a), FormatInt (ltFence a),
      ltIdempotencyKey a, ltAuditCorrelationID a] =
    [ltActionID b, ltActionType b, FormatInt (ltExpectedRevision b), FormatInt (ltFence b),
      ltIdempotencyKey b, ltAuditCorrelationID b]"
    by (rule strJoin_inject [OF assms(3) [unfolded localCanonical_def]])
      (use validLocal_no_newline [OF assms(1)] validLocal_no_newline [OF assms(2)] in
        \<open>auto simp: FormatInt_no_newline\<close>)
  then show ?thesis by (cases a, cases b) (simp add: FormatInt_inject)
qed

subsection \<open>Properties\<close>

definition sampleLocal :: "string \<Rightarrow> int \<Rightarrow> int \<Rightarrow> LocalTransition" where
  "sampleLocal key revision fence = \<lparr>ltActionID = ''rem_1'', ltActionType = LocalRerunDiagnostics,
     ltExpectedRevision = revision, ltFence = fence, ltIdempotencyKey = key, ltAuditCorrelationID = ''audit_1''\<rparr>"

definition sampleLocalState :: LocalTransitionState where
  "sampleLocalState = \<lparr>lsRevision = 1, lsFence = 0, lsStatusRefreshRevision = 0, lsDiagnosticsRevision = 0,
     lsStaleWarning = True, lsAppliedRequests = []\<rparr>"

lemma sampleLocal_valid: "localValidate (sampleLocal ''k1'' 1 1) = None" "localValidate (sampleLocal ''k1'' 2 2) = None"
  by code_simp+

lemma sampleLocal_accepted: "accepted (concreteEnv []) sampleLocalState (sampleLocal ''k1'' 1 1)"
  by (simp add: accepted_def ApplyLocalTransition_def sampleLocal_valid sampleLocalState_def localEffect_def
      sampleLocal_def localActions sampleLocal_valid [unfolded sampleLocal_def localActions])

text \<open>A request that took effect is never applied again: after any further requests,
  sending it once more reports a replay and changes nothing.\<close>

theorem local_replay:
  assumes "accepted env st tr"
  shows "ApplyLocalTransition env (snd (applyAll env (nextState env st tr) trs)) tr =
    (\<lparr>lrState = snd (applyAll env (nextState env st tr) trs), lrReplayed = True\<rparr>, None)"
proof -
  have "map_of (lsAppliedRequests (snd (applyAll env (nextState env st tr) trs))) (ltIdempotencyKey tr) =
      Some (localTransitionDigest env tr)"
    by (rule applyAll_applied_kept) (simp add: accepted_effect(10) [OF assms])
  then show ?thesis by (simp add: Apply_known_key accepted_effect(1) [OF assms])
qed

theorem local_replay_witness:
  "lrReplayed (fst (ApplyLocalTransition (concreteEnv [])
     (nextState (concreteEnv []) sampleLocalState (sampleLocal ''k1'' 1 1)) (sampleLocal ''k1'' 1 1)))"
  using local_replay [OF sampleLocal_accepted, of "[]"] by simp

text \<open>C35: over any sequence of requests, each idempotency key takes effect at most once, the
  fences of the requests that take effect strictly increase above the starting fence, and the
  revision counters count exactly them.\<close>

theorem local_exactly_once:
  assumes "in64 (lsRevision st)" "in64 (lsStatusRefreshRevision st)" "in64 (lsDiagnosticsRevision st)"
    "applyAll env st trs = (acc, st')"
  shows "distinct (map ltIdempotencyKey acc) \<and> sorted_wrt (<) (lsFence st # map ltFence acc) \<and>
    lsRevision st' = wrap64 (lsRevision st + int (length acc)) \<and>
    lsStatusRefreshRevision st' = wrap64 (lsStatusRefreshRevision st +
      int (length (filter (\<lambda>tr. ltActionType tr = LocalRefreshServiceStatus) acc))) \<and>
    lsDiagnosticsRevision st' = wrap64 (lsDiagnosticsRevision st +
      int (length (filter (\<lambda>tr. ltActionType tr = LocalRerunDiagnostics) acc)))"
  using applyAll_distinct [of env st trs] applyAll_fences [of st env trs] applyAll_counts [OF assms(1-3), of env trs]
  by (simp only: assms(4) fst_conv snd_conv)

theorem local_exactly_once_witness:
  "lsRevision (nextState (concreteEnv []) sampleLocalState (sampleLocal ''k1'' 1 1)) = wrap64 (1 + int (length [sampleLocal ''k1'' 1 1]))"
  using local_exactly_once [of sampleLocalState "concreteEnv []" "[sampleLocal ''k1'' 1 1]"] sampleLocal_accepted
  by (simp add: sampleLocalState_def in64_def)

text \<open>Two different valid requests under one idempotency key are told apart: with a
  digest that does not collide on their encodings, the second is refused as a conflict.\<close>

theorem local_key_reuse_refused:
  assumes "accepted env st tr" "localValidate tr' = None" "ltIdempotencyKey tr' = ltIdempotencyKey tr" "tr' \<noteq> tr"
    "sha256 env (localCanonical tr') = sha256 env (localCanonical tr) \<longrightarrow> localCanonical tr' = localCanonical tr"
  shows "ApplyLocalTransition env (nextState env st tr) tr' =
    (\<lparr>lrState = nextState env st tr, lrReplayed = False\<rparr>, Some ErrLocalIdempotencyConflict)"
proof -
  have "localCanonical tr' \<noteq> localCanonical tr"
    using localCanonical_inject [OF assms(2) accepted_effect(1) [OF assms(1)]] assms(4) by blast
  then have "localTransitionDigest env tr' \<noteq> localTransitionDigest env tr"
    using assms(5) by (auto simp: localTransitionDigest_def)
  then show ?thesis
    using Apply_known_key [OF assms(2), of "nextState env st tr" "localTransitionDigest env tr" env]
    by (simp add: assms(3) accepted_effect(10) [OF assms(1)])
qed

theorem local_key_reuse_refused_witness:
  "snd (ApplyLocalTransition (concreteEnv []) (nextState (concreteEnv []) sampleLocalState (sampleLocal ''k1'' 1 1))
     (sampleLocal ''k1'' 2 2)) = Some ErrLocalIdempotencyConflict"
proof -
  have neq: "sha256 (concreteEnv []) (localCanonical (sampleLocal ''k1'' 2 2)) \<noteq>
      sha256 (concreteEnv []) (localCanonical (sampleLocal ''k1'' 1 1))"
    by code_simp
  show ?thesis
    using local_key_reuse_refused [OF sampleLocal_accepted sampleLocal_valid(2)] neq
    by (simp add: sampleLocal_def)
qed

end
