(* ===== verification/Remediation.thy ===== *)
theory Remediation
  imports Local_Transition
begin

text \<open>
  \<^verbatim>\<open>internal/remediation/policy.go\<close> and \<^verbatim>\<open>v2.go\<close>: which remediation actions an incident
  offers, who may execute them, and the proposals sent to the Control Panel.
\<close>

subsection \<open>Modes and action classes\<close>

definition ModeDisabled :: string where "ModeDisabled = ''disabled''"
definition ModeSuggestOnly :: string where "ModeSuggestOnly = ''suggest_only''"
definition ModeSafeAuto :: string where "ModeSafeAuto = ''safe_auto''"
definition ModeManualApproval :: string where "ModeManualApproval = ''manual_approval''"

lemmas modes = ModeDisabled_def ModeSuggestOnly_def ModeSafeAuto_def ModeManualApproval_def

definition NormalizeMode :: "string \<Rightarrow> string" where
  "NormalizeMode mode =
     (let m = ToLower (TrimSpace mode) in
      if m = ModeDisabled then ModeDisabled
      else if m = ModeSafeAuto then ModeSafeAuto
      else if m = ModeManualApproval then ModeManualApproval
      else ModeSuggestOnly)"

definition ModeFromEnv :: "goenv \<Rightarrow> string" where
  "ModeFromEnv env = NormalizeMode (getenv env ''REMEDIATION_MODE'')"

definition IsTerminalStatus :: "string \<Rightarrow> bool" where
  "IsTerminalStatus status \<longleftrightarrow> ToLower (TrimSpace status) \<in> {''executed'', ''blocked''}"

definition IsSafeAuto :: "string \<Rightarrow> bool" where
  "IsSafeAuto action \<longleftrightarrow> action \<in> {''retry_gdrive_upload'', ''refresh_service_status'', ''rerun_diagnostics'',
     ''clear_stale_warning'', ''retry_package_remux''}"

definition IsDangerous :: "string \<Rightarrow> bool" where
  "IsDangerous action \<longleftrightarrow> action \<in> {''delete_archives'', ''rotate_credentials'', ''change_roles'',
     ''stop_live_stream'', ''recreate_youtube_broadcast'', ''revoke_service_tokens''}"

definition initialStatus :: "string \<Rightarrow> bool \<Rightarrow> string" where
  "initialStatus mode requiresApproval =
     (if mode = ModeDisabled then ''disabled''
      else if requiresApproval \<or> mode = ModeManualApproval then ''pending_approval''
      else ''suggested'')"

definition ProposalRetryGDriveUpload :: string where "ProposalRetryGDriveUpload = ''application.retry_gdrive_upload''"
definition ProposalRetryPackageRemux :: string where "ProposalRetryPackageRemux = ''application.retry_package_remux''"

lemmas proposalActions = ProposalRetryGDriveUpload_def ProposalRetryPackageRemux_def

definition proposalActionForLegacyRetry :: "string \<Rightarrow> string option" where
  "proposalActionForLegacyRetry action =
     (let a = TrimSpace action in
      if a = ''retry_gdrive_upload'' then Some ProposalRetryGDriveUpload
      else if a = ''retry_package_remux'' then Some ProposalRetryPackageRemux
      else None)"

definition LegacyRetryAction :: "string \<Rightarrow> string option" where
  "LegacyRetryAction action =
     (if action = ProposalRetryGDriveUpload then Some ''retry_gdrive_upload''
      else if action = ProposalRetryPackageRemux then Some ''retry_package_remux''
      else None)"

datatype LegacyActionClass =
    LegacyActionUnknown
  | LegacyActionLocalTransition
  | LegacyActionApplicationProposal
  | LegacyActionHostProposalOnly
  | LegacyActionForbidden

definition ClassifyLegacyAction :: "string \<Rightarrow> LegacyActionClass" where
  "ClassifyLegacyAction raw =
     (let action = TrimSpace raw in
      if IsDangerous action then LegacyActionForbidden
      else if IsLocalTransition action then LegacyActionLocalTransition
      else if proposalActionForLegacyRetry action \<noteq> None then LegacyActionApplicationProposal
      else if action \<in> {''restart_service'', ''restart_encoder_recorder'', ''restart_youtube_rtmps_output'',
          ''reconnect_discord_voice'', ''restart_discord_bot'', ''restart_worker''}
      then LegacyActionHostProposalOnly
      else LegacyActionUnknown)"

subsection \<open>Building, approving and executing actions\<close>

definition zeroAction :: RemediationAction where
  "zeroAction = \<lparr>raID = [], raIncidentID = [], raAction = [], raMode = [], raStatus = [], raSafeAuto = False,
     raRequiresApproval = False, raResult = [], raCreatedAt = 0, raUpdatedAt = 0, raExecutedAt = None\<rparr>"

definition skipAction :: "string list \<Rightarrow> string \<Rightarrow> bool" where
  "skipAction seen action \<longleftrightarrow> action = [] \<or> ClassifyLegacyAction action = LegacyActionUnknown \<or>
     ClassifyLegacyAction action = LegacyActionForbidden \<or> action \<in> set seen"

text \<open>One of the two loops of \<^verbatim>\<open>BuildActions\<close>: the actions it adds and \<^verbatim>\<open>seen\<close> after it.\<close>

fun buildLoop :: "(string \<Rightarrow> RemediationAction) \<Rightarrow> string list \<Rightarrow> string list \<Rightarrow> RemediationAction list \<times> string list" where
  "buildLoop mk seen [] = ([], seen)"
| "buildLoop mk seen (raw # rest) =
     (let action = TrimSpace raw in
      if skipAction seen action then buildLoop mk seen rest
      else let (acts, seen') = buildLoop mk (action # seen) rest in (mk action # acts, seen'))"

definition safeAction :: "Incident \<Rightarrow> string \<Rightarrow> string \<Rightarrow> RemediationAction" where
  "safeAction incident mode a = zeroAction\<lparr>raIncidentID := incID incident, raAction := a, raMode := mode,
     raStatus := initialStatus mode False, raSafeAuto := IsSafeAuto a\<rparr>"

definition approvalAction :: "Incident \<Rightarrow> string \<Rightarrow> string \<Rightarrow> RemediationAction" where
  "approvalAction incident mode a = zeroAction\<lparr>raIncidentID := incID incident, raAction := a, raMode := mode,
     raStatus := initialStatus mode True, raSafeAuto := False, raRequiresApproval := True\<rparr>"

definition BuildActions :: "Incident \<Rightarrow> string \<Rightarrow> RemediationAction list" where
  "BuildActions incident rawMode =
     (let mode = NormalizeMode rawMode;
          (acts1, seen) = buildLoop (safeAction incident mode) [] (rpSafeAutoCandidates (incReport incident));
          (acts2, _) = buildLoop (approvalAction incident mode) seen (rpApprovalRequired (incReport incident))
      in acts1 @ acts2)"

definition Approve :: "RemediationAction \<Rightarrow> RemediationAction" where
  "Approve action = (if raStatus action = ''pending_approval'' then action\<lparr>raStatus := ''approved''\<rparr> else action)"

definition block :: "string \<Rightarrow> RemediationAction \<Rightarrow> RemediationAction" where
  "block why action = action\<lparr>raStatus := ''blocked'', raResult := why\<rparr>"

definition Execute :: "instant \<Rightarrow> RemediationAction \<Rightarrow> RemediationAction" where
  "Execute now action =
     (if IsTerminalStatus (raStatus action) then
        (if TrimSpace (raResult action) = []
         then action\<lparr>raResult := ''remediation action is already terminal''\<rparr> else action)
      else if NormalizeMode (raMode action) = ModeDisabled \<or> raStatus action = ''disabled''
      then block ''remediation is disabled'' action
      else if NormalizeMode (raMode action) = ModeSuggestOnly
      then block ''remediation mode is suggest_only'' action
      else if NormalizeMode (raMode action) = ModeManualApproval \<and> raStatus action \<noteq> ''approved''
      then block ''manual approval is required'' action
      else if ClassifyLegacyAction (raAction action) = LegacyActionForbidden
      then block ''dangerous action is never auto-executed'' action
      else if ClassifyLegacyAction (raAction action) = LegacyActionUnknown
      then block ''unsupported remediation action'' action
      else if raRequiresApproval action \<and> raStatus action \<noteq> ''approved''
      then block ''manual approval is required'' action
      else if \<not> raSafeAuto action \<and> \<not> raRequiresApproval action
      then block ''action is not marked safe'' action
      else if ClassifyLegacyAction (raAction action) = LegacyActionHostProposalOnly
      then action\<lparr>raStatus := ''executed'', raResult := ''recorded_noop'', raExecutedAt := Some now\<rparr>
      else action\<lparr>raStatus := ''executed'',
             raResult := (if ClassifyLegacyAction (raAction action) = LegacyActionLocalTransition
                          then ''observability_local_transition_recorded''
                          else ''control_panel_proposal_ready''),
             raExecutedAt := Some now\<rparr>)"

subsection \<open>Proposals\<close>

record ProposalEvidence =
  peEvidenceCode :: string
  peObservedAt :: instant
  peObservedRevision :: int
  peEvidenceDigest :: string

record Proposal =
  ppProposalID :: string
  ppIncidentID :: string
  ppDetectorServiceID :: string
  ppDetectorServiceType :: string
  ppTargetServiceID :: string
  ppTargetServiceType :: string
  ppTargetHostID :: string
  ppActionType :: string
  ppProposalRevision :: int
  ppRequiredCapability :: string
  ppEvidence :: "ProposalEvidence list"
  ppAuditCorrelationID :: string
  ppObservedAt :: instant
  ppControlPanelAuthorizationRequired :: bool

definition isHostProposal :: "string \<Rightarrow> bool" where
  "isHostProposal action \<longleftrightarrow> action \<in> {''host.systemd'', ''host.docker'', ''host.update'', ''host.bootstrap'',
     ''host.port'', ''host.self_update''}"

definition isApplicationRetryProposal :: "string \<Rightarrow> bool" where
  "isApplicationRetryProposal action \<longleftrightarrow> action = ProposalRetryGDriveUpload \<or> action = ProposalRetryPackageRemux"

definition validProposalAction :: "string \<Rightarrow> bool" where
  "validProposalAction action \<longleftrightarrow> action \<in> {''host.systemd'', ''host.docker'', ''host.update'', ''host.bootstrap'',
     ''host.port'', ''host.self_update'', ProposalRetryGDriveUpload, ProposalRetryPackageRemux}"

definition validTargetServiceType :: "string \<Rightarrow> bool" where
  "validTargetServiceType t \<longleftrightarrow> t \<in> {''control_panel'', ''worker'', ''encoder_recorder'', ''discord_bot'', ''observability''}"

definition validEvidenceCode :: "string \<Rightarrow> bool" where
  "validEvidenceCode c \<longleftrightarrow> c \<in> {''incident_detected'', ''diagnostic_confirmed'', ''retry_eligible'', ''host_symptom_confirmed''}"

text \<open>\<^verbatim>\<open>^sha256:[a-f0-9]{64}$\<close>.\<close>

definition digestPattern :: "string \<Rightarrow> bool" where
  "digestPattern s \<longleftrightarrow> take 7 s = ''sha256:'' \<and> length s = 71 \<and>
     list_all (\<lambda>c. (97 \<le> b2n c \<and> b2n c \<le> 102) \<or> (48 \<le> b2n c \<and> b2n c \<le> 57)) (drop 7 s)"

fun validateEvidence :: "int \<Rightarrow> ProposalEvidence list \<Rightarrow> goerr option" where
  "validateEvidence revision [] = None"
| "validateEvidence revision (e # es) =
     (if \<not> validEvidenceCode (peEvidenceCode e) \<or> IsZero (peObservedAt e) \<or> peObservedRevision e \<noteq> revision
      then Some (ErrText ''proposal evidence is invalid'')
      else if peEvidenceDigest e \<noteq> [] \<and> \<not> digestPattern (peEvidenceDigest e)
      then Some (ErrText ''proposal evidence digest is invalid'')
      else validateEvidence revision es)"

definition proposalValidate :: "Proposal \<Rightarrow> goerr option" where
  "proposalValidate p =
     (if \<not> boundedIDPattern (ppProposalID p) \<or> \<not> boundedIDPattern (ppIncidentID p)
      then Some (ErrText ''proposal correlation identity is invalid'')
      else if \<not> boundedIDPattern (ppDetectorServiceID p) \<or> ppDetectorServiceType p \<noteq> ''observability''
      then Some (ErrText ''proposal detector identity is invalid'')
      else if \<not> boundedIDPattern (ppTargetServiceID p) \<or> \<not> validTargetServiceType (ppTargetServiceType p)
      then Some (ErrText ''proposal target identity is invalid'')
      else if ppTargetHostID p \<noteq> [] \<and> \<not> hostIDPattern (ppTargetHostID p)
      then Some (ErrText ''proposal host identity is invalid'')
      else if \<not> validProposalAction (ppActionType p) \<or> ppRequiredCapability p \<noteq> ppActionType p
      then Some (ErrText ''proposal action or capability is invalid'')
      else if isHostProposal (ppActionType p) \<and> ppTargetHostID p = []
      then Some (ErrText ''host proposal requires a host identity'')
      else if isApplicationRetryProposal (ppActionType p) \<and> ppTargetServiceType p \<noteq> ''encoder_recorder''
      then Some (ErrText ''application retry proposal target is invalid'')
      else if ppProposalRevision p < 1 \<or> IsZero (ppObservedAt p) \<or> \<not> ppControlPanelAuthorizationRequired p
      then Some (ErrText ''proposal revision or authorization boundary is invalid'')
      else if \<not> boundedIDPattern (ppAuditCorrelationID p)
      then Some (ErrText ''proposal audit correlation identity is invalid'')
      else if length (ppEvidence p) = 0 \<or> length (ppEvidence p) > 32
      then Some (ErrText ''proposal evidence count is invalid'')
      else validateEvidence (ppProposalRevision p) (ppEvidence p))"

definition IsBoundedCorrelationID :: "string \<Rightarrow> bool" where
  "IsBoundedCorrelationID value = boundedIDPattern (TrimSpace value)"

definition evidenceCanonical :: "string \<Rightarrow> Proposal \<Rightarrow> string \<Rightarrow> string" where
  "evidenceCanonical code p signalID = strJoin [code, ppProposalID p, ppIncidentID p, ppTargetServiceID p,
     ppActionType p, FormatInt (ppProposalRevision p), TrimSpace signalID] [CHR 0x0A]"

definition newProposalEvidence :: "goenv \<Rightarrow> string \<Rightarrow> Proposal \<Rightarrow> string \<Rightarrow> ProposalEvidence" where
  "newProposalEvidence env code p signalID = \<lparr>peEvidenceCode = code, peObservedAt = ppObservedAt p,
     peObservedRevision = ppProposalRevision p,
     peEvidenceDigest = ''sha256:'' @ hexEncode (sha256 env (evidenceCanonical code p signalID))\<rparr>"

text \<open>\<open>now\<close> is the clock reading of the fallback for two zero times.\<close>

definition NewApplicationRetryProposal ::
  "goenv \<Rightarrow> instant \<Rightarrow> RemediationAction \<Rightarrow> Incident \<Rightarrow> string \<Rightarrow> instant \<Rightarrow> Proposal result" where
  "NewApplicationRetryProposal env now action incident detectorServiceID observedAt =
     (if TrimSpace (raID action) = [] \<or> TrimSpace (raIncidentID action) = [] \<or>
         TrimSpace (raIncidentID action) \<noteq> TrimSpace (incID incident)
      then Inl (ErrText ''remediation action and incident correlation is invalid'')
      else if \<not> IsBoundedCorrelationID (raID action) \<or> \<not> IsBoundedCorrelationID (incID incident) \<or>
         \<not> IsBoundedCorrelationID (incServiceID incident) \<or> \<not> IsBoundedCorrelationID (incSignalID incident) \<or>
         \<not> IsBoundedCorrelationID detectorServiceID
      then Inl (ErrText ''remediation proposal correlation is invalid'')
      else case proposalActionForLegacyRetry (raAction action) of
        None \<Rightarrow> Inl (ErrText ''legacy remediation action is not an application retry proposal'')
      | Some actionType \<Rightarrow>
         (let o1 = (if IsZero observedAt then incUpdatedAt incident else observedAt);
              o2 = (if IsZero o1 then now else o1);
              revision = (if incOccurrenceCount incident < 1 then 1 else incOccurrenceCount incident);
              p = \<lparr>ppProposalID = raID action, ppIncidentID = incID incident,
                   ppDetectorServiceID = TrimSpace detectorServiceID, ppDetectorServiceType = ''observability'',
                   ppTargetServiceID = TrimSpace (incServiceID incident), ppTargetServiceType = ''encoder_recorder'',
                   ppTargetHostID = [], ppActionType = actionType, ppProposalRevision = revision,
                   ppRequiredCapability = actionType, ppEvidence = [], ppAuditCorrelationID = raID action,
                   ppObservedAt = o2, ppControlPanelAuthorizationRequired = True\<rparr>;
              p' = p\<lparr>ppEvidence := [newProposalEvidence env ''incident_detected'' p (incSignalID incident),
                                    newProposalEvidence env ''diagnostic_confirmed'' p (incSignalID incident),
                                    newProposalEvidence env ''retry_eligible'' p (incSignalID incident)]\<rparr>
          in case proposalValidate p' of Some e \<Rightarrow> Inl e | None \<Rightarrow> Inr p'))"

subsection \<open>Policy lemmas\<close>

lemma terminal_literals [simp]:
  "IsTerminalStatus ''executed''" "IsTerminalStatus ''blocked''" "\<not> IsTerminalStatus ''approved''"
  "\<not> IsTerminalStatus ''pending_approval''" "\<not> IsTerminalStatus ''suggested''" "\<not> IsTerminalStatus ''disabled''"
  by (simp_all add: IsTerminalStatus_def go_eval)

lemma NormalizeMode_cases:
  "NormalizeMode m \<in> {ModeDisabled, ModeSuggestOnly, ModeSafeAuto, ModeManualApproval}"
  by (simp add: NormalizeMode_def Let_def)

lemma NormalizeMode_literals:
  "NormalizeMode ModeDisabled = ModeDisabled" "NormalizeMode ModeSuggestOnly = ModeSuggestOnly"
  "NormalizeMode ModeSafeAuto = ModeSafeAuto" "NormalizeMode ModeManualApproval = ModeManualApproval"
  by (simp_all add: NormalizeMode_def modes go_eval)

lemma NormalizeMode_idem [simp]: "NormalizeMode (NormalizeMode m) = NormalizeMode m"
proof -
  have "NormalizeMode x = x" if "x \<in> {ModeDisabled, ModeSuggestOnly, ModeSafeAuto, ModeManualApproval}" for x
    using that NormalizeMode_literals by auto
  then show ?thesis using NormalizeMode_cases by blast
qed

lemma Classify_TrimSpace [simp]: "ClassifyLegacyAction (TrimSpace a) = ClassifyLegacyAction a"
  by (simp add: ClassifyLegacyAction_def)

text \<open>When an action that is not yet terminal may be executed.\<close>

definition executable :: "RemediationAction \<Rightarrow> bool" where
  "executable a \<longleftrightarrow> NormalizeMode (raMode a) \<in> {ModeSafeAuto, ModeManualApproval} \<and> raStatus a \<noteq> ''disabled'' \<and>
     ClassifyLegacyAction (raAction a) \<notin> {LegacyActionUnknown, LegacyActionForbidden} \<and>
     (raRequiresApproval a \<or> NormalizeMode (raMode a) = ModeManualApproval \<longrightarrow> raStatus a = ''approved'') \<and>
     (raSafeAuto a \<or> raRequiresApproval a)"

lemma Execute_status:
  assumes "\<not> IsTerminalStatus (raStatus a)"
  shows "raStatus (Execute now a) = (if executable a then ''executed'' else ''blocked'')"
  using assms NormalizeMode_cases [of "raMode a"]
  by (auto simp: Execute_def executable_def block_def modes)

lemma Execute_terminal: "IsTerminalStatus (raStatus a) \<Longrightarrow> raStatus (Execute now a) = raStatus a"
  by (simp add: Execute_def)

lemma Execute_frame [simp]:
  "raAction (Execute now a) = raAction a" "raMode (Execute now a) = raMode a"
  "raRequiresApproval (Execute now a) = raRequiresApproval a" "raSafeAuto (Execute now a) = raSafeAuto a"
  "raID (Execute now a) = raID a" "raIncidentID (Execute now a) = raIncidentID a"
  by (simp_all add: Execute_def block_def)

lemma Approve_frame [simp]:
  "raAction (Approve a) = raAction a" "raMode (Approve a) = raMode a"
  "raRequiresApproval (Approve a) = raRequiresApproval a" "raSafeAuto (Approve a) = raSafeAuto a"
  by (simp_all add: Approve_def)

lemma buildLoop_props:
  "distinct (map raAction (fst (buildLoop mk seen raws))) \<and>
   raAction ` set (fst (buildLoop mk seen raws)) \<inter> set seen = {} \<and>
   snd (buildLoop mk seen raws) = rev (map raAction (fst (buildLoop mk seen raws))) @ seen \<and>
   (\<forall>a \<in> set (fst (buildLoop mk seen raws)). \<exists>raw \<in> set raws. a = mk (TrimSpace raw) \<and> \<not> skipAction [] (TrimSpace raw))"
  if "\<And>x. raAction (mk x) = x"
proof (induction raws arbitrary: seen)
  case (Cons raw raws)
  show ?case
  proof (cases "skipAction seen (TrimSpace raw)")
    case True
    then show ?thesis using Cons [of seen] by auto
  next
    case False
    then show ?thesis using Cons [of "TrimSpace raw # seen"]
      by (auto simp: that case_prod_unfold Let_def skipAction_def)
  qed
qed simp

subsection \<open>What an incident offers\<close>

lemma safeAction_simps [simp]:
  "raAction (safeAction i m a) = a" "raMode (safeAction i m a) = m" "raIncidentID (safeAction i m a) = incID i"
  "raStatus (safeAction i m a) = initialStatus m False" "raSafeAuto (safeAction i m a) = IsSafeAuto a"
  "\<not> raRequiresApproval (safeAction i m a)"
  by (simp_all add: safeAction_def zeroAction_def)

lemma approvalAction_simps [simp]:
  "raAction (approvalAction i m a) = a" "raMode (approvalAction i m a) = m"
  "raIncidentID (approvalAction i m a) = incID i" "raStatus (approvalAction i m a) = initialStatus m True"
  "\<not> raSafeAuto (approvalAction i m a)" "raRequiresApproval (approvalAction i m a)"
  by (simp_all add: approvalAction_def)

lemma BuildActions_append:
  obtains l1 l2 where "BuildActions i m = l1 @ l2" "distinct (map raAction (l1 @ l2))"
    "\<And>a. a \<in> set l1 \<Longrightarrow> \<exists>raw \<in> set (rpSafeAutoCandidates (incReport i)).
       a = safeAction i (NormalizeMode m) (TrimSpace raw) \<and> \<not> skipAction [] (TrimSpace raw)"
    "\<And>a. a \<in> set l2 \<Longrightarrow> \<exists>raw \<in> set (rpApprovalRequired (incReport i)).
       a = approvalAction i (NormalizeMode m) (TrimSpace raw) \<and> \<not> skipAction [] (TrimSpace raw)"
proof -
  let ?l1 = "buildLoop (safeAction i (NormalizeMode m)) [] (rpSafeAutoCandidates (incReport i))"
  let ?l2 = "buildLoop (approvalAction i (NormalizeMode m)) (snd ?l1) (rpApprovalRequired (incReport i))"
  have build: "BuildActions i m = fst ?l1 @ fst ?l2" by (simp add: BuildActions_def Let_def case_prod_unfold)
  note p1 = buildLoop_props [of "safeAction i (NormalizeMode m)" "[]" "rpSafeAutoCandidates (incReport i)", simplified]
  note p2 = buildLoop_props [of "approvalAction i (NormalizeMode m)" "snd ?l1" "rpApprovalRequired (incReport i)", simplified]
  have "set (snd ?l1) = raAction ` set (fst ?l1)" using p1 by simp
  then have dist: "distinct (map raAction (fst ?l1 @ fst ?l2))" using p1 p2 by auto
  show thesis
  proof (rule that [OF build dist])
    show "\<exists>raw \<in> set (rpSafeAutoCandidates (incReport i)).
       a = safeAction i (NormalizeMode m) (TrimSpace raw) \<and> \<not> skipAction [] (TrimSpace raw)"
      if "a \<in> set (fst ?l1)" for a using p1 that by simp
    show "\<exists>raw \<in> set (rpApprovalRequired (incReport i)).
       a = approvalAction i (NormalizeMode m) (TrimSpace raw) \<and> \<not> skipAction [] (TrimSpace raw)"
      if "a \<in> set (fst ?l2)" for a using p2 that by simp
  qed
qed

lemma BuildActions_cases:
  assumes "a \<in> set (BuildActions i m)"
  shows "(\<exists>raw \<in> set (rpSafeAutoCandidates (incReport i)).
       a = safeAction i (NormalizeMode m) (TrimSpace raw) \<and> \<not> skipAction [] (TrimSpace raw)) \<or>
     (\<exists>raw \<in> set (rpApprovalRequired (incReport i)).
       a = approvalAction i (NormalizeMode m) (TrimSpace raw) \<and> \<not> skipAction [] (TrimSpace raw))"
  by (rule BuildActions_append [of i m]) (use assms in auto)

lemma BuildActions_distinct: "distinct (map raAction (BuildActions i m))"
  by (rule BuildActions_append [of i m]) simp

subsection \<open>The life of an action\<close>

datatype actionOp = Approving | Executing instant

fun runOp :: "RemediationAction \<Rightarrow> actionOp \<Rightarrow> RemediationAction" where
  "runOp a Approving = Approve a"
| "runOp a (Executing now) = Execute now a"

lemma runOp_frame [simp]:
  "raAction (runOp a x) = raAction a" "raMode (runOp a x) = raMode a"
  "raRequiresApproval (runOp a x) = raRequiresApproval a" "raSafeAuto (runOp a x) = raSafeAuto a"
  by (cases x; simp)+

lemma runOps_frame [simp]:
  "raAction (foldl runOp a ops) = raAction a" "raMode (foldl runOp a ops) = raMode a"
  "raRequiresApproval (foldl runOp a ops) = raRequiresApproval a" "raSafeAuto (foldl runOp a ops) = raSafeAuto a"
  by (induction ops arbitrary: a) simp_all

lemma runOp_terminal: "IsTerminalStatus (raStatus a) \<Longrightarrow> raStatus (runOp a x) = raStatus a"
  by (cases x) (auto simp: Execute_terminal Approve_def)

lemma runOps_terminal: "IsTerminalStatus (raStatus a) \<Longrightarrow> raStatus (foldl runOp a ops) = raStatus a"
proof (induction ops arbitrary: a)
  case (Cons x ops)
  then show ?case using Cons.IH [of "runOp a x"] by (simp add: runOp_terminal)
qed simp

lemma Approve_fixed: "raStatus a \<noteq> ''pending_approval'' \<Longrightarrow> Approve a = a"
  by (simp add: Approve_def)

lemma executed_needs:
  assumes "raStatus (foldl runOp a ops) = ''executed''" "\<not> IsTerminalStatus (raStatus a)"
  shows "executable a \<or> (raStatus a = ''pending_approval'' \<and> ops \<noteq> [] \<and> hd ops = Approving \<and> executable (Approve a))"
  using assms
proof (induction ops arbitrary: a)
  case (Cons x ops)
  show ?case
  proof (cases x)
    case Approving
    show ?thesis
    proof (cases "raStatus a = ''pending_approval''")
      case True
      then have "raStatus (Approve a) = ''approved''" by (simp add: Approve_def)
      then have "executable (Approve a)" using Cons.IH [of "Approve a"] Cons.prems Approving by auto
      then show ?thesis using True Approving by simp
    next
      case False
      then have "executable a \<or> (raStatus a = ''pending_approval'' \<and> ops \<noteq> [] \<and> hd ops = Approving \<and> executable (Approve a))"
        using Cons.IH [of a] Cons.prems Approving Approve_fixed [OF False] by simp
      then show ?thesis using False by simp
    qed
  next
    case (Executing now)
    have "IsTerminalStatus (raStatus (Execute now a))" using Execute_status [OF Cons.prems(2)] by simp
    then have "raStatus (Execute now a) = ''executed''"
      using Cons.prems(1) runOps_terminal [of "Execute now a" ops] Executing by simp
    then show ?thesis using Execute_status [OF Cons.prems(2), of now] by (simp split: if_splits)
  qed
qed simp

subsection \<open>Properties\<close>

definition sampleAction :: "string \<Rightarrow> bool \<Rightarrow> RemediationAction" where
  "sampleAction action approval = zeroAction\<lparr>raID := ''rem_1'', raIncidentID := ''inc_1'', raAction := action,
     raMode := ModeSafeAuto, raStatus := initialStatus ModeSafeAuto approval,
     raSafeAuto := (\<not> approval \<and> IsSafeAuto action), raRequiresApproval := approval\<rparr>"

definition retryIncident :: Incident where
  "retryIncident = zeroIncident\<lparr>incID := ''inc_1'', incServiceID := ''enc-01'', incSignalID := ''sig_1'',
     incOccurrenceCount := 3, incReport := zeroReport\<lparr>rpSafeAutoCandidates := [''retry_gdrive_upload''],
       rpApprovalRequired := ['' restart_service'', ''delete_archives'']\<rparr>\<rparr>"

lemma retryIncident_build: "BuildActions retryIncident ''safe_auto'' =
    [(sampleAction ''retry_gdrive_upload'' False)\<lparr>raID := []\<rparr>, (sampleAction ''restart_service'' True)\<lparr>raID := []\<rparr>]"
proof -
  have t: "TrimSpace '' restart_service'' = ''restart_service''" by (simp add: go_eval)
  show ?thesis
    by (simp add: BuildActions_def retryIncident_def sampleAction_def NormalizeMode_literals [unfolded ModeSafeAuto_def] t
        safeAction_def approvalAction_def Let_def
        skipAction_def ClassifyLegacyAction_def IsDangerous_def IsLocalTransition_def LocalActionForLegacyAction_def
        proposalActionForLegacyRetry_def localActions zeroAction_def zeroIncident_def initialStatus_def modes
        IsSafeAuto_def go_eval)
qed

text \<open>the actions offered for an incident are pairwise different, none of them is
  dangerous or unknown, each comes from the diagnostic report, only the safe ones carry the
  safe flag, and those that need approval start as pending (or disabled).\<close>

theorem BuildActions_safe:
  assumes "a \<in> set (BuildActions i mode)"
  shows "distinct (map raAction (BuildActions i mode)) \<and> raIncidentID a = incID i \<and>
    ClassifyLegacyAction (raAction a) \<notin> {LegacyActionUnknown, LegacyActionForbidden} \<and>
    raAction a \<in> TrimSpace ` (set (rpSafeAutoCandidates (incReport i)) \<union> set (rpApprovalRequired (incReport i))) \<and>
    (raSafeAuto a \<longrightarrow> IsSafeAuto (raAction a) \<and> \<not> raRequiresApproval a) \<and>
    (raRequiresApproval a \<longrightarrow> raStatus a \<in> {''pending_approval'', ''disabled''})"
  using BuildActions_cases [OF assms] BuildActions_distinct [of i mode]
  by (auto simp: skipAction_def initialStatus_def)

theorem BuildActions_safe_witness:
  "ClassifyLegacyAction (raAction ((sampleAction ''restart_service'' True)\<lparr>raID := []\<rparr>))
     \<notin> {LegacyActionUnknown, LegacyActionForbidden}"
  using BuildActions_safe [of "(sampleAction ''restart_service'' True)\<lparr>raID := []\<rparr>" retryIncident "''safe_auto''"]
  by (simp add: retryIncident_build)

text \<open>Executing an action that is not terminal marks it executed exactly when the mode
  allows execution, the action is known and not dangerous, it is safe or needs approval, and
  an approval it needs was given; in every other case it becomes blocked.\<close>

theorem Execute_decision:
  assumes "\<not> IsTerminalStatus (raStatus a)"
  shows "raStatus (Execute now a) =
    (if NormalizeMode (raMode a) \<in> {ModeSafeAuto, ModeManualApproval} \<and> raStatus a \<noteq> ''disabled'' \<and>
        ClassifyLegacyAction (raAction a) \<notin> {LegacyActionUnknown, LegacyActionForbidden} \<and>
        (raRequiresApproval a \<or> NormalizeMode (raMode a) = ModeManualApproval \<longrightarrow> raStatus a = ''approved'') \<and>
        (raSafeAuto a \<or> raRequiresApproval a)
     then ''executed'' else ''blocked'')"
  using Execute_status [OF assms, of now] by (simp only: executable_def)

theorem Execute_decision_witness:
  "raStatus (Execute 5 (sampleAction ''restart_service'' True)) = ''blocked''"
  using Execute_decision [of "sampleAction ''restart_service'' True" 5]
  by (simp add: sampleAction_def zeroAction_def initialStatus_def modes)

text \<open>C10: along any sequence of approvals and executions of an offered action, it ends executed
  only in an executing mode and, if it needs approval (or the mode is manual approval), only
  when the first operation was the approval; a dangerous action is never executed.\<close>

theorem executed_only_when_allowed:
  assumes "a \<in> set (BuildActions i mode)" "raStatus (foldl runOp a ops) = ''executed''"
  shows "NormalizeMode mode \<in> {ModeSafeAuto, ModeManualApproval} \<and> \<not> IsDangerous (TrimSpace (raAction a)) \<and>
    (raRequiresApproval a \<or> NormalizeMode mode = ModeManualApproval \<longrightarrow> ops \<noteq> [] \<and> hd ops = Approving)"
proof -
  have b: "raMode a = NormalizeMode mode" "\<not> skipAction [] (raAction a)" "TrimSpace (raAction a) = raAction a"
    "raStatus a = initialStatus (NormalizeMode mode) (raRequiresApproval a)"
    using BuildActions_cases [OF assms(1)] by auto
  have start: "raStatus a \<in> {''disabled'', ''pending_approval'', ''suggested''}" using b by (simp add: initialStatus_def)
  then have "\<not> IsTerminalStatus (raStatus a)" by auto
  then have ex: "executable a \<or> (raStatus a = ''pending_approval'' \<and> ops \<noteq> [] \<and> hd ops = Approving \<and> executable (Approve a))"
    by (rule executed_needs [OF assms(2)])
  have "\<not> IsDangerous (TrimSpace (raAction a))"
    using b by (auto simp: skipAction_def ClassifyLegacyAction_def Let_def)
  moreover have "raRequiresApproval a \<or> NormalizeMode mode = ModeManualApproval \<Longrightarrow> \<not> executable a"
    using b start by (auto simp: executable_def)
  ultimately show ?thesis using ex b by (auto simp: executable_def)
qed

theorem executed_only_when_allowed_witness:
  "hd [Approving, Executing 9] = Approving \<and>
   raStatus (foldl runOp ((sampleAction ''restart_service'' True)\<lparr>raID := []\<rparr>) [Approving, Executing 9]) = ''executed''"
proof -
  have ex: "raStatus (foldl runOp ((sampleAction ''restart_service'' True)\<lparr>raID := []\<rparr>) [Approving, Executing 9]) = ''executed''"
    by (simp add: Execute_status executable_def sampleAction_def Approve_def zeroAction_def initialStatus_def
        NormalizeMode_literals ClassifyLegacyAction_def IsDangerous_def IsLocalTransition_def
        LocalActionForLegacyAction_def localActions proposalActionForLegacyRetry_def go_eval)
      (simp add: modes)
  show ?thesis
    using executed_only_when_allowed [of _ retryIncident "''safe_auto''", OF _ ex] ex
    by (simp add: retryIncident_build sampleAction_def)
qed

subsection \<open>Proposals to the Control Panel\<close>

lemma retry_round_trip:
  "proposalActionForLegacyRetry a = Some p \<Longrightarrow> LegacyRetryAction p = Some (TrimSpace a) \<and> isApplicationRetryProposal p"
  by (auto simp: proposalActionForLegacyRetry_def LegacyRetryAction_def isApplicationRetryProposal_def proposalActions
      Let_def split: if_splits)

lemma evidence_digest:
  assumes "sha256Sized env"
  shows "digestPattern (peEvidenceDigest (newProposalEvidence env c p sg))"
proof -
  have "length (sha256 env s) = 32" for s using assms by (simp add: sha256Sized_def)
  then show ?thesis
    using hexEncode_hex by (fastforce simp: digestPattern_def newProposalEvidence_def list_all_iff)
qed

lemma evidence_fields [simp]:
  "peEvidenceCode (newProposalEvidence env c p sg) = c" "peObservedAt (newProposalEvidence env c p sg) = ppObservedAt p"
  "peObservedRevision (newProposalEvidence env c p sg) = ppProposalRevision p"
  by (simp_all add: newProposalEvidence_def)

definition retryProposal ::
  "goenv \<Rightarrow> instant \<Rightarrow> RemediationAction \<Rightarrow> Incident \<Rightarrow> string \<Rightarrow> instant \<Rightarrow> string \<Rightarrow> Proposal" where
  "retryProposal env now action incident det observedAt actionType =
     (let p = \<lparr>ppProposalID = raID action, ppIncidentID = incID incident,
           ppDetectorServiceID = TrimSpace det, ppDetectorServiceType = ''observability'',
           ppTargetServiceID = TrimSpace (incServiceID incident), ppTargetServiceType = ''encoder_recorder'',
           ppTargetHostID = [], ppActionType = actionType, ppProposalRevision = max 1 (incOccurrenceCount incident),
           ppRequiredCapability = actionType, ppEvidence = [], ppAuditCorrelationID = raID action,
           ppObservedAt = (if observedAt \<noteq> 0 then observedAt else if incUpdatedAt incident \<noteq> 0 then incUpdatedAt incident else now),
           ppControlPanelAuthorizationRequired = True\<rparr>
      in p\<lparr>ppEvidence := map (\<lambda>c. newProposalEvidence env c p (incSignalID incident))
             [''incident_detected'', ''diagnostic_confirmed'', ''retry_eligible'']\<rparr>)"

lemma retryProposal_valid:
  assumes "sha256Sized env" "isApplicationRetryProposal ty"
  shows "proposalValidate (retryProposal env now a i det obs ty) = None \<longleftrightarrow>
    boundedIDPattern (raID a) \<and> boundedIDPattern (incID i) \<and> IsBoundedCorrelationID det \<and>
    IsBoundedCorrelationID (incServiceID i) \<and> (obs \<noteq> 0 \<or> incUpdatedAt i \<noteq> 0 \<or> now \<noteq> 0)"
  using assms(2)
  by (auto simp: proposalValidate_def retryProposal_def Let_def validTargetServiceType_def validProposalAction_def
      isHostProposal_def isApplicationRetryProposal_def proposalActions validEvidenceCode_def
      evidence_digest [OF assms(1)] IsBoundedCorrelationID_def)

lemma NewApplicationRetryProposal_eq:
  "NewApplicationRetryProposal env now a i det obs =
     (if TrimSpace (raID a) = [] \<or> TrimSpace (raIncidentID a) = [] \<or> TrimSpace (raIncidentID a) \<noteq> TrimSpace (incID i)
      then Inl (ErrText ''remediation action and incident correlation is invalid'')
      else if \<not> IsBoundedCorrelationID (raID a) \<or> \<not> IsBoundedCorrelationID (incID i) \<or>
         \<not> IsBoundedCorrelationID (incServiceID i) \<or> \<not> IsBoundedCorrelationID (incSignalID i) \<or> \<not> IsBoundedCorrelationID det
      then Inl (ErrText ''remediation proposal correlation is invalid'')
      else case proposalActionForLegacyRetry (raAction a) of
        None \<Rightarrow> Inl (ErrText ''legacy remediation action is not an application retry proposal'')
      | Some ty \<Rightarrow> (case proposalValidate (retryProposal env now a i det obs ty) of
            Some e \<Rightarrow> Inl e | None \<Rightarrow> Inr (retryProposal env now a i det obs ty)))"
proof -
  have rev: "(if incOccurrenceCount i < 1 then 1 else incOccurrenceCount i) = max 1 (incOccurrenceCount i)" by simp
  have obs: "(if IsZero (if IsZero obs then incUpdatedAt i else obs) then now
        else if IsZero obs then incUpdatedAt i else obs) =
      (if obs \<noteq> 0 then obs else if incUpdatedAt i \<noteq> 0 then incUpdatedAt i else now)" by simp
  show ?thesis
    unfolding NewApplicationRetryProposal_def retryProposal_def Let_def by (simp only: rev obs list.map)
qed

text \<open>A retry proposal is made exactly for the two application retries of an action whose
  identifiers are bounded and whose incident is the given one; it then asks the Control Panel for
  authorisation, targets the encoder and no host, names the action it stands for, and passes
  validation with its three pieces of evidence.\<close>

theorem retry_proposal_exact:
  assumes "sha256Sized env"
  shows "NewApplicationRetryProposal env now a i det obs = Inr p \<longleftrightarrow>
    boundedIDPattern (raID a) \<and> boundedIDPattern (incID i) \<and> TrimSpace (raIncidentID a) = incID i \<and>
    IsBoundedCorrelationID (incServiceID i) \<and> IsBoundedCorrelationID (incSignalID i) \<and> IsBoundedCorrelationID det \<and>
    (obs \<noteq> 0 \<or> incUpdatedAt i \<noteq> 0 \<or> now \<noteq> 0) \<and>
    (\<exists>ty. proposalActionForLegacyRetry (raAction a) = Some ty \<and> LegacyRetryAction ty = Some (TrimSpace (raAction a)) \<and>
       proposalValidate p = None \<and> p = retryProposal env now a i det obs ty)"
proof (cases "proposalActionForLegacyRetry (raAction a)")
  case None
  then show ?thesis by (simp add: NewApplicationRetryProposal_eq)
next
  case (Some ty)
  note ty = retry_round_trip [OF Some]
  have trim: "boundedIDPattern x \<Longrightarrow> TrimSpace x = x \<and> x \<noteq> []" for x
    using boundedPattern_TrimSpace boundedPattern_nonempty by (auto simp: boundedIDPattern_def)
  show ?thesis
    using retryProposal_valid [OF assms, of ty now a i det obs] ty trim [of "raID a"] trim [of "incID i"]
    by (auto simp: NewApplicationRetryProposal_eq Some IsBoundedCorrelationID_def split: option.splits)
qed

theorem retry_proposal_exact_witness:
  "\<exists>p. NewApplicationRetryProposal (concreteEnv []) 7 (sampleAction ''retry_gdrive_upload'' False) retryIncident ''obs-01'' 7 = Inr p \<and>
     ppControlPanelAuthorizationRequired p \<and> ppActionType p = ''application.retry_gdrive_upload'' \<and> ppProposalRevision p = 3"
proof -
  have ids: "boundedIDPattern ''rem_1''" "boundedIDPattern ''inc_1''" "boundedIDPattern ''enc-01''"
      "boundedIDPattern ''sig_1''" "boundedIDPattern ''obs-01''"
    by (simp_all add: boundedIDPattern_def boundedPattern_def alnumByte_def wordByte_def wordRune_def go_eval)
  have valid: "proposalValidate (retryProposal (concreteEnv []) 7 (sampleAction ''retry_gdrive_upload'' False) retryIncident
      ''obs-01'' 7 ''application.retry_gdrive_upload'') = None"
    by (subst retryProposal_valid [OF concreteEnv_sha256])
      (use ids in \<open>simp_all add: isApplicationRetryProposal_def proposalActions IsBoundedCorrelationID_def
        sampleAction_def retryIncident_def zeroIncident_def zeroAction_def go_eval\<close>)
  show ?thesis
    using retry_proposal_exact [OF concreteEnv_sha256, of "[]" 7 "sampleAction ''retry_gdrive_upload'' False" retryIncident
        "''obs-01''" 7 "retryProposal (concreteEnv []) 7 (sampleAction ''retry_gdrive_upload'' False) retryIncident
          ''obs-01'' 7 ''application.retry_gdrive_upload''"] valid ids
    by (intro exI [of _ "retryProposal (concreteEnv []) 7 (sampleAction ''retry_gdrive_upload'' False) retryIncident
          ''obs-01'' 7 ''application.retry_gdrive_upload''"])
      (simp add: sampleAction_def retryIncident_def zeroIncident_def zeroAction_def IsBoundedCorrelationID_def
        proposalActionForLegacyRetry_def LegacyRetryAction_def proposalActions retryProposal_def Let_def go_eval)
qed

end
