(* ===== verification/Rate_Limit.thy ===== *)
theory Rate_Limit
  imports Go_Values
begin

text \<open>
  The in-memory rate limiter of \<^verbatim>\<open>internal/httpapi/server.go\<close>: a sliding window of accepted
  requests per bucket, with a bound on the number of buckets.
\<close>

record rateLimiter =
  burst :: int
  window :: int
  maxBuckets :: int
  hits :: "instant list gomap"
  requireDB :: bool

definition envInt :: "goenv \<Rightarrow> string \<Rightarrow> int \<Rightarrow> int" where
  "envInt env key fallback =
     (let raw = TrimSpace (getenv env key) in
      if raw = [] then fallback
      else case ParseInt raw of None \<Rightarrow> fallback | Some v \<Rightarrow> v)"

text \<open>
  \<^verbatim>\<open>rateLimiterFromEnv\<close> for a store that has no shared limiter of its own, as \<^verbatim>\<open>MemoryStore\<close>;
  \<open>None\<close> is the \<^verbatim>\<open>nil\<close> limiter that lets every request through.
\<close>

definition rateLimiterFromEnv :: "goenv \<Rightarrow> rateLimiter option" where
  "rateLimiterFromEnv env =
     (let b = envInt env ''OBSERVABILITY_RATE_LIMIT_BURST'' 120;
          windowSec = envInt env ''OBSERVABILITY_RATE_LIMIT_WINDOW_SEC'' 60;
          mb = envInt env ''OBSERVABILITY_RATE_LIMIT_MAX_BUCKETS'' 10000
      in if b \<le> 0 \<or> windowSec \<le> 0 then None
         else
           (let limiter = \<lparr>burst = b, window = wrap64 (windowSec * 10 ^ 9),
                  maxBuckets = (if mb \<le> 0 then 10000 else mb), hits = [], requireDB = False\<rparr>;
                backend = ToLower (TrimSpace (getenv env ''OBSERVABILITY_RATE_LIMIT_BACKEND''))
            in Some (if backend = ''store'' \<or> backend = ''mariadb'' \<or> backend = ''shared''
                     then limiter\<lparr>requireDB := True\<rparr> else limiter)))"

definition recentHits :: "instant \<Rightarrow> instant list \<Rightarrow> instant list" where
  "recentHits cutoff hs = filter (\<lambda>h. h > cutoff) hs"

text \<open>The sweep over all buckets: old hits go, and a bucket without recent hits goes.\<close>

fun sweep :: "instant \<Rightarrow> instant list gomap \<Rightarrow> instant list gomap" where
  "sweep cutoff [] = []"
| "sweep cutoff ((k, hs) # m) =
     (let kept = recentHits cutoff hs in if kept = [] then sweep cutoff m else (k, kept) # sweep cutoff m)"

definition allowMemory :: "string \<Rightarrow> instant \<Rightarrow> rateLimiter \<Rightarrow> bool \<times> rateLimiter" where
  "allowMemory key now l =
     (let cutoff = now - window l;
          swept = sweep cutoff (hits l);
          kept = recentHits cutoff (case map_of swept key of None \<Rightarrow> [] | Some hs \<Rightarrow> hs)
      in if int (length kept) \<ge> burst l then (False, l\<lparr>hits := AList.update key kept swept\<rparr>)
         else if kept = [] \<and> maxBuckets l > 0 \<and> int (length swept) \<ge> maxBuckets l
         then (False, l\<lparr>hits := swept\<rparr>)
         else (True, l\<lparr>hits := AList.update key (kept @ [now]) swept\<rparr>))"

definition allow :: "string \<Rightarrow> instant \<Rightarrow> rateLimiter \<Rightarrow> bool result \<times> rateLimiter" where
  "allow key now l =
     (if requireDB l then (Inl (ErrText ''shared rate limit store unavailable''), l)
      else apfst Inr (allowMemory key now l))"

subsection \<open>The sweep\<close>

lemma gomap_sweep: "gomap m \<Longrightarrow> gomap (sweep c m)"
proof -
  have sub: "fst ` set (sweep c m) \<subseteq> fst ` set m" for m :: "instant list gomap"
  proof (induction m)
    case (Cons p m)
    then show ?case by (cases p) (auto simp: Let_def)
  qed simp
  assume "gomap m"
  then show ?thesis
  proof (induction m)
    case (Cons p m)
    obtain k hs where p: "p = (k, hs)" by (cases p)
    have "gomap (sweep c m)" using Cons by (auto dest: gomap_tl)
    moreover have "k \<notin> fst ` set (sweep c m)" using Cons.prems sub [of m] p by (auto simp: gomap_def)
    ultimately show ?case by (simp add: p Let_def gomap_def)
  qed simp
qed

lemma map_of_sweep:
  assumes "gomap m"
  shows "map_of (sweep c m) k =
    (case map_of m k of None \<Rightarrow> None | Some hs \<Rightarrow> if recentHits c hs = [] then None else Some (recentHits c hs))"
  using assms
proof (induction c m rule: sweep.induct)
  case (2 c k' hs m)
  have "map_of m k' = None" using 2(3) by (simp add: gomap_def map_of_eq_None_iff)
  with 2 show ?case by (auto simp: Let_def gomap_def split: option.splits)
qed simp

lemma length_sweep: "length (sweep c m) \<le> length m"
  by (induction c m rule: sweep.induct) (auto simp: Let_def)

lemma recentHits_idem [simp]: "recentHits c (recentHits c hs) = recentHits c hs"
  by (simp add: recentHits_def)

text \<open>The recent hits of a bucket.\<close>

definition bucketHits :: "rateLimiter \<Rightarrow> string \<Rightarrow> instant list" where
  "bucketHits l k = (case map_of (hits l) k of None \<Rightarrow> [] | Some hs \<Rightarrow> hs)"

lemma swept_bucket:
  assumes "gomap (hits l)"
  shows "(case map_of (sweep c (hits l)) k of None \<Rightarrow> [] | Some hs \<Rightarrow> hs) = recentHits c (bucketHits l k)"
  by (simp add: map_of_sweep [OF assms] bucketHits_def recentHits_def split: option.split)

subsection \<open>Runs\<close>

text \<open>
  A run of requests, each a bucket key and a clock reading, with the log of the accepted ones.
\<close>

definition limitStep :: "(string \<times> instant) list \<times> rateLimiter \<Rightarrow> string \<times> instant \<Rightarrow> (string \<times> instant) list \<times> rateLimiter" where
  "limitStep al r =
     (let (ok, l') = allowMemory (fst r) (snd r) (snd al) in (if ok then fst al @ [r] else fst al, l'))"

definition limitRun :: "rateLimiter \<Rightarrow> (string \<times> instant) list \<Rightarrow> (string \<times> instant) list \<times> rateLimiter" where
  "limitRun l rs = foldl limitStep ([], l) rs"

text \<open>The accepted times of one bucket.\<close>

definition acceptedTimes :: "string \<Rightarrow> (string \<times> instant) list \<Rightarrow> instant list" where
  "acceptedTimes k acc = map snd (filter (\<lambda>r. fst r = k) acc)"

lemma acceptedTimes_snoc [simp]: "acceptedTimes k (acc @ [r]) = acceptedTimes k acc @ (if fst r = k then [snd r] else [])"
  by (simp add: acceptedTimes_def)

lemma allowMemory_frame [simp]:
  "burst (snd (allowMemory k now l)) = burst l" "window (snd (allowMemory k now l)) = window l"
  "maxBuckets (snd (allowMemory k now l)) = maxBuckets l" "requireDB (snd (allowMemory k now l)) = requireDB l"
  by (simp_all add: allowMemory_def Let_def)

lemma gomap_allowMemory: "gomap (hits l) \<Longrightarrow> gomap (hits (snd (allowMemory k now l)))"
  by (simp add: allowMemory_def Let_def gomap_sweep)

text \<open>The decision, and what it leaves in every bucket.\<close>

lemma allowMemory_decision:
  assumes "gomap (hits l)"
  shows "fst (allowMemory k now l) \<longleftrightarrow>
    int (length (recentHits (now - window l) (bucketHits l k))) < burst l \<and>
    \<not> (recentHits (now - window l) (bucketHits l k) = [] \<and> maxBuckets l > 0 \<and>
       int (length (sweep (now - window l) (hits l))) \<ge> maxBuckets l)"
  by (auto simp: allowMemory_def Let_def swept_bucket [OF assms])

lemma allowMemory_bucket:
  assumes "gomap (hits l)"
  shows "bucketHits (snd (allowMemory k now l)) j = recentHits (now - window l) (bucketHits l j) @
    (if j = k \<and> fst (allowMemory k now l) then [now] else [])"
  using swept_bucket [OF assms, of "now - window l" j] swept_bucket [OF assms, of "now - window l" k]
  by (auto simp: allowMemory_def Let_def bucketHits_def [of "_\<lparr>hits := _\<rparr>"])

lemma length_allowMemory:
  assumes "gomap (hits l)" "0 < maxBuckets l" "0 < burst l" "int (length (hits l)) \<le> maxBuckets l"
  shows "int (length (hits (snd (allowMemory k now l)))) \<le> maxBuckets l"
proof -
  let ?c = "now - window l"
  let ?s = "sweep ?c (hits l)"
  have le: "int (length ?s) \<le> maxBuckets l" using length_sweep [of ?c "hits l"] assms(4) by linarith
  show ?thesis
  proof (cases "map_of ?s k")
    case None
    then have kept: "recentHits ?c (case map_of ?s k of None \<Rightarrow> [] | Some hs \<Rightarrow> hs) = []" by (simp add: recentHits_def)
    show ?thesis using assms(2,3) le None kept by (auto simp: allowMemory_def Let_def length_update_absent recentHits_def)
  next
    case (Some hs)
    then show ?thesis using le by (simp add: allowMemory_def Let_def length_update_present)
  qed
qed

subsection \<open>The limiter implements the log\<close>

definition limitInv :: "rateLimiter \<Rightarrow> (string \<times> instant) list \<times> rateLimiter \<Rightarrow> instant \<Rightarrow> bool" where
  "limitInv l0 al now \<longleftrightarrow> gomap (hits (snd al)) \<and> burst (snd al) = burst l0 \<and> window (snd al) = window l0 \<and>
     maxBuckets (snd al) = maxBuckets l0 \<and>
     (\<forall>k c. now - window l0 \<le> c \<longrightarrow> recentHits c (bucketHits (snd al) k) = recentHits c (acceptedTimes k (fst al))) \<and>
     (\<forall>k t. int (length (filter (\<lambda>u. t - window l0 < u \<and> u \<le> t) (acceptedTimes k (fst al)))) \<le> burst l0) \<and>
     (0 < maxBuckets l0 \<longrightarrow> int (length (hits (snd al))) \<le> maxBuckets l0)"

lemma limitInv_init: "hits l = [] \<Longrightarrow> 0 \<le> burst l \<Longrightarrow> limitInv l ([], l) now"
  by (simp add: limitInv_def bucketHits_def acceptedTimes_def)

lemma filter_window_le:
  assumes "now \<le> t"
  shows "length (filter (\<lambda>u. t - w < u \<and> u \<le> t) us) \<le> length (recentHits (now - w) us)"
  using assms unfolding recentHits_def by (induction us) auto

lemma recentHits_mono: "c \<le> c' \<Longrightarrow> recentHits c' (recentHits c us) = recentHits c' us"
  unfolding recentHits_def by (induction us) auto

lemma recentHits_Nil [simp]: "recentHits c [] = []"
  by (simp add: recentHits_def)

lemma recentHits_append [simp]: "recentHits c (us @ vs) = recentHits c us @ recentHits c vs"
  by (simp add: recentHits_def)

lemma limitInv_step:
  assumes inv: "limitInv l0 al prev" and now: "prev \<le> snd r" and b: "0 < burst l0"
  shows "limitInv l0 (limitStep al r) (snd r)"
proof -
  let ?k = "fst r" and ?now = "snd r" and ?l = "snd al" and ?w = "window l0"
  let ?ok = "fst (allowMemory ?k ?now ?l)"
  have g: "gomap (hits ?l)" and wb: "window ?l = ?w" "burst ?l = burst l0" "maxBuckets ?l = maxBuckets l0"
    using inv by (simp_all add: limitInv_def)
  have log: "recentHits c (bucketHits ?l k) = recentHits c (acceptedTimes k (fst al))" if "?now - ?w \<le> c" for k c
    using inv now that by (simp add: limitInv_def)
  have step: "limitStep al r = (if ?ok then fst al @ [r] else fst al, snd (allowMemory ?k ?now ?l))"
    by (simp add: limitStep_def case_prod_unfold Let_def)
  have "recentHits c (bucketHits (snd (limitStep al r)) k) = recentHits c (acceptedTimes k (fst (limitStep al r)))"
    if "?now - ?w \<le> c" for k c
    using log [OF that] by (auto simp: step allowMemory_bucket [OF g] wb recentHits_mono [OF that])
  moreover have "int (length (filter (\<lambda>u. t - ?w < u \<and> u \<le> t) (acceptedTimes k (fst (limitStep al r))))) \<le> burst l0" for k t
  proof (cases "?ok \<and> ?k = k \<and> t - ?w < ?now \<and> ?now \<le> t")
    case True
    then have ok: ?ok and k: "?k = k" by blast+
    have "int (length (recentHits (?now - ?w) (acceptedTimes k (fst al)))) < burst l0"
      using allowMemory_decision [OF g, of ?k ?now, THEN iffD1, OF ok, THEN conjunct1] log [of "?now - ?w" k]
      by (simp add: wb k)
    then show ?thesis using True filter_window_le [of ?now t ?w "acceptedTimes k (fst al)"] by (simp add: step)
  next
    case False
    then show ?thesis using inv by (auto simp: step limitInv_def)
  qed
  moreover have "0 < maxBuckets l0 \<longrightarrow> int (length (hits (snd (limitStep al r)))) \<le> maxBuckets l0"
    using length_allowMemory [OF g, of ?k ?now] inv b wb by (auto simp: step limitInv_def)
  ultimately show ?thesis using gomap_allowMemory [OF g, of ?k ?now] by (simp add: limitInv_def step wb)
qed

lemma limitRun_inv:
  assumes "hits l = []" "0 < burst l" "sorted (map snd rs)" "\<forall>r \<in> set rs. snd r \<le> now"
  shows "limitInv l (limitRun l rs) now"
proof -
  have weaken: "limitInv l al a \<Longrightarrow> a \<le> b \<Longrightarrow> limitInv l al b" for al a b
    unfolding limitInv_def by (meson diff_right_mono order_trans)
  have "sorted (map snd rs) \<Longrightarrow> \<forall>r \<in> set rs. snd r \<le> now \<Longrightarrow> limitInv l (limitRun l rs) now" for now
  proof (induction rs arbitrary: now rule: rev_induct)
    case Nil
    then show ?case using limitInv_init [of l now] assms by (simp add: limitRun_def)
  next
    case (snoc r rs)
    have "limitInv l (limitRun l rs) (snd r)" using snoc by (auto simp: sorted_append)
    then have "limitInv l (limitRun l (rs @ [r])) (snd r)"
      using limitInv_step [of l _ "snd r" r] assms(2) by (simp add: limitRun_def)
    moreover have "snd r \<le> now" using snoc.prems(2) by simp
    ultimately show ?case by (rule weaken)
  qed
  then show ?thesis using assms(3,4) by blast
qed

lemma sweep_keys:
  assumes "gomap (hits l)"
  shows "int (length (sweep c (hits l))) = int (card {j. recentHits c (bucketHits l j) \<noteq> []})"
proof -
  have "fst ` set (sweep c (hits l)) = {j. map_of (sweep c (hits l)) j \<noteq> None}"
    by (simp add: dom_map_of_conv_image_fst [symmetric] dom_def)
  also have "\<dots> = {j. recentHits c (bucketHits l j) \<noteq> []}"
    by (auto simp: map_of_sweep [OF assms] bucketHits_def recentHits_def split: option.splits if_splits)
  finally have "card (fst ` set (sweep c (hits l))) = card {j. recentHits c (bucketHits l j) \<noteq> []}" by simp
  moreover have "distinct (map fst (sweep c (hits l)))" using gomap_sweep [OF assms] by (simp add: gomap_def)
  ultimately show ?thesis using distinct_card [of "map fst (sweep c (hits l))"] by simp
qed

subsection \<open>Properties\<close>

definition sampleLimiter :: rateLimiter where
  "sampleLimiter = \<lparr>burst = 1, window = 10, maxBuckets = 2, hits = [], requireDB = False\<rparr>"

text \<open>C33: for any sequence of requests with a clock that does not go back, no more than
  \<open>burst\<close> requests of one bucket are accepted in any window, and the limiter never keeps more
  than \<open>maxBuckets\<close> buckets.\<close>

theorem rate_limit_window:
  assumes "hits l = []" "0 < burst l" "0 < maxBuckets l" "sorted (map snd rs)" "limitRun l rs = (acc, l')"
  shows "int (length (filter (\<lambda>r. fst r = k \<and> t - window l < snd r \<and> snd r \<le> t) acc)) \<le> burst l \<and>
    int (length (hits l')) \<le> maxBuckets l"
proof -
  obtain now where "\<forall>r \<in> set rs. snd r \<le> now"
    using finite_set [of "map snd rs"] by (metis List.finite_set Max_ge finite_imageI image_eqI list.set_map)
  then have inv: "limitInv l (acc, l') now" using limitRun_inv [OF assms(1,2,4)] assms(5) by simp
  have "length (filter (\<lambda>r. fst r = k \<and> t - window l < snd r \<and> snd r \<le> t) acc) =
      length (filter (\<lambda>u. t - window l < u \<and> u \<le> t) (acceptedTimes k acc))"
    by (simp add: acceptedTimes_def filter_map filter_filter comp_def conj_ac)
  then show ?thesis using inv assms(3) by (simp add: limitInv_def)
qed

theorem rate_limit_window_witness:
  "int (length (filter (\<lambda>r. fst r = ''a'' \<and> 12 - window sampleLimiter < snd r \<and> snd r \<le> 12)
      (fst (limitRun sampleLimiter [(''a'', 3), (''a'', 5), (''a'', 13)])))) \<le> 1"
  using rate_limit_window [of sampleLimiter "[(''a'', 3), (''a'', 5), (''a'', 13)]"
      "fst (limitRun sampleLimiter [(''a'', 3), (''a'', 5), (''a'', 13)])"
      "snd (limitRun sampleLimiter [(''a'', 3), (''a'', 5), (''a'', 13)])" "''a''" 12]
  by (simp add: sampleLimiter_def)

text \<open>After such a sequence the next request is accepted exactly when its bucket has fewer
  than \<open>burst\<close> accepted requests in the window ending now and, if it has none, fewer than
  \<open>maxBuckets\<close> other buckets have one.\<close>

theorem rate_limit_exact:
  assumes "hits l = []" "0 < burst l" "0 < maxBuckets l" "sorted (map snd rs)" "\<forall>r \<in> set rs. snd r \<le> now"
    "limitRun l rs = (acc, l')"
  shows "fst (allowMemory k now l') \<longleftrightarrow>
    int (length (recentHits (now - window l) (acceptedTimes k acc))) < burst l \<and>
    (recentHits (now - window l) (acceptedTimes k acc) \<noteq> [] \<or>
     int (card {j. recentHits (now - window l) (acceptedTimes j acc) \<noteq> []}) < maxBuckets l)"
proof -
  have inv: "limitInv l (acc, l') now" using limitRun_inv [OF assms(1,2,4,5)] assms(6) by simp
  then have g: "gomap (hits l')" and f: "burst l' = burst l" "window l' = window l" "maxBuckets l' = maxBuckets l"
    and log: "recentHits (now - window l) (bucketHits l' j) = recentHits (now - window l) (acceptedTimes j acc)" for j
    by (simp_all add: limitInv_def)
  show ?thesis using assms(3) by (auto simp: allowMemory_decision [OF g] sweep_keys [OF g] f log)
qed

theorem rate_limit_exact_witness:
  "fst (allowMemory ''a'' 14 (snd (limitRun sampleLimiter [(''a'', 3)])))"
proof -
  have run: "limitRun sampleLimiter [(''a'', 3)] = ([(''a'', 3)], snd (limitRun sampleLimiter [(''a'', 3)]))"
    by (simp add: limitRun_def limitStep_def allowMemory_def sampleLimiter_def recentHits_def)
  show ?thesis
    using rate_limit_exact [OF _ _ _ _ _ run, of 14 "''a''"]
    by (simp add: sampleLimiter_def acceptedTimes_def recentHits_def)
qed

text \<open>\<^verbatim>\<open>OBSERVABILITY_RATE_LIMIT_WINDOW_SEC\<close> is multiplied in 64-bit nanoseconds without a
  bound: a window of 9223372037 seconds wraps to a negative duration, and the limiter then
  accepts every request, whatever was accepted before.\<close>

theorem rate_limit_window_overflow:
  "\<exists>l. rateLimiterFromEnv (concreteEnv [(''OBSERVABILITY_RATE_LIMIT_WINDOW_SEC'', ''9223372037'')]) = Some l \<and>
     burst l = 120 \<and> window l < 0 \<and> fst (allowMemory k now (l\<lparr>hits := [(k, replicate 500 now)]\<rparr>))"
proof -
  have p: "ParseInt ''9223372037'' = Some 9223372037"
    by (simp add: ParseInt_def HasPrefix_def isDigit_def digitsValue_def in64_def Let_def b2n_def)
  show ?thesis
    by (simp add: rateLimiterFromEnv_def envInt_def concreteEnv_def p Let_def go_eval wrap64_def ToLower_def
        allowMemory_def recentHits_def)
qed

end
