(* ===== verification/Dedupe.thy ===== *)
theory Dedupe
  imports Memory_Store
begin

text \<open>
  \<^verbatim>\<open>internal/httpapi/notification_dedupe.go\<close>: suppression of repeated notifications within a
  time window.  The keys are digests of JSON, so the part of \<^verbatim>\<open>encoding/json\<close> they use (objects
  of strings and string lists) is modelled first.
\<close>

subsection \<open>JSON encoding\<close>

text \<open>
  The digits of a four-digit escape, and one rune of a string as \<^verbatim>\<open>json.Marshal\<close> writes it
  (with its HTML escaping).  An invalid byte is written as the escape of U+FFFD.
\<close>

definition jsonU :: "nat \<Rightarrow> string" where
  "jsonU r = [CHR 0x5C, CHR ''u'', hexDigit (r div 4096 mod 16), hexDigit (r div 256 mod 16),
     hexDigit (r div 16 mod 16), hexDigit (r mod 16)]"

definition jsonRune :: "nat \<Rightarrow> string" where
  "jsonRune r =
     (if r = 34 then [CHR 0x5C, CHR 0x22] else if r = 92 then [CHR 0x5C, CHR 0x5C]
      else if r = 8 then [CHR 0x5C, CHR ''b''] else if r = 12 then [CHR 0x5C, CHR ''f'']
      else if r = 10 then [CHR 0x5C, CHR ''n''] else if r = 13 then [CHR 0x5C, CHR ''r'']
      else if r = 9 then [CHR 0x5C, CHR ''t'']
      else if r < 32 \<or> r = 60 \<or> r = 62 \<or> r = 38 \<or> r = 8232 \<or> r = 8233 then jsonU r
      else encodeRune r)"

function jsonBytes :: "nat list \<Rightarrow> string" where
  "jsonBytes bs =
     (if bs = [] then []
      else (if decodeRune bs = (runeError, 1) then jsonU runeError else jsonRune (fst (decodeRune bs))) @
           jsonBytes (drop (snd (decodeRune bs)) bs))"
  by pat_completeness auto
termination
proof (relation "measure length")
  fix bs :: "nat list" assume "bs \<noteq> []"
  then show "(drop (snd (decodeRune bs)) bs, bs) \<in> measure length"
    using decodeRune_width [of bs] by (cases bs) auto
qed simp

declare jsonBytes.simps [simp del]

definition jsonString :: "string \<Rightarrow> string" where
  "jsonString s = [CHR 0x22] @ jsonBytes (map b2n s) @ [CHR 0x22]"

definition jsonObject :: "(string \<times> string) list \<Rightarrow> string" where
  "jsonObject kvs = ''{'' @ strJoin (map (\<lambda>(k, v). jsonString k @ '':'' @ v) kvs) '','' @ ''}''"

definition jsonStrings :: "string list \<Rightarrow> string" where
  "jsonStrings xs = ''['' @ strJoin (map jsonString xs) '','' @ '']''"

text \<open>
  The zero report is the only one with \<^verbatim>\<open>nil\<close> slices, which encode as \<^verbatim>\<open>null\<close>; the reports of
  \<^verbatim>\<open>JapaneseReport\<close> have non-nil slices throughout.
\<close>

definition jsonReport :: "goenv \<Rightarrow> Report \<Rightarrow> string" where
  "jsonReport env r =
     (let list = (\<lambda>xs. if r = zeroReport then ''null'' else jsonStrings xs) in
      jsonObject [(''summary'', jsonString (rpSummary r)), (''likely_cause'', jsonString (rpLikelyCause r)),
        (''confidence'', formatFloat env (rpConfidence r)), (''evidence'', list (rpEvidence r)),
        (''impact'', jsonString (rpImpact r)), (''recommended_actions'', list (rpRecommendedActions r)),
        (''safe_auto_remediation_candidates'', list (rpSafeAutoCandidates r)),
        (''actions_requiring_approval'', list (rpApprovalRequired r))])"

subsection \<open>Keys\<close>

definition notificationDedupeHash :: "goenv \<Rightarrow> string \<Rightarrow> string" where
  "notificationDedupeHash env payload = hexEncode (sha256 env payload)"

definition notificationDedupeKey :: "goenv \<Rightarrow> string \<Rightarrow> Incident \<Rightarrow> string" where
  "notificationDedupeKey env eventType i = notificationDedupeHash env (jsonObject [
     (''event_type'', jsonString eventType),
     (''incident_id'', jsonString (TrimSpace (incID i))),
     (''rule'', jsonString (TrimSpace (incRule i))),
     (''severity'', jsonString (TrimSpace (incSeverity i))),
     (''status'', jsonString (TrimSpace (incStatus i))),
     (''summary'', jsonString (TrimSpace (incSummaryJA i))),
     (''source_summary'', jsonString (TrimSpace (incSourceSummary i))),
     (''service_id'', jsonString (TrimSpace (incServiceID i))),
     (''stream_id'', jsonString (TrimSpace (incStreamID i))),
     (''resource_type'', jsonString (TrimSpace (incNotificationResourceType i))),
     (''resource_id'', jsonString (TrimSpace (incNotificationResourceID i))),
     (''actor'', jsonString (TrimSpace (incNotificationActor i))),
     (''details'', jsonString (TrimSpace (incNotificationDetails i))),
     (''diagnostic_report'', jsonReport env (incReport i))])"

definition notificationDedupeBase :: "goenv \<Rightarrow> Incident \<Rightarrow> string" where
  "notificationDedupeBase env i = notificationDedupeHash env (jsonObject [
     (''incident_id'', jsonString (TrimSpace (incID i))),
     (''rule'', jsonString (TrimSpace (incRule i))),
     (''service_id'', jsonString (TrimSpace (incServiceID i))),
     (''stream_id'', jsonString (TrimSpace (incStreamID i))),
     (''resource_type'', jsonString (TrimSpace (incNotificationResourceType i))),
     (''resource_id'', jsonString (TrimSpace (incNotificationResourceID i)))])"

definition notificationEventDedupeEligible :: "string \<Rightarrow> bool" where
  "notificationEventDedupeEligible eventType \<longleftrightarrow> eventType \<in> {''incident.opened'', ''incident.updated'',
     ''incident.resolved'', ''diagnostic.created'', ''remediation.pending_approval'', ''remediation.executed''}"

subsection \<open>The deduper\<close>

record DeliveryResult =
  drEventType :: string
  drChannel :: string
  drTarget :: string
  drStatus :: string
  drError :: string
  drChannelID :: string

record notificationDedupeEntry =
  deBase :: string
  deExpiresAt :: instant
  deSuppressionCount :: int
  deSuppressionRecorded :: bool
  deInFlight :: bool
  deFullyDelivered :: bool
  deSuccessfulChannelIDs :: "string list"

record notificationDeduper =
  ndEntries :: "notificationDedupeEntry gomap"
  ndWindow :: int
  ndMaxEntries :: int

record notificationDedupeReservation =
  rsKey :: string
  rsAllowed :: bool
  rsSuppressionCount :: int
  rsRecordSuppression :: bool
  rsSuccessfulChannelIDs :: "string list"

definition zeroDeduper :: notificationDeduper where
  "zeroDeduper = \<lparr>ndEntries = [], ndWindow = 0, ndMaxEntries = 0\<rparr>"

definition dedupeWindow :: "notificationDeduper \<Rightarrow> int" where
  "dedupeWindow d = (if ndWindow d > 0 then ndWindow d else 120 * 10 ^ 9)"

definition dedupeMaxEntries :: "notificationDeduper \<Rightarrow> int" where
  "dedupeMaxEntries d = (if ndMaxEntries d > 0 then ndMaxEntries d else 512)"

definition pruneLocked :: "instant \<Rightarrow> notificationDeduper \<Rightarrow> notificationDeduper" where
  "pruneLocked now d = d\<lparr>ndEntries := filter (\<lambda>(k, e). deExpiresAt e > now) (ndEntries d)\<rparr>"

text \<open>The inner loop of \<^verbatim>\<open>evictForInsertLocked\<close>: the key with the earliest expiry.\<close>

definition oldestKey :: "notificationDedupeEntry gomap \<Rightarrow> string" where
  "oldestKey m = fst (foldl (\<lambda>(ok, ot) (k, e). if ok = [] \<or> deExpiresAt e < ot then (k, deExpiresAt e) else (ok, ot))
     ([], 0) m)"

lemma oldestKey_mem: "oldestKey m \<noteq> [] \<Longrightarrow> oldestKey m \<in> fst ` set m"
proof -
  have "ok' \<noteq> [] \<Longrightarrow> ok' = ok \<or> ok' \<in> fst ` set m"
    if "fst (foldl (\<lambda>(ok, ot) (k, e). if ok = [] \<or> deExpiresAt e < ot then (k, deExpiresAt e) else (ok, ot)) (ok, ot) m) = ok'"
    for ok' ok ot using that by (induction m arbitrary: ok ot) (auto split: if_splits)
  then show "oldestKey m \<noteq> [] \<Longrightarrow> oldestKey m \<in> fst ` set m" unfolding oldestKey_def by blast
qed

function evictLoop :: "int \<Rightarrow> notificationDedupeEntry gomap \<Rightarrow> notificationDedupeEntry gomap" where
  "evictLoop mx m =
     (if int (length m) \<ge> mx \<and> oldestKey m \<noteq> [] then evictLoop mx (AList.delete (oldestKey m) m) else m)"
  by pat_completeness auto
termination
proof (relation "measure (\<lambda>(mx, m). length m)")
  fix mx :: int and m :: "notificationDedupeEntry gomap"
  assume "int (length m) \<ge> mx \<and> oldestKey m \<noteq> []"
  then have "oldestKey m \<in> fst ` set m" using oldestKey_mem by blast
  then show "((mx, AList.delete (oldestKey m) m), mx, m) \<in> measure (\<lambda>(mx, m). length m)"
    by (simp add: length_delete_less)
qed simp

declare evictLoop.simps [simp del]

definition evictForInsertLocked :: "notificationDeduper \<Rightarrow> notificationDeduper" where
  "evictForInsertLocked d = d\<lparr>ndEntries := evictLoop (dedupeMaxEntries d) (ndEntries d)\<rparr>"

definition reserve ::
  "goenv \<Rightarrow> string \<Rightarrow> Incident \<Rightarrow> instant \<Rightarrow> notificationDeduper \<Rightarrow> notificationDedupeReservation \<times> notificationDeduper" where
  "reserve env rawType incident now d =
     (let eventType = TrimSpace rawType in
      if \<not> notificationEventDedupeEligible eventType
      then (\<lparr>rsKey = [], rsAllowed = True, rsSuppressionCount = 0, rsRecordSuppression = False,
             rsSuccessfulChannelIDs = []\<rparr>, d)
      else
       (let key = notificationDedupeKey env eventType incident;
            base = notificationDedupeBase env incident;
            d1 = pruneLocked now d;
            d2 = (if eventType = ''incident.resolved''
                  then d1\<lparr>ndEntries := filter (\<lambda>(k, e). \<not> (k \<noteq> key \<and> deBase e = base)) (ndEntries d1)\<rparr>
                  else d1);
            fresh = (let d3 = evictForInsertLocked d2;
                         e = \<lparr>deBase = base, deExpiresAt = now + dedupeWindow d3, deSuppressionCount = 0,
                              deSuppressionRecorded = False, deInFlight = True, deFullyDelivered = False,
                              deSuccessfulChannelIDs = []\<rparr>
                     in (\<lparr>rsKey = key, rsAllowed = True, rsSuppressionCount = 0, rsRecordSuppression = False,
                          rsSuccessfulChannelIDs = []\<rparr>,
                         d3\<lparr>ndEntries := AList.update key e (ndEntries d3)\<rparr>))
        in case map_of (ndEntries d2) key of
             Some entry \<Rightarrow>
               if deExpiresAt entry > now then
                 (if \<not> deInFlight entry \<and> \<not> deFullyDelivered entry then
                    (\<lparr>rsKey = key, rsAllowed = True, rsSuppressionCount = 0, rsRecordSuppression = False,
                      rsSuccessfulChannelIDs = deSuccessfulChannelIDs entry\<rparr>,
                     d2\<lparr>ndEntries := AList.update key (entry\<lparr>deInFlight := True\<rparr>) (ndEntries d2)\<rparr>)
                  else
                    (let n = wrap64 (deSuppressionCount entry + 1)
                     in (\<lparr>rsKey = key, rsAllowed = False, rsSuppressionCount = n,
                          rsRecordSuppression = (\<not> deSuppressionRecorded entry), rsSuccessfulChannelIDs = []\<rparr>,
                         d2\<lparr>ndEntries := AList.update key
                              (entry\<lparr>deSuppressionCount := n, deSuppressionRecorded := True\<rparr>) (ndEntries d2)\<rparr>)))
               else fresh
           | None \<Rightarrow> fresh))"

text \<open>\<^verbatim>\<open>notificationDeliverySucceeded\<close> of \<^verbatim>\<open>server.go\<close>.\<close>

definition resultSucceeded :: "DeliveryResult \<Rightarrow> bool" where
  "resultSucceeded r \<longleftrightarrow> \<not> (TrimSpace (drError r) \<noteq> [] \<or>
     (TrimSpace (drStatus r) \<noteq> [] \<and> \<not> EqualFold (TrimSpace (drStatus r)) ''success''))"

definition notificationDeliverySucceeded :: "DeliveryResult list \<Rightarrow> bool" where
  "notificationDeliverySucceeded results \<longleftrightarrow> results \<noteq> [] \<and> list_all resultSucceeded results"

definition addChannelID :: "string list \<Rightarrow> DeliveryResult \<Rightarrow> string list" where
  "addChannelID ids result =
     (if \<not> notificationDeliverySucceeded [result] then ids
      else let channelID = TrimSpace (drChannelID result) in
        if channelID \<noteq> [] \<and> channelID \<notin> set ids then ids @ [channelID] else ids)"

definition complete ::
  "notificationDedupeReservation \<Rightarrow> DeliveryResult list \<Rightarrow> notificationDeduper \<Rightarrow> notificationDeduper" where
  "complete reservation results d =
     (if rsKey reservation = [] \<or> \<not> rsAllowed reservation then d
      else case map_of (ndEntries d) (rsKey reservation) of
        None \<Rightarrow> d
      | Some entry \<Rightarrow>
          d\<lparr>ndEntries := AList.update (rsKey reservation)
               (entry\<lparr>deInFlight := False, deFullyDelivered := notificationDeliverySucceeded results,
                      deSuccessfulChannelIDs := foldl addChannelID (deSuccessfulChannelIDs entry) results\<rparr>)
               (ndEntries d)\<rparr>)"

subsection \<open>Bounded memory\<close>

definition dedupeOK :: "notificationDeduper \<Rightarrow> bool" where
  "dedupeOK d \<longleftrightarrow> gomap (ndEntries d) \<and> [] \<notin> fst ` set (ndEntries d) \<and>
     int (length (ndEntries d)) \<le> dedupeMaxEntries d"

lemma dedupeMaxEntries_pos: "0 < dedupeMaxEntries d"
  by (simp add: dedupeMaxEntries_def)

lemma dedupeMaxEntries_entries [simp]: "dedupeMaxEntries (d\<lparr>ndEntries := x\<rparr>) = dedupeMaxEntries d"
  "dedupeWindow (d\<lparr>ndEntries := x\<rparr>) = dedupeWindow d"
  by (simp_all add: dedupeMaxEntries_def dedupeWindow_def)

lemma oldestKey_nonempty:
  assumes "[] \<notin> fst ` set m" "m \<noteq> []"
  shows "oldestKey m \<noteq> []"
proof -
  let ?f = "\<lambda>(ok, ot) (k, e). if ok = [] \<or> deExpiresAt e < ot then (k, deExpiresAt e) else (ok, ot)"
  have keep: "fst p \<noteq> [] \<Longrightarrow> [] \<notin> fst ` set m \<Longrightarrow> fst (foldl ?f p m) \<noteq> []" for p m
    by (induction m arbitrary: p) (auto simp: case_prod_unfold)
  obtain k e m' where m: "m = (k, e) # m'" using assms(2) by (cases m) auto
  then show ?thesis using keep [of "(k, deExpiresAt e)" m'] assms(1) by (auto simp: oldestKey_def)
qed

lemma evictLoop_props:
  assumes "[] \<notin> fst ` set m" "0 < mx" "gomap m"
  shows "int (length (evictLoop mx m)) < mx \<and> gomap (evictLoop mx m) \<and> set (evictLoop mx m) \<subseteq> set m"
  using assms
proof (induction mx m rule: evictLoop.induct)
  case (1 mx m)
  show ?case
  proof (cases "int (length m) \<ge> mx")
    case True
    then have "m \<noteq> []" using 1(3) by auto
    then have ok: "oldestKey m \<noteq> []" using oldestKey_nonempty 1(2) by blast
    have sub: "set (AList.delete (oldestKey m) m) \<subseteq> set m" by (auto simp: AList.delete_eq)
    then have "[] \<notin> fst ` set (AList.delete (oldestKey m) m)" using 1(2) by blast
    then have ih: "int (length (evictLoop mx (AList.delete (oldestKey m) m))) < mx \<and>
        gomap (evictLoop mx (AList.delete (oldestKey m) m)) \<and>
        set (evictLoop mx (AList.delete (oldestKey m) m)) \<subseteq> set (AList.delete (oldestKey m) m)"
      using 1(1) True ok 1(3,4) by simp
    have "evictLoop mx m = evictLoop mx (AList.delete (oldestKey m) m)"
      using True ok by (subst evictLoop.simps) simp
    then show ?thesis using ih sub by auto
  next
    case False
    then have "evictLoop mx m = m" by (subst evictLoop.simps) simp
    then show ?thesis using 1(4) False by simp
  qed
qed

lemma dedupe_key_nonempty: "sha256Sized env \<Longrightarrow> notificationDedupeKey env ty i \<noteq> []"
proof -
  assume "sha256Sized env"
  then have "length (hexEncode (sha256 env x)) = 64" for x by (simp add: sha256Sized_def)
  then show ?thesis unfolding notificationDedupeKey_def notificationDedupeHash_def
    by (metis list.size(3) zero_neq_numeral)
qed

lemma dedupeOK_filter: "dedupeOK d \<Longrightarrow> dedupeOK (d\<lparr>ndEntries := filter P (ndEntries d)\<rparr>)"
  unfolding dedupeOK_def by (auto intro: order_trans [OF of_nat_mono [OF length_filter_le]])

lemma dedupeOK_touch:
  "dedupeOK d \<Longrightarrow> map_of (ndEntries d) k \<noteq> None \<Longrightarrow> dedupeOK (d\<lparr>ndEntries := AList.update k e (ndEntries d)\<rparr>)"
  by (simp add: dedupeOK_def length_update_present dom_update) (force dest!: map_of_SomeD)

lemma dedupeOK_insert:
  assumes "dedupeOK d" "k \<noteq> []"
  shows "dedupeOK ((evictForInsertLocked d)\<lparr>ndEntries := AList.update k e (ndEntries (evictForInsertLocked d))\<rparr>)"
proof -
  let ?m = "evictLoop (dedupeMaxEntries d) (ndEntries d)"
  have ev: "int (length ?m) < dedupeMaxEntries d" "gomap ?m" "set ?m \<subseteq> set (ndEntries d)"
    using evictLoop_props [of "ndEntries d" "dedupeMaxEntries d"] assms(1) dedupeMaxEntries_pos by (auto simp: dedupeOK_def)
  then have "int (length (AList.update k e ?m)) \<le> dedupeMaxEntries d"
    by (cases "map_of ?m k = None") (simp_all add: length_update_absent length_update_present)
  moreover have "[] \<notin> fst ` set (AList.update k e ?m)"
    using ev(3) assms by (simp add: dom_update dedupeOK_def) blast
  ultimately show ?thesis using ev(2) by (simp add: dedupeOK_def evictForInsertLocked_def)
qed


subsection \<open>Reservations\<close>

definition freshEntry :: "goenv \<Rightarrow> Incident \<Rightarrow> instant \<Rightarrow> notificationDeduper \<Rightarrow> notificationDedupeEntry" where
  "freshEntry env i now d = \<lparr>deBase = notificationDedupeBase env i, deExpiresAt = now + dedupeWindow d,
     deSuppressionCount = 0, deSuppressionRecorded = False, deInFlight = True, deFullyDelivered = False,
     deSuccessfulChannelIDs = []\<rparr>"

definition allowedAs :: "string \<Rightarrow> string list \<Rightarrow> notificationDedupeReservation" where
  "allowedAs key ids = \<lparr>rsKey = key, rsAllowed = True, rsSuppressionCount = 0, rsRecordSuppression = False,
     rsSuccessfulChannelIDs = ids\<rparr>"

text \<open>The deduper as a reservation finds it: expired entries gone, and for a resolution also the
  other entries of the same incident.\<close>

definition swept :: "goenv \<Rightarrow> string \<Rightarrow> Incident \<Rightarrow> instant \<Rightarrow> notificationDeduper \<Rightarrow> notificationDeduper" where
  "swept env ty i now d = d\<lparr>ndEntries := filter (\<lambda>(k, e). deExpiresAt e > now \<and>
     \<not> (ty = ''incident.resolved'' \<and> k \<noteq> notificationDedupeKey env ty i \<and> deBase e = notificationDedupeBase env i))
     (ndEntries d)\<rparr>"

lemma reserve_ineligible:
  "\<not> notificationEventDedupeEligible (TrimSpace ty) \<Longrightarrow> reserve env ty i now d = (allowedAs [] [], d)"
  by (simp add: reserve_def allowedAs_def)

lemma swept_eq: "swept env ty i now d =
   (let d1 = pruneLocked now d; key = notificationDedupeKey env ty i; base = notificationDedupeBase env i in
    if ty = ''incident.resolved''
    then d1\<lparr>ndEntries := filter (\<lambda>(k, e). \<not> (k \<noteq> key \<and> deBase e = base)) (ndEntries d1)\<rparr> else d1)"
  by (auto simp: swept_def pruneLocked_def Let_def case_prod_unfold conj_commute)

lemma swept_live: "(k, e) \<in> set (ndEntries (swept env ty i now d)) \<Longrightarrow> deExpiresAt e > now"
  by (auto simp: swept_def)

lemma reserve_eligible:
  assumes "notificationEventDedupeEligible (TrimSpace ty)"
  shows "reserve env ty i now d =
    (let t = TrimSpace ty; key = notificationDedupeKey env t i; d2 = swept env t i now d in
     case map_of (ndEntries d2) key of
       None \<Rightarrow> (allowedAs key [], (evictForInsertLocked d2)\<lparr>ndEntries :=
                 AList.update key (freshEntry env i now d2) (ndEntries (evictForInsertLocked d2))\<rparr>)
     | Some entry \<Rightarrow>
         if \<not> deInFlight entry \<and> \<not> deFullyDelivered entry
         then (allowedAs key (deSuccessfulChannelIDs entry),
               d2\<lparr>ndEntries := AList.update key (entry\<lparr>deInFlight := True\<rparr>) (ndEntries d2)\<rparr>)
         else (\<lparr>rsKey = key, rsAllowed = False, rsSuppressionCount = wrap64 (deSuppressionCount entry + 1),
                 rsRecordSuppression = (\<not> deSuppressionRecorded entry), rsSuccessfulChannelIDs = []\<rparr>,
               d2\<lparr>ndEntries := AList.update key (entry\<lparr>deSuppressionCount := wrap64 (deSuppressionCount entry + 1),
                    deSuppressionRecorded := True\<rparr>) (ndEntries d2)\<rparr>))"
proof -
  let ?t = "TrimSpace ty"
  let ?key = "notificationDedupeKey env ?t i"
  have win: "dedupeWindow (evictForInsertLocked x) = dedupeWindow x" for x by (simp add: evictForInsertLocked_def)
  show ?thesis
  proof (cases "map_of (ndEntries (swept env ?t i now d)) ?key")
    case None
    then show ?thesis using assms
      unfolding reserve_def swept_eq by (simp add: Let_def allowedAs_def freshEntry_def win)
  next
    case (Some e)
    then have "deExpiresAt e > now" by (meson map_of_SomeD swept_live)
    with Some show ?thesis using assms
      unfolding reserve_def swept_eq by (simp add: Let_def allowedAs_def)
  qed
qed

lemma dedupeOK_swept: "dedupeOK d \<Longrightarrow> dedupeOK (swept env ty i now d)"
  unfolding swept_def by (rule dedupeOK_filter)

lemma reserve_dedupeOK:
  assumes "sha256Sized env" "dedupeOK d"
  shows "dedupeOK (snd (reserve env ty i now d))"
proof (cases "notificationEventDedupeEligible (TrimSpace ty)")
  case True
  note ok = dedupeOK_swept [OF assms(2), of env "TrimSpace ty" i now]
  show ?thesis
    using dedupeOK_insert [OF ok dedupe_key_nonempty [OF assms(1)]] dedupeOK_touch [OF ok]
    by (simp add: reserve_eligible [OF True] Let_def split: option.split)
qed (simp add: reserve_ineligible assms)

lemma complete_dedupeOK: "dedupeOK d \<Longrightarrow> dedupeOK (complete r results d)"
  by (auto simp: complete_def dedupeOK_touch split: option.split)

lemma addChannelIDs_set:
  "set (foldl addChannelID ids results) =
     set ids \<union> {TrimSpace (drChannelID r) |r. r \<in> set results \<and> resultSucceeded r \<and> TrimSpace (drChannelID r) \<noteq> []}"
proof (induction results arbitrary: ids)
  case (Cons r results)
  have "set (addChannelID ids r) = set ids \<union> (if resultSucceeded r \<and> TrimSpace (drChannelID r) \<noteq> [] then {TrimSpace (drChannelID r)} else {})"
    by (auto simp: addChannelID_def notificationDeliverySucceeded_def Let_def)
  then show ?case using Cons.IH [of "addChannelID ids r"] by auto
qed simp


subsection \<open>Properties\<close>

datatype dedupeOp =
    Reserving string Incident instant
  | Completing notificationDedupeReservation "DeliveryResult list"

fun dedupeStep :: "goenv \<Rightarrow> notificationDeduper \<Rightarrow> dedupeOp \<Rightarrow> notificationDeduper" where
  "dedupeStep env d (Reserving ty i now) = snd (reserve env ty i now d)"
| "dedupeStep env d (Completing r results) = complete r results d"

lemma dedupe_frame [simp]:
  "dedupeMaxEntries (snd (reserve env ty i now d)) = dedupeMaxEntries d"
  "dedupeMaxEntries (complete r results d) = dedupeMaxEntries d"
proof -
  have "dedupeMaxEntries (swept env t i now d) = dedupeMaxEntries d" for t by (simp add: swept_def)
  then show "dedupeMaxEntries (snd (reserve env ty i now d)) = dedupeMaxEntries d"
    by (cases "notificationEventDedupeEligible (TrimSpace ty)")
      (simp_all add: reserve_eligible reserve_ineligible Let_def evictForInsertLocked_def split: option.split)
  show "dedupeMaxEntries (complete r results d) = dedupeMaxEntries d"
    by (simp add: complete_def split: option.split)
qed

text \<open>Whatever sequence of reservations and completions runs, the deduper never holds more
  than its maximum number of entries (512 unless configured).\<close>

theorem dedupe_bounded:
  assumes "sha256Sized env" "ndEntries d = []"
  shows "int (length (ndEntries (foldl (dedupeStep env) d ops))) \<le> dedupeMaxEntries d"
proof -
  let ?I = "\<lambda>x. dedupeOK x \<and> dedupeMaxEntries x = dedupeMaxEntries d"
  have "?I (foldl (dedupeStep env) d ops)"
  proof (rule foldl_invariant [where I = ?I])
    show "?I d" using assms(2) dedupeMaxEntries_pos [of d] by (simp add: dedupeOK_def)
    show "?I (dedupeStep env x oper)" if "?I x" for oper x
      using that by (cases oper) (simp_all add: reserve_dedupeOK [OF assms(1)] complete_dedupeOK)
  qed
  then show ?thesis by (simp add: dedupeOK_def)
qed

definition openedEvent :: Incident where
  "openedEvent = zeroIncident\<lparr>incID := ''inc_1'', incRule := ''disk_low'', incServiceID := ''rec-01''\<rparr>"

theorem dedupe_bounded_witness:
  "int (length (ndEntries (foldl (dedupeStep (concreteEnv [])) zeroDeduper
     [Reserving ''incident.opened'' openedEvent 5]))) \<le> 512"
  using dedupe_bounded [OF concreteEnv_sha256 [of "[]"], of zeroDeduper "[Reserving ''incident.opened'' openedEvent 5]"]
  by (simp add: zeroDeduper_def dedupeMaxEntries_def)

lemma swept_entry:
  assumes "gomap (ndEntries d)" "map_of (ndEntries d) (notificationDedupeKey env ty i) = Some e" "deExpiresAt e > now"
  shows "map_of (ndEntries (swept env ty i now d)) (notificationDedupeKey env ty i) = Some e"
  using assms by (simp add: swept_def map_of_filter_gomap)

lemma reserved_fresh:
  assumes "sha256Sized env" "dedupeOK d" "notificationEventDedupeEligible ty" "TrimSpace ty = ty"
    "map_of (ndEntries d) (notificationDedupeKey env ty i) = None"
  shows "fst (reserve env ty i now d) = allowedAs (notificationDedupeKey env ty i) []"
    "map_of (ndEntries (snd (reserve env ty i now d))) (notificationDedupeKey env ty i) = Some (freshEntry env i now d)"
proof -
  have none: "map_of (ndEntries (swept env ty i now d)) (notificationDedupeKey env ty i) = None"
    using assms(2,5) by (simp add: swept_def map_of_filter_gomap dedupeOK_def)
  have win: "freshEntry env i now (swept env ty i now d) = freshEntry env i now d" by (simp add: freshEntry_def swept_def)
  show "fst (reserve env ty i now d) = allowedAs (notificationDedupeKey env ty i) []"
    "map_of (ndEntries (snd (reserve env ty i now d))) (notificationDedupeKey env ty i) = Some (freshEntry env i now d)"
    using none win by (simp_all add: reserve_eligible assms(3,4) Let_def)
qed

text \<open>C11: while a notification is being delivered, and after it was delivered to every channel,
  the same event is suppressed for the rest of the window and recorded once; when some channel
  failed, the next event is let through and is given exactly the channels that succeeded, so
  that only the failed ones are tried again.\<close>

theorem dedupe_retry:
  assumes "sha256Sized env" "dedupeOK d" "notificationEventDedupeEligible ty" "TrimSpace ty = ty"
    "map_of (ndEntries d) (notificationDedupeKey env ty i) = None" "now < t0 + dedupeWindow d"
    "reserve env ty i t0 d = (r, d1)"
  shows "rsAllowed r \<and>
    \<not> rsAllowed (fst (reserve env ty i now d1)) \<and> rsRecordSuppression (fst (reserve env ty i now d1)) \<and>
    rsAllowed (fst (reserve env ty i now (complete r results d1))) = (\<not> notificationDeliverySucceeded results) \<and>
    (\<not> notificationDeliverySucceeded results \<longrightarrow>
      set (rsSuccessfulChannelIDs (fst (reserve env ty i now (complete r results d1)))) =
        {TrimSpace (drChannelID x) |x. x \<in> set results \<and> resultSucceeded x \<and> TrimSpace (drChannelID x) \<noteq> []})"
proof -
  let ?key = "notificationDedupeKey env ty i"
  note fresh = reserved_fresh [OF assms(1-5), of t0, unfolded assms(7), simplified]
  have ok1: "dedupeOK d1" using reserve_dedupeOK [OF assms(1,2), of ty i t0] assms(7) by simp
  have key: "?key \<noteq> []" using assms(1) by (rule dedupe_key_nonempty)
  have e1: "map_of (ndEntries (swept env ty i now d1)) ?key = Some (freshEntry env i t0 d)"
    using ok1 fresh(2) assms(6) by (intro swept_entry) (simp_all add: dedupeOK_def freshEntry_def)
  let ?e2 = "(freshEntry env i t0 d)\<lparr>deInFlight := False, deFullyDelivered := notificationDeliverySucceeded results,
      deSuccessfulChannelIDs := foldl addChannelID [] results\<rparr>"
  have ok2: "dedupeOK (complete r results d1)" using ok1 by (rule complete_dedupeOK)
  have "map_of (ndEntries (complete r results d1)) ?key = Some ?e2"
    using fresh key by (simp add: complete_def allowedAs_def) (simp add: freshEntry_def)
  then have e2: "map_of (ndEntries (swept env ty i now (complete r results d1))) ?key = Some ?e2"
    using ok2 assms(6) by (intro swept_entry) (simp_all add: dedupeOK_def freshEntry_def)
  show ?thesis
    using fresh(1) e1 e2
    by (simp add: reserve_eligible assms(3,4) Let_def allowedAs_def addChannelIDs_set)
      (simp add: freshEntry_def)
qed

theorem dedupe_retry_witness:
  "\<not> rsAllowed (fst (reserve (concreteEnv []) ''incident.opened'' openedEvent 6
      (snd (reserve (concreteEnv []) ''incident.opened'' openedEvent 5 zeroDeduper))))"
  using dedupe_retry [OF concreteEnv_sha256 [of "[]"], of zeroDeduper "''incident.opened''" openedEvent 6 5
      "fst (reserve (concreteEnv []) ''incident.opened'' openedEvent 5 zeroDeduper)"
      "snd (reserve (concreteEnv []) ''incident.opened'' openedEvent 5 zeroDeduper)" "[]"]
  by (simp add: zeroDeduper_def dedupeOK_def dedupeMaxEntries_def dedupeWindow_def notificationEventDedupeEligible_def go_eval)

text \<open>reserving the resolution of an incident forgets every other pending or delivered
  notification of that incident, so that a new incident on the same resource can notify at once.\<close>

theorem dedupe_resolution_clears:
  assumes "dedupeOK d" "map_of (ndEntries (snd (reserve env ''incident.resolved'' i now d))) k = Some e"
    "deBase e = notificationDedupeBase env i"
  shows "k = notificationDedupeKey env ''incident.resolved'' i"
proof (rule ccontr)
  let ?key = "notificationDedupeKey env ''incident.resolved'' i"
  let ?d = "swept env ''incident.resolved'' i now d"
  assume neq: "k \<noteq> ?key"
  have elig: "notificationEventDedupeEligible ''incident.resolved''" "TrimSpace ''incident.resolved'' = ''incident.resolved''"
    by (simp_all add: notificationEventDedupeEligible_def go_eval)
  have ok: "dedupeOK ?d" using assms(1) by (rule dedupeOK_swept)
  have sub: "set (ndEntries (evictForInsertLocked ?d)) \<subseteq> set (ndEntries ?d)"
    using evictLoop_props [of "ndEntries ?d" "dedupeMaxEntries ?d"] ok dedupeMaxEntries_pos [of ?d]
    by (simp add: dedupeOK_def evictForInsertLocked_def)
  have "(k, e) \<in> set (ndEntries ?d)"
    using assms(2) neq sub
    by (auto simp: reserve_eligible elig Let_def split: option.splits if_splits dest!: map_of_SomeD)
  then show False using neq assms(3) by (auto simp: swept_def)
qed

theorem dedupe_resolution_clears_witness:
  "\<exists>k e. map_of (ndEntries (snd (reserve (concreteEnv []) ''incident.resolved'' openedEvent 6 zeroDeduper))) k = Some e \<and>
     deBase e = notificationDedupeBase (concreteEnv []) openedEvent \<and>
     k = notificationDedupeKey (concreteEnv []) ''incident.resolved'' openedEvent"
proof -
  have ok: "dedupeOK zeroDeduper" by (simp add: dedupeOK_def zeroDeduper_def dedupeMaxEntries_def)
  obtain k e where e: "map_of (ndEntries (snd (reserve (concreteEnv []) ''incident.resolved'' openedEvent 6 zeroDeduper))) k = Some e"
    "deBase e = notificationDedupeBase (concreteEnv []) openedEvent"
    using reserved_fresh(2) [OF concreteEnv_sha256 [of "[]"] ok, of "''incident.resolved''" openedEvent 6]
    by (simp add: zeroDeduper_def notificationEventDedupeEligible_def freshEntry_def go_eval)
  then show ?thesis using dedupe_resolution_clears [OF ok e] by blast
qed

end
