(* ===== verification/Auth.thy ===== *)
theory Auth
  imports Go_Values
begin

text \<open>
  \<^verbatim>\<open>internal/auth/token.go\<close>: bearer tokens, their service bindings and their scopes.  Tokens are
  kept as hexadecimal SHA-256 digests; the digest is a parameter.  A nil map and an empty map
  are read alike by the code, so both are the empty association list.  A request is its
  \<^verbatim>\<open>Authorization\<close> header.
\<close>

record Subject =
  subServiceType :: string
  subServiceID :: string

record Verifier =
  TokenHashes :: "string list"
  TokenSubjects :: "Subject gomap"
  TokenScopes :: "bool gomap gomap"
  BindingRequired :: bool
  BindingConfigInvalid :: bool
  ScopeBindingRequired :: bool

definition zeroSubject :: Subject where
  "zeroSubject = \<lparr>subServiceType = [], subServiceID = []\<rparr>"

definition zeroVerifier :: Verifier where
  "zeroVerifier = \<lparr>TokenHashes = [], TokenSubjects = [], TokenScopes = [], BindingRequired = False,
     BindingConfigInvalid = False, ScopeBindingRequired = False\<rparr>"

definition HashToken :: "goenv \<Rightarrow> string \<Rightarrow> string" where
  "HashToken env raw = hexEncode (sha256 env raw)"

definition NewVerifierFromRawTokens :: "goenv \<Rightarrow> string list \<Rightarrow> Verifier" where
  "NewVerifierFromRawTokens env tokens =
     zeroVerifier\<lparr>TokenHashes := map (HashToken env) (filter (\<lambda>t. t \<noteq> []) (map TrimSpace tokens))\<rparr>"

definition containsHash :: "string list \<Rightarrow> string \<Rightarrow> bool" where
  "containsHash hashes target = list_ex (\<lambda>h. EqualFold h target) hashes"

text \<open>The loop that grants scopes: \<^verbatim>\<open>verifier.TokenScopes[hash][scope] = true\<close>.\<close>

fun grantScopes :: "string list \<Rightarrow> bool gomap \<Rightarrow> bool gomap" where
  "grantScopes [] m = m"
| "grantScopes (s # ss) m =
     (let scope = TrimSpace s in grantScopes ss (if scope \<noteq> [] then AList.update scope True m else m))"

definition WithRawTokenScopes :: "goenv \<Rightarrow> Verifier \<Rightarrow> string \<Rightarrow> string list \<Rightarrow> Verifier" where
  "WithRawTokenScopes env v raw scopes =
     (let rawToken = TrimSpace raw in
      if rawToken = [] then v
      else
        (let hash = HashToken env rawToken;
             v1 = (if \<not> containsHash (TokenHashes v) hash
                   then v\<lparr>TokenHashes := TokenHashes v @ [hash]\<rparr> else v);
             m = (case map_of (TokenScopes v1) hash of None \<Rightarrow> [] | Some m \<Rightarrow> m);
             scopes' = (if scopes = [] then [''*''] else scopes)
         in v1\<lparr>TokenScopes := AList.update hash (grantScopes scopes' m) (TokenScopes v1)\<rparr>))"

text \<open>The loop over the configured bindings, in the order of the map iteration.\<close>

fun bindSubjects :: "goenv \<Rightarrow> (string \<times> Subject) list \<Rightarrow> Subject gomap \<Rightarrow> Subject gomap" where
  "bindSubjects env [] m = m"
| "bindSubjects env ((t, sub) # rest) m =
     (let token = TrimSpace t in
      if token = [] \<or> TrimSpace (subServiceID sub) = [] \<or> TrimSpace (subServiceType sub) = []
      then bindSubjects env rest m
      else bindSubjects env rest
        (AList.update (HashToken env token)
          \<lparr>subServiceType = TrimSpace (subServiceType sub), subServiceID = TrimSpace (subServiceID sub)\<rparr> m))"

definition NewVerifierWithSubjects :: "goenv \<Rightarrow> (string \<times> Subject) list \<Rightarrow> string list \<Rightarrow> Verifier" where
  "NewVerifierWithSubjects env subjects tokens =
     (let v = (NewVerifierFromRawTokens env tokens)\<lparr>TokenSubjects := bindSubjects env subjects []\<rparr>
      in v\<lparr>BindingRequired := length (TokenSubjects v) > 0\<rparr>)"

text \<open>\<open>None\<close> is the result \<^verbatim>\<open>(Subject{}, false)\<close>.\<close>

definition VerifyTokenSubject :: "goenv \<Rightarrow> Verifier \<Rightarrow> string \<Rightarrow> Subject option" where
  "VerifyTokenSubject env v raw =
     (if BindingConfigInvalid v then None
      else if (raw = [] \<or> length (TokenHashes v) = 0) \<and> length (TokenSubjects v) = 0 then None
      else
        (let got = HashToken env raw in
         case map_of (TokenSubjects v) got of
           Some subject \<Rightarrow> Some subject
         | None \<Rightarrow>
             if map_of (TokenScopes v) got \<noteq> None then Some zeroSubject
             else if BindingRequired v then None
             else if list_ex (\<lambda>expected. got = ToLower expected) (TokenHashes v) then Some zeroSubject
             else None))"

definition VerifyToken :: "goenv \<Rightarrow> Verifier \<Rightarrow> string \<Rightarrow> bool" where
  "VerifyToken env v raw \<longleftrightarrow> VerifyTokenSubject env v raw \<noteq> None"

definition scopeSet :: "bool gomap \<Rightarrow> string \<Rightarrow> bool" where
  "scopeSet m scope = (case map_of m scope of None \<Rightarrow> False | Some b \<Rightarrow> b)"

definition AuthorizeToken :: "goenv \<Rightarrow> Verifier \<Rightarrow> string \<Rightarrow> string \<Rightarrow> bool \<times> bool" where
  "AuthorizeToken env v raw scope =
     (if VerifyTokenSubject env v raw = None then (False, False)
      else case map_of (TokenScopes v) (HashToken env raw) of
        Some scopes \<Rightarrow> (True, scopeSet scopes ''*'' \<or> scopeSet scopes scope)
      | None \<Rightarrow> if ScopeBindingRequired v then (True, False) else (True, True))"

definition VerifyRequest :: "goenv \<Rightarrow> Verifier \<Rightarrow> string \<Rightarrow> bool" where
  "VerifyRequest env v authorization =
     (case CutPrefix authorization ''Bearer '' of
        None \<Rightarrow> False | Some raw \<Rightarrow> VerifyToken env v (TrimSpace raw))"

definition VerifyRequestSubject :: "goenv \<Rightarrow> Verifier \<Rightarrow> string \<Rightarrow> Subject option" where
  "VerifyRequestSubject env v authorization =
     (case CutPrefix authorization ''Bearer '' of
        None \<Rightarrow> None | Some raw \<Rightarrow> VerifyTokenSubject env v (TrimSpace raw))"

definition AuthorizeRequest :: "goenv \<Rightarrow> Verifier \<Rightarrow> string \<Rightarrow> string \<Rightarrow> bool \<times> bool" where
  "AuthorizeRequest env v authorization scope =
     (case CutPrefix authorization ''Bearer '' of
        None \<Rightarrow> (False, False) | Some raw \<Rightarrow> AuthorizeToken env v (TrimSpace raw) scope)"

subsection \<open>Facts\<close>

lemma lowerByte_hexDigit: "d < 16 \<Longrightarrow> lowerByte (hexDigit d) = hexDigit d"
  by (auto simp: lowerByte_def hexDigit_def b2n_n2b)

lemma ToLower_HashToken [simp]: "ToLower (HashToken env raw) = HashToken env raw"
proof -
  have hex: "b2n c \<in> {48..57} \<union> {97..102}" if "c \<in> set (HashToken env raw)" for c
    using that hexEncode_hex by (simp add: HashToken_def)
  have "isASCII (HashToken env raw)"
    unfolding isASCII_def list_all_iff using hex by fastforce
  moreover have "map lowerByte (HashToken env raw) = HashToken env raw"
    by (rule map_idI) (use hex in \<open>fastforce simp: lowerByte_def\<close>)
  ultimately show ?thesis by (simp add: ToLower_def)
qed

lemma HashToken_inject: "HashToken env a = HashToken env b \<longleftrightarrow> sha256 env a = sha256 env b"
  by (simp add: HashToken_def hexEncode_inject)

lemma map_of_grantScopes:
  "map_of (grantScopes ss m) k = (if k \<noteq> [] \<and> k \<in> TrimSpace ` set ss then Some True else map_of m k)"
  by (induction ss arbitrary: m) (auto simp: Let_def)

lemma scopeSet_grant:
  "scopeSet (grantScopes ss m) k \<longleftrightarrow> (k \<noteq> [] \<and> k \<in> TrimSpace ` set ss) \<or> scopeSet m k"
  by (simp add: scopeSet_def map_of_grantScopes)

text \<open>Every binding of the map stems from a complete configured entry.\<close>

lemma bindSubjects_from:
  assumes "map_of (bindSubjects env subs m) h = Some s"
  shows "map_of m h = Some s \<or>
     (\<exists>(t, sub)\<in>set subs. TrimSpace t \<noteq> [] \<and> h = HashToken env (TrimSpace t) \<and>
        s = \<lparr>subServiceType = TrimSpace (subServiceType sub), subServiceID = TrimSpace (subServiceID sub)\<rparr> \<and>
        subServiceType s \<noteq> [] \<and> subServiceID s \<noteq> [])"
  using assms
proof (induction subs arbitrary: m)
  case (Cons p subs)
  obtain t sub where p: "p = (t, sub)" by (cases p)
  show ?case
  proof (cases "TrimSpace t = [] \<or> TrimSpace (subServiceID sub) = [] \<or> TrimSpace (subServiceType sub) = []")
    case True
    then show ?thesis using Cons.IH [of m] Cons.prems p by (auto simp: Let_def)
  next
    case False
    let ?m = "AList.update (HashToken env (TrimSpace t))
          \<lparr>subServiceType = TrimSpace (subServiceType sub), subServiceID = TrimSpace (subServiceID sub)\<rparr> m"
    from Cons.prems False have "map_of (bindSubjects env subs ?m) h = Some s" by (simp add: p Let_def)
    from Cons.IH [OF this] False show ?thesis by (auto simp: p update_conv split: if_split_asm)
  qed
qed simp

text \<open>Tokens with scopes are among the known hashes, as \<^verbatim>\<open>WithRawTokenScopes\<close> leaves them.\<close>

definition wfVerifier :: "Verifier \<Rightarrow> bool" where
  "wfVerifier v \<longleftrightarrow> (TokenHashes v = [] \<longrightarrow> TokenScopes v = [])"

lemma wfVerifier_zero [simp]: "wfVerifier zeroVerifier"
  by (simp add: wfVerifier_def zeroVerifier_def)

lemma wfVerifier_grant: "wfVerifier v \<Longrightarrow> wfVerifier (WithRawTokenScopes env v t ss)"
  by (auto simp: wfVerifier_def WithRawTokenScopes_def Let_def containsHash_def)

lemma grant_fields [simp]:
  "TokenSubjects (WithRawTokenScopes env v t ss) = TokenSubjects v"
  "BindingRequired (WithRawTokenScopes env v t ss) = BindingRequired v"
  "BindingConfigInvalid (WithRawTokenScopes env v t ss) = BindingConfigInvalid v"
  "ScopeBindingRequired (WithRawTokenScopes env v t ss) = ScopeBindingRequired v"
  by (simp_all add: WithRawTokenScopes_def Let_def)

lemma grant_hashes:
  assumes "TrimSpace t \<noteq> []"
  shows "TokenHashes (WithRawTokenScopes env v t ss) \<noteq> []"
  using assms by (auto simp: WithRawTokenScopes_def Let_def containsHash_def)

lemma grant_other_hashes:
  assumes "got \<noteq> HashToken env (TrimSpace t)"
  shows "list_ex (\<lambda>e. got = ToLower e) (TokenHashes (WithRawTokenScopes env v t ss)) =
    list_ex (\<lambda>e. got = ToLower e) (TokenHashes v)"
  using assms by (simp add: WithRawTokenScopes_def Let_def)

lemma grant_scopes:
  "map_of (TokenScopes (WithRawTokenScopes env v t ss)) h =
     (if TrimSpace t \<noteq> [] \<and> h = HashToken env (TrimSpace t)
      then Some (grantScopes (if ss = [] then [''*''] else ss)
             (case map_of (TokenScopes v) h of None \<Rightarrow> [] | Some m \<Rightarrow> m))
      else map_of (TokenScopes v) h)"
  by (simp add: WithRawTokenScopes_def Let_def)

lemma grant_other_subject:
  assumes "wfVerifier v" "HashToken env raw \<noteq> HashToken env (TrimSpace t)"
  shows "VerifyTokenSubject env (WithRawTokenScopes env v t ss) raw = VerifyTokenSubject env v raw"
proof (cases "TrimSpace t = []")
  case True
  then show ?thesis by (simp add: WithRawTokenScopes_def)
next
  case False
  then show ?thesis
    using assms grant_hashes [OF False] grant_other_hashes [OF assms(2)]
    by (auto simp: VerifyTokenSubject_def Let_def grant_scopes wfVerifier_def split: option.splits)
qed

subsection \<open>Properties\<close>

text \<open>
  Granting scopes to a token is exact.  Every presented token with another digest keeps its
  authentication and its authorisation for every scope; the token itself is authenticated, and
  authorised for a scope exactly when that scope or the wildcard is granted now (an empty list
  grants the wildcard) or was granted before.
\<close>

theorem WithRawTokenScopes_exact:
  assumes "wfVerifier v" "\<not> BindingConfigInvalid v" "TrimSpace t \<noteq> []" "raw \<noteq> []"
  shows "AuthorizeToken env (WithRawTokenScopes env v t ss) raw scope =
    (if HashToken env raw = HashToken env (TrimSpace t)
     then (True, list_ex (\<lambda>s. (s \<noteq> [] \<and> s \<in> TrimSpace ` set (if ss = [] then [''*''] else ss)) \<or>
             (case map_of (TokenScopes v) (HashToken env raw) of None \<Rightarrow> False | Some m \<Rightarrow> scopeSet m s))
             [''*'', scope])
     else AuthorizeToken env v raw scope)"
proof (cases "HashToken env raw = HashToken env (TrimSpace t)")
  case False
  then show ?thesis
    using assms(1) by (simp add: AuthorizeToken_def grant_other_subject grant_scopes)
next
  case True
  have "VerifyTokenSubject env (WithRawTokenScopes env v t ss) raw \<noteq> None"
    using assms(2-4) grant_hashes [OF assms(3), of env v ss] True
    by (cases "map_of (TokenSubjects v) (HashToken env raw)")
      (simp_all add: VerifyTokenSubject_def Let_def grant_scopes)
  moreover have "scopeSet [] k = False" for k by (simp add: scopeSet_def)
  ultimately show ?thesis
    using assms(3) True
    by (cases "map_of (TokenScopes v) (HashToken env raw)")
      (simp_all add: AuthorizeToken_def grant_scopes scopeSet_grant disj_ac)
qed

theorem WithRawTokenScopes_exact_witness:
  "AuthorizeToken (concreteEnv []) (WithRawTokenScopes (concreteEnv []) zeroVerifier ''abc'' [''notifications.read''])
     ''abc'' ''notifications.read'' = (True, True)"
  using WithRawTokenScopes_exact [of zeroVerifier "''abc''" "''abc''" "concreteEnv []" "[''notifications.read'']"
      "''notifications.read''"]
  by (simp add: zeroVerifier_def wfVerifier_def go_eval)

text \<open>
  C28: when at least one token is bound to a service, a request is accepted only with a token of
  the configured bindings, and then as exactly the service type and service id of that binding,
  both not empty; tokens that are merely listed are refused.
\<close>

theorem bound_token_subject:
  assumes "v = NewVerifierWithSubjects env subs toks" "BindingRequired v"
    "VerifyTokenSubject env v raw = Some s"
  shows "\<exists>(t, sub)\<in>set subs. TrimSpace t \<noteq> [] \<and> sha256 env raw = sha256 env (TrimSpace t) \<and>
    s = \<lparr>subServiceType = TrimSpace (subServiceType sub), subServiceID = TrimSpace (subServiceID sub)\<rparr> \<and>
    subServiceType s \<noteq> [] \<and> subServiceID s \<noteq> []"
proof -
  have "map_of (bindSubjects env subs []) (HashToken env raw) = Some s"
    using assms
    by (auto simp: NewVerifierWithSubjects_def NewVerifierFromRawTokens_def VerifyTokenSubject_def Let_def
        zeroVerifier_def split: if_splits option.splits)
  from bindSubjects_from [OF this] show ?thesis by (fastforce simp: HashToken_inject)
qed

definition sampleBinding :: "(string \<times> Subject) list" where
  "sampleBinding = [(''tok'', \<lparr>subServiceType = ''worker'', subServiceID = ''w1''\<rparr>)]"

theorem bound_token_subject_witness:
  "BindingRequired (NewVerifierWithSubjects (concreteEnv []) sampleBinding [''other'']) \<and>
   (\<exists>(t, sub)\<in>set sampleBinding. TrimSpace t \<noteq> [] \<and>
      sha256 (concreteEnv []) ''tok'' = sha256 (concreteEnv []) (TrimSpace t) \<and>
      \<lparr>subServiceType = ''worker'', subServiceID = ''w1''\<rparr> =
        \<lparr>subServiceType = TrimSpace (subServiceType sub), subServiceID = TrimSpace (subServiceID sub)\<rparr> \<and>
      ''worker'' \<noteq> [] \<and> ''w1'' \<noteq> [])"
proof -
  have trim: "TrimSpace ''tok'' = ''tok''" by (simp add: go_eval)
  let ?v = "NewVerifierWithSubjects (concreteEnv []) sampleBinding [''other'']"
  have b: "BindingRequired ?v" and s: "VerifyTokenSubject (concreteEnv []) ?v ''tok'' =
      Some \<lparr>subServiceType = ''worker'', subServiceID = ''w1''\<rparr>"
    by (simp_all add: NewVerifierWithSubjects_def NewVerifierFromRawTokens_def sampleBinding_def trim
        VerifyTokenSubject_def Let_def zeroVerifier_def go_eval)
  from bound_token_subject [OF refl b s] b show ?thesis by simp
qed

end
