(* ===== verification/Signal_Guard.thy ===== *)
theory Signal_Guard
  imports Store_Types
begin

text \<open>
  The redaction of signals and of notification fields in \<^verbatim>\<open>internal/httpapi/server.go\<close>: which
  attribute values look like secrets, which signals are refused, and what of an attribute map is
  kept.  A Go map is iterated in any order; the association list is that order.
\<close>

subsection \<open>Secret-like values\<close>

definition secretValuePrefixes :: "string list" where
  "secretValuePrefixes =
     [''ghp_'', ''gho_'', ''github_pat_'', ''xoxb-'', ''xoxp-'', ''xoxa-'', ''xoxr-'', ''ast_svc_'', ''ast_ingest_v1.'']"

text \<open>
  \<^verbatim>\<open>(?i)\bAIza[0-9A-Za-z_-]{35}\b\<close>: without case, the letter class also holds the Kelvin sign and
  the long s, which fold to k and s.  The other patterns are case-sensitive.
\<close>

definition foldLit :: "nat \<Rightarrow> rxitem" where
  "foldLit r = Cls (\<lambda>c. foldRune c = r) 1 (Some 1)"

definition alnumRune :: "nat \<Rightarrow> bool" where
  "alnumRune r \<longleftrightarrow> wordRune r \<and> r \<noteq> 95"

definition standaloneSecretPatterns :: "rxitem list list" where
  "standaloneSecretPatterns =
     [[WordB, foldLit 97, foldLit 105, foldLit 122, foldLit 97,
       Cls (\<lambda>c. wordDashRune (foldRune c)) 35 (Some 35), WordB],
      [WordB, litRune 101, litRune 121, litRune 74, Cls wordDashRune 10 None, litRune 46,
       Cls wordDashRune 10 None, litRune 46, Cls wordDashRune 10 None, WordB],
      [WordB, litRune 109, litRune 102, litRune 97, litRune 46, Cls wordDashRune 60 None, WordB],
      [WordB, Cls (\<lambda>c. c = 77 \<or> c = 78) 1 (Some 1), Cls alnumRune 23 (Some 23), litRune 46,
       Cls wordDashRune 6 (Some 6), litRune 46, Cls wordDashRune 27 (Some 27), WordB]]"

definition sensitivePatterns :: "string list" where
  "sensitivePatterns =
     [''://'', ''token='', ''access_token'', ''refresh_token'', ''authorization'', ''bearer '', ''password'',
      ''passwd'', ''secret'', ''webhook'', ''discord.com/api/webhooks'', ''hooks.slack.com/services'',
      ''private_key'', ''credential'']"

text \<open>The three tests of \<^verbatim>\<open>safeEvidenceValue\<close> on a trimmed value that is not empty.\<close>

definition secretValue :: "string \<Rightarrow> bool" where
  "secretValue value =
     (let lower = ToLower value in
      list_ex (HasPrefix lower) secretValuePrefixes \<or>
      list_ex (\<lambda>p. rxSearch p value) standaloneSecretPatterns \<or>
      list_ex (strContains lower) sensitivePatterns)"

definition clipEvidence :: "string \<Rightarrow> string" where
  "clipEvidence value = (if length value > 120 then take 120 value @ ''...'' else value)"

definition safeEvidenceValue :: "string \<Rightarrow> string" where
  "safeEvidenceValue raw =
     (let value = TrimSpace raw in
      if value = [] then []
      else if secretValue value then ''<redacted>''
      else clipEvidence value)"

definition secretAttributeKey :: "string \<Rightarrow> bool" where
  "secretAttributeKey key =
     (let normalized = ToLower (TrimSpace key) in
      list_ex (strContains normalized)
        [''webhook_url'', ''token'', ''secret'', ''password'', ''passwd'', ''private_key'', ''credential'',
         ''authorization'', ''stream_key'', ''refresh_token'', ''access_token'', ''client_secret'',
         ''api_key'', ''apikey''])"

subsection \<open>Which signals are refused\<close>

definition unsafeSignalField :: "string \<Rightarrow> bool" where
  "unsafeSignalField value \<longleftrightarrow>
     TrimSpace value \<noteq> [] \<and> (length value > 255 \<or> safeEvidenceValue value = ''<redacted>'')"

text \<open>\<open>None\<close> is no error; the order of the fields decides only which field the error names.\<close>

definition validateSignalTopLevelFields :: "Signal \<Rightarrow> goerr option" where
  "validateSignalTopLevelFields signal =
     (case List.find (\<lambda>(field, value). unsafeSignalField value)
        [(''type'', sigType signal), (''name'', sigName signal), (''service_id'', sigServiceID signal),
         (''service_type'', sigServiceType signal), (''stream_id'', sigStreamID signal),
         (''status'', sigStatus signal)] of
        None \<Rightarrow> None
      | Some (field, _) \<Rightarrow> Some (ErrText (''unsafe signal '' @ field)))"

fun validateSignalAttributeValue :: "any \<Rightarrow> goerr option"
  and validateSignalItems :: "any list \<Rightarrow> goerr option"
  and validateSignalEntries :: "(string \<times> any) list \<Rightarrow> goerr option" where
  "validateSignalAttributeValue (AStr s) =
     (if safeEvidenceValue s = ''<redacted>'' then Some (ErrText ''unsafe signal attribute value'') else None)"
| "validateSignalAttributeValue (AList xs) = validateSignalItems xs"
| "validateSignalAttributeValue (AMap kvs) = validateSignalEntries kvs"
| "validateSignalAttributeValue v = None"
| "validateSignalItems [] = None"
| "validateSignalItems (x # xs) =
     (case validateSignalAttributeValue x of Some e \<Rightarrow> Some e | None \<Rightarrow> validateSignalItems xs)"
| "validateSignalEntries [] = None"
| "validateSignalEntries ((k, v) # rest) =
     (if TrimSpace k = [] then validateSignalEntries rest
      else if secretAttributeKey (TrimSpace k) then Some (ErrText (''unsafe signal attribute '' @ TrimSpace k))
      else case validateSignalAttributeValue v of
        Some _ \<Rightarrow> Some (ErrText (''unsafe signal attribute '' @ TrimSpace k))
      | None \<Rightarrow> validateSignalEntries rest)"

definition validateSignalAttributes :: "attrs \<Rightarrow> goerr option" where
  "validateSignalAttributes m = (case m of None \<Rightarrow> None | Some kvs \<Rightarrow> validateSignalEntries kvs)"

subsection \<open>What is kept of the attributes\<close>

fun safeSignalAttributeValue :: "any \<Rightarrow> any"
  and safeSignalItems :: "any list \<Rightarrow> any list"
  and safeSignalEntries :: "(string \<times> any) list \<Rightarrow> (string \<times> any) list \<Rightarrow> (string \<times> any) list" where
  "safeSignalAttributeValue (AStr s) = AStr (safeEvidenceValue s)"
| "safeSignalAttributeValue (ABool b) = ABool b"
| "safeSignalAttributeValue (AInt k n) = AInt k n"
| "safeSignalAttributeValue (AFloat32 x) = AFloat32 x"
| "safeSignalAttributeValue (AFloat64 x) = AFloat64 x"
| "safeSignalAttributeValue (AList xs) = AList (safeSignalItems xs)"
| "safeSignalAttributeValue (AMap kvs) = AMap (safeSignalEntries kvs [])"
| "safeSignalAttributeValue ANil = ANil"
| "safeSignalAttributeValue AOther = ANil"
| "safeSignalItems [] = []"
| "safeSignalItems (x # xs) = safeSignalAttributeValue x # safeSignalItems xs"
| "safeSignalEntries [] out = out"
| "safeSignalEntries ((k, v) # rest) out =
     (let key = TrimSpace k in
      if key = [] then safeSignalEntries rest out
      else if secretAttributeKey key then safeSignalEntries rest (AList.update key (AStr ''<redacted>'') out)
      else safeSignalEntries rest (AList.update key (safeSignalAttributeValue v) out))"

definition safeSignalAttributes :: "attrs \<Rightarrow> attrs" where
  "safeSignalAttributes m = (case m of None \<Rightarrow> Some [] | Some kvs \<Rightarrow> Some (safeSignalEntries kvs []))"

definition safeSignal :: "Signal \<Rightarrow> Signal" where
  "safeSignal signal = signal\<lparr>sigAttributes := safeSignalAttributes (sigAttributes signal)\<rparr>"

definition safeSignals :: "Signal list \<Rightarrow> Signal list" where
  "safeSignals signals = map safeSignal signals"

subsection \<open>Notification fields\<close>

definition notificationActionPattern :: "string \<Rightarrow> bool" where
  "notificationActionPattern s = dottedWords s"

definition notificationResourceTypePattern :: "string \<Rightarrow> bool" where
  "notificationResourceTypePattern s \<longleftrightarrow> s \<noteq> [] \<and> list_all wordByte s"

definition validNotificationEventType :: "string \<Rightarrow> bool" where
  "validNotificationEventType value \<longleftrightarrow> value \<in> {''incident.opened'', ''incident.updated'', ''incident.resolved'',
     ''diagnostic.created'', ''remediation.pending_approval'', ''remediation.executed'', ''admin.audit''}"

definition validNotificationAction :: "string \<Rightarrow> bool" where
  "validNotificationAction value \<longleftrightarrow> value \<noteq> [] \<and> length value \<le> 128 \<and> notificationActionPattern value"

text \<open>\<^verbatim>\<open>strings.Map\<close> with a mapping that keeps a rune or drops it: the text is decoded and encoded again.\<close>

definition keepRune :: "nat \<Rightarrow> bool" where
  "keepRune r \<longleftrightarrow> r = 10 \<or> r = 13 \<or> r = 9 \<or> \<not> (r < 32 \<or> (127 \<le> r \<and> r \<le> 159))"

definition safeNotificationField :: "string \<Rightarrow> int \<Rightarrow> string" where
  "safeNotificationField raw maxLen =
     (let value = TrimSpace raw in
      if value = [] then []
      else
        (let value = TrimSpace (ofRunes (filter keepRune (runes value))) in
         if safeEvidenceValue value = ''<redacted>'' then []
         else if maxLen > 0 \<and> int (length (runes value)) > maxLen then ofRunes (take (nat maxLen) (runes value))
         else value))"

definition safeNotificationResourceType :: "string \<Rightarrow> string" where
  "safeNotificationResourceType raw =
     (let value = TrimSpace raw in
      if value = [] \<or> length value > 80 \<or> \<not> notificationResourceTypePattern value then [] else value)"

definition safeNotificationSeverity :: "string \<Rightarrow> string" where
  "safeNotificationSeverity value =
     (let v = ToLower (TrimSpace value) in
      if v \<in> {''critical'', ''error'', ''warning'', ''info''} then v else ''info'')"

definition safeNotificationStatus :: "string \<Rightarrow> string" where
  "safeNotificationStatus raw =
     (let value = ToLower (TrimSpace raw) in
      if value = [] \<or> safeEvidenceValue value = ''<redacted>'' then ''recorded''
      else take 64 value)"

subsection \<open>What a kept value may hold\<close>

text \<open>
  A text that may be shown: empty, or the clipped form of a trimmed value that passes all tests.
\<close>

definition evidenceOK :: "string \<Rightarrow> bool" where
  "evidenceOK s \<longleftrightarrow> s = [] \<or> (\<exists>v. v \<noteq> [] \<and> TrimSpace v = v \<and> \<not> secretValue v \<and> s = clipEvidence v)"

text \<open>
  A value with every text of it allowed, at any depth; with \<open>mark\<close> the redaction mark may stand
  for a text and must stand under a secret key, without it neither may occur.
\<close>

fun shownAny :: "bool \<Rightarrow> any \<Rightarrow> bool"
  and shownEntries :: "bool \<Rightarrow> (string \<times> any) list \<Rightarrow> bool" where
  "shownAny mark (AStr s) = (if s = ''<redacted>'' then mark else evidenceOK s)"
| "shownAny mark (AList []) = True"
| "shownAny mark (AList (x # xs)) = (shownAny mark x \<and> shownAny mark (AList xs))"
| "shownAny mark (AMap kvs) = shownEntries mark kvs"
| "shownAny mark AOther = False"
| "shownAny mark v = True"
| "shownEntries mark [] = True"
| "shownEntries mark ((k, v) # rest) =
     (k \<noteq> [] \<and> TrimSpace k = k \<and> shownAny mark v \<and>
      (secretAttributeKey k \<longrightarrow> mark \<and> v = AStr ''<redacted>'') \<and> shownEntries mark rest)"

lemma safeEvidenceValue_cases: "safeEvidenceValue raw = ''<redacted>'' \<or> evidenceOK (safeEvidenceValue raw)"
  by (auto simp: safeEvidenceValue_def evidenceOK_def Let_def)

lemma shownEntries_update:
  "shownEntries mark out \<Longrightarrow> k \<noteq> [] \<Longrightarrow> TrimSpace k = k \<Longrightarrow> shownAny mark v \<Longrightarrow>
    (secretAttributeKey k \<longrightarrow> mark \<and> v = AStr ''<redacted>'') \<Longrightarrow> shownEntries mark (AList.update k v out)"
  by (induction out) auto

lemma shownEntries_mem: "shownEntries mark kvs \<Longrightarrow> (k, v) \<in> set kvs \<Longrightarrow> shownEntries mark [(k, v)]"
  by (induction kvs) auto

lemma secretAttributeKey_trim [simp]: "secretAttributeKey (TrimSpace k) = secretAttributeKey k"
  by (simp add: secretAttributeKey_def)

lemma safe_shown:
  "shownAny True (safeSignalAttributeValue v)"
  "shownAny True (AList (safeSignalItems xs))"
  "shownEntries True out \<Longrightarrow> shownEntries True (safeSignalEntries kvs out)"
proof (induction v and xs and kvs out
    rule: safeSignalAttributeValue_safeSignalItems_safeSignalEntries.induct)
  case (1 s)
  then show ?case using safeEvidenceValue_cases [of s] by auto
next
  case (13 k v rest out)
  then show ?case
    by (cases "TrimSpace k = []") (auto simp: Let_def shownEntries_update)
qed auto

lemma safe_shown_validated:
  "validateSignalAttributeValue v = None \<Longrightarrow> shownAny False (safeSignalAttributeValue v)"
  "validateSignalItems xs = None \<Longrightarrow> shownAny False (AList (safeSignalItems xs))"
  "validateSignalEntries kvs = None \<Longrightarrow> shownEntries False out \<Longrightarrow> shownEntries False (safeSignalEntries kvs out)"
proof (induction v and xs and kvs out
    rule: safeSignalAttributeValue_safeSignalItems_safeSignalEntries.induct)
  case (1 s)
  then show ?case using safeEvidenceValue_cases [of s] by (simp split: if_splits)
next
  case (13 k v rest out)
  then show ?case
    by (cases "TrimSpace k = []") (auto simp: Let_def shownEntries_update split: option.splits if_splits)
qed (auto split: option.splits)

text \<open>Clipping is stable, and a text of at most 123 bytes results.\<close>

lemma evidenceOK_length: "evidenceOK s \<Longrightarrow> length s \<le> 123"
  by (auto simp: evidenceOK_def clipEvidence_def)

lemma safeSignalEntries_distinct: "gomap out \<Longrightarrow> gomap (safeSignalEntries kvs out)"
proof (induction kvs arbitrary: out)
  case (Cons p kvs)
  obtain k v where "p = (k, v)" by (cases p)
  with Cons show ?case by (simp add: Let_def)
qed simp

subsection \<open>Properties\<close>

definition sampleAttributes :: "(string \<times> any) list" where
  "sampleAttributes = [(''phase'', AStr ''mux''), (''detail'', AMap [(''attempts'', AInt KInt 3)])]"

text \<open>
  C29: the attributes of an accepted signal carry no secret into the store: when
  \<open>validateSignalAttributes\<close> reports no error, in the map that is kept no key at any depth is a
  secret key, every text is empty or the clipped form of a value that no secret test matches, and
  nothing had to be replaced by the redaction mark.  For every map, validated or not (rows written
  before, metric points), what \<open>safeSignalAttributes\<close> shows has the mark under every secret key and
  in place of every secret-like text.
\<close>

theorem safeSignalAttributes_clean:
  "(\<exists>out. safeSignalAttributes m = Some out \<and> gomap out \<and> shownEntries True out) \<and>
   (validateSignalAttributes m = None \<longrightarrow> shownEntries False (the (safeSignalAttributes m)))"
  by (cases m)
    (simp_all add: safeSignalAttributes_def validateSignalAttributes_def safe_shown safe_shown_validated
      safeSignalEntries_distinct)

theorem safeSignalAttributes_clean_witness:
  "validateSignalAttributes (Some sampleAttributes) = None \<and>
   shownEntries False (the (safeSignalAttributes (Some sampleAttributes)))"
proof -
  have "validateSignalAttributes (Some sampleAttributes) = None"
    by (simp add: sampleAttributes_def validateSignalAttributes_def secretAttributeKey_def safeEvidenceValue_def
        secretValue_def secretValuePrefixes_def standaloneSecretPatterns_def sensitivePatterns_def clipEvidence_def
        Let_def go_eval HasPrefix_def rxSearch_def runes_def runesB.simps atBoundary_def litRune_def foldLit_def
        foldRune_def wordRune_def)
  with safeSignalAttributes_clean [of "Some sampleAttributes"] show ?thesis by blast
qed

end
