(* ===== verification/Node_Config.thy ===== *)
theory Node_Config
  imports Go_Values
begin

text \<open>
  The node configuration of \<^verbatim>\<open>internal/control/node_config.go\<close>: the line-oriented parser of the
  file named by \<^verbatim>\<open>AUTOSTREAM_NODE_CONFIG\<close>.  Decoding a double-quoted JSON string is a parameter
  (\<open>unquote\<close>, \<open>None\<close> for an error of \<^verbatim>\<open>json.Unmarshal\<close>), and so is what the file system answers.
\<close>

record nodeAgentConfig =
  ncPanelURL :: string
  ncNodeID :: string
  ncNodeName :: string
  ncNodeType :: string
  ncAPIHost :: string
  ncAPIPort :: int
  ncAPISSLEnabled :: bool
  ncToken :: string

definition zeroNodeConfig :: nodeAgentConfig where
  "zeroNodeConfig = \<lparr>ncPanelURL = [], ncNodeID = [], ncNodeName = [], ncNodeType = [], ncAPIHost = [],
     ncAPIPort = 0, ncAPISSLEnabled = False, ncToken = []\<rparr>"

text \<open>What \<^verbatim>\<open>os.Stat\<close> or \<^verbatim>\<open>os.ReadFile\<close> answers.\<close>

datatype fileRead = FileMissing | FileError string | FileBody string

subsection \<open>Library functions\<close>

text \<open>\<^verbatim>\<open>strings.Trim\<close> with an ASCII cutset.\<close>

definition TrimCut :: "string \<Rightarrow> string \<Rightarrow> string" where
  "TrimCut cs s = rev (dropWhile (\<lambda>c. c \<in> set cs) (rev (dropWhile (\<lambda>c. c \<in> set cs) s)))"

definition TrimSuffix :: "string \<Rightarrow> string \<Rightarrow> string" where
  "TrimSuffix s p = (if HasSuffix s p then take (length s - length p) s else s)"

text \<open>\<^verbatim>\<open>strings.Cut\<close> at a byte; \<open>None\<close> when it does not occur.\<close>

fun cutByte :: "char \<Rightarrow> string \<Rightarrow> (string \<times> string) option" where
  "cutByte sep [] = None"
| "cutByte sep (c # s) =
     (if c = sep then Some ([], s) else map_option (\<lambda>(a, b). (c # a, b)) (cutByte sep s))"

text \<open>
  The first result of \<^verbatim>\<open>strconv.Atoi\<close>, which is zero for a syntax error and the nearest bound for
  a number out of range.
\<close>

definition atoiValue :: "string \<Rightarrow> int" where
  "atoiValue s =
     (case ParseInt s of
        Some v \<Rightarrow> v
      | None \<Rightarrow>
         (let neg = HasPrefix s ''-''; body = (if neg \<or> HasPrefix s ''+'' then tl s else s)
          in if body = [] \<or> \<not> list_all isDigit body then 0
             else if neg then - (2 ^ 63) else 2 ^ 63 - 1))"

text \<open>
  The lines \<^verbatim>\<open>bufio.Scanner\<close> yields, without the line feed and one carriage return before it; a
  line of 64 KiB or more ends the scan with an error.
\<close>

definition stripCR :: "string \<Rightarrow> string" where
  "stripCR line = (if line \<noteq> [] \<and> last line = CHR 0x0D then butlast line else line)"

definition scanLines :: "string \<Rightarrow> string list" where
  "scanLines body =
     (let ls = splitByte (CHR 0x0A) body; ls' = (if last ls = [] then butlast ls else ls)
      in map stripCR ls')"

definition scanTooLong :: "string \<Rightarrow> bool" where
  "scanTooLong body = list_ex (\<lambda>l. length l \<ge> 64 * 1024) (splitByte (CHR 0x0A) body)"

subsection \<open>The parser\<close>

definition parseYAMLScalar :: "(string \<Rightarrow> string option) \<Rightarrow> string \<Rightarrow> string" where
  "parseYAMLScalar unquote raw =
     (let value = TrimSpace raw;
          plain = TrimCut [CHR 0x27, CHR 0x22] value
      in if HasPrefix value [CHR 0x22]
         then (case unquote value of Some decoded \<Rightarrow> decoded | None \<Rightarrow> plain)
         else plain)"

definition setNodeKey :: "string \<Rightarrow> string \<Rightarrow> nodeAgentConfig \<Rightarrow> nodeAgentConfig" where
  "setNodeKey path value cfg =
     (if path = ''panel.url'' then cfg\<lparr>ncPanelURL := value\<rparr>
      else if path = ''node.id'' then cfg\<lparr>ncNodeID := value\<rparr>
      else if path = ''node.name'' then cfg\<lparr>ncNodeName := value\<rparr>
      else if path = ''node.type'' then cfg\<lparr>ncNodeType := value\<rparr>
      else if path = ''api.host'' then cfg\<lparr>ncAPIHost := value\<rparr>
      else if path = ''api.port'' then cfg\<lparr>ncAPIPort := atoiValue value\<rparr>
      else if path = ''api.ssl_enabled'' then cfg\<lparr>ncAPISSLEnabled := EqualFold value ''true''\<rparr>
      else if path = ''auth.token'' then cfg\<lparr>ncToken := value\<rparr>
      else cfg)"

text \<open>One round of the loop; the state is the current section and the configuration so far.\<close>

definition scanLine :: "(string \<Rightarrow> string option) \<Rightarrow> string \<times> nodeAgentConfig \<Rightarrow> string \<Rightarrow> string \<times> nodeAgentConfig" where
  "scanLine unquote st raw =
     (let (sect, cfg) = st; line = TrimSpace raw in
      if line = [] \<or> HasPrefix line ''#'' then (sect, cfg)
      else if \<not> HasPrefix raw '' '' \<and> HasSuffix line '':'' then (TrimSuffix line '':'', cfg)
      else case cutByte (CHR '':'') line of
        None \<Rightarrow> (sect, cfg)
      | Some (key, value) \<Rightarrow>
          (sect, setNodeKey (sect @ ''.'' @ TrimSpace key) (parseYAMLScalar unquote value) cfg))"

definition parseNodeAgentConfig :: "(string \<Rightarrow> string option) \<Rightarrow> string \<Rightarrow> nodeAgentConfig result" where
  "parseNodeAgentConfig unquote body =
     (if scanTooLong body then Inl (ErrText ''bufio.Scanner: token too long'')
      else
        (let cfg = snd (foldl (scanLine unquote) ([], zeroNodeConfig) (scanLines body)) in
         if ncPanelURL cfg = [] \<or> ncNodeID cfg = [] \<or> ncNodeName cfg = [] \<or> ncToken cfg = [] \<or>
            ncAPIHost cfg = [] \<or> ncAPIPort cfg \<le> 0
         then Inl (ErrText ''missing panel.url, node.id, node.name, api host/port, or auth.token'')
         else Inr cfg))"

text \<open>\<^verbatim>\<open>loadNodeAgentConfig\<close>: \<open>None\<close> is an error for which \<^verbatim>\<open>os.IsNotExist\<close> holds.\<close>

definition loadNodeAgentConfig :: "(string \<Rightarrow> string option) \<Rightarrow> fileRead \<Rightarrow> nodeAgentConfig result option" where
  "loadNodeAgentConfig unquote f =
     (case f of
        FileMissing \<Rightarrow> None
      | FileError e \<Rightarrow> Some (Inl (ErrText e))
      | FileBody body \<Rightarrow> Some (parseNodeAgentConfig unquote body))"

definition NodeConfigPathFromEnv :: "goenv \<Rightarrow> string" where
  "NodeConfigPathFromEnv env = TrimSpace (getenv env ''AUTOSTREAM_NODE_CONFIG'')"

definition NodeConfigPendingFromEnv :: "goenv \<Rightarrow> fileRead \<Rightarrow> bool" where
  "NodeConfigPendingFromEnv env f \<longleftrightarrow> NodeConfigPathFromEnv env \<noteq> [] \<and> f = FileMissing"

definition NodeRuntimeTokenFromEnv :: "goenv \<Rightarrow> (string \<Rightarrow> string option) \<Rightarrow> fileRead \<Rightarrow> string" where
  "NodeRuntimeTokenFromEnv env unquote f =
     (if NodeConfigPathFromEnv env = [] then []
      else case loadNodeAgentConfig unquote f of Some (Inr cfg) \<Rightarrow> ncToken cfg | _ \<Rightarrow> [])"

text \<open>\<^verbatim>\<open>net.JoinHostPort\<close> brackets a host that contains a colon.\<close>

definition JoinHostPort :: "string \<Rightarrow> string \<Rightarrow> string" where
  "JoinHostPort host port =
     (if CHR '':'' \<in> set host then ''['' @ host @ '']:'' @ port else host @ '':'' @ port)"

definition nodeAPIURL :: "string \<Rightarrow> int \<Rightarrow> bool \<Rightarrow> string" where
  "nodeAPIURL rawHost port sslEnabled =
     (let host = TrimSpace rawHost in
      if host = [] \<or> port \<le> 0 then []
      else (if sslEnabled then ''https'' else ''http'') @ ''://'' @ JoinHostPort host (FormatInt port))"

subsection \<open>The file format\<close>

text \<open>The document the Control Panel issues, with plain scalars.\<close>

definition configLines :: "nodeAgentConfig \<Rightarrow> string list" where
  "configLines cfg =
     [''panel:'', ''  url: '' @ ncPanelURL cfg,
      ''node:'', ''  id: '' @ ncNodeID cfg, ''  name: '' @ ncNodeName cfg, ''  type: '' @ ncNodeType cfg,
      ''api:'', ''  host: '' @ ncAPIHost cfg, ''  port: '' @ FormatInt (ncAPIPort cfg),
      ''  ssl_enabled: '' @ (if ncAPISSLEnabled cfg then ''true'' else ''false''),
      ''auth:'', ''  token: '' @ ncToken cfg]"

definition renderNodeConfig :: "nodeAgentConfig \<Rightarrow> string" where
  "renderNodeConfig cfg = concat (map (\<lambda>l. l @ [CHR 0x0A]) (configLines cfg))"

text \<open>A plain scalar: visible at both ends, not quoted, on one line, of moderate length.\<close>

definition plainScalar :: "string \<Rightarrow> bool" where
  "plainScalar s \<longleftrightarrow> s \<noteq> [] \<and> graphic (hd s) \<and> graphic (last s) \<and> CHR 0x0A \<notin> set s \<and>
     hd s \<notin> {CHR 0x27, CHR 0x22} \<and> last s \<notin> {CHR 0x27, CHR 0x22} \<and> length s \<le> 16384"

lemma TrimLeftSpace_blank: "TrimLeftSpace (CHR '' '' # s) = TrimLeftSpace s"
proof -
  have "stripOne spaceSeqs (CHR '' '' # s) = Some s"
    by (simp add: spaceSeqs_def n2b_def char_of_def bit_0)
  then show ?thesis unfolding TrimLeftSpace_def by (subst trimWith.simps) simp
qed

lemma TrimSpace_blank: "TrimSpace (CHR '' '' # s) = TrimSpace s"
  by (simp add: TrimSpace_def TrimLeftSpace_blank)

lemma TrimSpace_plain: "plainScalar s \<Longrightarrow> TrimSpace s = s"
  by (rule TrimSpace_graphic) (simp add: plainScalar_def)

lemma TrimSpace_entry:
  "plainScalar v \<Longrightarrow> graphic k \<Longrightarrow> TrimSpace (k # ks @ v) = k # ks @ v"
  by (rule TrimSpace_graphic) (auto simp: plainScalar_def)

lemma TrimCut_id: "s \<noteq> [] \<Longrightarrow> hd s \<notin> set cs \<Longrightarrow> last s \<notin> set cs \<Longrightarrow> TrimCut cs s = s"
  by (simp add: TrimCut_def dropWhile_eq_self_iff [THEN iffD2] hd_rev)

lemma parseYAMLScalar_plain: "plainScalar v \<Longrightarrow> parseYAMLScalar unquote (CHR '' '' # v) = v"
  by (cases v) (auto simp: parseYAMLScalar_def TrimSpace_blank TrimSpace_plain Let_def HasPrefix_def TrimCut_id
      plainScalar_def)

lemma splitByte_lines:
  "\<forall>l\<in>set ls. sep \<notin> set l \<Longrightarrow> splitByte sep (concat (map (\<lambda>l. l @ [sep]) ls)) = ls @ [[]]"
  by (induction ls) (auto simp: splitByte_append_sep)

lemma length_natDigits: "length (natDigits n) \<le> Suc (n div 10)"
proof (induction n rule: natDigits.induct)
  case (1 n)
  then show ?case by (cases "n < 10") (simp_all add: natDigits.simps [of n])
qed

lemma FormatInt_plain:
  assumes "0 < p" "p < 2 ^ 16"
  shows "plainScalar (FormatInt p)"
proof -
  have d: "isDigit c" if "c \<in> set (FormatInt p)" for c
    using assms natDigits_digits that by (auto simp: FormatInt_def list_all_iff)
  have ne: "FormatInt p \<noteq> []" using assms by (simp add: FormatInt_def)
  have len: "length (FormatInt p) \<le> 6554"
  proof -
    have "length (FormatInt p) \<le> Suc (nat p div 10)" using assms length_natDigits by (simp add: FormatInt_def)
    moreover have "nat p div 10 \<le> 6553" using assms by (simp add: nat_less_iff)
    ultimately show ?thesis by simp
  qed
  show ?thesis using d [of "hd (FormatInt p)"] d [of "last (FormatInt p)"] ne FormatInt_no_newline len
    by (auto simp: plainScalar_def isDigit_def graphic_def b2n_def)
qed

lemma scanLine_entry:
  assumes "plainScalar v" "graphic k" "CHR '':'' \<notin> set (k # ks)" "graphic (last (k # ks))" "k \<noteq> CHR ''#''"
  shows "scanLine unquote (sect, cfg) (CHR '' '' # CHR '' '' # k # ks @ CHR '':'' # CHR '' '' # v) =
    (sect, setNodeKey (sect @ ''.'' @ k # ks) v cfg)"
proof -
  have cut: "cutByte sep (a @ sep # b) = Some (a, b)" if "sep \<notin> set a" for sep a b
    using that by (induction a) auto
  have line: "TrimSpace (CHR '' '' # CHR '' '' # k # ks @ CHR '':'' # CHR '' '' # v) = (k # ks) @ CHR '':'' # CHR '' '' # v"
    using TrimSpace_entry [OF assms(1,2), of "ks @ [CHR '':'', CHR '' '']"] by (simp add: TrimSpace_blank)
  have "TrimSpace (k # ks) = k # ks" by (rule TrimSpace_graphic) (use assms in simp)
  then show ?thesis
    unfolding scanLine_def Let_def line using assms parseYAMLScalar_plain [OF assms(1)]
    by (simp add: cut del: append_Cons) (simp add: HasPrefix_def)
qed

lemma scanLine_section:
  assumes "graphic k" "k \<noteq> CHR ''#''"
  shows "scanLine unquote (sect, cfg) (k # ks @ '':'') = (k # ks, cfg)"
proof -
  have "TrimSpace (k # ks @ '':'') = k # ks @ '':''"
    by (rule TrimSpace_graphic) (use assms in \<open>simp add: graphic_def b2n_def\<close>)
  moreover have "k \<noteq> CHR '' ''" using assms by (auto simp: graphic_def b2n_def)
  ultimately show ?thesis
    using assms by (simp add: scanLine_def Let_def HasPrefix_def HasSuffix_def TrimSuffix_def)
qed

lemma scanLine_known:
  assumes "plainScalar v"
  shows "scanLine u (sect, cfg) (''  url: '' @ v) = (sect, setNodeKey (sect @ ''.url'') v cfg)"
    "scanLine u (sect, cfg) (''  id: '' @ v) = (sect, setNodeKey (sect @ ''.id'') v cfg)"
    "scanLine u (sect, cfg) (''  name: '' @ v) = (sect, setNodeKey (sect @ ''.name'') v cfg)"
    "scanLine u (sect, cfg) (''  type: '' @ v) = (sect, setNodeKey (sect @ ''.type'') v cfg)"
    "scanLine u (sect, cfg) (''  host: '' @ v) = (sect, setNodeKey (sect @ ''.host'') v cfg)"
    "scanLine u (sect, cfg) (''  port: '' @ v) = (sect, setNodeKey (sect @ ''.port'') v cfg)"
    "scanLine u (sect, cfg) (''  ssl_enabled: '' @ v) = (sect, setNodeKey (sect @ ''.ssl_enabled'') v cfg)"
    "scanLine u (sect, cfg) (''  token: '' @ v) = (sect, setNodeKey (sect @ ''.token'') v cfg)"
  using scanLine_entry [OF assms, of "CHR ''u''" "''rl''"] scanLine_entry [OF assms, of "CHR ''i''" "''d''"]
    scanLine_entry [OF assms, of "CHR ''n''" "''ame''"] scanLine_entry [OF assms, of "CHR ''t''" "''ype''"]
    scanLine_entry [OF assms, of "CHR ''h''" "''ost''"] scanLine_entry [OF assms, of "CHR ''p''" "''ort''"]
    scanLine_entry [OF assms, of "CHR ''s''" "''sl_enabled''"] scanLine_entry [OF assms, of "CHR ''t''" "''oken''"]
  by (simp_all add: graphic_def b2n_def)

lemma scanLine_sections:
  "scanLine u (sect, cfg) ''panel:'' = (''panel'', cfg)" "scanLine u (sect, cfg) ''node:'' = (''node'', cfg)"
  "scanLine u (sect, cfg) ''api:'' = (''api'', cfg)" "scanLine u (sect, cfg) ''auth:'' = (''auth'', cfg)"
  using scanLine_section [of "CHR ''p''" u sect cfg "''anel''"] scanLine_section [of "CHR ''n''" u sect cfg "''ode''"]
    scanLine_section [of "CHR ''a''" u sect cfg "''pi''"] scanLine_section [of "CHR ''a''" u sect cfg "''uth''"]
  by (simp_all add: graphic_def b2n_def)

definition configOK :: "nodeAgentConfig \<Rightarrow> bool" where
  "configOK cfg \<longleftrightarrow> list_all plainScalar [ncPanelURL cfg, ncNodeID cfg, ncNodeName cfg, ncNodeType cfg,
     ncAPIHost cfg, ncToken cfg] \<and> 0 < ncAPIPort cfg \<and> ncAPIPort cfg < 2 ^ 16"

lemma plain_bool: "plainScalar (if b then ''true'' else ''false'')"
  by (simp add: plainScalar_def graphic_def b2n_def)

lemma atoiValue_FormatInt: "in64 x \<Longrightarrow> atoiValue (FormatInt x) = x"
  by (simp add: atoiValue_def ParseInt_FormatInt)

lemma foldBool: "EqualFold (if b then ''true'' else ''false'') ''true'' = b"
  by (simp add: EqualFold_def runes_def runesB.simps foldRune_def b2n_def)

lemma scan_config:
  assumes "configOK cfg"
  shows "foldl (scanLine u) ([], zeroNodeConfig) (configLines cfg) = (''auth'', cfg)"
proof -
  have port: "plainScalar (FormatInt (ncAPIPort cfg))" "atoiValue (FormatInt (ncAPIPort cfg)) = ncAPIPort cfg"
    using assms by (auto simp: configOK_def FormatInt_plain in64_def atoiValue_FormatInt)
  have scalars: "plainScalar (ncPanelURL cfg)" "plainScalar (ncNodeID cfg)" "plainScalar (ncNodeName cfg)"
    "plainScalar (ncNodeType cfg)" "plainScalar (ncAPIHost cfg)" "plainScalar (ncToken cfg)"
    using assms by (simp_all add: configOK_def)
  show ?thesis
    unfolding configLines_def foldl.simps scanLine_sections scalars [THEN scanLine_known(1)]
      scalars [THEN scanLine_known(2)] scalars [THEN scanLine_known(3)] scalars [THEN scanLine_known(4)]
      scalars [THEN scanLine_known(5)] port(1) [THEN scanLine_known(6)] plain_bool [THEN scanLine_known(7)]
      scalars [THEN scanLine_known(8)]
    by (simp add: setNodeKey_def zeroNodeConfig_def port foldBool)
qed

definition lineOK :: "string \<Rightarrow> bool" where
  "lineOK l \<longleftrightarrow> CHR 0x0A \<notin> set l \<and> length l < 64 * 1024 \<and> stripCR l = l"

lemma lineOK_entry:
  assumes "plainScalar v" "CHR 0x0A \<notin> set k" "length k < 32"
  shows "lineOK (k @ v)"
proof -
  have "last v \<noteq> CHR 0x0D" using assms(1) by (auto simp: plainScalar_def graphic_def b2n_def)
  with assms show ?thesis by (auto simp: plainScalar_def stripCR_def lineOK_def)
qed

lemma configLines_shape:
  assumes "configOK cfg"
  shows "list_all lineOK (configLines cfg)"
proof -
  have sections: "lineOK ''panel:''" "lineOK ''node:''" "lineOK ''api:''" "lineOK ''auth:''"
    by (simp_all add: lineOK_def stripCR_def)
  have port: "plainScalar (FormatInt (ncAPIPort cfg))" using assms by (simp add: configOK_def FormatInt_plain)
  have scalars: "plainScalar (ncPanelURL cfg)" "plainScalar (ncNodeID cfg)" "plainScalar (ncNodeName cfg)"
    "plainScalar (ncNodeType cfg)" "plainScalar (ncAPIHost cfg)" "plainScalar (ncToken cfg)"
    using assms by (simp_all add: configOK_def)
  show ?thesis
    unfolding configLines_def list.pred_inject
    by (intro conjI TrueI sections lineOK_entry scalars port plain_bool) simp_all
qed

subsection \<open>Properties\<close>

text \<open>
  a configuration survives printing and parsing: the document of a configuration whose
  scalars are plain and whose port is a port number parses to that configuration, for every
  decoder of quoted strings.
\<close>

theorem parse_render_config:
  assumes "configOK cfg"
  shows "parseNodeAgentConfig unquote (renderNodeConfig cfg) = Inr cfg"
proof -
  have lines: "splitByte (CHR 0x0A) (renderNodeConfig cfg) = configLines cfg @ [[]]"
    unfolding renderNodeConfig_def by (rule splitByte_lines) (use configLines_shape [OF assms] in \<open>auto simp: list_all_iff lineOK_def\<close>)
  have "map stripCR (configLines cfg) = configLines cfg"
    by (rule map_idI) (use configLines_shape [OF assms] in \<open>auto simp: list_all_iff lineOK_def\<close>)
  then have scan: "scanLines (renderNodeConfig cfg) = configLines cfg"
    by (simp add: scanLines_def lines Let_def)
  have "\<not> scanTooLong (renderNodeConfig cfg)"
    using configLines_shape [OF assms] by (fastforce simp: scanTooLong_def lines list_ex_iff list_all_iff lineOK_def)
  with assms show ?thesis
    by (auto simp: parseNodeAgentConfig_def scan scan_config Let_def configOK_def plainScalar_def)
qed

definition sampleConfig :: nodeAgentConfig where
  "sampleConfig = \<lparr>ncPanelURL = ''https://panel.example'', ncNodeID = ''obs-01'', ncNodeName = ''Observability 1'',
     ncNodeType = ''observability'', ncAPIHost = ''10.0.0.5'', ncAPIPort = 8080, ncAPISSLEnabled = True,
     ncToken = ''abc''\<rparr>"

theorem parse_render_config_witness:
  "parseNodeAgentConfig (\<lambda>_. None) (renderNodeConfig sampleConfig) = Inr sampleConfig"
  by (rule parse_render_config) (simp add: configOK_def sampleConfig_def plainScalar_def graphic_def b2n_def)

end
