(* ===== verification/Control_Client.thy ===== *)
theory Control_Client
  imports Node_Config Remediation
begin

text \<open>
  The Control Panel client of \<^verbatim>\<open>internal/control/client.go\<close> and the updater identity latch of
  \<^verbatim>\<open>internal/httpapi/updater_identity.go\<close>.  The HTTP exchange is a parameter of the operations that
  post: a request yields a transport error or a status.  The operations return, with their error
  (\<open>None\<close> for nil), the requests they sent.
\<close>

record ctlenv =
  ctGo :: goenv
  ctUnquote :: "string \<Rightarrow> string option"
  ctDuration :: "string \<Rightarrow> int option"
  ctVersion :: string

record Client =
  clBaseURL :: string
  clToken :: string
  clServiceID :: string
  clServiceName :: string
  clServicePublicURL :: string
  clVersion :: string
  clHeartbeatEvery :: int
  clConfigError :: string
  clTimeout :: int

abbreviation second :: int where
  "second \<equiv> 10 ^ 9"

definition ServiceType :: string where
  "ServiceType = ''observability''"

text \<open>The text of an error, as \<^verbatim>\<open>%v\<close> prints it.\<close>

fun errorText :: "goerr \<Rightarrow> string" where
  "errorText (ErrText s) = s"
| "errorText (ErrContext s) = s"
| "errorText e = ''error''"

subsection \<open>Configuration\<close>

definition envDefault :: "goenv \<Rightarrow> string \<Rightarrow> string \<Rightarrow> string" where
  "envDefault env key fallback =
     (let value = TrimSpace (getenv env key) in if value \<noteq> [] then value else fallback)"

definition envDuration :: "ctlenv \<Rightarrow> string \<Rightarrow> int \<Rightarrow> int" where
  "envDuration ct key fallback =
     (let value = TrimSpace (getenv (ctGo ct) key) in
      if value = [] then fallback
      else case ctDuration ct (value @ ''s'') of
        None \<Rightarrow> fallback
      | Some d \<Rightarrow> if d \<le> 0 then fallback else d)"

definition applyNodeConfigFromEnv :: "ctlenv \<Rightarrow> fileRead \<Rightarrow> string \<Rightarrow> Client \<Rightarrow> Client" where
  "applyNodeConfigFromEnv ct f expectedType client =
     (if NodeConfigPathFromEnv (ctGo ct) = [] then client
      else
        (let c = client\<lparr>clBaseURL := [], clToken := [], clServiceID := [], clServiceName := [],
                        clServicePublicURL := []\<rparr>
         in case loadNodeAgentConfig (ctUnquote ct) f of
           None \<Rightarrow> c
         | Some (Inl e) \<Rightarrow> c\<lparr>clConfigError := ''AUTOSTREAM_NODE_CONFIG: '' @ errorText e\<rparr>
         | Some (Inr cfg) \<Rightarrow>
             if ncNodeType cfg \<noteq> [] \<and> expectedType \<noteq> [] \<and> ncNodeType cfg \<noteq> expectedType
             then c\<lparr>clConfigError := ''AUTOSTREAM_NODE_CONFIG node.type must be '' @ [CHR 0x22] @ expectedType @ [CHR 0x22]\<rparr>
             else c\<lparr>clBaseURL := ncPanelURL cfg, clToken := ncToken cfg, clServiceID := ncNodeID cfg,
                    clServiceName := ncNodeName cfg,
                    clServicePublicURL := nodeAPIURL (ncAPIHost cfg) (ncAPIPort cfg) (ncAPISSLEnabled cfg)\<rparr>))"

definition FromEnv :: "ctlenv \<Rightarrow> fileRead \<Rightarrow> Client" where
  "FromEnv ct f =
     (let env = ctGo ct;
          raw = TrimSpace (getenv env ''CONTROL_PANEL_TIMEOUT_SEC'');
          timeout = (if raw = [] then 5 * second
                     else case ParseInt raw of
                       Some seconds \<Rightarrow> if seconds > 0 then wrap64 (seconds * second) else 5 * second
                     | None \<Rightarrow> 5 * second)
      in applyNodeConfigFromEnv ct f ServiceType
        \<lparr>clBaseURL = TrimSpace (getenv env ''CONTROL_PANEL_URL''),
         clToken = TrimSpace (getenv env ''CONTROL_PANEL_TOKEN''),
         clServiceID = envDefault env ''SERVICE_ID'' ''observability-01'',
         clServiceName = envDefault env ''SERVICE_NAME'' ''Observability'',
         clServicePublicURL = TrimSpace (getenv env ''SERVICE_PUBLIC_URL''),
         clVersion = envDefault env ''SERVICE_VERSION'' (ctVersion ct),
         clHeartbeatEvery = envDuration ct ''CONTROL_PANEL_HEARTBEAT_INTERVAL_SEC'' (30 * second),
         clConfigError = [], clTimeout = timeout\<rparr>)"

definition Enabled :: "Client \<Rightarrow> bool" where
  "Enabled c \<longleftrightarrow> TrimSpace (clConfigError c) = [] \<and> TrimSpace (clBaseURL c) \<noteq> [] \<and> TrimSpace (clToken c) \<noteq> []"

definition isLocalDevHost :: "string \<Rightarrow> bool" where
  "isLocalDevHost host =
     (let normalized = TrimCut ''[]'' (ToLower (TrimSpace host)) in
      normalized = ''localhost'' \<or> normalized = ''127.0.0.1'' \<or> normalized = ''host.docker.internal'')"

definition validateHTTPURLWithAllowedHTTPHost :: "goenv \<Rightarrow> string \<Rightarrow> string \<Rightarrow> string \<Rightarrow> goerr option" where
  "validateHTTPURLWithAllowedHTTPHost env raw name allowedHTTPHost =
     (case urlParse env (TrimSpace raw) of
        None \<Rightarrow> Some (ErrText (name @ '' must be an absolute URL''))
      | Some u \<Rightarrow>
          if urlScheme u = [] \<or> urlHost u = [] then Some (ErrText (name @ '' must be an absolute URL''))
          else if urlScheme u \<noteq> ''http'' \<and> urlScheme u \<noteq> ''https''
          then Some (ErrText (name @ '' must use http or https''))
          else if urlUser u \<noteq> None then Some (ErrText (name @ '' must not include userinfo''))
          else if urlRawQuery u \<noteq> [] \<or> urlFragment u \<noteq> []
          then Some (ErrText (name @ '' must not include query or fragment''))
          else if urlScheme u = ''http'' \<and> \<not> isLocalDevHost (urlHostname u) \<and>
             \<not> (allowedHTTPHost \<noteq> [] \<and> EqualFold (urlHostname u) allowedHTTPHost)
          then Some (ErrText (name @ '' must use https for remote hosts''))
          else None)"

definition validateHTTPURL :: "goenv \<Rightarrow> string \<Rightarrow> string \<Rightarrow> goerr option" where
  "validateHTTPURL env raw name = validateHTTPURLWithAllowedHTTPHost env raw name []"

definition validateServicePublicURL :: "goenv \<Rightarrow> string \<Rightarrow> string \<Rightarrow> goerr option" where
  "validateServicePublicURL env raw name = validateHTTPURLWithAllowedHTTPHost env raw name ''observability''"

subsection \<open>Remediation dispatch\<close>

record legacyRemediationRequest =
  lrActionID :: string
  lrAction :: string
  lrIncidentID :: string
  lrStreamID :: string

definition adaptProposalToLegacyRemediationRequest :: "Proposal \<Rightarrow> string \<Rightarrow> legacyRemediationRequest result" where
  "adaptProposalToLegacyRemediationRequest p rawStreamID =
     (if proposalValidate p \<noteq> None then Inl (ErrText ''remediation proposal is invalid'')
      else case LegacyRetryAction (ppActionType p) of
        None \<Rightarrow> Inl (ErrText ''remediation proposal is not supported by the legacy adapter'')
      | Some action \<Rightarrow>
         (let streamID = TrimSpace rawStreamID in
          if \<not> IsBoundedCorrelationID streamID
          then Inl (ErrText ''remediation proposal stream correlation is invalid'')
          else Inr \<lparr>lrActionID = ppProposalID p, lrAction = action, lrIncidentID = ppIncidentID p,
                    lrStreamID = streamID\<rparr>))"

definition executeLegacyRemediation ::
  "goenv \<Rightarrow> (legacyRemediationRequest \<Rightarrow> int result) \<Rightarrow> Client \<Rightarrow> legacyRemediationRequest
     \<Rightarrow> goerr option \<times> legacyRemediationRequest list" where
  "executeLegacyRemediation env post c req =
     (if TrimSpace (clConfigError c) \<noteq> [] then (Some (ErrText (clConfigError c)), [])
      else if \<not> Enabled c then (Some (ErrText ''control panel dispatch is not configured''), [])
      else if TrimSpace (lrActionID req) = [] \<or> TrimSpace (lrAction req) = [] \<or> TrimSpace (lrIncidentID req) = [] \<or>
         TrimSpace (lrStreamID req) = []
      then (Some (ErrText ''action_id, action, incident_id, and stream_id are required''), [])
      else case validateHTTPURL env (clBaseURL c) ''CONTROL_PANEL_URL'' of
        Some e \<Rightarrow> (Some e, [])
      | None \<Rightarrow>
         (case urlParse env (rev (dropWhile (\<lambda>ch. ch = CHR ''/'') (rev (clBaseURL c)))) of
            None \<Rightarrow> (Some (ErrText ''control panel url is invalid''), [])
          | Some base \<Rightarrow>
             (case post req of
                Inl e \<Rightarrow> (Some (ErrText (''control panel dispatch failed: '' @ errorText e)), [req])
              | Inr status \<Rightarrow>
                  if status < 200 \<or> status \<ge> 300
                  then (Some (ErrText (''control panel dispatch returned HTTP '' @ FormatInt status)), [req])
                  else (None, [req]))))"

definition ExecuteRemediationProposal ::
  "goenv \<Rightarrow> (legacyRemediationRequest \<Rightarrow> int result) \<Rightarrow> Client \<Rightarrow> Proposal \<Rightarrow> string
     \<Rightarrow> goerr option \<times> legacyRemediationRequest list" where
  "ExecuteRemediationProposal env post c p streamID =
     (if TrimSpace (clServiceID c) \<noteq> [] \<and> ppDetectorServiceID p \<noteq> TrimSpace (clServiceID c)
      then (Some (ErrText ''remediation proposal detector identity mismatch''), [])
      else case adaptProposalToLegacyRemediationRequest p streamID of
        Inl e \<Rightarrow> (Some e, [])
      | Inr req \<Rightarrow> executeLegacyRemediation env post c req)"

subsection \<open>Mail relay\<close>

record NotificationEmailRequest =
  erRecipients :: "string list"
  erSubject :: string
  erText :: string
  erHTML :: string

definition safeNotificationEmailCode :: "string \<Rightarrow> bool" where
  "safeNotificationEmailCode code \<longleftrightarrow> TrimSpace code \<in> set
     [''smtp_not_configured'', ''smtp_requires_tls'', ''smtp_dial_failed'', ''smtp_starttls_failed'',
      ''smtp_auth_failed'', ''smtp_from_rejected'', ''smtp_recipient_rejected'', ''smtp_data_failed'',
      ''smtp_write_failed'', ''smtp_close_failed'', ''rate_limited'', ''send_failed'',
      ''missing_service_scope'', ''missing_service_token'', ''invalid_service_token'',
      ''service_token_not_registered'', ''service_type_not_allowed'', ''service_registry_not_configured'',
      ''list_services_failed'', ''app_settings_failed'', ''secret_encryption_key_required'']"

text \<open>
  The loop over the recipients: \<open>None\<close> when one of them is refused.  The post answers with a
  transport error or a status and the code decoded from the body (empty when there is none).
\<close>

fun cleanRecipients :: "string list \<Rightarrow> string list option" where
  "cleanRecipients [] = Some []"
| "cleanRecipients (r # rs) =
     (let recipient = TrimSpace r in
      if recipient = [] \<or> ContainsAny recipient [CHR 0x0D, CHR 0x0A] then None
      else map_option (\<lambda>xs. recipient # xs) (cleanRecipients rs))"

definition SendNotificationEmailHTML ::
  "goenv \<Rightarrow> (NotificationEmailRequest \<Rightarrow> (int \<times> string) result) \<Rightarrow> Client \<Rightarrow> string list \<Rightarrow> string \<Rightarrow> string
     \<Rightarrow> string \<Rightarrow> goerr option \<times> NotificationEmailRequest list" where
  "SendNotificationEmailHTML env post c recipients subject txt html =
     (if TrimSpace (clConfigError c) \<noteq> [] then (Some (ErrText (clConfigError c)), [])
      else if \<not> Enabled c then (Some (ErrText ''control panel email relay is not configured''), [])
      else case cleanRecipients recipients of
        None \<Rightarrow> (Some (ErrText ''notification email recipients are invalid''), [])
      | Some clean \<Rightarrow>
          if clean = [] \<or> TrimSpace subject = [] \<or> ContainsAny subject [CHR 0x0D, CHR 0x0A, CHR 0x00] \<or>
             TrimSpace txt = [] \<or> CHR 0x00 \<in> set txt \<or> length txt > 16 * 1024
          then (Some (ErrText ''notification email payload is invalid''), [])
          else if CHR 0x00 \<in> set html \<or> length html > 64 * 1024
          then (Some (ErrText ''notification email payload is invalid''), [])
          else
            (let request = \<lparr>erRecipients = clean, erSubject = TrimSpace subject, erText = txt, erHTML = html\<rparr> in
             case validateHTTPURL env (clBaseURL c) ''CONTROL_PANEL_URL'' of
               Some e \<Rightarrow> (Some (ErrText ''send_failed''), [])
             | None \<Rightarrow>
                (case post request of
                   Inl e \<Rightarrow> (Some (ErrText ''send_failed''), [request])
                 | Inr (status, code) \<Rightarrow>
                     if status \<ge> 200 \<and> status < 300 then (None, [request])
                     else (Some (ErrText (if safeNotificationEmailCode code then code else ''send_failed'')), [request]))))"

definition SendNotificationEmail ::
  "goenv \<Rightarrow> (NotificationEmailRequest \<Rightarrow> (int \<times> string) result) \<Rightarrow> Client \<Rightarrow> string list \<Rightarrow> string \<Rightarrow> string
     \<Rightarrow> goerr option \<times> NotificationEmailRequest list" where
  "SendNotificationEmail env post c recipients subject txt =
     SendNotificationEmailHTML env post c recipients subject txt []"

subsection \<open>The updater identity\<close>

record UpdaterIdentity =
  uiServiceID :: string
  uiServiceType :: string
  uiConfigRevision :: int

record UpdaterIdentityLatch =
  ulServiceType :: string
  ulIdentity :: UpdaterIdentity
  ulBound :: bool

definition NewUpdaterIdentityLatch :: "string \<Rightarrow> UpdaterIdentityLatch" where
  "NewUpdaterIdentityLatch serviceType = \<lparr>ulServiceType = TrimSpace serviceType,
     ulIdentity = \<lparr>uiServiceID = [], uiServiceType = [], uiConfigRevision = 0\<rparr>, ulBound = False\<rparr>"

definition ConfigRevisionFromEnv :: "goenv \<Rightarrow> int result" where
  "ConfigRevisionFromEnv env =
     (let raw = getenv env ''AUTOSTREAM_CONFIG_REVISION'' in
      if raw = [] then Inr 1
      else if raw \<noteq> TrimSpace raw
      then Inl (ErrText ''AUTOSTREAM_CONFIG_REVISION must be an unpadded positive integer'')
      else if hd raw = CHR ''0''
      then Inl (ErrText ''AUTOSTREAM_CONFIG_REVISION must not contain leading zeroes'')
      else if \<not> list_all (\<lambda>r. 48 \<le> r \<and> r \<le> 57) (runes raw)
      then Inl (ErrText ''AUTOSTREAM_CONFIG_REVISION must contain decimal digits only'')
      else case ParseInt raw of
        Some revision \<Rightarrow>
          if revision < 1
          then Inl (ErrText ''AUTOSTREAM_CONFIG_REVISION must be an integer greater than or equal to 1'')
          else Inr revision
      | None \<Rightarrow> Inl (ErrText ''AUTOSTREAM_CONFIG_REVISION must be an integer greater than or equal to 1''))"

definition latchBind :: "UpdaterIdentity \<Rightarrow> UpdaterIdentityLatch \<Rightarrow> UpdaterIdentity result \<times> UpdaterIdentityLatch" where
  "latchBind candidate l =
     (if uiServiceID candidate = [] then (Inl (ErrText ''updater service id is required''), l)
      else if \<not> ulBound l then (Inr candidate, l\<lparr>ulIdentity := candidate, ulBound := True\<rparr>)
      else if ulIdentity l \<noteq> candidate then (Inl ErrUpdaterIdentityDrift, l)
      else (Inr (ulIdentity l), l))"

text \<open>\<open>stat\<close> and \<open>file\<close> are what the two file system calls of one resolution answer.\<close>

definition ResolveFromEnv ::
  "ctlenv \<Rightarrow> fileRead \<Rightarrow> fileRead \<Rightarrow> UpdaterIdentityLatch \<Rightarrow> UpdaterIdentity result \<times> UpdaterIdentityLatch" where
  "ResolveFromEnv ct stat file l =
     (if ulServiceType l \<noteq> ServiceType
      then (Inl (ErrText (''updater service type must be '' @ [CHR 0x22] @ ServiceType @ [CHR 0x22])), l)
      else case ConfigRevisionFromEnv (ctGo ct) of
        Inl e \<Rightarrow> (Inl e, l)
      | Inr revision \<Rightarrow>
          if NodeConfigPendingFromEnv (ctGo ct) stat
          then (if ulBound l then (Inl ErrUpdaterIdentityDrift, l) else (Inl ErrUpdaterIdentityPending, l))
          else
            (let client = FromEnv ct file in
             if TrimSpace (clConfigError client) \<noteq> [] then (Inl (ErrText (clConfigError client)), l)
             else latchBind \<lparr>uiServiceID = TrimSpace (clServiceID client), uiServiceType = ServiceType,
                    uiConfigRevision = revision\<rparr> l))"

definition observabilityServiceID :: "ctlenv \<Rightarrow> fileRead \<Rightarrow> string" where
  "observabilityServiceID ct f =
     (let sid = TrimSpace (clServiceID (FromEnv ct f)) in
      if sid \<noteq> [] then sid
      else
        (let sid' = TrimSpace (getenv (ctGo ct) ''SERVICE_ID'') in
         if sid' \<noteq> [] then sid' else ''observability-01''))"

subsection \<open>Facts\<close>

lemma runesB_low: "\<forall>b\<in>set bs. b < 128 \<Longrightarrow> runesB bs = bs"
  by (induction bs) (simp_all add: runesB.simps)

lemma runes_ASCII: "isASCII s \<Longrightarrow> runes s = map b2n s"
  by (simp add: runes_def runesB_low isASCII_def list_all_iff)

lemma digits_runes: "list_all isDigit s \<Longrightarrow> list_all (\<lambda>r. 48 \<le> r \<and> r \<le> 57) (runes s)"
  by (subst runes_ASCII) (auto simp: isASCII_def list_all_iff isDigit_def)

lemma digitsValue_pos: "list_all isDigit s \<Longrightarrow> s \<noteq> [] \<Longrightarrow> hd s \<noteq> CHR ''0'' \<Longrightarrow> 0 < digitsValue s"
proof (induction s rule: rev_induct)
  case (snoc c s)
  show ?case
  proof (cases "s = []")
    case True
    have "b2n c \<noteq> b2n (CHR ''0'')" using snoc.prems True by (simp add: b2n_inject)
    then show ?thesis using snoc.prems True by (simp add: digitsValue_def isDigit_def b2n_def)
  next
    case False
    then show ?thesis using snoc by (simp add: digitsValue_snoc)
  qed
qed simp

lemma natDigits_digitsValue:
  "list_all isDigit s \<Longrightarrow> s \<noteq> [] \<Longrightarrow> hd s \<noteq> CHR ''0'' \<Longrightarrow> natDigits (digitsValue s) = s"
proof (induction s rule: rev_induct)
  case (snoc c s)
  have c: "b2n c - 48 < 10" "digitChar (b2n c - 48) = c"
    using snoc.prems by (auto simp: isDigit_def digitChar_def n2b_def b2n_def)
  show ?case
  proof (cases "s = []")
    case True
    then show ?thesis using c by (simp add: digitsValue_def natDigits.simps)
  next
    case False
    have pos: "0 < digitsValue s" using snoc.prems False by (intro digitsValue_pos) auto
    have "natDigits (digitsValue s) = s" using snoc False by simp
    with c pos show ?thesis by (simp add: digitsValue_snoc natDigits.simps [of "digitsValue s * 10 + _"])
  qed
qed simp

lemma hd_natDigits: "0 < n \<Longrightarrow> hd (natDigits n) \<noteq> CHR ''0''"
proof (induction n rule: natDigits.induct)
  case (1 n)
  have "digitChar n \<noteq> CHR ''0''" if "n < 10"
  proof -
    have "b2n (digitChar n) = 48 + n" using that by (simp add: digitChar_def b2n_n2b)
    then show ?thesis using 1 by (auto simp: b2n_def)
  qed
  then show ?case using 1 by (simp add: natDigits.simps [of n])
qed

text \<open>What the revision reader accepts is exactly the canonical decimal.\<close>

lemma ParseInt_canonical:
  assumes "raw \<noteq> []" "hd raw \<noteq> CHR ''0''" "list_all (\<lambda>r. 48 \<le> r \<and> r \<le> 57) (runes raw)" "ParseInt raw = Some n"
  shows "raw = FormatInt n \<and> 1 \<le> n \<and> n < 2 ^ 63"
proof -
  have no: "CHR ''-'' \<notin> set raw" "CHR ''+'' \<notin> set raw"
    using assms(3) runes_ascii [of "CHR ''-''" raw] runes_ascii [of "CHR ''+''" raw]
    by (fastforce simp: list_all_iff b2n_def)+
  then have "\<not> HasPrefix raw ''-''" "\<not> HasPrefix raw ''+''" using assms(1) by (cases raw; auto simp: HasPrefix_def)+
  with assms(1,4) have d: "list_all isDigit raw" "n = int (digitsValue raw)" "in64 n"
    by (auto simp: ParseInt_def Let_def split: if_splits)
  have "0 < digitsValue raw" "natDigits (digitsValue raw) = raw"
    using d(1) assms(1,2) by (auto intro: digitsValue_pos natDigits_digitsValue)
  with d(2,3) show ?thesis by (auto simp: FormatInt_def in64_def)
qed

subsection \<open>Properties\<close>

text \<open>
  The configuration revision is read exactly: an unset variable is revision one, and otherwise
  the reader accepts a number precisely when the variable is its canonical decimal text and the
  number is between one and the largest 64-bit integer.
\<close>

theorem ConfigRevisionFromEnv_exact:
  "ConfigRevisionFromEnv env = Inr n \<longleftrightarrow>
     (let raw = getenv env ''AUTOSTREAM_CONFIG_REVISION'' in
      (raw = [] \<and> n = 1) \<or> (raw = FormatInt n \<and> 1 \<le> n \<and> n < 2 ^ 63))"
proof (cases "getenv env ''AUTOSTREAM_CONFIG_REVISION'' = []")
  case True
  have "FormatInt n \<noteq> []" by (simp add: FormatInt_def)
  with True show ?thesis by (auto simp: ConfigRevisionFromEnv_def)
next
  case False
  let ?raw = "getenv env ''AUTOSTREAM_CONFIG_REVISION''"
  have conv: "ConfigRevisionFromEnv env = Inr n" if r: "?raw = FormatInt n" "1 \<le> n" "n < 2 ^ 63"
  proof -
    have f: "FormatInt n = natDigits (nat n)" using r by (simp add: FormatInt_def)
    have dig: "list_all isDigit (FormatInt n)" by (simp add: f natDigits_digits)
    have "TrimSpace (FormatInt n) = FormatInt n"
    proof (rule TrimSpace_graphic)
      have "isDigit (hd (FormatInt n))" "isDigit (last (FormatInt n))"
        using dig f by (auto simp: list_all_iff)
      then show "FormatInt n = [] \<or> (graphic (hd (FormatInt n)) \<and> graphic (last (FormatInt n)))"
        by (auto simp: isDigit_def graphic_def)
    qed
    moreover have "hd (FormatInt n) \<noteq> CHR ''0''" using f hd_natDigits [of "nat n"] r by simp
    moreover have "ParseInt (FormatInt n) = Some n" using r by (intro ParseInt_FormatInt) (simp add: in64_def)
    ultimately show ?thesis
      using False r digits_runes [OF dig] by (simp add: ConfigRevisionFromEnv_def Let_def)
  qed
  moreover have "?raw = FormatInt n \<and> 1 \<le> n \<and> n < 2 ^ 63" if "ConfigRevisionFromEnv env = Inr n"
    using that False ParseInt_canonical [OF False, of n] unfolding ConfigRevisionFromEnv_def Let_def
    by (simp split: if_split_asm option.split_asm)
  ultimately show ?thesis using False by (auto simp: Let_def)
qed

text \<open>Once bound, a latch neither changes nor yields another identity.\<close>

lemma ResolveFromEnv_bound:
  assumes "ulBound l"
  shows "snd (ResolveFromEnv ct stat file l) = l \<and>
    (\<forall>i. fst (ResolveFromEnv ct stat file l) = Inr i \<longrightarrow> i = ulIdentity l)"
  using assms by (simp add: ResolveFromEnv_def latchBind_def Let_def split: sum.split)

lemma ResolveFromEnv_unbound:
  assumes "\<not> ulBound l" "ResolveFromEnv ct stat file l = (r, l')"
  shows "(\<exists>e. r = Inl e \<and> l' = l) \<or>
    (\<exists>i. r = Inr i \<and> l' = l\<lparr>ulIdentity := i, ulBound := True\<rparr> \<and> uiServiceID i \<noteq> [] \<and> uiServiceType i = ServiceType \<and>
       ConfigRevisionFromEnv (ctGo ct) = Inr (uiConfigRevision i))"
  using assms by (auto simp: ResolveFromEnv_def latchBind_def Let_def split: sum.splits if_splits)

text \<open>A history of resolutions, each with its own environment and file system answers.\<close>

fun resolveAll :: "(ctlenv \<times> fileRead \<times> fileRead) list \<Rightarrow> UpdaterIdentityLatch \<Rightarrow> UpdaterIdentity result list" where
  "resolveAll [] l = []"
| "resolveAll ((ct, stat, file) # rs) l =
     (let (r, l') = ResolveFromEnv ct stat file l in r # resolveAll rs l')"

lemma resolveAll_bound: "ulBound l \<Longrightarrow> Inr i \<in> set (resolveAll rs l) \<Longrightarrow> i = ulIdentity l"
proof (induction rs)
  case (Cons x rs)
  obtain ct stat fl where x: "x = (ct, stat, fl)" by (cases x)
  obtain r l' where step: "ResolveFromEnv ct stat fl l = (r, l')" by (cases "ResolveFromEnv ct stat fl l")
  with ResolveFromEnv_bound [OF Cons.prems(1), of ct stat fl] Cons x show ?case by auto
qed simp

text \<open>
  the updater identity never drifts within a process: over any history of resolutions, with
  the environment and the node configuration changing at will between them, all identities that
  are ever returned are one and the same, with a service id that is not empty, the service type of
  this service and a positive revision.
\<close>

theorem updater_identity_latched:
  assumes "\<not> ulBound l" "Inr i \<in> set (resolveAll rs l)" "Inr j \<in> set (resolveAll rs l)"
  shows "i = j \<and> uiServiceID i \<noteq> [] \<and> uiServiceType i = ''observability'' \<and> 1 \<le> uiConfigRevision i"
  using assms
proof (induction rs)
  case (Cons x rs)
  obtain ct stat fl where x: "x = (ct, stat, fl)" by (cases x)
  obtain r l' where step: "ResolveFromEnv ct stat fl l = (r, l')" by (cases "ResolveFromEnv ct stat fl l")
  from ResolveFromEnv_unbound [OF Cons.prems(1) step] show ?case
  proof (elim disjE exE conjE)
    fix k assume k: "r = Inr k" "l' = l\<lparr>ulIdentity := k, ulBound := True\<rparr>" "uiServiceID k \<noteq> []"
      "uiServiceType k = ServiceType" "ConfigRevisionFromEnv (ctGo ct) = Inr (uiConfigRevision k)"
    have only: "y = k" if "Inr y \<in> set (resolveAll (x # rs) l)" for y
      using that k step x resolveAll_bound [of l' y rs] by auto
    have "1 \<le> uiConfigRevision k"
      using k(5) by (auto simp: ConfigRevisionFromEnv_def Let_def split: if_splits option.splits)
    with only [OF Cons.prems(2)] only [OF Cons.prems(3)] k show ?thesis by (simp add: ServiceType_def)
  qed (use Cons x step in auto)
qed simp

definition sampleCtl :: ctlenv where
  "sampleCtl = \<lparr>ctGo = concreteEnv [], ctUnquote = (\<lambda>_. None), ctDuration = (\<lambda>_. None), ctVersion = ''dev''\<rparr>"

theorem updater_identity_latched_witness:
  "\<exists>i. Inr i \<in> set (resolveAll [(sampleCtl, FileMissing, FileMissing)] (NewUpdaterIdentityLatch ''observability'')) \<and>
     uiServiceID i \<noteq> [] \<and> uiServiceType i = ''observability'' \<and> 1 \<le> uiConfigRevision i"
proof -
  let ?i = "\<lparr>uiServiceID = ''observability-01'', uiServiceType = ''observability'', uiConfigRevision = 1\<rparr>"
  let ?l = "NewUpdaterIdentityLatch ''observability''"
  have "Inr ?i \<in> set (resolveAll [(sampleCtl, FileMissing, FileMissing)] ?l)"
    by (simp add: ResolveFromEnv_def NewUpdaterIdentityLatch_def ServiceType_def ConfigRevisionFromEnv_def
        NodeConfigPendingFromEnv_def NodeConfigPathFromEnv_def FromEnv_def applyNodeConfigFromEnv_def envDefault_def
        sampleCtl_def concreteEnv_def latchBind_def Let_def go_eval)
  moreover from this have "?i = ?i \<and> uiServiceID ?i \<noteq> [] \<and> uiServiceType ?i = ''observability'' \<and> 1 \<le> uiConfigRevision ?i"
    by (intro updater_identity_latched [of ?l]) (simp add: NewUpdaterIdentityLatch_def)
  ultimately show ?thesis by blast
qed

text \<open>
  C30: nothing but an application retry crosses to the Control Panel.  A proposal is posted at most
  once, and only when the client is configured with an acceptable address, the proposal is valid
  and names this service as its detector, and then as the four correlation fields of one of the
  two retries for a bounded stream; the call succeeds exactly when the panel answered with 2xx.
\<close>

theorem ExecuteRemediationProposal_sent:
  assumes "ExecuteRemediationProposal env post c p streamID = (err, sent)"
  shows "(sent = [] \<and> err \<noteq> None) \<or>
    (\<exists>action. sent = [\<lparr>lrActionID = ppProposalID p, lrAction = action, lrIncidentID = ppIncidentID p,
        lrStreamID = TrimSpace streamID\<rparr>] \<and>
      action \<in> {''retry_gdrive_upload'', ''retry_package_remux''} \<and> LegacyRetryAction (ppActionType p) = Some action \<and>
      Enabled c \<and> validateHTTPURL env (clBaseURL c) ''CONTROL_PANEL_URL'' = None \<and> proposalValidate p = None \<and>
      (TrimSpace (clServiceID c) = [] \<or> ppDetectorServiceID p = TrimSpace (clServiceID c)) \<and>
      IsBoundedCorrelationID streamID \<and>
      (err = None \<longleftrightarrow> (\<exists>status. post (hd sent) = Inr status \<and> 200 \<le> status \<and> status < 300)))"
proof (cases "adaptProposalToLegacyRemediationRequest p streamID")
  case (Inl e)
  then show ?thesis using assms by (auto simp: ExecuteRemediationProposal_def split: if_splits)
next
  case (Inr req)
  then obtain action where a: "LegacyRetryAction (ppActionType p) = Some action" "proposalValidate p = None"
    "IsBoundedCorrelationID streamID"
    "req = \<lparr>lrActionID = ppProposalID p, lrAction = action, lrIncidentID = ppIncidentID p, lrStreamID = TrimSpace streamID\<rparr>"
    by (auto simp: adaptProposalToLegacyRemediationRequest_def Let_def IsBoundedCorrelationID_def split: if_splits option.splits)
  have act: "action \<in> {''retry_gdrive_upload'', ''retry_package_remux''}"
    using a(1) by (auto simp: LegacyRetryAction_def split: if_splits)
  show ?thesis
  proof (cases "sent = []")
    case True
    then show ?thesis using assms Inr
      by (auto dest: sym simp: ExecuteRemediationProposal_def executeLegacyRemediation_def split: if_splits option.splits sum.splits)
  next
    case False
    then have "sent = [req]" "Enabled c" "validateHTTPURL env (clBaseURL c) ''CONTROL_PANEL_URL'' = None"
      "TrimSpace (clServiceID c) = [] \<or> ppDetectorServiceID p = TrimSpace (clServiceID c)"
      "err = None \<longleftrightarrow> (\<exists>status. post req = Inr status \<and> 200 \<le> status \<and> status < 300)"
      using assms Inr
      by (auto simp: ExecuteRemediationProposal_def executeLegacyRemediation_def split: if_splits option.splits sum.splits)
    with a act show ?thesis by auto
  qed
qed

definition panelEnv :: goenv where
  "panelEnv = (concreteEnv [])\<lparr>urlParse := (\<lambda>_. Some \<lparr>urlScheme = ''https'', urlHost = ''panel'', urlHostname = ''panel'',
     urlUser = None, urlPath = [], urlRawQuery = [], urlFragment = []\<rparr>)\<rparr>"

definition panelClient :: Client where
  "panelClient = \<lparr>clBaseURL = ''https://panel'', clToken = ''t'', clServiceID = ''obs-01'', clServiceName = ''o'',
     clServicePublicURL = [], clVersion = ''dev'', clHeartbeatEvery = 1, clConfigError = [], clTimeout = 1\<rparr>"

definition panelProposal :: Proposal where
  "panelProposal = retryProposal panelEnv 7 (sampleAction ''retry_gdrive_upload'' False) retryIncident
     ''obs-01'' 7 ''application.retry_gdrive_upload''"

lemma boundedID_samples:
  "boundedIDPattern ''rem_1''" "boundedIDPattern ''inc_1''" "boundedIDPattern ''enc-01''"
  "boundedIDPattern ''sig_1''" "boundedIDPattern ''obs-01''" "boundedIDPattern ''str-1''"
  by (simp_all add: boundedIDPattern_def boundedPattern_def alnumByte_def wordByte_def wordRune_def go_eval)

lemma panelProposal_valid: "proposalValidate panelProposal = None"
proof -
  have "sha256Sized panelEnv" using concreteEnv_sha256 by (simp add: panelEnv_def sha256Sized_def)
  then show ?thesis
    unfolding panelProposal_def
    by (subst retryProposal_valid)
      (use boundedID_samples in \<open>simp_all add: isApplicationRetryProposal_def proposalActions IsBoundedCorrelationID_def
        sampleAction_def retryIncident_def zeroIncident_def zeroAction_def go_eval\<close>)
qed

theorem ExecuteRemediationProposal_sent_witness:
  "\<exists>req. ExecuteRemediationProposal panelEnv (\<lambda>_. Inr 204) panelClient panelProposal ''str-1'' = (None, [req]) \<and>
     lrAction req \<in> {''retry_gdrive_upload'', ''retry_package_remux''}"
proof -
  have p: "ppProposalID panelProposal = ''rem_1''" "ppIncidentID panelProposal = ''inc_1''"
      "ppActionType panelProposal = ''application.retry_gdrive_upload''" "ppDetectorServiceID panelProposal = ''obs-01''"
    by (simp_all add: panelProposal_def retryProposal_def sampleAction_def retryIncident_def zeroIncident_def
        zeroAction_def Let_def go_eval)
  have "\<exists>req. ExecuteRemediationProposal panelEnv (\<lambda>_. Inr 204) panelClient panelProposal ''str-1'' = (None, [req])"
    using boundedID_samples
    by (simp add: ExecuteRemediationProposal_def adaptProposalToLegacyRemediationRequest_def executeLegacyRemediation_def
        panelProposal_valid p LegacyRetryAction_def proposalActions IsBoundedCorrelationID_def panelClient_def Enabled_def
        validateHTTPURL_def validateHTTPURLWithAllowedHTTPHost_def panelEnv_def go_eval)
  then obtain req where "ExecuteRemediationProposal panelEnv (\<lambda>_. Inr 204) panelClient panelProposal ''str-1'' = (None, [req])"
    by blast
  with ExecuteRemediationProposal_sent [OF this] show ?thesis by auto
qed

end
