(* ===== verification/Request_Limits.thy ===== *)
theory Request_Limits
  imports Rate_Limit Node_Config
begin

text \<open>
  Which requests the limiter of \<open>Rate_Limit\<close> counts and under which bucket: the routes,
  \<^verbatim>\<open>isRateLimitedEndpoint\<close>, \<^verbatim>\<open>rateLimitPath\<close>, \<^verbatim>\<open>clientIP\<close> and the middleware
  \<^verbatim>\<open>rateLimitSensitive\<close> of \<^verbatim>\<open>internal/httpapi/server.go\<close>.
\<close>

subsection \<open>Requests\<close>

text \<open>What the code reads of \<^verbatim>\<open>http.Request\<close>; the path is the decoded path of the URL.\<close>

record httpRequest =
  hrMethod :: string
  hrPath :: string
  hrRemoteAddr :: string
  hrForwardedFor :: string

text \<open>
  What the code uses of \<^verbatim>\<open>net/netip\<close> and \<^verbatim>\<open>net.SplitHostPort\<close>; an address is a value of the type
  variable, a prefix the set of addresses it contains.
\<close>

record 'ip netip =
  niParseAddr :: "string \<Rightarrow> 'ip option"
  niUnmap :: "'ip \<Rightarrow> 'ip"
  niString :: "'ip \<Rightarrow> string"
  niParsePrefix :: "string \<Rightarrow> ('ip \<Rightarrow> bool) option"
  niSplitHostPort :: "string \<Rightarrow> (string \<times> string) option"

subsection \<open>Routes\<close>

text \<open>
  The patterns of the mux.  A pattern with \<^verbatim>\<open>{id}\<close> is the text before and after the identifier;
  the identifier matches one segment, which may contain a slash once it is decoded.
\<close>

datatype route = Fixed string string | WithID string string string

definition routes :: "route list" where
  "routes =
     [Fixed ''GET'' ''/'', Fixed ''GET'' ''/health'', Fixed ''GET'' ''/status'', Fixed ''GET'' ''/updater/version'',
      Fixed ''POST'' ''/heartbeat'', Fixed ''POST'' ''/signals'', Fixed ''GET'' ''/signals'', Fixed ''GET'' ''/metrics'',
      Fixed ''GET'' ''/diagnostics'', Fixed ''GET'' ''/incidents'', WithID ''GET'' ''/incidents/'' [],
      WithID ''POST'' ''/incidents/'' ''/diagnostics/rerun'', WithID ''POST'' ''/incidents/'' ''/acknowledge'',
      WithID ''POST'' ''/incidents/'' ''/resolve'', Fixed ''GET'' ''/notification-deliveries'',
      Fixed ''GET'' ''/notification-channels'', Fixed ''POST'' ''/notification-channels'',
      WithID ''GET'' ''/notification-channels/'' [], WithID ''PUT'' ''/notification-channels/'' [],
      WithID ''DELETE'' ''/notification-channels/'' [], WithID ''POST'' ''/notification-channels/'' ''/test'',
      Fixed ''POST'' ''/notification-events'', Fixed ''GET'' ''/remediation-actions'',
      WithID ''GET'' ''/remediation-actions/'' ''/dispatch-context'',
      WithID ''POST'' ''/remediation-actions/'' ''/approve'', WithID ''POST'' ''/remediation-actions/'' ''/execute'']"

text \<open>A pattern with the method \<^verbatim>\<open>GET\<close> also matches \<^verbatim>\<open>HEAD\<close> requests.\<close>

definition methodMatches :: "string \<Rightarrow> string \<Rightarrow> bool" where
  "methodMatches pat m \<longleftrightarrow> m = pat \<or> (pat = ''GET'' \<and> m = ''HEAD'')"

fun matches :: "route \<Rightarrow> httpRequest \<Rightarrow> bool" where
  "matches (Fixed m p) r = (methodMatches m (hrMethod r) \<and> hrPath r = p)"
| "matches (WithID m pre suf) r =
     (methodMatches m (hrMethod r) \<and> length pre + length suf < length (hrPath r) \<and> HasPrefix (hrPath r) pre \<and>
      HasSuffix (hrPath r) suf)"

definition isRateLimitedEndpoint :: "httpRequest \<Rightarrow> bool" where
  "isRateLimitedEndpoint r =
     (let path = hrPath r in
      if hrMethod r = ''GET'' then
        path \<in> {''/signals'', ''/metrics'', ''/diagnostics'', ''/incidents'', ''/notification-deliveries'',
                 ''/notification-channels'', ''/remediation-actions''} \<or>
        HasPrefix path ''/incidents/'' \<or> HasPrefix path ''/notification-channels/'' \<or> HasPrefix path ''/remediation-actions/''
      else if hrMethod r = ''POST'' then
        path \<in> {''/heartbeat'', ''/signals'', ''/notification-channels'', ''/notification-events''} \<or>
        (HasPrefix path ''/incidents/'' \<and>
           (HasSuffix path ''/acknowledge'' \<or> HasSuffix path ''/resolve'' \<or> HasSuffix path ''/diagnostics/rerun'')) \<or>
        (HasPrefix path ''/notification-channels/'' \<and> HasSuffix path ''/test'') \<or>
        (HasPrefix path ''/remediation-actions/'' \<and> (HasSuffix path ''/approve'' \<or> HasSuffix path ''/execute''))
      else if hrMethod r = ''PUT'' \<or> hrMethod r = ''DELETE'' then HasPrefix path ''/notification-channels/''
      else False)"

definition rateLimitPath :: "httpRequest \<Rightarrow> string" where
  "rateLimitPath r =
     (let path = hrPath r; m = hrMethod r in
      if m = ''GET'' \<and> HasPrefix path ''/incidents/'' then ''/incidents/{id}''
      else if m = ''GET'' \<and> HasPrefix path ''/notification-channels/'' then ''/notification-channels/{id}''
      else if m = ''GET'' \<and> HasPrefix path ''/remediation-actions/'' \<and> HasSuffix path ''/dispatch-context''
      then ''/remediation-actions/{id}/dispatch-context''
      else if HasPrefix path ''/incidents/'' \<and> HasSuffix path ''/acknowledge'' then ''/incidents/{id}/acknowledge''
      else if HasPrefix path ''/incidents/'' \<and> HasSuffix path ''/resolve'' then ''/incidents/{id}/resolve''
      else if HasPrefix path ''/incidents/'' \<and> HasSuffix path ''/diagnostics/rerun'' then ''/incidents/{id}/diagnostics/rerun''
      else if HasPrefix path ''/notification-channels/'' \<and> HasSuffix path ''/test'' then ''/notification-channels/{id}/test''
      else if (m = ''PUT'' \<or> m = ''DELETE'') \<and> HasPrefix path ''/notification-channels/'' then ''/notification-channels/{id}''
      else if HasPrefix path ''/remediation-actions/'' \<and> HasSuffix path ''/approve'' then ''/remediation-actions/{id}/approve''
      else if HasPrefix path ''/remediation-actions/'' \<and> HasSuffix path ''/execute'' then ''/remediation-actions/{id}/execute''
      else path)"

subsection \<open>The address of the client\<close>

text \<open>\<^verbatim>\<open>strings.LastIndex\<close> for one byte; \<open>None\<close> is \<open>-1\<close>.\<close>

fun lastIndexByte :: "char \<Rightarrow> string \<Rightarrow> nat option" where
  "lastIndexByte c [] = None"
| "lastIndexByte c (x # s) =
     (case lastIndexByte c s of Some i \<Rightarrow> Some (Suc i) | None \<Rightarrow> if x = c then Some 0 else None)"

definition remoteHost :: "'ip netip \<Rightarrow> string \<Rightarrow> string" where
  "remoteHost ni remoteAddr =
     (case niSplitHostPort ni remoteAddr of
        Some (host, _) \<Rightarrow> if host \<noteq> [] then host else
          (case lastIndexByte (CHR '':'') remoteAddr of
             Some idx \<Rightarrow> if idx > 0 \<and> CHR '':'' \<notin> set (drop (Suc idx) remoteAddr) then take idx remoteAddr
                         else TrimCut ''[]'' remoteAddr
           | None \<Rightarrow> TrimCut ''[]'' remoteAddr)
      | None \<Rightarrow>
          (case lastIndexByte (CHR '':'') remoteAddr of
             Some idx \<Rightarrow> if idx > 0 \<and> CHR '':'' \<notin> set (drop (Suc idx) remoteAddr) then take idx remoteAddr
                         else TrimCut ''[]'' remoteAddr
           | None \<Rightarrow> TrimCut ''[]'' remoteAddr))"

text \<open>One entry of the list of trusted proxies.\<close>

definition trustedItem :: "'ip netip \<Rightarrow> 'ip \<Rightarrow> string \<Rightarrow> bool" where
  "trustedItem ni addr raw =
     (let item = TrimSpace raw in
      if item = [] then False
      else case niParsePrefix ni item of
        Some contains \<Rightarrow> contains addr
      | None \<Rightarrow> (case niParseAddr ni item of Some a \<Rightarrow> niUnmap ni a = addr | None \<Rightarrow> False))"

definition trustedProxy :: "goenv \<Rightarrow> 'ip netip \<Rightarrow> string \<Rightarrow> bool" where
  "trustedProxy env ni host =
     (case niParseAddr ni (TrimSpace host) of
        None \<Rightarrow> False
      | Some a \<Rightarrow>
         (let addr = niUnmap ni a;
              raw0 = TrimSpace (getenv env ''OBSERVABILITY_TRUSTED_PROXIES'');
              raw = (if raw0 = [] then TrimSpace (getenv env ''AUTOSTREAM_TRUSTED_PROXIES'') else raw0)
          in if raw = [] then False else list_ex (trustedItem ni addr) (splitByte (CHR '','') raw)))"

text \<open>The loop of \<^verbatim>\<open>clientIP\<close> over the hops, nearest first.\<close>

fun walkHops :: "goenv \<Rightarrow> 'ip netip \<Rightarrow> string \<Rightarrow> 'ip \<Rightarrow> string list \<Rightarrow> string" where
  "walkHops env ni remote current [] = niString ni current"
| "walkHops env ni remote current (h # hs) =
     (case niParseAddr ni (TrimSpace h) of
        None \<Rightarrow> remote
      | Some hop \<Rightarrow>
          if \<not> trustedProxy env ni (niString ni current) then niString ni current
          else walkHops env ni remote (niUnmap ni hop) hs)"

definition clientIP :: "goenv \<Rightarrow> 'ip netip \<Rightarrow> httpRequest \<Rightarrow> string" where
  "clientIP env ni r =
     (let remote = remoteHost ni (hrRemoteAddr r);
          forwarded = TrimSpace (hrForwardedFor r)
      in if forwarded \<noteq> [] \<and> trustedProxy env ni remote then
           (case niParseAddr ni remote of
              None \<Rightarrow> remote
            | Some current \<Rightarrow> walkHops env ni remote (niUnmap ni current) (rev (splitByte (CHR '','') forwarded)))
         else if remote \<noteq> [] then remote
         else if TrimSpace (hrRemoteAddr r) \<noteq> [] then TrimSpace (hrRemoteAddr r)
         else ''unknown'')"

definition rateLimitKey :: "goenv \<Rightarrow> 'ip netip \<Rightarrow> httpRequest \<Rightarrow> string" where
  "rateLimitKey env ni r = hrMethod r @ [CHR 0x00] @ rateLimitPath r @ [CHR 0x00] @ clientIP env ni r"

text \<open>
  The middleware: the code of the refusal, or \<open>None\<close> when the request goes on to its handler.
  Without a limiter every request goes on.
\<close>

definition rateLimitSensitive ::
  "goenv \<Rightarrow> 'ip netip \<Rightarrow> instant \<Rightarrow> httpRequest \<Rightarrow> rateLimiter option \<Rightarrow> (int \<times> string) option \<times> rateLimiter option" where
  "rateLimitSensitive env ni now r limiter =
     (case limiter of
        None \<Rightarrow> (None, None)
      | Some l \<Rightarrow>
          if isRateLimitedEndpoint r then
            (case allow (rateLimitKey env ni r) now l of
               (Inl e, l') \<Rightarrow> (Some (503, ''rate_limit_unavailable''), Some l')
             | (Inr allowed, l') \<Rightarrow> (if \<not> allowed then Some (429, ''rate_limited'') else None, Some l'))
          else (None, Some l))"

subsection \<open>Properties\<close>

definition openRoutes :: "route list" where
  "openRoutes = [Fixed ''GET'' ''/'', Fixed ''GET'' ''/health'', Fixed ''GET'' ''/status'', Fixed ''GET'' ''/updater/version'']"

definition bucketPaths :: "string list" where
  "bucketPaths =
     [''/heartbeat'', ''/signals'', ''/metrics'', ''/diagnostics'', ''/incidents'', ''/incidents/{id}'',
      ''/incidents/{id}/diagnostics/rerun'', ''/incidents/{id}/acknowledge'', ''/incidents/{id}/resolve'',
      ''/notification-deliveries'', ''/notification-channels'', ''/notification-channels/{id}'',
      ''/notification-channels/{id}/test'', ''/notification-events'', ''/remediation-actions'',
      ''/remediation-actions/{id}/dispatch-context'', ''/remediation-actions/{id}/approve'', ''/remediation-actions/{id}/execute'']"

lemma HasPrefix_Cons [simp]:
  "HasPrefix s []" "\<not> HasPrefix [] (d # p)" "HasPrefix (c # s) (d # p) \<longleftrightarrow> c = d \<and> HasPrefix s p"
  by (simp_all add: HasPrefix_def)

lemma route_limited:
  "list_all (\<lambda>rt. rt \<notin> set openRoutes \<longrightarrow> matches rt r \<longrightarrow> hrMethod r \<noteq> ''HEAD'' \<longrightarrow> isRateLimitedEndpoint r) routes"
  unfolding routes_def list.pred_inject
  by (intro conjI TrueI impI) (simp_all add: openRoutes_def isRateLimitedEndpoint_def methodMatches_def Let_def)

lemma route_bucket:
  "list_all (\<lambda>rt. rt \<notin> set openRoutes \<longrightarrow> matches rt r \<longrightarrow> hrMethod r \<noteq> ''HEAD'' \<longrightarrow> rateLimitPath r \<in> set bucketPaths) routes"
  unfolding routes_def list.pred_inject
  by (intro conjI TrueI impI) (simp_all add: openRoutes_def rateLimitPath_def bucketPaths_def methodMatches_def Let_def)

text \<open>
  C31: which requests to a protected route the limiter counts.  Every request other than \<^verbatim>\<open>HEAD\<close> that matches a route of
  the server, the four public ones apart, is counted, and whatever identifier its path carries, the path part of its bucket is
  one of eighteen fixed texts; so it reached its handler only because the limiter admitted it, and one client can occupy only a
  fixed number of buckets per method.  A \<^verbatim>\<open>HEAD\<close> request, which the mux routes to the \<^verbatim>\<open>GET\<close> handlers, always passes and
  leaves the limiter as it was.
\<close>

theorem protected_routes_limited:
  assumes "rt \<in> set routes" "rt \<notin> set openRoutes" "matches rt r"
  shows "if hrMethod r = ''HEAD'' then (\<forall>limiter. rateLimitSensitive env ni now r limiter = (None, limiter))
    else isRateLimitedEndpoint r \<and> rateLimitPath r \<in> set bucketPaths \<and>
      (\<forall>l l'. rateLimitSensitive env ni now r (Some l) = (None, l') \<longrightarrow>
         fst (allow (rateLimitKey env ni r) now l) = Inr True)"
proof (cases "hrMethod r = ''HEAD''")
  case True
  then have "\<not> isRateLimitedEndpoint r" by (simp add: isRateLimitedEndpoint_def Let_def)
  then show ?thesis using True by (simp add: rateLimitSensitive_def split: option.split)
next
  case False
  then have "isRateLimitedEndpoint r" "rateLimitPath r \<in> set bucketPaths"
    using route_limited [of r] route_bucket [of r] assms by (auto simp: list_all_iff)
  then show ?thesis using False
    by (auto simp: rateLimitSensitive_def split: prod.splits sum.splits if_splits)
qed

text \<open>Two addresses: the proxy is \<open>True\<close>.\<close>

definition twoIPs :: "bool netip" where
  "twoIPs = \<lparr>niParseAddr = (\<lambda>s. if s = ''10.0.0.1'' then Some True else if s = ''9.9.9.9'' then Some False else None),
     niUnmap = id, niString = (\<lambda>b. if b then ''10.0.0.1'' else ''9.9.9.9''), niParsePrefix = (\<lambda>_. None),
     niSplitHostPort = (\<lambda>_. None)\<rparr>"

definition proxyEnv :: goenv where
  "proxyEnv = concreteEnv [(''OBSERVABILITY_TRUSTED_PROXIES'', ''10.0.0.1'')]"

definition acknowledgeRequest :: httpRequest where
  "acknowledgeRequest = \<lparr>hrMethod = ''POST'', hrPath = ''/incidents/inc_1/acknowledge'', hrRemoteAddr = ''10.0.0.1:80'',
     hrForwardedFor = ''evil, 9.9.9.9''\<rparr>"

definition headRequest :: httpRequest where
  "headRequest = \<lparr>hrMethod = ''HEAD'', hrPath = ''/incidents'', hrRemoteAddr = ''10.0.0.1:80'', hrForwardedFor = []\<rparr>"

theorem protected_routes_limited_witness:
  "isRateLimitedEndpoint acknowledgeRequest \<and> rateLimitPath acknowledgeRequest \<in> set bucketPaths \<and>
   (\<forall>limiter. rateLimitSensitive proxyEnv twoIPs 0 headRequest limiter = (None, limiter))"
proof -
  have rt: "WithID ''POST'' ''/incidents/'' ''/acknowledge'' \<in> set routes" "Fixed ''GET'' ''/incidents'' \<in> set routes"
      "WithID ''POST'' ''/incidents/'' ''/acknowledge'' \<notin> set openRoutes" "Fixed ''GET'' ''/incidents'' \<notin> set openRoutes"
    by (simp_all add: routes_def openRoutes_def)
  have m: "matches (WithID ''POST'' ''/incidents/'' ''/acknowledge'') acknowledgeRequest" "matches (Fixed ''GET'' ''/incidents'') headRequest"
    "hrMethod acknowledgeRequest = ''POST''" "hrMethod headRequest = ''HEAD''"
    by (simp_all add: acknowledgeRequest_def headRequest_def HasSuffix_def methodMatches_def)
  from protected_routes_limited [OF rt(1,3) m(1), of proxyEnv twoIPs 0]
    protected_routes_limited [OF rt(2,4) m(2), of proxyEnv twoIPs 0] m(3,4) show ?thesis by simp
qed

subsection \<open>The address against a reference\<close>

text \<open>
  The addresses of a chain, the connection first and then the hops from the nearest to the farthest, and the one that answers for
  the request: the first that is not a trusted proxy, or else the last.
\<close>

definition hopAddresses :: "'ip netip \<Rightarrow> 'ip \<Rightarrow> string list \<Rightarrow> 'ip list" where
  "hopAddresses ni connection hops =
     niUnmap ni connection # map (\<lambda>h. niUnmap ni (the (niParseAddr ni (TrimSpace h)))) (rev hops)"

definition nearestUntrusted :: "goenv \<Rightarrow> 'ip netip \<Rightarrow> 'ip list \<Rightarrow> 'ip option" where
  "nearestUntrusted env ni addrs = List.find (\<lambda>a. \<not> trustedProxy env ni (niString ni a)) addrs"

definition hopParses :: "'ip netip \<Rightarrow> string \<Rightarrow> bool" where
  "hopParses ni h \<longleftrightarrow> niParseAddr ni (TrimSpace h) \<noteq> None"

lemma walkHops_parsed:
  assumes "list_all (hopParses ni) hs"
  shows "walkHops env ni remote a hs =
    (let as = a # map (\<lambda>h. niUnmap ni (the (niParseAddr ni (TrimSpace h)))) hs in
     niString ni (case nearestUntrusted env ni as of Some b \<Rightarrow> b | None \<Rightarrow> last as))"
  using assms
proof (induction hs arbitrary: a)
  case Nil
  then show ?case by (simp add: nearestUntrusted_def)
next
  case (Cons h hs)
  obtain b where b: "niParseAddr ni (TrimSpace h) = Some b" using Cons.prems by (auto simp: hopParses_def)
  show ?case using Cons.IH [of "niUnmap ni b"] Cons.prems b by (simp add: nearestUntrusted_def Let_def split: option.split)
qed

lemma walkHops_malformed:
  assumes "list_all (hopParses ni) right" "\<not> hopParses ni h"
  shows "walkHops env ni remote a (right @ h # left) =
    (case nearestUntrusted env ni (butlast (a # map (\<lambda>h. niUnmap ni (the (niParseAddr ni (TrimSpace h)))) right)) of
       Some b \<Rightarrow> niString ni b | None \<Rightarrow> remote)"
  using assms
proof (induction right arbitrary: a)
  case Nil
  then show ?case by (simp add: nearestUntrusted_def hopParses_def)
next
  case (Cons x right)
  obtain b where b: "niParseAddr ni (TrimSpace x) = Some b" using Cons.prems by (auto simp: hopParses_def)
  show ?case using Cons.IH [of "niUnmap ni b"] Cons.prems b by (simp add: nearestUntrusted_def)
qed

text \<open>
  C32: the address a request is counted under, in every case.  Without a forwarding header, or when the connection does not come
  from a trusted proxy, it is the address of the connection (or, should that be empty, the trimmed text it was taken from, or
  \<^verbatim>\<open>unknown\<close>); so it is when the address of a trusted proxy does not parse as it stands.  Behind a trusted proxy, when
  every hop parses, it is the first address that is not a trusted proxy on the way from the connection to the farthest hop, or the
  farthest hop when all are trusted.  When a hop \<open>h\<close> does not parse and those right of it do, it is the first
  such address among the connection and the hops right of \<open>h\<close>, the one next to \<open>h\<close> not among them, or else
  the address of the connection: a malformed hop just left of the client moves the request into the bucket of the proxy.
\<close>

theorem clientIP_exact:
  assumes "remote = remoteHost ni (hrRemoteAddr r)" "forwarded = TrimSpace (hrForwardedFor r)"
  shows "(forwarded = [] \<or> \<not> trustedProxy env ni remote \<longrightarrow> clientIP env ni r =
       (if remote \<noteq> [] then remote else if TrimSpace (hrRemoteAddr r) \<noteq> [] then TrimSpace (hrRemoteAddr r) else ''unknown'')) \<and>
    (forwarded \<noteq> [] \<and> trustedProxy env ni remote \<and> niParseAddr ni remote = None \<longrightarrow> clientIP env ni r = remote) \<and>
    (\<forall>c. forwarded \<noteq> [] \<and> trustedProxy env ni remote \<and> niParseAddr ni remote = Some c \<longrightarrow>
       (list_all (hopParses ni) (splitByte (CHR '','') forwarded) \<longrightarrow>
          clientIP env ni r = niString ni
            (case nearestUntrusted env ni (hopAddresses ni c (splitByte (CHR '','') forwarded)) of
               Some a \<Rightarrow> a | None \<Rightarrow> last (hopAddresses ni c (splitByte (CHR '','') forwarded)))) \<and>
       (\<forall>left h right. splitByte (CHR '','') forwarded = left @ h # right \<and> list_all (hopParses ni) right \<and> \<not> hopParses ni h \<longrightarrow>
          clientIP env ni r =
            (case nearestUntrusted env ni (butlast (hopAddresses ni c right)) of Some a \<Rightarrow> niString ni a | None \<Rightarrow> remote)))"
proof -
  have walk: "clientIP env ni r = walkHops env ni remote (niUnmap ni c) (rev (splitByte (CHR '','') forwarded))"
    if "forwarded \<noteq> []" "trustedProxy env ni remote" "niParseAddr ni remote = Some c" for c
    using that by (simp add: clientIP_def Let_def assms)
  have 0: "forwarded \<noteq> [] \<and> trustedProxy env ni remote \<and> niParseAddr ni remote = None \<Longrightarrow> clientIP env ni r = remote"
    using assms by (simp add: clientIP_def Let_def)
  have 1: "forwarded = [] \<or> \<not> trustedProxy env ni remote \<Longrightarrow> clientIP env ni r =
      (if remote \<noteq> [] then remote else if TrimSpace (hrRemoteAddr r) \<noteq> [] then TrimSpace (hrRemoteAddr r) else ''unknown'')"
    using assms by (auto simp: clientIP_def Let_def)
  have 2: "clientIP env ni r = niString ni (case nearestUntrusted env ni (hopAddresses ni c (splitByte (CHR '','') forwarded)) of
               Some a \<Rightarrow> a | None \<Rightarrow> last (hopAddresses ni c (splitByte (CHR '','') forwarded)))"
    if "forwarded \<noteq> []" "trustedProxy env ni remote" "niParseAddr ni remote = Some c"
      "list_all (hopParses ni) (splitByte (CHR '','') forwarded)" for c
  proof -
    have "list_all (hopParses ni) (rev (splitByte (CHR '','') forwarded))" using that(4) by simp
    from walkHops_parsed [OF this, of env remote "niUnmap ni c"] show ?thesis
      unfolding walk [OF that(1-3)] by (simp only: Let_def hopAddresses_def)
  qed
  have 3: "clientIP env ni r = (case nearestUntrusted env ni (butlast (hopAddresses ni c right)) of Some a \<Rightarrow> niString ni a | None \<Rightarrow> remote)"
    if "forwarded \<noteq> []" "trustedProxy env ni remote" "niParseAddr ni remote = Some c"
      "splitByte (CHR '','') forwarded = left @ h # right" "list_all (hopParses ni) right" "\<not> hopParses ni h" for c left h right
  proof -
    have rs: "list_all (hopParses ni) (rev right)" using that(5) by simp
    have hops: "rev (splitByte (CHR '','') forwarded) = rev right @ h # rev left" using that(4) by simp
    show ?thesis unfolding walk [OF that(1-3)] hops hopAddresses_def by (rule walkHops_malformed [OF rs that(6)])
  qed
  show ?thesis using 0 1 2 3 by blast
qed

theorem clientIP_exact_witness:
  "clientIP proxyEnv twoIPs acknowledgeRequest = ''10.0.0.1'' \<and>
   clientIP proxyEnv twoIPs (acknowledgeRequest\<lparr>hrForwardedFor := ''9.9.9.9''\<rparr>) = ''9.9.9.9''"
proof -
  have host: "''10.0.0.1'' = remoteHost twoIPs (hrRemoteAddr (acknowledgeRequest\<lparr>hrForwardedFor := f\<rparr>))" for f
    by (simp add: remoteHost_def twoIPs_def acknowledgeRequest_def)
  have trims: "TrimSpace ''10.0.0.1'' = ''10.0.0.1''" "TrimSpace ''9.9.9.9'' = ''9.9.9.9''"
    "TrimSpace ''evil'' = ''evil''" "TrimSpace ''evil, 9.9.9.9'' = ''evil, 9.9.9.9''" "TrimSpace '' 9.9.9.9'' = ''9.9.9.9''"
    by (simp_all add: go_eval)
  have trusted: "trustedProxy proxyEnv twoIPs ''10.0.0.1''" "\<not> trustedProxy proxyEnv twoIPs ''9.9.9.9''"
    "niParseAddr twoIPs ''10.0.0.1'' = Some True" "niParseAddr twoIPs ''evil'' = None" "niParseAddr twoIPs ''9.9.9.9'' = Some False"
    "niString twoIPs False = ''9.9.9.9''" "niString twoIPs True = ''10.0.0.1''" "niUnmap twoIPs = id"
    by (simp_all add: trustedProxy_def trustedItem_def twoIPs_def proxyEnv_def concreteEnv_def go_eval)
  have r: "acknowledgeRequest = acknowledgeRequest\<lparr>hrForwardedFor := ''evil, 9.9.9.9''\<rparr>" by (simp add: acknowledgeRequest_def)
  have malformed: "splitByte (CHR '','') ''evil, 9.9.9.9'' = [] @ ''evil'' # ['' 9.9.9.9'']" by simp
  have one: "clientIP proxyEnv twoIPs (acknowledgeRequest\<lparr>hrForwardedFor := ''evil, 9.9.9.9''\<rparr>) = ''10.0.0.1''"
    using conjunct2 [OF conjunct2 [OF clientIP_exact [OF host [of "''evil, 9.9.9.9''"] HOL.refl, of proxyEnv]], rule_format, of True,
        THEN conjunct2, rule_format, of "[]" "''evil''" "['' 9.9.9.9'']"] malformed
    by (simp add: trusted trims hopParses_def hopAddresses_def nearestUntrusted_def)
  have "clientIP proxyEnv twoIPs (acknowledgeRequest\<lparr>hrForwardedFor := ''9.9.9.9''\<rparr>) = ''9.9.9.9''"
    using conjunct2 [OF conjunct2 [OF clientIP_exact [OF host [of "''9.9.9.9''"] HOL.refl, of proxyEnv]], rule_format, of True,
        THEN conjunct1, rule_format]
    by (simp add: trusted trims hopParses_def hopAddresses_def nearestUntrusted_def)
  with one r show ?thesis by simp
qed

end
