(* ===== verification/Webhook.thy ===== *)
theory Webhook
  imports Channels Dedupe Node_Config
begin

text \<open>
  Notification delivery, \<^verbatim>\<open>internal/notifications/webhook.go\<close>: which addresses may be contacted,
  the retries of one destination and the fan-out over the configured channels.  The network is a
  parameter: name resolution, address parsing and the outcome of each attempt.  The message bodies
  are not modelled; no decision below depends on them.
\<close>

subsection \<open>What delivery takes from outside\<close>

text \<open>An IP address is its bytes, four or sixteen of them, as \<^verbatim>\<open>net.IP\<close> is.\<close>

type_synonym ip = "nat list"

record netenv =
  neGo :: goenv
  neParseIP :: "string \<Rightarrow> ip option"
  neIPString :: "ip \<Rightarrow> string"
  neLookup :: "string \<Rightarrow> ip list option"
  neSplitHostPort :: "string \<Rightarrow> (string \<times> string) option"
  nePort :: "url \<Rightarrow> string"
  neEscapedPath :: "url \<Rightarrow> string"
  neURLString :: "url \<Rightarrow> string"

text \<open>
  One HTTP attempt: the request could not be built, the exchange failed, or a status came back.
\<close>

datatype httpAttempt = RequestError string | ExchangeError string | HTTPStatus int

text \<open>
  The outcome of the attempts of one delivery: by URL and attempt for webhooks, by channel and
  attempt for SMTP, by recipients for the relay (\<open>None\<close> when there is no relay), and of the pauses
  between attempts.  An error is its text.
\<close>

record outside =
  osHTTP :: "string \<Rightarrow> nat \<Rightarrow> httpAttempt"
  osSMTP :: "NotificationChannel \<Rightarrow> nat \<Rightarrow> string option"
  osRelay :: "(string list \<Rightarrow> string option) option"
  osSleep :: "nat \<Rightarrow> string option"

subsection \<open>Policy from the environment\<close>

definition envTruthy :: "goenv \<Rightarrow> string \<Rightarrow> bool" where
  "envTruthy env key =
     (let value = ToLower (TrimSpace (getenv env key)) in value = ''1'' \<or> value = ''true'' \<or> value = ''yes'')"

definition observabilityProductionEnvironment :: "goenv \<Rightarrow> bool" where
  "observabilityProductionEnvironment env =
     list_ex (\<lambda>key. EqualFold (TrimSpace (getenv env key)) ''production'')
       [''OBSERVABILITY_ENV'', ''AUTOSTREAM_ENV'', ''APP_ENV'', ''GO_ENV'']"

definition allowPrivateWebhooksFromEnv :: "goenv \<Rightarrow> bool" where
  "allowPrivateWebhooksFromEnv env =
     (if observabilityProductionEnvironment env then False else envTruthy env ''OBSERVABILITY_ALLOW_PRIVATE_WEBHOOKS'')"

definition allowPrivateSMTPFromEnv :: "goenv \<Rightarrow> bool" where
  "allowPrivateSMTPFromEnv env =
     (if observabilityProductionEnvironment env then False else envTruthy env ''OBSERVABILITY_ALLOW_PRIVATE_SMTP'')"

subsection \<open>Addresses that must not be contacted\<close>

definition to4 :: "ip \<Rightarrow> ip option" where
  "to4 a = (if length a = 4 then Some a
            else if length a = 16 \<and> take 10 a = replicate 10 0 \<and> a ! 10 = 255 \<and> a ! 11 = 255 then Some (drop 12 a)
            else None)"

definition IsLoopback :: "ip \<Rightarrow> bool" where
  "IsLoopback a = (case to4 a of Some b \<Rightarrow> b ! 0 = 127 | None \<Rightarrow> a = replicate 15 0 @ [1])"

definition IsPrivate :: "ip \<Rightarrow> bool" where
  "IsPrivate a = (case to4 a of
     Some b \<Rightarrow> b ! 0 = 10 \<or> (b ! 0 = 172 \<and> b ! 1 div 16 = 1) \<or> (b ! 0 = 192 \<and> b ! 1 = 168)
   | None \<Rightarrow> length a = 16 \<and> a ! 0 div 2 = 126)"

definition IsLinkLocalUnicast :: "ip \<Rightarrow> bool" where
  "IsLinkLocalUnicast a = (case to4 a of
     Some b \<Rightarrow> b ! 0 = 169 \<and> b ! 1 = 254
   | None \<Rightarrow> length a = 16 \<and> a ! 0 = 254 \<and> a ! 1 div 64 = 2)"

definition IsLinkLocalMulticast :: "ip \<Rightarrow> bool" where
  "IsLinkLocalMulticast a = (case to4 a of
     Some b \<Rightarrow> b ! 0 = 224 \<and> b ! 1 = 0 \<and> b ! 2 = 0
   | None \<Rightarrow> length a = 16 \<and> a ! 0 = 255 \<and> a ! 1 mod 16 = 2)"

definition IsUnspecified :: "ip \<Rightarrow> bool" where
  "IsUnspecified a \<longleftrightarrow> to4 a = Some [0, 0, 0, 0] \<or> a = replicate 16 0"

definition IsMulticast :: "ip \<Rightarrow> bool" where
  "IsMulticast a = (case to4 a of Some b \<Rightarrow> b ! 0 div 16 = 14 | None \<Rightarrow> length a = 16 \<and> a ! 0 = 255)"

definition unsafeWebhookIP :: "ip \<Rightarrow> bool" where
  "unsafeWebhookIP a \<longleftrightarrow> IsLoopback a \<or> IsPrivate a \<or> IsLinkLocalUnicast a \<or> IsLinkLocalMulticast a \<or>
     IsUnspecified a \<or> IsMulticast a"

definition hostName :: "string \<Rightarrow> string" where
  "hostName host = ToLower (TrimSuffix (TrimSpace host) ''.'')"

definition unsafeWebhookHost :: "netenv \<Rightarrow> string \<Rightarrow> bool" where
  "unsafeWebhookHost net host =
     (let normalized = hostName host in
      if normalized = [] \<or> normalized = ''localhost'' \<or> HasSuffix normalized ''.localhost'' then True
      else case neParseIP net normalized of Some a \<Rightarrow> unsafeWebhookIP a | None \<Rightarrow> False)"

text \<open>
  The address the dialer contacts.  A name is resolved at the time of the connection, so a name
  that answers differently from the time it was validated is judged again.
\<close>

definition safeWebhookDialContext :: "netenv \<Rightarrow> bool \<Rightarrow> string \<Rightarrow> string result" where
  "safeWebhookDialContext net allowPrivate address =
     (case neSplitHostPort net address of
        None \<Rightarrow> Inl (ErrText ''notification webhook address is invalid'')
      | Some (host, port) \<Rightarrow>
          if allowPrivate then Inr address
          else case neLookup net host of
            None \<Rightarrow> Inl (ErrText ''notification webhook host resolution failed'')
          | Some resolved \<Rightarrow>
             (case List.find (\<lambda>a. \<not> unsafeWebhookIP a) resolved of
                Some a \<Rightarrow> Inr (JoinHostPort (neIPString net a) port)
              | None \<Rightarrow> Inl (ErrText ''notification webhook URL must not target a private network'')))"

definition safeSMTPDialContext :: "netenv \<Rightarrow> bool \<Rightarrow> string \<Rightarrow> int \<Rightarrow> string result" where
  "safeSMTPDialContext net allowPrivate host port =
     (if port \<le> 0 \<or> port > 65535 then Inl (ErrText ''notification SMTP port is invalid'')
      else if allowPrivate then Inr (JoinHostPort host (FormatInt port))
      else case neLookup net host of
        None \<Rightarrow> Inl (ErrText ''notification SMTP host resolution failed'')
      | Some resolved \<Rightarrow>
         (case List.find (\<lambda>a. \<not> unsafeWebhookIP a) resolved of
            Some a \<Rightarrow> Inr (JoinHostPort (neIPString net a) (FormatInt port))
          | None \<Rightarrow> Inl (ErrText ''notification SMTP host must not target a private network'')))"

subsection \<open>Validation of channel targets\<close>

definition normalizedEventType :: "string \<Rightarrow> string" where
  "normalizedEventType value =
     (if TrimSpace value \<in> set [''incident.opened'', ''incident.updated'', ''incident.resolved'', ''diagnostic.created'',
           ''remediation.pending_approval'', ''remediation.executed'', ''admin.audit'']
      then TrimSpace value else ''incident.updated'')"

definition normalizedType :: "string \<Rightarrow> string" where
  "normalizedType value =
     (let v = ToLower (TrimSpace value) in
      if v = ''discord'' \<or> v = ''discord_webhook'' then ''discord''
      else if v = ''slack'' \<or> v = ''slack_webhook'' then ''slack''
      else if v = ''email'' then ''email''
      else ''generic'')"

definition isDiscordWebhookHost :: "string \<Rightarrow> bool" where
  "isDiscordWebhookHost host \<longleftrightarrow> hostName host \<in> set
     [''discord.com'', ''www.discord.com'', ''ptb.discord.com'', ''canary.discord.com'',
      ''discordapp.com'', ''www.discordapp.com'', ''ptb.discordapp.com'', ''canary.discordapp.com'']"

definition webhookHostAllowedForType :: "string \<Rightarrow> string \<Rightarrow> bool" where
  "webhookHostAllowedForType host channelType =
     (let normalizedHost = hostName host; ty = normalizedType channelType in
      if ty = ''discord'' then isDiscordWebhookHost normalizedHost
      else if ty = ''slack'' then normalizedHost = ''hooks.slack.com''
      else True)"

definition validDiscordWebhookPath :: "string \<Rightarrow> bool" where
  "validDiscordWebhookPath path =
     (case splitByte (CHR ''/'') (TrimCut ''/'' path) of
        [a, b, c, d] \<Rightarrow> a = ''api'' \<and> b = ''webhooks'' \<and> c \<noteq> [] \<and> d \<noteq> []
      | [a, b, c, d, e] \<Rightarrow>
          (case CutPrefix b ''v'' of
             None \<Rightarrow> False
           | Some version \<Rightarrow> version \<noteq> [] \<and> ParseInt version \<noteq> None \<and> a = ''api'' \<and> c = ''webhooks'' \<and> d \<noteq> [] \<and> e \<noteq> [])
      | _ \<Rightarrow> False)"

definition NormalizeWebhookURLForTypeWithPolicy :: "netenv \<Rightarrow> string \<Rightarrow> string \<Rightarrow> bool \<Rightarrow> string result" where
  "NormalizeWebhookURLForTypeWithPolicy net raw channelType allowPrivate =
     (let trimmed = TrimSpace raw in
      case urlParse (neGo net) trimmed of
        None \<Rightarrow> Inl (ErrText ''notification webhook URL must be an absolute URL'')
      | Some u \<Rightarrow>
          if urlScheme u = [] \<or> urlHost u = [] then Inl (ErrText ''notification webhook URL must be an absolute URL'')
          else if urlScheme u \<noteq> ''http'' \<and> urlScheme u \<noteq> ''https''
          then Inl (ErrText ''notification webhook URL must use http or https'')
          else if urlScheme u = ''http'' \<and> \<not> allowPrivate
          then Inl (ErrText ''notification webhook URL must use https for remote targets'')
          else if urlUser u \<noteq> None then Inl (ErrText ''notification webhook URL must not include userinfo'')
          else if \<not> allowPrivate \<and> unsafeWebhookHost net (urlHostname u)
          then Inl (ErrText ''notification webhook URL must not target a private network'')
          else if \<not> allowPrivate \<and> \<not> webhookHostAllowedForType (urlHostname u) channelType
          then Inl (ErrText ''notification webhook URL host does not match channel type'')
          else if normalizedType channelType = ''discord'' \<and> isDiscordWebhookHost (urlHostname u) then
            (if urlScheme u \<noteq> ''https'' then Inl (ErrText ''notification Discord webhook URL must use https'')
             else if nePort net u \<noteq> [] \<and> nePort net u \<noteq> ''443''
             then Inl (ErrText ''notification Discord webhook URL must use the default HTTPS port'')
             else if urlFragment u \<noteq> [] then Inl (ErrText ''notification Discord webhook URL must not include a fragment'')
             else if \<not> validDiscordWebhookPath (neEscapedPath net u)
             then Inl (ErrText ''notification Discord webhook URL path is invalid'')
             else Inr (neURLString net (u\<lparr>urlScheme := ''https'', urlHost := ''discord.com''\<rparr>)))
          else Inr trimmed)"

definition NormalizeWebhookURLForType :: "netenv \<Rightarrow> string \<Rightarrow> string \<Rightarrow> string result" where
  "NormalizeWebhookURLForType net raw channelType =
     NormalizeWebhookURLForTypeWithPolicy net raw channelType (allowPrivateWebhooksFromEnv (neGo net))"

definition hasDirectSMTPConfiguration :: "NotificationChannel \<Rightarrow> bool" where
  "hasDirectSMTPConfiguration c \<longleftrightarrow>
     TrimSpace (chSMTPHost c) \<noteq> [] \<or> chSMTPPort c \<noteq> 0 \<or> TrimSpace (chSMTPFrom c) \<noteq> [] \<or>
     TrimSpace (chSMTPUsername c) \<noteq> [] \<or> TrimSpace (chSMTPPassword c) \<noteq> [] \<or> chSMTPPasswordConfigured c"

definition recipientsOf :: "NotificationChannel \<Rightarrow> string list" where
  "recipientsOf c = (case chEmailRecipients c of None \<Rightarrow> [] | Some rs \<Rightarrow> rs)"

definition ValidateSMTPChannelWithPolicy :: "netenv \<Rightarrow> NotificationChannel \<Rightarrow> bool \<Rightarrow> goerr option" where
  "ValidateSMTPChannelWithPolicy net c allowPrivate =
     (if chUseGlobalSMTP c \<or> \<not> hasDirectSMTPConfiguration c then
        (if recipientsOf c = [] then Some (ErrText ''notification email recipient is required'') else None)
      else
        (let host = TrimSpace (chSMTPHost c);
             usernameConfigured = (TrimSpace (chSMTPUsername c) \<noteq> []);
             passwordConfigured = (TrimSpace (chSMTPPassword c) \<noteq> [] \<or> chSMTPPasswordConfigured c)
         in if host = [] then Some (ErrText ''notification SMTP host is required'')
            else if ContainsAny host [CHR ''/'', CHR 0x5C, CHR ''@'']
            then Some (ErrText ''notification SMTP host must be a hostname or IP address'')
            else if \<not> allowPrivate \<and> unsafeWebhookHost net host
            then Some (ErrText ''notification SMTP host must not target a private network'')
            else if chSMTPPort c < 0 \<or> chSMTPPort c > 65535 then Some (ErrText ''notification SMTP port is invalid'')
            else if usernameConfigured \<noteq> passwordConfigured
            then Some (ErrText ''notification SMTP credentials are incomplete'')
            else if \<not> allowPrivate \<and> \<not> chSMTPTLS c
            then Some (ErrText ''notification SMTP requires TLS for remote targets'')
            else if (chSMTPUsername c \<noteq> [] \<or> chSMTPPassword c \<noteq> []) \<and> \<not> chSMTPTLS c
            then Some (ErrText ''notification SMTP credentials require TLS'')
            else None))"

definition ValidateSMTPChannel :: "netenv \<Rightarrow> NotificationChannel \<Rightarrow> goerr option" where
  "ValidateSMTPChannel net c = ValidateSMTPChannelWithPolicy net c (allowPrivateSMTPFromEnv (neGo net))"

subsection \<open>Texts that may be recorded\<close>

definition SanitizeDeliveryError :: "string option \<Rightarrow> string" where
  "SanitizeDeliveryError err =
     (case err of
        None \<Rightarrow> []
      | Some message \<Rightarrow>
          if strContains message ''notification webhook URL'' then message
          else if strContains message ''webhook returned status'' then message
          else if strContains message ''notification webhook is not configured'' then message
          else ''notification webhook delivery failed'')"

definition safeEmailRelayCode :: "string \<Rightarrow> bool" where
  "safeEmailRelayCode code \<longleftrightarrow> TrimSpace code \<in> set
     [''smtp_not_configured'', ''smtp_requires_tls'', ''smtp_dial_failed'', ''smtp_starttls_failed'',
      ''smtp_auth_failed'', ''smtp_from_rejected'', ''smtp_recipient_rejected'', ''smtp_data_failed'',
      ''smtp_write_failed'', ''smtp_close_failed'', ''rate_limited'', ''send_failed'',
      ''missing_service_scope'', ''missing_service_token'', ''invalid_service_token'',
      ''service_token_not_registered'', ''service_type_not_allowed'', ''service_registry_not_configured'',
      ''list_services_failed'', ''app_settings_failed'', ''secret_encryption_key_required'']"

definition safeEmailRelayError :: "string option \<Rightarrow> string" where
  "safeEmailRelayError err =
     (let code = (case err of None \<Rightarrow> [] | Some t \<Rightarrow> t) in
      if safeEmailRelayCode code then TrimSpace code else ''send_failed'')"

definition SanitizeChannelDeliveryError :: "string \<Rightarrow> string option \<Rightarrow> string" where
  "SanitizeChannelDeliveryError channel err =
     (if err = None then []
      else if normalizedType channel = ''email'' then safeEmailRelayError err
      else SanitizeDeliveryError err)"

definition MaskWebhookURL :: "goenv \<Rightarrow> string \<Rightarrow> string" where
  "MaskWebhookURL env raw =
     (case urlParse env raw of
        None \<Rightarrow> ''<WEBHOOK_URL>''
      | Some u \<Rightarrow> if urlHost u = [] then ''<WEBHOOK_URL>''
                  else urlScheme u @ ''://'' @ maskedWebhookHost (urlHost u) @ ''/<WEBHOOK_PATH>'')"

subsection \<open>One webhook\<close>

definition retryableWebhookStatus :: "int \<Rightarrow> bool" where
  "retryableWebhookStatus status \<longleftrightarrow> status = 408 \<or> status = 429 \<or> status \<ge> 500"

fun doubled :: "nat \<Rightarrow> int \<Rightarrow> int" where
  "doubled 0 d = d"
| "doubled (Suc n) d = doubled n (wrap64 (d * 2))"

definition webhookRetryDelay :: "int \<Rightarrow> nat \<Rightarrow> int" where
  "webhookRetryDelay base attempt = (if base \<le> 0 then 0 else doubled attempt base)"

definition sleepWithFunc :: "int \<Rightarrow> string option \<Rightarrow> string option" where
  "sleepWithFunc delay slept = (if delay \<le> 0 then None else slept)"

definition attemptCount :: "int \<Rightarrow> nat" where
  "attemptCount retryMax = (let attempts = wrap64 (retryMax + 1) in if attempts < 1 then 1 else nat attempts)"

text \<open>
  The attempt loop, \<open>left\<close> attempts being left: \<open>Inr\<close> when one was answered with 2xx, otherwise
  \<open>Inl\<close> with the last error; the second component counts the attempts made so far.
\<close>

fun webhookAttempts ::
  "(nat \<Rightarrow> httpAttempt) \<Rightarrow> (nat \<Rightarrow> string option) \<Rightarrow> int \<Rightarrow> nat \<Rightarrow> nat \<Rightarrow> (string + unit) \<times> nat" where
  "webhookAttempts send sleep base 0 attempt = (Inl [], attempt)"
| "webhookAttempts send sleep base (Suc left) attempt =
     (let again = (\<lambda>err. if left = 0 then (Inl err, Suc attempt)
                         else case sleepWithFunc (webhookRetryDelay base attempt) (sleep attempt) of
                           Some e \<Rightarrow> (Inl e, Suc attempt)
                         | None \<Rightarrow> webhookAttempts send sleep base left (Suc attempt))
      in case send attempt of
           RequestError e \<Rightarrow> (Inl e, Suc attempt)
         | ExchangeError e \<Rightarrow> again e
         | HTTPStatus status \<Rightarrow>
             if status \<ge> 200 \<and> status < 300 then (Inr (), Suc attempt)
             else (let err = ''webhook returned status '' @ FormatInt status in
                   if retryableWebhookStatus status then again err else (Inl err, Suc attempt)))"

record WebhookNotifier =
  wnType :: string
  wnURL :: string
  wnRetryMax :: int
  wnRetryBaseDelay :: int
  wnAllowPrivate :: bool

definition result :: "string \<Rightarrow> string \<Rightarrow> string \<Rightarrow> string \<Rightarrow> string \<Rightarrow> DeliveryResult" where
  "result eventType channel target status err = \<lparr>drEventType = eventType, drChannel = channel, drTarget = target,
     drStatus = status, drError = err, drChannelID = []\<rparr>"

definition notifyWebhook :: "netenv \<Rightarrow> outside \<Rightarrow> WebhookNotifier \<Rightarrow> string \<Rightarrow> DeliveryResult list \<times> string option" where
  "notifyWebhook net os n rawType =
     (let eventType = normalizedEventType rawType; env = neGo net;
          failed = (\<lambda>target err msg. ([result eventType (normalizedType (wnType n)) target ''failure'' msg], Some err))
      in if TrimSpace (wnURL n) = []
         then failed (MaskWebhookURL env (wnURL n)) ''notification webhook is not configured''
                ''notification webhook is not configured''
         else
           (let allowPrivate = (wnAllowPrivate n \<or> allowPrivateWebhooksFromEnv env) in
            case NormalizeWebhookURLForTypeWithPolicy net (wnURL n) (wnType n) allowPrivate of
              Inl e \<Rightarrow> (let msg = (case e of ErrText t \<Rightarrow> t | _ \<Rightarrow> []) in
                 failed (MaskWebhookURL env (wnURL n)) msg (SanitizeDeliveryError (Some msg)))
            | Inr normalizedURL \<Rightarrow>
               (let target = MaskWebhookURL env normalizedURL in
                case fst (webhookAttempts (osHTTP os normalizedURL) (osSleep os) (wnRetryBaseDelay n)
                       (attemptCount (wnRetryMax n)) 0) of
                  Inr _ \<Rightarrow> ([result eventType (normalizedType (wnType n)) target ''success'' []], None)
                | Inl err \<Rightarrow>
                    failed target (SanitizeDeliveryError (Some err)) (SanitizeDeliveryError (Some err)))))"

subsection \<open>One mail destination\<close>

text \<open>The attempts of direct SMTP; every failure is retried.\<close>

fun smtpAttempts ::
  "(nat \<Rightarrow> string option) \<Rightarrow> (nat \<Rightarrow> string option) \<Rightarrow> int \<Rightarrow> nat \<Rightarrow> nat \<Rightarrow> string option" where
  "smtpAttempts send sleep base 0 attempt = Some []"
| "smtpAttempts send sleep base (Suc left) attempt =
     (case send attempt of
        None \<Rightarrow> None
      | Some err \<Rightarrow>
          if left = 0 then Some err
          else case sleepWithFunc (webhookRetryDelay base attempt) (sleep attempt) of
            Some e \<Rightarrow> Some e
          | None \<Rightarrow> smtpAttempts send sleep base left (Suc attempt))"

definition notifyEmail ::
  "outside \<Rightarrow> NotificationChannel \<Rightarrow> int \<Rightarrow> int \<Rightarrow> string \<Rightarrow> DeliveryResult list \<times> string option" where
  "notifyEmail os channel retryMax base rawType =
     (let eventType = normalizedEventType rawType;
          target = (if chMaskedEmailTarget channel = [] then ''<EMAIL>'' else chMaskedEmailTarget channel);
          failed = (\<lambda>msg err. ([result eventType ''email'' target ''failure'' msg], Some err));
          sent = ([result eventType ''email'' target ''success'' []], None);
          usesGlobalSMTP = (chUseGlobalSMTP channel \<or> \<not> hasDirectSMTPConfiguration channel)
      in if recipientsOf channel = []
         then failed ''email notification is not configured'' ''email notification is not configured''
         else if usesGlobalSMTP then
           (case osRelay os of
              None \<Rightarrow> failed ''email notification delivery failed'' ''email notification delivery failed''
            | Some relay \<Rightarrow>
               (case relay (recipientsOf channel) of
                  None \<Rightarrow> sent
                | Some err \<Rightarrow> failed (safeEmailRelayError (Some err)) err))
         else if TrimSpace (chSMTPHost channel) = [] \<or> TrimSpace (chSMTPFrom channel) = []
         then failed ''email notification is not configured'' ''email notification is not configured''
         else case smtpAttempts (osSMTP os channel) (osSleep os) base (attemptCount retryMax) 0 of
           None \<Rightarrow> sent
         | Some err \<Rightarrow> failed ''email notification delivery failed'' err)"

subsection \<open>The fan-out\<close>

record ChannelNotifier =
  cnRetryMax :: int
  cnRetryBaseDelay :: int
  cnAllowPrivate :: bool

definition notifyChannel ::
  "netenv \<Rightarrow> outside \<Rightarrow> ChannelNotifier \<Rightarrow> NotificationChannel \<Rightarrow> string \<Rightarrow> DeliveryResult list \<times> string option" where
  "notifyChannel net os n channel eventType =
     (if chType channel = ''email'' then notifyEmail os channel (cnRetryMax n) (cnRetryBaseDelay n) eventType
      else notifyWebhook net os \<lparr>wnType = chType channel, wnURL = chWebhookURL channel, wnRetryMax = cnRetryMax n,
             wnRetryBaseDelay = (if cnRetryBaseDelay n = 0 then 10 ^ 9 else cnRetryBaseDelay n),
             wnAllowPrivate = cnAllowPrivate n\<rparr> eventType)"

definition containsFold :: "string list \<Rightarrow> string \<Rightarrow> bool" where
  "containsFold values want = list_ex (\<lambda>v. EqualFold (TrimSpace v) want) values"

definition filterOf :: "string list option \<Rightarrow> string list" where
  "filterOf f = (case f of None \<Rightarrow> [] | Some vs \<Rightarrow> vs)"

definition matchesFilters :: "NotificationChannel \<Rightarrow> Incident \<Rightarrow> string \<Rightarrow> bool" where
  "matchesFilters channel incident eventType =
     (if filterOf (chSeverityFilter channel) \<noteq> [] \<and> \<not> containsFold (filterOf (chSeverityFilter channel)) (incSeverity incident)
      then False
      else if filterOf (chEventTypeFilter channel) \<noteq> [] \<and> \<not> containsFold (filterOf (chEventTypeFilter channel)) eventType
      then False
      else True)"

definition emailDestinationID :: "goenv \<Rightarrow> string \<Rightarrow> string \<Rightarrow> string" where
  "emailDestinationID env channelID recipient =
     TrimSpace channelID @ ''/recipient/'' @ hexEncode (take 8 (sha256 env (ToLower (TrimSpace recipient))))"

text \<open>The destinations of one selected channel with what identifies them, less those excluded.\<close>

definition channelDestinations ::
  "goenv \<Rightarrow> string list \<Rightarrow> NotificationChannel \<Rightarrow> (string \<times> NotificationChannel) list" where
  "channelDestinations env excluded channel =
     (if chID channel \<noteq> [] \<and> chType channel \<noteq> ''email'' \<and> chID channel \<in> set excluded then []
      else if chType channel = ''email'' then
        map (\<lambda>r. (emailDestinationID env (chID channel) r, channel\<lparr>chEmailRecipients := Some [r]\<rparr>))
          (filter (\<lambda>r. emailDestinationID env (chID channel) r \<notin> set excluded) (recipientsOf channel))
      else [(chID channel, channel)])"

definition selectedChannel :: "string \<Rightarrow> Incident \<Rightarrow> NotificationChannel \<Rightarrow> bool" where
  "selectedChannel eventType incident channel \<longleftrightarrow>
     chEnabled channel \<and> \<not> (eventType \<noteq> ''admin.audit'' \<and> \<not> matchesFilters channel incident eventType)"

definition deliverDestination ::
  "netenv \<Rightarrow> outside \<Rightarrow> ChannelNotifier \<Rightarrow> string \<Rightarrow> NotificationChannel \<Rightarrow> string \<times> NotificationChannel \<Rightarrow> DeliveryResult list" where
  "deliverDestination net os n eventType channel dest =
     map (\<lambda>d. d\<lparr>drChannelID := fst dest, drChannel := chType channel,
               drTarget := (if chType channel = ''email'' then chMaskedEmailTarget channel else chMaskedWebhookURL channel)\<rparr>)
       (fst (notifyChannel net os n (snd dest) eventType))"

text \<open>
  \<^verbatim>\<open>notifyIncidentEvent\<close> of the channel notifier; \<open>listed\<close> is what the store lists and
  \<open>fallback\<close> the notifier configured in the environment.
\<close>

definition fanOut ::
  "netenv \<Rightarrow> outside \<Rightarrow> ChannelNotifier \<Rightarrow> (string \<Rightarrow> DeliveryResult list \<times> string option) option \<Rightarrow>
   NotificationChannel list result \<Rightarrow> string \<Rightarrow> Incident \<Rightarrow> string list \<Rightarrow> DeliveryResult list \<times> goerr option" where
  "fanOut net os n fallback listed rawType incident excluded =
     (let eventType = normalizedEventType rawType in
      case listed of
        Inl e \<Rightarrow> ([], Some e)
      | Inr chs \<Rightarrow>
         (let sel = filter (selectedChannel eventType incident) chs;
              results = concat (map (\<lambda>channel. concat (map (deliverDestination net os n eventType channel)
                          (channelDestinations (neGo net) excluded channel))) sel)
          in if results = [] \<and> sel = [] \<and> fallback \<noteq> None
             then (let (rs, err) = the fallback eventType in (rs, map_option ErrText err))
             else (results, None)))"

subsection \<open>Facts\<close>

text \<open>An attempt after which the loop may go on.\<close>

definition goesOn :: "httpAttempt \<Rightarrow> bool" where
  "goesOn a = (case a of RequestError _ \<Rightarrow> False | ExchangeError _ \<Rightarrow> True
     | HTTPStatus s \<Rightarrow> \<not> (200 \<le> s \<and> s < 300) \<and> retryableWebhookStatus s)"

definition accepted :: "httpAttempt \<Rightarrow> bool" where
  "accepted a = (case a of HTTPStatus s \<Rightarrow> 200 \<le> s \<and> s < 300 | _ \<Rightarrow> False)"

definition pauseOK :: "(nat \<Rightarrow> string option) \<Rightarrow> int \<Rightarrow> nat \<Rightarrow> bool" where
  "pauseOK sleep base k \<longleftrightarrow> sleepWithFunc (webhookRetryDelay base k) (sleep k) = None"

lemma webhookAttempts_step:
  "accepted (send k) \<Longrightarrow> webhookAttempts send sleep base (Suc left) k = (Inr (), Suc k)"
  "goesOn (send k) \<Longrightarrow> left \<noteq> 0 \<Longrightarrow> pauseOK sleep base k \<Longrightarrow>
     webhookAttempts send sleep base (Suc left) k = webhookAttempts send sleep base left (Suc k)"
  "\<not> accepted (send k) \<Longrightarrow> \<not> (goesOn (send k) \<and> left \<noteq> 0 \<and> pauseOK sleep base k) \<Longrightarrow>
     \<exists>e. webhookAttempts send sleep base (Suc left) k = (Inl e, Suc k)"
  by (auto simp: Let_def accepted_def goesOn_def pauseOK_def split: httpAttempt.splits option.splits)

lemma webhookAttempts_char:
  assumes "0 < n" "webhookAttempts send sleep base n k = (r, made)"
  shows "k < made \<and> made \<le> k + n \<and>
    (\<forall>j. k \<le> j \<and> j < made - 1 \<longrightarrow> goesOn (send j) \<and> pauseOK sleep base j) \<and>
    (r = Inr () \<longleftrightarrow> accepted (send (made - 1))) \<and>
    (r \<noteq> Inr () \<longrightarrow> made = k + n \<or> \<not> goesOn (send (made - 1)) \<or> \<not> pauseOK sleep base (made - 1))"
  using assms
proof (induction n arbitrary: k)
  case (Suc n)
  show ?case
  proof (cases "accepted (send k)")
    case True
    then show ?thesis using Suc.prems webhookAttempts_step(1) [of send k sleep base n, OF True] by (auto simp del: webhookAttempts.simps)
  next
    case False
    show ?thesis
    proof (cases "goesOn (send k) \<and> n \<noteq> 0 \<and> pauseOK sleep base k")
      case True
      then have rec: "webhookAttempts send sleep base n (Suc k) = (r, made)"
        using Suc.prems webhookAttempts_step(2) [of send k n sleep base] by (auto simp del: webhookAttempts.simps)
      have ih: "Suc k < made \<and> made \<le> Suc k + n \<and>
          (\<forall>j. Suc k \<le> j \<and> j < made - 1 \<longrightarrow> goesOn (send j) \<and> pauseOK sleep base j) \<and>
          (r = Inr () \<longleftrightarrow> accepted (send (made - 1))) \<and>
          (r \<noteq> Inr () \<longrightarrow> made = Suc k + n \<or> \<not> goesOn (send (made - 1)) \<or> \<not> pauseOK sleep base (made - 1))"
        using Suc.IH [OF _ rec] True by blast
      have "goesOn (send j) \<and> pauseOK sleep base j" if "k \<le> j" "j < made - 1" for j
        using ih True that by (cases "j = k") auto
      with ih show ?thesis by auto
    next
      case stop: False
      from webhookAttempts_step(3) [of send k n sleep base] False stop
      obtain e where "webhookAttempts send sleep base (Suc n) k = (Inl e, Suc k)" by blast
      then have "made = Suc k" "r \<noteq> Inr ()" using Suc.prems by (auto simp del: webhookAttempts.simps)
      then show ?thesis using False stop by auto
    qed
  qed
qed simp

lemma notifyEmail_one: "\<exists>r. fst (notifyEmail os c m b ev) = [r]"
  unfolding notifyEmail_def Let_def by (simp split: option.split)

lemma notifyWebhook_one: "\<exists>r. fst (notifyWebhook net os n ev) = [r]"
  unfolding notifyWebhook_def Let_def by (simp split: sum.split)

lemma notifyChannel_one: "\<exists>r. fst (notifyChannel net os n c ev) = [r]"
  by (simp add: notifyChannel_def notifyEmail_one notifyWebhook_one)

text \<open>
  A loop of at most \<open>n\<close> attempts succeeds when some attempt does and every one before it failed in a way that is tried again.
\<close>

definition firstSuccess :: "nat \<Rightarrow> (nat \<Rightarrow> bool) \<Rightarrow> (nat \<Rightarrow> bool) \<Rightarrow> bool" where
  "firstSuccess n ok again \<longleftrightarrow> (\<exists>i<n. ok i \<and> (\<forall>j<i. again j))"

lemma firstSuccess_Suc:
  "firstSuccess (Suc n) ok again \<longleftrightarrow> ok 0 \<or> again 0 \<and> firstSuccess n (\<lambda>i. ok (Suc i)) (\<lambda>i. again (Suc i))"
  unfolding firstSuccess_def Ex_less_Suc2 All_less_Suc2 by auto

lemma webhookAttempts_success:
  "fst (webhookAttempts send sleep base n k) = Inr u \<longleftrightarrow>
     firstSuccess n (\<lambda>i. accepted (send (k + i))) (\<lambda>i. goesOn (send (k + i)) \<and> pauseOK sleep base (k + i))"
proof (induction n arbitrary: k)
  case 0
  then show ?case by (simp add: firstSuccess_def)
next
  case (Suc n)
  have later: "firstSuccess n (\<lambda>i. accepted (send (k + Suc i))) (\<lambda>i. goesOn (send (k + Suc i)) \<and> pauseOK sleep base (k + Suc i))
      \<longleftrightarrow> fst (webhookAttempts send sleep base n (Suc k)) = Inr u"
    using Suc.IH [of "Suc k"] by simp
  consider "accepted (send k)" | "\<not> accepted (send k)" "goesOn (send k) \<and> n \<noteq> 0 \<and> pauseOK sleep base k"
    | "\<not> accepted (send k)" "\<not> (goesOn (send k) \<and> n \<noteq> 0 \<and> pauseOK sleep base k)" by blast
  then show ?case
  proof cases
    case 1
    then show ?thesis using webhookAttempts_step(1) [of send k sleep base n] by (simp add: firstSuccess_Suc del: webhookAttempts.simps)
  next
    case 2
    then show ?thesis using webhookAttempts_step(2) [of send k n sleep base] later
      by (simp add: firstSuccess_Suc del: webhookAttempts.simps)
  next
    case 3
    from webhookAttempts_step(3) [of send k n sleep base] 3
    obtain e where "webhookAttempts send sleep base (Suc n) k = (Inl e, Suc k)" by blast
    moreover have "\<not> firstSuccess (Suc n) (\<lambda>i. accepted (send (k + i))) (\<lambda>i. goesOn (send (k + i)) \<and> pauseOK sleep base (k + i))"
      using 3 by (cases "n = 0") (auto simp: firstSuccess_Suc, simp_all add: firstSuccess_def)
    ultimately show ?thesis by (simp del: webhookAttempts.simps)
  qed
qed

lemma smtpAttempts_success:
  "smtpAttempts send sleep base n k = None \<longleftrightarrow>
     firstSuccess n (\<lambda>i. send (k + i) = None) (\<lambda>i. send (k + i) \<noteq> None \<and> pauseOK sleep base (k + i))"
proof (induction n arbitrary: k)
  case 0
  then show ?case by (simp add: firstSuccess_def)
next
  case (Suc n)
  have none: "\<not> firstSuccess 0 ok again" for ok again by (simp add: firstSuccess_def)
  show ?case
    using Suc.IH [of "Suc k"] by (cases "n = 0") (auto simp: none firstSuccess_Suc pauseOK_def split: option.split)
qed

lemma deliverDestination_status:
  "map (\<lambda>d. (drChannelID d, drStatus d)) (deliverDestination net os n ev c dest) =
     [(fst dest, drStatus (hd (fst (notifyChannel net os n (snd dest) ev))))]"
  using notifyChannel_one [of net os n "snd dest" ev] by (auto simp: deliverDestination_def)

lemma map_concat_statuses:
  "map (\<lambda>d. (drChannelID d, drStatus d)) (concat (map (deliverDestination net os n ev c) ds)) =
     map (\<lambda>d. (fst d, drStatus (hd (fst (notifyChannel net os n (snd d) ev))))) ds"
  by (induction ds) (simp_all add: deliverDestination_status)

subsection \<open>What the fan-out is to do\<close>

text \<open>
  The reference: a filter admits a value when it is empty or one of its entries, trimmed, equals it up to case; a channel is wanted
  when it is enabled and, but for audit events, its two filters admit the severity and the event; its destinations are itself, or
  for mail one per recipient, reached with that recipient alone.
\<close>

definition admits :: "string list option \<Rightarrow> string \<Rightarrow> bool" where
  "admits f want \<longleftrightarrow> f = None \<or> f = Some [] \<or> (\<exists>vs. f = Some vs \<and> (\<exists>v\<in>set vs. EqualFold (TrimSpace v) want))"

definition wantedChannel :: "string \<Rightarrow> string \<Rightarrow> NotificationChannel \<Rightarrow> bool" where
  "wantedChannel ev severity c \<longleftrightarrow> chEnabled c \<and>
     (ev = ''admin.audit'' \<or> admits (chSeverityFilter c) severity \<and> admits (chEventTypeFilter c) ev)"

definition destinationsOf :: "goenv \<Rightarrow> NotificationChannel \<Rightarrow> (string \<times> NotificationChannel) list" where
  "destinationsOf env c =
     (if chType c \<noteq> ''email'' then [(chID c, c)]
      else case chEmailRecipients c of None \<Rightarrow> []
        | Some rs \<Rightarrow> map (\<lambda>r. (emailDestinationID env (chID c) r, c\<lparr>chEmailRecipients := Some [r]\<rparr>)) rs)"

text \<open>
  A destination accepts the event: its own webhook, at the address the policy makes of it, answers with 2xx; the relay accepts
  exactly its recipient; or its own mail server accepts the mail, each within the attempts configured.
\<close>

definition accepts :: "netenv \<Rightarrow> outside \<Rightarrow> ChannelNotifier \<Rightarrow> NotificationChannel \<Rightarrow> bool" where
  "accepts net os n c \<longleftrightarrow>
     (if chType c \<noteq> ''email'' then
        TrimSpace (chWebhookURL c) \<noteq> [] \<and>
        (\<exists>url. NormalizeWebhookURLForTypeWithPolicy net (chWebhookURL c) (chType c)
             (cnAllowPrivate n \<or> allowPrivateWebhooksFromEnv (neGo net)) = Inr url \<and>
           firstSuccess (attemptCount (cnRetryMax n)) (\<lambda>i. accepted (osHTTP os url i))
             (\<lambda>i. goesOn (osHTTP os url i) \<and>
               pauseOK (osSleep os) (if cnRetryBaseDelay n = 0 then 10 ^ 9 else cnRetryBaseDelay n) i))
      else if chUseGlobalSMTP c \<or> \<not> hasDirectSMTPConfiguration c then
        (\<exists>relay. osRelay os = Some relay \<and> relay (recipientsOf c) = None)
      else TrimSpace (chSMTPHost c) \<noteq> [] \<and> TrimSpace (chSMTPFrom c) \<noteq> [] \<and>
        firstSuccess (attemptCount (cnRetryMax n)) (\<lambda>i. osSMTP os c i = None)
          (\<lambda>i. osSMTP os c i \<noteq> None \<and> pauseOK (osSleep os) (cnRetryBaseDelay n) i))"

lemma selected_wanted: "selectedChannel ev incident c \<longleftrightarrow> wantedChannel ev (incSeverity incident) c"
  by (cases "chSeverityFilter c"; cases "chEventTypeFilter c")
    (auto simp: selectedChannel_def wantedChannel_def admits_def matchesFilters_def containsFold_def filterOf_def list_ex_iff)

lemma emailDestinationID_set [simp]: "emailDestinationID env cid r \<noteq> []"
  by (simp add: emailDestinationID_def)

lemma channelDestinations_reference:
  "channelDestinations env excluded c = filter (\<lambda>d. fst d = [] \<or> fst d \<notin> set excluded) (destinationsOf env c)"
  by (cases "chEmailRecipients c")
    (auto simp: channelDestinations_def destinationsOf_def recipientsOf_def filter_map comp_def)

lemma notifyWebhook_status:
  "drStatus (hd (fst (notifyWebhook net os \<lparr>wnType = chType c, wnURL = chWebhookURL c, wnRetryMax = cnRetryMax n,
       wnRetryBaseDelay = (if cnRetryBaseDelay n = 0 then 10 ^ 9 else cnRetryBaseDelay n), wnAllowPrivate = cnAllowPrivate n\<rparr> ev))) =
     (if accepts net os n c then ''success'' else ''failure'')" if "chType c \<noteq> ''email''"
proof -
  have "fst (webhookAttempts send sleep base m 0) = Inr () \<longleftrightarrow>
     firstSuccess m (\<lambda>i. accepted (send i)) (\<lambda>i. goesOn (send i) \<and> pauseOK sleep base i)" for send sleep base m
    using webhookAttempts_success [where k = 0] by simp
  with that show ?thesis
    unfolding notifyWebhook_def accepts_def Let_def
    by (simp add: result_def split: sum.split del: webhookAttempts.simps) (metis old.unit.exhaust sum.distinct(1))
qed

lemma notifyEmail_status:
  "drStatus (hd (fst (notifyEmail os c (cnRetryMax n) (cnRetryBaseDelay n) ev))) =
     (if accepts net os n c then ''success'' else ''failure'')" if "chType c = ''email''" "recipientsOf c \<noteq> []"
proof -
  have "smtpAttempts send sleep base m 0 = None \<longleftrightarrow>
     firstSuccess m (\<lambda>i. send i = None) (\<lambda>i. send i \<noteq> None \<and> pauseOK sleep base i)" for send sleep base m
    using smtpAttempts_success [where k = 0] by simp
  from this [symmetric] that show ?thesis
    unfolding notifyEmail_def accepts_def Let_def by (simp add: result_def split: option.split)
qed

lemma notifyChannel_status:
  assumes "d \<in> set (destinationsOf env c)"
  shows "drStatus (hd (fst (notifyChannel net os n (snd d) ev))) = (if accepts net os n (snd d) then ''success'' else ''failure'')"
  using assms notifyEmail_status [of "snd d" os n ev net] notifyWebhook_status [of "snd d" net os n ev]
  by (auto simp: notifyChannel_def destinationsOf_def recipientsOf_def split: if_splits option.splits)

lemma to4_mapped: "length b = 4 \<Longrightarrow> to4 (replicate 10 0 @ [255, 255] @ b) = Some b"
  by (simp add: to4_def nth_append)

text \<open>The IPv4 ranges that are never contacted.\<close>

definition reservedIPv4 :: "nat \<Rightarrow> nat \<Rightarrow> nat \<Rightarrow> nat \<Rightarrow> bool" where
  "reservedIPv4 a b c d \<longleftrightarrow> a = 127 \<or> a = 10 \<or> (a = 172 \<and> 16 \<le> b \<and> b \<le> 31) \<or> (a = 192 \<and> b = 168) \<or>
     (a = 169 \<and> b = 254) \<or> (224 \<le> a \<and> a \<le> 239) \<or> (a = 0 \<and> b = 0 \<and> c = 0 \<and> d = 0)"

lemma unsafe_IPv4: "to4 ad = Some [a, b, c, d] \<Longrightarrow> unsafeWebhookIP ad \<longleftrightarrow> reservedIPv4 a b c d"
proof -
  assume t: "to4 ad = Some [a, b, c, d]"
  have "ad \<noteq> replicate 16 0 \<or> False" using t by (auto simp: to4_def)
  moreover have "b div 16 = 1 \<longleftrightarrow> 16 \<le> b \<and> b \<le> 31" "a div 16 = 14 \<longleftrightarrow> 224 \<le> a \<and> a \<le> 239" by auto
  ultimately show ?thesis using t
    by (auto simp: unsafeWebhookIP_def reservedIPv4_def IsLoopback_def IsPrivate_def IsLinkLocalUnicast_def
        IsLinkLocalMulticast_def IsUnspecified_def IsMulticast_def)
qed

text \<open>The IPv6 ranges: the loopback and the unspecified address, unique local, link-local and multicast addresses.\<close>

definition reservedIPv6 :: "ip \<Rightarrow> bool" where
  "reservedIPv6 a \<longleftrightarrow> length a = 16 \<and> (a = replicate 15 0 @ [1] \<or> a = replicate 16 0 \<or> a ! 0 = 252 \<or> a ! 0 = 253 \<or>
     (a ! 0 = 254 \<and> 128 \<le> a ! 1 \<and> a ! 1 \<le> 191) \<or> a ! 0 = 255)"

text \<open>An address of the inside, in four-byte, IPv4-mapped or IPv6 form.\<close>

definition insideAddress :: "ip \<Rightarrow> bool" where
  "insideAddress ad \<longleftrightarrow> (case to4 ad of Some b \<Rightarrow> reservedIPv4 (b ! 0) (b ! 1) (b ! 2) (b ! 3) | None \<Rightarrow> reservedIPv6 ad)"

lemma to4_four: "to4 ad = Some b \<Longrightarrow> \<exists>x y z w. b = [x, y, z, w]"
  by (auto simp: to4_def length_Suc_conv numeral_eq_Suc split: if_splits dest!: arg_cong [where f = length])

lemma unsafe_inside: "unsafeWebhookIP ad \<longleftrightarrow> insideAddress ad"
proof (cases "to4 ad")
  case (Some b)
  then obtain x y z w where b: "b = [x, y, z, w]" using to4_four by blast
  show ?thesis using unsafe_IPv4 [of ad x y z w] Some b by (simp add: insideAddress_def)
next
  case None
  have "a div 2 = 126 \<longleftrightarrow> a = 252 \<or> a = 253" "b div 64 = 2 \<longleftrightarrow> 128 \<le> b \<and> b \<le> 191" for a b :: nat by auto
  then show ?thesis using None
    by (auto simp: insideAddress_def reservedIPv6_def unsafeWebhookIP_def IsLoopback_def IsPrivate_def IsLinkLocalUnicast_def
        IsLinkLocalMulticast_def IsUnspecified_def IsMulticast_def)
qed

subsection \<open>Properties\<close>

text \<open>
  C13: no channel can be pointed at the inside.  In a production environment, and in any other that does not allow private
  targets, a webhook address is accepted only when it parses as an absolute https URL without userinfo whose host is not empty,
  \<^verbatim>\<open>localhost\<close> or under \<^verbatim>\<open>localhost\<close>, is no literal of an address of the inside, IPv4 or IPv6, and belongs to the channel type.
  A Discord address whose host is a Discord host is rewritten to the canonical host after its path, port and fragment were
  checked; any other is kept as it came.  (The host test that selects this rewriting strips one trailing dot and the test for the
  channel type strips two, so a Discord address whose host ends with two dots is kept without these checks.)
\<close>

theorem webhook_url_policy:
  assumes "observabilityProductionEnvironment (neGo net) \<or> \<not> allowPrivateWebhooksFromEnv (neGo net)"
    and "NormalizeWebhookURLForType net raw ty = Inr target"
  shows "\<exists>u. urlParse (neGo net) (TrimSpace raw) = Some u \<and> urlScheme u = ''https'' \<and> urlHost u \<noteq> [] \<and> urlUser u = None \<and>
    hostName (urlHostname u) \<notin> {[], ''localhost''} \<and> \<not> HasSuffix (hostName (urlHostname u)) ''.localhost'' \<and>
    (\<forall>ad. neParseIP net (hostName (urlHostname u)) = Some ad \<longrightarrow> \<not> insideAddress ad) \<and>
    (normalizedType ty = ''slack'' \<longrightarrow> hostName (urlHostname u) = ''hooks.slack.com'') \<and>
    (normalizedType ty = ''discord'' \<longrightarrow> isDiscordWebhookHost (hostName (urlHostname u))) \<and>
    (if normalizedType ty = ''discord'' \<and> isDiscordWebhookHost (urlHostname u)
     then validDiscordWebhookPath (neEscapedPath net u) \<and> urlFragment u = [] \<and>
       nePort net u \<in> {[], ''443''} \<and> target = neURLString net (u\<lparr>urlScheme := ''https'', urlHost := ''discord.com''\<rparr>)
     else target = TrimSpace raw)"
proof -
  have priv: "\<not> allowPrivateWebhooksFromEnv (neGo net)" using assms(1) by (auto simp: allowPrivateWebhooksFromEnv_def)
  then obtain u where u: "urlParse (neGo net) (TrimSpace raw) = Some u" "urlScheme u = ''https''" "urlHost u \<noteq> []"
    "urlUser u = None" "\<not> unsafeWebhookHost net (urlHostname u)" "webhookHostAllowedForType (urlHostname u) ty"
    "if normalizedType ty = ''discord'' \<and> isDiscordWebhookHost (urlHostname u)
     then validDiscordWebhookPath (neEscapedPath net u) \<and> urlFragment u = [] \<and> nePort net u \<in> {[], ''443''} \<and>
       target = neURLString net (u\<lparr>urlScheme := ''https'', urlHost := ''discord.com''\<rparr>)
     else target = TrimSpace raw"
    using assms(2)
    by (auto simp: NormalizeWebhookURLForType_def NormalizeWebhookURLForTypeWithPolicy_def Let_def
        split: option.splits if_splits)
  have host: "hostName (urlHostname u) \<notin> {[], ''localhost''}" "\<not> HasSuffix (hostName (urlHostname u)) ''.localhost''"
    "\<forall>ad. neParseIP net (hostName (urlHostname u)) = Some ad \<longrightarrow> \<not> insideAddress ad"
    using u(5) by (auto simp: unsafeWebhookHost_def Let_def unsafe_inside split: if_splits)
  have type: "normalizedType ty = ''slack'' \<longrightarrow> hostName (urlHostname u) = ''hooks.slack.com''"
    "normalizedType ty = ''discord'' \<longrightarrow> isDiscordWebhookHost (hostName (urlHostname u))"
    using u(6) by (auto simp: webhookHostAllowedForType_def Let_def)
  show ?thesis using u host type by (intro exI [of _ u]) (auto split: if_splits)
qed

text \<open>The host test for the channel type accepts a host that the selection of the Discord checks does not.\<close>

lemma discord_double_dot:
  "webhookHostAllowedForType ''discord.com..'' ''discord'' \<and> \<not> isDiscordWebhookHost ''discord.com..''"
  by (simp add: webhookHostAllowedForType_def isDiscordWebhookHost_def hostName_def normalizedType_def TrimSuffix_def
      HasSuffix_def Let_def go_eval)

definition sampleNet :: netenv where
  "sampleNet = \<lparr>neGo = (concreteEnv [(''GO_ENV'', ''production'')])\<lparr>urlParse := (\<lambda>_. Some \<lparr>urlScheme = ''https'',
       urlHost = ''hooks.slack.com'', urlHostname = ''hooks.slack.com'', urlUser = None, urlPath = ''/x'', urlRawQuery = [],
       urlFragment = []\<rparr>)\<rparr>,
     neParseIP = (\<lambda>_. None), neIPString = (\<lambda>_. ''203.0.113.9''), neLookup = (\<lambda>_. Some [[127, 0, 0, 1], [203, 0, 113, 9]]),
     neSplitHostPort = (\<lambda>_. Some (''hooks.slack.com'', ''443'')), nePort = (\<lambda>_. []), neEscapedPath = urlPath,
     neURLString = (\<lambda>_. [])\<rparr>"

theorem webhook_url_policy_witness:
  "observabilityProductionEnvironment (neGo sampleNet) \<and>
   NormalizeWebhookURLForType sampleNet ''https://hooks.slack.com/x'' ''slack'' = Inr ''https://hooks.slack.com/x'' \<and>
   (\<exists>u. urlParse (neGo sampleNet) (TrimSpace ''https://hooks.slack.com/x'') = Some u \<and> urlScheme u = ''https'' \<and>
      hostName (urlHostname u) = ''hooks.slack.com'')"
proof -
  have prod: "observabilityProductionEnvironment (neGo sampleNet)"
    by (simp add: observabilityProductionEnvironment_def sampleNet_def concreteEnv_def go_eval EqualFold_def)
  have norm: "NormalizeWebhookURLForType sampleNet ''https://hooks.slack.com/x'' ''slack'' = Inr ''https://hooks.slack.com/x''"
    by (simp add: NormalizeWebhookURLForType_def NormalizeWebhookURLForTypeWithPolicy_def sampleNet_def Let_def
        unsafeWebhookHost_def hostName_def TrimSuffix_def HasSuffix_def webhookHostAllowedForType_def normalizedType_def
        go_eval)
  have "normalizedType ''slack'' = ''slack''" by (simp add: normalizedType_def Let_def go_eval)
  with webhook_url_policy [OF disjI1 [OF prod] norm] prod norm show ?thesis by auto
qed

text \<open>
  C14: the connection itself is guarded too: when private targets are not allowed, both dialers contact only an address that the
  name resolves to at that moment and that is none of the inside: not in the reserved IPv4 ranges, in four-byte or IPv4-mapped
  form, and not the IPv6 loopback or unspecified address, a unique local, link-local or multicast address.
\<close>

theorem dial_never_private:
  assumes "safeWebhookDialContext net False address = Inr target \<and> neSplitHostPort net address = Some (host, port) \<or>
    safeSMTPDialContext net False host p = Inr target \<and> port = FormatInt p"
  shows "\<exists>resolved ad. neLookup net host = Some resolved \<and> ad \<in> set resolved \<and> target = JoinHostPort (neIPString net ad) port \<and>
    \<not> insideAddress ad"
proof -
  have found: "ad \<in> set resolved \<and> \<not> insideAddress ad"
    if "List.find (\<lambda>a. \<not> unsafeWebhookIP a) resolved = Some ad" for resolved ad
    using that by (auto simp: find_Some_iff unsafe_inside)
  show ?thesis
    using assms by (auto simp: safeWebhookDialContext_def safeSMTPDialContext_def dest!: found
        split: option.splits if_splits)
qed

theorem dial_never_private_witness:
  "safeWebhookDialContext sampleNet False ''hooks.slack.com:443'' = Inr ''203.0.113.9:443'' \<and>
   (\<exists>resolved ad. neLookup sampleNet ''hooks.slack.com'' = Some resolved \<and> ad \<in> set resolved \<and> \<not> insideAddress ad)"
proof -
  have dial: "safeWebhookDialContext sampleNet False ''hooks.slack.com:443'' = Inr ''203.0.113.9:443''"
    by (simp add: safeWebhookDialContext_def sampleNet_def JoinHostPort_def unsafeWebhookIP_def IsLoopback_def IsPrivate_def
        IsLinkLocalUnicast_def IsLinkLocalMulticast_def IsUnspecified_def IsMulticast_def to4_def Cons_replicate_eq)
  have "neSplitHostPort sampleNet ''hooks.slack.com:443'' = Some (''hooks.slack.com'', ''443'')" by (simp add: sampleNet_def)
  with dial dial_never_private [of sampleNet "''hooks.slack.com:443''" "''203.0.113.9:443''" "''hooks.slack.com''" "''443''"]
  show ?thesis by blast
qed

text \<open>
  the retries of a webhook are exact.  At least one attempt and at most the configured number
  are made; every attempt but the last failed in a way that is retried (an exchange error, 408, 429
  or 5xx) and was followed by a completed pause; delivery succeeds exactly when the last attempt was
  answered with 2xx, and gives up only when the attempts are used up, the failure is not retried, or
  the pause was cut off.
\<close>

theorem webhook_retry_exact:
  assumes "webhookAttempts send sleep base (attemptCount retryMax) 0 = (r, made)"
  shows "1 \<le> made \<and> made \<le> attemptCount retryMax \<and>
    (\<forall>j < made - 1. goesOn (send j) \<and> pauseOK sleep base j) \<and>
    (r = Inr () \<longleftrightarrow> accepted (send (made - 1))) \<and>
    (r \<noteq> Inr () \<longrightarrow> made = attemptCount retryMax \<or> \<not> goesOn (send (made - 1)) \<or> \<not> pauseOK sleep base (made - 1))"
proof -
  have "0 < attemptCount retryMax" by (simp add: attemptCount_def Let_def)
  from webhookAttempts_char [OF this assms] show ?thesis by auto
qed

theorem webhook_retry_exact_witness:
  "webhookAttempts (\<lambda>k. if k < 2 then HTTPStatus 503 else HTTPStatus 200) (\<lambda>_. None) 5 (attemptCount 3) 0 = (Inr (), 3) \<and>
   3 \<le> attemptCount 3"
proof -
  have n: "attemptCount 3 = Suc (Suc (Suc (Suc 0)))" by (simp add: attemptCount_def wrap64_def)
  have run: "webhookAttempts (\<lambda>k. if k < 2 then HTTPStatus 503 else HTTPStatus 200) (\<lambda>_. None) 5 (attemptCount 3) 0 = (Inr (), 3)"
    by (simp add: n Let_def retryableWebhookStatus_def sleepWithFunc_def numeral_3_eq_3)
  from webhook_retry_exact [OF run] run show ?thesis by simp
qed

text \<open>
  C12: the fan-out reaches exactly the right destinations.  There is one result per destination of the wanted channels (a webhook,
  or each mail recipient alone), in the order of the store, less those whose identifier is excluded because they accepted the event
  before; each result says success exactly when that very destination accepted the event: its own webhook address, the relay with
  its recipient, or its own mail server.  The fallback webhook is used exactly when no channel is wanted.
\<close>

theorem fan_out_exact:
  assumes "fanOut net os n fallback (Inr chs) rawType incident excluded = (results, err)"
    and "chosen = filter (wantedChannel (normalizedEventType rawType) (incSeverity incident)) chs"
  shows "if chosen = [] \<and> fallback \<noteq> None
    then results = fst (the fallback (normalizedEventType rawType)) \<and>
      err = map_option ErrText (snd (the fallback (normalizedEventType rawType)))
    else err = None \<and> map (\<lambda>d. (drChannelID d, drStatus d)) results =
      map (\<lambda>(cid, c). (cid, if accepts net os n c then ''success'' else ''failure''))
        (filter (\<lambda>(cid, c). cid = [] \<or> cid \<notin> set excluded) (concat (map (destinationsOf (neGo net)) chosen)))"
proof -
  have one: "map (\<lambda>d. (drChannelID d, drStatus d)) (concat (map (deliverDestination net os n ev c) (channelDestinations (neGo net) excluded c))) =
      map (\<lambda>(cid, c). (cid, if accepts net os n c then ''success'' else ''failure''))
        (filter (\<lambda>(cid, c). cid = [] \<or> cid \<notin> set excluded) (destinationsOf (neGo net) c))" for ev c
    by (auto simp: map_concat_statuses channelDestinations_reference case_prod_unfold
        intro!: notifyChannel_status [THEN trans] simp del: split_paired_All)
  have all: "map (\<lambda>d. (drChannelID d, drStatus d)) (concat (map (\<lambda>c. concat (map (deliverDestination net os n ev c)
        (channelDestinations (neGo net) excluded c))) cs)) =
      map (\<lambda>(cid, c). (cid, if accepts net os n c then ''success'' else ''failure''))
        (filter (\<lambda>(cid, c). cid = [] \<or> cid \<notin> set excluded) (concat (map (destinationsOf (neGo net)) cs)))" for ev cs
    by (induction cs) (simp_all only: list.map concat.simps map_append filter_append one filter.simps)
  have chosen: "filter (selectedChannel (normalizedEventType rawType) incident) chs = chosen"
    unfolding assms(2) by (rule filter_cong) (simp_all add: selected_wanted)
  have run: "(if concat (map (\<lambda>c. concat (map (deliverDestination net os n (normalizedEventType rawType) c)
        (channelDestinations (neGo net) excluded c))) chosen) = [] \<and> chosen = [] \<and> fallback \<noteq> None
      then (let (rs, err) = the fallback (normalizedEventType rawType) in (rs, map_option ErrText err))
      else (concat (map (\<lambda>c. concat (map (deliverDestination net os n (normalizedEventType rawType) c)
        (channelDestinations (neGo net) excluded c))) chosen), None)) = (results, err)"
    using assms(1) by (simp only: fanOut_def Let_def sum.case chosen)
  show ?thesis
  proof (cases "chosen = [] \<and> fallback \<noteq> None")
    case True
    then show ?thesis using run by (auto split: prod.splits)
  next
    case False
    then have "err = None" "results = concat (map (\<lambda>c. concat (map (deliverDestination net os n (normalizedEventType rawType) c)
        (channelDestinations (neGo net) excluded c))) chosen)"
      using run by (auto split: if_splits)
    with False show ?thesis by (simp only: all if_False simp_thms)
  qed
qed

definition sampleChannel :: "string \<Rightarrow> NotificationChannel" where
  "sampleChannel cid = \<lparr>chID = cid, chName = ''c'', chType = ''generic'', chEnabled = True, chUseGlobalSMTP = False,
     chUseGlobalSMTPSet = False, chWebhookURL = ''https://x'', chMaskedWebhookURL = [], chEmailRecipients = None,
     chSMTPHost = [], chSMTPPort = 0, chSMTPTLS = False, chSMTPFrom = [], chSMTPUsername = [], chSMTPPassword = [],
     chSMTPPasswordConfigured = False, chMaskedEmailTarget = [], chSeverityFilter = None, chEventTypeFilter = None,
     chCreatedAt = 1, chUpdatedAt = 1\<rparr>"

theorem fan_out_exact_witness:
  "map (\<lambda>d. (drChannelID d, drStatus d)) (fst (fanOut sampleNet \<lparr>osHTTP = (\<lambda>_ k. HTTPStatus (if k = 0 then 503 else 200)),
      osSMTP = (\<lambda>_ _. None), osRelay = None, osSleep = (\<lambda>_. None)\<rparr>
      \<lparr>cnRetryMax = 3, cnRetryBaseDelay = 1, cnAllowPrivate = False\<rparr> None
      (Inr [sampleChannel ''a'', sampleChannel ''b'', (sampleChannel ''c'')\<lparr>chEnabled := False\<rparr>])
      ''incident.opened'' zeroIncident [''a''])) = [(''b'', ''success'')]"
proof -
  let ?chs = "[sampleChannel ''a'', sampleChannel ''b'', (sampleChannel ''c'')\<lparr>chEnabled := False\<rparr>]"
  let ?os = "\<lparr>osHTTP = (\<lambda>_ k. HTTPStatus (if k = 0 then 503 else 200)), osSMTP = (\<lambda>_ _. None), osRelay = None, osSleep = (\<lambda>_. None)\<rparr>"
  let ?n = "\<lparr>cnRetryMax = 3, cnRetryBaseDelay = 1, cnAllowPrivate = False\<rparr>"
  have chosen: "filter (wantedChannel ev sev) ?chs = [sampleChannel ''a'', sampleChannel ''b'']" for ev sev
    by (simp add: wantedChannel_def sampleChannel_def admits_def)
  have url: "NormalizeWebhookURLForTypeWithPolicy sampleNet ''https://x'' ''generic'' p = Inr ''https://x''" for p
    by (simp add: NormalizeWebhookURLForTypeWithPolicy_def sampleNet_def Let_def unsafeWebhookHost_def hostName_def TrimSuffix_def
        HasSuffix_def webhookHostAllowedForType_def normalizedType_def go_eval)
  have n: "attemptCount 3 = Suc (Suc (Suc (Suc 0)))" by (simp add: attemptCount_def wrap64_def)
  have "accepts sampleNet ?os ?n (sampleChannel ''b'')"
    by (simp add: accepts_def sampleChannel_def url n firstSuccess_Suc accepted_def goesOn_def retryableWebhookStatus_def
        pauseOK_def sleepWithFunc_def go_eval)
  then show ?thesis
    using fan_out_exact [of sampleNet ?os ?n None ?chs "''incident.opened''" zeroIncident "[''a'']",
        OF prod.collapse [symmetric] HOL.refl, unfolded chosen]
    by (simp add: destinationsOf_def sampleChannel_def)
qed

end
