(* ===== verification/Text_Tools.thy ===== *)
theory Text_Tools
  imports Node_Config
begin

text \<open>
  The functions of \<^verbatim>\<open>strings\<close> and \<^verbatim>\<open>html\<close> that only the notification texts use.
\<close>

subsection \<open>Upper case\<close>

text \<open>The simple upper-case mapping of \<^verbatim>\<open>unicode.ToUpper\<close> outside ASCII, as in \<open>lowerRanges\<close>.\<close>

definition upperRanges :: "(nat \<times> nat \<times> nat \<times> int) list" where
  "upperRanges = [
    (181, 181, 1, 743), (224, 246, 1, -32), (248, 254, 1, -32), (255, 255, 1, 121),
    (257, 303, 2, -1), (305, 305, 1, -232), (307, 311, 2, -1), (314, 328, 2, -1),
    (331, 375, 2, -1), (378, 382, 2, -1), (383, 383, 1, -300), (384, 384, 1, 195),
    (387, 389, 2, -1), (392, 392, 1, -1), (396, 396, 1, -1), (402, 402, 1, -1),
    (405, 405, 1, 97), (409, 409, 1, -1), (410, 410, 1, 163), (414, 414, 1, 130),
    (417, 421, 2, -1), (424, 424, 1, -1), (429, 429, 1, -1), (432, 432, 1, -1),
    (436, 438, 2, -1), (441, 441, 1, -1), (445, 445, 1, -1), (447, 447, 1, 56),
    (453, 453, 1, -1), (454, 454, 1, -2), (456, 456, 1, -1), (457, 457, 1, -2),
    (459, 459, 1, -1), (460, 460, 1, -2), (462, 476, 2, -1), (477, 477, 1, -79),
    (479, 495, 2, -1), (498, 498, 1, -1), (499, 499, 1, -2), (501, 501, 1, -1),
    (505, 543, 2, -1), (547, 563, 2, -1), (572, 572, 1, -1), (575, 576, 1, 10815),
    (578, 578, 1, -1), (583, 591, 2, -1), (592, 592, 1, 10783), (593, 593, 1, 10780),
    (594, 594, 1, 10782), (595, 595, 1, -210), (596, 596, 1, -206), (598, 599, 1, -205),
    (601, 601, 1, -202), (603, 603, 1, -203), (604, 604, 1, 42319), (608, 608, 1, -205),
    (609, 609, 1, 42315), (611, 611, 1, -207), (613, 613, 1, 42280), (614, 614, 1, 42308),
    (616, 616, 1, -209), (617, 617, 1, -211), (618, 618, 1, 42308), (619, 619, 1, 10743),
    (620, 620, 1, 42305), (623, 623, 1, -211), (625, 625, 1, 10749), (626, 626, 1, -213),
    (629, 629, 1, -214), (637, 637, 1, 10727), (640, 640, 1, -218), (642, 642, 1, 42307),
    (643, 643, 1, -218), (647, 647, 1, 42282), (648, 648, 1, -218), (649, 649, 1, -69),
    (650, 651, 1, -217), (652, 652, 1, -71), (658, 658, 1, -219), (669, 669, 1, 42261),
    (670, 670, 1, 42258), (837, 837, 1, 84), (881, 883, 2, -1), (887, 887, 1, -1),
    (891, 893, 1, 130), (940, 940, 1, -38), (941, 943, 1, -37), (945, 961, 1, -32),
    (962, 962, 1, -31), (963, 971, 1, -32), (972, 972, 1, -64), (973, 974, 1, -63),
    (976, 976, 1, -62), (977, 977, 1, -57), (981, 981, 1, -47), (982, 982, 1, -54),
    (983, 983, 1, -8), (985, 1007, 2, -1), (1008, 1008, 1, -86), (1009, 1009, 1, -80),
    (1010, 1010, 1, 7), (1011, 1011, 1, -116), (1013, 1013, 1, -96), (1016, 1016, 1, -1),
    (1019, 1019, 1, -1), (1072, 1103, 1, -32), (1104, 1119, 1, -80), (1121, 1153, 2, -1),
    (1163, 1215, 2, -1), (1218, 1230, 2, -1), (1231, 1231, 1, -15), (1233, 1327, 2, -1),
    (1377, 1414, 1, -48), (4304, 4346, 1, 3008), (4349, 4351, 1, 3008), (5112, 5117, 1, -8),
    (7296, 7296, 1, -6254), (7297, 7297, 1, -6253), (7298, 7298, 1, -6244),
    (7299, 7300, 1, -6242), (7301, 7301, 1, -6243), (7302, 7302, 1, -6236),
    (7303, 7303, 1, -6181), (7304, 7304, 1, 35266), (7545, 7545, 1, 35332),
    (7549, 7549, 1, 3814), (7566, 7566, 1, 35384), (7681, 7829, 2, -1), (7835, 7835, 1, -59),
    (7841, 7935, 2, -1), (7936, 7943, 1, 8), (7952, 7957, 1, 8), (7968, 7975, 1, 8),
    (7984, 7991, 1, 8), (8000, 8005, 1, 8), (8017, 8023, 2, 8), (8032, 8039, 1, 8),
    (8048, 8049, 1, 74), (8050, 8053, 1, 86), (8054, 8055, 1, 100), (8056, 8057, 1, 128),
    (8058, 8059, 1, 112), (8060, 8061, 1, 126), (8064, 8071, 1, 8), (8080, 8087, 1, 8),
    (8096, 8103, 1, 8), (8112, 8113, 1, 8), (8115, 8115, 1, 9), (8126, 8126, 1, -7205),
    (8131, 8131, 1, 9), (8144, 8145, 1, 8), (8160, 8161, 1, 8), (8165, 8165, 1, 7),
    (8179, 8179, 1, 9), (8526, 8526, 1, -28), (8560, 8575, 1, -16), (8580, 8580, 1, -1),
    (9424, 9449, 1, -26), (11312, 11359, 1, -48), (11361, 11361, 1, -1),
    (11365, 11365, 1, -10795), (11366, 11366, 1, -10792), (11368, 11372, 2, -1),
    (11379, 11379, 1, -1), (11382, 11382, 1, -1), (11393, 11491, 2, -1), (11500, 11502, 2, -1),
    (11507, 11507, 1, -1), (11520, 11557, 1, -7264), (11559, 11559, 1, -7264),
    (11565, 11565, 1, -7264), (42561, 42605, 2, -1), (42625, 42651, 2, -1),
    (42787, 42799, 2, -1), (42803, 42863, 2, -1), (42874, 42876, 2, -1), (42879, 42887, 2, -1),
    (42892, 42892, 1, -1), (42897, 42899, 2, -1), (42900, 42900, 1, 48), (42903, 42921, 2, -1),
    (42933, 42947, 2, -1), (42952, 42954, 2, -1), (42961, 42961, 1, -1), (42967, 42969, 2, -1),
    (42998, 42998, 1, -1), (43859, 43859, 1, -928), (43888, 43967, 1, -38864),
    (65345, 65370, 1, -32), (66600, 66639, 1, -40), (66776, 66811, 1, -40),
    (66967, 66977, 1, -39), (66979, 66993, 1, -39), (66995, 67001, 1, -39),
    (67003, 67004, 1, -39), (68800, 68850, 1, -64), (71872, 71903, 1, -32),
    (93792, 93823, 1, -32), (125218, 125251, 1, -34)]"

definition toUpperRune :: "nat \<Rightarrow> nat" where
  "toUpperRune r =
     (if r < 128 then (if 97 \<le> r \<and> r \<le> 122 then r - 32 else r)
      else case find (\<lambda>(lo, hi, st, d). lo \<le> r \<and> r \<le> hi \<and> (r - lo) mod st = 0) upperRanges of
        Some (lo, hi, st, d) \<Rightarrow> nat (int r + d)
      | None \<Rightarrow> r)"

definition upperByte :: "char \<Rightarrow> char" where
  "upperByte c = (if 97 \<le> b2n c \<and> b2n c \<le> 122 then n2b (b2n c - 32) else c)"

definition ToUpper :: "string \<Rightarrow> string" where
  "ToUpper s = (if isASCII s then map upperByte s else ofRunes (map toUpperRune (runes s)))"

subsection \<open>Replacing and splitting\<close>

text \<open>\<^verbatim>\<open>strings.ReplaceAll\<close> for a text to replace that is not empty.\<close>

function ReplaceAll :: "string \<Rightarrow> string \<Rightarrow> string \<Rightarrow> string" where
  "ReplaceAll old new [] = []"
| "ReplaceAll old new (c # s) =
     (if old \<noteq> [] \<and> HasPrefix (c # s) old then new @ ReplaceAll old new (drop (length old - 1) s)
      else c # ReplaceAll old new s)"
  by pat_completeness auto
termination
  by (relation "measure (\<lambda>(old, new, s). length s)") auto

lemma ReplaceAll_byte: "ReplaceAll [c] new s = concat (map (\<lambda>x. if x = c then new else [x]) s)"
  by (induction s) (auto simp: HasPrefix_def)

definition TrimPrefix :: "string \<Rightarrow> string \<Rightarrow> string" where
  "TrimPrefix s p = (if HasPrefix s p then drop (length p) s else s)"

text \<open>\<^verbatim>\<open>strings.Fields\<close>: \<open>acc\<close> is the field being read, backwards.\<close>

function fieldsFrom :: "string \<Rightarrow> string \<Rightarrow> string list" where
  "fieldsFrom acc [] = (if acc = [] then [] else [rev acc])"
| "fieldsFrom acc (c # s) =
     (case stripOne spaceSeqs (c # s) of
        Some t \<Rightarrow> (if acc = [] then [] else [rev acc]) @ fieldsFrom [] t
      | None \<Rightarrow> fieldsFrom (c # acc) s)"
  by pat_completeness auto
termination
  by (relation "measure (\<lambda>(acc, s). length s)") (auto dest: stripOne_shorter)

definition Fields :: "string \<Rightarrow> string list" where
  "Fields s = fieldsFrom [] s"

subsection \<open>HTML\<close>

text \<open>\<^verbatim>\<open>html.EscapeString\<close> byte by byte; the five bytes are ASCII.\<close>

definition escapeByte :: "char \<Rightarrow> string" where
  "escapeByte c =
     (if c = CHR ''&'' then ''&amp;'' else if c = CHR 0x27 then ''&#39;'' else if c = CHR ''<'' then ''&lt;''
      else if c = CHR ''>'' then ''&gt;'' else if c = CHR 0x22 then ''&#34;'' else [c])"

definition EscapeString :: "string \<Rightarrow> string" where
  "EscapeString s = concat (map escapeByte s)"

lemma escapeByte_inert: "CHR ''<'' \<notin> set (escapeByte c)" "CHR ''>'' \<notin> set (escapeByte c)" "CHR 0x22 \<notin> set (escapeByte c)"
    "CHR 0x27 \<notin> set (escapeByte c)"
  by (auto simp: escapeByte_def)

lemma EscapeString_inert: "CHR ''<'' \<notin> set (EscapeString s)" "CHR ''>'' \<notin> set (EscapeString s)"
    "CHR 0x22 \<notin> set (EscapeString s)" "CHR 0x27 \<notin> set (EscapeString s)"
  using escapeByte_inert by (auto simp: EscapeString_def)

subsection \<open>Encoding and decoding of runes\<close>

text \<open>A rune that \<^verbatim>\<open>utf8\<close> encodes as itself; decoding only ever yields such runes.\<close>

definition validRune :: "nat \<Rightarrow> bool" where
  "validRune r \<longleftrightarrow> r < 55296 \<or> 57344 \<le> r \<and> r \<le> 1114111"

lemma map_b2n_n2b: "\<forall>b\<in>set bs. b < 256 \<Longrightarrow> map b2n (map n2b bs) = bs"
  by (induction bs) (auto simp: b2n_n2b)

lemma validRune_error [simp]: "validRune runeError"
  by (simp add: validRune_def runeError_def)

lemma decode2_valid: "192 \<le> b0 \<Longrightarrow> b0 \<le> 223 \<Longrightarrow> validRune (fst (decode2 b0 rest))"
  by (cases rest) (auto simp: decode2_def cont_def validRune_def runeError_def)

lemma decode3_valid:
  assumes "224 \<le> b0" "b0 \<le> 239"
  shows "validRune (fst (decode3 b0 rest))"
proof (cases "fst (decode3 b0 rest) = runeError")
  case False
  then obtain b1 b2 where b: "(if b0 = 237 then b1 \<le> 159 else b1 \<le> 191)" "128 \<le> b1" "128 \<le> b2" "b2 \<le> 191"
    and v: "fst (decode3 b0 rest) = (b0 - 224) * 4096 + (b1 - 128) * 64 + (b2 - 128)"
    by (auto simp: decode3_def cont_def split: list.splits if_splits)
  obtain x y z where xyz: "b0 = 224 + x" "b1 = 128 + y" "b2 = 128 + z"
    using assms b by (metis le_Suc_ex)
  then have "x \<le> 15" "y \<le> 63" "z \<le> 63" "x = 13 \<Longrightarrow> y \<le> 31"
    using assms b by (auto split: if_splits)
  moreover have "fst (decode3 b0 rest) = x * 4096 + y * 64 + z" using v by (simp add: xyz)
  ultimately show ?thesis unfolding validRune_def by (cases "x \<le> 12"; cases "x = 13") auto
qed simp

lemma decode4_valid:
  assumes "240 \<le> b0" "b0 \<le> 244"
  shows "validRune (fst (decode4 b0 rest))"
proof (cases "fst (decode4 b0 rest) = runeError")
  case False
  then obtain b1 b2 b3 where b: "(if b0 = 240 then 144 else 128) \<le> b1" "(if b0 = 244 then b1 \<le> 143 else b1 \<le> 191)"
      "128 \<le> b2" "b2 \<le> 191" "128 \<le> b3" "b3 \<le> 191"
    and v: "fst (decode4 b0 rest) = (b0 - 240) * 262144 + (b1 - 128) * 4096 + (b2 - 128) * 64 + (b3 - 128)"
    by (auto simp: decode4_def cont_def split: list.splits if_splits)
  have "128 \<le> b1" using b(1) by (auto split: if_splits)
  then obtain w x y z where wxyz: "b0 = 240 + w" "b1 = 128 + x" "b2 = 128 + y" "b3 = 128 + z"
    using assms b(3,5) by (metis le_Suc_ex)
  then have "w \<le> 4" "x \<le> 63" "y \<le> 63" "z \<le> 63" "w = 4 \<Longrightarrow> x \<le> 15" "w = 0 \<Longrightarrow> 16 \<le> x"
    using assms b by (auto split: if_splits)
  moreover have "fst (decode4 b0 rest) = w * 262144 + x * 4096 + y * 64 + z" using v by (simp add: wxyz)
  ultimately show ?thesis unfolding validRune_def by (cases "w = 0"; cases "w = 4") auto
qed simp

lemma decodeRune_valid: "validRune (fst (decodeRune bs))"
proof (cases bs)
  case (Cons b0 rest)
  then show ?thesis
    by (auto simp: decode2_valid decode3_valid decode4_valid) (simp add: validRune_def)
qed simp

lemma runesB_valid: "r \<in> set (runesB bs) \<Longrightarrow> validRune r"
proof (induction bs rule: runesB.induct)
  case (1 bs)
  then show ?case
    by (cases "bs = []") (auto simp: runesB.simps [of bs] runesB.simps [of "[]"] decodeRune_valid)
qed

lemma runes_valid: "r \<in> set (runes s) \<Longrightarrow> validRune r"
  by (auto simp: runes_def intro: runesB_valid)

text \<open>The bytes \<^verbatim>\<open>utf8\<close> writes for a rune that it can encode.\<close>

definition runeBytes :: "nat \<Rightarrow> nat list" where
  "runeBytes r =
     (if r < 128 then [r]
      else if r < 2048 then [192 + r div 64, 128 + r mod 64]
      else if r < 65536 then [224 + r div 4096, 128 + (r div 64) mod 64, 128 + r mod 64]
      else [240 + r div 262144, 128 + (r div 4096) mod 64, 128 + (r div 64) mod 64, 128 + r mod 64])"

lemma encodeRune_bytes: "validRune r \<Longrightarrow> map b2n (encodeRune r) = runeBytes r"
proof -
  assume r: "validRune r"
  have "\<forall>b\<in>set (runeBytes r). b < 256"
    using r by (auto simp: runeBytes_def validRune_def)
  moreover have "encodeRune r = map n2b (runeBytes r)"
    using r by (auto simp: encodeRune_def runeBytes_def validRune_def)
  ultimately show ?thesis by (simp add: map_b2n_n2b del: map_map)
qed

lemma decode_runeBytes:
  assumes "validRune r"
  shows "decodeRune (runeBytes r @ rest) = (r, length (runeBytes r))"
proof -
  have split: "r = 64 * (r div 64) + r mod 64" "r div 64 = 64 * (r div 4096) + r div 64 mod 64"
      "r div 4096 = 64 * (r div 262144) + r div 4096 mod 64"
    using div_mult2_eq [of r 64 64] div_mult2_eq [of r 4096 64] by (simp_all add: mult_div_mod_eq)
  consider "r < 128" | "128 \<le> r" "r < 2048" | "2048 \<le> r" "r < 65536" | "65536 \<le> r" by linarith
  then show ?thesis
  proof cases
    case 1 then show ?thesis by (simp add: runeBytes_def)
  next
    case 2
    then have "2 \<le> r div 64" "r div 64 < 32" by auto
    with 2 show ?thesis by (simp add: runeBytes_def decode2_def cont_def)
  next
    case 3
    define x y z where "x = r div 4096" "y = r div 64 mod 64" "z = r mod 64"
    have r: "r = x * 4096 + y * 64 + z" "y < 64" "z < 64"
      unfolding x_y_z_def using split(1,2) by (linarith, simp_all)
    have "x = 0 \<Longrightarrow> 32 \<le> y" "x = 13 \<Longrightarrow> y \<le> 31" "x \<le> 15"
      using 3 r assms by (auto simp: validRune_def)
    moreover have "runeBytes r = [224 + x, 128 + y, 128 + z]"
      using 3 by (simp add: runeBytes_def x_y_z_def)
    moreover have "0 < r" using 3 by simp
    ultimately show ?thesis
      using r(2,3) by (auto simp: decode3_def cont_def simp flip: r(1))
  next
    case 4
    define w x y z where "w = r div 262144" "x = r div 4096 mod 64" "y = r div 64 mod 64" "z = r mod 64"
    have r: "r = w * 262144 + x * 4096 + y * 64 + z" "x < 64" "y < 64" "z < 64"
      unfolding w_x_y_z_def using split by (linarith, simp_all)
    have "w = 0 \<Longrightarrow> 16 \<le> x" "w = 4 \<Longrightarrow> x \<le> 15" "w \<le> 4"
      using 4 r assms by (auto simp: validRune_def)
    moreover have "runeBytes r = [240 + w, 128 + x, 128 + y, 128 + z]"
      using 4 by (simp add: runeBytes_def w_x_y_z_def)
    ultimately show ?thesis
      using r(2-4) by (auto simp: decode4_def cont_def simp flip: r(1))
  qed
qed

lemma runes_encode: "validRune r \<Longrightarrow> runes (encodeRune r @ s) = r # runes s"
  using decode_runeBytes [of r "map b2n s"]
  by (subst runes_def, subst runesB.simps) (auto simp: encodeRune_bytes runes_def runeBytes_def)

lemma runes_ofRunes: "\<forall>r\<in>set rs. validRune r \<Longrightarrow> runes (ofRunes rs @ s) = rs @ runes s"
  by (induction rs) (auto simp: ofRunes_def runes_encode)

lemma runes_Nil [simp]: "runes [] = []"
  by (simp add: runes_def runesB.simps)

end
