(* ===== verification/Notification_Labels.thy ===== *)
theory Notification_Labels
  imports Webhook Text_Tools
begin

text \<open>
  The Japanese labels of \<^verbatim>\<open>internal/notifications/webhook.go\<close>: actions, resources, rules, events,
  severities and statuses.  A label table is an association list in the order of the source.
\<close>

subsection \<open>Tables\<close>

text \<open>The table of \<^verbatim>\<open>NotificationActionLabel\<close>, the two entries assigned after the literal last.\<close>

definition actionLabels :: "(string \<times> string) list" where
  "actionLabels =
     [(''app.settings.test_email'', ja ''~e38386e382b9e38388e383a1e383bce383abe38292e98081e4bfa1~''),
      (''app.settings.update'', ja ''~e382a2e38397e383aae8a8ade5ae9ae38292e69bb4e696b0~''),
      (''api_tokens.create'', ja ''API~e38388e383bce382afe383b3e38292e4bd9ce68890~''),
      (''api_tokens.revoke'', ja ''API~e38388e383bce382afe383b3e38292e5a4b1e58ab9~''),
      (''api_tokens.rotate'', ja ''API~e38388e383bce382afe383b3e38292e5868de7949fe68890~''),
      (''archive.artifact.delete'', ja ''~e98cb2e794bbe38395e382a1e382a4e383abe38292e5898ae999a4~''),
      (''archive.artifact.download'', ja ''~e98cb2e794bbe38395e382a1e382a4e383abe38292e38380e382a6e383b3e383ade383bce38389~''),
      (''archive.artifact.rename'', ja ''~e98cb2e794bbe38395e382a1e382a4e383abe5908de38292e5a489e69bb4~''),
      (''archive.artifact.share.create'', ja ''~e98cb2e794bbe38395e382a1e382a4e383abe381aee585b1e69c89e383aae383b3e382afe38292e4bd9ce68890~''),
      (''archive.artifact.share.revoke'', ja ''~e98cb2e794bbe38395e382a1e382a4e383abe381aee585b1e69c89e383aae383b3e382afe38292e784a1e58ab9e58c96~''),
      (''archive_destinations.create'', ja ''Drive~e4bf9de5ad98e58588e38292e4bd9ce68890~''),
      (''archive_destinations.delete'', ja ''Drive~e4bf9de5ad98e58588e38292e5898ae999a4~''),
      (''archive_destinations.update'', ja ''Drive~e4bf9de5ad98e58588e38292e69bb4e696b0~''),
      (''archive_profiles.create'', ja ''Archive~e38397e383ade38395e382a1e382a4e383abe38292e4bd9ce68890~''),
      (''archive_profiles.delete'', ja ''Archive~e38397e383ade38395e382a1e382a4e383abe38292e5898ae999a4~''),
      (''archive_profiles.update'', ja ''Archive~e38397e383ade38395e382a1e382a4e383abe38292e69bb4e696b0~''),
      (''auth.change_password'', ja ''~e38391e382b9e383afe383bce38389e38292e5a489e69bb4~''),
      (''auth.email.change_request'', ja ''~e383a1e383bce383abe382a2e38389e383ace382b9e5a489e69bb4e38292e794b3e8ab8b~''),
      (''auth.email.confirm'', ja ''~e383a1e383bce383abe382a2e38389e383ace382b9e5a489e69bb4e38292e7a2bae8aa8d~''),
      (''auth.login'', ja ''~e7aea1e79086e794bbe99da2e381b8e383ade382b0e382a4e383b3~''),
      (''auth.logout'', ja ''~e7aea1e79086e794bbe99da2e3818be38289e383ade382b0e382a2e382a6e38388~''),
      (''auth.avatar.update'', ja ''~e38397e383ade38395e382a3e383bce383abe794bbe5838fe38292e69bb4e696b0~''),
      (''auth.avatar.delete'', ja ''~e38397e383ade38395e382a3e383bce383abe794bbe5838fe38292e5898ae999a4~''),
      (''auth.oauth.login'', ja ''OAuth~e381a7e383ade382b0e382a4e383b3~''),
      (''auth.oauth.provision_user'', ja ''OAuth~e383a6e383bce382b6e383bce38292e4bd9ce68890~''),
      (''auth.oauth.start'', ja ''OAuth~e383ade382b0e382a4e383b3e38292e9968be5a78b~''),
      (''auth.passkey.login.start'', ja ''Passkey~e383ade382b0e382a4e383b3e38292e9968be5a78b~''),
      (''auth.passkey.login.finish'', ja ''Passkey~e381a7e383ade382b0e382a4e383b3~''),
      (''auth.oauth_link.create'', ja ''OAuth~e980a3e690bae38292e4bd9ce68890~''),
      (''auth.oauth_link.delete'', ja ''OAuth~e980a3e690bae38292e8a7a3e999a4~''),
      (''discord_configs.create'', ja ''Discord BOT~e8a8ade5ae9ae38292e4bd9ce68890~''),
      (''discord_configs.delete'', ja ''Discord BOT~e8a8ade5ae9ae38292e5898ae999a4~''),
      (''discord_configs.update'', ja ''Discord BOT~e8a8ade5ae9ae38292e69bb4e696b0~''),
      (''diagnostics.run'', ja ''~e8a8bae696ade38292e5868de5ae9fe8a18c~''),
      (''caption_profiles.create'', ja ''Caption~e38397e383ade38395e382a1e382a4e383abe38292e4bd9ce68890~''),
      (''caption_profiles.delete'', ja ''Caption~e38397e383ade38395e382a1e382a4e383abe38292e5898ae999a4~''),
      (''caption_profiles.update'', ja ''Caption~e38397e383ade38395e382a1e382a4e383abe38292e69bb4e696b0~''),
      (''encoder_profiles.create'', ja ''Encoder~e38397e383ade38395e382a1e382a4e383abe38292e4bd9ce68890~''),
      (''encoder_profiles.delete'', ja ''Encoder~e38397e383ade38395e382a1e382a4e383abe38292e5898ae999a4~''),
      (''encoder_profiles.update'', ja ''Encoder~e38397e383ade38395e382a1e382a4e383abe38292e69bb4e696b0~''),
      (''incidents.acknowledge'', ja ''~e382a4e383b3e382b7e38387e383b3e38388e38292e7a2bae8aa8de6b888e381bfe381abe5a489e69bb4~''),
      (''incidents.resolve'', ja ''~e382a4e383b3e382b7e38387e383b3e38388e38292e8a7a3e6b1bae6b888e381bfe381abe5a489e69bb4~''),
      (''integrations.drive_destination.create'', ja ''Drive~e4bf9de5ad98e58588e38292e4bd9ce68890~''),
      (''integrations.drive_destination.delete'', ja ''Drive~e4bf9de5ad98e58588e38292e5898ae999a4~''),
      (''integrations.drive_destination.update'', ja ''Drive~e4bf9de5ad98e58588e38292e69bb4e696b0~''),
      (''integrations.oauth_account.connect'', ja ''OAuth~e68ea5e7b69ae382a2e382abe382a6e383b3e38388e38292e68ea5e7b69a~''),
      (''integrations.oauth_account.create'', ja ''OAuth~e68ea5e7b69ae382a2e382abe382a6e383b3e38388e38292e4bd9ce68890~''),
      (''integrations.oauth_account.delete'', ja ''OAuth~e68ea5e7b69ae382a2e382abe382a6e383b3e38388e38292e5898ae999a4~''),
      (''integrations.oauth_account.update'', ja ''OAuth~e68ea5e7b69ae382a2e382abe382a6e383b3e38388e38292e69bb4e696b0~''),
      (''integrations.oauth_provider.create'', ja ''OAuth~e38397e383ade38390e382a4e38380e38292e4bd9ce68890~''),
      (''integrations.oauth_provider.delete'', ja ''OAuth~e38397e383ade38390e382a4e38380e38292e5898ae999a4~''),
      (''integrations.oauth_provider.update'', ja ''OAuth~e38397e383ade38390e382a4e38380e38292e69bb4e696b0~''),
      (''mfa.disable'', ja ''MFA~e38292e784a1e58ab9e58c96~''),
      (''mfa.enroll'', ja ''MFA~e38292e799bbe98cb2~''),
      (''mfa.recovery_codes.regenerate'', ja ''MFA~e383aae382abe38390e383aae383bce382b3e383bce38389e38292e5868de799bae8a18c~''),
      (''mfa.verify'', ja ''MFA~e38292e7a2bae8aa8d~''),
      (''nodes.configure_token.rotate'', ja ''Node~e8a8ade5ae9ae38388e383bce382afe383b3e38292e5868de7949fe68890~''),
      (''nodes.delete'', ja ''Node~e38292e5898ae999a4~''),
      (''nodes.registration_token.create'', ja ''Node~e799bbe98cb2e38388e383bce382afe383b3e38292e799bae8a18c~''),
      (''nodes.runtime_token.rotate'', ja ''Node Runtime Token~e38292e5868de7949fe68890~''),
      (''nodes.update'', ja ''Node~e38292e69bb4e696b0~''),
      (''notification_channels.create'', ja ''~e9809ae79fa5e58588e38292e4bd9ce68890~''),
      (''notification_channels.delete'', ja ''~e9809ae79fa5e58588e38292e5898ae999a4~''),
      (''notification_channels.test'', ja ''~e9809ae79fa5e38386e382b9e38388e38292e98081e4bfa1~''),
      (''notification_channels.update'', ja ''~e9809ae79fa5e58588e38292e69bb4e696b0~''),
      (''oauth_accounts.create'', ja ''OAuth~e68ea5e7b69ae382a2e382abe382a6e383b3e38388e38292e4bd9ce68890~''),
      (''oauth_accounts.delete'', ja ''OAuth~e68ea5e7b69ae382a2e382abe382a6e383b3e38388e38292e5898ae999a4~''),
      (''oauth_accounts.update'', ja ''OAuth~e68ea5e7b69ae382a2e382abe382a6e383b3e38388e38292e69bb4e696b0~''),
      (''oauth_providers.create'', ja ''OAuth~e38397e383ade38390e382a4e38380e38292e4bd9ce68890~''),
      (''oauth_providers.delete'', ja ''OAuth~e38397e383ade38390e382a4e38380e38292e5898ae999a4~''),
      (''oauth_providers.update'', ja ''OAuth~e38397e383ade38390e382a4e38380e38292e69bb4e696b0~''),
      (''overlay_profiles.create'', ja ''Overlay~e38397e383ade38395e382a1e382a4e383abe38292e4bd9ce68890~''),
      (''overlay_profiles.delete'', ja ''Overlay~e38397e383ade38395e382a1e382a4e383abe38292e5898ae999a4~''),
      (''overlay_profiles.update'', ja ''Overlay~e38397e383ade38395e382a1e382a4e383abe38292e69bb4e696b0~''),
      (''passkeys.delete'', ja ''Passkey~e38292e5898ae999a4~''),
      (''passkeys.registration.start'', ja ''Passkey~e799bbe98cb2e38292e9968be5a78b~''),
      (''passkeys.registration.finish'', ja ''Passkey~e799bbe98cb2e38292e5ae8ce4ba86~''),
      (''remediation.approve'', ja ''~e5bea9e697a7e6938de4bd9ce38292e689bfe8aa8d~''),
      (''remediation.execute'', ja ''~e5bea9e697a7e6938de4bd9ce38292e5ae9fe8a18c~''),
      (''roles.create'', ja ''~e383ade383bce383abe38292e4bd9ce68890~''),
      (''roles.delete'', ja ''~e383ade383bce383abe38292e5898ae999a4~''),
      (''roles.update'', ja ''~e383ade383bce383abe38292e69bb4e696b0~''),
      (''secrets.update'', ja ''~e382b7e383bce382afe383ace38383e38388e38292e69bb4e696b0~''),
      (''security.settings.update'', ja ''~e382bbe382ade383a5e383aae38386e382a3e8a8ade5ae9ae38292e69bb4e696b0~''),
      (''services.assign'', ja ''Node~e38292e589b2e3828ae5bd93e381a6~''),
      (''services.delete'', ja ''Node~e38292e5898ae999a4~''),
      (''services.runtime_config.read'', ja ''Node~e3818ce5ae9fe8a18ce8a8ade5ae9ae38292e58f82e785a7~''),
      (''services.runtime_config.preview'', ja ''Node~e5ae9fe8a18ce8a8ade5ae9ae38292e38397e383ace38393e383a5e383bc~''),
      (''services.unassign'', ja ''Node~e381aee589b2e3828ae5bd93e381a6e38292e8a7a3e999a4~''),
      (''setup.first_admin'', ja ''~e5889de69c9fe7aea1e79086e88085e38292e4bd9ce68890~''),
      (''system_updates.create'', ja ''~e382b7e382b9e38386e383a0e69bb4e696b0e38292e4be9de9a0bc~''),
      (''system_updates.request'', ja ''~e382b7e382b9e38386e383a0e69bb4e696b0e38292e4be9de9a0bc~''),
      (''system_updates.cancel'', ja ''~e382b7e382b9e38386e383a0e69bb4e696b0e38292e382ade383a3e383b3e382bbe383ab~''),
      (''system_updates.claim'', ja ''~e382b7e382b9e38386e383a0e69bb4e696b0e382b8e383a7e38396e38292e58f96e5be97~''),
      (''system_updates.authorize'', ja ''~e382b7e382b9e38386e383a0e69bb4e696b0e381aee5ae9fe8a18ce38292e689bfe8aa8d~''),
      (''system_updates.report'', ja ''~e382b7e382b9e38386e383a0e69bb4e696b0e381aee980b2e68d97e38292e5a0b1e5918a~''),
      (''system_updates.succeeded'', ja ''~e382b7e382b9e38386e383a0e69bb4e696b0e381abe68890e58a9f~''),
      (''system_updates.rolled_back'', ja ''~e382b7e382b9e38386e383a0e69bb4e696b0e38292e383ade383bce383abe38390e38383e382af~''),
      (''system_updates.failed'', ja ''~e382b7e382b9e38386e383a0e69bb4e696b0e381abe5a4b1e69597~''),
      (''streams.create'', ja ''~e9858de4bfa1e69ea0e38292e4bd9ce68890~''),
      (''streams.discord_youtube_notify'', ja ''Discord~e381b8~YouTube~e9858de4bfa1e38292e9809ae79fa5~''),
      (''streams.force_stop'', ja ''~e9858de4bfa1e38292e5bcb7e588b6e5819ce6ada2~''),
      (''streams.mark_failed'', ja ''~e9858de4bfa1e38292e5a4b1e69597e78ab6e6858be381abe5a489e69bb4~''),
      (''streams.preview_link.create'', ja ''~e38397e383ace38393e383a5e383bce383aae383b3e382afe38292e4bd9ce68890~''),
      (''streams.rearm'', ja ''~e9858de4bfa1e69ea0e38292e5be85e6a99fe78ab6e6858be381abe688bbe38199~''),
      (''streams.retry_upload'', ja ''~e98cb2e794bbe38395e382a1e382a4e383abe381aee382a2e38383e38397e383ade383bce38389e38292e5868de8a9a6e8a18c~''),
      (''streams.start'', ja ''~e9858de4bfa1e38292e9968be5a78b~''),
      (''streams.stop'', ja ''~e9858de4bfa1e38292e5819ce6ada2~''),
      (''streams.update'', ja ''~e9858de4bfa1e69ea0e38292e69bb4e696b0~''),
      (''streams.update_settings'', ja ''~e9858de4bfa1e8a8ade5ae9ae38292e69bb4e696b0~''),
      (''streams.worker_event_test'', ja ''Worker~e382a4e38399e383b3e38388e38292e38386e382b9e38388~''),
      (''users.create'', ja ''~e383a6e383bce382b6e383bce38292e4bd9ce68890~''),
      (''users.delete'', ja ''~e383a6e383bce382b6e383bce38292e5898ae999a4~''),
      (''users.disable'', ja ''~e383a6e383bce382b6e383bce38292e784a1e58ab9e58c96~''),
      (''users.email_welcome'', ja ''~e382a6e382a7e383abe382abe383a0e383a1e383bce383abe38292e98081e4bfa1~''),
      (''users.oauth_link.create'', ja ''~e383a6e383bce382b6e383bce381ae~OAuth~e980a3e690bae38292e4bd9ce68890~''),
      (''users.oauth_link.delete'', ja ''~e383a6e383bce382b6e383bce381ae~OAuth~e980a3e690bae38292e8a7a3e999a4~''),
      (''users.force_password_change'', ja ''~e6aca1e59b9ee383ade382b0e382a4e383b3e69982e381aee38391e382b9e383afe383bce38389e5a489e69bb4e38292e8a681e6b182~''),
      (''users.lock'', ja ''~e383a6e383bce382b6e383bce38292e383ade38383e382af~''),
      (''users.reset_password'', ja ''~e383a6e383bce382b6e383bce381aee38391e382b9e383afe383bce38389e38292e383aae382bbe38383e38388~''),
      (''users.update'', ja ''~e383a6e383bce382b6e383bce38292e69bb4e696b0~''),
      (''users.unlock'', ja ''~e383a6e383bce382b6e383bce381aee383ade38383e382afe38292e8a7a3e999a4~''),
      (''workers.assign'', ja ''Worker~e38292e589b2e3828ae5bd93e381a6~''),
      (''workers.restart'', ja ''Worker~e38292e5868de8b5b7e58b95~''),
      (''workers.unassign'', ja ''Worker~e381aee589b2e3828ae5bd93e381a6e38292e8a7a3e999a4~''),
      (''youtube.complete'', ja ''YouTube~e9858de4bfa1e38292e7b582e4ba86~''),
      (''youtube_outputs.create'', ja ''YouTube~e587bae58a9be38292e4bd9ce68890~''),
      (''youtube_outputs.delete'', ja ''YouTube~e587bae58a9be38292e5898ae999a4~''),
      (''youtube_outputs.update'', ja ''YouTube~e587bae58a9be38292e69bb4e696b0~''),
      (''streams.youtube_relay_static_recovery.resolve'', ja ''~e59bbae5ae9ae383aae383ace383bce9858de4bfa1e381aee5bea9e697a7e38292e8a7a3e6b1bae6b888e381bfe381abe5a489e69bb4~''),
      (''youtube.relay_static_cleanup'', ja ''YouTube~e59bbae5ae9ae383aae383ace383bce381aee5be8ce5a78be69cabe38292e5ae9fe8a18c~'')]"

definition resourceLabels :: "(string \<times> string) list" where
  "resourceLabels =
     [(''archive_artifact'', ja ''~e98cb2e794bbe38395e382a1e382a4e383ab~''),
      (''archive_destination'', ja ''Drive~e4bf9de5ad98e58588~''),
      (''archive_share'', ja ''~e585b1e69c89e383aae383b3e382af~''),
      (''audit_log'', ja ''~e79ba3e69fbbe383ade382b0~''),
      (''discord_config'', ja ''Discord BOT~e8a8ade5ae9a~''),
      (''node'', ''Node''),
      (''notification_channel'', ja ''~e9809ae79fa5e58588~''),
      (''oauth_account'', ja ''OAuth~e68ea5e7b69ae382a2e382abe382a6e383b3e38388~''),
      (''oauth_provider'', ja ''OAuth~e38397e383ade38390e382a4e38380~''),
      (''profile'', ja ''~e38397e383ade38395e382a1e382a4e383ab~''),
      (''role'', ja ''~e383ade383bce383ab~''),
      (''secret'', ja ''~e382b7e383bce382afe383ace38383e38388~''),
      (''service'', ''Node''),
      (''stream'', ja ''~e9858de4bfa1e69ea0~''),
      (''user'', ja ''~e383a6e383bce382b6e383bc~''),
      (''worker'', ''Worker Node''),
      (''youtube_output'', ja ''YouTube~e587bae58a9b~'')]"

definition ruleLabels :: "(string \<times> string) list" where
  "ruleLabels =
     [(''heartbeat_timeout'', ja ''~e382b5e383bce38393e382b9e381ae~ heartbeat ~e98185e5bbb6~''),
      (''encoder_process_exited'', ja ''Encoder process ~e5819ce6ada2~''),
      (''recorder_not_writing'', ja ''~e98cb2e794bbe69bb8e3818de8bebce381bfe5819ce6ada2~''),
      (''disk_low'', ja ''~e38387e382a3e382b9e382afe7a9bae3818de5aeb9e9878fe4b88de8b6b3~''),
      (''archive_package_failed'', ja ''~e382a2e383bce382abe382a4e38396~ package ~e5a4b1e69597~''),
      (''archive_remux_slow'', ja ''~e382a2e383bce382abe382a4e38396~ remux ~e98185e5bbb6~''),
      (''gdrive_upload_failed'', ja ''Google Drive upload ~e5a4b1e69597~''),
      (''gdrive_upload_retry_high'', ja ''Google Drive retry ~e5a297e58aa0~''),
      (''high_packet_loss'', ja ''~e383a1e38387e382a3e382a2~ packet loss ~e9ab98e9a8b0~''),
      (''rtmps_reconnect_loop'', ja ''RTMPS ~e5868de68ea5e7b69ae383abe383bce38397~''),
      (''encoder_low_fps'', ja ''Encoder FPS ~e4bd8ee4b88b~''),
      (''encoder_bitrate_low'', ja ''Encoder bitrate ~e4bd8ee4b88b~''),
      (''encoder_dropped_frames_high'', ja ''Encoder dropped frames ~e5a297e58aa0~''),
      (''audio_silence'', ja ''~e9858de4bfa1e99fb3e5a3b0e381aee784a1e99fb3~''),
      (''audio_clipping'', ja ''~e9858de4bfa1e99fb3e5a3b0~ clipping''),
      (''discord_audio_not_receiving'', ja ''Discord ~e99fb3e5a3b0e58f97e4bfa1e5819ce6ada2~''),
      (''discord_audio_forward_inactive'', ja ''Discord ~e99fb3e5a3b0e8bba2e98081e5819ce6ada2~''),
      (''discord_audio_forward_failed'', ja ''Discord ~e99fb3e5a3b0e8bba2e98081e5a4b1e69597~''),
      (''discord_audio_forward_recovered'', ja ''Discord ~e99fb3e5a3b0e8bba2e98081e59b9ee5bea9~''),
      (''discord_audio_forward_stale'', ja ''Discord ~e99fb3e5a3b0e8bba2e98081e5819ce6bb9e~''),
      (''discord_reconnect_loop'', ja ''Discord Gateway ~e5868de68ea5e7b69ae383abe383bce38397~''),
      (''discord_voice_disconnected'', ja ''Discord VC ~e58887e696ad~''),
      (''media_input_timeout'', ja ''~e383a1e38387e382a3e382a2e585a5e58a9b~ timeout''),
      (''worker_event_send_failed'', ja ''Worker event ~e98081e4bfa1e5a4b1e69597~''),
      (''stream_start_timeout'', ja ''~e9858de4bfa1e9968be5a78b~ timeout''),
      (''stream_stop_timeout'', ja ''~e9858de4bfa1e5819ce6ada2~ timeout''),
      (''unexpected_stopped'', ja ''~e9858de4bfa1e381aee4ba88e69c9fe38197e381aae38184e5819ce6ada2~'')]"

definition eventLabels :: "(string \<times> string) list" where
  "eventLabels =
     [(''incident.opened'', ja ''~e382a4e383b3e382b7e38387e383b3e38388e799bae7949f~''),
      (''incident.updated'', ja ''~e382a4e383b3e382b7e38387e383b3e38388e69bb4e696b0~''),
      (''incident.resolved'', ja ''~e382a4e383b3e382b7e38387e383b3e38388e8a7a3e6b1ba~''),
      (''diagnostic.created'', ja ''~e8a8bae696ade4bd9ce68890~''),
      (''remediation.pending_approval'', ja ''~e5bea9e697a7e689bfe8aa8de5be85e381a1~''),
      (''remediation.executed'', ja ''~e5bea9e697a7e5ae9fe8a18c~''),
      (''admin.audit'', ja ''~e7aea1e79086e6938de4bd9c~'')]"

subsection \<open>Lookups\<close>

text \<open>\<^verbatim>\<open>labels[key]\<close>: the empty text for a missing key.\<close>

definition labelOf :: "(string \<times> string) list \<Rightarrow> string \<Rightarrow> string" where
  "labelOf labels key = (case map_of labels key of None \<Rightarrow> [] | Some l \<Rightarrow> l)"

definition NotificationActionLabel :: "string \<Rightarrow> string" where
  "NotificationActionLabel raw =
     (let action = TrimSpace raw; label = labelOf actionLabels action in
      if label \<noteq> [] then label else if action = [] then ja ''~e7aea1e79086e6938de4bd9c~'' else action)"

definition NotificationResourceLabel :: "string \<Rightarrow> string" where
  "NotificationResourceLabel raw =
     (let resourceType = TrimSpace raw; label = labelOf resourceLabels resourceType in
      if label \<noteq> [] then label else ReplaceAll ''_'' '' '' resourceType)"

definition notificationRuleLabel :: "string \<Rightarrow> string" where
  "notificationRuleLabel raw =
     (let rule = TrimSpace raw; label = labelOf ruleLabels rule in if label \<noteq> [] then label else rule)"

definition notificationEventLabel :: "string \<Rightarrow> string" where
  "notificationEventLabel raw =
     (let eventType = normalizedEventType raw; label = labelOf eventLabels eventType in
      if label \<noteq> [] then label else eventType)"

definition notificationTitle :: "string \<Rightarrow> Incident \<Rightarrow> string" where
  "notificationTitle eventType incident =
     (if normalizedEventType eventType = ''admin.audit'' then NotificationActionLabel (incRule incident)
      else
        (let label = notificationEventLabel eventType; rule = TrimSpace (incRule incident) in
         if rule \<noteq> [] then label @ '': '' @ notificationRuleLabel rule else label))"

definition notificationSeverityLabel :: "string \<Rightarrow> string" where
  "notificationSeverityLabel severity =
     (let s = ToLower (TrimSpace severity) in
      if s = ''critical'' then ja ''~e9878de5a4a7~''
      else if s = ''error'' then ja ''~e382a8e383a9e383bc~''
      else if s = ''warning'' then ja ''~e8ada6e5918a~''
      else if s = ''info'' then ja ''~e68385e5a0b1~''
      else if TrimSpace severity \<noteq> [] then TrimSpace severity
      else ja ''~e68385e5a0b1~'')"

definition notificationStatusLabel :: "string \<Rightarrow> string" where
  "notificationStatusLabel status =
     (let s = ToLower (TrimSpace status) in
      if s \<in> {''success'', ''ok''} then ja ''~e68890e58a9f~''
      else if s \<in> {''failure'', ''failed'', ''error''} then ja ''~e5a4b1e69597~''
      else if s = ''open'' then ja ''~e69caae5afbee5bf9c~''
      else if s = ''acknowledged'' then ja ''~e7a2bae8aa8de6b888e381bf~''
      else if s = ''resolved'' then ja ''~e8a7a3e6b1bae6b888e381bf~''
      else if TrimSpace status \<noteq> [] then TrimSpace status
      else ja ''~e8a898e98cb2e6b888e381bf~'')"

end
