(* ===== verification/Notification_Message.thy ===== *)
theory Notification_Message
  imports Notification_Labels
begin

text \<open>
  What the notifications say, from \<^verbatim>\<open>internal/notifications/webhook.go\<close>: the content taken from an
  incident, the message fields, the plain text and the JSON payloads for Discord, Slack and other
  receivers.  \<open>fmt\<close> is \<^verbatim>\<open>t.UTC().Format(time.RFC3339)\<close>; a payload is the value given to
  \<^verbatim>\<open>json.Marshal\<close>.
\<close>

abbreviation nl :: string where "nl \<equiv> [CHR 0x0A]"
abbreviation cr :: string where "cr \<equiv> [CHR 0x0D]"

subsection \<open>Cutting and joining texts\<close>

definition truncateNotificationText :: "string \<Rightarrow> int \<Rightarrow> string" where
  "truncateNotificationText raw maxRunes =
     (let value = TrimSpace raw in
      if maxRunes \<le> 0 then []
      else if int (length (runes value)) \<le> maxRunes then value
      else if maxRunes = 1 then ja ''~e280a6~''
      else ofRunes (take (nat (maxRunes - 1)) (runes value)) @ ja ''~e280a6~'')"

text \<open>The lines of a text, with Windows line ends taken as line ends.\<close>

definition textLines :: "string \<Rightarrow> string list" where
  "textLines s = splitByte (CHR 0x0A) (ReplaceAll (cr @ nl) nl s)"

fun compactFrom :: "string list \<Rightarrow> string list \<Rightarrow> string list" where
  "compactFrom out [] = out"
| "compactFrom out (v # values) =
     (let value = TrimSpace v in
      if value = [] then compactFrom out values
      else if value \<in> set out then compactFrom out values
      else if length (out @ [value]) = 6 then out @ [value]
      else compactFrom (out @ [value]) values)"

definition compactNotificationList :: "string list \<Rightarrow> string list" where
  "compactNotificationList values = compactFrom [] values"

fun addLines :: "string list \<Rightarrow> string list \<Rightarrow> string list" where
  "addLines out [] = out"
| "addLines out (l # ls) =
     (let line = TrimSpace l in
      if line = [] then addLines out ls
      else if line \<in> set out then addLines out ls
      else addLines (out @ [line]) ls)"

definition joinNotificationDetails :: "string list \<Rightarrow> string" where
  "joinNotificationDetails parts = strJoin (foldl (\<lambda>out part. addLines out (textLines part)) [] parts) nl"

fun contextLine :: "string list \<Rightarrow> string list \<Rightarrow> string" where
  "contextLine ks [] = []"
| "contextLine ks (line # ls) =
     (case cutByte (CHR '':'') (TrimSpace line) of
        None \<Rightarrow> contextLine ks ls
      | Some (name, rest) \<Rightarrow>
          if list_ex (EqualFold (TrimSpace name)) ks then TrimSpace rest else contextLine ks ls)"

definition notificationContextValue :: "string \<Rightarrow> string list \<Rightarrow> string" where
  "notificationContextValue summary ks = contextLine ks (textLines summary)"

text \<open>One line of \<^verbatim>\<open>legacyNotificationDetails\<close>: the detail it contributes, if any.\<close>

definition legacyLine :: "string \<Rightarrow> string \<Rightarrow> string option" where
  "legacyLine title raw =
     (let line = TrimSpace raw; lower = ToLower line in
      if line = [] \<or> line = TrimSpace title then None
      else if HasPrefix line (ja ''~e5afbee8b1a1~:'') \<or> HasPrefix line (ja ''~e5ae9fe8a18ce88085~:'') \<or> HasPrefix lower ''resource'' \<or> HasPrefix lower ''actor''
      then None
      else
        (let line = (if HasPrefix line (ja ''~e8a9b3e7b4b0~:'') then TrimSpace (TrimPrefix line (ja ''~e8a9b3e7b4b0~:'')) else line) in
         if line \<noteq> [] then Some line else None))"

definition legacyNotificationDetails :: "string \<Rightarrow> string \<Rightarrow> string" where
  "legacyNotificationDetails summary title = strJoin (List.map_filter (legacyLine title) (textLines summary)) nl"

definition incidentReportDetails :: "Incident \<Rightarrow> string" where
  "incidentReportDetails incident =
     (let report = incReport incident; summary = TrimSpace (rpSummary report); cause = TrimSpace (rpLikelyCause report);
          impact = TrimSpace (rpImpact report)
      in strJoin
       ((if summary \<noteq> [] \<and> summary \<noteq> TrimSpace (incSummaryJA incident) then [ja ''~e8a8bae696ad~: '' @ summary] else []) @
        (if cause \<noteq> [] then [ja ''~e58e9fe59ba0e58099e8a39c~: '' @ cause] else []) @
        (if impact \<noteq> [] then [ja ''~e5bdb1e99fbf~: '' @ impact] else [])) nl)"

subsection \<open>Fields\<close>

record notificationMessageField =
  mfName :: string
  mfValue :: string

abbreviation messageField :: "string \<Rightarrow> string \<Rightarrow> notificationMessageField" where
  "messageField name value \<equiv> \<lparr>mfName = name, mfValue = value\<rparr>"

definition notificationTimestamp :: "(instant \<Rightarrow> string) \<Rightarrow> Incident \<Rightarrow> string" where
  "notificationTimestamp fmt incident =
     (if \<not> IsZero (incUpdatedAt incident) then fmt (incUpdatedAt incident)
      else if \<not> IsZero (incOpenedAt incident) then fmt (incOpenedAt incident)
      else [])"

definition notificationRuleValue :: "string \<Rightarrow> string \<Rightarrow> string" where
  "notificationRuleValue eventType raw =
     (let rule = TrimSpace raw in
      if rule = [] then []
      else
        (let label = (if normalizedEventType eventType = ''admin.audit'' then NotificationActionLabel rule
                      else notificationRuleLabel rule)
         in if label = [] \<or> label = rule then rule else label @ '' ('' @ rule @ '')''))"

definition notificationTargetValue :: "Incident \<Rightarrow> string" where
  "notificationTargetValue incident =
     (let rawType = TrimSpace (incNotificationResourceType incident);
          rawID = TrimSpace (incNotificationResourceID incident);
          described = (let details = TrimSpace (incNotificationDetails incident) in
                       if details = [] then incSummaryJA incident else details);
          resourceType = (if rawType = [] then notificationContextValue described [ja ''~e5afbee8b1a1e7a8aee588a5~'', ''resource_type'']
                          else rawType);
          resourceID = (if rawID = [] then notificationContextValue described [''resource_id''] else rawID)
      in if resourceType = [] then notificationContextValue (incSummaryJA incident) [ja ''~e5afbee8b1a1~'']
         else if resourceID = [] then NotificationResourceLabel resourceType
         else NotificationResourceLabel resourceType @ '' ('' @ resourceID @ '')'')"

definition notificationTargetIsStream :: "Incident \<Rightarrow> string \<Rightarrow> bool" where
  "notificationTargetIsStream incident streamID \<longleftrightarrow>
     EqualFold (TrimSpace (incNotificationResourceType incident)) ''stream'' \<and>
     TrimSpace (incNotificationResourceID incident) = TrimSpace streamID"

definition notificationActorValue :: "Incident \<Rightarrow> string" where
  "notificationActorValue incident =
     (let actor = TrimSpace (incNotificationActor incident) in
      if actor \<noteq> [] then actor
      else
        (let details = TrimSpace (incNotificationDetails incident);
             description = (if details = [] then incSummaryJA incident else details)
         in notificationContextValue description [ja ''~e5ae9fe8a18ce88085~'', ''actor'']))"

definition notificationMessageFields :: "string \<Rightarrow> Incident \<Rightarrow> notificationMessageField list" where
  "notificationMessageFields eventType incident =
     (let rule = TrimSpace (incRule incident); target = notificationTargetValue incident;
          serviceID = TrimSpace (incServiceID incident); streamID = TrimSpace (incStreamID incident);
          actor = notificationActorValue incident
      in [messageField (ja ''~e9878de8a681e5baa6~'') (notificationSeverityLabel (incSeverity incident)),
          messageField (ja ''~e7b590e69e9c~'') (notificationStatusLabel (incStatus incident))] @
         (if rule \<noteq> []
          then [messageField (if normalizedEventType eventType = ''admin.audit'' then ja ''~e6938de4bd9ce382b3e383bce38389~'' else ja ''~e383abe383bce383ab~'')
                  (notificationRuleValue eventType rule)]
          else []) @
         (if target \<noteq> [] then [messageField (ja ''~e5afbee8b1a1~'') target] else []) @
         (if serviceID \<noteq> [] then [messageField (ja ''~e382b5e383bce38393e382b9~'') serviceID] else []) @
         (if streamID \<noteq> [] \<and> \<not> notificationTargetIsStream incident streamID
          then [messageField (ja ''~e9858de4bfa1e69ea0~'') streamID] else []) @
         (if actor \<noteq> [] then [messageField (ja ''~e5ae9fe8a18ce88085~'') actor] else []))"

subsection \<open>Content\<close>

record notificationContent =
  ncSummary :: string
  ncDiagnosis :: string
  ncActions :: "string list"
  ncEvidence :: "string list"

definition buildNotificationContent :: "string \<Rightarrow> Incident \<Rightarrow> notificationContent" where
  "buildNotificationContent eventType incident =
     (let content = \<lparr>ncSummary = [], ncDiagnosis = [],
                      ncActions = compactNotificationList (rpRecommendedActions (incReport incident)),
                      ncEvidence = compactNotificationList (rpEvidence (incReport incident))\<rparr>;
          title = notificationTitle eventType incident
      in if normalizedEventType eventType = ''admin.audit'' then
           (let s1 = TrimSpace (incNotificationDetails incident);
                s2 = (if s1 = [] then legacyNotificationDetails (incSummaryJA incident) title else s1);
                s3 = (if s2 = [] then legacyNotificationDetails (incSourceSummary incident) title else s2)
            in content\<lparr>ncSummary := s3\<rparr>)
         else
           (let d1 = TrimSpace (incSummaryJA incident); title = TrimSpace title;
                d2 = (if d1 = title then [] else d1);
                d3 = (if HasPrefix d2 (title @ nl) then TrimSpace (TrimPrefix d2 (title @ nl)) else d2)
            in content\<lparr>ncSummary := d3, ncDiagnosis := incidentReportDetails incident\<rparr>))"

definition notificationDescription :: "string \<Rightarrow> Incident \<Rightarrow> string" where
  "notificationDescription eventType incident =
     (let content = buildNotificationContent eventType incident in
      joinNotificationDetails [ncSummary content, ncDiagnosis content])"

definition formatIncidentText :: "(instant \<Rightarrow> string) \<Rightarrow> string \<Rightarrow> Incident \<Rightarrow> string" where
  "formatIncidentText fmt eventType incident =
     (let content = buildNotificationContent eventType incident; timestamp = notificationTimestamp fmt incident;
          description = joinNotificationDetails [ncSummary content, ncDiagnosis content]
      in strJoin
       ([notificationTitle eventType incident, []] @
        map (\<lambda>f. mfName f @ '': '' @ mfValue f) (notificationMessageFields eventType incident) @
        (if timestamp \<noteq> [] then [ja ''~e697a5e69982~: '' @ timestamp] else []) @
        (if description \<noteq> [] then [[], ja ''~e8a9b3e7b4b0~'', description] else []) @
        (if ncActions content \<noteq> [] then [[], ja ''~e68ea8e5a5a8e5afbee5bf9c~'', ''- '' @ strJoin (ncActions content) (nl @ ''- '')] else []) @
        (if ncEvidence content \<noteq> [] then [[], ja ''~e6a0b9e68ba0~'', ''- '' @ strJoin (ncEvidence content) (nl @ ''- '')] else []))
       nl)"

subsection \<open>Payloads\<close>

definition notificationColor :: "string \<Rightarrow> int" where
  "notificationColor severity =
     (let s = ToLower (TrimSpace severity) in
      if s \<in> {''critical'', ''error''} then 0xd92d20
      else if s = ''warning'' then 0xf79009
      else if s = ''info'' then 0x1570ef
      else 0x667085)"

definition bulleted :: "string list \<Rightarrow> string" where
  "bulleted items = ja ''~e280a2~ '' @ strJoin items (nl @ ja ''~e280a2~ '')"

definition discordNotificationFields :: "string \<Rightarrow> Incident \<Rightarrow> any list" where
  "discordNotificationFields eventType incident =
     (let content = buildNotificationContent eventType incident in
      map (\<lambda>f. AMap [(''name'', AStr (mfName f)), (''value'', AStr (truncateNotificationText (mfValue f) 480)),
                    (''inline'', ABool True)])
        (notificationMessageFields eventType incident) @
      (if ncActions content \<noteq> []
       then [AMap [(''name'', AStr (ja ''~e68ea8e5a5a8e5afbee5bf9c~'')), (''value'', AStr (truncateNotificationText (bulleted (ncActions content)) 1000)),
                   (''inline'', ABool False)]] else []) @
      (if ncEvidence content \<noteq> []
       then [AMap [(''name'', AStr (ja ''~e6a0b9e68ba0~'')), (''value'', AStr (truncateNotificationText (bulleted (ncEvidence content)) 1000)),
                   (''inline'', ABool False)]] else []))"

definition escapeSlackByte :: "char \<Rightarrow> string" where
  "escapeSlackByte c =
     (if c = CHR ''&'' then ''&amp;'' else if c = CHR ''<'' then ''&lt;'' else if c = CHR ''>'' then ''&gt;'' else [c])"

definition escapeSlackText :: "string \<Rightarrow> string" where
  "escapeSlackText value = concat (map escapeSlackByte value)"

definition plainTextObject :: "string \<Rightarrow> any" where
  "plainTextObject s = AMap [(''type'', AStr ''plain_text''), (''text'', AStr s)]"

definition mrkdwnObject :: "string \<Rightarrow> any" where
  "mrkdwnObject s = AMap [(''type'', AStr ''mrkdwn''), (''text'', AStr s)]"

definition slackNotificationBlocks :: "(instant \<Rightarrow> string) \<Rightarrow> string \<Rightarrow> Incident \<Rightarrow> any list" where
  "slackNotificationBlocks fmt eventType incident =
     (let content = buildNotificationContent eventType incident; description = notificationDescription eventType incident;
          fs = map (\<lambda>f. mrkdwnObject (''*'' @ mfName f @ ''*'' @ nl @ escapeSlackText (truncateNotificationText (mfValue f) 1900)))
                 (notificationMessageFields eventType incident);
          timestamp = notificationTimestamp fmt incident;
          listed = (\<lambda>heading items. AMap [(''type'', AStr ''section''),
             (''text'', mrkdwnObject (heading @ nl @ ja ''~e280a2~ '' @ escapeSlackText (strJoin items (nl @ ja ''~e280a2~ ''))))])
      in [AMap [(''type'', AStr ''header''),
                (''text'', plainTextObject (truncateNotificationText (notificationTitle eventType incident) 150))]] @
         (if description \<noteq> []
          then [AMap [(''type'', AStr ''section''), (''text'', plainTextObject (truncateNotificationText description 3000))]]
          else []) @
         (if ncActions content \<noteq> [] then [listed (ja ''*~e68ea8e5a5a8e5afbee5bf9c~*'') (ncActions content)] else []) @
         (if ncEvidence content \<noteq> [] then [listed (ja ''*~e6a0b9e68ba0~*'') (ncEvidence content)] else []) @
         (if fs \<noteq> [] then [AMap [(''type'', AStr ''section''), (''fields'', AList fs)]] else []) @
         [AMap [(''type'', AStr ''context''),
                (''elements'', AList [mrkdwnObject (''`'' @ escapeSlackText eventType @ ''`'' @
                   (if timestamp \<noteq> [] then ja '' ~e280a2~ '' @ escapeSlackText timestamp else []))])]])"

definition discordPayload :: "(instant \<Rightarrow> string) \<Rightarrow> string \<Rightarrow> Incident \<Rightarrow> any" where
  "discordPayload fmt eventType incident =
     (let description = notificationDescription eventType incident; timestamp = notificationTimestamp fmt incident in
      AMap [(''embeds'', AList [AMap
              ([(''title'', AStr (truncateNotificationText (notificationTitle eventType incident) 256)),
                (''color'', AInt KInt (notificationColor (incSeverity incident))),
                (''fields'', AList (discordNotificationFields eventType incident)),
                (''footer'', AMap [(''text'', AStr (ja ''AutoStream ~e280a2~ '' @ eventType))])] @
               (if description \<noteq> [] then [(''description'', AStr (truncateNotificationText description 3000))] else []) @
               (if timestamp \<noteq> [] then [(''timestamp'', AStr timestamp)] else []))]),
            (''allowed_mentions'', AMap [(''parse'', AList [])])])"

definition genericPayload :: "(instant \<Rightarrow> string) \<Rightarrow> string \<Rightarrow> Incident \<Rightarrow> any" where
  "genericPayload fmt eventType incident =
     (let content = buildNotificationContent eventType incident in
      AMap ([(''schema_version'', AInt KInt 2), (''event_type'', AStr eventType),
             (''event_label'', AStr (notificationEventLabel eventType)),
             (''title'', AStr (notificationTitle eventType incident)),
             (''severity'', AStr (incSeverity incident)), (''status'', AStr (incStatus incident)),
             (''incident_id'', AStr (incID incident)), (''rule'', AStr (incRule incident)),
             (''service_id'', AStr (incServiceID incident)), (''stream_id'', AStr (incStreamID incident)),
             (''target'', AStr (notificationTargetValue incident)), (''actor'', AStr (notificationActorValue incident)),
             (''summary'', AStr (ncSummary content)),
             (''details'', AStr (truncateNotificationText (ncDiagnosis content) 6000)),
             (''occurred_at'', AStr (notificationTimestamp fmt incident))] @
            (if ncActions content \<noteq> [] then [(''recommended_actions'', AList (map AStr (ncActions content)))] else []) @
            (if ncEvidence content \<noteq> [] then [(''evidence'', AList (map AStr (ncEvidence content)))] else [])))"

definition payload :: "(instant \<Rightarrow> string) \<Rightarrow> WebhookNotifier \<Rightarrow> string \<Rightarrow> Incident \<Rightarrow> any" where
  "payload fmt n eventType incident =
     (if normalizedType (wnType n) = ''discord'' then discordPayload fmt eventType incident
      else if normalizedType (wnType n) = ''slack''
      then AMap [(''text'', AStr (escapeSlackText (formatIncidentText fmt eventType incident))),
                 (''blocks'', AList (slackNotificationBlocks fmt eventType incident))]
      else genericPayload fmt eventType incident)"

subsection \<open>The loops over lists keep first occurrences\<close>

definition firsts :: "string list \<Rightarrow> string list" where
  "firsts xs = rev (remdups (rev xs))"

lemma set_firsts [simp]: "set (firsts xs) = set xs"
  by (simp add: firsts_def)

lemma firsts_append: "firsts (xs @ ys) = firsts xs @ filter (\<lambda>y. y \<notin> set xs) (firsts ys)"
proof (induction ys rule: rev_induct)
  case (snoc y ys)
  then show ?case by (auto simp: firsts_def simp flip: append_assoc)
qed (simp add: firsts_def)

lemma firsts_snoc: "firsts (xs @ [x]) = (if x \<in> set xs then firsts xs else firsts xs @ [x])"
  by (simp add: firsts_def)

lemma firsts_idem [simp]: "firsts (firsts xs) = firsts xs"
  by (simp add: firsts_def)

text \<open>The entries of a list that count: trimmed and not empty.\<close>

definition shownEntries :: "string list \<Rightarrow> string list" where
  "shownEntries values = filter (\<lambda>v. v \<noteq> []) (map TrimSpace values)"

lemma firsts_dup: "x \<in> set xs \<Longrightarrow> firsts (xs @ x # ys) = firsts (xs @ ys)"
  by (metis append.assoc append_Cons append_Nil firsts_append firsts_snoc set_append Un_insert_right append_Nil2
      insert_absorb list.simps(15) empty_set)

lemma shownEntries_simps [simp]:
  "shownEntries [] = []"
  "shownEntries (v # vs) = (if TrimSpace v = [] then shownEntries vs else TrimSpace v # shownEntries vs)"
  by (simp_all add: shownEntries_def)

lemma addLines_firsts: "addLines (firsts done) ls = firsts (done @ shownEntries ls)"
proof (induction ls arbitrary: "done")
  case (Cons l ls)
  then show ?case
    using Cons [of "done @ [TrimSpace l]"] by (auto simp: Let_def firsts_snoc firsts_dup)
qed simp

lemma joinNotificationDetails_lines:
  "joinNotificationDetails parts = strJoin (firsts (shownEntries (concat (map textLines parts)))) nl"
proof -
  have "foldl (\<lambda>out part. addLines out (textLines part)) (firsts done) parts =
      firsts (done @ shownEntries (concat (map textLines parts)))" for "done"
    by (induction parts arbitrary: "done") (simp_all add: addLines_firsts shownEntries_def)
  from this [of "[]"] show ?thesis
    by (simp add: joinNotificationDetails_def firsts_def)
qed

lemma compactFrom_firsts:
  "length (firsts done) < 6 \<Longrightarrow> compactFrom (firsts done) vals = take 6 (firsts (done @ shownEntries vals))"
proof (induction vals arbitrary: "done")
  case (Cons v vs)
  consider "TrimSpace v = []" | "TrimSpace v \<noteq> []" "TrimSpace v \<in> set done"
    | "TrimSpace v \<noteq> []" "TrimSpace v \<notin> set done" by blast
  then show ?case
  proof cases
    case 3
    then have step: "firsts (done @ [TrimSpace v]) = firsts done @ [TrimSpace v]" by (simp add: firsts_snoc)
    show ?thesis
    proof (cases "length (firsts done) = 5")
      case True
      have "take 6 (firsts ((done @ [TrimSpace v]) @ shownEntries vs)) = firsts done @ [TrimSpace v]"
        unfolding firsts_append [of "done @ [TrimSpace v]"] step using True by simp
      with 3 True show ?thesis by simp
    next
      case False
      with Cons.prems Cons.IH [of "done @ [TrimSpace v]"] 3 step show ?thesis by simp
    qed
  qed (use Cons in \<open>simp_all add: firsts_dup\<close>)
qed simp

lemma compactNotificationList_firsts:
  "compactNotificationList values = take 6 (firsts (shownEntries values))"
  using compactFrom_firsts [of "[]" "values"] by (simp add: compactNotificationList_def firsts_def)

subsection \<open>Bounds\<close>

lemma ellipsis_rune: "runes (ja ''~e280a6~'') = [8230]"
  by (simp add: ja_def hexVal_def runes_def runesB.simps decode3_def cont_def b2n_def n2b_def)

lemma truncateNotificationText_bound:
  assumes "0 \<le> n"
  shows "int (length (runes (truncateNotificationText v n))) \<le> n"
proof -
  have "\<forall>r\<in>set (take k (runes (TrimSpace v))). validRune r" for k
    by (meson in_set_takeD runes_valid)
  from runes_ofRunes [OF this, where s = "ja ''~e280a6~''"]
  have "runes (ofRunes (take k (runes (TrimSpace v))) @ ja ''~e280a6~'') = take k (runes (TrimSpace v)) @ [8230]" for k
    by (simp only: ellipsis_rune)
  then show ?thesis
    using assms by (auto simp: truncateNotificationText_def Let_def ellipsis_rune)
qed

lemma length_messageFields: "length (notificationMessageFields eventType incident) \<le> 7"
  by (simp add: notificationMessageFields_def Let_def)

subsection \<open>What a payload contains\<close>

text \<open>The value of a key of a JSON object, and the text it is.\<close>

definition member :: "any \<Rightarrow> string \<Rightarrow> any" where
  "member v key = (case v of AMap kvs \<Rightarrow> (case map_of kvs key of Some x \<Rightarrow> x | None \<Rightarrow> ANil) | _ \<Rightarrow> ANil)"

definition elements :: "any \<Rightarrow> any list" where
  "elements v = (case v of AList xs \<Rightarrow> xs | _ \<Rightarrow> [])"

definition textOf :: "any \<Rightarrow> string" where
  "textOf v = (case v of AStr s \<Rightarrow> s | _ \<Rightarrow> [])"

lemma member_simps [simp]:
  "member (AMap []) key = ANil"
  "member (AMap ((k, v) # kvs)) key = (if k = key then v else member (AMap kvs) key)"
  by (auto simp: member_def)

lemma elements_AList [simp]: "elements (AList xs) = xs"
  by (simp add: elements_def)

lemma textOf_simps [simp]: "textOf (AStr s) = s" "textOf ANil = []"
  by (simp_all add: textOf_def)

text \<open>The texts of all objects that Slack reads as markup.\<close>

definition mrkdwnText :: "(string \<times> any) list \<Rightarrow> string list" where
  "mrkdwnText kvs = (if member (AMap kvs) ''type'' = AStr ''mrkdwn'' then [textOf (member (AMap kvs) ''text'')] else [])"

fun mrkdwnTexts :: "any \<Rightarrow> string list" and mrkdwnValues :: "any list \<Rightarrow> string list"
  and mrkdwnMembers :: "(string \<times> any) list \<Rightarrow> string list" where
  "mrkdwnTexts (AMap kvs) = mrkdwnText kvs @ mrkdwnMembers kvs"
| "mrkdwnTexts (AList xs) = mrkdwnValues xs"
| "mrkdwnTexts v = []"
| "mrkdwnValues [] = []"
| "mrkdwnValues (x # xs) = mrkdwnTexts x @ mrkdwnValues xs"
| "mrkdwnMembers [] = []"
| "mrkdwnMembers ((k, v) # kvs) = mrkdwnTexts v @ mrkdwnMembers kvs"

lemma mrkdwnValues_append [simp]: "mrkdwnValues (xs @ ys) = mrkdwnValues xs @ mrkdwnValues ys"
  by (induction xs) auto

text \<open>No byte of the text opens or closes a Slack mention or link.\<close>

definition slackInert :: "string \<Rightarrow> bool" where
  "slackInert s \<longleftrightarrow> CHR ''<'' \<notin> set s \<and> CHR ''>'' \<notin> set s"

lemma slackInert_simps [simp]:
  "slackInert []" "slackInert (s @ t) \<longleftrightarrow> slackInert s \<and> slackInert t"
  "slackInert (c # s) \<longleftrightarrow> c \<noteq> CHR ''<'' \<and> c \<noteq> CHR ''>'' \<and> slackInert s"
  by (auto simp: slackInert_def)

lemma slackInert_escape [simp]: "slackInert (escapeSlackText s)"
  by (auto simp: slackInert_def escapeSlackText_def escapeSlackByte_def)

lemma mrkdwnObject_texts [simp]: "mrkdwnTexts (mrkdwnObject s) = [s]" "mrkdwnTexts (plainTextObject s) = []"
  by (simp_all add: mrkdwnObject_def plainTextObject_def mrkdwnText_def)

lemma mrkdwnValues_mrkdwn [simp]: "mrkdwnValues (map (\<lambda>x. mrkdwnObject (f x)) xs) = map f xs"
  by (induction xs) simp_all

lemma ja_names_inert:
  "slackInert (ja ''~e9878de8a681e5baa6~'')" "slackInert (ja ''~e7b590e69e9c~'')" "slackInert (ja ''~e6938de4bd9ce382b3e383bce38389~'')" "slackInert (ja ''~e383abe383bce383ab~'')"
  "slackInert (ja ''~e5afbee8b1a1~'')" "slackInert (ja ''~e382b5e383bce38393e382b9~'')" "slackInert (ja ''~e9858de4bfa1e69ea0~'')" "slackInert (ja ''~e5ae9fe8a18ce88085~'')"
  "slackInert (ja ''~e280a2~ '')" "slackInert (ja '' ~e280a2~ '')" "slackInert (ja ''*~e68ea8e5a5a8e5afbee5bf9c~*'')" "slackInert (ja ''*~e6a0b9e68ba0~*'')"
  by (simp_all add: ja_def hexVal_def b2n_def n2b_def slackInert_def go_eval char_of_def bit_Suc_0_iff)

lemma messageFields_inert: "f \<in> set (notificationMessageFields eventType incident) \<Longrightarrow> slackInert (mfName f)"
  by (auto simp: notificationMessageFields_def Let_def ja_names_inert split: if_splits)

lemma slackBlocks_inert:
  "t \<in> set (mrkdwnValues (slackNotificationBlocks fmt eventType incident)) \<Longrightarrow> slackInert t"
  by (auto simp: slackNotificationBlocks_def Let_def mrkdwnText_def ja_names_inert messageFields_inert split: if_splits)

subsection \<open>Properties\<close>

text \<open>
  The recommended actions and the evidence of a notification are the first six different entries
  of the report, trimmed, without empty ones; its description is the list of its different non-empty
  lines, in order.
\<close>

theorem notification_lists_exact:
  "compactNotificationList vs = take 6 (firsts (shownEntries vs)) \<and>
   joinNotificationDetails parts = strJoin (firsts (shownEntries (concat (map textLines parts)))) nl"
  by (simp add: compactNotificationList_firsts joinNotificationDetails_lines)

text \<open>
  C27: whatever the incident says, no text that Slack reads as markup contains an angle bracket, so
  no incident can mention a channel or a user or disguise a link.
\<close>

theorem slack_texts_inert:
  assumes "normalizedType (wnType n) = ''slack''"
  shows "list_all slackInert (mrkdwnTexts (payload fmt n eventType incident)) \<and>
    slackInert (textOf (member (payload fmt n eventType incident) ''text''))"
  using assms slackBlocks_inert [of _ fmt eventType incident]
  by (auto simp: payload_def list_all_iff mrkdwnText_def)

definition slackNotifier :: WebhookNotifier where
  "slackNotifier = \<lparr>wnType = ''slack'', wnURL = [], wnRetryMax = 0, wnRetryBaseDelay = 0, wnAllowPrivate = False\<rparr>"

definition loudIncident :: Incident where
  "loudIncident = zeroIncident\<lparr>incRule := ''<!channel>'', incServiceID := ''worker-1''\<rparr>"

theorem slack_texts_inert_witness:
  "normalizedType (wnType slackNotifier) = ''slack'' \<and>
   list_all slackInert (mrkdwnTexts (payload (\<lambda>t. ''now'') slackNotifier ''incident.opened'' loudIncident))"
proof -
  have "normalizedType (wnType slackNotifier) = ''slack''"
    by (simp add: slackNotifier_def normalizedType_def go_eval)
  with slack_texts_inert [OF this] show ?thesis by simp
qed

text \<open>
  a Discord payload is one embed that mentions nobody, with a title of at most 256 characters, a
  description of at most 3000 and at most nine fields of at most 1000.
\<close>

theorem discord_payload_bounded:
  assumes "normalizedType (wnType n) = ''discord''"
    and "p = payload fmt n eventType incident" and "e = hd (elements (member p ''embeds''))"
  shows "length (elements (member p ''embeds'')) = 1 \<and>
    member (member p ''allowed_mentions'') ''parse'' = AList [] \<and>
    RuneCountInString (textOf (member e ''title'')) \<le> 256 \<and>
    RuneCountInString (textOf (member e ''description'')) \<le> 3000 \<and>
    length (elements (member e ''fields'')) \<le> 9 \<and>
    list_all (\<lambda>f. RuneCountInString (textOf (member f ''value'')) \<le> 1000) (elements (member e ''fields''))"
proof -
  have bound: "RuneCountInString (truncateNotificationText v (int k)) \<le> k" for v k
    using truncateNotificationText_bound [of "int k" v] by (simp add: RuneCountInString_def)
  have bounds: "RuneCountInString (truncateNotificationText v 256) \<le> 256"
      "RuneCountInString (truncateNotificationText v 3000) \<le> 3000"
      "RuneCountInString (truncateNotificationText v 1000) \<le> 1000"
      "RuneCountInString (truncateNotificationText v 480) \<le> 1000" for v
    using bound [of v 256] bound [of v 3000] bound [of v 1000] bound [of v 480] by simp_all
  have "length (discordNotificationFields eventType incident) \<le> 9"
    using length_messageFields [of eventType incident] by (simp add: discordNotificationFields_def Let_def)
  moreover have "list_all (\<lambda>f. RuneCountInString (textOf (member f ''value'')) \<le> 1000)
      (discordNotificationFields eventType incident)"
    by (auto simp: discordNotificationFields_def Let_def list_all_iff bounds)
  moreover have p: "p = discordPayload fmt eventType incident" using assms by (simp add: payload_def)
  have "length (elements (member p ''embeds'')) = 1" "member (member p ''allowed_mentions'') ''parse'' = AList []"
    by (simp_all add: p discordPayload_def Let_def)
  moreover have e: "member e ''title'' = AStr (truncateNotificationText (notificationTitle eventType incident) 256)"
      "member e ''fields'' = AList (discordNotificationFields eventType incident)"
      "member e ''description'' \<in> {ANil, AStr (truncateNotificationText (notificationDescription eventType incident) 3000)}"
    unfolding assms(3) p by (simp_all add: discordPayload_def Let_def)
  have "RuneCountInString (textOf (member e ''description'')) \<le> 3000"
    using e(3) by (elim insertE emptyE) (simp_all only: textOf_simps bounds(2) RuneCountInString_def [of "[]"] runes_Nil list.size zero_le)
  moreover have "RuneCountInString (textOf (member e ''title'')) \<le> 256"
    by (simp only: e(1) textOf_simps bounds(1))
  ultimately show ?thesis by (simp only: e(2) elements_AList simp_thms)
qed

theorem discord_payload_bounded_witness:
  "\<exists>p e. p = payload (\<lambda>t. ''now'') (slackNotifier\<lparr>wnType := ''discord''\<rparr>) ''incident.opened'' loudIncident \<and>
    e = hd (elements (member p ''embeds'')) \<and> RuneCountInString (textOf (member e ''title'')) \<le> 256"
proof -
  have "normalizedType (wnType (slackNotifier\<lparr>wnType := ''discord''\<rparr>)) = ''discord''"
    by (simp add: slackNotifier_def normalizedType_def go_eval)
  from discord_payload_bounded [OF this refl refl, of "\<lambda>t. ''now''" "''incident.opened''" loudIncident]
  show ?thesis by (intro exI) (rule conjI [OF refl], rule conjI [OF refl], elim conjE)
qed

end
