(* ===== verification/Email_Message.thy ===== *)
theory Email_Message
  imports Notification_Message
begin

text \<open>
  The mails of \<^verbatim>\<open>internal/notifications/webhook.go\<close>: the HTML page and the plain text of a
  notification, the headers, and the SMTP session that sends a message.
\<close>

subsection \<open>The HTML page\<close>

definition notificationEmailAccent :: "string \<Rightarrow> string" where
  "notificationEmailAccent severity =
     (let s = ToLower (TrimSpace severity) in
      if s \<in> {''critical'', ''error''} then ''#d92d20''
      else if s = ''warning'' then ''#f79009''
      else if s = ''info'' then ''#1570ef''
      else ''#667085'')"

definition formatEmailHTMLText :: "string \<Rightarrow> string" where
  "formatEmailHTMLText raw =
     (let v1 = ReplaceAll (cr @ nl) nl raw; v2 = ReplaceAll cr nl v1
      in ReplaceAll nl ''<br>'' (EscapeString v2))"

definition emailNotificationFields :: "(instant \<Rightarrow> string) \<Rightarrow> string \<Rightarrow> Incident \<Rightarrow> notificationMessageField list" where
  "emailNotificationFields fmt rawType incident =
     (let eventType = normalizedEventType rawType;
          orDash = (\<lambda>s. if s = [] then ja ''~e28094~'' else s);
          target = notificationTargetValue incident;
          resource =
            (if target \<noteq> [] then target
             else if TrimSpace (incStreamID incident) \<noteq> [] then ja ''~e9858de4bfa1e69ea0~: '' @ TrimSpace (incStreamID incident)
             else if TrimSpace (incServiceID incident) \<noteq> [] then ja ''~e382b5e383bce38393e382b9~: '' @ TrimSpace (incServiceID incident)
             else if TrimSpace (incID incident) \<noteq> [] then ja ''~e382a4e383b3e382b7e38387e383b3e38388~: '' @ TrimSpace (incID incident)
             else ja ''~e28094~'')
      in [messageField (ja ''~e382a4e38399e383b3e38388~'') (notificationEventLabel eventType @ '' ('' @ eventType @ '')''),
          messageField (ja ''~e6938de4bd9c~ / ~e383abe383bce383ab~'') (orDash (notificationRuleValue eventType (TrimSpace (incRule incident)))),
          messageField (ja ''~e5afbee8b1a1~'') resource,
          messageField (ja ''~e5ae9fe8a18ce88085~'') (orDash (notificationActorValue incident)),
          messageField (ja ''~e7b590e69e9c~'') (notificationStatusLabel (incStatus incident)),
          messageField (ja ''~e9878de8a681e5baa6~'') (notificationSeverityLabel (incSeverity incident)),
          messageField (ja ''~e697a5e69982~'') (orDash (notificationTimestamp fmt incident))])"

text \<open>The fixed markup of the page, in the order of \<^verbatim>\<open>formatIncidentHTML\<close>.\<close>

definition htmlRowOpen :: string where
  "htmlRowOpen = ''<tr><th scope=\"row\" style=\"padding:10px 12px;text-align:left;vertical-align:top;width:34%;border-bottom:1px solid #e4e7ec;color:#475467;font-size:13px;font-weight:600;\">''"

definition htmlRowMiddle :: string where
  "htmlRowMiddle = ''</th><td style=\"padding:10px 12px;vertical-align:top;border-bottom:1px solid #e4e7ec;color:#101828;font-size:14px;word-break:break-word;\">''"

definition htmlRowClose :: string where
  "htmlRowClose = ''</td></tr>''"

definition htmlSectionOpen :: string where
  "htmlSectionOpen = ''<tr><td style=\"padding:0 24px 24px;\"><div style=\"margin-bottom:8px;color:#475467;font-size:13px;font-weight:700;\">''"

definition htmlSectionMiddle :: string where
  "htmlSectionMiddle = ''</div>'' @
     ''<div style=\"padding:14px 16px;background:#f9fafb;border-radius:8px;color:#344054;font-size:14px;line-height:1.65;word-break:break-word;\">''"

definition htmlSectionClose :: string where
  "htmlSectionClose = ''</div></td></tr>''"

definition htmlHead :: string where
  "htmlHead = ''<!doctype html><html lang=\"ja\"><head><meta charset=\"UTF-8\"><meta name=\"viewport\" content=\"width=device-width,initial-scale=1\"></head>'' @
     ''<body style=\"margin:0;padding:0;background:#f2f4f7;font-family:-apple-system,BlinkMacSystemFont,'Segoe UI',sans-serif;color:#101828;\">'' @
     ''<table role=\"presentation\" width=\"100%\" cellpadding=\"0\" cellspacing=\"0\" style=\"background:#f2f4f7;\"><tr><td align=\"center\" style=\"padding:24px 12px;\">'' @
     ''<table role=\"presentation\" width=\"100%\" cellpadding=\"0\" cellspacing=\"0\" style=\"max-width:640px;background:#ffffff;border:1px solid #e4e7ec;border-radius:12px;overflow:hidden;\">''"

definition htmlAccentOpen :: string where
  "htmlAccentOpen = ''<tr><td style=\"height:6px;background:''"

definition htmlAccentClose :: string where
  "htmlAccentClose = '';font-size:0;line-height:0;\">&nbsp;</td></tr>''"

definition htmlTitleOpen :: string where
  "htmlTitleOpen = ''<tr><td style=\"padding:22px 24px 14px;\"><div style=\"color:#667085;font-size:12px;font-weight:700;letter-spacing:.08em;text-transform:uppercase;\">AutoStream Notification</div>'' @
     ''<h1 style=\"margin:8px 0 0;font-size:22px;line-height:1.35;color:#101828;\">''"

definition htmlTitleClose :: string where
  "htmlTitleClose = ''</h1></td></tr>'' @
     ''<tr><td style=\"padding:0 24px 18px;\"><table role=\"presentation\" width=\"100%\" cellpadding=\"0\" cellspacing=\"0\" style=\"border:1px solid #e4e7ec;border-radius:8px;border-collapse:separate;border-spacing:0;overflow:hidden;\">''"

definition htmlRowsClose :: string where
  "htmlRowsClose = ''</table></td></tr>'' @
     ''<tr><td style=\"padding:0 24px 24px;\"><div style=\"margin-bottom:8px;color:#475467;font-size:13px;font-weight:700;\">'' @ ja ''~e6a682e8a681~'' @ ''</div>'' @
     ''<div style=\"padding:14px 16px;background:#f9fafb;border-radius:8px;color:#344054;font-size:14px;line-height:1.65;word-break:break-word;\">''"

definition htmlFoot :: string where
  "htmlFoot = ''<tr><td style=\"padding:14px 24px;background:#f9fafb;border-top:1px solid #e4e7ec;color:#667085;font-size:12px;\">'' @
     ja ''AutoStream Control Panel ~e3818be38289e98081e4bfa1e38195e3828ce3819fe9809ae79fa5e381a7e38199e38082~'' @ ''</td></tr>'' @
     ''</table></td></tr></table></body></html>''"

definition htmlRow :: "notificationMessageField \<Rightarrow> string" where
  "htmlRow f = htmlRowOpen @ EscapeString (mfName f) @ htmlRowMiddle @
     formatEmailHTMLText (truncateNotificationText (mfValue f) 2048) @ htmlRowClose"

definition notificationHTMLSection :: "string \<Rightarrow> string \<Rightarrow> string" where
  "notificationHTMLSection title value =
     htmlSectionOpen @ EscapeString title @ htmlSectionMiddle @ formatEmailHTMLText value @ htmlSectionClose"

definition formatIncidentHTML :: "(instant \<Rightarrow> string) \<Rightarrow> string \<Rightarrow> Incident \<Rightarrow> string" where
  "formatIncidentHTML fmt eventType incident =
     (let title = truncateNotificationText (notificationTitle eventType incident) 256;
          content = buildNotificationContent eventType incident;
          joined = truncateNotificationText (joinNotificationDetails [ncSummary content, ncDiagnosis content]) 12000;
          summary = (if joined = [] then ja ''~e8a9b3e7b4b0e68385e5a0b1e381afe38182e3828ae381bee3819be38293e38082~'' else joined);
          rows = concat (map htmlRow (emailNotificationFields fmt eventType incident));
          detailSections =
            (if ncActions content \<noteq> [] then notificationHTMLSection (ja ''~e68ea8e5a5a8e5afbee5bf9c~'') (bulleted (ncActions content)) else []) @
            (if ncEvidence content \<noteq> [] then notificationHTMLSection (ja ''~e6a0b9e68ba0~'') (bulleted (ncEvidence content)) else [])
      in htmlHead @
         htmlAccentOpen @ notificationEmailAccent (incSeverity incident) @ htmlAccentClose @
         htmlTitleOpen @ EscapeString title @
         htmlTitleClose @ rows @
         htmlRowsClose @ formatEmailHTMLText summary @ htmlSectionClose @ detailSections @
         htmlFoot)"

subsection \<open>Plain text\<close>

text \<open>\<^verbatim>\<open>utf8.RuneLen\<close> of a rune that a string was decoded to.\<close>

definition runeLen :: "nat \<Rightarrow> nat" where
  "runeLen r = (if r < 128 then 1 else if r < 2048 then 2 else if r < 65536 then 3 else 4)"

text \<open>The loop over the runes: the number of bytes that fit into the limit.\<close>

fun usedBytes :: "nat \<Rightarrow> nat \<Rightarrow> nat list \<Rightarrow> nat" where
  "usedBytes limit used [] = used"
| "usedBytes limit used (r # rs) =
     (if used + runeLen r > limit then used else usedBytes limit (used + runeLen r) rs)"

definition truncateEmailBytes :: "string \<Rightarrow> int \<Rightarrow> string" where
  "truncateEmailBytes value maxBytes =
     (if maxBytes \<le> 0 then []
      else if int (length value) \<le> maxBytes then value
      else
        (let suffix = ja ''~e280a6~''; limit = maxBytes - int (length suffix) in
         if limit \<le> 0 then take (nat maxBytes) suffix
         else TrimSpace (take (usedBytes (nat limit) 0 (runes value)) value) @ suffix))"

definition formatIncidentEmailText :: "(instant \<Rightarrow> string) \<Rightarrow> string \<Rightarrow> Incident \<Rightarrow> string" where
  "formatIncidentEmailText fmt eventType incident =
     truncateEmailBytes (formatIncidentText fmt eventType incident) (16 * 1024)"

subsection \<open>Reading the tags of a page\<close>

text \<open>
  The tags of a text: \<open>None\<close> as a state is outside of a tag, \<open>Some acc\<close> inside one, with what was
  read of it.  The scan fails at a bracket that does not belong to a tag.
\<close>

fun scanTags :: "string option \<Rightarrow> string \<Rightarrow> (string list \<times> string option) option" where
  "scanTags st [] = Some ([], st)"
| "scanTags None (c # s) =
     (if c = CHR ''<'' then scanTags (Some []) s else if c = CHR ''>'' then None else scanTags None s)"
| "scanTags (Some acc) (c # s) =
     (if c = CHR ''>'' then (case scanTags None s of None \<Rightarrow> None | Some (ts, st) \<Rightarrow> Some (acc # ts, st))
      else if c = CHR ''<'' then None else scanTags (Some (acc @ [c])) s)"

lemma scanTags_append:
  "scanTags st (a @ b) = (case scanTags st a of None \<Rightarrow> None
     | Some (ts, st') \<Rightarrow> (case scanTags st' b of None \<Rightarrow> None | Some (us, st'') \<Rightarrow> Some (ts @ us, st'')))"
  by (induction st a rule: scanTags.induct) (auto split: option.splits prod.splits)

text \<open>\<open>laidOut s T\<close>: the text is well formed and its tags, line breaks apart, are \<open>T\<close>.\<close>

definition laidOut :: "string \<Rightarrow> string list \<Rightarrow> bool" where
  "laidOut s T \<longleftrightarrow> (\<exists>ts. scanTags None s = Some (ts, None) \<and> filter (\<lambda>t. t \<noteq> ''br'') ts = T)"

lemma laidOut_append: "laidOut s T \<Longrightarrow> laidOut u U \<Longrightarrow> laidOut (s @ u) (T @ U)"
  by (auto simp: laidOut_def scanTags_append)

lemma laidOut_Nil [simp]: "laidOut [] []"
  by (simp add: laidOut_def)

lemma scanTags_plain: "CHR ''<'' \<notin> set s \<Longrightarrow> CHR ''>'' \<notin> set s \<Longrightarrow> scanTags st s = Some ([], map_option (\<lambda>acc. acc @ s) st)"
  by (induction st s rule: scanTags.induct) (auto simp: option.map_ident)

lemma laidOut_escape: "laidOut (EscapeString s) []"
  using scanTags_plain [of "EscapeString s" None] EscapeString_inert [of s] by (simp add: laidOut_def)

lemma scan_breaks:
  "CHR ''<'' \<notin> set s \<Longrightarrow> CHR ''>'' \<notin> set s \<Longrightarrow>
   \<exists>n. scanTags None (concat (map (\<lambda>x. if x = CHR 0x0A then ''<br>'' else [x]) s)) = Some (replicate n ''br'', None)"
proof (induction s)
  case (Cons c s)
  then obtain n where "scanTags None (concat (map (\<lambda>x. if x = CHR 0x0A then ''<br>'' else [x]) s)) = Some (replicate n ''br'', None)"
    by auto
  then show ?case
    using Cons.prems by (auto intro!: exI [of _ "if c = CHR 0x0A then Suc n else n"])
qed auto

lemma laidOut_text: "laidOut (formatEmailHTMLText s) []"
proof -
  define u where "u = EscapeString (ReplaceAll cr nl (ReplaceAll (cr @ nl) nl s))"
  have "CHR ''<'' \<notin> set u" "CHR ''>'' \<notin> set u" unfolding u_def by (rule EscapeString_inert)+
  moreover have "formatEmailHTMLText s = concat (map (\<lambda>x. if x = CHR 0x0A then ''<br>'' else [x]) u)"
    by (simp add: formatEmailHTMLText_def Let_def u_def ReplaceAll_byte)
  ultimately show ?thesis using scan_breaks [of u] by (auto simp: laidOut_def)
qed

definition tagsOf :: "string \<Rightarrow> string list" where
  "tagsOf s = (case scanTags None s of Some (ts, None) \<Rightarrow> filter (\<lambda>t. t \<noteq> ''br'') ts | _ \<Rightarrow> [])"

lemma laidOut_tagsOf: "laidOut s T \<Longrightarrow> tagsOf s = T"
  by (auto simp: laidOut_def tagsOf_def)

text \<open>Brackets match: what a fixed text has to be checked for.\<close>

fun bracketed :: "bool \<Rightarrow> string \<Rightarrow> bool" where
  "bracketed inside [] \<longleftrightarrow> \<not> inside"
| "bracketed inside (c # s) \<longleftrightarrow>
     (if c = CHR ''<'' then \<not> inside \<and> bracketed True s
      else if c = CHR ''>'' then inside \<and> bracketed False s
      else bracketed inside s)"

lemma bracketed_scan: "bracketed (st \<noteq> None) s \<Longrightarrow> \<exists>ts. scanTags st s = Some (ts, None)"
proof (induction st s rule: scanTags.induct)
  case (3 acc c s)
  then show ?case by (auto split: if_splits)
qed (auto split: if_splits)

lemma laidOut_bracketed: "bracketed False s \<Longrightarrow> laidOut s (tagsOf s)"
  using bracketed_scan [of None s] by (auto simp: laidOut_def tagsOf_def)

lemma bracketed_literals:
  "bracketed False htmlRowOpen" "bracketed False htmlRowMiddle" "bracketed False htmlRowClose"
  "bracketed False htmlSectionOpen" "bracketed False htmlSectionMiddle" "bracketed False htmlSectionClose"
  "bracketed False htmlTitleClose" "bracketed False htmlTitleOpen"
  by code_simp+

lemma bracketed_head: "bracketed False htmlHead"
  by code_simp

lemma bracketed_rest: "bracketed False htmlRowsClose" "bracketed False htmlFoot"
  by code_simp+

lemma bracketed_accent: "bracketed False (htmlAccentOpen @ notificationEmailAccent severity @ htmlAccentClose)"
proof -
  have "notificationEmailAccent severity \<in> {''#d92d20'', ''#f79009'', ''#1570ef'', ''#667085''}"
    by (simp add: notificationEmailAccent_def Let_def)
  moreover have "bracketed False (htmlAccentOpen @ ''#d92d20'' @ htmlAccentClose)"
      "bracketed False (htmlAccentOpen @ ''#f79009'' @ htmlAccentClose)"
      "bracketed False (htmlAccentOpen @ ''#1570ef'' @ htmlAccentClose)"
      "bracketed False (htmlAccentOpen @ ''#667085'' @ htmlAccentClose)"
    by code_simp+
  ultimately show ?thesis by auto
qed

text \<open>The tags of the fixed parts, laid out as \<^verbatim>\<open>formatIncidentHTML\<close> joins them.\<close>

definition rowTags :: "string list" where
  "rowTags = tagsOf htmlRowOpen @ tagsOf htmlRowMiddle @ tagsOf htmlRowClose"

definition sectionTags :: "string list" where
  "sectionTags = tagsOf htmlSectionOpen @ tagsOf htmlSectionMiddle @ tagsOf htmlSectionClose"

definition pageTags :: "string \<Rightarrow> nat \<Rightarrow> string list" where
  "pageTags accent sections =
     tagsOf htmlHead @ tagsOf (htmlAccentOpen @ accent @ htmlAccentClose) @ tagsOf htmlTitleOpen @ tagsOf htmlTitleClose @
     concat (replicate 7 rowTags) @ tagsOf htmlRowsClose @ tagsOf htmlSectionClose @
     concat (replicate sections sectionTags) @ tagsOf htmlFoot"

lemmas markup_laidOut = bracketed_literals [THEN laidOut_bracketed] bracketed_head [THEN laidOut_bracketed]
  bracketed_rest [THEN laidOut_bracketed] bracketed_accent [THEN laidOut_bracketed]

lemma laidOut_row: "laidOut (htmlRow f) rowTags"
proof -
  have "laidOut (htmlRowOpen @ EscapeString (mfName f) @ htmlRowMiddle @
      formatEmailHTMLText (truncateNotificationText (mfValue f) 2048) @ htmlRowClose)
    (tagsOf htmlRowOpen @ [] @ tagsOf htmlRowMiddle @ [] @ tagsOf htmlRowClose)"
    by (intro laidOut_append markup_laidOut laidOut_escape laidOut_text)
  then show ?thesis by (simp add: htmlRow_def rowTags_def)
qed

lemma laidOut_rows: "laidOut (concat (map htmlRow fs)) (concat (replicate (length fs) rowTags))"
  by (induction fs) (simp_all add: laidOut_append laidOut_row)

lemma laidOut_section: "laidOut (notificationHTMLSection title value) sectionTags"
proof -
  have "laidOut (htmlSectionOpen @ EscapeString title @ htmlSectionMiddle @ formatEmailHTMLText value @ htmlSectionClose)
    (tagsOf htmlSectionOpen @ [] @ tagsOf htmlSectionMiddle @ [] @ tagsOf htmlSectionClose)"
    by (intro laidOut_append markup_laidOut laidOut_escape laidOut_text)
  then show ?thesis by (simp add: notificationHTMLSection_def sectionTags_def)
qed

lemma laidOut_optional:
  "laidOut ((if a then notificationHTMLSection t v else []) @ (if b then notificationHTMLSection t' v' else []))
    (concat (replicate (of_bool a + of_bool b) sectionTags))"
  using laidOut_append [OF laidOut_section [of t v] laidOut_section [of t' v']]
  by (auto simp: laidOut_section)

lemma length_emailFields: "length (emailNotificationFields fmt eventType incident) = 7"
  by (simp add: emailNotificationFields_def Let_def)

text \<open>
  In the HTML page of a notification the angle brackets open and close tags in turn, and these tags, line breaks apart, are those
  of the fixed layout: they depend on the colour of the severity and on how many of the two optional sections there are, and on
  nothing else that the incident says.
\<close>

theorem email_html_inert:
  "laidOut (formatIncidentHTML fmt eventType incident)
    (pageTags (notificationEmailAccent (incSeverity incident))
      (of_bool (ncActions (buildNotificationContent eventType incident) \<noteq> []) +
       of_bool (ncEvidence (buildNotificationContent eventType incident) \<noteq> [])))"
proof -
  have all: "laidOut (htmlHead @ (htmlAccentOpen @ notificationEmailAccent (incSeverity incident) @ htmlAccentClose) @
      htmlTitleOpen @ EscapeString title @ htmlTitleClose @ concat (map htmlRow fs) @ htmlRowsClose @
      formatEmailHTMLText summary @ htmlSectionClose @
      ((if a then notificationHTMLSection t v else []) @ (if b then notificationHTMLSection t' v' else [])) @ htmlFoot)
    (tagsOf htmlHead @ tagsOf (htmlAccentOpen @ notificationEmailAccent (incSeverity incident) @ htmlAccentClose) @
      tagsOf htmlTitleOpen @ [] @ tagsOf htmlTitleClose @ concat (replicate (length fs) rowTags) @ tagsOf htmlRowsClose @
      [] @ tagsOf htmlSectionClose @ concat (replicate (of_bool a + of_bool b) sectionTags) @ tagsOf htmlFoot)"
    for title fs summary a t v b t' v'
    by (intro laidOut_append markup_laidOut laidOut_escape laidOut_text laidOut_rows laidOut_optional)
  show ?thesis
    using all [where fs = "emailNotificationFields fmt eventType incident"]
    by (simp only: formatIncidentHTML_def pageTags_def Let_def length_emailFields append_assoc append_Nil)
qed

lemma usedBytes_le: "used \<le> limit \<Longrightarrow> usedBytes limit used rs \<le> limit"
  by (induction limit used rs rule: usedBytes.induct) auto

lemma length_ellipsis: "length (ja ''~e280a6~'') = 3"
  by code_simp

text \<open>The text of a mail never exceeds 16 KiB.\<close>

theorem email_text_bounded:
  "int (length (truncateEmailBytes v n)) \<le> max 0 n \<and> length (formatIncidentEmailText fmt eventType incident) \<le> 16384"
proof -
  have bound: "int (length (truncateEmailBytes v n)) \<le> max 0 n" for v n
    using length_TrimSpace [of "take (usedBytes (nat (n - 3)) 0 (runes v)) v"]
      usedBytes_le [of 0 "nat (n - 3)" "runes v"]
    by (auto simp: truncateEmailBytes_def Let_def length_ellipsis)
  from bound [of v n] bound [of "formatIncidentText fmt eventType incident" 16384] show ?thesis
    by (simp add: formatIncidentEmailText_def)
qed

subsection \<open>Subject and headers\<close>

text \<open>
  What the mails take from the standard library: \<^verbatim>\<open>mail.ParseAddress\<close> as the address and its
  \<^verbatim>\<open>String\<close>, \<^verbatim>\<open>mime.QEncoding\<close>, the quoted-printable writer, and the random boundary of the
  multipart writer with whether writing the parts failed.
\<close>

record mailenv =
  meParse :: "string \<Rightarrow> (string \<times> string) option"
  meQEncode :: "string \<Rightarrow> string"
  meQuotedPrintable :: "string \<Rightarrow> string"
  meBoundary :: string
  mePartError :: bool

abbreviation crlf :: string where "crlf \<equiv> [CHR 0x0D, CHR 0x0A]"

definition sanitizeEmailHeaderValue :: "string \<Rightarrow> string" where
  "sanitizeEmailHeaderValue value =
     TrimSpace (ReplaceAll [CHR 0x00] [] (ReplaceAll nl [] (ReplaceAll cr [] value)))"

definition formatEmailAddressHeader :: "mailenv \<Rightarrow> string \<Rightarrow> string" where
  "formatEmailAddressHeader me raw =
     (let value = sanitizeEmailHeaderValue raw in
      case meParse me value of
        Some (address, rendered) \<Rightarrow> if TrimSpace address \<noteq> [] then rendered else value
      | None \<Rightarrow> value)"

definition formatEmailAddressListHeader :: "mailenv \<Rightarrow> string list \<Rightarrow> string" where
  "formatEmailAddressListHeader me vals =
     strJoin (filter (\<lambda>v. v \<noteq> []) (map (formatEmailAddressHeader me) vals)) '', ''"

text \<open>The runes before the first one beyond ASCII are single bytes, so its index is the number of ASCII bytes before it.\<close>

definition formatEmailSubjectHeader :: "mailenv \<Rightarrow> string \<Rightarrow> string" where
  "formatEmailSubjectHeader me raw =
     (let subject = sanitizeEmailHeaderValue raw; plain = takeWhile (\<lambda>c. b2n c \<le> 127) subject;
          tail = dropWhile (\<lambda>c. b2n c \<le> 127) subject
      in if tail \<noteq> [] then plain @ meQEncode me tail else subject)"

definition formatEmailSubject :: "string \<Rightarrow> Incident \<Rightarrow> string" where
  "formatEmailSubject eventType incident =
     (let upper = ToUpper (TrimSpace (incSeverity incident));
          severity = (if upper = [] then ''INFO'' else upper);
          legacy = TrimSpace (''[AutoStream] '' @ severity @ '' '' @ TrimSpace (incRule incident));
          title = notificationTitle eventType incident;
          subject = (if title \<noteq> [] \<and> title \<noteq> TrimSpace (incRule incident) then legacy @ '' | '' @ title else legacy)
      in truncateNotificationText (strJoin (Fields (ReplaceAll nl '' '' (ReplaceAll cr '' '' subject))) '' '') 200)"

definition mailHeaders :: "mailenv \<Rightarrow> string \<Rightarrow> string list \<Rightarrow> string \<Rightarrow> string list" where
  "mailHeaders me from recipients subject =
     [''From: '' @ formatEmailAddressHeader me from,
      ''To: '' @ formatEmailAddressListHeader me recipients,
      ''Subject: '' @ subject,
      ''MIME-Version: 1.0'']"

definition formatPlainEmailMessage :: "mailenv \<Rightarrow> string \<Rightarrow> string \<Rightarrow> string list \<Rightarrow> string \<Rightarrow> string" where
  "formatPlainEmailMessage me subject from recipients text =
     strJoin (mailHeaders me from recipients subject @
       [''Content-Type: text/plain; charset=UTF-8'', ''Content-Transfer-Encoding: 8bit'']) crlf @ crlf @ crlf @ text"

text \<open>The two parts as \<^verbatim>\<open>multipart.Writer\<close> writes them, the headers of a part in order of their names.\<close>

definition multipartBody :: "mailenv \<Rightarrow> string \<Rightarrow> string \<Rightarrow> string" where
  "multipartBody me plain html =
     ''--'' @ meBoundary me @ crlf @
     ''Content-Transfer-Encoding: quoted-printable'' @ crlf @
     ''Content-Type: text/plain; charset=\"UTF-8\"'' @ crlf @ crlf @ meQuotedPrintable me plain @
     crlf @ ''--'' @ meBoundary me @ crlf @
     ''Content-Transfer-Encoding: quoted-printable'' @ crlf @
     ''Content-Type: text/html; charset=\"UTF-8\"'' @ crlf @ crlf @ meQuotedPrintable me html @
     crlf @ ''--'' @ meBoundary me @ ''--'' @ crlf"

definition formatEmailMessage ::
  "mailenv \<Rightarrow> (instant \<Rightarrow> string) \<Rightarrow> string \<Rightarrow> Incident \<Rightarrow> string \<Rightarrow> string list \<Rightarrow> string" where
  "formatEmailMessage me fmt eventType incident from recipients =
     (let subject = formatEmailSubjectHeader me (formatEmailSubject eventType incident);
          body = multipartBody me (formatIncidentEmailText fmt eventType incident) (formatIncidentHTML fmt eventType incident)
      in if mePartError me
         then formatPlainEmailMessage me subject from recipients (formatIncidentEmailText fmt eventType incident)
         else strJoin (mailHeaders me from recipients subject @
           [''Content-Type: multipart/alternative; boundary=\"'' @ meBoundary me @ ''\"'']) crlf @ crlf @ crlf @ body)"

subsection \<open>The SMTP session\<close>

text \<open>
  The answers of a mail server to one session: an error text, or \<open>None\<close> for success.  A step is a
  command sent to the server with its answer, or only an error of the program itself.
\<close>

record smtpPeer =
  spDial :: "string option"
  spClient :: "string option"
  spHello :: "string option"
  spOffersStartTLS :: bool
  spStartTLS :: "string option"
  spAuth :: "string option"
  spMail :: "string option"
  spRcpt :: "string \<Rightarrow> string option"
  spData :: "string option"
  spWrite :: "string option"
  spClose :: "string option"
  spQuit :: "string option"

datatype smtpCommand = HELLO | STARTTLS | AUTH | MAIL string | RCPT string | DATA | CONTENT string | FINISH | QUIT

fun issue :: "(smtpCommand option \<times> string option) list \<Rightarrow> smtpCommand list \<times> string option" where
  "issue [] = ([], None)"
| "issue ((c, answer) # steps) =
     (let sent = (case c of None \<Rightarrow> [] | Some x \<Rightarrow> [x]) in
      case answer of
        Some err \<Rightarrow> (sent, Some err)
      | None \<Rightarrow> (let (rest, err) = issue steps in (sent @ rest, err)))"

definition smtpSteps :: "smtpPeer \<Rightarrow> NotificationChannel \<Rightarrow> bool \<Rightarrow> string \<Rightarrow> (smtpCommand option \<times> string option) list" where
  "smtpSteps peer channel auth msg =
     [(None, spDial peer), (None, spClient peer), (Some HELLO, spHello peer)] @
     (if spOffersStartTLS peer then [(Some STARTTLS, spStartTLS peer)]
      else if chSMTPTLS channel then [(None, Some ''notification SMTP STARTTLS unavailable'')]
      else []) @
     (if auth then [(Some AUTH, spAuth peer)] else []) @
     [(Some (MAIL (chSMTPFrom channel)), spMail peer)] @
     map (\<lambda>r. (Some (RCPT r), spRcpt peer r)) (recipientsOf channel) @
     [(Some DATA, spData peer)] @
     (case spWrite peer of
        Some err \<Rightarrow> [(Some (CONTENT msg), None), (Some FINISH, None), (None, Some err)]
      | None \<Rightarrow> [(Some (CONTENT msg), None), (Some FINISH, spClose peer), (Some QUIT, spQuit peer)])"

definition safeSMTPSendMail ::
  "netenv \<Rightarrow> smtpPeer \<Rightarrow> NotificationChannel \<Rightarrow> bool \<Rightarrow> string \<Rightarrow> bool \<Rightarrow> smtpCommand list \<times> string option" where
  "safeSMTPSendMail net peer channel auth msg allowPrivate =
     (let host = TrimSpace (chSMTPHost channel); port = (if chSMTPPort channel = 0 then 587 else chSMTPPort channel) in
      case safeSMTPDialContext net allowPrivate host port of
        Inl e \<Rightarrow> ([], Some (case e of ErrText t \<Rightarrow> t | _ \<Rightarrow> []))
      | Inr _ \<Rightarrow> issue (smtpSteps peer channel auth msg))"

text \<open>One attempt of \<^verbatim>\<open>EmailNotifier.NotifyIncidentEvent\<close> with the message it builds.\<close>

definition smtpAttempt ::
  "netenv \<Rightarrow> mailenv \<Rightarrow> (instant \<Rightarrow> string) \<Rightarrow> smtpPeer \<Rightarrow> NotificationChannel \<Rightarrow> string \<Rightarrow> Incident \<Rightarrow> smtpCommand list \<times> string option" where
  "smtpAttempt net me fmt peer channel eventType incident =
     safeSMTPSendMail net peer channel (chSMTPUsername channel \<noteq> [] \<and> chSMTPPassword channel \<noteq> [])
       (formatEmailMessage me fmt eventType incident (chSMTPFrom channel) (recipientsOf channel))
       (allowPrivateSMTPFromEnv (neGo net))"

subsection \<open>Headers hold one line each\<close>

definition oneLine :: "string \<Rightarrow> bool" where
  "oneLine s \<longleftrightarrow> CHR 0x0D \<notin> set s \<and> CHR 0x0A \<notin> set s"

text \<open>
  The standard library renders addresses and encoded words on one line; the boundary is hexadecimal.
\<close>

definition mailLaws :: "mailenv \<Rightarrow> bool" where
  "mailLaws me \<longleftrightarrow> (\<forall>v a r. meParse me v = Some (a, r) \<longrightarrow> oneLine r) \<and> (\<forall>v. oneLine (meQEncode me v)) \<and>
     oneLine (meBoundary me)"

lemma oneLine_simps [simp]:
  "oneLine []" "oneLine (s @ t) \<longleftrightarrow> oneLine s \<and> oneLine t"
  "oneLine (c # s) \<longleftrightarrow> c \<noteq> CHR 0x0D \<and> c \<noteq> CHR 0x0A \<and> oneLine s"
  by (auto simp: oneLine_def)

lemma oneLine_subset: "set s \<subseteq> set t \<Longrightarrow> oneLine t \<Longrightarrow> oneLine s"
  by (auto simp: oneLine_def)

lemma oneLine_sanitized: "oneLine (sanitizeEmailHeaderValue v)"
proof -
  have "oneLine (ReplaceAll [CHR 0x00] [] (ReplaceAll nl [] (ReplaceAll cr [] v)))"
    by (auto simp: oneLine_def ReplaceAll_byte)
  then show ?thesis
    unfolding sanitizeEmailHeaderValue_def by (rule oneLine_subset [OF set_TrimSpace])
qed

lemma oneLine_address: "mailLaws me \<Longrightarrow> oneLine (formatEmailAddressHeader me v)"
  by (auto simp: formatEmailAddressHeader_def Let_def mailLaws_def oneLine_sanitized split: option.splits)

lemma oneLine_join: "list_all oneLine vs \<Longrightarrow> oneLine sep \<Longrightarrow> oneLine (strJoin vs sep)"
  by (induction vs sep rule: strJoin.induct) auto

lemma oneLine_addresses: "mailLaws me \<Longrightarrow> oneLine (formatEmailAddressListHeader me vs)"
  unfolding formatEmailAddressListHeader_def
  by (rule oneLine_join) (auto simp: list_all_iff oneLine_address)

lemma oneLine_subject: "mailLaws me \<Longrightarrow> oneLine (formatEmailSubjectHeader me v)"
  using oneLine_subset [OF set_takeWhileD [THEN conjunct1, THEN subsetI] oneLine_sanitized]
  by (auto simp: formatEmailSubjectHeader_def Let_def mailLaws_def oneLine_sanitized)

definition headerName :: "string \<Rightarrow> string option" where
  "headerName h = map_option fst (cutByte (CHR '':'') h)"

text \<open>
  C37: a mail starts with exactly the five or six headers of the program, each on one line, whatever
  the sender, the recipients and the incident contain; no text of an incident becomes a header.
\<close>

theorem email_headers_exact:
  assumes "mailLaws me"
  shows "\<exists>hs body. formatEmailMessage me fmt eventType incident from recipients = strJoin hs crlf @ crlf @ crlf @ body \<and>
    list_all oneLine hs \<and>
    map headerName hs = map Some ([''From'', ''To'', ''Subject'', ''MIME-Version'', ''Content-Type''] @
      (if mePartError me then [''Content-Transfer-Encoding''] else []))"
proof -
  define subject where "subject = formatEmailSubjectHeader me (formatEmailSubject eventType incident)"
  have common: "list_all oneLine (mailHeaders me from recipients subject)"
      "map headerName (mailHeaders me from recipients subject) = map Some [''From'', ''To'', ''Subject'', ''MIME-Version'']"
    using assms by (simp_all add: mailHeaders_def oneLine_address oneLine_addresses oneLine_subject subject_def headerName_def)
  show ?thesis
  proof (cases "mePartError me")
    case True
    let ?hs = "mailHeaders me from recipients subject @
      [''Content-Type: text/plain; charset=UTF-8'', ''Content-Transfer-Encoding: 8bit'']"
    have "formatEmailMessage me fmt eventType incident from recipients =
        strJoin ?hs crlf @ crlf @ crlf @ formatIncidentEmailText fmt eventType incident"
      using True by (simp add: formatEmailMessage_def formatPlainEmailMessage_def Let_def subject_def)
    moreover have "list_all oneLine ?hs" "map headerName ?hs = map Some ([''From'', ''To'', ''Subject'', ''MIME-Version'',
        ''Content-Type''] @ (if mePartError me then [''Content-Transfer-Encoding''] else []))"
      using common True by (simp_all add: headerName_def)
    ultimately show ?thesis by blast
  next
    case False
    let ?hs = "mailHeaders me from recipients subject @
      [''Content-Type: multipart/alternative; boundary=\"'' @ meBoundary me @ ''\"'']"
    let ?body = "multipartBody me (formatIncidentEmailText fmt eventType incident) (formatIncidentHTML fmt eventType incident)"
    have "formatEmailMessage me fmt eventType incident from recipients = strJoin ?hs crlf @ crlf @ crlf @ ?body"
      using False by (simp add: formatEmailMessage_def Let_def subject_def)
    moreover have "list_all oneLine ?hs" "map headerName ?hs = map Some ([''From'', ''To'', ''Subject'', ''MIME-Version'',
        ''Content-Type''] @ (if mePartError me then [''Content-Transfer-Encoding''] else []))"
      using common False assms by (simp_all add: headerName_def mailLaws_def)
    ultimately show ?thesis by blast
  qed
qed

definition sampleMail :: mailenv where
  "sampleMail = \<lparr>meParse = (\<lambda>v. Some (v, ''<'' @ filter (\<lambda>c. c \<noteq> CHR 0x0D \<and> c \<noteq> CHR 0x0A) v @ ''>'')),
     meQEncode = (\<lambda>v. ''=?UTF-8?q?'' @ hexEncode v @ ''?=''), meQuotedPrintable = id, meBoundary = ''b0'', mePartError = False\<rparr>"

definition forgedIncident :: Incident where
  "forgedIncident = zeroIncident\<lparr>incRule := ''x'' @ crlf @ ''Bcc: all@example.com''\<rparr>"

lemma sampleMail_laws: "mailLaws sampleMail"
proof -
  have "b2n c \<in> {48..57} \<union> {97..102} \<Longrightarrow> c \<noteq> CHR 0x0D \<and> c \<noteq> CHR 0x0A" for c
    by (auto simp: b2n_def)
  then have "oneLine (hexEncode v)" for v
    using hexEncode_hex by (metis oneLine_def)
  then show ?thesis by (auto simp: mailLaws_def sampleMail_def oneLine_def)
qed

theorem email_headers_exact_witness:
  "\<exists>hs body. formatEmailMessage sampleMail (\<lambda>t. []) ''incident.opened'' forgedIncident ''ops@example.com'' [''a@example.com'' @ crlf]
      = strJoin hs crlf @ crlf @ crlf @ body \<and>
    list_all oneLine hs \<and> map headerName hs =
      [Some ''From'', Some ''To'', Some ''Subject'', Some ''MIME-Version'', Some ''Content-Type'']"
  using email_headers_exact [OF sampleMail_laws, of "\<lambda>t. []" "''incident.opened''" forgedIncident "''ops@example.com''"
      "[''a@example.com'' @ crlf]"] by (simp add: sampleMail_def)

subsection \<open>The session\<close>

lemma issue_append:
  "issue (a @ b) = (case issue a of (sent, Some err) \<Rightarrow> (sent, Some err)
     | (sent, None) \<Rightarrow> (sent @ fst (issue b), snd (issue b)))"
  by (induction a rule: issue.induct) (auto split: option.splits prod.splits)

lemma issue_complete: "snd (issue steps) = None \<longleftrightarrow> list_all (\<lambda>s. snd s = None) steps"
  by (induction steps rule: issue.induct) (auto split: option.splits prod.splits)

lemma issue_all: "snd (issue steps) = None \<Longrightarrow> fst (issue steps) = List.map_filter fst steps"
  by (induction steps rule: issue.induct) (auto simp: List.map_filter_simps split: option.splits prod.splits)

text \<open>The commands of a session that runs to its end.\<close>

definition fullSession :: "smtpPeer \<Rightarrow> NotificationChannel \<Rightarrow> bool \<Rightarrow> string \<Rightarrow> smtpCommand list" where
  "fullSession peer channel auth msg =
     [HELLO] @ (if spOffersStartTLS peer then [STARTTLS] else []) @ (if auth then [AUTH] else []) @
     [MAIL (chSMTPFrom channel)] @ map RCPT (recipientsOf channel) @ [DATA, CONTENT msg, FINISH, QUIT]"

lemma map_filter_rcpt: "List.map_filter fst (map (\<lambda>r. (Some (RCPT r), f r)) rs) = map RCPT rs"
  by (induction rs) (simp_all add: List.map_filter_simps)

lemma map_filter_append: "List.map_filter f (xs @ ys) = List.map_filter f xs @ List.map_filter f ys"
  by (simp add: List.map_filter_def)

lemma smtpSteps_complete:
  assumes "snd (issue (smtpSteps peer channel auth msg)) = None"
  shows "fst (issue (smtpSteps peer channel auth msg)) = fullSession peer channel auth msg"
proof -
  have "list_all (\<lambda>s. snd s = None) (smtpSteps peer channel auth msg)"
    using assms by (simp only: issue_complete)
  then show ?thesis
    unfolding issue_all [OF assms]
    by (cases "spWrite peer") (auto simp: smtpSteps_def fullSession_def List.map_filter_simps map_filter_append map_filter_rcpt split: if_splits)
qed

definition smtpSafe :: "smtpPeer \<Rightarrow> smtpCommand list \<Rightarrow> bool" where
  "smtpSafe peer cmds \<longleftrightarrow> set cmds \<subseteq> {HELLO, STARTTLS} \<or>
     spOffersStartTLS peer \<and> spStartTLS peer = None \<and> take 2 cmds = [HELLO, STARTTLS]"

lemma smtpSteps_safe:
  assumes "chSMTPTLS channel"
  shows "smtpSafe peer (fst (issue (smtpSteps peer channel auth msg)))"
proof (cases "spOffersStartTLS peer")
  case True
  then obtain rest where "smtpSteps peer channel auth msg =
      (None, spDial peer) # (None, spClient peer) # (Some HELLO, spHello peer) # (Some STARTTLS, spStartTLS peer) # rest"
    by (simp add: smtpSteps_def)
  with True show ?thesis
    by (auto simp: smtpSafe_def Let_def split: option.splits prod.splits)
next
  case False
  with assms obtain rest e where "smtpSteps peer channel auth msg =
      (None, spDial peer) # (None, spClient peer) # (Some HELLO, spHello peer) # (None, Some e) # rest"
    by (simp add: smtpSteps_def)
  then show ?thesis
    by (auto simp: smtpSafe_def Let_def split: option.splits prod.splits)
qed

text \<open>
  C25: on a channel that asks for TLS nothing but the greeting and the request for TLS is sent before TLS is
  established, neither credentials nor addresses nor the message; and an attempt that reports success
  has run the whole session, every recipient accepted before the message is sent.
\<close>

theorem smtp_session_safe:
  assumes "chSMTPTLS channel"
    and "(cmds, err) = smtpAttempt net me fmt peer channel eventType incident"
  shows "smtpSafe peer cmds \<and>
    (err = None \<longrightarrow> cmds = fullSession peer channel (chSMTPUsername channel \<noteq> [] \<and> chSMTPPassword channel \<noteq> [])
       (formatEmailMessage me fmt eventType incident (chSMTPFrom channel) (recipientsOf channel)))"
proof (cases "cmds = [] \<and> err \<noteq> None")
  case True
  then show ?thesis by (auto simp: smtpSafe_def)
next
  case False
  let ?steps = "smtpSteps peer channel (chSMTPUsername channel \<noteq> [] \<and> chSMTPPassword channel \<noteq> [])
    (formatEmailMessage me fmt eventType incident (chSMTPFrom channel) (recipientsOf channel))"
  have "(cmds, err) = issue ?steps"
    using assms(2) False by (auto simp: smtpAttempt_def safeSMTPSendMail_def Let_def split: sum.splits)
  then have "cmds = fst (issue ?steps)" "err = snd (issue ?steps)" by (metis fst_conv snd_conv)+
  then show ?thesis using smtpSteps_safe [OF assms(1)] smtpSteps_complete by simp
qed

definition mailChannel :: NotificationChannel where
  "mailChannel = (sampleChannel ''mail'')\<lparr>chType := ''email'', chSMTPHost := ''smtp.example.com'', chSMTPTLS := True,
     chSMTPFrom := ''ops@example.com'', chEmailRecipients := Some [''a@example.com'', ''b@example.com'']\<rparr>"

definition willingPeer :: smtpPeer where
  "willingPeer = \<lparr>spDial = None, spClient = None, spHello = None, spOffersStartTLS = True, spStartTLS = None, spAuth = None,
     spMail = None, spRcpt = (\<lambda>_. None), spData = None, spWrite = None, spClose = None, spQuit = None\<rparr>"

theorem smtp_session_safe_witness:
  "chSMTPTLS mailChannel \<and>
   smtpSafe willingPeer (fst (smtpAttempt sampleNet sampleMail (\<lambda>t. []) willingPeer mailChannel ''incident.opened'' forgedIncident))"
proof -
  have "chSMTPTLS mailChannel" by (simp add: mailChannel_def)
  with smtp_session_safe [OF this prod.collapse] show ?thesis by blast
qed

text \<open>A server that accepts everything up to the end of the message, with what it answers to \<^verbatim>\<open>QUIT\<close>.\<close>

definition acceptsMessage :: "smtpPeer \<Rightarrow> bool" where
  "acceptsMessage peer \<longleftrightarrow> spDial peer = None \<and> spClient peer = None \<and> spHello peer = None \<and> spOffersStartTLS peer \<and>
     spStartTLS peer = None \<and> spAuth peer = None \<and> spMail peer = None \<and> (\<forall>r. spRcpt peer r = None) \<and>
     spData peer = None \<and> spWrite peer = None \<and> spClose peer = None"

lemma issue_rcpt: "issue (map (\<lambda>r. (Some (RCPT r), None)) rs) = (map RCPT rs, None)"
  by (induction rs) auto

lemma accepted_session:
  assumes "acceptsMessage peer"
  shows "issue (smtpSteps peer channel auth msg) = (fullSession peer channel auth msg, spQuit peer)"
  using assms by (cases "spQuit peer")
    (auto simp: acceptsMessage_def smtpSteps_def fullSession_def issue_append issue_rcpt)

lemma smtpAttempts_all:
  "(\<And>i. send i = Some err) \<Longrightarrow> (\<And>i. sleep i = None) \<Longrightarrow> smtpAttempts send sleep base (Suc left) attempt = Some err"
  by (induction left arbitrary: attempt) (simp_all add: sleepWithFunc_def)

text \<open>
  On a server that takes the message and then fails to answer \<^verbatim>\<open>QUIT\<close> an attempt has sent the complete message
  and still reports a failure, so the loop of attempts goes on, and the delivery ends as failed.
\<close>

theorem quit_failure_resends:
  assumes "acceptsMessage peer" and "spQuit peer = Some e"
    and "safeSMTPDialContext net (allowPrivateSMTPFromEnv (neGo net)) (TrimSpace (chSMTPHost channel))
           (if chSMTPPort channel = 0 then 587 else chSMTPPort channel) = Inr address"
    and "\<And>i. osSleep os i = None" and "\<And>i. osSMTP os channel i = snd (smtpAttempt net me fmt peer channel eventType incident)"
    and "recipientsOf channel \<noteq> []" and "TrimSpace (chSMTPHost channel) \<noteq> []" and "TrimSpace (chSMTPFrom channel) \<noteq> []"
    and "\<not> chUseGlobalSMTP channel"
  shows "fst (smtpAttempt net me fmt peer channel eventType incident) =
      fullSession peer channel (chSMTPUsername channel \<noteq> [] \<and> chSMTPPassword channel \<noteq> [])
        (formatEmailMessage me fmt eventType incident (chSMTPFrom channel) (recipientsOf channel)) \<and>
    map drStatus (fst (notifyEmail os channel retryMax base eventType)) = [''failure'']"
proof -
  have session: "smtpAttempt net me fmt peer channel eventType incident =
      (fullSession peer channel (chSMTPUsername channel \<noteq> [] \<and> chSMTPPassword channel \<noteq> [])
        (formatEmailMessage me fmt eventType incident (chSMTPFrom channel) (recipientsOf channel)), Some e)"
    using assms(2,3) by (simp add: smtpAttempt_def safeSMTPSendMail_def Let_def accepted_session [OF assms(1)])
  obtain left where "attemptCount retryMax = Suc left"
    by (cases "attemptCount retryMax") (auto simp: attemptCount_def Let_def split: if_splits)
  moreover have "osSMTP os channel i = Some e" for i using assms(5) session by simp
  ultimately have "smtpAttempts (osSMTP os channel) (osSleep os) base (attemptCount retryMax) 0 = Some e"
    using smtpAttempts_all assms(4) by metis
  moreover have "hasDirectSMTPConfiguration channel" using assms(7) by (simp add: hasDirectSMTPConfiguration_def)
  ultimately show ?thesis
    using assms(6-9) session by (simp add: notifyEmail_def Let_def result_def)
qed

theorem quit_failure_resends_witness:
  "map drStatus (fst (notifyEmail \<lparr>osHTTP = (\<lambda>_ _. HTTPStatus 200),
      osSMTP = (\<lambda>c i. snd (smtpAttempt sampleNet sampleMail (\<lambda>t. []) (willingPeer\<lparr>spQuit := Some ''EOF''\<rparr>) mailChannel
        ''incident.opened'' forgedIncident)),
      osRelay = None, osSleep = (\<lambda>_. None)\<rparr> mailChannel 3 1 ''incident.opened'')) = [''failure'']"
proof -
  let ?peer = "willingPeer\<lparr>spQuit := Some ''EOF''\<rparr>"
  have peer: "acceptsMessage ?peer" "spQuit ?peer = Some ''EOF''" by (simp_all add: acceptsMessage_def willingPeer_def)
  have prod: "\<not> allowPrivateSMTPFromEnv (neGo sampleNet)"
    by (simp add: sampleNet_def allowPrivateSMTPFromEnv_def concreteEnv_def observabilityProductionEnvironment_def EqualFold_def go_eval)
  have chan: "recipientsOf mailChannel \<noteq> []" "TrimSpace (chSMTPHost mailChannel) \<noteq> []" "TrimSpace (chSMTPFrom mailChannel) \<noteq> []"
      "\<not> chUseGlobalSMTP mailChannel" "chSMTPPort mailChannel = 0"
    by (simp_all add: mailChannel_def sampleChannel_def recipientsOf_def go_eval)
  have unsafe: "unsafeWebhookIP [127, 0, 0, 1]" "\<not> unsafeWebhookIP [203, 0, 113, 9]"
    by code_simp+
  obtain address where "safeSMTPDialContext sampleNet (allowPrivateSMTPFromEnv (neGo sampleNet))
      (TrimSpace (chSMTPHost mailChannel)) (if chSMTPPort mailChannel = 0 then 587 else chSMTPPort mailChannel) = Inr address"
    using prod unsafe chan by (simp add: safeSMTPDialContext_def) (simp add: sampleNet_def)
  from quit_failure_resends [OF peer this, of
      "\<lparr>osHTTP = (\<lambda>_ _. HTTPStatus 200), osSMTP = (\<lambda>c i. snd (smtpAttempt sampleNet sampleMail (\<lambda>t. []) ?peer mailChannel
        ''incident.opened'' forgedIncident)), osRelay = None, osSleep = (\<lambda>_. None)\<rparr>"]
  show ?thesis using chan by simp
qed

end
