(* ===== verification/Webhook_Client.thy ===== *)
theory Webhook_Client
  imports Webhook Control_Client
begin

text \<open>
  The rest of \<^verbatim>\<open>internal/notifications/webhook.go\<close> around the deliveries: the notifier from the
  environment, the validators that wrap the address policy, and the redirects of the webhook client.
  Functions that share their name with one of \<^verbatim>\<open>internal/control\<close> carry the prefix \<open>notifier\<close>.
\<close>

subsection \<open>The notifier of the environment\<close>

definition notifierEnvInt :: "goenv \<Rightarrow> string \<Rightarrow> int \<Rightarrow> int" where
  "notifierEnvInt env key fallback =
     (let value = TrimSpace (getenv env key) in
      if value = [] then fallback
      else case ParseInt value of None \<Rightarrow> fallback | Some parsed \<Rightarrow> if parsed < 0 then fallback else parsed)"

definition notifierEnvDefault :: "goenv \<Rightarrow> string \<Rightarrow> string \<Rightarrow> string" where
  "notifierEnvDefault env key fallback =
     (let value = TrimSpace (getenv env key) in if value \<noteq> [] then value else fallback)"

definition notifierEnvDuration :: "ctlenv \<Rightarrow> string \<Rightarrow> int \<Rightarrow> int" where
  "notifierEnvDuration ct key fallback =
     (let value = TrimSpace (getenv (ctGo ct) key) in
      if value = [] then fallback
      else case ctDuration ct (value @ ''s'') of
        None \<Rightarrow> fallback
      | Some duration \<Rightarrow> if duration \<le> 0 then fallback else duration)"

text \<open>\<^verbatim>\<open>FromEnv\<close>, with the timeout beside the record that the deliveries use.\<close>

definition notifierFromEnv :: "ctlenv \<Rightarrow> WebhookNotifier \<times> int" where
  "notifierFromEnv ct =
     (let env = ctGo ct in
      (\<lparr>wnType = notifierEnvDefault env ''NOTIFICATION_WEBHOOK_TYPE'' ''generic'',
        wnURL = getenv env ''NOTIFICATION_WEBHOOK_URL'',
        wnRetryMax = notifierEnvInt env ''NOTIFICATION_WEBHOOK_RETRY_MAX'' 3,
        wnRetryBaseDelay = notifierEnvDuration ct ''NOTIFICATION_WEBHOOK_RETRY_BASE_DELAY_SEC'' second,
        wnAllowPrivate = allowPrivateWebhooksFromEnv env\<rparr>,
       notifierEnvDuration ct ''NOTIFICATION_WEBHOOK_TIMEOUT_SEC'' (5 * second)))"

definition notifierEnabled :: "WebhookNotifier \<Rightarrow> bool" where
  "notifierEnabled n \<longleftrightarrow> TrimSpace (wnURL n) \<noteq> []"

subsection \<open>Validators\<close>

definition ValidateWebhookURLForTypeWithPolicy :: "netenv \<Rightarrow> string \<Rightarrow> string \<Rightarrow> bool \<Rightarrow> goerr option" where
  "ValidateWebhookURLForTypeWithPolicy net raw channelType allowPrivate =
     (case NormalizeWebhookURLForTypeWithPolicy net raw channelType allowPrivate of Inl e \<Rightarrow> Some e | Inr _ \<Rightarrow> None)"

definition ValidateWebhookURLWithPolicy :: "netenv \<Rightarrow> string \<Rightarrow> bool \<Rightarrow> goerr option" where
  "ValidateWebhookURLWithPolicy net raw allowPrivate = ValidateWebhookURLForTypeWithPolicy net raw ''generic'' allowPrivate"

definition ValidateWebhookURLForType :: "netenv \<Rightarrow> string \<Rightarrow> string \<Rightarrow> goerr option" where
  "ValidateWebhookURLForType net raw channelType =
     ValidateWebhookURLForTypeWithPolicy net raw channelType (allowPrivateWebhooksFromEnv (neGo net))"

definition ValidateWebhookURL :: "netenv \<Rightarrow> string \<Rightarrow> goerr option" where
  "ValidateWebhookURL net raw = ValidateWebhookURLWithPolicy net raw (allowPrivateWebhooksFromEnv (neGo net))"

subsection \<open>Redirects\<close>

text \<open>\<^verbatim>\<open>CheckRedirect\<close>: the address that is contacted next, or the error that ends the exchange.\<close>

definition checkRedirect :: "netenv \<Rightarrow> string \<Rightarrow> bool \<Rightarrow> string \<Rightarrow> string result" where
  "checkRedirect net channelType allowPrivate target =
     (case NormalizeWebhookURLForTypeWithPolicy net target channelType allowPrivate of
        Inl e \<Rightarrow> Inl e
      | Inr normalizedURL \<Rightarrow>
         (case urlParse (neGo net) normalizedURL of
            None \<Rightarrow> Inl (ErrText ''notification webhook redirect URL is invalid'')
          | Some _ \<Rightarrow> Inr normalizedURL))"

text \<open>
  One exchange of the client of \<^verbatim>\<open>webhookHTTPClient\<close>: a server answers an address with a status or
  sends the client on.  The first argument counts the requests that fit before the deadline of the
  client; the result lists the addresses that were contacted and how it ended, \<open>None\<close> being the
  deadline.
\<close>

datatype hop = Answer int | Redirect string

fun follow :: "nat \<Rightarrow> (string \<Rightarrow> hop) \<Rightarrow> (string \<Rightarrow> string result) \<Rightarrow> string \<Rightarrow> string list \<times> int result option" where
  "follow 0 exchange check target = ([], None)"
| "follow (Suc n) exchange check target =
     (case exchange target of
        Answer status \<Rightarrow> ([target], Some (Inr status))
      | Redirect next \<Rightarrow>
         (case check next of
            Inl e \<Rightarrow> ([target], Some (Inl e))
          | Inr normalized \<Rightarrow>
             (let (contacted, ending) = follow n exchange check normalized in (target # contacted, ending))))"

definition webhookExchange ::
  "netenv \<Rightarrow> string \<Rightarrow> bool \<Rightarrow> (string \<Rightarrow> hop) \<Rightarrow> nat \<Rightarrow> string \<Rightarrow> string list \<times> int result option" where
  "webhookExchange net channelType allowPrivate exchange n target =
     follow n exchange (checkRedirect net channelType allowPrivate) target"

lemma follow_contacted:
  "t \<in> set (fst (follow n exchange check target)) \<Longrightarrow> t = target \<or> (\<exists>raw. check raw = Inr t)"
proof (induction n arbitrary: target)
  case (Suc n)
  show ?case
  proof (cases "exchange target")
    case (Redirect next')
    with Suc show ?thesis
      by (cases "check next'") (force simp: case_prod_beta Let_def)+
  qed (use Suc in simp)
qed simp

lemma checkRedirect_normalized:
  "checkRedirect net channelType allowPrivate raw = Inr t \<Longrightarrow>
   NormalizeWebhookURLForTypeWithPolicy net raw channelType allowPrivate = Inr t"
  by (simp add: checkRedirect_def split: sum.split_asm option.split_asm)

text \<open>
  C26: a server cannot lead the client away: every address that a webhook exchange contacts passed the
  policy of the channel type, the redirected ones as well as the first.
\<close>

theorem redirects_within_policy:
  assumes "NormalizeWebhookURLForTypeWithPolicy net raw channelType allowPrivate = Inr target"
    and "t \<in> set (fst (webhookExchange net channelType allowPrivate exchange n target))"
  shows "\<exists>r. NormalizeWebhookURLForTypeWithPolicy net r channelType allowPrivate = Inr t"
  using assms follow_contacted [of t n exchange "checkRedirect net channelType allowPrivate" target]
  unfolding webhookExchange_def by (blast intro: checkRedirect_normalized)

text \<open>
  C38: an exchange ends at the first answer or refused redirect, or at the deadline; there is no other
  limit, so a server that redirects to its own address is contacted for as long as the deadline lets.
\<close>

theorem redirect_loop_until_deadline:
  assumes "checkRedirect net channelType allowPrivate target = Inr target" and "exchange target = Redirect target"
  shows "webhookExchange net channelType allowPrivate exchange n target = (replicate n target, None)"
proof (induction n)
  case (Suc n)
  then show ?case using assms by (simp add: webhookExchange_def)
qed (simp add: webhookExchange_def)

lemma sampleNet_slack:
  "NormalizeWebhookURLForTypeWithPolicy sampleNet ''https://hooks.slack.com/x'' ''slack'' False =
    Inr ''https://hooks.slack.com/x''"
  by (simp add: NormalizeWebhookURLForTypeWithPolicy_def sampleNet_def Let_def unsafeWebhookHost_def hostName_def
      TrimSuffix_def HasSuffix_def webhookHostAllowedForType_def normalizedType_def go_eval)

lemma sampleNet_redirect:
  "checkRedirect sampleNet ''slack'' False ''https://hooks.slack.com/x'' = Inr ''https://hooks.slack.com/x''"
  unfolding checkRedirect_def sampleNet_slack by (simp add: sampleNet_def)

theorem redirect_loop_until_deadline_witness:
  "webhookExchange sampleNet ''slack'' False Redirect 50 ''https://hooks.slack.com/x'' =
    (replicate 50 ''https://hooks.slack.com/x'', None)"
  using redirect_loop_until_deadline [OF sampleNet_redirect] by simp

theorem redirects_within_policy_witness:
  "\<exists>t r. t \<in> set (fst (webhookExchange sampleNet ''slack'' False Redirect 2 ''https://hooks.slack.com/x'')) \<and>
    NormalizeWebhookURLForTypeWithPolicy sampleNet r ''slack'' False = Inr t"
proof -
  have "''https://hooks.slack.com/x'' \<in> set (fst (webhookExchange sampleNet ''slack'' False Redirect 2 ''https://hooks.slack.com/x''))"
    using sampleNet_redirect by (simp add: webhookExchange_def numeral_2_eq_2)
  from this redirects_within_policy [OF sampleNet_slack this] show ?thesis by blast
qed

end
