(* ===== verification/Channel_Requests.thy ===== *)
theory Channel_Requests
  imports Webhook_Client Signal_Guard Notification_Labels Memory_Store
begin

text \<open>
  Requests that configure notification channels or announce an event, from
  \<^verbatim>\<open>internal/httpapi/server.go\<close>: what a decoded body means, which channels are valid, and what is
  shown of a channel.
\<close>

record notificationChannelRequest =
  crName :: string
  crType :: string
  crEnabled :: bool
  crUseGlobalSMTP :: "bool option"
  crWebhookURL :: string
  crEmailRecipients :: "string list option"
  crSMTPHost :: string
  crSMTPPort :: int
  crSMTPTLS :: "bool option"
  crSMTPFrom :: string
  crSMTPUsername :: string
  crSMTPPassword :: string
  crSeverityFilter :: "string list option"
  crEventTypeFilter :: "string list option"

record notificationEventRequest =
  erEventType :: string
  erSeverity :: string
  erStatus :: string
  erAction :: string
  erServiceID :: string
  erResourceType :: string
  erResourceID :: string
  erActorUsername :: string
  erSummary :: string
  erDetails :: string
  erTimestamp :: string

subsection \<open>Channels\<close>

definition cleanStringSlice :: "string list option \<Rightarrow> string list option" where
  "cleanStringSlice vs = map_option (\<lambda>xs. filter (\<lambda>v. v \<noteq> []) (map TrimSpace xs)) vs"

definition hasLegacySMTPRequest :: "notificationChannelRequest \<Rightarrow> bool" where
  "hasLegacySMTPRequest body \<longleftrightarrow>
     TrimSpace (crSMTPHost body) \<noteq> [] \<or> crSMTPPort body \<noteq> 0 \<or> crSMTPTLS body \<noteq> None \<or> TrimSpace (crSMTPFrom body) \<noteq> [] \<or>
     TrimSpace (crSMTPUsername body) \<noteq> [] \<or> TrimSpace (crSMTPPassword body) \<noteq> []"

definition notificationChannelFromRequest :: "notificationChannelRequest \<Rightarrow> NotificationChannel" where
  "notificationChannelFromRequest body =
     (let channelType = ToLower (TrimSpace (crType body));
          smtpTLS = (case crSMTPTLS body of Some v \<Rightarrow> v | None \<Rightarrow> channelType = ''email'')
      in \<lparr>chID = [], chName = TrimSpace (crName body), chType = channelType, chEnabled = crEnabled body,
          chUseGlobalSMTP = (case crUseGlobalSMTP body of Some v \<Rightarrow> v
            | None \<Rightarrow> channelType = ''email'' \<and> \<not> hasLegacySMTPRequest body),
          chUseGlobalSMTPSet = (crUseGlobalSMTP body \<noteq> None),
          chWebhookURL = TrimSpace (crWebhookURL body), chMaskedWebhookURL = [],
          chEmailRecipients = cleanStringSlice (crEmailRecipients body),
          chSMTPHost = TrimSpace (crSMTPHost body), chSMTPPort = crSMTPPort body, chSMTPTLS = smtpTLS,
          chSMTPFrom = TrimSpace (crSMTPFrom body), chSMTPUsername = TrimSpace (crSMTPUsername body),
          chSMTPPassword = TrimSpace (crSMTPPassword body), chSMTPPasswordConfigured = False, chMaskedEmailTarget = [],
          chSeverityFilter = crSeverityFilter body, chEventTypeFilter = crEventTypeFilter body,
          chCreatedAt = 0, chUpdatedAt = 0\<rparr>)"

text \<open>\<^verbatim>\<open>append([]string(nil), xs...)\<close>: a copy, which is nil when the slice is empty.\<close>

definition copySlice :: "string list \<Rightarrow> string list option" where
  "copySlice xs = (if xs = [] then None else Some xs)"

definition effectiveNotificationChannel :: "NotificationChannel \<Rightarrow> NotificationChannel \<Rightarrow> NotificationChannel" where
  "effectiveNotificationChannel existing incoming =
     (let e1 = (if chName incoming \<noteq> [] then existing\<lparr>chName := chName incoming\<rparr> else existing);
          e2 = (if chType incoming \<noteq> [] then e1\<lparr>chType := chType incoming\<rparr> else e1);
          e3 = e2\<lparr>chEnabled := chEnabled incoming\<rparr>;
          e4 = (if chUseGlobalSMTPSet incoming then
                  (let e = e3\<lparr>chUseGlobalSMTP := chUseGlobalSMTP incoming, chUseGlobalSMTPSet := True\<rparr>
                   in if chUseGlobalSMTP incoming
                      then e\<lparr>chSMTPHost := [], chSMTPPort := 0, chSMTPTLS := False, chSMTPFrom := [], chSMTPUsername := [],
                             chSMTPPassword := [], chSMTPPasswordConfigured := False\<rparr>
                      else e)
                else e3);
          e5 = (if chWebhookURL incoming \<noteq> [] then e4\<lparr>chWebhookURL := chWebhookURL incoming\<rparr> else e4);
          e6 = (case chEmailRecipients incoming of None \<Rightarrow> e5 | Some rs \<Rightarrow> e5\<lparr>chEmailRecipients := copySlice rs\<rparr>);
          e7 = (if chSMTPHost incoming \<noteq> [] then e6\<lparr>chSMTPHost := chSMTPHost incoming\<rparr> else e6);
          e8 = (if chSMTPPort incoming \<noteq> 0 then e7\<lparr>chSMTPPort := chSMTPPort incoming\<rparr> else e7);
          e9 = (if chSMTPTLS incoming \<noteq> chSMTPTLS existing then e8\<lparr>chSMTPTLS := chSMTPTLS incoming\<rparr> else e8);
          e10 = (if chSMTPFrom incoming \<noteq> [] then e9\<lparr>chSMTPFrom := chSMTPFrom incoming\<rparr> else e9);
          e11 = (if chSMTPUsername incoming \<noteq> [] then e10\<lparr>chSMTPUsername := chSMTPUsername incoming\<rparr> else e10);
          e12 = (if chSMTPPassword incoming \<noteq> [] then e11\<lparr>chSMTPPassword := chSMTPPassword incoming\<rparr> else e11);
          e13 = (case chSeverityFilter incoming of None \<Rightarrow> e12 | Some fs \<Rightarrow> e12\<lparr>chSeverityFilter := copySlice fs\<rparr>)
      in (case chEventTypeFilter incoming of None \<Rightarrow> e13 | Some fs \<Rightarrow> e13\<lparr>chEventTypeFilter := copySlice fs\<rparr>))"

definition safeEmailHeaderValue :: "string \<Rightarrow> bool" where
  "safeEmailHeaderValue value \<longleftrightarrow> \<not> ContainsAny value [CHR 0x0D, CHR 0x0A]"

text \<open>The loop of \<^verbatim>\<open>safeEmailRecipients\<close>; \<open>seen\<close> holds the lower-case addresses so far.\<close>

fun recipientsFrom :: "goenv \<Rightarrow> string list \<Rightarrow> string list \<Rightarrow> bool" where
  "recipientsFrom env seen [] \<longleftrightarrow> True"
| "recipientsFrom env seen (raw # rs) \<longleftrightarrow>
     (let recipient = TrimSpace raw in
      if length recipient > 320 \<or> \<not> safeEmailHeaderValue recipient then False
      else if parseAddress env recipient \<noteq> Some recipient then False
      else if ToLower recipient \<in> set seen then False
      else recipientsFrom env (ToLower recipient # seen) rs)"

definition safeEmailRecipients :: "goenv \<Rightarrow> string list \<Rightarrow> bool" where
  "safeEmailRecipients env recipients \<longleftrightarrow>
     (if recipients = [] \<or> length recipients > 20 then False else recipientsFrom env [] recipients)"

definition validNotificationChannelConfig :: "goenv \<Rightarrow> NotificationChannel \<Rightarrow> bool" where
  "validNotificationChannelConfig env channel \<longleftrightarrow>
     (if chUseGlobalSMTP channel \<and> chType channel \<noteq> ''email'' then False
      else if chType channel = ''email'' then
        (if recipientsOf channel = [] \<or> \<not> safeEmailRecipients env (recipientsOf channel) then False
         else if chUseGlobalSMTP channel then True
         else chSMTPHost channel \<noteq> [] \<and> chSMTPFrom channel \<noteq> [] \<and> safeEmailHeaderValue (chSMTPFrom channel) \<and>
           safeEmailHeaderValue (chSMTPUsername channel))
      else chWebhookURL channel \<noteq> [])"

definition notificationChannelTarget :: "NotificationChannel \<Rightarrow> string" where
  "notificationChannelTarget channel =
     (if chType channel = ''email'' then
        (if chMaskedEmailTarget channel \<noteq> [] then chMaskedEmailTarget channel else ''<EMAIL>'')
      else if chMaskedWebhookURL channel \<noteq> [] then chMaskedWebhookURL channel
      else ''<WEBHOOK_URL>'')"

record publicNotificationChannelResponse =
  pcID :: string
  pcName :: string
  pcType :: string
  pcEnabled :: bool
  pcUseGlobalSMTP :: bool
  pcMaskedWebhookURL :: string
  pcSMTPPasswordConfigured :: bool
  pcMaskedEmailTarget :: string
  pcSeverityFilter :: "string list option"
  pcEventTypeFilter :: "string list option"
  pcCreatedAt :: string
  pcUpdatedAt :: string

definition copyFilter :: "string list option \<Rightarrow> string list option" where
  "copyFilter f = (case f of None \<Rightarrow> None | Some xs \<Rightarrow> copySlice xs)"

definition publicNotificationChannel :: "(instant \<Rightarrow> string) \<Rightarrow> NotificationChannel \<Rightarrow> publicNotificationChannelResponse" where
  "publicNotificationChannel fmt c =
     \<lparr>pcID = chID c, pcName = chName c, pcType = chType c, pcEnabled = chEnabled c, pcUseGlobalSMTP = chUseGlobalSMTP c,
      pcMaskedWebhookURL = chMaskedWebhookURL c, pcSMTPPasswordConfigured = chSMTPPasswordConfigured c,
      pcMaskedEmailTarget = chMaskedEmailTarget c, pcSeverityFilter = copyFilter (chSeverityFilter c),
      pcEventTypeFilter = copyFilter (chEventTypeFilter c),
      pcCreatedAt = (if IsZero (chCreatedAt c) then [] else fmt (chCreatedAt c)),
      pcUpdatedAt = (if IsZero (chUpdatedAt c) then [] else fmt (chUpdatedAt c))\<rparr>"

definition publicNotificationChannels :: "(instant \<Rightarrow> string) \<Rightarrow> NotificationChannel list \<Rightarrow> publicNotificationChannelResponse list" where
  "publicNotificationChannels fmt cs = map (publicNotificationChannel fmt) cs"

subsection \<open>Events\<close>

text \<open>\<open>parse\<close> is \<^verbatim>\<open>time.Parse(time.RFC3339, ...)\<close> in UTC.\<close>

definition eventService :: "notificationEventRequest \<Rightarrow> string \<Rightarrow> string" where
  "eventService body fallbackService =
     (let s1 = safeNotificationField (erServiceID body) 160;
          s2 = (if s1 = [] \<and> \<not> EqualFold (TrimSpace fallbackService) ''observability''
                then safeNotificationField fallbackService 160 else s1)
      in if s2 = [] \<or> EqualFold s2 ''observability'' then ''control-panel'' else s2)"

definition notificationIncidentFromRequest ::
  "(string \<Rightarrow> instant option) \<Rightarrow> notificationEventRequest \<Rightarrow> string \<Rightarrow> Incident result" where
  "notificationIncidentFromRequest parse body fallbackService =
     (let action = TrimSpace (erAction body) in
      if \<not> validNotificationAction action then Inl (ErrText ''action is required'')
      else
        (let resourceType = safeNotificationResourceType (erResourceType body);
             resourceID = safeNotificationField (erResourceID body) 160;
             actor = safeNotificationField (erActorUsername body) 80;
             serviceID = eventService body fallbackService;
             status = safeNotificationStatus (erStatus body);
             severity = safeNotificationSeverity (erSeverity body);
             callerSummary = safeNotificationField (erSummary body) 240;
             details = safeNotificationField (erDetails body) 3000;
             legacySummary = ja ''~e7aea1e79086e382a4e38399e383b3e38388~: '' @ action @ '' / '' @ status;
             source1 = (if callerSummary = [] then legacySummary else callerSummary);
             legacyResourceType = safeNotificationField (erResourceType body) 80;
             source2 = (if legacyResourceType \<noteq> []
                        then source1 @ '' / '' @ legacyResourceType @ (if resourceID \<noteq> [] then '' '' @ resourceID else [])
                        else source1);
             sourceSummary = (if actor \<noteq> [] then source2 @ '' / actor='' @ actor else source2);
             actionLabel = NotificationActionLabel action;
             target = NotificationResourceLabel resourceType @ (if resourceID \<noteq> [] then '' ('' @ resourceID @ '')'' else []);
             parts = [actionLabel] @
               (if resourceType \<noteq> [] then [ja ''~e5afbee8b1a1~: '' @ target] else []) @
               (if actor \<noteq> [] then [ja ''~e5ae9fe8a18ce88085~: '' @ actor] else []) @
               (if callerSummary \<noteq> [] \<and> callerSummary \<noteq> legacySummary \<and> callerSummary \<noteq> actionLabel
                then [ja ''~e8a9b3e7b4b0~: '' @ callerSummary] else []);
             summary = (if TrimSpace (erEventType body) = ''admin.audit'' then strJoin parts [CHR 0x0A] else sourceSummary);
             timestamp = TrimSpace (erTimestamp body);
             incident = zeroIncident\<lparr>incRule := action, incSeverity := severity, incStatus := status, incSummaryJA := summary,
               incSourceSummary := sourceSummary, incServiceID := serviceID, incNotificationResourceType := resourceType,
               incNotificationResourceID := resourceID, incNotificationActor := actor, incNotificationDetails := details\<rparr>
         in if timestamp = [] then Inr incident
            else case parse timestamp of
              None \<Rightarrow> Inl (ErrText ''timestamp must be RFC3339'')
            | Some occurredAt \<Rightarrow> Inr (incident\<lparr>incUpdatedAt := occurredAt\<rparr>)))"

subsection \<open>What an update checks is what it stores\<close>

lemma let_push: "f (Let s B) = Let s (\<lambda>x. f (B x))"
  by (simp add: Let_def)

lemma case_option_same: "(case x of None \<Rightarrow> a | Some _ \<Rightarrow> a) = a"
  by (cases x) auto

text \<open>An update that chooses the global relay clears the SMTP fields first.\<close>

definition clearsSMTP :: "NotificationChannel \<Rightarrow> bool" where
  "clearsSMTP ch \<longleftrightarrow> chUseGlobalSMTPSet ch \<and> chUseGlobalSMTP ch"

lemma effective_chType: "chType (effectiveNotificationChannel ex ch) = (if chType ch \<noteq> [] then chType ch else chType ex)"
  unfolding effectiveNotificationChannel_def let_push [where f = chType]
  by (simp add: Let_def if_distrib [where f = chType] option.case_distrib [where h = chType] clearLegacySMTPConfiguration_def
      clearsSMTP_def copySlice_def case_option_same cong: if_cong option.case_cong)

lemma effective_chUseGlobalSMTP: "chUseGlobalSMTP (effectiveNotificationChannel ex ch) = (if chUseGlobalSMTPSet ch then chUseGlobalSMTP ch else chUseGlobalSMTP ex)"
  unfolding effectiveNotificationChannel_def let_push [where f = chUseGlobalSMTP]
  by (simp add: Let_def if_distrib [where f = chUseGlobalSMTP] option.case_distrib [where h = chUseGlobalSMTP] clearLegacySMTPConfiguration_def
      clearsSMTP_def copySlice_def case_option_same cong: if_cong option.case_cong)

lemma effective_chWebhookURL: "chWebhookURL (effectiveNotificationChannel ex ch) = (if chWebhookURL ch \<noteq> [] then chWebhookURL ch else chWebhookURL ex)"
  unfolding effectiveNotificationChannel_def let_push [where f = chWebhookURL]
  by (simp add: Let_def if_distrib [where f = chWebhookURL] option.case_distrib [where h = chWebhookURL] clearLegacySMTPConfiguration_def
      clearsSMTP_def copySlice_def case_option_same cong: if_cong option.case_cong)

lemma effective_chEmailRecipients: "chEmailRecipients (effectiveNotificationChannel ex ch) = (case chEmailRecipients ch of None \<Rightarrow> chEmailRecipients ex | Some rs \<Rightarrow> copySlice rs)"
  unfolding effectiveNotificationChannel_def let_push [where f = chEmailRecipients]
  by (simp add: Let_def if_distrib [where f = chEmailRecipients] option.case_distrib [where h = chEmailRecipients] clearLegacySMTPConfiguration_def
      clearsSMTP_def copySlice_def case_option_same cong: if_cong option.case_cong)

lemma effective_chSMTPHost: "chSMTPHost (effectiveNotificationChannel ex ch) = (if chSMTPHost ch \<noteq> [] then chSMTPHost ch else if clearsSMTP ch then [] else chSMTPHost ex)"
  unfolding effectiveNotificationChannel_def let_push [where f = chSMTPHost]
  by (simp add: Let_def if_distrib [where f = chSMTPHost] option.case_distrib [where h = chSMTPHost] clearLegacySMTPConfiguration_def
      clearsSMTP_def copySlice_def case_option_same cong: if_cong option.case_cong)

lemma effective_chSMTPPort: "chSMTPPort (effectiveNotificationChannel ex ch) = (if chSMTPPort ch \<noteq> 0 then chSMTPPort ch else if clearsSMTP ch then 0 else chSMTPPort ex)"
  unfolding effectiveNotificationChannel_def let_push [where f = chSMTPPort]
  by (simp add: Let_def if_distrib [where f = chSMTPPort] option.case_distrib [where h = chSMTPPort] clearLegacySMTPConfiguration_def
      clearsSMTP_def copySlice_def case_option_same cong: if_cong option.case_cong)

lemma effective_chSMTPTLS: "chSMTPTLS (effectiveNotificationChannel ex ch) = (if clearsSMTP ch \<and> chSMTPTLS ch = chSMTPTLS ex then False else chSMTPTLS ch)"
  unfolding effectiveNotificationChannel_def let_push [where f = chSMTPTLS]
  by (simp add: Let_def if_distrib [where f = chSMTPTLS] option.case_distrib [where h = chSMTPTLS] clearLegacySMTPConfiguration_def
      clearsSMTP_def copySlice_def case_option_same cong: if_cong option.case_cong)

lemma effective_chSMTPFrom: "chSMTPFrom (effectiveNotificationChannel ex ch) = (if chSMTPFrom ch \<noteq> [] then chSMTPFrom ch else if clearsSMTP ch then [] else chSMTPFrom ex)"
  unfolding effectiveNotificationChannel_def let_push [where f = chSMTPFrom]
  by (simp add: Let_def if_distrib [where f = chSMTPFrom] option.case_distrib [where h = chSMTPFrom] clearLegacySMTPConfiguration_def
      clearsSMTP_def copySlice_def case_option_same cong: if_cong option.case_cong)

lemma effective_chSMTPUsername: "chSMTPUsername (effectiveNotificationChannel ex ch) = (if chSMTPUsername ch \<noteq> [] then chSMTPUsername ch else if clearsSMTP ch then [] else chSMTPUsername ex)"
  unfolding effectiveNotificationChannel_def let_push [where f = chSMTPUsername]
  by (simp add: Let_def if_distrib [where f = chSMTPUsername] option.case_distrib [where h = chSMTPUsername] clearLegacySMTPConfiguration_def
      clearsSMTP_def copySlice_def case_option_same cong: if_cong option.case_cong)

lemma effective_chSMTPPassword: "chSMTPPassword (effectiveNotificationChannel ex ch) = (if chSMTPPassword ch \<noteq> [] then chSMTPPassword ch else if clearsSMTP ch then [] else chSMTPPassword ex)"
  unfolding effectiveNotificationChannel_def let_push [where f = chSMTPPassword]
  by (simp add: Let_def if_distrib [where f = chSMTPPassword] option.case_distrib [where h = chSMTPPassword] clearLegacySMTPConfiguration_def
      clearsSMTP_def copySlice_def case_option_same cong: if_cong option.case_cong)

lemma effective_chSMTPPasswordConfigured: "chSMTPPasswordConfigured (effectiveNotificationChannel ex ch) = (if clearsSMTP ch then False else chSMTPPasswordConfigured ex)"
  unfolding effectiveNotificationChannel_def let_push [where f = chSMTPPasswordConfigured]
  by (simp add: Let_def if_distrib [where f = chSMTPPasswordConfigured] option.case_distrib [where h = chSMTPPasswordConfigured] clearLegacySMTPConfiguration_def
      clearsSMTP_def copySlice_def case_option_same cong: if_cong option.case_cong)

lemmas effective_fields = effective_chType effective_chUseGlobalSMTP effective_chWebhookURL effective_chEmailRecipients effective_chSMTPHost effective_chSMTPPort effective_chSMTPTLS effective_chSMTPFrom effective_chSMTPUsername effective_chSMTPPassword effective_chSMTPPasswordConfigured

lemma merge_chType: "chType (mergeChannel ch ex) = (if chType ch \<noteq> [] then normalizeChannelType (chType ch) else chType ex)"
  unfolding mergeChannel_def let_push [where f = chType]
  by (simp add: Let_def if_distrib [where f = chType] option.case_distrib [where h = chType] clearLegacySMTPConfiguration_def
      clearsSMTP_def copySlice_def case_option_same cong: if_cong option.case_cong)

lemma merge_chUseGlobalSMTP: "chUseGlobalSMTP (mergeChannel ch ex) = (if chUseGlobalSMTPSet ch then chUseGlobalSMTP ch else chUseGlobalSMTP ex)"
  unfolding mergeChannel_def let_push [where f = chUseGlobalSMTP]
  by (simp add: Let_def if_distrib [where f = chUseGlobalSMTP] option.case_distrib [where h = chUseGlobalSMTP] clearLegacySMTPConfiguration_def
      clearsSMTP_def copySlice_def case_option_same cong: if_cong option.case_cong)

lemma merge_chWebhookURL: "chWebhookURL (mergeChannel ch ex) = (if chWebhookURL ch \<noteq> [] then chWebhookURL ch else chWebhookURL ex)"
  unfolding mergeChannel_def let_push [where f = chWebhookURL]
  by (simp add: Let_def if_distrib [where f = chWebhookURL] option.case_distrib [where h = chWebhookURL] clearLegacySMTPConfiguration_def
      clearsSMTP_def copySlice_def case_option_same cong: if_cong option.case_cong)

lemma merge_chEmailRecipients: "chEmailRecipients (mergeChannel ch ex) = (case chEmailRecipients ch of None \<Rightarrow> chEmailRecipients ex | Some rs \<Rightarrow> copySlice rs)"
  unfolding mergeChannel_def let_push [where f = chEmailRecipients]
  by (simp add: Let_def if_distrib [where f = chEmailRecipients] option.case_distrib [where h = chEmailRecipients] clearLegacySMTPConfiguration_def
      clearsSMTP_def copySlice_def case_option_same cong: if_cong option.case_cong)

lemma merge_chSMTPHost: "chSMTPHost (mergeChannel ch ex) = (if chSMTPHost ch \<noteq> [] then chSMTPHost ch else if clearsSMTP ch then [] else chSMTPHost ex)"
  unfolding mergeChannel_def let_push [where f = chSMTPHost]
  by (simp add: Let_def if_distrib [where f = chSMTPHost] option.case_distrib [where h = chSMTPHost] clearLegacySMTPConfiguration_def
      clearsSMTP_def copySlice_def case_option_same cong: if_cong option.case_cong)

lemma merge_chSMTPPort: "chSMTPPort (mergeChannel ch ex) = (if chSMTPPort ch \<noteq> 0 then chSMTPPort ch else if clearsSMTP ch then 0 else chSMTPPort ex)"
  unfolding mergeChannel_def let_push [where f = chSMTPPort]
  by (simp add: Let_def if_distrib [where f = chSMTPPort] option.case_distrib [where h = chSMTPPort] clearLegacySMTPConfiguration_def
      clearsSMTP_def copySlice_def case_option_same cong: if_cong option.case_cong)

lemma merge_chSMTPTLS: "chSMTPTLS (mergeChannel ch ex) = chSMTPTLS ch"
  unfolding mergeChannel_def let_push [where f = chSMTPTLS]
  by (simp add: Let_def if_distrib [where f = chSMTPTLS] option.case_distrib [where h = chSMTPTLS] clearLegacySMTPConfiguration_def
      clearsSMTP_def copySlice_def case_option_same cong: if_cong option.case_cong)

lemma merge_chSMTPFrom: "chSMTPFrom (mergeChannel ch ex) = (if chSMTPFrom ch \<noteq> [] then chSMTPFrom ch else if clearsSMTP ch then [] else chSMTPFrom ex)"
  unfolding mergeChannel_def let_push [where f = chSMTPFrom]
  by (simp add: Let_def if_distrib [where f = chSMTPFrom] option.case_distrib [where h = chSMTPFrom] clearLegacySMTPConfiguration_def
      clearsSMTP_def copySlice_def case_option_same cong: if_cong option.case_cong)

lemma merge_chSMTPUsername: "chSMTPUsername (mergeChannel ch ex) = (if chSMTPUsername ch \<noteq> [] then chSMTPUsername ch else if clearsSMTP ch then [] else chSMTPUsername ex)"
  unfolding mergeChannel_def let_push [where f = chSMTPUsername]
  by (simp add: Let_def if_distrib [where f = chSMTPUsername] option.case_distrib [where h = chSMTPUsername] clearLegacySMTPConfiguration_def
      clearsSMTP_def copySlice_def case_option_same cong: if_cong option.case_cong)

lemma merge_chSMTPPassword: "chSMTPPassword (mergeChannel ch ex) = (if chSMTPPassword ch \<noteq> [] then chSMTPPassword ch else if clearsSMTP ch then [] else chSMTPPassword ex)"
  unfolding mergeChannel_def let_push [where f = chSMTPPassword]
  by (simp add: Let_def if_distrib [where f = chSMTPPassword] option.case_distrib [where h = chSMTPPassword] clearLegacySMTPConfiguration_def
      clearsSMTP_def copySlice_def case_option_same cong: if_cong option.case_cong)

lemma merge_chSMTPPasswordConfigured: "chSMTPPasswordConfigured (mergeChannel ch ex) = (if clearsSMTP ch then False else chSMTPPasswordConfigured ex)"
  unfolding mergeChannel_def let_push [where f = chSMTPPasswordConfigured]
  by (simp add: Let_def if_distrib [where f = chSMTPPasswordConfigured] option.case_distrib [where h = chSMTPPasswordConfigured] clearLegacySMTPConfiguration_def
      clearsSMTP_def copySlice_def case_option_same cong: if_cong option.case_cong)

lemmas merge_fields = merge_chType merge_chUseGlobalSMTP merge_chWebhookURL merge_chEmailRecipients merge_chSMTPHost merge_chSMTPPort merge_chSMTPTLS merge_chSMTPFrom merge_chSMTPUsername merge_chSMTPPassword merge_chSMTPPasswordConfigured

end
