(* ===== verification/Server.thy ===== *)
theory Server
  imports Auth Signal_Guard Detection Diagnostics Incident_Spec Metrics Webhook Control_Client Dedupe Channel_Requests
begin

text \<open>
  The request handlers of \<^verbatim>\<open>internal/httpapi/server.go\<close> that change state, composed from the store,
  the detection rules, the remediation policy, the deduper and the notifier.  A handler is a
  function from the server state to a response and the next state.  What it takes from outside is
  numbered: the n-th call has its own clock reading, context, random bytes, file content and
  notifier or executor answer.  Decoding of the JSON body is outside; a request carries its result.
\<close>

subsection \<open>State and surroundings\<close>

record world =
  wCtl :: ctlenv
  wTick :: "nat \<Rightarrow> tick"
  wFile :: "nat \<Rightarrow> fileRead"
  wNotifier :: "(nat \<Rightarrow> MemoryStore \<Rightarrow> string \<Rightarrow> Incident \<Rightarrow> string list \<Rightarrow> DeliveryResult list \<times> string option) option"
  wSelective :: bool
  wExecutor :: "(nat \<Rightarrow> Proposal \<Rightarrow> string \<Rightarrow> goerr option) option"
  wFormatTime :: "instant \<Rightarrow> string"
  wParseTime :: "string \<Rightarrow> instant option"
  wNet :: netenv
  wOutside :: "nat \<Rightarrow> outside"
  wSelfMetrics :: "nat \<Rightarrow> (string \<times> any) list"

abbreviation wEnv :: "world \<Rightarrow> goenv" where
  "wEnv w \<equiv> ctGo (wCtl w)"

text \<open>The network as the notifications see it, in the environment of the process.\<close>

abbreviation wNetenv :: "world \<Rightarrow> netenv" where
  "wNetenv w \<equiv> (wNet w)\<lparr>neGo := wEnv w\<rparr>"

text \<open>
  The fields of \<^verbatim>\<open>Server\<close> that change or are read by the handlers; the notifier and the executor
  are functions of the \<open>world\<close>, the limiter has its own theory \<open>Rate_Limit\<close>, and \<open>svStep\<close> counts
  the calls so far.
\<close>

record Server =
  svServiceType :: string
  svIngestAuth :: Verifier
  svAdminAuth :: Verifier
  svStore :: MemoryStore
  svDedupe :: notificationDeduper
  svLatch :: UpdaterIdentityLatch
  svStep :: nat

text \<open>
  A request: its \<^verbatim>\<open>Authorization\<close> header, the path parameter, the parameters of the query and the node
  configuration file as it is when the request is authorised.
\<close>

record request =
  rqAuthorization :: string
  rqID :: string
  rqQuery :: "string \<Rightarrow> string"
  rqNodeFile :: fileRead

record DiagnosticReportView =
  dvIncidentID :: string
  dvRule :: string
  dvSeverity :: string
  dvStatus :: string
  dvServiceID :: string
  dvStreamID :: string
  dvReport :: Report
  dvUpdatedAt :: instant

record remediationDispatchContextResponse =
  dcActionID :: string
  dcAction :: string
  dcActionStatus :: string
  dcIncidentID :: string
  dcIncidentStatus :: string
  dcStreamID :: string
  dcExecutable :: bool

record Status =
  stServiceType :: string
  stServiceID :: string
  stStatus :: string
  stCheckedAt :: instant

text \<open>\<open>PCode\<close> is an object with one text: the \<^verbatim>\<open>code\<close> of a refusal or the \<^verbatim>\<open>status\<close> of an effect.\<close>

datatype payload =
    PCode string
  | PIngest Signal "Incident list"
  | PIncident Incident
  | PRerun Incident string string
  | PAction RemediationAction
  | PStatus Status
  | PVersion string UpdaterIdentity
  | PSignals "Signal list"
  | PMetrics "MetricSnapshot list"
  | PDiagnostics "DiagnosticReportView list"
  | PIncidents "Incident list"
  | PDeliveries "NotificationDelivery list"
  | PActions "RemediationAction list"
  | PDispatch remediationDispatchContextResponse
  | PChannel publicNotificationChannelResponse
  | PChannels "publicNotificationChannelResponse list"
  | PResults "DeliveryResult list"

type_synonym response = "int \<times> payload"

text \<open>A store operation that may change the store, and one that only reads.\<close>

definition call :: "world \<Rightarrow> (tick \<Rightarrow> MemoryStore \<Rightarrow> 'a result \<times> MemoryStore) \<Rightarrow> Server \<Rightarrow> 'a result \<times> Server" where
  "call w f sv = (let (r, s') = f (wTick w (svStep sv)) (svStore sv)
                  in (r, sv\<lparr>svStore := s', svStep := Suc (svStep sv)\<rparr>))"

definition query :: "world \<Rightarrow> (tick \<Rightarrow> MemoryStore \<Rightarrow> 'a result) \<Rightarrow> Server \<Rightarrow> 'a result \<times> Server" where
  "query w f sv = (f (wTick w (svStep sv)) (svStore sv), sv\<lparr>svStep := Suc (svStep sv)\<rparr>)"

subsection \<open>Authorisation\<close>

definition nodeRuntimeVerifier :: "ctlenv \<Rightarrow> fileRead \<Rightarrow> Verifier" where
  "nodeRuntimeVerifier ct f =
     WithRawTokenScopes (ctGo ct) zeroVerifier (NodeRuntimeTokenFromEnv (ctGo ct) (ctUnquote ct) f) [''*'']"

text \<open>\<open>None\<close> is an authorised request, otherwise the response that was written.\<close>

definition authorizeAdmin :: "world \<Rightarrow> request \<Rightarrow> string \<Rightarrow> Server \<Rightarrow> response option" where
  "authorizeAdmin w rq scope sv =
     (let (authenticated, authorized) =
        (let (a, b) = AuthorizeRequest (wEnv w) (svAdminAuth sv) (rqAuthorization rq) scope in
         if \<not> a then AuthorizeRequest (wEnv w) (nodeRuntimeVerifier (wCtl w) (rqNodeFile rq)) (rqAuthorization rq) scope
         else (a, b))
      in if \<not> authenticated then Some (401, PCode ''invalid_service_token'')
         else if \<not> authorized then Some (403, PCode ''missing_admin_scope'')
         else None)"

definition ingestAuthorized :: "world \<Rightarrow> request \<Rightarrow> Server \<Rightarrow> bool" where
  "ingestAuthorized w rq sv \<longleftrightarrow>
     VerifyRequest (wEnv w) (svIngestAuth sv) (rqAuthorization rq) \<or>
     VerifyRequest (wEnv w) (nodeRuntimeVerifier (wCtl w) (rqNodeFile rq)) (rqAuthorization rq)"

definition heartbeat :: "world \<Rightarrow> request \<Rightarrow> Server \<Rightarrow> response" where
  "heartbeat w rq sv =
     (if \<not> ingestAuthorized w rq sv then (401, PCode ''invalid_service_token'') else (202, PCode ''accepted''))"

text \<open>The first part of \<^verbatim>\<open>ingestSignal\<close>: the subject of the token, or the response that refuses it.\<close>

definition ingestSubject :: "world \<Rightarrow> request \<Rightarrow> Server \<Rightarrow> response + Subject" where
  "ingestSubject w rq sv =
     (case VerifyRequestSubject (wEnv w) (svIngestAuth sv) (rqAuthorization rq) of
        Some s \<Rightarrow> Inr s
      | None \<Rightarrow>
         (let (authenticated, authorized) =
            (let (a, b) = AuthorizeRequest (wEnv w) (svAdminAuth sv) (rqAuthorization rq) ''observability.ingest'' in
             if \<not> a then AuthorizeRequest (wEnv w) (nodeRuntimeVerifier (wCtl w) (rqNodeFile rq)) (rqAuthorization rq)
                           ''observability.ingest''
             else (a, b))
          in if \<not> authenticated then Inl (401, PCode ''invalid_service_token'')
             else if \<not> authorized then Inl (403, PCode ''admin_scope_required'')
             else Inr zeroSubject))"

subsection \<open>Notification events\<close>

definition notificationDeliveryMetadata :: "world \<Rightarrow> string \<Rightarrow> Incident \<Rightarrow> (string \<times> any) list" where
  "notificationDeliveryMetadata w eventType i =
     [(''severity'', AStr (incSeverity i)), (''rule'', AStr (incRule i)), (''summary'', AStr (incSummaryJA i))] @
     (if incServiceID i \<noteq> [] then [(''service_id'', AStr (incServiceID i))] else []) @
     (if incStreamID i \<noteq> [] then [(''stream_id'', AStr (incStreamID i))] else []) @
     (if incNotificationResourceType i \<noteq> [] then [(''resource_type'', AStr (incNotificationResourceType i))] else []) @
     (if incNotificationResourceID i \<noteq> [] then [(''resource_id'', AStr (incNotificationResourceID i))] else []) @
     (if eventType = ''admin.audit'' then [(''action'', AStr (incRule i))] else []) @
     (if \<not> IsZero (incUpdatedAt i) then [(''occurred_at'', AStr (wFormatTime w (incUpdatedAt i)))] else [])"

text \<open>A failed save is only logged, so the result of the store call is dropped.\<close>

definition saveSuppressedNotificationDelivery :: "world \<Rightarrow> string \<Rightarrow> Incident \<Rightarrow> int \<Rightarrow> Server \<Rightarrow> Server" where
  "saveSuppressedNotificationDelivery w eventType i suppressionCount sv =
     snd (call w (\<lambda>t. SaveNotificationDelivery (wEnv w) t
       \<lparr>ndID = [], ndEventType = eventType, ndChannel = ''dedupe'', ndTarget = ''<NOTIFICATION_DEDUPLICATED>'',
        ndIncidentID = incID i, ndStatus = ''suppressed'', ndError = [],
        ndMetadata = Some (notificationDeliveryMetadata w eventType i @
          [(''suppression_reason'', AStr ''duplicate_semantic_event''),
           (''suppression_count_at_record'', AInt KInt suppressionCount), (''coalescing_active'', ABool True)]),
        ndCreatedAt = 0\<rparr>) sv)"

definition deliveryRow :: "world \<Rightarrow> string \<Rightarrow> Incident \<Rightarrow> DeliveryResult \<Rightarrow> NotificationDelivery" where
  "deliveryRow w eventType i r =
     (let status0 = (if drStatus r = [] then ''success'' else drStatus r);
          errorText = (if drError r = [] then [] else SanitizeChannelDeliveryError (drChannel r) (Some (drError r)));
          status = (if errorText \<noteq> [] then ''failure'' else status0);
          ev = (if drEventType r = [] then eventType else drEventType r)
      in \<lparr>ndID = [], ndEventType = ev, ndChannel = drChannel r, ndTarget = drTarget r, ndIncidentID = incID i,
          ndStatus = status, ndError = errorText, ndMetadata = Some (notificationDeliveryMetadata w ev i), ndCreatedAt = 0\<rparr>)"

definition saveNotificationDeliveryResults :: "world \<Rightarrow> string \<Rightarrow> Incident \<Rightarrow> DeliveryResult list \<Rightarrow> Server \<Rightarrow> Server" where
  "saveNotificationDeliveryResults w eventType i results sv =
     foldl (\<lambda>sv r. snd (call w (\<lambda>t. SaveNotificationDelivery (wEnv w) t (deliveryRow w eventType i r)) sv)) sv results"

definition deliverNotificationEvent :: "world \<Rightarrow> string \<Rightarrow> Incident \<Rightarrow> Server \<Rightarrow> DeliveryResult list \<times> Server" where
  "deliverNotificationEvent w eventType i sv =
     (case wNotifier w of
        None \<Rightarrow> ([], sv)
      | Some notify \<Rightarrow>
         (let (rsv, d1) = reserve (wEnv w) eventType i (tkNow (wTick w (svStep sv))) (svDedupe sv);
              sv1 = sv\<lparr>svDedupe := d1, svStep := Suc (svStep sv)\<rparr>
          in if \<not> rsAllowed rsv then
               ([\<lparr>drEventType = eventType, drChannel = ''dedupe'', drTarget = ''<NOTIFICATION_DEDUPLICATED>'',
                  drStatus = ''suppressed'', drError = [], drChannelID = []\<rparr>],
                if rsRecordSuppression rsv
                then saveSuppressedNotificationDelivery w eventType i (rsSuppressionCount rsv) sv1 else sv1)
             else
               (let excluded = (if wSelective w \<and> rsSuccessfulChannelIDs rsv \<noteq> [] then rsSuccessfulChannelIDs rsv else []);
                    (results0, err) = notify (svStep sv1) (svStore sv1) eventType i excluded;
                    results = (if err \<noteq> None \<and> results0 = []
                               then [\<lparr>drEventType = eventType, drChannel = ''generic'', drTarget = ''<WEBHOOK_URL>'',
                                      drStatus = ''failure'', drError = SanitizeDeliveryError err, drChannelID = []\<rparr>]
                               else results0);
                    sv2 = sv1\<lparr>svDedupe := complete rsv results (svDedupe sv1), svStep := Suc (svStep sv1)\<rparr>
                in (results, saveNotificationDeliveryResults w eventType i results sv2))))"

definition notifyIncidentEvent :: "world \<Rightarrow> string \<Rightarrow> Incident \<Rightarrow> Server \<Rightarrow> Server" where
  "notifyIncidentEvent w eventType i sv = snd (deliverNotificationEvent w eventType i sv)"

subsection \<open>Evaluating a signal\<close>

text \<open>The conversion of a stored signal in \<^verbatim>\<open>evaluateSignal\<close>.\<close>

definition detectionSignal :: "Signal \<Rightarrow> detSignal" where
  "detectionSignal signal =
     \<lparr>sType = sigType signal, sName = sigName signal,
       sValue = (case sigValue signal of None \<Rightarrow> Fin 0 | Some v \<Rightarrow> v), sStreamID = sigStreamID signal,
       sLive = (attrGet (sigAttributes signal) ''stream_live'' = Some (ABool True) \<or> sigStatus signal = ''live''),
       sStatus = sigStatus signal, sAttributes = sigAttributes signal\<rparr>"

definition evaluateSignal :: "goenv \<Rightarrow> Signal \<Rightarrow> evaluation" where
  "evaluateSignal env signal = EvaluateSignal env (detectionSignal signal)"

definition detectSignal :: "goenv \<Rightarrow> Signal \<Rightarrow> detIncident list" where
  "detectSignal env signal = evIncidents (evaluateSignal env signal)"

definition counterDeltaAttribute :: string where
  "counterDeltaAttribute = ''observability.counter_delta''"

definition cumulativeCounterMetrics :: "string list" where
  "cumulativeCounterMetrics =
     [''encoder.dropped_frames_total'', ''encoder.audio_clipping_total'', ''worker.event_send_failures_total'',
      ''discord.worker_event_publish_failures_total'', ''discord.audio_forward_errors_total'', ''rtmp.reconnect_count'',
      ''encoder.rtmp_reconnect_count'', ''discord.reconnect_count'', ''discord.voice_disconnect_count'']"

definition withCumulativeCounterDelta :: "world \<Rightarrow> Signal \<Rightarrow> Server \<Rightarrow> Signal result \<times> Server" where
  "withCumulativeCounterDelta w signal sv =
     (case sigValue signal of
        None \<Rightarrow> (Inr signal, sv)
      | Some value \<Rightarrow>
          if sigName signal \<notin> set cumulativeCounterMetrics then (Inr signal, sv)
          else case query w (\<lambda>t. LatestMetricValue t (sigName signal) (sigServiceID signal) (sigStreamID signal)) sv of
            (Inl e, sv1) \<Rightarrow> (Inl e, sv1)
          | (Inr previous, sv1) \<Rightarrow>
             (let (delta, reset) = (case previous of
                    None \<Rightarrow> (Fin 0, False)
                  | Some p \<Rightarrow> if fge value p then (fsub value p, False) else (Fin 0, True));
                  a0 = (case sigAttributes signal of None \<Rightarrow> [] | Some kvs \<Rightarrow> kvs);
                  a1 = AList.update counterDeltaAttribute (AFloat64 delta) a0;
                  a2 = (if reset then AList.update ''observability.counter_reset'' (ABool True) a1 else a1)
              in (Inr (signal\<lparr>sigAttributes := Some a2\<rparr>), sv1)))"

definition evidenceAttributes :: "string list" where
  "evidenceAttributes =
     [''failure_phase'', ''error_class'', ''dry_run'', ''upload_dry_run'', ''upload_attempts'', ''file_count'',
      ''remux_duration_ms'', ''discord.audio_forwarded_total'', ''discord.audio_forward_errors_total'',
      ''discord.audio_last_forward_age_sec'', ''discord.audio_last_packet_age_sec'',
      ''discord.worker_event_publish_failures_total'', counterDeltaAttribute, ''observability.counter_reset'']"

definition attributeEvidence :: "goenv \<Rightarrow> attrs \<Rightarrow> string \<Rightarrow> string list" where
  "attributeEvidence env m key =
     (case attrGet m key of
        Some (AStr s) \<Rightarrow> (let v = safeEvidenceValue s in if v \<noteq> [] then [key @ ''='' @ v] else [])
      | Some (ABool b) \<Rightarrow> [key @ (if b then ''=true'' else ''=false'')]
      | Some (AFloat64 x) \<Rightarrow> [key @ ''='' @ formatFloat env x]
      | Some (AInt KInt n) \<Rightarrow> [key @ ''='' @ FormatInt n]
      | _ \<Rightarrow> [])"

definition safeAttributeEvidence :: "goenv \<Rightarrow> attrs \<Rightarrow> string list" where
  "safeAttributeEvidence env m = concat (map (attributeEvidence env m) evidenceAttributes)"

definition diagnosticEvidence :: "goenv \<Rightarrow> Signal \<Rightarrow> string list" where
  "diagnosticEvidence env signal =
     [''signal_id='' @ sigID signal, ''signal_name='' @ sigName signal, ''service_id='' @ sigServiceID signal] @
     (if sigStreamID signal \<noteq> [] then [''stream_id='' @ sigStreamID signal] else []) @
     safeAttributeEvidence env (sigAttributes signal)"

subsection \<open>Storing what was detected\<close>

fun resolveRecoveries :: "world \<Rightarrow> Signal \<Rightarrow> recovery list \<Rightarrow> Server \<Rightarrow> goerr option \<times> Server" where
  "resolveRecoveries w signal [] sv = (None, sv)"
| "resolveRecoveries w signal (r # rs) sv =
     (case call w (\<lambda>t. ResolveActiveIncidents t [rcRule r] (sigServiceID signal) (sigStreamID signal) (sigID signal)
                         (rcReason r)) sv of
        (Inl e, sv1) \<Rightarrow> (Some e, sv1)
      | (Inr resolved, sv1) \<Rightarrow>
          resolveRecoveries w signal rs (foldl (\<lambda>sv i. notifyIncidentEvent w ''incident.resolved'' i sv) sv1 resolved))"

fun createActions :: "world \<Rightarrow> RemediationAction list \<Rightarrow> Server \<Rightarrow> goerr option \<times> Server" where
  "createActions w [] sv = (None, sv)"
| "createActions w (a # as) sv =
     (case call w (\<lambda>t. CreateRemediationAction t a) sv of
        (Inl e, sv1) \<Rightarrow> (Some e, sv1)
      | (Inr _, sv1) \<Rightarrow> createActions w as sv1)"

definition createRemediationActions :: "world \<Rightarrow> Incident \<Rightarrow> Server \<Rightarrow> goerr option \<times> Server" where
  "createRemediationActions w i sv = createActions w (BuildActions i (ModeFromEnv (wEnv w))) sv"

definition detectedIncident :: "goenv \<Rightarrow> Signal \<Rightarrow> detIncident \<Rightarrow> Incident" where
  "detectedIncident env signal d = zeroIncident\<lparr>incRule := diRule d, incSeverity := diSeverity d, incStatus := ''open'',
     incSummaryJA := diSummaryJA d, incServiceID := sigServiceID signal, incStreamID := sigStreamID signal,
     incSignalID := sigID signal, incReport := JapaneseReport (diRule d) (diagnosticEvidence env signal)\<rparr>"

fun storeDetected :: "world \<Rightarrow> Signal \<Rightarrow> detIncident list \<Rightarrow> Server \<Rightarrow> Incident list result \<times> Server" where
  "storeDetected w signal [] sv = (Inr [], sv)"
| "storeDetected w signal (d # ds) sv =
     (case call w (\<lambda>t. UpsertIncident t (detectedIncident (wEnv w) signal d)) sv of
        (Inl e, sv1) \<Rightarrow> (Inl e, sv1)
      | (Inr (stored, created), sv1) \<Rightarrow>
         (let (err, sv2) =
            (if created then createRemediationActions w stored (notifyIncidentEvent w ''incident.opened'' stored sv1)
             else if incSeverityChanged stored then (None, notifyIncidentEvent w ''incident.updated'' stored sv1)
             else (None, sv1))
          in case err of
               Some e \<Rightarrow> (Inl e, sv2)
             | None \<Rightarrow>
                (case storeDetected w signal ds sv2 of
                   (Inl e, sv3) \<Rightarrow> (Inl e, sv3)
                 | (Inr out, sv3) \<Rightarrow> (Inr (stored # out), sv3))))"

definition evaluateAndStoreIncidents :: "world \<Rightarrow> Signal \<Rightarrow> Server \<Rightarrow> Incident list result \<times> Server" where
  "evaluateAndStoreIncidents w signal sv =
     (let evaluation = evaluateSignal (wEnv w) signal in
      case resolveRecoveries w signal (evRecoveries evaluation) sv of
        (Some e, sv1) \<Rightarrow> (Inl e, sv1)
      | (None, sv1) \<Rightarrow> storeDetected w signal (evIncidents evaluation) sv1)"

text \<open>The checks of \<^verbatim>\<open>ingestSignal\<close> on the decoded body (\<open>None\<close> when decoding failed).\<close>

definition ingestRefusal :: "Subject \<Rightarrow> Signal option \<Rightarrow> response + Signal" where
  "ingestRefusal subject body =
     (case body of
        None \<Rightarrow> Inl (400, PCode ''bad_request'')
      | Some signal \<Rightarrow>
          if sigType signal = [] \<or> sigName signal = [] \<or> sigServiceID signal = [] \<or> sigServiceType signal = []
          then Inl (400, PCode ''invalid_signal'')
          else if subServiceID subject \<noteq> [] \<and>
             (subServiceID subject \<noteq> sigServiceID signal \<or> subServiceType subject \<noteq> sigServiceType signal)
          then Inl (403, PCode ''service_identity_mismatch'')
          else if validateSignalTopLevelFields signal \<noteq> None then Inl (400, PCode ''invalid_signal_identifier'')
          else if validateSignalAttributes (sigAttributes signal) \<noteq> None then Inl (400, PCode ''invalid_signal_attributes'')
          else Inr (signal\<lparr>sigAttributes := safeSignalAttributes (sigAttributes signal)\<rparr>))"

definition ingestAccepted :: "world \<Rightarrow> Signal \<Rightarrow> Server \<Rightarrow> response \<times> Server" where
  "ingestAccepted w signal sv =
     (case withCumulativeCounterDelta w signal sv of
        (Inl e, sv1) \<Rightarrow> ((500, PCode ''counter_state_lookup_failed''), sv1)
      | (Inr signal1, sv1) \<Rightarrow>
         (case call w (\<lambda>t. SaveSignal t signal1) sv1 of
            (Inl e, sv2) \<Rightarrow> ((500, PCode ''save_signal_failed''), sv2)
          | (Inr saved, sv2) \<Rightarrow>
             (case evaluateAndStoreIncidents w saved sv2 of
                (Inl e, sv3) \<Rightarrow> ((500, PCode ''incident_evaluation_failed''), sv3)
              | (Inr created, sv3) \<Rightarrow> ((202, PIngest (safeSignal saved) created), sv3))))"

definition ingestSignal :: "world \<Rightarrow> request \<Rightarrow> Signal option \<Rightarrow> Server \<Rightarrow> response \<times> Server" where
  "ingestSignal w rq body sv =
     (case ingestSubject w rq sv of
        Inl resp \<Rightarrow> (resp, sv)
      | Inr subject \<Rightarrow>
         (case ingestRefusal subject body of
            Inl resp \<Rightarrow> (resp, sv)
          | Inr signal \<Rightarrow> ingestAccepted w signal sv))"

subsection \<open>Incident and remediation handlers\<close>

definition updateIncidentStatus :: "world \<Rightarrow> request \<Rightarrow> string \<Rightarrow> Server \<Rightarrow> response \<times> Server" where
  "updateIncidentStatus w rq status sv =
     (case authorizeAdmin w rq ''incidents.update'' sv of
        Some resp \<Rightarrow> (resp, sv)
      | None \<Rightarrow>
         (case call w (\<lambda>t. UpdateIncidentStatus t (rqID rq) status) sv of
            (Inl ErrNotFound, sv1) \<Rightarrow> ((404, PCode ''not_found''), sv1)
          | (Inl ErrInvalidStatus, sv1) \<Rightarrow> ((400, PCode ''invalid_incident_status''), sv1)
          | (Inl ErrInvalidTransition, sv1) \<Rightarrow> ((409, PCode ''invalid_incident_transition''), sv1)
          | (Inl _, sv1) \<Rightarrow> ((500, PCode ''update_incident_failed''), sv1)
          | (Inr i, sv1) \<Rightarrow>
              (let eventType = (if status = ''resolved'' then ''incident.resolved'' else ''incident.updated'');
                   sv2 = (if incStatusChanged i then notifyIncidentEvent w eventType i sv1 else sv1)
               in ((200, PIncident i), sv2))))"

definition acknowledgeIncidentHandler :: "world \<Rightarrow> request \<Rightarrow> Server \<Rightarrow> response \<times> Server" where
  "acknowledgeIncidentHandler w rq sv = updateIncidentStatus w rq ''acknowledged'' sv"

definition resolveIncidentHandler :: "world \<Rightarrow> request \<Rightarrow> Server \<Rightarrow> response \<times> Server" where
  "resolveIncidentHandler w rq sv = updateIncidentStatus w rq ''resolved'' sv"

definition diagnosticReportForSavedSignal :: "goenv \<Rightarrow> Incident \<Rightarrow> Signal \<Rightarrow> Report option" where
  "diagnosticReportForSavedSignal env incident signal =
     (case List.find (\<lambda>d. diRule d = incRule incident) (detectSignal env signal) of
        None \<Rightarrow> None
      | Some d \<Rightarrow> Some (JapaneseReport (diRule d) (diagnosticEvidence env signal)))"

definition rerunIncidentDiagnostics :: "world \<Rightarrow> request \<Rightarrow> Server \<Rightarrow> response \<times> Server" where
  "rerunIncidentDiagnostics w rq sv =
     (case authorizeAdmin w rq ''diagnostics.run'' sv of
        Some resp \<Rightarrow> (resp, sv)
      | None \<Rightarrow>
         (case query w (\<lambda>t. GetIncident t (rqID rq)) sv of
            (Inl ErrNotFound, sv1) \<Rightarrow> ((404, PCode ''not_found''), sv1)
          | (Inl _, sv1) \<Rightarrow> ((500, PCode ''get_incident_failed''), sv1)
          | (Inr incident, sv1) \<Rightarrow>
              if TrimSpace (incSignalID incident) = []
              then ((200, PRerun incident ''inconclusive'' ''saved_signal_missing''), sv1)
              else
               (case query w (\<lambda>t. GetSignal t (incSignalID incident)) sv1 of
                  (Inl ErrNotFound, sv2) \<Rightarrow> ((200, PRerun incident ''inconclusive'' ''saved_signal_not_found''), sv2)
                | (Inl _, sv2) \<Rightarrow> ((500, PCode ''get_saved_signal_failed''), sv2)
                | (Inr signal, sv2) \<Rightarrow>
                   (case diagnosticReportForSavedSignal (wEnv w) incident signal of
                      None \<Rightarrow> ((200, PRerun incident ''inconclusive'' ''saved_signal_no_longer_matches_rule''), sv2)
                    | Some rep \<Rightarrow>
                       (case call w (\<lambda>t. UpdateIncidentDiagnostic t (incID incident) (incSignalID incident) rep) sv2 of
                          (Inl ErrNotFound, sv3) \<Rightarrow> ((404, PCode ''not_found''), sv3)
                        | (Inl _, sv3) \<Rightarrow> ((500, PCode ''update_diagnostic_report_failed''), sv3)
                        | (Inr (updated, reportUpdated), sv3) \<Rightarrow>
                            if \<not> reportUpdated
                            then ((200, PRerun updated ''inconclusive'' ''incident_updated_during_rerun''), sv3)
                            else ((200, PRerun updated ''evaluated'' []), sv3))))))"

definition requiresControlPanelDispatch :: "string \<Rightarrow> bool" where
  "requiresControlPanelDispatch action \<longleftrightarrow> ClassifyLegacyAction action = LegacyActionApplicationProposal"

definition dispatchApplicationRetryProposal ::
  "world \<Rightarrow> RemediationAction \<Rightarrow> Incident \<Rightarrow> Server \<Rightarrow> goerr option \<times> Server" where
  "dispatchApplicationRetryProposal w action incident sv =
     (case wExecutor w of
        None \<Rightarrow> (Some (ErrText ''control panel proposal dispatch is not configured''), sv)
      | Some execute \<Rightarrow>
         (let n = svStep sv;
              (r, l') = ResolveFromEnv (wCtl w) (wFile w n) (wFile w (Suc n)) (svLatch sv);
              sv1 = sv\<lparr>svLatch := l', svStep := Suc (Suc (Suc n))\<rparr>;
              now = tkNow (wTick w (Suc (Suc n)))
          in case r of
               Inl e \<Rightarrow> (Some e, sv1)
             | Inr identity \<Rightarrow>
                (case NewApplicationRetryProposal (wEnv w) now action incident (uiServiceID identity) now of
                   Inl e \<Rightarrow> (Some e, sv1)
                 | Inr p \<Rightarrow> (execute (Suc (Suc n)) p (incStreamID incident), sv1))))"

definition approveRemediationAction :: "world \<Rightarrow> request \<Rightarrow> Server \<Rightarrow> response \<times> Server" where
  "approveRemediationAction w rq sv =
     (case authorizeAdmin w rq ''remediation.approve'' sv of
        Some resp \<Rightarrow> (resp, sv)
      | None \<Rightarrow>
         (case query w (\<lambda>t. GetRemediationAction t (rqID rq)) sv of
            (Inl ErrNotFound, sv1) \<Rightarrow> ((404, PCode ''not_found''), sv1)
          | (Inl _, sv1) \<Rightarrow> ((500, PCode ''get_remediation_action_failed''), sv1)
          | (Inr action, sv1) \<Rightarrow>
             (case call w (\<lambda>t. UpdateRemediationAction t (Approve action)) sv1 of
                (Inl _, sv2) \<Rightarrow> ((500, PCode ''approve_remediation_action_failed''), sv2)
              | (Inr action', sv2) \<Rightarrow> ((200, PAction action'), sv2))))"

definition blockDispatch :: "string \<Rightarrow> RemediationAction \<Rightarrow> RemediationAction" where
  "blockDispatch why a = a\<lparr>raStatus := ''blocked'', raResult := why, raExecutedAt := None\<rparr>"

text \<open>The dispatch part of \<^verbatim>\<open>executeRemediationAction\<close>, for an action the policy lets through.\<close>

definition dispatchAction :: "world \<Rightarrow> RemediationAction \<Rightarrow> Server \<Rightarrow> RemediationAction \<times> Server" where
  "dispatchAction w action sv =
     (if raStatus action = ''executed'' \<and> requiresControlPanelDispatch (raAction action) then
        (case query w (\<lambda>t. GetIncident t (raIncidentID action)) sv of
           (Inl _, sv1) \<Rightarrow> (blockDispatch ''incident context is required for control panel dispatch'' action, sv1)
         | (Inr incident, sv1) \<Rightarrow>
             if TrimSpace (incStreamID incident) = []
             then (blockDispatch ''stream_id is required for control panel dispatch'' action, sv1)
             else
              (case dispatchApplicationRetryProposal w action incident sv1 of
                 (Some _, sv2) \<Rightarrow> (blockDispatch ''control panel dispatch failed'' action, sv2)
               | (None, sv2) \<Rightarrow>
                   (action\<lparr>raResult := ''control_panel_dispatch_executed'',
                      raExecutedAt := (case raExecutedAt action of None \<Rightarrow> Some (tkNow (wTick w (svStep sv2))) | Some x \<Rightarrow> Some x)\<rparr>,
                    sv2)))
      else (action, sv))"

definition executeRemediationAction :: "world \<Rightarrow> request \<Rightarrow> Server \<Rightarrow> response \<times> Server" where
  "executeRemediationAction w rq sv =
     (case authorizeAdmin w rq ''remediation.execute'' sv of
        Some resp \<Rightarrow> (resp, sv)
      | None \<Rightarrow>
         (case query w (\<lambda>t. GetRemediationAction t (rqID rq)) sv of
            (Inl ErrNotFound, sv1) \<Rightarrow> ((404, PCode ''not_found''), sv1)
          | (Inl _, sv1) \<Rightarrow> ((500, PCode ''get_remediation_action_failed''), sv1)
          | (Inr action, sv1) \<Rightarrow>
              if IsTerminalStatus (raStatus action)
              then ((409, PAction (action\<lparr>raResult := ''remediation action is already terminal''\<rparr>)), sv1)
              else
               (let now = tkNow (wTick w (svStep sv1));
                    (action2, sv2) = dispatchAction w (Execute now action) (sv1\<lparr>svStep := Suc (svStep sv1)\<rparr>)
                in case call w (\<lambda>t. UpdateRemediationAction t action2) sv2 of
                     (Inl _, sv3) \<Rightarrow> ((500, PCode ''execute_remediation_action_failed''), sv3)
                   | (Inr action3, sv3) \<Rightarrow>
                      (let sv4 = (if raStatus action3 = ''executed'' then
                             (case query w (\<lambda>t. GetIncident t (raIncidentID action3)) sv3 of
                                (Inr incident, sv') \<Rightarrow> notifyIncidentEvent w ''remediation.executed'' incident sv'
                              | (Inl _, sv') \<Rightarrow> sv')
                           else sv3)
                       in ((if raStatus action3 = ''blocked'' then 403 else 200, PAction action3), sv4)))))"

end
