(* ===== verification/Server_Queries.thy ===== *)
theory Server_Queries
  imports Server
begin

text \<open>
  The handlers of \<^verbatim>\<open>internal/httpapi/server.go\<close> that only report: status, version, signals, metrics,
  diagnostics, incidents, deliveries and remediation actions.
\<close>

subsection \<open>Parameters of a query\<close>

definition parseLimit :: "request \<Rightarrow> int \<Rightarrow> int" where
  "parseLimit rq fallback =
     (let raw = rqQuery rq ''limit'' in
      if raw = [] then fallback
      else case ParseInt raw of
        None \<Rightarrow> fallback
      | Some limit \<Rightarrow> if limit \<le> 0 then fallback else if limit > 1000 then 1000 else limit)"

text \<open>\<open>None\<close> is the error of \<^verbatim>\<open>parseHistoryCursor\<close>; \<open>wParseTime\<close> parses RFC 3339 with or without fractions.\<close>

definition parseHistoryCursor :: "world \<Rightarrow> request \<Rightarrow> (instant \<times> string) option" where
  "parseHistoryCursor w rq =
     (let rawBefore = TrimSpace (rqQuery rq ''before''); beforeID = TrimSpace (rqQuery rq ''before_id'') in
      if rawBefore = [] \<and> beforeID = [] then Some (0, [])
      else if rawBefore = [] \<or> beforeID = [] then None
      else map_option (\<lambda>before. (before, beforeID)) (wParseTime w rawBefore))"

text \<open>\<open>None\<close> when \<^verbatim>\<open>range_sec\<close> is refused.\<close>

definition metricRange :: "request \<Rightarrow> int option" where
  "metricRange rq =
     (let raw = TrimSpace (rqQuery rq ''range_sec'') in
      if raw = [] then Some (3 * 60 * 60)
      else case ParseInt raw of
        None \<Rightarrow> None
      | Some parsed \<Rightarrow> if parsed < 15 * 60 \<or> parsed > 3 * 60 * 60 then None else Some parsed)"

subsection \<open>Status\<close>

definition status :: "world \<Rightarrow> Server \<Rightarrow> response \<times> Server" where
  "status w sv =
     ((200, PStatus \<lparr>stServiceType = svServiceType sv, stServiceID = observabilityServiceID (wCtl w) (wFile w (svStep sv)),
        stStatus = ''ready'', stCheckedAt = tkNow (wTick w (svStep sv))\<rparr>), sv\<lparr>svStep := Suc (svStep sv)\<rparr>)"

definition health :: "response" where
  "health = (200, PCode ''ok'')"

text \<open>\<open>ctVersion\<close> is \<^verbatim>\<open>version.Current()\<close>.\<close>

definition updaterVersion :: "world \<Rightarrow> Server \<Rightarrow> response \<times> Server" where
  "updaterVersion w sv =
     (let n = svStep sv;
          (r, l') = ResolveFromEnv (wCtl w) (wFile w n) (wFile w (Suc n)) (svLatch sv);
          sv1 = sv\<lparr>svLatch := l', svStep := Suc (Suc n)\<rparr>
      in case r of
           Inl ErrUpdaterIdentityPending \<Rightarrow> ((503, PCode ''updater_identity_pending''), sv1)
         | Inl _ \<Rightarrow> ((503, PCode ''updater_identity_invalid''), sv1)
         | Inr identity \<Rightarrow> ((200, PVersion (ctVersion (wCtl w)) identity), sv1))"

subsection \<open>Lists\<close>

definition listSignals :: "world \<Rightarrow> request \<Rightarrow> Server \<Rightarrow> response \<times> Server" where
  "listSignals w rq sv =
     (case authorizeAdmin w rq ''observability.read'' sv of
        Some resp \<Rightarrow> (resp, sv)
      | None \<Rightarrow>
         (case query w (\<lambda>t. ListSignals t (parseLimit rq 200)) sv of
            (Inl _, sv1) \<Rightarrow> ((500, PCode ''list_signals_failed''), sv1)
          | (Inr sgs, sv1) \<Rightarrow> ((200, PSignals (safeSignals sgs)), sv1)))"

definition numericMetricValue :: "any \<Rightarrow> float64 option" where
  "numericMetricValue raw =
     (case raw of
        AInt KInt v \<Rightarrow> Some (round64 (of_int v))
      | AInt KInt64 v \<Rightarrow> Some (round64 (of_int v))
      | AInt KUint64 v \<Rightarrow> Some (round64 (of_int v))
      | AFloat64 v \<Rightarrow> Some v
      | _ \<Rightarrow> None)"

definition selfMetric :: "string \<Rightarrow> instant \<Rightarrow> string \<times> any \<Rightarrow> MetricSnapshot option" where
  "selfMetric serviceID now m =
     map_option (\<lambda>v. \<lparr>msName = fst m, msServiceID = serviceID, msServiceType = ServiceType, msStreamID = [], msStatus = [],
       msValue = Some v, msAttributes = None, msUpdatedAt = now\<rparr>) (numericMetricValue (snd m))"

definition appendSelfMetricSnapshots :: "world \<Rightarrow> nat \<Rightarrow> MetricSnapshot list \<Rightarrow> MetricSnapshot list" where
  "appendSelfMetricSnapshots w n metrics =
     (let sid = TrimSpace (clServiceID (FromEnv (wCtl w) (wFile w n)));
          serviceID = (if sid = [] then ''observability-01'' else sid)
      in metrics @ List.map_filter (selfMetric serviceID (tkNow (wTick w n))) (wSelfMetrics w n))"

definition listMetrics :: "world \<Rightarrow> request \<Rightarrow> Server \<Rightarrow> response \<times> Server" where
  "listMetrics w rq sv =
     (case authorizeAdmin w rq ''observability.read'' sv of
        Some resp \<Rightarrow> (resp, sv)
      | None \<Rightarrow>
         (case metricRange rq of
            None \<Rightarrow> ((400, PCode ''invalid_metric_range''), sv)
          | Some rangeSeconds \<Rightarrow>
             (let now = tkNow (wTick w (svStep sv)); sv0 = sv\<lparr>svStep := Suc (svStep sv)\<rparr> in
              case query w (\<lambda>t. ListMetricSnapshots t
                   \<lparr>mqSince = now - rangeSeconds * second, mqMaxPointsPerSeries = 360\<rparr>) sv0 of
                (Inl _, sv1) \<Rightarrow> ((500, PCode ''list_metrics_failed''), sv1)
              | (Inr metrics, sv1) \<Rightarrow>
                  ((200, PMetrics (appendSelfMetricSnapshots w (svStep sv1)
                      (map (\<lambda>m. m\<lparr>msAttributes := safeSignalAttributes (msAttributes m)\<rparr>) metrics))),
                   sv1\<lparr>svStep := Suc (svStep sv1)\<rparr>))))"

definition diagnosticView :: "Incident \<Rightarrow> DiagnosticReportView" where
  "diagnosticView i = \<lparr>dvIncidentID = incID i, dvRule = incRule i, dvSeverity = incSeverity i, dvStatus = incStatus i,
     dvServiceID = incServiceID i, dvStreamID = incStreamID i, dvReport = incReport i, dvUpdatedAt = incUpdatedAt i\<rparr>"

definition listDiagnostics :: "world \<Rightarrow> request \<Rightarrow> Server \<Rightarrow> response \<times> Server" where
  "listDiagnostics w rq sv =
     (case authorizeAdmin w rq ''observability.read'' sv of
        Some resp \<Rightarrow> (resp, sv)
      | None \<Rightarrow>
         (case query w ListIncidents sv of
            (Inl _, sv1) \<Rightarrow> ((500, PCode ''list_diagnostics_failed''), sv1)
          | (Inr is, sv1) \<Rightarrow> ((200, PDiagnostics (map diagnosticView is)), sv1)))"

definition listIncidents :: "world \<Rightarrow> request \<Rightarrow> Server \<Rightarrow> response \<times> Server" where
  "listIncidents w rq sv =
     (case authorizeAdmin w rq ''observability.read'' sv of
        Some resp \<Rightarrow> (resp, sv)
      | None \<Rightarrow>
         (case parseHistoryCursor w rq of
            None \<Rightarrow> ((400, PCode ''invalid_history_cursor''), sv)
          | Some (before, beforeID) \<Rightarrow>
             (let st = TrimSpace (rqQuery rq ''status'') in
              if st \<noteq> [] \<and> st \<notin> {''open'', ''acknowledged'', ''investigating'', ''mitigated'', ''resolved'', ''ignored''}
              then ((400, PCode ''invalid_incident_status''), sv)
              else
               (case query w (\<lambda>t. ListIncidentHistory t (parseLimit rq 200) before beforeID st) sv of
                  (Inl _, sv1) \<Rightarrow> ((500, PCode ''list_incidents_failed''), sv1)
                | (Inr is, sv1) \<Rightarrow> ((200, PIncidents is), sv1)))))"

definition getIncident :: "world \<Rightarrow> request \<Rightarrow> Server \<Rightarrow> response \<times> Server" where
  "getIncident w rq sv =
     (case authorizeAdmin w rq ''observability.read'' sv of
        Some resp \<Rightarrow> (resp, sv)
      | None \<Rightarrow>
         (case query w (\<lambda>t. GetIncident t (rqID rq)) sv of
            (Inl ErrNotFound, sv1) \<Rightarrow> ((404, PCode ''not_found''), sv1)
          | (Inl _, sv1) \<Rightarrow> ((500, PCode ''get_incident_failed''), sv1)
          | (Inr i, sv1) \<Rightarrow> ((200, PIncident i), sv1)))"

definition listNotificationDeliveries :: "world \<Rightarrow> request \<Rightarrow> Server \<Rightarrow> response \<times> Server" where
  "listNotificationDeliveries w rq sv =
     (case authorizeAdmin w rq ''notifications.read'' sv of
        Some resp \<Rightarrow> (resp, sv)
      | None \<Rightarrow>
         (case query w ListNotificationDeliveries sv of
            (Inl _, sv1) \<Rightarrow> ((500, PCode ''list_notification_deliveries_failed''), sv1)
          | (Inr ds, sv1) \<Rightarrow> ((200, PDeliveries ds), sv1)))"

definition listRemediationActions :: "world \<Rightarrow> request \<Rightarrow> Server \<Rightarrow> response \<times> Server" where
  "listRemediationActions w rq sv =
     (case authorizeAdmin w rq ''remediation.read'' sv of
        Some resp \<Rightarrow> (resp, sv)
      | None \<Rightarrow>
         (case query w ListRemediationActions sv of
            (Inl _, sv1) \<Rightarrow> ((500, PCode ''list_remediation_actions_failed''), sv1)
          | (Inr as, sv1) \<Rightarrow> ((200, PActions as), sv1)))"

subsection \<open>The context of a dispatch\<close>

definition remediationActionDispatchExecutable :: "RemediationAction \<Rightarrow> bool" where
  "remediationActionDispatchExecutable action \<longleftrightarrow>
     (let mode = NormalizeMode (raMode action) in
      if IsTerminalStatus (raStatus action) \<or> IsDangerous (raAction action) \<or> \<not> requiresControlPanelDispatch (raAction action)
      then False
      else if mode = ModeDisabled \<or> mode = ModeSuggestOnly then False
      else if mode = ModeManualApproval \<and> raStatus action \<noteq> ''approved'' then False
      else if raRequiresApproval action \<and> raStatus action \<noteq> ''approved'' then False
      else raSafeAuto action \<or> raRequiresApproval action)"

definition getRemediationDispatchContext :: "world \<Rightarrow> request \<Rightarrow> Server \<Rightarrow> response \<times> Server" where
  "getRemediationDispatchContext w rq sv =
     (case authorizeAdmin w rq ''remediation.read'' sv of
        Some resp \<Rightarrow> (resp, sv)
      | None \<Rightarrow>
         (case query w (\<lambda>t. GetRemediationAction t (rqID rq)) sv of
            (Inl ErrNotFound, sv1) \<Rightarrow> ((404, PCode ''not_found''), sv1)
          | (Inl _, sv1) \<Rightarrow> ((500, PCode ''get_remediation_action_failed''), sv1)
          | (Inr action, sv1) \<Rightarrow>
             (case query w (\<lambda>t. GetIncident t (raIncidentID action)) sv1 of
                (Inl ErrNotFound, sv2) \<Rightarrow> ((409, PCode ''incident_context_missing''), sv2)
              | (Inl _, sv2) \<Rightarrow> ((500, PCode ''get_incident_failed''), sv2)
              | (Inr incident, sv2) \<Rightarrow>
                  if TrimSpace (incStreamID incident) = [] then ((409, PCode ''stream_context_missing''), sv2)
                  else if IsTerminalStatus (raStatus action) then ((409, PCode ''remediation_action_terminal''), sv2)
                  else if \<not> remediationActionDispatchExecutable action
                  then ((409, PCode ''remediation_action_not_executable''), sv2)
                  else ((200, PDispatch \<lparr>dcActionID = raID action, dcAction = raAction action, dcActionStatus = raStatus action,
                           dcIncidentID = incID incident, dcIncidentStatus = incStatus incident,
                           dcStreamID = incStreamID incident, dcExecutable = True\<rparr>), sv2))))"

text \<open>
  The dispatch context calls an action executable exactly when executing it now would pass the
  policy and go to the Control Panel.
\<close>

theorem dispatch_context_agrees:
  assumes "raStatus a \<noteq> ''disabled''"
  shows "remediationActionDispatchExecutable a \<longleftrightarrow>
    \<not> IsTerminalStatus (raStatus a) \<and> raStatus (Execute now a) = ''executed'' \<and> requiresControlPanelDispatch (raAction a)"
proof (cases "IsTerminalStatus (raStatus a)")
  case False
  have classes: "requiresControlPanelDispatch (raAction a) \<Longrightarrow> \<not> IsDangerous (raAction a)"
    by (auto simp: requiresControlPanelDispatch_def ClassifyLegacyAction_def IsDangerous_def proposalActionForLegacyRetry_def
        LegacyRetryAction_def Let_def go_eval split: if_splits)
  have "NormalizeMode (raMode a) \<in> {ModeDisabled, ModeSuggestOnly, ModeSafeAuto, ModeManualApproval}"
    using NormalizeMode_cases by simp
  then show ?thesis
    using False assms classes Execute_status [OF False, of now]
    by (auto simp: remediationActionDispatchExecutable_def executable_def Let_def modes requiresControlPanelDispatch_def)
qed (simp add: remediationActionDispatchExecutable_def)

text \<open>An approved retry of an upload.\<close>

theorem dispatch_context_agrees_witness:
  "let a = zeroAction\<lparr>raMode := ModeManualApproval, raAction := ''retry_gdrive_upload'', raStatus := ''approved'',
      raRequiresApproval := True\<rparr>
   in remediationActionDispatchExecutable a \<and> raStatus (Execute 5 a) = ''executed''"
proof -
  let ?a = "zeroAction\<lparr>raMode := ModeManualApproval, raAction := ''retry_gdrive_upload'', raStatus := ''approved'',
      raRequiresApproval := True\<rparr>"
  have "remediationActionDispatchExecutable ?a"
    by (simp add: remediationActionDispatchExecutable_def requiresControlPanelDispatch_def ClassifyLegacyAction_def IsDangerous_def
        IsLocalTransition_def LocalActionForLegacyAction_def LocalClearStaleWarning_def LocalRerunDiagnostics_def
        LocalRefreshServiceStatus_def proposalActionForLegacyRetry_def IsTerminalStatus_def NormalizeMode_def modes Let_def go_eval)
  moreover have "raStatus ?a \<noteq> ''disabled''" by simp
  ultimately show ?thesis using dispatch_context_agrees [of ?a 5] by (simp add: Let_def)
qed

end
