(* ===== verification/Server_Safety.thy ===== *)
theory Server_Safety
  imports Server
begin

text \<open>
  What the handlers of \<open>Server\<close> guarantee: refused requests change nothing, an accepted signal is
  stored clean and leaves exactly the incidents its evaluation asks for, counters are judged by
  their increase, and every handler keeps the invariants of the store, the deduper and the
  delivery history.
\<close>

subsection \<open>Notifications touch only the delivery history\<close>

definition quiet :: "Server \<Rightarrow> Server \<Rightarrow> bool" where
  "quiet sv sv' \<longleftrightarrow> svIngestAuth sv' = svIngestAuth sv \<and> svAdminAuth sv' = svAdminAuth sv \<and> svLatch sv' = svLatch sv \<and>
     signals (svStore sv') = signals (svStore sv) \<and> incidents (svStore sv') = incidents (svStore sv) \<and>
     activeIncidents (svStore sv') = activeIncidents (svStore sv) \<and> channels (svStore sv') = channels (svStore sv) \<and>
     remediations (svStore sv') = remediations (svStore sv)"

lemma quiet_refl [simp]: "quiet sv sv"
  by (simp add: quiet_def)

lemma quiet_trans: "quiet a b \<Longrightarrow> quiet b c \<Longrightarrow> quiet a c"
  by (simp add: quiet_def)

lemma quiet_foldl: "(\<And>sv x. quiet sv (f sv x)) \<Longrightarrow> quiet sv (foldl f sv xs)"
  by (induction xs arbitrary: sv) (auto intro: quiet_trans)

lemma quiet_step [simp]: "quiet sv (sv\<lparr>svStep := n\<rparr>)" "quiet sv (sv\<lparr>svDedupe := d, svStep := n\<rparr>)"
  by (simp_all add: quiet_def)

lemma quiet_saveDelivery: "quiet sv (snd (call w (\<lambda>t. SaveNotificationDelivery env t d) sv))"
  by (simp add: quiet_def call_def SaveNotificationDelivery_def guarded_def Let_def split: option.split)

lemma quiet_saveResults: "quiet sv (saveNotificationDeliveryResults w ev i rs sv)"
  unfolding saveNotificationDeliveryResults_def by (rule quiet_foldl) (rule quiet_saveDelivery)

lemma quiet_suppressed: "quiet sv (saveSuppressedNotificationDelivery w ev i n sv)"
  unfolding saveSuppressedNotificationDelivery_def by (rule quiet_saveDelivery)

lemma quiet_deliver: "quiet sv (snd (deliverNotificationEvent w ev i sv))"
proof (cases "wNotifier w")
  case (Some notify)
  obtain rsv d1 where r: "reserve (wEnv w) ev i (tkNow (wTick w (svStep sv))) (svDedupe sv) = (rsv, d1)" by fastforce
  let ?sv1 = "sv\<lparr>svDedupe := d1, svStep := Suc (svStep sv)\<rparr>"
  have "quiet sv (saveSuppressedNotificationDelivery w ev i n ?sv1)" for n
    by (rule quiet_trans [OF _ quiet_suppressed]) simp
  moreover have "quiet sv (saveNotificationDeliveryResults w ev i rs (?sv1\<lparr>svDedupe := d, svStep := n\<rparr>))" for rs d n
    by (rule quiet_trans [OF _ quiet_saveResults]) (simp add: quiet_def)
  ultimately show ?thesis
    by (simp add: deliverNotificationEvent_def Some r Let_def case_prod_unfold)
qed (simp add: deliverNotificationEvent_def)

lemma quiet_notify: "quiet sv (notifyIncidentEvent w ev i sv)"
  by (simp add: notifyIncidentEvent_def quiet_deliver)

lemma quiet_notifyAll: "quiet sv (foldl (\<lambda>sv i. notifyIncidentEvent w ev i sv) sv is)"
  by (rule quiet_foldl) (rule quiet_notify)

lemma quiet_storeOK: "quiet sv sv' \<Longrightarrow> storeOK (svStore sv') = storeOK (svStore sv)"
  by (simp add: quiet_def storeOK_def)

lemma quiet_signals: "quiet sv sv' \<Longrightarrow> signals (svStore sv') = signals (svStore sv)"
  by (simp add: quiet_def)

lemma quiet_row: "quiet sv sv' \<Longrightarrow> map_of (incidents (svStore sv')) = map_of (incidents (svStore sv))"
  by (simp add: quiet_def)

lemma quiet_query: "quiet sv (snd (query w f sv))"
  by (simp add: query_def)

subsection \<open>Rows closed by recoveries\<close>

abbreviation row :: "Server \<Rightarrow> string \<Rightarrow> Incident option" where
  "row sv \<equiv> map_of (incidents (svStore sv))"

text \<open>The life of a row over a step that closes the active rows with a key in \<open>K\<close>.\<close>

definition closes :: "string set \<Rightarrow> Incident \<Rightarrow> Incident \<Rightarrow> bool" where
  "closes K x y \<longleftrightarrow>
     (if activeIncident x \<and> incidentKey x \<in> K
      then incStatus y = ''resolved'' \<and> incidentKey y = incidentKey x \<and> incID y = incID x
      else y = x)"

definition closesRows :: "string set \<Rightarrow> Server \<Rightarrow> Server \<Rightarrow> bool" where
  "closesRows K sv sv' \<longleftrightarrow>
     (\<forall>iid. row sv iid = None \<longrightarrow> row sv' iid = None) \<and>
     (\<forall>iid x. row sv iid = Some x \<longrightarrow> (\<exists>y. row sv' iid = Some y \<and> closes K x y))"

lemma closes_empty [simp]: "closes {} x y \<longleftrightarrow> y = x"
  by (simp add: closes_def)

lemma closes_inactive: "closes K x y \<Longrightarrow> activeIncident x \<Longrightarrow> incidentKey x \<in> K \<Longrightarrow> \<not> activeIncident y"
  by (simp add: closes_def activeIncident_def)

lemma closes_trans: "closes K x y \<Longrightarrow> closes L y z \<Longrightarrow> closes (K \<union> L) x z"
  by (auto simp: closes_def activeIncident_def split: if_splits)

lemma closesRows_refl: "closesRows {} sv sv"
  by (simp add: closesRows_def)

lemma closesRows_quiet: "quiet sv sv' \<Longrightarrow> closesRows {} sv sv'"
  by (simp add: closesRows_def quiet_def)

lemma closesRows_none: "closesRows K sv sv' \<Longrightarrow> row sv iid = None \<Longrightarrow> row sv' iid = None"
  by (simp add: closesRows_def)

lemma closesRows_some:
  assumes "closesRows K sv sv'" "row sv iid = Some x"
  obtains y where "row sv' iid = Some y" "closes K x y"
  using assms unfolding closesRows_def by blast

lemma closesRows_back:
  assumes "closesRows K sv sv'" "row sv' iid = Some y"
  obtains x where "row sv iid = Some x" "closes K x y"
proof (cases "row sv iid")
  case None
  then show thesis using closesRows_none [OF assms(1) None] assms(2) by simp
next
  case (Some x)
  then show thesis using closesRows_some [OF assms(1) Some] assms(2) that by (metis option.inject)
qed

lemma closesRows_trans:
  assumes "closesRows K a b" "closesRows L b c"
  shows "closesRows (K \<union> L) a c"
  unfolding closesRows_def
proof (intro conjI allI impI)
  fix iid assume "row a iid = None"
  then show "row c iid = None" by (intro closesRows_none [OF assms(2)] closesRows_none [OF assms(1)])
next
  fix iid x assume "row a iid = Some x"
  then obtain y where y: "row b iid = Some y" "closes K x y" by (rule closesRows_some [OF assms(1)])
  obtain z where "row c iid = Some z" "closes L y z" by (rule closesRows_some [OF assms(2) y(1)])
  with y(2) show "\<exists>z. row c iid = Some z \<and> closes (K \<union> L) x z" by (blast intro: closes_trans)
qed

lemma closesRows_closed:
  assumes "closesRows K sv sv'" "row sv' iid = Some y" "incidentKey y \<in> K"
  shows "\<not> activeIncident y"
proof -
  obtain x where "closes K x y" by (rule closesRows_back [OF assms(1,2)])
  then show ?thesis using assms(3) by (auto simp: closes_def activeIncident_def split: if_splits)
qed

lemma closesRows_kept:
  assumes "closesRows K sv sv'" "row sv iid = Some x" "incidentKey x \<notin> K \<or> \<not> activeIncident x"
  shows "row sv' iid = Some x"
proof -
  obtain y where "row sv' iid = Some y" "closes K x y" by (rule closesRows_some [OF assms(1,2)])
  then show ?thesis using assms(3) by (auto simp: closes_def split: if_splits)
qed

definition recoveryKeys :: "Signal \<Rightarrow> recovery list \<Rightarrow> string set" where
  "recoveryKeys signal recs = (\<lambda>r. ruleKey (rcRule r) (sigServiceID signal) (sigStreamID signal)) ` set recs"

definition liveWorld :: "world \<Rightarrow> bool" where
  "liveWorld w \<longleftrightarrow> (\<forall>n. tkCtx (wTick w n) = None)"

lemma call_resolve:
  assumes "liveWorld w" "storeOK (svStore sv)" "TrimSpace rule = rule" "rule \<noteq> []"
  obtains resolved sv1 where "call w (\<lambda>t. ResolveActiveIncidents t [rule] svc str sg r) sv = (Inr resolved, sv1)"
    "storeOK (svStore sv1)" "closesRows {ruleKey rule svc str} sv sv1"
    "signals (svStore sv1) = signals (svStore sv)"
proof -
  let ?t = "wTick w (svStep sv)"
  have ctx: "tkCtx ?t = None" using assms(1) by (simp add: liveWorld_def)
  have uniq: "uniqueNonEmptyStrings [rule] = [rule]" using assms(3,4) by (simp add: uniqueNonEmptyStrings_def)
  note rows = ResolveActiveIncidents_rows [OF assms(2) ctx, of "[rule]" svc str sg r, unfolded uniq]
  have "closes {ruleKey rule svc str} x (resolvedRow ?t [rule] svc str sg r x)" for x
    by (simp add: closes_def resolvedRow_def)
  then have cl: "closesRows {ruleKey rule svc str} sv (snd (call w (\<lambda>t. ResolveActiveIncidents t [rule] svc str sg r) sv))"
    by (auto simp: closesRows_def call_def case_prod_unfold Let_def rows(2))
  have "signals (snd (foldl (resolveRule ?t svc str sg r) (acc, s) rules)) = signals s" for acc s rules
    by (induction rules arbitrary: acc s) (auto simp: resolveRule_def Let_def split: option.split)
  then have "signals (snd (ResolveActiveIncidents ?t [rule] svc str sg r (svStore sv))) = signals (svStore sv)"
    using ctx by (simp add: ResolveActiveIncidents_def case_prod_unfold Let_def)
  with ResolveActiveIncidents_storeOK [OF assms(2)] rows(1) show thesis
    by (intro that [OF _ _ cl]) (auto simp: call_def case_prod_unfold Let_def)
qed

lemma resolveRecoveries_live:
  assumes "liveWorld w" "storeOK (svStore sv)" "\<forall>r\<in>set recs. TrimSpace (rcRule r) = rcRule r \<and> rcRule r \<noteq> []"
  shows "\<exists>sv'. resolveRecoveries w signal recs sv = (None, sv') \<and> storeOK (svStore sv') \<and>
    closesRows (recoveryKeys signal recs) sv sv' \<and> signals (svStore sv') = signals (svStore sv)"
  using assms(2,3)
proof (induction recs arbitrary: sv)
  case Nil
  then show ?case by (simp add: recoveryKeys_def closesRows_refl)
next
  case (Cons r recs)
  let ?k = "ruleKey (rcRule r) (sigServiceID signal) (sigStreamID signal)"
  have tr: "TrimSpace (rcRule r) = rcRule r" "rcRule r \<noteq> []" using Cons.prems(2) by simp_all
  obtain resolved sv1 where c: "call w (\<lambda>t. ResolveActiveIncidents t [rcRule r] (sigServiceID signal) (sigStreamID signal)
      (sigID signal) (rcReason r)) sv = (Inr resolved, sv1)" "storeOK (svStore sv1)" "closesRows {?k} sv sv1"
    "signals (svStore sv1) = signals (svStore sv)"
    by (rule call_resolve [OF assms(1) Cons.prems(1) tr])
  let ?sv2 = "foldl (\<lambda>sv i. notifyIncidentEvent w ''incident.resolved'' i sv) sv1 resolved"
  have q: "quiet sv1 ?sv2" by (rule quiet_notifyAll)
  have ok2: "storeOK (svStore ?sv2)" "signals (svStore ?sv2) = signals (svStore sv)"
    using c(2,4) quiet_storeOK [OF q] quiet_signals [OF q] by simp_all
  have c2: "closesRows {?k} sv ?sv2" using closesRows_trans [OF c(3) closesRows_quiet [OF q]] by simp
  obtain sv' where ih: "resolveRecoveries w signal recs ?sv2 = (None, sv')" "storeOK (svStore sv')"
    "closesRows (recoveryKeys signal recs) ?sv2 sv'" "signals (svStore sv') = signals (svStore ?sv2)"
    using Cons.IH [OF ok2(1)] Cons.prems(2) by auto
  have "closesRows (recoveryKeys signal (r # recs)) sv sv'"
    using closesRows_trans [OF c2 ih(3)] by (simp add: recoveryKeys_def)
  with ih ok2 c(1) show ?case by simp
qed

lemma recoveryCalls_catalogue: "list_all (\<lambda>rr. fst rr \<in> set detectionRules) (recoveryCalls env s)"
proof -
  have one: "list_all P (if c then xs else [])" if "list_all P xs" for P c and xs :: "(string \<times> string) list"
    using that by simp
  show ?thesis
    unfolding recoveryCalls_def Let_def concat.simps list_all_append
    by (intro conjI one) (simp_all add: detectionRules_def streamScopedRules_def)
qed

lemma detectionRules_trimmed: "rule \<in> set detectionRules \<Longrightarrow> TrimSpace rule = rule \<and> rule \<noteq> []"
proof -
  have "list_all (\<lambda>rule. TrimSpace rule = rule \<and> rule \<noteq> []) detectionRules"
    unfolding detectionRules_def list.pred_inject by (simp add: go_eval)
  then show "rule \<in> set detectionRules \<Longrightarrow> ?thesis" by (simp add: list_all_iff)
qed

lemma evRecoveries_trimmed:
  "r \<in> set (evRecoveries (evaluateSignal env sg)) \<Longrightarrow> TrimSpace (rcRule r) = rcRule r \<and> rcRule r \<noteq> []"
proof -
  assume "r \<in> set (evRecoveries (evaluateSignal env sg))"
  then have "rcRule r \<in> set (map rcRule (evRecoveries (evaluateSignal env sg)))" by simp
  then show ?thesis
    unfolding evaluateSignal_def EvaluateSignal_def evaluation.simps evaluateRecoveries_rules
    using recoveryCalls_catalogue detectionRules_trimmed by (fastforce simp: list_all_iff)
qed

subsection \<open>Storing a detected incident\<close>

lemma createActions_live:
  assumes "liveWorld w" "storeOK (svStore sv)"
  shows "\<exists>sv'. createActions w as sv = (None, sv') \<and> storeOK (svStore sv') \<and>
    signals (svStore sv') = signals (svStore sv) \<and> incidents (svStore sv') = incidents (svStore sv)"
  using assms(2)
proof (induction "as" arbitrary: sv)
  case (Cons a "as")
  let ?t = "wTick w (svStep sv)"
  have ctx: "tkCtx ?t = None" using assms(1) by (simp add: liveWorld_def)
  define sv1 where "sv1 = snd (call w (\<lambda>t. CreateRemediationAction t a) sv)"
  have sv1: "storeOK (svStore sv1)" "signals (svStore sv1) = signals (svStore sv)"
    "incidents (svStore sv1) = incidents (svStore sv)"
    using ctx Cons.prems by (simp_all add: sv1_def call_def CreateRemediationAction_def Let_def storeOK_def)
  obtain x where "call w (\<lambda>t. CreateRemediationAction t a) sv = (Inr x, sv1)"
    using ctx by (simp add: sv1_def call_def CreateRemediationAction_def Let_def)
  with sv1 Cons.IH [OF sv1(1)] show ?case by simp
qed simp

lemma detectedIncident_simps [simp]:
  "rawIncident (detectedIncident env sg d)" "incSignalID (detectedIncident env sg d) = sigID sg"
  "incidentKey (detectedIncident env sg d) = ruleKey (diRule d) (sigServiceID sg) (sigStreamID sg)"
  by (simp_all add: detectedIncident_def zeroIncident_def rawIncident_def incidentKey_def)

text \<open>One active row holds the key, it carries the new signal, and no other row has changed.\<close>

definition raised :: "string \<Rightarrow> string \<Rightarrow> Server \<Rightarrow> Server \<Rightarrow> bool" where
  "raised key sid sv sv' \<longleftrightarrow>
     (\<exists>iid i. row sv' iid = Some i \<and> activeIncident i \<and> incidentKey i = key \<and> incSignalID i = sid \<and>
        (\<forall>jid. jid \<noteq> iid \<longrightarrow> row sv' jid = row sv jid) \<and> 
        (\<forall>j. row sv iid = Some j \<longrightarrow> activeIncident j \<and> incidentKey j = key))"

lemma raised_same: "incidents (svStore b) = incidents (svStore a) \<Longrightarrow> raised key sid sv a \<Longrightarrow> raised key sid sv b"
  by (simp add: raised_def)

lemma call_upsert:
  assumes "liveWorld w" "storeOK (svStore sv)" "rawIncident i" "row sv (newID ''inc'' (wTick w (svStep sv))) = None"
  shows "\<exists>stored created sv1. call w (\<lambda>t. UpsertIncident t i) sv = (Inr (stored, created), sv1) \<and>
    storeOK (svStore sv1) \<and> signals (svStore sv1) = signals (svStore sv) \<and> raised (incidentKey i) (incSignalID i) sv sv1"
proof -
  let ?t = "wTick w (svStep sv)" and ?s = "svStore sv"
  have ctx: "tkCtx ?t = None" using assms(1) by (simp add: liveWorld_def)
  have ok: "storeOK (snd (UpsertIncident ?t i ?s))" by (rule UpsertIncident_storeOK [OF assms(2-4)])
  show ?thesis
  proof (cases "map_of (activeIncidents ?s) (incidentKey i)")
    case None
    let ?iid = "newID ''inc'' ?t"
    have sg: "incSignalID (openedRow ?t i) = incSignalID i" by (simp add: openedRow_def)
    have "raised (incidentKey i) (incSignalID i) sv (snd (call w (\<lambda>t. UpsertIncident t i) sv))"
      unfolding raised_def using assms(3,4) sg
      by (intro exI [of _ ?iid] exI [of _ "openedRow ?t i"])
         (simp add: call_def Upsert_new [OF ctx None] openIncident_raw)
    with ok show ?thesis using assms(3) by (auto simp: call_def Upsert_new [OF ctx None] openIncident_raw)
  next
    case (Some iid)
    obtain e where e: "row sv iid = Some e" "activeIncident e" "incidentKey e = incidentKey i"
      "UpsertIncident ?t i ?s = (Inr (repeatIncident ?t i e, False),
         ?s\<lparr>incidents := AList.update iid (persisted (repeatIncident ?t i e)) (incidents ?s)\<rparr>)"
      by (rule Upsert_repeat [OF assms(2) ctx Some])
    have "raised (incidentKey i) (incSignalID i) sv (snd (call w (\<lambda>t. UpsertIncident t i) sv))"
      unfolding raised_def using e
      by (intro exI [of _ iid] exI [of _ "persisted (repeatIncident ?t i e)"]) (simp add: call_def)
    with ok e(4) show ?thesis by (auto simp: call_def)
  qed
qed

text \<open>Storing one detected incident: the notification and the actions that follow leave the row alone.\<close>

lemma storeDetected_live:
  assumes "liveWorld w" "storeOK (svStore sv)" "row sv (newID ''inc'' (wTick w (svStep sv))) = None"
  shows "\<exists>out sv'. storeDetected w sg [d] sv = (Inr out, sv') \<and> storeOK (svStore sv') \<and>
    signals (svStore sv') = signals (svStore sv) \<and>
    raised (ruleKey (diRule d) (sigServiceID sg) (sigStreamID sg)) (sigID sg) sv sv'"
proof -
  let ?raised = "raised (ruleKey (diRule d) (sigServiceID sg) (sigStreamID sg)) (sigID sg) sv"
  obtain stored created sv1 where c:
    "call w (\<lambda>t. UpsertIncident t (detectedIncident (wEnv w) sg d)) sv = (Inr (stored, created), sv1)"
    "storeOK (svStore sv1)" "signals (svStore sv1) = signals (svStore sv)" "?raised sv1"
    using call_upsert [OF assms(1,2) _ assms(3), of "detectedIncident (wEnv w) sg d"] by auto
  have carry: "storeOK (svStore x)" "signals (svStore x) = signals (svStore sv)" "?raised x" if "quiet sv1 x" for x
    using c quiet_storeOK [OF that] quiet_signals [OF that] raised_same [OF _ c(4), of x] that
    by (simp_all add: quiet_def)
  note n = carry [OF quiet_notify, of w _ stored]
  obtain sv2 where a: "createRemediationActions w stored (notifyIncidentEvent w ''incident.opened'' stored sv1) = (None, sv2)"
    "storeOK (svStore sv2)" "signals (svStore sv2) = signals (svStore sv)" "?raised sv2"
    using createActions_live [OF assms(1) n(1)] n(2) raised_same [OF _ n(3)] unfolding createRemediationActions_def
    by metis
  show ?thesis using a n c by (cases created) (simp_all add: Let_def)
qed

lemma raised_kept: "raised k sid sv sv' \<Longrightarrow> row sv iid = Some x \<Longrightarrow> incidentKey x \<noteq> k \<Longrightarrow> row sv' iid = Some x"
  unfolding raised_def by metis

lemma raised_before: "raised k sid sv sv' \<Longrightarrow> row sv' iid = Some x \<Longrightarrow> incidentKey x \<noteq> k \<Longrightarrow> row sv iid = Some x"
  unfolding raised_def by (metis option.inject)

lemma ruleKey_eq [simp]: "ruleKey a svc str = ruleKey b svc str \<longleftrightarrow> a = b"
  by (simp add: incidentKey_def)

text \<open>The keys of the rules a signal decides, and what its evaluation leaves of the rows.\<close>

definition signalKey :: "Signal \<Rightarrow> string \<Rightarrow> string" where
  "signalKey sg rule = ruleKey rule (sigServiceID sg) (sigStreamID sg)"

definition settled :: "goenv \<Rightarrow> Signal \<Rightarrow> Server \<Rightarrow> Server \<Rightarrow> bool" where
  "settled env sg sv sv' \<longleftrightarrow>
     (let ev = evaluateSignal env sg in
      (\<forall>r\<in>set (evRecoveries ev). \<forall>iid i.
         row sv' iid = Some i \<and> incidentKey i = signalKey sg (rcRule r) \<longrightarrow> \<not> activeIncident i) \<and>
      (\<forall>d\<in>set (evIncidents ev). \<exists>iid i.
         row sv' iid = Some i \<and> activeIncident i \<and> incidentKey i = signalKey sg (diRule d) \<and> incSignalID i = sigID sg \<and>
         (\<forall>jid j. row sv' jid = Some j \<and> activeIncident j \<and> incidentKey j = signalKey sg (diRule d) \<longrightarrow> jid = iid)) \<and>
      (\<forall>iid i. row sv iid = Some i \<and>
         incidentKey i \<notin> signalKey sg ` (rcRule ` set (evRecoveries ev) \<union> diRule ` set (evIncidents ev)) \<longrightarrow>
         row sv' iid = Some i))"

lemma evaluation_cases:
  fixes env sg
  defines "ev \<equiv> evaluateSignal env sg"
  obtains (quiet) "evIncidents ev = []"
        | (raise) d where "evIncidents ev = [d]" "\<forall>r\<in>set (evRecoveries ev). rcRule r \<noteq> diRule d"
proof -
  have "length (evIncidents ev) \<le> Suc 0"
    by (simp add: ev_def evaluateSignal_def EvaluateSignal_def evaluateIncidents_length)
  then consider "evIncidents ev = []" | d where "evIncidents ev = [d]"
    by (cases "evIncidents ev") auto
  then show thesis
  proof cases
    case (2 d)
    have "rcRule r \<noteq> diRule d" if "r \<in> set (evRecoveries ev)" for r
    proof -
      have "rcRule r \<in> set (map rcRule (evRecoveries ev))" using that by simp
      then show ?thesis using 2 raised_not_called
        unfolding ev_def evaluateSignal_def EvaluateSignal_def evaluation.simps evaluateRecoveries_rules by force
    qed
    with 2 show thesis by (intro raise) auto
  qed (rule quiet)
qed

lemma evaluateAndStore_live:
  assumes w: "liveWorld w" and ok: "storeOK (svStore sv)" and fresh: "\<forall>n. row sv (newID ''inc'' (wTick w n)) = None"
  shows "\<exists>out sv'. evaluateAndStoreIncidents w sg sv = (Inr out, sv') \<and> storeOK (svStore sv') \<and>
    signals (svStore sv') = signals (svStore sv) \<and> settled (wEnv w) sg sv sv'"
proof -
  let ?ev = "evaluateSignal (wEnv w) sg"
  obtain sv1 where r: "resolveRecoveries w sg (evRecoveries ?ev) sv = (None, sv1)" "storeOK (svStore sv1)"
    "closesRows (recoveryKeys sg (evRecoveries ?ev)) sv sv1" "signals (svStore sv1) = signals (svStore sv)"
    using resolveRecoveries_live [OF w ok] evRecoveries_trimmed by meson
  have keys: "recoveryKeys sg (evRecoveries ?ev) = signalKey sg ` rcRule ` set (evRecoveries ?ev)"
    by (auto simp: recoveryKeys_def signalKey_def)
  have fresh1: "row sv1 (newID ''inc'' (wTick w (svStep sv1))) = None"
    using closesRows_none [OF r(3)] fresh by blast
  note closed = closesRows_closed [OF r(3), unfolded keys] and kept = closesRows_kept [OF r(3), unfolded keys]
  show ?thesis
  proof (cases rule: evaluation_cases [of "wEnv w" sg])
    case quiet
    have "settled (wEnv w) sg sv sv1"
      unfolding settled_def Let_def quiet using closed kept by auto
    with r quiet show ?thesis by (simp add: evaluateAndStoreIncidents_def)
  next
    case (raise d)
    obtain out sv2 where d: "storeDetected w sg [d] sv1 = (Inr out, sv2)" "storeOK (svStore sv2)"
      "signals (svStore sv2) = signals (svStore sv1)" "raised (signalKey sg (diRule d)) (sigID sg) sv1 sv2"
      using storeDetected_live [OF w r(2) fresh1] unfolding signalKey_def by blast
    have inj: "signalKey sg (rcRule x) \<noteq> signalKey sg (diRule d)" if "x \<in> set (evRecoveries ?ev)" for x
      using raise(2) that by (simp add: signalKey_def)
    have "settled (wEnv w) sg sv sv2"
      unfolding settled_def Let_def raise(1)
    proof (intro conjI ballI allI impI)
      fix x iid i assume x: "x \<in> set (evRecoveries ?ev)" "row sv2 iid = Some i \<and> incidentKey i = signalKey sg (rcRule x)"
      then have "row sv1 iid = Some i" using raised_before [OF d(4)] inj by simp
      then show "\<not> activeIncident i" using closed x by blast
    next
      fix d' assume "d' \<in> set [d]"
      moreover obtain iid i where "row sv2 iid = Some i" "activeIncident i" "incidentKey i = signalKey sg (diRule d)"
        "incSignalID i = sigID sg" using d(4) unfolding raised_def by blast
      ultimately show "\<exists>iid i. row sv2 iid = Some i \<and> activeIncident i \<and> incidentKey i = signalKey sg (diRule d') \<and>
          incSignalID i = sigID sg \<and>
          (\<forall>jid j. row sv2 jid = Some j \<and> activeIncident j \<and> incidentKey j = signalKey sg (diRule d') \<longrightarrow> jid = iid)"
        using storeOK_unique [OF d(2)] by fastforce
    next
      fix iid i assume "row sv iid = Some i \<and>
        incidentKey i \<notin> signalKey sg ` (rcRule ` set (evRecoveries ?ev) \<union> diRule ` set [d])"
      then show "row sv2 iid = Some i" using kept raised_kept [OF d(4)] by auto
    qed
    with r d raise show ?thesis by (simp add: evaluateAndStoreIncidents_def)
  qed
qed

subsection \<open>Frames of an evaluation\<close>

text \<open>
  A relation between states that every elementary step of an evaluation respects is respected
  by the whole evaluation, on every path, failed store calls included.
\<close>

locale evaluation_frame =
  fixes w :: world and R :: "Server \<Rightarrow> Server \<Rightarrow> bool"
  assumes R_refl: "R sv sv"
    and R_trans: "R a b \<Longrightarrow> R b c \<Longrightarrow> R a c"
    and R_notify: "R sv (notifyIncidentEvent w ev i sv)"
    and R_resolve: "R sv (snd (call w (\<lambda>t. ResolveActiveIncidents t rules svc str sg r) sv))"
    and R_upsert: "R sv (snd (call w (\<lambda>t. UpsertIncident t i) sv))"
    and R_create: "R sv (snd (call w (\<lambda>t. CreateRemediationAction t action) sv))"
begin

lemma R_call: "R sv (snd c) \<Longrightarrow> c = (x, sv1) \<Longrightarrow> R sv sv1"
  by simp

lemma R_notifyAll: "R sv (foldl (\<lambda>sv i. notifyIncidentEvent w ev i sv) sv is)"
  by (induction "is" arbitrary: sv) (auto intro: R_refl R_trans R_notify)

lemma R_recoveries: "R sv (snd (resolveRecoveries w sg recs sv))"
proof (induction recs arbitrary: sv)
  case (Cons r recs)
  obtain x sv1 where c: "call w (\<lambda>t. ResolveActiveIncidents t [rcRule r] (sigServiceID sg) (sigStreamID sg) (sigID sg)
      (rcReason r)) sv = (x, sv1)" by fastforce
  have "R sv sv1" by (rule R_call [OF R_resolve c])
  then show ?case using c by (cases x) (auto intro: R_trans [OF _ R_trans [OF R_notifyAll Cons.IH]])
qed (simp add: R_refl)

lemma R_createActions: "R sv (snd (createActions w as sv))"
proof (induction "as" arbitrary: sv)
  case (Cons a "as")
  obtain x sv1 where c: "call w (\<lambda>t. CreateRemediationAction t a) sv = (x, sv1)" by fastforce
  have "R sv sv1" by (rule R_call [OF R_create c])
  then show ?case using c by (cases x) (auto intro: R_trans [OF _ Cons.IH])
qed (simp add: R_refl)

lemma R_storeDetected: "R sv (snd (storeDetected w sg ds sv))"
proof (induction ds arbitrary: sv)
  case (Cons d ds)
  obtain x sv1 where c: "call w (\<lambda>t. UpsertIncident t (detectedIncident (wEnv w) sg d)) sv = (x, sv1)" by fastforce
  have r1: "R sv sv1" by (rule R_call [OF R_upsert c])
  show ?case
  proof (cases x)
    case (Inr y)
    obtain stored created where y: "y = (stored, created)" by fastforce
    obtain err sv2 where e: "(if created then createRemediationActions w stored (notifyIncidentEvent w ''incident.opened'' stored sv1)
        else if incSeverityChanged stored then (None, notifyIncidentEvent w ''incident.updated'' stored sv1)
        else (None, sv1)) = (err, sv2)" by fastforce
    have "R sv1 (snd (createRemediationActions w stored (notifyIncidentEvent w ''incident.opened'' stored sv1)))"
      unfolding createRemediationActions_def by (rule R_trans [OF R_notify R_createActions])
    then have "R sv1 sv2" using e R_notify [of sv1] R_refl by (auto split: if_splits)
    then have "R sv sv2" by (rule R_trans [OF r1])
    then show ?thesis
      using c Inr y e R_trans [OF _ Cons.IH, of sv sv2]
      by (cases err) (auto simp: Let_def split: prod.splits sum.splits)
  qed (use c r1 in simp)
qed (simp add: R_refl)

lemma R_evaluate: "R sv (snd (evaluateAndStoreIncidents w sg sv))"
proof -
  obtain e sv1 where r: "resolveRecoveries w sg (evRecoveries (evaluateSignal (wEnv w) sg)) sv = (e, sv1)" by fastforce
  then have "R sv sv1" using R_recoveries by (metis snd_conv)
  then show ?thesis using r
    by (cases e) (auto simp: evaluateAndStoreIncidents_def Let_def intro: R_trans [OF _ R_storeDetected])
qed

end

text \<open>The stored signals, the verifiers and the latch are not touched by an evaluation.\<close>

definition sameSignals :: "Server \<Rightarrow> Server \<Rightarrow> bool" where
  "sameSignals sv sv' \<longleftrightarrow> signals (svStore sv') = signals (svStore sv) \<and> svIngestAuth sv' = svIngestAuth sv \<and>
     svAdminAuth sv' = svAdminAuth sv \<and> svLatch sv' = svLatch sv"

lemma resolveFold_signals: "signals (snd (foldl (resolveRule t svc str sg r) acc rules)) = signals (snd acc)"
  by (induction rules arbitrary: acc) (auto simp: resolveRule_def Let_def case_prod_unfold split: option.split)

lemma signals_frame:
  "signals (snd (ResolveActiveIncidents t rules svc str sg r s)) = signals s"
  "signals (snd (UpsertIncident t i s)) = signals s"
  "signals (snd (CreateRemediationAction t a s)) = signals s"
  by (simp_all add: ResolveActiveIncidents_def UpsertIncident_def CreateRemediationAction_def openIncident_def guarded_def
      Let_def resolveFold_signals case_prod_unfold split: option.split)

interpretation sg: evaluation_frame w sameSignals for w
proof
  show "sameSignals sv (notifyIncidentEvent w ev i sv)" for sv ev i
    using quiet_notify [of sv w ev i] by (simp add: quiet_def sameSignals_def)
qed (simp_all add: sameSignals_def call_def case_prod_unfold Let_def signals_frame)

text \<open>The deduper stays within its bound.\<close>

definition dedupeKept :: "goenv \<Rightarrow> Server \<Rightarrow> Server \<Rightarrow> bool" where
  "dedupeKept env sv sv' \<longleftrightarrow> (sha256Sized env \<and> dedupeOK (svDedupe sv) \<longrightarrow> dedupeOK (svDedupe sv'))"

lemma svDedupe_call [simp]: "svDedupe (snd (call w f sv)) = svDedupe sv"
  by (simp add: call_def case_prod_unfold Let_def)

lemma svDedupe_saved [simp]:
  "svDedupe (saveNotificationDeliveryResults w ev i rs sv) = svDedupe sv"
  "svDedupe (saveSuppressedNotificationDelivery w ev i n sv) = svDedupe sv"
proof -
  show "svDedupe (saveNotificationDeliveryResults w ev i rs sv) = svDedupe sv"
    unfolding saveNotificationDeliveryResults_def by (induction rs arbitrary: sv) simp_all
qed (simp add: saveSuppressedNotificationDelivery_def)

lemma dedupeKept_notify: "dedupeKept (wEnv w) sv (notifyIncidentEvent w ev i sv)"
  using reserve_dedupeOK [of "wEnv w" "svDedupe sv" ev i "tkNow (wTick w (svStep sv))"]
  by (auto simp: dedupeKept_def notifyIncidentEvent_def deliverNotificationEvent_def Let_def case_prod_unfold
      complete_dedupeOK split: option.split)

interpretation dd: evaluation_frame w "dedupeKept (wEnv w)" for w
proof
  show "dedupeKept (wEnv w) sv (notifyIncidentEvent w ev i sv)" for sv ev i by (rule dedupeKept_notify)
qed (simp_all add: dedupeKept_def)

end
