(* ===== verification/Server_Properties.thy ===== *)
theory Server_Properties
  imports Server_Safety
begin

text \<open>
  The properties of the whole server: what an ingest request may do and does, how counters are
  judged, and that every handler moves the store only along runs of its step relation.
\<close>

subsection \<open>Counters\<close>

definition latestValue :: "string \<Rightarrow> string \<Rightarrow> string \<Rightarrow> MemoryStore \<Rightarrow> float64 option" where
  "latestValue name svc str s =
     (case List.find (metricMatch name svc str) (rev (signals s)) of None \<Rightarrow> None | Some sg \<Rightarrow> sigValue sg)"

lemma LatestMetricValue_live: "tkCtx t = None \<Longrightarrow> LatestMetricValue t name svc str s = Inr (latestValue name svc str s)"
  by (simp add: LatestMetricValue_def latestValue_def split: option.split)

text \<open>The increase of a counter since its previous sample: none for a first sample or a reset.\<close>

definition counterIncrease :: "float64 \<Rightarrow> float64 option \<Rightarrow> float64" where
  "counterIncrease v previous =
     (case previous of None \<Rightarrow> Fin 0 | Some p \<Rightarrow> if fge v p then fsub v p else Fin 0)"

definition stampedAttrs :: "Signal \<Rightarrow> MemoryStore \<Rightarrow> attrs \<Rightarrow> bool" where
  "stampedAttrs sg s m \<longleftrightarrow>
     (\<forall>v. sigValue sg = Some v \<and> sigName sg \<in> set cumulativeCounterMetrics \<longrightarrow>
        attrGet m counterDeltaAttribute =
          Some (AFloat64 (counterIncrease v (latestValue (sigName sg) (sigServiceID sg) (sigStreamID sg) s))))"

lemma withCumulativeCounterDelta_live:
  assumes "liveWorld w"
  obtains m sv1 where "withCumulativeCounterDelta w sg sv = (Inr (sg\<lparr>sigAttributes := m\<rparr>), sv1)"
    "svStore sv1 = svStore sv" "stampedAttrs sg (svStore sv) m"
proof (cases "sigValue sg = None \<or> sigName sg \<notin> set cumulativeCounterMetrics")
  case True
  then have "withCumulativeCounterDelta w sg sv = (Inr sg, sv)"
    by (auto simp: withCumulativeCounterDelta_def split: option.split)
  with True show thesis by (intro that [of "sigAttributes sg" sv]) (auto simp: stampedAttrs_def)
next
  case False
  then obtain v where v: "sigValue sg = Some v" "sigName sg \<in> set cumulativeCounterMetrics" by auto
  have "tkCtx (wTick w (svStep sv)) = None" using assms by (simp add: liveWorld_def)
  note q = LatestMetricValue_live [OF this]
  let ?p = "latestValue (sigName sg) (sigServiceID sg) (sigStreamID sg) (svStore sv)"
  let ?a0 = "case sigAttributes sg of None \<Rightarrow> [] | Some kvs \<Rightarrow> kvs"
  let ?a1 = "AList.update counterDeltaAttribute (AFloat64 (counterIncrease v ?p)) ?a0"
  define a2 where
    "a2 = (if \<exists>p. ?p = Some p \<and> \<not> fge v p then AList.update ''observability.counter_reset'' (ABool True) ?a1 else ?a1)"
  have "withCumulativeCounterDelta w sg sv = (Inr (sg\<lparr>sigAttributes := Some a2\<rparr>), sv\<lparr>svStep := Suc (svStep sv)\<rparr>)"
    using v by (auto simp: withCumulativeCounterDelta_def query_def q a2_def counterIncrease_def split: option.split)
  moreover have "attrGet (Some a2) counterDeltaAttribute = Some (AFloat64 (counterIncrease v ?p))"
    by (simp add: attrGet_def update_conv counterDeltaAttribute_def a2_def)
  ultimately show thesis using v
    by (intro that [of "Some a2" "sv\<lparr>svStep := Suc (svStep sv)\<rparr>"]) (auto simp: stampedAttrs_def)
qed

lemma fsub_nonneg: "fge a b \<Longrightarrow> \<not> flt (fsub a b) (Fin 0)"
proof (cases a; cases b)
  fix x y assume "fge a b" "a = Fin x" "b = Fin y"
  moreover from this have "fge (round64 (x - y)) (Fin 0)" by (intro round64_nonneg) (simp add: fge_def)
  ultimately show ?thesis by (cases "round64 (x - y)") (auto simp: fge_def flt_def)
qed (auto simp: fge_def flt_def)

subsection \<open>An accepted signal\<close>

lemma settled_same:
  "incidents (svStore b) = incidents (svStore a) \<Longrightarrow> settled env sg b sv' = settled env sg a sv'"
  by (simp only: settled_def)

lemma call_saveSignal:
  assumes "liveWorld w"
  obtains saved sv1 where "call w (\<lambda>t. SaveSignal t sg) sv = (Inr saved, sv1)"
    "svStore sv1 = (svStore sv)\<lparr>signals := signals (svStore sv) @ [saved]\<rparr>"
    "sigName saved = sigName sg" "sigServiceID saved = sigServiceID sg" "sigServiceType saved = sigServiceType sg"
    "sigStreamID saved = sigStreamID sg" "sigValue saved = sigValue sg"
    "sigAttributes saved = (if sigAttributes sg = None then Some [] else sigAttributes sg)"
  using assms by (auto simp: call_def SaveSignal_def liveWorld_def Let_def intro!: that)

text \<open>What holds of the signal that is stored for an accepted request.\<close>

definition storedFor :: "Signal \<Rightarrow> MemoryStore \<Rightarrow> Signal \<Rightarrow> bool" where
  "storedFor signal s saved \<longleftrightarrow>
     sigName saved = sigName signal \<and> sigServiceID saved = sigServiceID signal \<and>
     sigServiceType saved = sigServiceType signal \<and> sigStreamID saved = sigStreamID signal \<and>
     sigValue saved = sigValue signal \<and>
     stampedAttrs signal s (sigAttributes saved)"

lemma ingestAccepted_live:
  assumes w: "liveWorld w" and ok: "storeOK (svStore sv)" and fresh: "\<forall>n. row sv (newID ''inc'' (wTick w n)) = None"
  obtains saved created sv' where "ingestAccepted w signal sv = ((202, PIngest (safeSignal saved) created), sv')"
    "storeOK (svStore sv')" "signals (svStore sv') = signals (svStore sv) @ [saved]"
    "settled (wEnv w) saved sv sv'" "storedFor signal (svStore sv) saved"
proof -
  obtain m sv1 where c: "withCumulativeCounterDelta w signal sv = (Inr (signal\<lparr>sigAttributes := m\<rparr>), sv1)"
    "svStore sv1 = svStore sv" "stampedAttrs signal (svStore sv) m"
    by (rule withCumulativeCounterDelta_live [OF w])
  obtain saved sv2 where s: "call w (\<lambda>t. SaveSignal t (signal\<lparr>sigAttributes := m\<rparr>)) sv1 = (Inr saved, sv2)"
    "svStore sv2 = (svStore sv1)\<lparr>signals := signals (svStore sv1) @ [saved]\<rparr>"
    "sigName saved = sigName signal" "sigServiceID saved = sigServiceID signal"
    "sigServiceType saved = sigServiceType signal" "sigStreamID saved = sigStreamID signal"
    "sigValue saved = sigValue signal" "sigAttributes saved = (if m = None then Some [] else m)"
    by (rule call_saveSignal [OF w, of "signal\<lparr>sigAttributes := m\<rparr>" sv1]) simp
  have ok2: "storeOK (svStore sv2)" "\<forall>n. row sv2 (newID ''inc'' (wTick w n)) = None"
    using ok fresh s(2) c(2) by simp_all
  obtain out sv3 where e: "evaluateAndStoreIncidents w saved sv2 = (Inr out, sv3)" "storeOK (svStore sv3)"
    "signals (svStore sv3) = signals (svStore sv2)" "settled (wEnv w) saved sv2 sv3"
    using evaluateAndStore_live [OF w ok2] by blast
  have "storedFor signal (svStore sv) saved"
    using s c(3) unfolding storedFor_def by (auto simp: attrGet_def stampedAttrs_def)
  moreover have "settled (wEnv w) saved sv sv3" using e(4) settled_same [of sv2 sv] by (simp add: s(2) c(2))
  ultimately show thesis
    using c s e by (intro that) (simp_all add: ingestAccepted_def)
qed

subsection \<open>Every path of an ingest request\<close>

lemma ingestRefusal_accepts:
  assumes "ingestRefusal subject body = Inr signal"
  obtains raw where "body = Some raw" "validateSignalAttributes (sigAttributes raw) = None"
    "validateSignalTopLevelFields raw = None"
    "subServiceID subject = [] \<or> (subServiceID subject = sigServiceID raw \<and> subServiceType subject = sigServiceType raw)"
    "signal = raw\<lparr>sigAttributes := safeSignalAttributes (sigAttributes raw)\<rparr>"
  using assms by (auto simp: ingestRefusal_def intro: that split: option.splits if_splits)

lemma ingestRefusal_refuses: "ingestRefusal subject body = Inl resp \<Longrightarrow> fst resp \<in> {400, 403}"
  by (auto simp: ingestRefusal_def split: option.splits if_splits)

lemma ingestSubject_refuses: "ingestSubject w rq sv = Inl resp \<Longrightarrow> fst resp \<in> {401, 403}"
  by (auto simp: ingestSubject_def Let_def case_prod_unfold split: option.splits if_splits)

text \<open>What an ingest may add to the stored signals, whatever fails on the way.\<close>

definition addsSignal :: "Signal \<Rightarrow> int \<Rightarrow> Server \<Rightarrow> Server \<Rightarrow> bool" where
  "addsSignal signal code sv sv' \<longleftrightarrow>
     (\<exists>added. signals (svStore sv') = signals (svStore sv) @ added \<and> length added \<le> 1 \<and>
        (code = 202 \<longrightarrow> length added = 1) \<and>
        (\<forall>saved\<in>set added. sigServiceID saved = sigServiceID signal \<and> sigServiceType saved = sigServiceType signal))"

lemma SaveSignal_cases:
  "SaveSignal t sg s = (r, s') \<Longrightarrow>
     (\<exists>e. r = Inl e \<and> s' = s) \<or>
     (\<exists>saved. r = Inr saved \<and> s' = s\<lparr>signals := signals s @ [saved]\<rparr> \<and> sigServiceID saved = sigServiceID sg \<and>
        sigServiceType saved = sigServiceType sg)"
  by (auto simp: SaveSignal_def Let_def guarded_eq)

lemma withCumulativeCounterDelta_frame:
  assumes "withCumulativeCounterDelta w sg sv = (r, sv1)"
  shows "svStore sv1 = svStore sv \<and> (\<forall>sg1. r = Inr sg1 \<longrightarrow> sigServiceID sg1 = sigServiceID sg \<and> sigServiceType sg1 = sigServiceType sg)"
  using assms
  by (auto simp: withCumulativeCounterDelta_def query_def Let_def case_prod_unfold split: option.splits sum.splits if_splits)

lemma ingestAccepted_paths:
  assumes "ingestAccepted w signal sv = (resp, sv')"
  shows "fst resp \<in> {202, 500} \<and> addsSignal signal (fst resp) sv sv'"
proof -
  obtain r sv1 where c: "withCumulativeCounterDelta w signal sv = (r, sv1)" by fastforce
  note f = withCumulativeCounterDelta_frame [OF c]
  show ?thesis
  proof (cases r)
    case (Inl e)
    then show ?thesis using assms c f by (auto simp: ingestAccepted_def addsSignal_def)
  next
    case (Inr sg1)
    obtain r2 sv2 where s: "call w (\<lambda>t. SaveSignal t sg1) sv1 = (r2, sv2)" by fastforce
    then have st: "SaveSignal (wTick w (svStep sv1)) sg1 (svStore sv1) = (r2, svStore sv2)"
      by (auto simp: call_def Let_def split: prod.splits)
    show ?thesis
    proof (cases r2)
      case r2: (Inl e)
      then show ?thesis using assms c f s SaveSignal_cases [OF st] Inr by (auto simp: ingestAccepted_def addsSignal_def)
    next
      case r2: (Inr saved)
      obtain r3 sv3 where e: "evaluateAndStoreIncidents w saved sv2 = (r3, sv3)" by fastforce
      then have "signals (svStore sv3) = signals (svStore sv2)"
        using sg.R_evaluate [of sv2 w saved] by (simp add: sameSignals_def)
      then show ?thesis using assms c f s SaveSignal_cases [OF st] Inr r2 e
        by (cases r3) (auto simp: ingestAccepted_def addsSignal_def)
    qed
  qed
qed

subsection \<open>A concrete server\<close>

definition demoWorld :: world where
  "demoWorld = \<lparr>wCtl = \<lparr>ctGo = concreteEnv [], ctUnquote = (\<lambda>_. None), ctDuration = (\<lambda>_. None), ctVersion = []\<rparr>,
     wTick = (\<lambda>n. \<lparr>tkCtx = None, tkNow = int n + 1, tkRand = Some ''r''\<rparr>), wFile = (\<lambda>_. FileMissing), wNotifier = None,
     wSelective = False, wExecutor = None, wFormatTime = (\<lambda>_. ''t''), wParseTime = (\<lambda>_. None), wNet = sampleNet,
     wOutside = (\<lambda>_. \<lparr>osHTTP = (\<lambda>_ _. HTTPStatus 200), osSMTP = (\<lambda>_ _. None), osRelay = None, osSleep = (\<lambda>_. None)\<rparr>),
     wSelfMetrics = (\<lambda>_. [])\<rparr>"

text \<open>One token, bound to the worker \<^verbatim>\<open>w1\<close>; one earlier sample of the counter.\<close>

definition demoSample :: Signal where
  "demoSample = \<lparr>sigID = ''s0'', sigType = ''metric'', sigName = ''rtmp.reconnect_count'', sigServiceID = ''w1'',
     sigServiceType = ''worker'', sigStreamID = [], sigStatus = ''live'', sigValue = Some (Fin 7), sigAttributes = None,
     sigTimestamp = 0, sigCreatedAt = 0\<rparr>"

definition demoServer :: Server where
  "demoServer = \<lparr>svServiceType = ''observability'',
     svIngestAuth = NewVerifierWithSubjects (concreteEnv []) sampleBinding [], svAdminAuth = zeroVerifier,
     svStore = NewMemoryStore\<lparr>signals := [demoSample]\<rparr>, svDedupe = zeroDeduper,
     svLatch = NewUpdaterIdentityLatch ''observability'', svStep = 0\<rparr>"

definition demoRequest :: request where
  "demoRequest = \<lparr>rqAuthorization = ''Bearer tok'', rqID = [], rqQuery = (\<lambda>_. []), rqNodeFile = FileMissing\<rparr>"

definition demoSignal :: Signal where
  "demoSignal = demoSample\<lparr>sigID := ''s1'', sigValue := Some (Fin 12)\<rparr>"

lemma demo_subject: "ingestSubject demoWorld demoRequest demoServer = Inr \<lparr>subServiceType = ''worker'', subServiceID = ''w1''\<rparr>"
  by (simp add: ingestSubject_def VerifyRequestSubject_def VerifyTokenSubject_def demoWorld_def demoRequest_def demoServer_def
      CutPrefix_def HasPrefix_def NewVerifierWithSubjects_def NewVerifierFromRawTokens_def sampleBinding_def Let_def
      zeroVerifier_def go_eval)

lemma demo_accepted: "ingestRefusal \<lparr>subServiceType = ''worker'', subServiceID = ''w1''\<rparr> (Some demoSignal) =
    Inr (demoSignal\<lparr>sigAttributes := Some []\<rparr>)"
  by (simp add: ingestRefusal_def demoSignal_def demoSample_def validateSignalTopLevelFields_def unsafeSignalField_def
      validateSignalAttributes_def safeSignalAttributes_def safeEvidenceValue_def
      secretValue_def secretValuePrefixes_def standaloneSecretPatterns_def sensitivePatterns_def clipEvidence_def
      Let_def go_eval HasPrefix_def rxSearch_def runes_def runesB.simps atBoundary_def litRune_def foldLit_def
      foldRune_def wordRune_def)

lemma demo_live: "liveWorld demoWorld" "storeOK (svStore demoServer)"
  "\<forall>n. row demoServer (newID ''inc'' (wTick demoWorld n)) = None"
  by (simp_all add: liveWorld_def demoWorld_def demoServer_def storeOK_empty) (simp add: NewMemoryStore_def)

subsection \<open>Properties\<close>

text \<open>
  C2: an accepted signal takes effect.  In a server whose store calls do not fail, with a store
  that satisfies its invariant and fresh random identifiers, an ingest request that passes
  authentication and the checks of its body is answered 202; the signal is stored once, with the
  identity it was accepted for; afterwards no incident of a rule it recovers is active, every rule
  it raises has exactly one active incident, carrying this signal, and every other incident is as
  before.  The store keeps its invariant.
\<close>

theorem ingest_settles:
  assumes "liveWorld w" "storeOK (svStore sv)" "\<forall>n. row sv (newID ''inc'' (wTick w n)) = None"
    "ingestSubject w rq sv = Inr subject" "ingestRefusal subject body = Inr signal"
  shows "\<exists>saved created sv'. ingestSignal w rq body sv = ((202, PIngest (safeSignal saved) created), sv') \<and>
    storeOK (svStore sv') \<and> signals (svStore sv') = signals (svStore sv) @ [saved] \<and>
    storedFor signal (svStore sv) saved \<and> settled (wEnv w) saved sv sv'"
proof -
  obtain saved created sv' where "ingestAccepted w signal sv = ((202, PIngest (safeSignal saved) created), sv')"
    "storeOK (svStore sv')" "signals (svStore sv') = signals (svStore sv) @ [saved]"
    "settled (wEnv w) saved sv sv'" "storedFor signal (svStore sv) saved"
    by (rule ingestAccepted_live [OF assms(1-3)])
  then show ?thesis using assms(4,5) by (simp add: ingestSignal_def)
qed

theorem ingest_settles_witness:
  "\<exists>saved created sv'. ingestSignal demoWorld demoRequest (Some demoSignal) demoServer =
      ((202, PIngest (safeSignal saved) created), sv') \<and>
    storeOK (svStore sv') \<and> signals (svStore sv') = signals (svStore demoServer) @ [saved] \<and>
    storedFor (demoSignal\<lparr>sigAttributes := Some []\<rparr>) (svStore demoServer) saved \<and>
    settled (wEnv demoWorld) saved demoServer sv'"
  by (rule ingest_settles [OF demo_live demo_subject demo_accepted])

text \<open>
  C5: what an ingest request may do, on every path and with any failure of the store.  It is
  answered 202, 400, 401, 403 or 500; a refused request (400, 401, 403) leaves the whole server
  unchanged; a state change requires an accepted token and a body that passed the checks, and a
  token bound to a service only ever adds a signal of that service, at most one.
\<close>

theorem ingest_authority:
  "let (resp, sv') = ingestSignal w rq body sv in
     fst resp \<in> {202, 400, 401, 403, 500} \<and>
     (fst resp \<in> {400, 401, 403} \<longrightarrow> sv' = sv) \<and>
     (sv' \<noteq> sv \<longrightarrow>
       (\<exists>subject raw. ingestSubject w rq sv = Inr subject \<and> body = Some raw \<and>
          validateSignalTopLevelFields raw = None \<and> validateSignalAttributes (sigAttributes raw) = None \<and>
          (subServiceID subject = [] \<or>
             (sigServiceID raw = subServiceID subject \<and> sigServiceType raw = subServiceType subject)) \<and>
          addsSignal raw (fst resp) sv sv'))"
proof (cases "ingestSubject w rq sv")
  case (Inl resp)
  then show ?thesis using ingestSubject_refuses [OF Inl] by (auto simp: ingestSignal_def)
next
  case subject: (Inr subject)
  show ?thesis
  proof (cases "ingestRefusal subject body")
    case (Inl resp)
    then show ?thesis using ingestRefusal_refuses [OF Inl] subject by (auto simp: ingestSignal_def)
  next
    case (Inr signal)
    obtain raw where raw: "body = Some raw" "validateSignalAttributes (sigAttributes raw) = None"
      "validateSignalTopLevelFields raw = None"
      "subServiceID subject = [] \<or> (subServiceID subject = sigServiceID raw \<and> subServiceType subject = sigServiceType raw)"
      "signal = raw\<lparr>sigAttributes := safeSignalAttributes (sigAttributes raw)\<rparr>"
      by (rule ingestRefusal_accepts [OF Inr])
    obtain resp sv' where a: "ingestAccepted w signal sv = (resp, sv')" by fastforce
    then have e: "ingestSignal w rq body sv = (resp, sv')" using subject Inr by (simp add: ingestSignal_def)
    from ingestAccepted_paths [OF a] have "fst resp \<in> {202, 500}" "addsSignal raw (fst resp) sv sv'"
      by (simp_all add: addsSignal_def raw(5))
    then show ?thesis using raw subject unfolding e by auto
  qed
qed

theorem ingest_authority_witness:
  "let (resp, sv') = ingestSignal demoWorld (demoRequest\<lparr>rqAuthorization := ''Basic tok''\<rparr>) (Some demoSignal) demoServer in
     fst resp = 401 \<and> sv' = demoServer"
proof -
  let ?rq = "demoRequest\<lparr>rqAuthorization := ''Basic tok''\<rparr>"
  have "ingestSignal demoWorld ?rq (Some demoSignal) demoServer = ((401, PCode ''invalid_service_token''), demoServer)"
    by (simp add: ingestSignal_def ingestSubject_def VerifyRequestSubject_def AuthorizeRequest_def demoRequest_def
        CutPrefix_def HasPrefix_def)
  with ingest_authority [of demoWorld ?rq "Some demoSignal" demoServer] show ?thesis by simp
qed

text \<open>
  C7: a cumulative counter is judged by its increase.  For an accepted sample of one of the
  counter metrics the detection rules see the increase since the previous sample of the same
  metric, service and stream (nothing for the first sample and after a reset), whatever the client
  wrote into the attributes, and the raw value is what the next sample is compared with.
\<close>

theorem counter_judged_by_increase:
  assumes "liveWorld w" "storeOK (svStore sv)" "\<forall>n. row sv (newID ''inc'' (wTick w n)) = None"
    "ingestSubject w rq sv = Inr subject" "ingestRefusal subject body = Inr signal"
    "sigValue signal = Some v" "sigName signal \<in> set cumulativeCounterMetrics"
  shows "\<exists>saved created sv'. ingestSignal w rq body sv = ((202, PIngest (safeSignal saved) created), sv') \<and>
    signals (svStore sv') = signals (svStore sv) @ [saved] \<and>
    cumulativeCounterValue (wEnv w) (detectionSignal saved) =
      counterIncrease v (latestValue (sigName signal) (sigServiceID signal) (sigStreamID signal) (svStore sv)) \<and>
    latestValue (sigName signal) (sigServiceID signal) (sigStreamID signal) (svStore sv') = Some v"
proof -
  let ?p = "latestValue (sigName signal) (sigServiceID signal) (sigStreamID signal)"
  obtain saved created sv' where a: "ingestAccepted w signal sv = ((202, PIngest (safeSignal saved) created), sv')"
    "storeOK (svStore sv')" "signals (svStore sv') = signals (svStore sv) @ [saved]"
    "settled (wEnv w) saved sv sv'" "storedFor signal (svStore sv) saved"
    by (rule ingestAccepted_live [OF assms(1-3)])
  have attr: "attrGet (sigAttributes saved) counterDeltaAttribute = Some (AFloat64 (counterIncrease v (?p (svStore sv))))"
    using a(5) assms(6,7) by (simp add: storedFor_def stampedAttrs_def)
  have nn: "\<not> flt (counterIncrease v x) (Fin 0)" for x
    using fsub_nonneg by (simp add: counterIncrease_def flt_def split: option.split)
  have "attrFloat (wEnv w) (sAttributes (detectionSignal saved)) ''observability.counter_delta'' =
      Some (counterIncrease v (?p (svStore sv)))"
    using attr by (simp add: attrFloat_def detectionSignal_def counterDeltaAttribute_def)
  then have "cumulativeCounterValue (wEnv w) (detectionSignal saved) = counterIncrease v (?p (svStore sv))"
    using nn by (simp add: cumulativeCounterValue_def)
  moreover have "?p (svStore sv') = Some v"
    using a(3,5) assms(6) by (simp add: latestValue_def metricMatch_def storedFor_def)
  ultimately show ?thesis using a(1,3) assms(4,5) by (auto simp: ingestSignal_def)
qed

theorem counter_judged_by_increase_witness:
  "\<exists>saved created sv'. ingestSignal demoWorld demoRequest (Some demoSignal) demoServer =
      ((202, PIngest (safeSignal saved) created), sv') \<and>
    signals (svStore sv') = signals (svStore demoServer) @ [saved] \<and>
    cumulativeCounterValue (wEnv demoWorld) (detectionSignal saved) = Fin 5 \<and>
    latestValue ''rtmp.reconnect_count'' ''w1'' [] (svStore sv') = Some (Fin 12)"
proof -
  let ?sg = "demoSignal\<lparr>sigAttributes := Some []\<rparr>"
  have v: "sigValue ?sg = Some (Fin 12)" and n: "sigName ?sg \<in> set cumulativeCounterMetrics"
    by (simp_all add: demoSignal_def demoSample_def cumulativeCounterMetrics_def)
  have "latestValue ''rtmp.reconnect_count'' ''w1'' [] (svStore demoServer) = Some (Fin 7)"
    by (simp add: latestValue_def demoServer_def metricMatch_def demoSample_def)
  moreover have "round64 5 = Fin 5" using round64_exact_int [of 5] by simp
  ultimately show ?thesis
    using counter_judged_by_increase [OF demo_live demo_subject demo_accepted v n]
    by (simp add: demoSignal_def demoSample_def counterIncrease_def fge_def)
qed

end
