(* ===== verification/Server_Channels.thy ===== *)
theory Server_Channels
  imports Server
begin

text \<open>
  The handlers of \<^verbatim>\<open>internal/httpapi/server.go\<close> for notification channels and notification events.
  The body of a request is \<open>None\<close> when it could not be decoded.
\<close>

abbreviation shownChannel :: "world \<Rightarrow> NotificationChannel \<Rightarrow> publicNotificationChannelResponse" where
  "shownChannel w \<equiv> publicNotificationChannel (wFormatTime w)"

text \<open>The refusal of a request that asks for the global relay and brings SMTP settings of its own.\<close>

definition contradictorySMTP :: "notificationChannelRequest \<Rightarrow> bool" where
  "contradictorySMTP body \<longleftrightarrow> crUseGlobalSMTP body = Some True \<and> hasLegacySMTPRequest body"

text \<open>
  The last check of both handlers, on the channel \<open>c\<close> as it will be: \<open>Inr\<close> with the address to store
  when the channel is a webhook.  The update looks at the address only when there is one, which the
  channel's validity, tested before, already says.
\<close>

definition checkedDestination :: "netenv \<Rightarrow> NotificationChannel \<Rightarrow> response + string option" where
  "checkedDestination net c =
     (if chType c = ''email'' then
        (case ValidateSMTPChannel net c of Some _ \<Rightarrow> Inl (400, PCode ''invalid_smtp_channel'') | None \<Rightarrow> Inr None)
      else
        (case NormalizeWebhookURLForType net (chWebhookURL c) (chType c) of
           Inl _ \<Rightarrow> Inl (400, PCode ''invalid_webhook_url'')
         | Inr normalizedURL \<Rightarrow> Inr (Some normalizedURL)))"

definition withURL :: "string option \<Rightarrow> NotificationChannel \<Rightarrow> NotificationChannel" where
  "withURL u c = (case u of None \<Rightarrow> c | Some x \<Rightarrow> c\<lparr>chWebhookURL := x\<rparr>)"

definition createNotificationChannel :: "world \<Rightarrow> request \<Rightarrow> notificationChannelRequest option \<Rightarrow> Server \<Rightarrow> response \<times> Server" where
  "createNotificationChannel w rq decoded sv =
     (case authorizeAdmin w rq ''notifications.manage'' sv of
        Some resp \<Rightarrow> (resp, sv)
      | None \<Rightarrow>
         (case decoded of
            None \<Rightarrow> ((400, PCode ''bad_request''), sv)
          | Some body \<Rightarrow>
              if contradictorySMTP body then ((400, PCode ''invalid_notification_channel''), sv)
              else
               (let channel = notificationChannelFromRequest body in
                if chName channel = [] \<or> \<not> validNotificationChannelConfig (wEnv w) channel
                then ((400, PCode ''invalid_notification_channel''), sv)
                else case checkedDestination (wNetenv w) channel of
                  Inl resp \<Rightarrow> (resp, sv)
                | Inr u \<Rightarrow>
                   (case call w (\<lambda>t. CreateNotificationChannel (wEnv w) t (withURL u channel)) sv of
                      (Inl ErrSecretKeyRequired, sv1) \<Rightarrow> ((503, PCode ''secret_encryption_key_required''), sv1)
                    | (Inl _, sv1) \<Rightarrow> ((500, PCode ''create_notification_channel_failed''), sv1)
                    | (Inr created, sv1) \<Rightarrow> ((201, PChannel (shownChannel w created)), sv1)))))"

definition getNotificationChannel :: "world \<Rightarrow> request \<Rightarrow> Server \<Rightarrow> response \<times> Server" where
  "getNotificationChannel w rq sv =
     (case authorizeAdmin w rq ''notifications.read'' sv of
        Some resp \<Rightarrow> (resp, sv)
      | None \<Rightarrow>
         (case query w (\<lambda>t. GetNotificationChannel (wEnv w) t (rqID rq)) sv of
            (Inl ErrNotFound, sv1) \<Rightarrow> ((404, PCode ''not_found''), sv1)
          | (Inl _, sv1) \<Rightarrow> ((500, PCode ''get_notification_channel_failed''), sv1)
          | (Inr channel, sv1) \<Rightarrow> ((200, PChannel (shownChannel w channel)), sv1)))"

definition listNotificationChannels :: "world \<Rightarrow> request \<Rightarrow> Server \<Rightarrow> response \<times> Server" where
  "listNotificationChannels w rq sv =
     (case authorizeAdmin w rq ''notifications.read'' sv of
        Some resp \<Rightarrow> (resp, sv)
      | None \<Rightarrow>
         (case query w (\<lambda>t. ListNotificationChannels (wEnv w) t) sv of
            (Inl _, sv1) \<Rightarrow> ((500, PCode ''list_notification_channels_failed''), sv1)
          | (Inr cs, sv1) \<Rightarrow> ((200, PChannels (publicNotificationChannels (wFormatTime w) cs)), sv1)))"

text \<open>The part of \<^verbatim>\<open>updateNotificationChannel\<close> after the stored channel was read.\<close>

definition storeChannelUpdate :: "world \<Rightarrow> NotificationChannel \<Rightarrow> NotificationChannel \<Rightarrow> Server \<Rightarrow> response \<times> Server" where
  "storeChannelUpdate w channel existing sv =
     (let effective = effectiveNotificationChannel existing channel in
      if chName effective = [] \<or> \<not> validNotificationChannelConfig (wEnv w) effective
      then ((400, PCode ''invalid_notification_channel''), sv)
      else case checkedDestination (wNetenv w) effective of
        Inl resp \<Rightarrow> (resp, sv)
      | Inr u \<Rightarrow>
         (case call w (\<lambda>t. UpdateNotificationChannel (wEnv w) t (withURL u channel)) sv of
            (Inl ErrNotFound, sv1) \<Rightarrow> ((404, PCode ''not_found''), sv1)
          | (Inl ErrSecretKeyRequired, sv1) \<Rightarrow> ((503, PCode ''secret_encryption_key_required''), sv1)
          | (Inl _, sv1) \<Rightarrow> ((500, PCode ''update_notification_channel_failed''), sv1)
          | (Inr updated, sv1) \<Rightarrow> ((200, PChannel (shownChannel w updated)), sv1)))"

text \<open>
  The handler takes the store twice, to read the channel and to update it, and other requests may be served in
  between: \<open>seen\<close> is the server as it reads the channel, \<open>sv\<close> the server as it writes.
\<close>

definition updateNotificationChannel ::
  "world \<Rightarrow> request \<Rightarrow> notificationChannelRequest option \<Rightarrow> Server \<Rightarrow> Server \<Rightarrow> response \<times> Server" where
  "updateNotificationChannel w rq decoded seen sv =
     (case authorizeAdmin w rq ''notifications.manage'' seen of
        Some resp \<Rightarrow> (resp, sv)
      | None \<Rightarrow>
         (case decoded of
            None \<Rightarrow> ((400, PCode ''bad_request''), sv)
          | Some body \<Rightarrow>
              if contradictorySMTP body then ((400, PCode ''invalid_notification_channel''), sv)
              else
               (let sv1 = sv\<lparr>svStep := Suc (svStep sv)\<rparr> in
                case fst (query w (\<lambda>t. GetNotificationChannel (wEnv w) t (rqID rq)) seen) of
                  Inl ErrNotFound \<Rightarrow> ((404, PCode ''not_found''), sv1)
                | Inl _ \<Rightarrow> ((500, PCode ''get_notification_channel_failed''), sv1)
                | Inr existing \<Rightarrow>
                    storeChannelUpdate w ((notificationChannelFromRequest body)\<lparr>chID := rqID rq\<rparr>) existing sv1)))"

definition deleteNotificationChannel :: "world \<Rightarrow> request \<Rightarrow> Server \<Rightarrow> response \<times> Server" where
  "deleteNotificationChannel w rq sv =
     (case authorizeAdmin w rq ''notifications.manage'' sv of
        Some resp \<Rightarrow> (resp, sv)
      | None \<Rightarrow>
         (case call w (\<lambda>t. DeleteNotificationChannel t (rqID rq)) sv of
            (Inl ErrNotFound, sv1) \<Rightarrow> ((404, PCode ''not_found''), sv1)
          | (Inl _, sv1) \<Rightarrow> ((500, PCode ''delete_notification_channel_failed''), sv1)
          | (Inr _, sv1) \<Rightarrow> ((200, PCode ''deleted''), sv1)))"

definition channelTestIncident :: "string \<Rightarrow> Incident" where
  "channelTestIncident serviceType = zeroIncident\<lparr>incID := ''test'', incRule := ''notification_test'', incSeverity := ''info'',
     incStatus := ''open'', incSummaryJA := ''Notification channel test.'', incServiceID := serviceType\<rparr>"

definition testNotificationChannel :: "world \<Rightarrow> request \<Rightarrow> Server \<Rightarrow> response \<times> Server" where
  "testNotificationChannel w rq sv =
     (case authorizeAdmin w rq ''notifications.manage'' sv of
        Some resp \<Rightarrow> (resp, sv)
      | None \<Rightarrow>
         (case query w (\<lambda>t. GetNotificationChannel (wEnv w) t (rqID rq)) sv of
            (Inl ErrNotFound, sv1) \<Rightarrow> ((404, PCode ''not_found''), sv1)
          | (Inl _, sv1) \<Rightarrow> ((500, PCode ''get_notification_channel_failed''), sv1)
          | (Inr channel, sv1) \<Rightarrow>
             (let incident = channelTestIncident (svServiceType sv1);
                  delivered = fst (notifyChannel (wNetenv w) (wOutside w (svStep sv1))
                    \<lparr>cnRetryMax = 0, cnRetryBaseDelay = second, cnAllowPrivate = False\<rparr> channel ''incident.opened'');
                  results = map (\<lambda>d. d\<lparr>drTarget := notificationChannelTarget channel\<rparr>) delivered;
                  sv2 = sv1\<lparr>svStep := Suc (svStep sv1)\<rparr>
              in ((202, PResults results), saveNotificationDeliveryResults w ''incident.opened'' incident results sv2))))"

definition createNotificationEvent :: "world \<Rightarrow> request \<Rightarrow> notificationEventRequest option \<Rightarrow> Server \<Rightarrow> response \<times> Server" where
  "createNotificationEvent w rq decoded sv =
     (case authorizeAdmin w rq ''notifications.manage'' sv of
        Some resp \<Rightarrow> (resp, sv)
      | None \<Rightarrow>
         (case decoded of
            None \<Rightarrow> ((400, PCode ''bad_request''), sv)
          | Some body \<Rightarrow>
             (let eventType = TrimSpace (erEventType body) in
              if eventType = [] then ((400, PCode ''event_type_required''), sv)
              else if \<not> validNotificationEventType eventType then ((400, PCode ''invalid_notification_event''), sv)
              else case notificationIncidentFromRequest (wParseTime w) body (svServiceType sv) of
                Inl _ \<Rightarrow> ((400, PCode ''invalid_notification_event''), sv)
              | Inr incident \<Rightarrow>
                 (let (results, sv1) = deliverNotificationEvent w eventType incident sv
                  in ((202, PResults results), sv1)))))"

end
