(* ===== verification/Channel_Safety.thy ===== *)
theory Channel_Safety
  imports Server_Channels
begin

text \<open>
  What the stored notification channels satisfy, whatever requests configured them.
\<close>

subsection \<open>Valid channels\<close>

text \<open>The address was accepted by the policy for a channel type that the store records as \<open>ty\<close>.\<close>

definition acceptedURL :: "netenv \<Rightarrow> string \<Rightarrow> string \<Rightarrow> bool" where
  "acceptedURL net ty url \<longleftrightarrow> (\<exists>raw t. normalizeChannelType t = ty \<and> NormalizeWebhookURLForType net raw t = Inr url)"

definition channelOK :: "netenv \<Rightarrow> NotificationChannel \<Rightarrow> bool" where
  "channelOK net c \<longleftrightarrow> normalizeChannelType (chType c) = chType c \<and>
     (chType c = ''email'' \<and> safeEmailRecipients (neGo net) (recipientsOf c) \<or> acceptedURL net (chType c) (chWebhookURL c))"

definition channelsOK :: "netenv \<Rightarrow> MemoryStore \<Rightarrow> bool" where
  "channelsOK net s \<longleftrightarrow> list_all (channelOK net) (map snd (channels s))"

text \<open>
  \<^verbatim>\<open>url.Parse\<close> finds no host in the empty text, and a URL with a host is never printed as the empty
  text.
\<close>

definition urlLaws :: "netenv \<Rightarrow> bool" where
  "urlLaws net \<longleftrightarrow> (\<forall>u. urlParse (neGo net) [] = Some u \<longrightarrow> urlHost u = []) \<and> (\<forall>u. urlHost u \<noteq> [] \<longrightarrow> neURLString net u \<noteq> [])"

lemma normalized_nonempty:
  assumes "urlLaws net" "NormalizeWebhookURLForTypeWithPolicy net raw ty p = Inr url"
  shows "url \<noteq> []"
  using assms
  by (auto simp: NormalizeWebhookURLForTypeWithPolicy_def urlLaws_def Let_def split: option.split_asm if_split_asm)

lemma normalizeChannelType_known:
  "normalizeChannelType ''email'' = ''email''" "normalizeChannelType ''discord'' = ''discord''"
  "normalizeChannelType ''slack'' = ''slack''" "normalizeChannelType ''generic'' = ''generic''"
  by (simp_all add: normalizeChannelType_def Let_def go_eval)

lemma normalizeChannelType_idem [simp]: "normalizeChannelType (normalizeChannelType v) = normalizeChannelType v"
  using normalizeChannelType_cases [of v] normalizeChannelType_known by auto

lemma normalizeSecrets_fields [simp]:
  "chType (normalizeNotificationChannelSecrets env c) = chType c"
  "chWebhookURL (normalizeNotificationChannelSecrets env c) = chWebhookURL c"
  "chEmailRecipients (normalizeNotificationChannelSecrets env c) = chEmailRecipients c"
  by (auto simp: normalizeNotificationChannelSecrets_def chooseSMTP_def clearLegacySMTPConfiguration_def Let_def)

lemma normalizeSecrets_recipients [simp]: "recipientsOf (normalizeNotificationChannelSecrets env c) = recipientsOf c"
  by (simp add: recipientsOf_def)

lemma channelOK_fields:
  assumes "chType c = chType d" "chWebhookURL c = chWebhookURL d" "recipientsOf c = recipientsOf d"
  shows "channelOK net c = channelOK net d"
  using assms by (simp add: channelOK_def)

text \<open>What the last check of a handler lets through is what makes a channel valid.\<close>

lemma checked_email:
  "checkedDestination net c = Inr u \<Longrightarrow> chType c = ''email'' \<Longrightarrow> u = None"
  by (auto simp: checkedDestination_def split: option.split_asm)

lemma checked_webhook:
  "checkedDestination net c = Inr u \<Longrightarrow> chType c \<noteq> ''email'' \<Longrightarrow>
   \<exists>url. u = Some url \<and> NormalizeWebhookURLForType net (chWebhookURL c) (chType c) = Inr url"
  by (auto simp: checkedDestination_def split: sum.split_asm)

lemma valid_email: "validNotificationChannelConfig env c \<Longrightarrow> chType c = ''email'' \<Longrightarrow> safeEmailRecipients env (recipientsOf c)"
  by (simp add: validNotificationChannelConfig_def split: if_split_asm)

lemma created_channelOK:
  assumes "validNotificationChannelConfig (neGo net) c" "checkedDestination net c = Inr u"
    and "chType d = normalizeChannelType (chType c)" "chWebhookURL d = chWebhookURL (withURL u c)"
    and "recipientsOf d = recipientsOf c"
  shows "channelOK net d"
proof (cases "chType c = ''email''")
  case True
  then show ?thesis
    using assms(3,5) valid_email [OF assms(1)] normalizeChannelType_known(1) by (simp add: channelOK_def)
next
  case False
  then obtain url where url: "u = Some url" "NormalizeWebhookURLForType net (chWebhookURL c) (chType c) = Inr url"
    using checked_webhook [OF assms(2)] by blast
  then have "acceptedURL net (chType d) (chWebhookURL d)"
    using assms(3,4) by (auto simp: acceptedURL_def withURL_def)
  then show ?thesis using assms(3) by (simp add: channelOK_def)
qed

lemma updated_channelOK:
  assumes "urlLaws net" "channelOK net ex"
    and "validNotificationChannelConfig (neGo net) (effectiveNotificationChannel (publicChannel env ex) ch)"
    and "checkedDestination net (effectiveNotificationChannel (publicChannel env ex) ch) = Inr u"
    and "chType d = chType (mergeChannel (withURL u ch) ex)" "chWebhookURL d = chWebhookURL (mergeChannel (withURL u ch) ex)"
    and "recipientsOf d = recipientsOf (mergeChannel (withURL u ch) ex)"
  shows "channelOK net d"
proof -
  let ?e = "effectiveNotificationChannel (publicChannel env ex) ch"
  have wt: "chType (withURL u ch) = chType ch" "chEmailRecipients (withURL u ch) = chEmailRecipients ch"
    by (simp_all add: withURL_def split: option.split)
  have ty: "chType d = normalizeChannelType (chType ?e)"
    using assms(2) by (simp add: assms(5) merge_chType effective_chType wt channelOK_def publicChannel_def)
  have rs: "recipientsOf d = recipientsOf ?e"
    unfolding assms(7) by (simp add: recipientsOf_def merge_chEmailRecipients effective_chEmailRecipients wt publicChannel_def
        cong: option.case_cong)
  show ?thesis
  proof (cases "chType ?e = ''email''")
    case True
    then show ?thesis using ty rs valid_email [OF assms(3)] normalizeChannelType_known(1) by (simp add: channelOK_def)
  next
    case False
    then obtain url where url: "u = Some url" "NormalizeWebhookURLForType net (chWebhookURL ?e) (chType ?e) = Inr url"
      using checked_webhook [OF assms(4)] by blast
    then have "url \<noteq> []" using normalized_nonempty [OF assms(1)] unfolding NormalizeWebhookURLForType_def by blast
    then have "chWebhookURL d = url" using url(1) by (simp add: assms(6) merge_chWebhookURL withURL_def)
    then have "acceptedURL net (chType d) (chWebhookURL d)"
      using url(2) ty by (auto simp: acceptedURL_def)
    then show ?thesis using ty by (simp add: channelOK_def)
  qed
qed

subsection \<open>The handlers keep stored channels valid\<close>

lemma channelsOK_update:
  "channelsOK net s \<Longrightarrow> channelOK net c \<Longrightarrow> channels s' = AList.update k c (channels s) \<Longrightarrow> channelsOK net s'"
  using set_update_subset [of k c "channels s"] by (auto simp: channelsOK_def list_all_iff)

lemma channelsOK_get: "channelsOK net s \<Longrightarrow> map_of (channels s) k = Some c \<Longrightarrow> channelOK net c"
  by (force simp: channelsOK_def list_all_iff dest: map_of_SomeD)

lemma channelsOK_same: "channels s' = channels s \<Longrightarrow> channelsOK net s' = channelsOK net s"
  by (simp add: channelsOK_def)

lemma channelsOK_delete: "channelsOK net s \<Longrightarrow> channelsOK net (snd (DeleteNotificationChannel t k s))"
  by (auto simp: channelsOK_def list_all_iff DeleteNotificationChannel_def guarded_def AList.delete_eq split: option.split)

lemma channelsOK_create:
  assumes "channelsOK net s" "validNotificationChannelConfig (neGo net) c" "checkedDestination net c = Inr u"
  shows "channelsOK net (snd (CreateNotificationChannel env t (withURL u c) s))"
proof (cases "tkCtx t")
  case None
  have w: "chType (withURL u c) = chType c" "chEmailRecipients (withURL u c) = chEmailRecipients c"
    by (simp_all add: withURL_def recipientsOf_def split: option.split)
  show ?thesis
    by (rule channelsOK_update [OF assms(1) created_channelOK [OF assms(2,3)]])
      (auto simp: CreateNotificationChannel_def None Let_def w recipientsOf_def intro!: refl)
qed (use assms in \<open>simp add: CreateNotificationChannel_def\<close>)

lemma channelsOK_store_update:
  assumes "urlLaws net" "channelsOK net s" "map_of (channels s) (chID ch) = Some ex"
    and "validNotificationChannelConfig (neGo net) (effectiveNotificationChannel (publicChannel env' ex) ch)"
    and "checkedDestination net (effectiveNotificationChannel (publicChannel env' ex) ch) = Inr u"
  shows "channelsOK net (snd (UpdateNotificationChannel env t (withURL u ch) s))"
proof (cases "tkCtx t")
  case None
  let ?m = "mergeChannel (withURL u ch) ex"
  let ?d = "(normalizeNotificationChannelSecrets env ?m)\<lparr>chUpdatedAt := tkNow t\<rparr>"
  have cid: "chID (withURL u ch) = chID ch" by (simp add: withURL_def split: option.split)
  have "channels (snd (UpdateNotificationChannel env t (withURL u ch) s)) = AList.update (chID ch) ?d (channels s)"
    using assms(3) by (simp add: UpdateNotificationChannel_def None cid Let_def)
  moreover have "recipientsOf ?d = recipientsOf ?m" by (simp add: recipientsOf_def)
  then have "channelOK net ?d"
    by (intro updated_channelOK [OF assms(1) channelsOK_get [OF assms(2,3)] assms(4,5)]) simp_all
  ultimately show ?thesis using channelsOK_update assms(2) by blast
qed (use assms in \<open>simp add: UpdateNotificationChannel_def\<close>)

end
