(* ===== verification/Server_Frames.thy ===== *)
theory Server_Frames
  imports Server_Properties Channel_Safety
begin

text \<open>
  Every handler moves the store along the step relation of \<open>Incident_Lifecycle\<close>, keeps the deduper
  within its bound and the stored channels valid.
\<close>

lemma store_run_trans: "store_run env b c \<Longrightarrow> store_run env a b \<Longrightarrow> store_run env a c"
  by (induction rule: store_run.induct) (auto intro: store_run.step)

lemma store_run_one: "store_step env s s' \<Longrightarrow> store_run env s s'"
  by (rule store_run.step [OF store_run.refl])

definition advances :: "goenv \<Rightarrow> Server \<Rightarrow> Server \<Rightarrow> bool" where
  "advances env sv sv' \<longleftrightarrow> store_run env (svStore sv) (svStore sv') \<and> dedupeKept env sv sv' \<and>
     channels (svStore sv') = channels (svStore sv)"

text \<open>The operations that leave the channels alone.\<close>

lemma channels_frame [simp]:
  "channels (snd (SaveSignal t signal s)) = channels s"
  "channels (snd (UpsertIncident t i s)) = channels s"
  "channels (snd (UpdateIncidentStatus t iid status s)) = channels s"
  "channels (snd (UpdateIncidentDiagnostic t iid sg rep s)) = channels s"
  "channels (snd (SaveNotificationDelivery env t d s)) = channels s"
  "channels (snd (CreateRemediationAction t a s)) = channels s"
  "channels (snd (UpdateRemediationAction t a s)) = channels s"
  by (simp_all add: SaveSignal_def SaveNotificationDelivery_def UpsertIncident_def openIncident_def UpdateIncidentStatus_def
      UpdateIncidentDiagnostic_def CreateRemediationAction_def UpdateRemediationAction_def guarded_def Let_def split: option.split)

lemma resolveRule_channels: "channels (snd (resolveRule t svc str sg r acc rule)) = channels (snd acc)"
  by (cases acc) (auto simp: resolveRule_def Let_def split: option.split)

lemma channels_resolve [simp]: "channels (snd (ResolveActiveIncidents t rules svc str sg r s)) = channels s"
proof -
  have "channels (snd (foldl (resolveRule t svc str sg r) acc rs)) = channels (snd acc)" for acc rs
    by (induction rs arbitrary: acc) (simp_all add: resolveRule_channels)
  then show ?thesis
    by (auto simp: ResolveActiveIncidents_def guarded_def Let_def case_prod_unfold split: option.split)
qed

lemma advances_refl [simp]: "advances env sv sv"
  by (auto simp: advances_def dedupeKept_def)

lemma advances_trans: "advances env a b \<Longrightarrow> advances env b c \<Longrightarrow> advances env a c"
  by (auto simp: advances_def dedupeKept_def intro: store_run_trans)

lemma advances_same: "svStore sv' = svStore sv \<Longrightarrow> svDedupe sv' = svDedupe sv \<Longrightarrow> advances env sv sv'"
  by (auto simp: advances_def dedupeKept_def)

lemma advances_call: "(\<And>t s. store_step env s (snd (f t s))) \<Longrightarrow> (\<And>t s. channels (snd (f t s)) = channels s) \<Longrightarrow> advances env sv (snd (call w f sv))"
  by (auto simp: advances_def dedupeKept_def call_def case_prod_unfold Let_def intro: store_run_one)

lemma advances_called: "call w f sv = (r, sv1) \<Longrightarrow> (\<And>t s. store_step env s (snd (f t s))) \<Longrightarrow>
    (\<And>t s. channels (snd (f t s)) = channels s) \<Longrightarrow> advances env sv sv1"
  using advances_call [of env f sv w] by simp

lemma advances_queried: "query w f sv = (r, sv1) \<Longrightarrow> advances env sv sv1"
  by (rule advances_same) (auto simp: query_def)

lemma advances_foldl: "(\<And>sv x. advances env sv (f sv x)) \<Longrightarrow> advances env sv (foldl f sv xs)"
  by (induction xs arbitrary: sv) (auto intro: advances_trans)

lemma saved_run:
  "store_run (wEnv w) (svStore sv) (svStore (saveNotificationDeliveryResults w ev i rs sv))"
  "store_run (wEnv w) (svStore sv) (svStore (saveSuppressedNotificationDelivery w ev i n sv))"
  "channels (svStore (saveNotificationDeliveryResults w ev i rs sv)) = channels (svStore sv)"
  "channels (svStore (saveSuppressedNotificationDelivery w ev i n sv)) = channels (svStore sv)"
proof -
  have "advances (wEnv w) sv (saveNotificationDeliveryResults w ev i rs sv)"
    unfolding saveNotificationDeliveryResults_def by (rule advances_foldl, rule advances_call, rule store_step.delivery, simp)
  then show "store_run (wEnv w) (svStore sv) (svStore (saveNotificationDeliveryResults w ev i rs sv))"
      "channels (svStore (saveNotificationDeliveryResults w ev i rs sv)) = channels (svStore sv)"
    by (simp_all add: advances_def)
  have "advances (wEnv w) sv (saveSuppressedNotificationDelivery w ev i n sv)"
    unfolding saveSuppressedNotificationDelivery_def by (rule advances_call, rule store_step.delivery, simp)
  then show "store_run (wEnv w) (svStore sv) (svStore (saveSuppressedNotificationDelivery w ev i n sv))"
      "channels (svStore (saveSuppressedNotificationDelivery w ev i n sv)) = channels (svStore sv)"
    by (simp_all add: advances_def)
qed

lemma advances_deliver: "advances (wEnv w) sv (snd (deliverNotificationEvent w ev i sv))"
proof -
  have "store_run (wEnv w) (svStore sv) (svStore (snd (deliverNotificationEvent w ev i sv))) \<and>
      channels (svStore (snd (deliverNotificationEvent w ev i sv))) = channels (svStore sv)"
    using saved_run [where sv = "sv\<lparr>svDedupe := d, svStep := n\<rparr>" for d n]
    by (auto simp: deliverNotificationEvent_def Let_def case_prod_unfold split: option.split)
  then show ?thesis using dedupeKept_notify [of w sv ev i] by (simp add: advances_def notifyIncidentEvent_def)
qed

lemma advances_notify: "advances (wEnv w) sv (notifyIncidentEvent w ev i sv)"
  unfolding notifyIncidentEvent_def by (rule advances_deliver)

lemma advances_notifyAll: "advances (wEnv w) sv (foldl (\<lambda>sv i. notifyIncidentEvent w ev i sv) sv is)"
  by (rule advances_foldl) (rule advances_notify)

subsection \<open>Evaluation\<close>

lemma resolveRecoveries_advances:
  assumes "storeOK (svStore sv)" "resolveRecoveries w sg recs sv = (e, sv')"
  shows "advances (wEnv w) sv sv' \<and> map fst (incidents (svStore sv')) = map fst (incidents (svStore sv))"
  using assms
proof (induction recs arbitrary: sv)
  case (Cons r recs)
  obtain x sv1 where c: "call w (\<lambda>t. ResolveActiveIncidents t [rcRule r] (sigServiceID sg) (sigStreamID sg) (sigID sg)
      (rcReason r)) sv = (x, sv1)" by fastforce
  have a1: "advances (wEnv w) sv sv1" by (rule advances_called [OF c], rule store_step.resolve, simp)
  have k1: "map fst (incidents (svStore sv1)) = map fst (incidents (svStore sv))" "storeOK (svStore sv1)"
    using c ResolveActiveIncidents_keys [OF Cons.prems(1)] ResolveActiveIncidents_storeOK [OF Cons.prems(1)]
    by (auto simp: call_def case_prod_unfold Let_def)
  show ?case
  proof (cases x)
    case (Inl e)
    then show ?thesis using Cons.prems c a1 k1 by simp
  next
    case (Inr resolved)
    let ?sv2 = "foldl (\<lambda>sv i. notifyIncidentEvent w ''incident.resolved'' i sv) sv1 resolved"
    have q: "quiet sv1 ?sv2" by (rule quiet_notifyAll)
    then have "storeOK (svStore ?sv2)" using k1(2) quiet_storeOK by blast
    moreover have "resolveRecoveries w sg recs ?sv2 = (e, sv')" using Cons.prems(2) c Inr by simp
    ultimately have "advances (wEnv w) ?sv2 sv' \<and> map fst (incidents (svStore sv')) = map fst (incidents (svStore ?sv2))"
      by (rule Cons.IH)
    then show ?thesis
      using advances_trans [OF a1 advances_trans [OF advances_notifyAll]] k1(1) q by (auto simp: quiet_def)
  qed
qed auto

lemma createActions_advances: "advances env sv (snd (createActions w as sv))"
proof (induction "as" arbitrary: sv)
  case (Cons a "as")
  obtain x sv1 where c: "call w (\<lambda>t. CreateRemediationAction t a) sv = (x, sv1)" by fastforce
  have "advances env sv sv1" by (rule advances_called [OF c], rule store_step.action_create, simp)
  then show ?case using c by (cases x) (auto intro: advances_trans [OF _ Cons.IH])
qed simp

lemma storeDetected_advances:
  assumes "row sv (newID ''inc'' (wTick w (svStep sv))) = None"
  shows "advances (wEnv w) sv (snd (storeDetected w sg [d] sv))"
proof -
  obtain x sv1 where c: "call w (\<lambda>t. UpsertIncident t (detectedIncident (wEnv w) sg d)) sv = (x, sv1)" by fastforce
  have "store_step (wEnv w) (svStore sv) (svStore sv1)"
    using c store_step.upsert [OF detectedIncident_simps(1) assms] by (auto simp: call_def case_prod_unfold Let_def)
  then have a1: "advances (wEnv w) sv sv1"
    using c by (auto simp: advances_def dedupeKept_def call_def case_prod_unfold Let_def intro: store_run_one)
  have n: "advances (wEnv w) sv (notifyIncidentEvent w ev i sv1)" for ev i
    by (rule advances_trans [OF a1 advances_notify])
  have m: "advances (wEnv w) sv (snd (createRemediationActions w i (notifyIncidentEvent w ev i sv1)))" for ev i
    unfolding createRemediationActions_def by (rule advances_trans [OF n createActions_advances])
  show ?thesis
  proof (cases x)
    case (Inr y)
    obtain stored created where y: "y = (stored, created)" by fastforce
    show ?thesis using c Inr y a1 n [of "''incident.updated''" stored] m [of stored "''incident.opened''"]
      by (auto simp: Let_def split: prod.split option.split)
  qed (use c a1 in simp)
qed

lemma evaluateAndStore_advances:
  assumes "storeOK (svStore sv)" "\<forall>n. row sv (newID ''inc'' (wTick w n)) = None"
  shows "advances (wEnv w) sv (snd (evaluateAndStoreIncidents w sg sv))"
proof -
  let ?ev = "evaluateSignal (wEnv w) sg"
  obtain e sv1 where r: "resolveRecoveries w sg (evRecoveries ?ev) sv = (e, sv1)" by fastforce
  note a = resolveRecoveries_advances [OF assms(1) r]
  then have "row sv1 (newID ''inc'' (wTick w (svStep sv1))) = None"
    using assms(2) by (simp add: map_of_eq_None_iff flip: set_map)
  note d = advances_trans [OF conjunct1 [OF a] storeDetected_advances [OF this]]
  show ?thesis
    by (cases rule: evaluation_cases [of "wEnv w" sg]; cases e)
      (use r a d in \<open>auto simp: evaluateAndStoreIncidents_def Let_def\<close>)
qed

subsection \<open>The handlers\<close>

lemma ingest_advances:
  assumes "storeOK (svStore sv)" "\<forall>n. row sv (newID ''inc'' (wTick w n)) = None"
  shows "advances (wEnv w) sv (snd (ingestAccepted w signal sv))"
proof -
  obtain r sv1 where c: "withCumulativeCounterDelta w signal sv = (r, sv1)" by fastforce
  have st: "svStore sv1 = svStore sv" "svDedupe sv1 = svDedupe sv"
    using c by (auto simp: withCumulativeCounterDelta_def query_def Let_def case_prod_unfold
      split: option.splits sum.splits if_splits)
  then have a1: "advances (wEnv w) sv sv1" by (rule advances_same)
  show ?thesis
  proof (cases r)
    case (Inr sg1)
    obtain r2 sv2 where s: "call w (\<lambda>t. SaveSignal t sg1) sv1 = (r2, sv2)" by fastforce
    have "advances (wEnv w) sv1 sv2" by (rule advances_called [OF s], rule store_step.save_signal, simp)
    then have a2: "advances (wEnv w) sv sv2" by (rule advances_trans [OF a1])
    have "storeOK (svStore sv2)" "incidents (svStore sv2) = incidents (svStore sv)"
      using s st assms(1) by (auto simp: call_def case_prod_unfold Let_def)
    then have a3: "advances (wEnv w) sv (snd (evaluateAndStoreIncidents w saved sv2))" for saved
      by (intro advances_trans [OF a2 evaluateAndStore_advances]) (use assms(2) in simp_all)
    then have "evaluateAndStoreIncidents w saved sv2 = (r3, sv3) \<Longrightarrow> advances (wEnv w) sv sv3" for saved r3 sv3
      by (metis snd_conv)
    then show ?thesis
      using c s Inr a2 by (cases r2) (auto simp: ingestAccepted_def split: prod.split sum.split)
  qed (use c a1 in \<open>simp add: ingestAccepted_def\<close>)
qed

lemma updateIncidentStatus_advances: "advances (wEnv w) sv (snd (updateIncidentStatus w rq status sv))"
proof (cases "authorizeAdmin w rq ''incidents.update'' sv")
  case None
  obtain r sv1 where c: "call w (\<lambda>t. UpdateIncidentStatus t (rqID rq) status) sv = (r, sv1)" by fastforce
  have a1: "advances (wEnv w) sv sv1" by (rule advances_called [OF c], rule store_step.status, simp)
  show ?thesis
  proof (cases r)
    case (Inl e)
    then show ?thesis using None c a1 by (cases e) (auto simp: updateIncidentStatus_def)
  next
    case (Inr i)
    then show ?thesis using None c a1 advances_trans [OF a1 advances_notify]
      by (auto simp: updateIncidentStatus_def Let_def)
  qed
qed (simp add: updateIncidentStatus_def)

lemma rerun_advances: "advances (wEnv w) sv (snd (rerunIncidentDiagnostics w rq sv))"
proof -
  have d: "advances (wEnv w) a (snd (call w (\<lambda>t. UpdateIncidentDiagnostic t iid sg rep) a))" for a iid sg rep
    by (rule advances_call, rule store_step.diagnostic, simp)
  let ?r1 = "query w (\<lambda>t. GetIncident t (rqID rq)) sv"
  let ?r2 = "\<lambda>i. query w (\<lambda>t. GetSignal t (incSignalID i)) (snd ?r1)"
  let ?r3 = "\<lambda>i rep. call w (\<lambda>t. UpdateIncidentDiagnostic t (incID i) (incSignalID i) rep) (snd (?r2 i))"
  have a1: "advances (wEnv w) sv (snd ?r1)" by (simp add: advances_same query_def)
  have a2: "advances (wEnv w) sv (snd (?r2 i))" for i
    by (rule advances_trans [OF a1]) (simp add: advances_same query_def)
  have a3: "advances (wEnv w) sv (snd (?r3 i rep))" for i rep by (rule advances_trans [OF a2 d])
  show ?thesis
    using a1 a2 a3 unfolding rerunIncidentDiagnostics_def
    by (auto split: option.split prod.split sum.split goerr.split simp: prod_eq_iff)
qed

lemma approve_advances: "advances (wEnv w) sv (snd (approveRemediationAction w rq sv))"
proof -
  let ?r1 = "query w (\<lambda>t. GetRemediationAction t (rqID rq)) sv"
  let ?r2 = "\<lambda>a. call w (\<lambda>t. UpdateRemediationAction t (Approve a)) (snd ?r1)"
  have a1: "advances (wEnv w) sv (snd ?r1)" by (simp add: advances_same query_def)
  have a2: "advances (wEnv w) sv (snd (?r2 a))" for a
    by (rule advances_trans [OF a1 advances_call], rule store_step.action_update, simp)
  show ?thesis
    using a1 a2 unfolding approveRemediationAction_def
    by (auto split: option.split prod.split sum.split goerr.split simp: prod_eq_iff)
qed

lemma dispatch_frame: "dispatchAction w a sv = (b, sv') \<Longrightarrow> svStore sv' = svStore sv \<and> svDedupe sv' = svDedupe sv"
  by (auto simp: dispatchAction_def dispatchApplicationRetryProposal_def query_def Let_def case_prod_unfold
      split: if_splits sum.splits option.splits)

lemma execute_advances: "advances (wEnv w) sv (snd (executeRemediationAction w rq sv))"
proof -
  obtain r1 sv1 where q: "query w (\<lambda>t. GetRemediationAction t (rqID rq)) sv = (r1, sv1)" by fastforce
  have a1: "advances (wEnv w) sv sv1" by (rule advances_queried [OF q])
  show ?thesis
  proof (cases "authorizeAdmin w rq ''remediation.execute'' sv = None \<and> (\<exists>a. r1 = Inr a \<and> \<not> IsTerminalStatus (raStatus a))")
    case False
    then show ?thesis using q a1
      by (auto simp: executeRemediationAction_def split: option.splits sum.splits goerr.splits)
  next
    case True
    then obtain a where a: "r1 = Inr a" "\<not> IsTerminalStatus (raStatus a)" by blast
    obtain b sv2 where d: "dispatchAction w (Execute (tkNow (wTick w (svStep sv1))) a) (sv1\<lparr>svStep := Suc (svStep sv1)\<rparr>) = (b, sv2)"
      by fastforce
    have "advances (wEnv w) sv1 sv2" by (rule advances_same) (use dispatch_frame [OF d] in simp_all)
    then have a2: "advances (wEnv w) sv sv2" by (rule advances_trans [OF a1])
    obtain r3 sv3 where u: "call w (\<lambda>t. UpdateRemediationAction t b) sv2 = (r3, sv3)" by fastforce
    have "advances (wEnv w) sv2 sv3" by (rule advances_called [OF u], rule store_step.action_update, simp)
    then have a3: "advances (wEnv w) sv sv3" by (rule advances_trans [OF a2])
    have "query w f sv3 = (x, sv4) \<Longrightarrow> advances (wEnv w) sv sv4" for f :: "tick \<Rightarrow> MemoryStore \<Rightarrow> Incident result" and x sv4
      by (rule advances_trans [OF a3 advances_queried])
    then have "query w f sv3 = (x, sv4) \<Longrightarrow> advances (wEnv w) sv (notifyIncidentEvent w ev i sv4) \<and> advances (wEnv w) sv sv4"
      for f :: "tick \<Rightarrow> MemoryStore \<Rightarrow> Incident result" and x sv4 ev i by (blast intro: advances_trans advances_notify)
    then show ?thesis
      using True q a d u a3
      by (auto simp: executeRemediationAction_def Let_def split: sum.split prod.split)
  qed
qed

subsection \<open>The handlers of channels and events\<close>

definition serves :: "netenv \<Rightarrow> Server \<Rightarrow> Server \<Rightarrow> bool" where
  "serves net sv sv' \<longleftrightarrow> store_run (neGo net) (svStore sv) (svStore sv') \<and> dedupeKept (neGo net) sv sv' \<and>
     (urlLaws net \<longrightarrow> channelsOK net (svStore sv) \<longrightarrow> channelsOK net (svStore sv'))"

lemma serves_refl [simp]: "serves net sv sv"
  by (auto simp: serves_def dedupeKept_def)

lemma serves_trans: "serves net a b \<Longrightarrow> serves net b c \<Longrightarrow> serves net a c"
  by (auto simp: serves_def dedupeKept_def intro: store_run_trans)

lemma advances_serves: "advances (neGo net) sv sv' \<Longrightarrow> serves net sv sv'"
  using channelsOK_same [of "svStore sv'" "svStore sv"] by (auto simp: advances_def serves_def)

lemma call_frame: "call w f sv = (r, sv1) \<Longrightarrow> svStore sv1 = snd (f (wTick w (svStep sv)) (svStore sv)) \<and> svDedupe sv1 = svDedupe sv"
  by (auto simp: call_def case_prod_unfold Let_def)

lemma serves_called:
  assumes "call w f sv = (r, sv1)" and "\<And>t. store_step (neGo net) (svStore sv) (snd (f t (svStore sv)))"
    and "\<And>t. urlLaws net \<Longrightarrow> channelsOK net (svStore sv) \<Longrightarrow> channelsOK net (snd (f t (svStore sv)))"
  shows "serves net sv sv1"
  using call_frame [OF assms(1)] assms(2,3) by (auto simp: serves_def dedupeKept_def intro: store_run_one)

lemma create_serves: "serves (wNetenv w) sv (snd (createNotificationChannel w rq decoded sv))"
proof (cases "authorizeAdmin w rq ''notifications.manage'' sv = None \<and> (\<exists>body. decoded = Some body \<and> \<not> contradictorySMTP body)")
  case False
  then show ?thesis by (auto simp: createNotificationChannel_def split: option.splits)
next
  case True
  then obtain body where b: "authorizeAdmin w rq ''notifications.manage'' sv = None" "decoded = Some body" "\<not> contradictorySMTP body"
    by blast
  let ?c = "notificationChannelFromRequest body"
  show ?thesis
  proof (cases "validNotificationChannelConfig (wEnv w) ?c \<and> (\<exists>u. checkedDestination (wNetenv w) ?c = Inr u)")
    case False
    then show ?thesis using b by (auto simp: createNotificationChannel_def Let_def split: sum.splits)
  next
    case True
    then obtain u where u: "validNotificationChannelConfig (wEnv w) ?c" "checkedDestination (wNetenv w) ?c = Inr u" by blast
    obtain r sv1 where c: "call w (\<lambda>t. CreateNotificationChannel (wEnv w) t (withURL u ?c)) sv = (r, sv1)" by fastforce
    have "serves (wNetenv w) sv sv1"
      by (rule serves_called [OF c]) (use u in \<open>auto intro: store_step.channel_create channelsOK_create\<close>)
    then show ?thesis
      using b u c by (cases r) (auto simp: createNotificationChannel_def Let_def split: goerr.split)
  qed
qed

lemma storeUpdate_serves:
  assumes "map_of (channels (svStore sv)) (chID ch) = Some ex"
  shows "serves (wNetenv w) sv (snd (storeChannelUpdate w ch (publicChannel (wEnv w) ex) sv))"
proof (cases "validNotificationChannelConfig (wEnv w) (effectiveNotificationChannel (publicChannel (wEnv w) ex) ch) \<and>
    (\<exists>u. checkedDestination (wNetenv w) (effectiveNotificationChannel (publicChannel (wEnv w) ex) ch) = Inr u)")
  case False
  then show ?thesis by (auto simp: storeChannelUpdate_def Let_def split: sum.splits)
next
  case True
  let ?e = "effectiveNotificationChannel (publicChannel (wEnv w) ex) ch"
  obtain u where u: "validNotificationChannelConfig (wEnv w) ?e" "checkedDestination (wNetenv w) ?e = Inr u" using True by blast
  obtain r sv1 where c: "call w (\<lambda>t. UpdateNotificationChannel (wEnv w) t (withURL u ch)) sv = (r, sv1)" by fastforce
  have "serves (wNetenv w) sv sv1"
    by (rule serves_called [OF c])
      (use u assms in \<open>auto intro: store_step.channel_update channelsOK_store_update\<close>)
  then show ?thesis
    using u c by (cases r) (auto simp: storeChannelUpdate_def Let_def split: goerr.split)
qed

text \<open>An update that no other request overlaps reads the channel it writes.\<close>

lemma update_serves: "serves (wNetenv w) sv (snd (updateNotificationChannel w rq decoded sv sv))"
proof (cases "authorizeAdmin w rq ''notifications.manage'' sv = None \<and> (\<exists>body. decoded = Some body \<and> \<not> contradictorySMTP body)")
  case False
  then show ?thesis by (auto simp: updateNotificationChannel_def split: option.splits)
next
  case True
  then obtain body where b: "authorizeAdmin w rq ''notifications.manage'' sv = None" "decoded = Some body" "\<not> contradictorySMTP body"
    by blast
  let ?sv1 = "sv\<lparr>svStep := Suc (svStep sv)\<rparr>"
  obtain r where q: "fst (query w (\<lambda>t. GetNotificationChannel (wEnv w) t (rqID rq)) sv) = r" by blast
  have a: "serves (wNetenv w) sv ?sv1" by (intro advances_serves advances_same) simp_all
  show ?thesis
  proof (cases r)
    case (Inl e)
    then show ?thesis using b q a by (cases e) (auto simp: updateNotificationChannel_def)
  next
    case (Inr existing)
    then obtain ex where "map_of (channels (svStore ?sv1)) (rqID rq) = Some ex" "existing = publicChannel (wEnv w) ex"
      using q by (auto simp: query_def GetNotificationChannel_def reading_def split: option.splits)
    then have "serves (wNetenv w) ?sv1 (snd (storeChannelUpdate w ((notificationChannelFromRequest body)\<lparr>chID := rqID rq\<rparr>) existing ?sv1))"
      using storeUpdate_serves [of ?sv1 "(notificationChannelFromRequest body)\<lparr>chID := rqID rq\<rparr>" ex w] by simp
    then show ?thesis using b q Inr serves_trans [OF a] by (simp add: updateNotificationChannel_def Let_def)
  qed
qed

text \<open>Whatever it has read, an update takes one step of the store.\<close>

definition moves :: "netenv \<Rightarrow> Server \<Rightarrow> Server \<Rightarrow> bool" where
  "moves net sv sv' \<longleftrightarrow> store_run (neGo net) (svStore sv) (svStore sv') \<and> dedupeKept (neGo net) sv sv'"

lemma moves_refl [simp]: "moves net sv sv"
  by (auto simp: moves_def dedupeKept_def)

lemma moves_trans: "moves net a b \<Longrightarrow> moves net b c \<Longrightarrow> moves net a c"
  by (auto simp: moves_def dedupeKept_def intro: store_run_trans)

lemma serves_moves: "serves net sv sv' \<Longrightarrow> moves net sv sv'"
  by (simp add: serves_def moves_def)

lemma overlapped_moves: "moves (wNetenv w) sv (snd (updateNotificationChannel w rq decoded seen sv))"
proof -
  have store: "moves (wNetenv w) s (snd (storeChannelUpdate w ch existing s))" for s ch existing
  proof -
    have "moves (wNetenv w) s (snd (call w (\<lambda>t. UpdateNotificationChannel (wEnv w) t c) s))" for c
      by (auto simp: call_def moves_def dedupeKept_def case_prod_unfold Let_def intro: store_run_one store_step.channel_update)
    then show ?thesis
      by (auto simp: storeChannelUpdate_def Let_def case_prod_unfold split: sum.split goerr.split)
  qed
  have "moves (wNetenv w) sv (sv\<lparr>svStep := n\<rparr>)" for n by (auto simp: moves_def dedupeKept_def)
  then have "moves (wNetenv w) sv (snd (storeChannelUpdate w ch existing (sv\<lparr>svStep := n\<rparr>)))" for ch existing n
    using moves_trans store by blast
  with \<open>\<And>n. moves (wNetenv w) sv (sv\<lparr>svStep := n\<rparr>)\<close> show ?thesis
    by (auto simp: updateNotificationChannel_def Let_def split: option.split sum.split goerr.split)
qed

lemma delete_serves: "serves (wNetenv w) sv (snd (deleteNotificationChannel w rq sv))"
proof -
  obtain r sv1 where c: "call w (\<lambda>t. DeleteNotificationChannel t (rqID rq)) sv = (r, sv1)" by fastforce
  have "serves (wNetenv w) sv sv1"
    by (rule serves_called [OF c]) (auto intro: store_step.channel_delete channelsOK_delete)
  then show ?thesis
    using c by (cases r) (auto simp: deleteNotificationChannel_def split: option.split goerr.split)
qed

lemma saved_advances: "advances (wEnv w) sv (saveNotificationDeliveryResults w ev i rs sv)"
  unfolding saveNotificationDeliveryResults_def by (rule advances_foldl, rule advances_call, rule store_step.delivery, simp)

lemma test_advances: "advances (wEnv w) sv (snd (testNotificationChannel w rq sv))"
proof -
  obtain r sv1 where q: "query w (\<lambda>t. GetNotificationChannel (wEnv w) t (rqID rq)) sv = (r, sv1)" by fastforce
  have a: "advances (wEnv w) sv sv1" by (rule advances_queried [OF q])
  have "advances (wEnv w) sv1 (sv1\<lparr>svStep := n\<rparr>)" for n by (rule advances_same) simp_all
  then have b: "advances (wEnv w) sv (saveNotificationDeliveryResults w ev i rs (sv1\<lparr>svStep := n\<rparr>))" for ev i rs n
    by (rule advances_trans [OF advances_trans [OF a] saved_advances])
  show ?thesis
  proof (cases r)
    case (Inl e)
    then show ?thesis using q a by (cases e) (auto simp: testNotificationChannel_def split: option.split)
  next
    case (Inr channel)
    then show ?thesis using q b by (simp add: testNotificationChannel_def Let_def split: option.split)
  qed
qed

lemma event_advances: "advances (wEnv w) sv (snd (createNotificationEvent w rq decoded sv))"
  using advances_deliver by (auto simp: createNotificationEvent_def Let_def case_prod_unfold split: option.split sum.split)

end
