(* ===== verification/Server_Runs.thy ===== *)
theory Server_Runs
  imports Server_Frames
begin

text \<open>
  The runs of the server: what holds along runs of the store holds of the running server, and an
  executed remediation action was taken by the Control Panel.
\<close>

subsection \<open>Dispatch\<close>

text \<open>The Control Panel took the proposal for the action and its incident.\<close>

definition dispatched :: "world \<Rightarrow> MemoryStore \<Rightarrow> RemediationAction \<Rightarrow> bool" where
  "dispatched w s b \<longleftrightarrow>
     (\<exists>incident execute detector now p k. map_of (incidents s) (raIncidentID b) = Some incident \<and>
        TrimSpace (incStreamID incident) \<noteq> [] \<and>
        NewApplicationRetryProposal (wEnv w) now b incident detector now = Inr p \<and>
        wExecutor w = Some execute \<and> execute k p (incStreamID incident) = None)"

lemma proposalDispatched:
  assumes "dispatchApplicationRetryProposal w b incident sv = (None, sv')"
  shows "\<exists>execute detector now p k. NewApplicationRetryProposal (wEnv w) now b incident detector now = Inr p \<and>
    wExecutor w = Some execute \<and> execute k p (incStreamID incident) = None"
  using assms
  by (auto simp: dispatchApplicationRetryProposal_def Let_def case_prod_unfold split: option.splits sum.splits)

lemma dispatch_executed:
  assumes "dispatchAction w b sv = (c, sv')" "raStatus c = ''executed''" "requiresControlPanelDispatch (raAction c)"
  shows "raStatus b = ''executed'' \<and> raResult c = ''control_panel_dispatch_executed'' \<and> dispatched w (svStore sv) b"
proof (cases "raStatus b = ''executed'' \<and> requiresControlPanelDispatch (raAction b)")
  case False
  then show ?thesis using assms by (auto simp: dispatchAction_def)
next
  case True
  obtain r sv1 where q: "query w (\<lambda>t. GetIncident t (raIncidentID b)) sv = (r, sv1)" by fastforce
  from assms(1,2) True q obtain incident where i: "r = Inr incident" "TrimSpace (incStreamID incident) \<noteq> []"
    by (cases r) (auto simp: dispatchAction_def blockDispatch_def split: if_splits)
  from assms(1,2) True q i obtain sv2 where d: "dispatchApplicationRetryProposal w b incident sv1 = (None, sv2)"
      "raResult c = ''control_panel_dispatch_executed''"
    by (cases "dispatchApplicationRetryProposal w b incident sv1"; cases "fst (dispatchApplicationRetryProposal w b incident sv1)")
      (auto simp: dispatchAction_def blockDispatch_def)
  have "map_of (incidents (svStore sv)) (raIncidentID b) = Some incident"
    using q i by (auto simp: query_def GetIncident_def reading_def split: option.splits)
  then show ?thesis using True d(2) i(2) proposalDispatched [OF d(1)] unfolding dispatched_def by blast
qed

subsection \<open>Runs of the server\<close>

text \<open>
  A step is one request, with any answers of the world around it.  As for the store, the
  identifiers drawn for new incidents are assumed not to be taken.
\<close>

inductive server_step :: "netenv \<Rightarrow> Server \<Rightarrow> Server \<Rightarrow> bool" for net where
  ingest: "wNetenv w = net \<Longrightarrow> \<forall>n. row sv (newID ''inc'' (wTick w n)) = None \<Longrightarrow>
    server_step net sv (snd (ingestSignal w rq body sv))"
| acknowledge: "wNetenv w = net \<Longrightarrow> server_step net sv (snd (acknowledgeIncidentHandler w rq sv))"
| resolve: "wNetenv w = net \<Longrightarrow> server_step net sv (snd (resolveIncidentHandler w rq sv))"
| rerun: "wNetenv w = net \<Longrightarrow> server_step net sv (snd (rerunIncidentDiagnostics w rq sv))"
| approve: "wNetenv w = net \<Longrightarrow> server_step net sv (snd (approveRemediationAction w rq sv))"
| execute: "wNetenv w = net \<Longrightarrow> server_step net sv (snd (executeRemediationAction w rq sv))"
| create_channel: "wNetenv w = net \<Longrightarrow> server_step net sv (snd (createNotificationChannel w rq channel sv))"
| update_channel: "wNetenv w = net \<Longrightarrow> server_step net sv (snd (updateNotificationChannel w rq channel sv sv))"
| delete_channel: "wNetenv w = net \<Longrightarrow> server_step net sv (snd (deleteNotificationChannel w rq sv))"
| test_channel: "wNetenv w = net \<Longrightarrow> server_step net sv (snd (testNotificationChannel w rq sv))"
| event: "wNetenv w = net \<Longrightarrow> server_step net sv (snd (createNotificationEvent w rq event sv))"

text \<open>
  In a run the steps follow each other, except that an update of a channel may have read the channel
  at any earlier point of the run.
\<close>

inductive server_run :: "netenv \<Rightarrow> Server \<Rightarrow> Server \<Rightarrow> bool" for net where
  refl [intro!]: "server_run net sv sv"
| step: "server_run net sv sv' \<Longrightarrow> server_step net sv' sv'' \<Longrightarrow> server_run net sv sv''"
| overlapped: "server_run net sv seen \<Longrightarrow> server_run net seen sv' \<Longrightarrow> wNetenv w = net \<Longrightarrow>
    server_run net sv (snd (updateNotificationChannel w rq channel seen sv'))"

text \<open>The runs in which no request overlaps an update.\<close>

inductive serial_run :: "netenv \<Rightarrow> Server \<Rightarrow> Server \<Rightarrow> bool" for net where
  none: "serial_run net sv sv"
| served: "serial_run net sv sv' \<Longrightarrow> server_step net sv' sv'' \<Longrightarrow> serial_run net sv sv''"

lemma advances_world: "wNetenv w = net \<Longrightarrow> advances (wEnv w) sv sv' \<Longrightarrow> serves net sv sv'"
  using advances_serves [of "wNetenv w"] by auto

lemma server_step_serves: "server_step net sv sv' \<Longrightarrow> storeOK (svStore sv) \<Longrightarrow> serves net sv sv'"
proof (induction rule: server_step.induct)
  case (ingest w sv rq body)
  have "advances (wEnv w) sv (snd (ingestSignal w rq body sv))"
    using ingest_advances [OF ingest.prems, of w] ingest.hyps(2) by (auto simp: ingestSignal_def split: sum.split)
  then show ?case by (rule advances_world [OF ingest.hyps(1)])
qed (auto simp: acknowledgeIncidentHandler_def resolveIncidentHandler_def
      intro: advances_world updateIncidentStatus_advances rerun_advances approve_advances execute_advances
        test_advances event_advances create_serves update_serves delete_serves)

lemma server_run_moves:
  "server_run net sv sv' \<Longrightarrow> storeOK (svStore sv) \<Longrightarrow> moves net sv sv' \<and> storeOK (svStore sv')"
proof (induction rule: server_run.induct)
  case (step sv sv' sv'')
  then have "moves net sv' sv''" by (intro serves_moves server_step_serves) simp_all
  moreover from this have "storeOK (svStore sv'')"
    using step store_run_storeOK unfolding moves_def by blast
  ultimately show ?case using step moves_trans by blast
next
  case (overlapped sv seen sv' w rq channel)
  have "moves net sv' (snd (updateNotificationChannel w rq channel seen sv'))"
    using overlapped_moves overlapped.hyps(3) by blast
  moreover from this have "storeOK (svStore (snd (updateNotificationChannel w rq channel seen sv')))"
    using overlapped.IH overlapped.prems store_run_storeOK unfolding moves_def by blast
  ultimately show ?case using overlapped.IH overlapped.prems moves_trans by blast
qed simp

lemma serial_run_serves:
  "serial_run net sv sv' \<Longrightarrow> storeOK (svStore sv) \<Longrightarrow> serves net sv sv' \<and> storeOK (svStore sv')"
proof (induction rule: serial_run.induct)
  case (served sv sv' sv'')
  then have "serves net sv' sv''" by (intro server_step_serves) simp_all
  moreover from this have "storeOK (svStore sv'')"
    using served store_run_storeOK unfolding serves_def by blast
  ultimately show ?case using served serves_trans by blast
qed simp

subsection \<open>Properties\<close>

text \<open>
  C3: the running server.  Whatever requests arrive in whatever order, and whatever the context,
  clock, notifier and executor answer, the server moves its store only along the steps of the
  store, so that the store keeps its invariant, no two active incidents ever share rule, service
  and stream, every incident row of the start is still there in a later stage of its life, and the
  deduper never grows beyond its bound.
\<close>

theorem server_run_safe:
  assumes "server_run net sv sv'" "storeOK (svStore sv)" "dedupeOK (svDedupe sv)" "sha256Sized (neGo net)"
  shows "store_run (neGo net) (svStore sv) (svStore sv') \<and> storeOK (svStore sv') \<and>
    (\<forall>iid jid i j. row sv' iid = Some i \<and> row sv' jid = Some j \<and> activeIncident i \<and> activeIncident j \<and>
       incidentKey i = incidentKey j \<longrightarrow> iid = jid) \<and>
    keepsRows (svStore sv) (svStore sv') \<and>
    int (length (ndEntries (svDedupe sv'))) \<le> dedupeMaxEntries (svDedupe sv')"
proof -
  have a: "store_run (neGo net) (svStore sv) (svStore sv')" "dedupeKept (neGo net) sv sv'" and ok: "storeOK (svStore sv')"
    using server_run_moves [OF assms(1,2)] by (simp_all add: moves_def)
  have "dedupeOK (svDedupe sv')" using a(2) assms(3,4) by (simp add: dedupeKept_def)
  then have "int (length (ndEntries (svDedupe sv'))) \<le> dedupeMaxEntries (svDedupe sv')" by (simp add: dedupeOK_def)
  moreover have "keepsRows (svStore sv) (svStore sv')" by (rule store_run_keepsRows [OF a(1) assms(2)])
  ultimately show ?thesis using a(1) ok storeOK_unique [OF ok] by blast
qed

theorem server_run_safe_witness:
  "let sv' = snd (ingestSignal demoWorld demoRequest (Some demoSignal) demoServer) in
    store_run (concreteEnv []) (svStore demoServer) (svStore sv') \<and> storeOK (svStore sv') \<and>
    keepsRows (svStore demoServer) (svStore sv') \<and>
    int (length (ndEntries (svDedupe sv'))) \<le> dedupeMaxEntries (svDedupe sv')"
proof -
  have env: "neGo (wNetenv demoWorld) = concreteEnv []" by (simp add: demoWorld_def)
  have run: "server_run (wNetenv demoWorld) demoServer (snd (ingestSignal demoWorld demoRequest (Some demoSignal) demoServer))"
    by (rule server_run.step [OF server_run.refl], rule server_step.ingest, rule HOL.refl, rule demo_live(3))
  have "dedupeOK (svDedupe demoServer)" by (simp add: demoServer_def zeroDeduper_def dedupeOK_def dedupeMaxEntries_def)
  moreover have "sha256Sized (neGo (wNetenv demoWorld))" unfolding env by (rule concreteEnv_sha256)
  ultimately show ?thesis using server_run_safe [OF run demo_live(2)] unfolding env Let_def by blast
qed

text \<open>
  C6: an action that needs the Control Panel is reported executed only after the Control Panel
  has taken it.  When the execute handler answers that such an action is executed, then the stored
  action was not terminal and the policy allowed it, its incident exists and names a stream, a
  proposal for exactly this action and incident passed its validation, and the executor accepted
  that proposal for that stream.
\<close>

theorem executed_means_dispatched:
  assumes "executeRemediationAction w rq sv = ((code, PAction a), sv')" "raStatus a = ''executed''" "code \<noteq> 409"
    "requiresControlPanelDispatch (raAction a)"
  shows "code = 200 \<and> raResult a = ''control_panel_dispatch_executed'' \<and>
    (\<exists>a0 now. map_of (remediations (svStore sv)) (rqID rq) = Some a0 \<and> \<not> IsTerminalStatus (raStatus a0) \<and>
       raStatus (Execute now a0) = ''executed'' \<and> dispatched w (svStore sv) (Execute now a0))"
proof -
  have auth: "authorizeAdmin w rq ''remediation.execute'' sv = None"
    using assms(1) by (auto simp: executeRemediationAction_def authorizeAdmin_def Let_def case_prod_unfold split: option.splits if_splits)
  obtain r1 sv1 where q: "query w (\<lambda>t. GetRemediationAction t (rqID rq)) sv = (r1, sv1)" by fastforce
  from assms(1,3) auth q obtain a0 where a0: "r1 = Inr a0" "\<not> IsTerminalStatus (raStatus a0)"
    by (auto simp: executeRemediationAction_def split: sum.splits goerr.splits if_splits)
  have row0: "map_of (remediations (svStore sv)) (rqID rq) = Some a0" "svStore sv1 = svStore sv"
    using q a0 by (auto simp: query_def GetRemediationAction_def reading_def split: option.splits)
  let ?e = "Execute (tkNow (wTick w (svStep sv1))) a0"
  obtain b sv2 where d: "dispatchAction w ?e (sv1\<lparr>svStep := Suc (svStep sv1)\<rparr>) = (b, sv2)" by fastforce
  obtain r3 sv3 where u: "call w (\<lambda>t. UpdateRemediationAction t b) sv2 = (r3, sv3)" by fastforce
  from assms(1) auth q a0 d u have r3: "r3 = Inr a" "code = (if raStatus a = ''blocked'' then 403 else 200)"
    by (auto simp: executeRemediationAction_def Let_def split: sum.splits)
  from u r3(1) have "raStatus a = raStatus b" "raAction a = raAction b" "raResult a = raResult b"
    by (auto simp: call_def UpdateRemediationAction_def guarded_def Let_def split: option.splits if_splits prod.splits)
  then have "raStatus ?e = ''executed'' \<and> raResult a = ''control_panel_dispatch_executed'' \<and> dispatched w (svStore sv) ?e"
    using dispatch_executed [OF d] assms(2,4) row0(2) by simp
  then show ?thesis using row0(1) a0(2) r3(2) assms(2) by auto
qed

definition panelWorld :: world where
  "panelWorld = demoWorld\<lparr>wExecutor := Some (\<lambda>_ _ _. None)\<rparr>"

definition retryAction :: RemediationAction where
  "retryAction = sampleAction ''retry_gdrive_upload'' False"

definition liveRetryIncident :: Incident where
  "liveRetryIncident = retryIncident\<lparr>incStreamID := ''str-1''\<rparr>"

definition panelServer :: Server where
  "panelServer = demoServer\<lparr>svAdminAuth := WithRawTokenScopes (concreteEnv []) zeroVerifier ''tok'' [''*''],
     svStore := NewMemoryStore\<lparr>incidents := [(''inc_1'', liveRetryIncident)], remediations := [(''rem_1'', retryAction)]\<rparr>\<rparr>"

definition executeRequest :: request where
  "executeRequest = demoRequest\<lparr>rqID := ''rem_1''\<rparr>"

lemma retry_class [simp]: "ClassifyLegacyAction ''retry_gdrive_upload'' = LegacyActionApplicationProposal"
  by (simp add: ClassifyLegacyAction_def IsDangerous_def IsLocalTransition_def LocalActionForLegacyAction_def
      LocalClearStaleWarning_def LocalRerunDiagnostics_def LocalRefreshServiceStatus_def
      proposalActionForLegacyRetry_def Let_def go_eval)

lemma retryAction_fields [simp]: "raID retryAction = ''rem_1''" "raIncidentID retryAction = ''inc_1''"
  "raAction retryAction = ''retry_gdrive_upload''" "raStatus retryAction = ''suggested''" "raMode retryAction = ModeSafeAuto"
  "raSafeAuto retryAction" "\<not> raRequiresApproval retryAction"
  by (simp_all add: retryAction_def sampleAction_def zeroAction_def initialStatus_def modes IsSafeAuto_def)

lemma retryAction_execute: "Execute now retryAction = retryAction\<lparr>raStatus := ''executed'',
    raResult := ''control_panel_proposal_ready'', raExecutedAt := Some now\<rparr>"
  by (simp add: Execute_def IsTerminalStatus_def NormalizeMode_def modes Let_def go_eval)

lemma panel_authorized: "authorizeAdmin panelWorld executeRequest ''remediation.execute'' panelServer = None"
  by (simp add: authorizeAdmin_def AuthorizeRequest_def AuthorizeToken_def VerifyTokenSubject_def panelWorld_def demoWorld_def
      executeRequest_def demoRequest_def panelServer_def WithRawTokenScopes_def zeroVerifier_def CutPrefix_def HasPrefix_def
      containsHash_def scopeSet_def Let_def go_eval)

lemma panel_identity: "ResolveFromEnv (wCtl panelWorld) FileMissing FileMissing (svLatch panelServer) =
    (Inr \<lparr>uiServiceID = ''observability-01'', uiServiceType = ''observability'', uiConfigRevision = 1\<rparr>,
     (svLatch panelServer)\<lparr>ulIdentity := \<lparr>uiServiceID = ''observability-01'', uiServiceType = ''observability'', uiConfigRevision = 1\<rparr>,
        ulBound := True\<rparr>)"
  by (simp add: ResolveFromEnv_def NewUpdaterIdentityLatch_def ServiceType_def ConfigRevisionFromEnv_def
      NodeConfigPendingFromEnv_def NodeConfigPathFromEnv_def FromEnv_def applyNodeConfigFromEnv_def envDefault_def
      panelWorld_def demoWorld_def panelServer_def demoServer_def concreteEnv_def latchBind_def Let_def go_eval)

lemma panel_proposal:
  assumes "n \<noteq> 0"
  shows "\<exists>p. NewApplicationRetryProposal (concreteEnv []) n (Execute now retryAction) liveRetryIncident ''observability-01'' n = Inr p"
proof -
  let ?a = "Execute now retryAction"
  have o: "boundedIDPattern ''observability-01''"
    by (simp add: boundedIDPattern_def boundedPattern_def alnumByte_def wordByte_def wordRune_def go_eval)
  have i: "incID liveRetryIncident = ''inc_1''" "incServiceID liveRetryIncident = ''enc-01''"
    "incSignalID liveRetryIncident = ''sig_1''"
    by (simp_all add: liveRetryIncident_def retryIncident_def zeroIncident_def)
  have "proposalValidate (retryProposal (concreteEnv []) n ?a liveRetryIncident ''observability-01'' n
      ''application.retry_gdrive_upload'') = None"
    by (subst retryProposal_valid [OF concreteEnv_sha256])
      (use o assms boundedID_samples in \<open>simp_all add: isApplicationRetryProposal_def proposalActions IsBoundedCorrelationID_def
        i go_eval\<close>)
  then show ?thesis using o boundedID_samples
    by (simp add: NewApplicationRetryProposal_eq i proposalActionForLegacyRetry_def proposalActions IsBoundedCorrelationID_def
        Let_def go_eval)
qed

lemma panel_run: "\<exists>a sv'. executeRemediationAction panelWorld executeRequest panelServer = ((200, PAction a), sv') \<and>
    raStatus a = ''executed'' \<and> raAction a = ''retry_gdrive_upload''"
proof -
  obtain p where p: "NewApplicationRetryProposal (concreteEnv []) 6 (Execute 2 retryAction) liveRetryIncident
      ''observability-01'' 6 = Inr p" using panel_proposal [of 6 2] by auto
  have ctl: "requiresControlPanelDispatch ''retry_gdrive_upload''" "\<not> IsTerminalStatus ''suggested''"
    by (simp_all add: requiresControlPanelDispatch_def IsTerminalStatus_def go_eval)
  have inc: "incStreamID liveRetryIncident = ''str-1''" by (simp add: liveRetryIncident_def)
  have srv: "svStep panelServer = 0" "map_of (remediations (svStore panelServer)) ''rem_1'' = Some retryAction"
    "map_of (incidents (svStore panelServer)) ''inc_1'' = Some liveRetryIncident" "rqID executeRequest = ''rem_1''"
    by (simp_all add: panelServer_def demoServer_def executeRequest_def)
  have world: "wEnv panelWorld = concreteEnv []" "tkCtx (wTick panelWorld n) = None" "tkNow (wTick panelWorld n) = int n + 1"
    "wFile panelWorld n = FileMissing" "wExecutor panelWorld = Some (\<lambda>_ _ _. None)" "wNotifier panelWorld = None" for n
    by (simp_all add: panelWorld_def demoWorld_def)
  show ?thesis
    using p ctl
    by (simp add: executeRemediationAction_def panel_authorized query_def GetRemediationAction_def srv world
        dispatchAction_def retryAction_execute GetIncident_def inc dispatchApplicationRetryProposal_def panel_identity
        call_def UpdateRemediationAction_def notifyIncidentEvent_def deliverNotificationEvent_def Let_def go_eval)
qed

theorem executed_means_dispatched_witness:
  "\<exists>a sv'. executeRemediationAction panelWorld executeRequest panelServer = ((200, PAction a), sv') \<and>
    raResult a = ''control_panel_dispatch_executed'' \<and>
    (\<exists>a0 now. map_of (remediations (svStore panelServer)) ''rem_1'' = Some a0 \<and> \<not> IsTerminalStatus (raStatus a0) \<and>
       raStatus (Execute now a0) = ''executed'' \<and> dispatched panelWorld (svStore panelServer) (Execute now a0))"
proof -
  obtain a sv' where r: "executeRemediationAction panelWorld executeRequest panelServer = ((200, PAction a), sv')"
    "raStatus a = ''executed''" "raAction a = ''retry_gdrive_upload''" using panel_run by blast
  have "requiresControlPanelDispatch (raAction a)"
    by (simp add: r(3) requiresControlPanelDispatch_def)
  from executed_means_dispatched [OF r(1,2) _ this] r(1) show ?thesis by (auto simp: executeRequest_def)
qed

end
