(* ===== verification/Channel_Properties.thy ===== *)
theory Channel_Properties
  imports Server_Runs
begin

text \<open>
  Properties of the notification channels and events of the running server: what the stored channels
  satisfy after any requests, an update that escapes the checks, and what an announced event carries.
\<close>

subsection \<open>Stored channels\<close>

text \<open>
  C15: the type of the stored channels.  Whatever requests the server has served one after the other, every channel that
  it keeps has one of the known types and either is a mail channel with distinct, well-formed
  recipients, or has an address that the webhook policy of its type accepted.  Requests that overlap an
  update of the channel can break this (\<open>overlapped_update_mixes\<close>).
\<close>

theorem stored_channels_valid:
  assumes "serial_run net sv sv'" "storeOK (svStore sv)" "urlLaws net" "channelsOK net (svStore sv)"
  shows "channelsOK net (svStore sv')"
  using serial_run_serves [OF assms(1,2)] assms(3,4) by (simp add: serves_def)

text \<open>A network whose URLs are printed as their host, and a mail channel on the global relay.\<close>

definition mailNet :: netenv where
  "mailNet = sampleNet\<lparr>neGo := concreteEnv [(''GO_ENV'', ''production'')], neURLString := urlHost\<rparr>"

definition mailWorld :: world where
  "mailWorld = demoWorld\<lparr>wNet := mailNet\<rparr>"

definition mailChannel :: NotificationChannel where
  "mailChannel = \<lparr>chID = ''c1'', chName = ''ops'', chType = ''email'', chEnabled = True, chUseGlobalSMTP = True,
     chUseGlobalSMTPSet = False, chWebhookURL = [], chMaskedWebhookURL = [], chEmailRecipients = Some [''ops@e.jp''],
     chSMTPHost = [], chSMTPPort = 0, chSMTPTLS = True, chSMTPFrom = [], chSMTPUsername = [], chSMTPPassword = [],
     chSMTPPasswordConfigured = False, chMaskedEmailTarget = [], chSeverityFilter = None, chEventTypeFilter = None,
     chCreatedAt = 0, chUpdatedAt = 0\<rparr>"

text \<open>The token of the worker also opens the administration, for want of an administrator's own.\<close>

definition mailServer :: Server where
  "mailServer = demoServer\<lparr>svAdminAuth := svIngestAuth demoServer,
     svStore := (svStore demoServer)\<lparr>channels := [(''c1'', mailChannel)]\<rparr>\<rparr>"

definition mailRequest :: request where
  "mailRequest = demoRequest\<lparr>rqID := ''c1''\<rparr>"

lemma mail_env: "neGo (wNetenv mailWorld) = concreteEnv []" "urlLaws (wNetenv mailWorld)" "liveWorld mailWorld"
  by (auto simp: mailWorld_def demoWorld_def mailNet_def urlLaws_def concreteEnv_def liveWorld_def)

lemma mail_recipients: "safeEmailRecipients (concreteEnv []) (recipientsOf mailChannel)"
  by (simp add: safeEmailRecipients_def mailChannel_def recipientsOf_def safeEmailHeaderValue_def concreteEnv_def
      ContainsAny_def go_eval)

lemma mail_store: "storeOK (svStore mailServer)" "channelsOK (wNetenv mailWorld) (svStore mailServer)"
proof -
  have "channelOK (wNetenv mailWorld) mailChannel"
    using mail_recipients normalizeChannelType_known(1) mail_env(1) by (simp add: channelOK_def) (simp add: mailChannel_def)
  then show "channelsOK (wNetenv mailWorld) (svStore mailServer)"
    by (simp add: channelsOK_def mailServer_def)
  show "storeOK (svStore mailServer)"
    using demo_live(2) by (simp add: storeOK_def mailServer_def demoServer_def NewMemoryStore_def gomap_def)
qed

lemma mail_authorized: "authorizeAdmin mailWorld mailRequest ''notifications.manage'' mailServer = None"
  by (simp add: authorizeAdmin_def AuthorizeRequest_def AuthorizeToken_def VerifyTokenSubject_def mailWorld_def mailRequest_def
      mailServer_def demoWorld_def demoRequest_def demoServer_def
      CutPrefix_def HasPrefix_def NewVerifierWithSubjects_def NewVerifierFromRawTokens_def sampleBinding_def Let_def
      zeroVerifier_def go_eval)

lemma effective_chName: "chName (effectiveNotificationChannel ex ch) = (if chName ch \<noteq> [] then chName ch else chName ex)"
  unfolding effectiveNotificationChannel_def let_push [where f = chName]
  by (simp add: Let_def if_distrib [where f = chName] option.case_distrib [where h = chName] case_option_same cong: if_cong option.case_cong)

text \<open>What a request without a type and without a choice of the relay asks for.\<close>

lemma fromRequest_open:
  assumes "crUseGlobalSMTP body = None" "TrimSpace (crType body) = []" "crEmailRecipients body = None"
  shows "chType (notificationChannelFromRequest body) = []" "\<not> chUseGlobalSMTPSet (notificationChannelFromRequest body)"
    "chEmailRecipients (notificationChannelFromRequest body) = None"
    "chSMTPTLS (notificationChannelFromRequest body) = (crSMTPTLS body = Some True)"
    "chSMTPHost (notificationChannelFromRequest body) = TrimSpace (crSMTPHost body)"
    "chSMTPUsername (notificationChannelFromRequest body) = TrimSpace (crSMTPUsername body)"
    "chSMTPPassword (notificationChannelFromRequest body) = TrimSpace (crSMTPPassword body)"
  using assms by (auto simp: notificationChannelFromRequest_def cleanStringSlice_def Let_def ToLower_def runes_def
      runesB.simps isASCII_def split: option.split)

lemma publicChannel_relay:
  assumes "chType ex = ''email''" "chUseGlobalSMTP ex" "\<not> hasLegacySMTPConfiguration ex"
  shows "chType (publicChannel env ex) = ''email''" "chUseGlobalSMTP (publicChannel env ex)"
    "chName (publicChannel env ex) = chName ex" "recipientsOf (publicChannel env ex) = recipientsOf ex"
  using assms by (auto simp: publicChannel_def normalizeNotificationChannelSecrets_def chooseSMTP_def clearLegacySMTPConfiguration_def Let_def
      recipientsOf_def)

text \<open>A channel with a mail server and no recorded choice leaves the global relay.\<close>

lemma normalized_direct:
  assumes "chType c = ''email''" "\<not> chUseGlobalSMTPSet c" "TrimSpace (chSMTPHost c) \<noteq> []"
  shows "\<not> chUseGlobalSMTP (normalizeNotificationChannelSecrets env c)"
    "chSMTPHost (normalizeNotificationChannelSecrets env c) = chSMTPHost c"
    "chSMTPTLS (normalizeNotificationChannelSecrets env c) = chSMTPTLS c"
    "chSMTPUsername (normalizeNotificationChannelSecrets env c) = chSMTPUsername c"
    "chSMTPPassword (normalizeNotificationChannelSecrets env c) = chSMTPPassword c"
  using assms by (auto simp: normalizeNotificationChannelSecrets_def chooseSMTP_def Let_def hasLegacySMTPConfiguration_def)

lemma merge_chUseGlobalSMTPSet: "chUseGlobalSMTPSet (mergeChannel ch ex) = (chUseGlobalSMTPSet ch \<or> chUseGlobalSMTPSet ex)"
  unfolding mergeChannel_def let_push [where f = chUseGlobalSMTPSet]
  by (simp add: Let_def if_distrib [where f = chUseGlobalSMTPSet] option.case_distrib [where h = chUseGlobalSMTPSet] clearLegacySMTPConfiguration_def
      case_option_same cong: if_cong option.case_cong)

text \<open>The update of the witnesses: a mail server on the own machine, without TLS, with a password.\<close>

definition mailBody :: notificationChannelRequest where
  "mailBody = \<lparr>crName = [], crType = [], crEnabled = True, crUseGlobalSMTP = None, crWebhookURL = [],
     crEmailRecipients = None, crSMTPHost = ''127.0.0.1'', crSMTPPort = 0, crSMTPTLS = None, crSMTPFrom = [],
     crSMTPUsername = ''u'', crSMTPPassword = ''p'', crSeverityFilter = None, crEventTypeFilter = None\<rparr>"

theorem stored_channels_valid_witness:
  "let sv' = snd (updateNotificationChannel mailWorld mailRequest (Some mailBody) mailServer mailServer) in
    serial_run (wNetenv mailWorld) mailServer sv' \<and> channelsOK (wNetenv mailWorld) (svStore sv')"
proof -
  let ?sv = "snd (updateNotificationChannel mailWorld mailRequest (Some mailBody) mailServer mailServer)"
  have "serial_run (wNetenv mailWorld) mailServer ?sv"
    by (rule serial_run.served [OF serial_run.none], rule server_step.update_channel, rule HOL.refl)
  with stored_channels_valid [OF this mail_store(1) mail_env(2) mail_store(2)] show ?thesis by (simp add: Let_def)
qed

text \<open>
  C40: a mail channel on the global relay escapes the checks of a relay of its own.  A channel that
  uses the global relay without a recorded choice is updated by a request that names a mail server
  but leaves the choice open: the request is answered 200 whatever the server, because the checks
  look at the channel as if it stayed on the global relay, and the stored channel is one with a mail
  server of its own, with the host, the TLS setting and the credentials of the request.
\<close>

theorem global_mail_update_unchecked:
  assumes "liveWorld w" "authorizeAdmin w rq ''notifications.manage'' sv = None"
    and "map_of (channels (svStore sv)) (rqID rq) = Some ex"
    and "chType ex = ''email''" "chUseGlobalSMTP ex" "\<not> chUseGlobalSMTPSet ex" "\<not> hasLegacySMTPConfiguration ex"
    and "chName ex \<noteq> []" "safeEmailRecipients (wEnv w) (recipientsOf ex)"
    and "crUseGlobalSMTP body = None" "TrimSpace (crType body) = []" "crEmailRecipients body = None"
    and "TrimSpace (crSMTPHost body) \<noteq> []" "chSMTPUsername ex = []" "chSMTPPassword ex = []"
  shows "\<exists>c shown sv'. updateNotificationChannel w rq (Some body) sv sv = ((200, PChannel shown), sv') \<and>
    map_of (channels (svStore sv')) (rqID rq) = Some c \<and> chType c = ''email'' \<and> \<not> chUseGlobalSMTP c \<and>
    chSMTPHost c = TrimSpace (crSMTPHost body) \<and> chSMTPTLS c = (crSMTPTLS body = Some True) \<and>
    chSMTPUsername c = TrimSpace (crSMTPUsername body) \<and> chSMTPPassword c = TrimSpace (crSMTPPassword body)"
proof -
  let ?ch = "(notificationChannelFromRequest body)\<lparr>chID := rqID rq\<rparr>"
  let ?e = "effectiveNotificationChannel (publicChannel (wEnv w) ex) ?ch"
  let ?n = "Suc (svStep sv)"
  note req = fromRequest_open [OF assms(10-12)] and pub = publicChannel_relay [OF assms(4,5,7), of "wEnv w"]
  have live: "tkCtx (wTick w n) = None" for n using assms(1) by (simp add: liveWorld_def)
  have e: "chType ?e = ''email''" "chUseGlobalSMTP ?e" "chName ?e \<noteq> []" "recipientsOf ?e = recipientsOf ex"
    using assms(8) by (simp_all add: effective_chType effective_chUseGlobalSMTP effective_chName effective_chEmailRecipients
        recipientsOf_def req pub [unfolded recipientsOf_def])
  have ne: "recipientsOf ex \<noteq> []" using assms(9) by (auto simp: safeEmailRecipients_def)
  have valid: "validNotificationChannelConfig (wEnv w) ?e"
    using e ne assms(9) by (simp add: validNotificationChannelConfig_def)
  have checked: "checkedDestination (wNetenv w) ?e = Inr None"
    using e ne by (simp add: checkedDestination_def ValidateSMTPChannel_def ValidateSMTPChannelWithPolicy_def)
  let ?m = "mergeChannel ?ch ex"
  have m: "chType ?m = ''email''" "\<not> chUseGlobalSMTPSet ?m" "chSMTPHost ?m = TrimSpace (crSMTPHost body)"
    "chSMTPTLS ?m = (crSMTPTLS body = Some True)"
    "chSMTPUsername ?m = TrimSpace (crSMTPUsername body)" "chSMTPPassword ?m = TrimSpace (crSMTPPassword body)"
    using assms by (simp_all add: merge_fields merge_chUseGlobalSMTPSet req clearsSMTP_def)
  let ?c = "(normalizeNotificationChannelSecrets (wEnv w) ?m)\<lparr>chUpdatedAt := tkNow (wTick w ?n)\<rparr>"
  have c: "chType ?c = ''email''" "\<not> chUseGlobalSMTP ?c" "chSMTPHost ?c = TrimSpace (crSMTPHost body)"
    "chSMTPTLS ?c = (crSMTPTLS body = Some True)"
    "chSMTPUsername ?c = TrimSpace (crSMTPUsername body)" "chSMTPPassword ?c = TrimSpace (crSMTPPassword body)"
    using normalized_direct [of ?m "wEnv w"] m assms(13) by simp_all
  have "\<not> contradictorySMTP body" using assms(10) by (simp add: contradictorySMTP_def)
  then have "updateNotificationChannel w rq (Some body) sv sv = storeChannelUpdate w ?ch (publicChannel (wEnv w) ex) (sv\<lparr>svStep := ?n\<rparr>)"
    using assms(2,3) live by (simp add: updateNotificationChannel_def query_def GetNotificationChannel_def)
  also have "\<dots> = ((200, PChannel (shownChannel w (publicChannel (wEnv w) ?c))),
      sv\<lparr>svStep := Suc ?n, svStore := (svStore sv)\<lparr>channels := AList.update (rqID rq) ?c (channels (svStore sv))\<rparr>\<rparr>)"
    using valid checked e(3) assms(3) live
    by (simp add: storeChannelUpdate_def call_def UpdateNotificationChannel_def withURL_def Let_def)
  finally show ?thesis using c by (simp add: update_conv)
qed

theorem global_mail_update_unchecked_witness:
  "\<exists>c shown sv'. updateNotificationChannel mailWorld mailRequest (Some mailBody) mailServer mailServer = ((200, PChannel shown), sv') \<and>
    map_of (channels (svStore sv')) ''c1'' = Some c \<and> chType c = ''email'' \<and> \<not> chUseGlobalSMTP c \<and>
    chSMTPHost c = ''127.0.0.1'' \<and> \<not> chSMTPTLS c \<and> chSMTPUsername c = ''u'' \<and> chSMTPPassword c = ''p''"
proof -
  have fields: "rqID mailRequest = ''c1''" "map_of (channels (svStore mailServer)) (rqID mailRequest) = Some mailChannel"
    "chType mailChannel = ''email''" "chUseGlobalSMTP mailChannel" "\<not> chUseGlobalSMTPSet mailChannel"
    "\<not> hasLegacySMTPConfiguration mailChannel" "chName mailChannel \<noteq> []"
    "chSMTPUsername mailChannel = []" "chSMTPPassword mailChannel = []"
    by (simp_all add: mailRequest_def mailServer_def mailChannel_def hasLegacySMTPConfiguration_def go_eval)
  have body: "crUseGlobalSMTP mailBody = None" "TrimSpace (crType mailBody) = []" "crEmailRecipients mailBody = None"
    "TrimSpace (crSMTPHost mailBody) = ''127.0.0.1''" "crSMTPTLS mailBody = None" "TrimSpace (crSMTPUsername mailBody) = ''u''"
    "TrimSpace (crSMTPPassword mailBody) = ''p''"
    by (simp_all add: mailBody_def go_eval)
  have "safeEmailRecipients (wEnv mailWorld) (recipientsOf mailChannel)" using mail_recipients mail_env(1) by simp
  from global_mail_update_unchecked [OF mail_env(3) mail_authorized fields(2-7) this body(1-3) _ fields(8,9)]
  show ?thesis by (simp add: body fields(1))
qed

subsection \<open>Overlapping updates\<close>

text \<open>
  An update that names an address but no type is checked against the type that it read.  When another request has given the
  channel a type since then, the answer is 200 and the stored channel has that type and the address that was never checked
  for it.
\<close>

theorem overlapped_update_mixes:
  assumes "liveWorld w" "authorizeAdmin w rq ''notifications.manage'' seen = None" "urlLaws (wNetenv w)"
    and "map_of (channels (svStore seen)) (rqID rq) = Some ex" "chType ex \<noteq> ''email''" "\<not> chUseGlobalSMTP ex" "chName ex \<noteq> []"
    and "map_of (channels (svStore sv)) (rqID rq) = Some now"
    and "crUseGlobalSMTP body = None" "TrimSpace (crType body) = []" "crEmailRecipients body = None"
    and "TrimSpace (crWebhookURL body) \<noteq> []"
    and "NormalizeWebhookURLForType (wNetenv w) (TrimSpace (crWebhookURL body)) (chType ex) = Inr target"
  shows "\<exists>c shown sv'. updateNotificationChannel w rq (Some body) seen sv = ((200, PChannel shown), sv') \<and>
    map_of (channels (svStore sv')) (rqID rq) = Some c \<and> chType c = chType now \<and> chWebhookURL c = target"
proof -
  let ?ch = "(notificationChannelFromRequest body)\<lparr>chID := rqID rq\<rparr>"
  let ?e = "effectiveNotificationChannel (publicChannel (wEnv w) ex) ?ch"
  let ?n = "Suc (svStep sv)"
  note req = fromRequest_open [OF assms(9-11)]
  have live: "tkCtx (wTick w n) = None" for n using assms(1) by (simp add: liveWorld_def)
  have pub: "chType (publicChannel (wEnv w) ex) = chType ex" "chName (publicChannel (wEnv w) ex) = chName ex"
    "chUseGlobalSMTP (publicChannel (wEnv w) ex) = chUseGlobalSMTP ex"
    using assms(5) by (simp_all add: publicChannel_def normalizeNotificationChannelSecrets_def)
  have url: "chWebhookURL ?ch = TrimSpace (crWebhookURL body)" by (simp add: notificationChannelFromRequest_def Let_def)
  have e: "chType ?e = chType ex" "\<not> chUseGlobalSMTP ?e" "chName ?e \<noteq> []" "chWebhookURL ?e = TrimSpace (crWebhookURL body)"
    using assms(6,7,12) url by (simp_all add: effective_chType effective_chUseGlobalSMTP effective_chName effective_chWebhookURL req pub)
  have valid: "validNotificationChannelConfig (wEnv w) ?e"
    using e assms(5,12) by (simp add: validNotificationChannelConfig_def)
  have checked: "checkedDestination (wNetenv w) ?e = Inr (Some target)"
    using e assms(5,13) by (simp add: checkedDestination_def)
  have "target \<noteq> []" using assms(13) normalized_nonempty [OF assms(3)] unfolding NormalizeWebhookURLForType_def by blast
  let ?m = "mergeChannel (withURL (Some target) ?ch) now"
  let ?c = "(normalizeNotificationChannelSecrets (wEnv w) ?m)\<lparr>chUpdatedAt := tkNow (wTick w ?n)\<rparr>"
  have c: "chType ?c = chType now" "chWebhookURL ?c = target"
    using \<open>target \<noteq> []\<close> by (simp_all add: merge_chType merge_chWebhookURL withURL_def req)
  have cid: "chID (withURL (Some target) ?ch) = rqID rq" by (simp add: withURL_def)
  have "\<not> contradictorySMTP body" using assms(9) by (simp add: contradictorySMTP_def)
  then have "updateNotificationChannel w rq (Some body) seen sv =
      storeChannelUpdate w ?ch (publicChannel (wEnv w) ex) (sv\<lparr>svStep := ?n\<rparr>)"
    using assms(2,4) live by (simp add: updateNotificationChannel_def query_def GetNotificationChannel_def)
  also have "\<dots> = ((200, PChannel (shownChannel w (publicChannel (wEnv w) ?c))),
      sv\<lparr>svStep := Suc ?n, svStore := (svStore sv)\<lparr>channels := AList.update (rqID rq) ?c (channels (svStore sv))\<rparr>\<rparr>)"
    using valid checked e(3) assms(8) live cid
    by (simp add: storeChannelUpdate_def call_def UpdateNotificationChannel_def Let_def)
  finally show ?thesis using c by (simp add: update_conv)
qed

text \<open>A generic channel that another request turns into a Discord channel, and an address that no Discord channel may have.\<close>

definition overlapWorld :: world where
  "overlapWorld = mailWorld\<lparr>wCtl := (wCtl mailWorld)\<lparr>ctGo := (concreteEnv [])\<lparr>urlParse := (\<lambda>s. if s = [] then None
     else Some \<lparr>urlScheme = ''https'', urlHost = s, urlHostname = s, urlUser = None, urlPath = [], urlRawQuery = [],
       urlFragment = []\<rparr>)\<rparr>\<rparr>\<rparr>"

definition genericChannel :: NotificationChannel where
  "genericChannel = mailChannel\<lparr>chType := ''generic'', chUseGlobalSMTP := False, chEmailRecipients := None, chWebhookURL := ''h''\<rparr>"

definition channelServer :: "NotificationChannel \<Rightarrow> Server" where
  "channelServer c = mailServer\<lparr>svStore := (svStore demoServer)\<lparr>channels := [(''c1'', c)]\<rparr>\<rparr>"

definition urlBody :: notificationChannelRequest where
  "urlBody = mailBody\<lparr>crWebhookURL := ''e.jp'', crSMTPHost := [], crSMTPUsername := [], crSMTPPassword := []\<rparr>"

theorem overlapped_update_mixes_witness:
  "(\<exists>c shown sv'. updateNotificationChannel overlapWorld mailRequest (Some urlBody) (channelServer genericChannel)
        (channelServer (genericChannel\<lparr>chType := ''discord''\<rparr>)) = ((200, PChannel shown), sv') \<and>
     map_of (channels (svStore sv')) ''c1'' = Some c \<and> chType c = ''discord'' \<and> chWebhookURL c = ''e.jp'') \<and>
   NormalizeWebhookURLForType (wNetenv overlapWorld) ''e.jp'' ''discord'' \<noteq> Inr ''e.jp''"
proof -
  have env: "\<not> allowPrivateWebhooksFromEnv (wEnv overlapWorld)"
    by (simp add: allowPrivateWebhooksFromEnv_def observabilityProductionEnvironment_def envTruthy_def overlapWorld_def concreteEnv_def
        go_eval EqualFold_def runes_def runesB.simps ToLower_def isASCII_def Let_def)
  have host: "hostName ''e.jp'' = ''e.jp''" by (simp add: hostName_def TrimSuffix_def HasSuffix_def go_eval)
  have policy: "NormalizeWebhookURLForType (wNetenv overlapWorld) ''e.jp'' ''generic'' = Inr ''e.jp''"
    "NormalizeWebhookURLForType (wNetenv overlapWorld) ''e.jp'' ''discord'' \<noteq> Inr ''e.jp''"
    using env host by (simp_all add: NormalizeWebhookURLForType_def NormalizeWebhookURLForTypeWithPolicy_def overlapWorld_def
        unsafeWebhookHost_def webhookHostAllowedForType_def isDiscordWebhookHost_def normalizedType_def mailWorld_def mailNet_def
        sampleNet_def HasSuffix_def Let_def go_eval)
  have auth: "authorizeAdmin overlapWorld mailRequest ''notifications.manage'' (channelServer genericChannel) = None"
    by (simp add: authorizeAdmin_def AuthorizeRequest_def AuthorizeToken_def VerifyTokenSubject_def overlapWorld_def mailWorld_def mailRequest_def
        mailServer_def channelServer_def demoWorld_def demoRequest_def demoServer_def
        CutPrefix_def HasPrefix_def NewVerifierWithSubjects_def NewVerifierFromRawTokens_def sampleBinding_def Let_def
        zeroVerifier_def HashToken_def concreteEnv_def go_eval)
  have laws: "liveWorld overlapWorld" "urlLaws (wNetenv overlapWorld)"
    using mail_env(3) by (auto simp: overlapWorld_def liveWorld_def urlLaws_def mailWorld_def mailNet_def)
  have stored: "map_of (channels (svStore (channelServer c))) (rqID mailRequest) = Some c" for c
    by (simp add: channelServer_def mailRequest_def)
  have ex: "chType genericChannel \<noteq> ''email''" "\<not> chUseGlobalSMTP genericChannel" "chName genericChannel \<noteq> []"
    by (simp_all add: genericChannel_def mailChannel_def)
  have body: "crUseGlobalSMTP urlBody = None" "TrimSpace (crType urlBody) = []" "crEmailRecipients urlBody = None"
    "TrimSpace (crWebhookURL urlBody) = ''e.jp''"
    by (simp_all add: urlBody_def mailBody_def go_eval)
  have target: "NormalizeWebhookURLForType (wNetenv overlapWorld) (TrimSpace (crWebhookURL urlBody)) (chType genericChannel) = Inr ''e.jp''"
    using policy(1) body(4) by (simp add: genericChannel_def)
  from overlapped_update_mixes [OF laws(1) auth laws(2) stored ex stored body(1-3) _ target] body(4) policy(2)
  show ?thesis by (simp add: mailRequest_def) (metis (no_types, lifting) NotificationChannel.select_convs(3)
    NotificationChannel.surjective NotificationChannel.update_convs(3))
qed

subsection \<open>Events\<close>

text \<open>
  an announced event is a well-formed notification.  Whatever a request says, the incident that
  is delivered for it names a valid action, one of the four severities and a status; its service is
  never empty and never this service itself, which would attribute the event to its receiver; its
  resource type is empty or of the known form, and its time is the one of the request.
\<close>

theorem event_never_receiver:
  assumes "notificationIncidentFromRequest parse body fallback = Inr i"
  shows "validNotificationAction (incRule i) \<and> incRule i = TrimSpace (erAction body) \<and>
    incSeverity i \<in> {''critical'', ''error'', ''warning'', ''info''} \<and> incStatus i \<noteq> [] \<and>
    incServiceID i \<noteq> [] \<and> \<not> EqualFold (incServiceID i) ''observability'' \<and>
    incNotificationResourceType i = safeNotificationResourceType (erResourceType body) \<and>
    Some (incUpdatedAt i) = (if TrimSpace (erTimestamp body) = [] then Some 0 else parse (TrimSpace (erTimestamp body)))"
proof -
  have service: "eventService body f \<noteq> []" "\<not> EqualFold (eventService body f) ''observability''" for f
  proof -
    have "\<not> EqualFold ''control-panel'' ''observability''"
      by (simp add: EqualFold_def runes_def runesB.simps foldRune_def b2n_def)
    then show "eventService body f \<noteq> []" "\<not> EqualFold (eventService body f) ''observability''"
      by (simp_all add: eventService_def Let_def)
  qed
  have severity: "safeNotificationSeverity v \<in> {''critical'', ''error'', ''warning'', ''info''}" for v
    by (simp add: safeNotificationSeverity_def Let_def)
  have status: "safeNotificationStatus v \<noteq> []" for v
    by (simp add: safeNotificationStatus_def Let_def)
  have action: "validNotificationAction (TrimSpace (erAction body))"
    using assms by (auto simp: notificationIncidentFromRequest_def Let_def split: if_split_asm)
  then have fields: "incRule i = TrimSpace (erAction body) \<and> incSeverity i = safeNotificationSeverity (erSeverity body) \<and>
    incStatus i = safeNotificationStatus (erStatus body) \<and> incServiceID i = eventService body fallback \<and>
    incNotificationResourceType i = safeNotificationResourceType (erResourceType body) \<and>
    Some (incUpdatedAt i) = (if TrimSpace (erTimestamp body) = [] then Some 0 else parse (TrimSpace (erTimestamp body)))"
    using assms
    by (cases "TrimSpace (erTimestamp body) = []"; cases "parse (TrimSpace (erTimestamp body))")
      (auto simp: notificationIncidentFromRequest_def Let_def zeroIncident_def split del: if_split)
  show ?thesis using fields action service severity status by (simp del: insert_iff)
qed

text \<open>The service of the receiver is replaced.\<close>

theorem event_never_receiver_witness:
  "\<exists>i. notificationIncidentFromRequest (\<lambda>_. None) \<lparr>erEventType = ''admin.audit'', erSeverity = [], erStatus = [],
       erAction = ''user.create'', erServiceID = ''Observability'', erResourceType = [], erResourceID = [], erActorUsername = [],
       erSummary = [], erDetails = [], erTimestamp = []\<rparr> ''observability'' = Inr i \<and>
     incRule i = ''user.create'' \<and> \<not> EqualFold (incServiceID i) ''observability''"
proof -
  let ?b = "\<lparr>erEventType = ''admin.audit'', erSeverity = [], erStatus = [],
       erAction = ''user.create'', erServiceID = ''Observability'', erResourceType = [], erResourceID = [], erActorUsername = [],
       erSummary = [], erDetails = [], erTimestamp = []\<rparr>"
  have action: "validNotificationAction ''user.create''" by code_simp
  have "\<exists>i. notificationIncidentFromRequest (\<lambda>_. None) ?b ''observability'' = Inr i"
    using action by (simp add: notificationIncidentFromRequest_def Let_def go_eval)
  then obtain i where i: "notificationIncidentFromRequest (\<lambda>_. None) ?b ''observability'' = Inr i" ..
  then show ?thesis using event_never_receiver [OF i] by (simp add: go_eval)
qed

end
