(* ===== verification/V2_Migration.thy ===== *)
theory V2_Migration
  imports Store_Types
begin

text \<open>
  The migration of SMTP settings to the global relay, from
  \<^verbatim>\<open>internal/store/v2migration/migration.go\<close>: a backup, a reference to the replacement and a
  transformation inside one transaction, its verification and its restoration.  The SQL statements
  of the file are functions on the three tables they name; a table is an association list with its
  primary key, and a table that was not created yet is empty.  \<open>sha2\<close> is the server's \<^verbatim>\<open>SHA2(_, 256)\<close>.
\<close>

subsection \<open>Tables\<close>

text \<open>A column that may be \<^verbatim>\<open>NULL\<close> is an option.\<close>

record smtpColumns =
  sqHost :: "string option"
  sqPort :: "int option"
  sqTLS :: bool
  sqFrom :: "string option"
  sqUsername :: "string option"
  sqCiphertext :: "string option"
  sqNonce :: "string option"
  sqConfigured :: bool

record channelRow =
  nrType :: string
  nrSMTP :: smtpColumns

record backupRow =
  bkSMTP :: smtpColumns
  bkFingerprint :: string

record referenceRow =
  rfOwner :: string
  rfKey :: string

record smtpTables =
  tbChannels :: "(string \<times> channelRow) list"
  tbBackup :: "(string \<times> backupRow) list"
  tbReferences :: "(string \<times> referenceRow) list"

record migrationOptions =
  opReplacementReady :: bool
  opExpectedNonEmpty :: bool

record migrationResult =
  mrInventoryIDs :: "string list"
  mrStrategy :: string
  mrPreCount :: int
  mrBackupCount :: int
  mrPostCount :: int
  mrOrphanCount :: int
  mrBackupStatus :: string
  mrRestoreStatus :: string
  mrIdempotenceStatus :: string
  mrRollbackStatus :: string
  mrPhysicalDeletion :: bool
  mrProductionMutation :: bool

subsection \<open>Statements\<close>

definition directLegacyPredicate :: "smtpColumns \<Rightarrow> bool" where
  "directLegacyPredicate c \<longleftrightarrow>
     sqHost c \<noteq> None \<or> sqPort c \<noteq> None \<or> sqFrom c \<noteq> None \<or> sqUsername c \<noteq> None \<or> sqCiphertext c \<noteq> None \<or>
     sqNonce c \<noteq> None \<or> sqConfigured c"

definition legacyChannels :: "smtpTables \<Rightarrow> (string \<times> channelRow) list" where
  "legacyChannels db = filter (\<lambda>(i, r). nrType r = ''email'' \<and> directLegacyPredicate (nrSMTP r)) (tbChannels db)"

text \<open>\<^verbatim>\<open>cohortCountSQL\<close>: a \<^verbatim>\<open>UNION\<close> has no duplicates.\<close>

definition cohortCount :: "smtpTables \<Rightarrow> int" where
  "cohortCount db = int (length (remdups (map fst (legacyChannels db) @ map fst (tbBackup db))))"

text \<open>\<^verbatim>\<open>COALESCE\<close> of a text column, and the text of a \<^verbatim>\<open>BOOLEAN\<close>.\<close>

definition textColumn :: "string option \<Rightarrow> string" where
  "textColumn v = (case v of None \<Rightarrow> [] | Some s \<Rightarrow> s)"

definition sqlBool :: "bool \<Rightarrow> string" where
  "sqlBool b = (if b then ''1'' else ''0'')"

definition fingerprint :: "(string \<Rightarrow> string) \<Rightarrow> string \<Rightarrow> smtpColumns \<Rightarrow> string" where
  "fingerprint sha2 i c = sha2 (strJoin [i, textColumn (sqHost c), FormatInt (case sqPort c of None \<Rightarrow> 0 | Some p \<Rightarrow> p),
     sqlBool (sqTLS c), textColumn (sqFrom c), textColumn (sqUsername c), textColumn (sqCiphertext c),
     textColumn (sqNonce c), sqlBool (sqConfigured c)] ''|'')"

text \<open>\<^verbatim>\<open>INSERT IGNORE\<close>: rows whose key exists are left out.\<close>

definition insertIgnore :: "(string \<times> 'r) list \<Rightarrow> (string \<times> 'r) list \<Rightarrow> (string \<times> 'r) list" where
  "insertIgnore rows table = table @ filter (\<lambda>(k, _). k \<notin> fst ` set table) rows"

definition backupSQL :: "(string \<Rightarrow> string) \<Rightarrow> smtpTables \<Rightarrow> smtpTables" where
  "backupSQL sha2 db = db\<lparr>tbBackup := insertIgnore
     (map (\<lambda>(i, r). (i, \<lparr>bkSMTP = nrSMTP r, bkFingerprint = fingerprint sha2 i (nrSMTP r)\<rparr>)) (legacyChannels db)) (tbBackup db)\<rparr>"

definition globalReference :: referenceRow where
  "globalReference = \<lparr>rfOwner = ''control_panel'', rfKey = ''global_smtp''\<rparr>"

definition referenceSQL :: "smtpTables \<Rightarrow> smtpTables" where
  "referenceSQL db = db\<lparr>tbReferences := insertIgnore (map (\<lambda>(i, _). (i, globalReference)) (tbBackup db)) (tbReferences db)\<rparr>"

definition clearedSMTP :: smtpColumns where
  "clearedSMTP = \<lparr>sqHost = None, sqPort = None, sqTLS = True, sqFrom = None, sqUsername = None, sqCiphertext = None,
     sqNonce = None, sqConfigured = False\<rparr>"

definition transformSQL :: "smtpTables \<Rightarrow> smtpTables" where
  "transformSQL db = db\<lparr>tbChannels := map (\<lambda>(i, r).
     (i, if map_of (tbBackup db) i \<noteq> None \<and> map_of (tbReferences db) i = Some globalReference then r\<lparr>nrSMTP := clearedSMTP\<rparr> else r))
     (tbChannels db)\<rparr>"

definition postCountSQL :: "smtpTables \<Rightarrow> int" where
  "postCountSQL db = int (length (filter (\<lambda>(i, _). case map_of (tbChannels db) i of
     None \<Rightarrow> False
   | Some r \<Rightarrow> map_of (tbReferences db) i = Some globalReference \<and> \<not> directLegacyPredicate (nrSMTP r)) (tbBackup db)))"

definition orphanCountSQL :: "smtpTables \<Rightarrow> int" where
  "orphanCountSQL db = int (length (filter (\<lambda>(i, _). case map_of (tbChannels db) i of
     None \<Rightarrow> True
   | Some r \<Rightarrow> map_of (tbReferences db) i = None \<or> map_of (tbReferences db) i \<noteq> Some globalReference \<or>
       directLegacyPredicate (nrSMTP r)) (tbBackup db)))"

definition restoreSQL :: "smtpTables \<Rightarrow> smtpTables" where
  "restoreSQL db = db\<lparr>tbChannels := map (\<lambda>(i, r).
     (i, case map_of (tbBackup db) i of None \<Rightarrow> r | Some b \<Rightarrow> r\<lparr>nrSMTP := bkSMTP b\<rparr>)) (tbChannels db)\<rparr>"

definition removeReferencesSQL :: "smtpTables \<Rightarrow> smtpTables" where
  "removeReferencesSQL db = db\<lparr>tbReferences := filter (\<lambda>(_, r). r \<noteq> globalReference) (tbReferences db)\<rparr>"

definition restoredCountSQL :: "(string \<Rightarrow> string) \<Rightarrow> smtpTables \<Rightarrow> int" where
  "restoredCountSQL sha2 db = int (length (filter (\<lambda>(i, b). case map_of (tbChannels db) i of
     None \<Rightarrow> False
   | Some r \<Rightarrow> fingerprint sha2 i (nrSMTP r) = bkFingerprint b) (tbBackup db)))"

subsection \<open>Operations\<close>

text \<open>
  What the database server answers during one operation: \<open>sqFault n\<close> is the error of its \<open>n\<close>-th
  statement, and \<open>sqCommitted\<close> says whether a commit that reports an error took effect all the same.
\<close>

record dbAnswers =
  sqFault :: "nat \<Rightarrow> goerr option"
  sqCommitted :: bool

text \<open>
  One statement of an operation on the tables \<open>db\<close>; what \<^verbatim>\<open>fmt.Errorf\<close> writes before the error of the
  server is left out.
\<close>

definition statement :: "dbAnswers \<Rightarrow> nat \<Rightarrow> smtpTables \<Rightarrow> 'a result \<times> smtpTables \<Rightarrow> 'a result \<times> smtpTables" where
  "statement an n db k = (case sqFault an n of Some e \<Rightarrow> (Inl e, db) | None \<Rightarrow> k)"

definition migrationReport :: "int \<Rightarrow> int \<Rightarrow> int \<Rightarrow> int \<Rightarrow> string \<Rightarrow> string \<Rightarrow> migrationResult" where
  "migrationReport preCount backupCount postCount orphanCount restore rollback = \<lparr>
     mrInventoryIDs = [''DEP-CON-0010'', ''DEP-OBS-0004''], mrStrategy = ''transform'', mrPreCount = preCount,
     mrBackupCount = backupCount, mrPostCount = postCount, mrOrphanCount = orphanCount,
     mrBackupStatus = (if backupCount = preCount \<and> preCount > 0 then ''PASS'' else ''NOT_RUN''),
     mrRestoreStatus = restore, mrIdempotenceStatus = ''PASS'', mrRollbackStatus = rollback,
     mrPhysicalDeletion = False, mrProductionMutation = False\<rparr>"

definition ErrReplacementNotReady :: goerr where
  "ErrReplacementNotReady = ErrText ''control panel global SMTP replacement is not ready''"

definition ErrEmptyDenominator :: goerr where
  "ErrEmptyDenominator = ErrText ''notification SMTP migration source denominator is empty''"

text \<open>The two statements of \<^verbatim>\<open>ensureTables\<close>.\<close>

definition ensureTables :: "dbAnswers \<Rightarrow> smtpTables \<Rightarrow> 'a result \<times> smtpTables \<Rightarrow> 'a result \<times> smtpTables" where
  "ensureTables an db k = statement an 0 db (statement an 1 db k)"

definition DryRun :: "dbAnswers \<Rightarrow> migrationOptions \<Rightarrow> smtpTables \<Rightarrow> migrationResult result \<times> smtpTables" where
  "DryRun an options db =
     (if \<not> opReplacementReady options then (Inl ErrReplacementNotReady, db)
      else ensureTables an db (statement an 2 db
       (let preCount = cohortCount db in
        if opExpectedNonEmpty options \<and> preCount = 0 then (Inl ErrEmptyDenominator, db)
        else (Inr (migrationReport preCount 0 preCount 0 ''NOT_RUN'' ''NOT_RUN''), db))))"

text \<open>
  The transaction works on a copy: an operation that ends before its commit leaves \<open>db\<close>, and a commit
  that fails leaves \<open>db\<close> or the copy.
\<close>

definition commitTx :: "dbAnswers \<Rightarrow> nat \<Rightarrow> smtpTables \<Rightarrow> smtpTables \<Rightarrow> 'a \<Rightarrow> 'a result \<times> smtpTables" where
  "commitTx an n db tx r =
     (case sqFault an n of Some e \<Rightarrow> (Inl e, if sqCommitted an then tx else db) | None \<Rightarrow> (Inr r, tx))"

definition runMigration ::
  "(string \<Rightarrow> string) \<Rightarrow> dbAnswers \<Rightarrow> migrationOptions \<Rightarrow> goerr option \<Rightarrow> smtpTables \<Rightarrow> migrationResult result \<times> smtpTables" where
  "runMigration sha2 an options afterTransform db =
     (if \<not> opReplacementReady options then (Inl ErrReplacementNotReady, db)
      else ensureTables an db (statement an 2 db (statement an 3 db
       (let preCount = cohortCount db in
        if opExpectedNonEmpty options \<and> preCount = 0 then (Inl ErrEmptyDenominator, db)
        else statement an 4 db
         (let tx1 = backupSQL sha2 db in statement an 5 db
          (let backupCount = int (length (tbBackup tx1)) in
           if backupCount \<noteq> preCount
           then (Inl (ErrText (''backup count mismatch: pre='' @ FormatInt preCount @ '' backup='' @ FormatInt backupCount)), db)
           else statement an 6 db
            (let tx2 = referenceSQL tx1 in statement an 7 db
             (let tx3 = transformSQL tx2 in
              case afterTransform of Some e \<Rightarrow> (Inl e, db)
              | None \<Rightarrow> statement an 8 db (statement an 9 db
                 (let postCount = postCountSQL tx3; orphanCount = orphanCountSQL tx3 in
                  if postCount \<noteq> preCount \<or> orphanCount \<noteq> 0
                  then (Inl (ErrText (''SMTP migration count mismatch: pre='' @ FormatInt preCount @ '' post='' @
                         FormatInt postCount @ '' orphan='' @ FormatInt orphanCount)), db)
                  else commitTx an 10 db tx3
                    (migrationReport preCount backupCount postCount orphanCount ''NOT_RUN'' ''PASS'')))))))))))"

definition Run :: "(string \<Rightarrow> string) \<Rightarrow> dbAnswers \<Rightarrow> migrationOptions \<Rightarrow> smtpTables \<Rightarrow> migrationResult result \<times> smtpTables" where
  "Run sha2 an options db = runMigration sha2 an options None db"

definition Verify :: "dbAnswers \<Rightarrow> migrationOptions \<Rightarrow> smtpTables \<Rightarrow> migrationResult result \<times> smtpTables" where
  "Verify an options db =
     (if \<not> opReplacementReady options then (Inl ErrReplacementNotReady, db)
      else ensureTables an db (statement an 2 db
       (let preCount = cohortCount db in
        if opExpectedNonEmpty options \<and> preCount = 0 then (Inl ErrEmptyDenominator, db)
        else statement an 3 db (statement an 4 db (statement an 5 db
         (let backupCount = int (length (tbBackup db)); postCount = postCountSQL db; orphanCount = orphanCountSQL db in
          if preCount \<noteq> backupCount \<or> preCount \<noteq> postCount \<or> orphanCount \<noteq> 0
          then (Inl (ErrText (''SMTP migration verification failed: pre='' @ FormatInt preCount @ '' backup='' @
                 FormatInt backupCount @ '' post='' @ FormatInt postCount @ '' orphan='' @ FormatInt orphanCount)), db)
          else (Inr (migrationReport preCount backupCount postCount orphanCount ''NOT_RUN'' ''PASS''), db)))))))"

definition Restore :: "(string \<Rightarrow> string) \<Rightarrow> dbAnswers \<Rightarrow> migrationOptions \<Rightarrow> smtpTables \<Rightarrow> migrationResult result \<times> smtpTables" where
  "Restore sha2 an options db =
     (if \<not> opReplacementReady options then (Inl ErrReplacementNotReady, db)
      else ensureTables an db (statement an 2 db (statement an 3 db
       (let backupCount = int (length (tbBackup db)) in
        if opExpectedNonEmpty options \<and> backupCount = 0 then (Inl ErrEmptyDenominator, db)
        else statement an 4 db
         (let tx1 = restoreSQL db in statement an 5 db
          (let tx2 = removeReferencesSQL tx1 in statement an 6 db
           (let restoredCount = restoredCountSQL sha2 tx2 in
            if restoredCount \<noteq> backupCount
            then (Inl (ErrText (''restore count mismatch: backup='' @ FormatInt backupCount @ '' restored='' @
                   FormatInt restoredCount)), db)
            else commitTx an 7 db tx2 (migrationReport backupCount backupCount backupCount 0 ''PASS'' ''PASS''))))))))"

subsection \<open>The invariant of the tables\<close>

text \<open>
  Primary keys, the foreign key of the backup, which the server keeps when it deletes channels, the
  check constraint of the references, and the fingerprints.
\<close>

definition smtpTablesOK :: "(string \<Rightarrow> string) \<Rightarrow> smtpTables \<Rightarrow> bool" where
  "smtpTablesOK sha2 db \<longleftrightarrow> gomap (tbChannels db) \<and> gomap (tbBackup db) \<and> gomap (tbReferences db) \<and>
     fst ` set (tbBackup db) \<subseteq> fst ` set (tbChannels db) \<and>
     list_all (\<lambda>(i, r). r = globalReference) (tbReferences db) \<and>
     list_all (\<lambda>(i, b). bkFingerprint b = fingerprint sha2 i (bkSMTP b)) (tbBackup db)"

definition migrated :: "(string \<Rightarrow> string) \<Rightarrow> smtpTables \<Rightarrow> smtpTables" where
  "migrated sha2 db = transformSQL (referenceSQL (backupSQL sha2 db))"

definition restored :: "smtpTables \<Rightarrow> smtpTables" where
  "restored db = removeReferencesSQL (restoreSQL db)"

lemma map_fst_insertIgnore: "map fst (insertIgnore rows t) = map fst t @ filter (\<lambda>k. k \<notin> fst ` set t) (map fst rows)"
  by (simp add: insertIgnore_def filter_map comp_def case_prod_unfold)

lemma insertIgnore_keys: "fst ` set (insertIgnore rows t) = fst ` set rows \<union> fst ` set t"
  using arg_cong [OF map_fst_insertIgnore, of set rows t] by auto

lemma gomap_insertIgnore: "gomap rows \<Longrightarrow> gomap t \<Longrightarrow> gomap (insertIgnore rows t)"
  by (auto simp: gomap_def map_fst_insertIgnore)

lemma map_of_filter_keys: "map_of (filter (\<lambda>(k, _). P k) rows) k = (if P k then map_of rows k else None)"
  by (induction rows) auto

lemma map_of_insertIgnore:
  "map_of (insertIgnore rows t) k = (case map_of t k of Some v \<Rightarrow> Some v | None \<Rightarrow> map_of rows k)"
proof (cases "map_of t k")
  case None
  then have "k \<notin> fst ` set t" by (simp add: map_of_eq_None_iff)
  with None show ?thesis by (simp add: insertIgnore_def map_add_def map_of_filter_keys [where P = "\<lambda>k. k \<notin> fst ` set t"])
next
  case (Some v)
  then have "k \<in> fst ` set t" by (metis domI dom_map_of_conv_image_fst)
  with Some show ?thesis by (simp add: insertIgnore_def map_add_def map_of_filter_keys [where P = "\<lambda>k. k \<notin> fst ` set t"])
qed

lemma map_of_keyed: "map_of (map (\<lambda>(i, r). (i, f i r)) xs) k = map_option (f k) (map_of xs k)"
  by (induction xs) auto

lemma keys_keyed: "map fst (map (\<lambda>(i, r). (i, f i r)) xs) = map fst xs"
  by (simp add: comp_def case_prod_unfold)

lemma image_keyed: "fst ` (\<lambda>(i, r). (i, f i r)) ` A = fst ` A"
  by (force simp: image_image case_prod_unfold)

lemma gomap_keyed: "gomap (map (\<lambda>(i, r). (i, f i r)) xs) = gomap xs"
  unfolding gomap_def keys_keyed ..

subsection \<open>What the migration does to the tables\<close>

lemma channels_of_migrated: "map fst (tbChannels (migrated sha2 db)) = map fst (tbChannels db)"
  by (simp add: migrated_def transformSQL_def referenceSQL_def backupSQL_def case_prod_unfold)

lemma backup_of_migrated: "tbBackup (migrated sha2 db) = tbBackup (backupSQL sha2 db)"
  by (simp add: migrated_def transformSQL_def referenceSQL_def)

lemma legacy_keys: "fst ` set (legacyChannels db) \<subseteq> fst ` set (tbChannels db)"
  by (auto simp: legacyChannels_def)

lemma gomap_legacy: "gomap (tbChannels db) \<Longrightarrow> gomap (legacyChannels db)"
  by (simp add: legacyChannels_def)

lemma map_of_backup:
  "map_of (tbBackup (backupSQL sha2 db)) i = (case map_of (tbBackup db) i of Some b \<Rightarrow> Some b
   | None \<Rightarrow> map_option (\<lambda>r. \<lparr>bkSMTP = nrSMTP r, bkFingerprint = fingerprint sha2 i (nrSMTP r)\<rparr>) (map_of (legacyChannels db) i))"
  by (simp add: backupSQL_def map_of_insertIgnore map_of_keyed split: option.split)

lemma map_of_legacy:
  assumes "gomap (tbChannels db)"
  shows "map_of (legacyChannels db) i = (case map_of (tbChannels db) i of None \<Rightarrow> None
    | Some r \<Rightarrow> if nrType r = ''email'' \<and> directLegacyPredicate (nrSMTP r) then Some r else None)"
  by (simp add: legacyChannels_def map_of_filter_gomap [OF assms] split: option.split)

lemma cohortCount_backup:
  assumes "smtpTablesOK sha2 db"
  shows "int (length (tbBackup (backupSQL sha2 db))) = cohortCount db"
proof -
  have g: "gomap (tbBackup (backupSQL sha2 db))"
    using assms gomap_legacy [of db] by (simp add: smtpTablesOK_def backupSQL_def gomap_insertIgnore gomap_keyed)
  have "set (map fst (tbBackup (backupSQL sha2 db))) = set (map fst (legacyChannels db) @ map fst (tbBackup db))"
    by (simp add: backupSQL_def insertIgnore_keys image_image case_prod_unfold)
  then have "card (set (map fst (tbBackup (backupSQL sha2 db)))) = length (remdups (map fst (legacyChannels db) @ map fst (tbBackup db)))"
    by (simp only: length_remdups_card_conv)
  then show ?thesis using g distinct_card [of "map fst (tbBackup (backupSQL sha2 db))"]
    by (simp add: cohortCount_def gomap_def del: set_append)
qed

text \<open>Every row of the backup refers to the replacement afterwards.\<close>

lemma reference_of_backup:
  assumes "smtpTablesOK sha2 db" "map_of (tbBackup (backupSQL sha2 db)) i \<noteq> None"
  shows "map_of (tbReferences (referenceSQL (backupSQL sha2 db))) i = Some globalReference"
proof (cases "map_of (tbReferences db) i")
  case None
  then show ?thesis using assms(2)
    by (auto simp: referenceSQL_def backupSQL_def map_of_insertIgnore map_of_keyed [where f = "\<lambda>_ _. globalReference"])
next
  case (Some r)
  then have "r = globalReference" using assms(1) by (force simp: smtpTablesOK_def list_all_iff dest: map_of_SomeD)
  with Some show ?thesis by (simp add: referenceSQL_def backupSQL_def map_of_insertIgnore)
qed

lemma channel_of_transform:
  "map_of (tbChannels (transformSQL db)) i = map_option (\<lambda>r. if map_of (tbBackup db) i \<noteq> None \<and>
      map_of (tbReferences db) i = Some globalReference then r\<lparr>nrSMTP := clearedSMTP\<rparr> else r) (map_of (tbChannels db) i)"
  by (simp add: transformSQL_def) (rule map_of_keyed)

lemma channel_of_migrated:
  assumes "smtpTablesOK sha2 db"
  shows "map_of (tbChannels (migrated sha2 db)) i =
    map_option (\<lambda>r. if map_of (tbBackup (backupSQL sha2 db)) i \<noteq> None then r\<lparr>nrSMTP := clearedSMTP\<rparr> else r) (map_of (tbChannels db) i)"
proof -
  have same: "tbBackup (referenceSQL d) = tbBackup d" "tbChannels (referenceSQL d) = tbChannels d" "tbChannels (backupSQL sha2 d) = tbChannels d" for d
    by (simp_all add: referenceSQL_def backupSQL_def)
  show ?thesis
    using reference_of_backup [OF assms, of i] unfolding migrated_def channel_of_transform same
    by (cases "map_of (tbBackup (backupSQL sha2 db)) i") simp_all
qed

text \<open>The backup keeps its own rows.\<close>

lemma smtpTablesOK_migrated:
  assumes "smtpTablesOK sha2 db"
  shows "smtpTablesOK sha2 (migrated sha2 db)"
proof -
  let ?d = "migrated sha2 db"
  have ch: "gomap (tbChannels ?d)" "fst ` set (tbChannels ?d) = fst ` set (tbChannels db)"
    using assms channels_of_migrated [of sha2 db] by (simp_all add: smtpTablesOK_def gomap_def flip: set_map)
  have bk: "gomap (tbBackup ?d)" "fst ` set (tbBackup ?d) \<subseteq> fst ` set (tbChannels db)"
    using assms gomap_legacy [of db] legacy_keys [of db] unfolding backup_of_migrated
    by (simp_all add: smtpTablesOK_def backupSQL_def gomap_insertIgnore gomap_keyed insertIgnore_keys image_keyed)
  have fp: "list_all (\<lambda>(i, b). bkFingerprint b = fingerprint sha2 i (bkSMTP b)) (tbBackup ?d)"
    using assms unfolding backup_of_migrated by (auto simp: smtpTablesOK_def backupSQL_def insertIgnore_def list_all_iff)
  have refs: "tbReferences ?d = insertIgnore (map (\<lambda>(i, _). (i, globalReference)) (tbBackup ?d)) (tbReferences db)"
    unfolding backup_of_migrated by (simp add: migrated_def transformSQL_def referenceSQL_def backupSQL_def)
  have rf: "gomap (tbReferences ?d)"
    unfolding refs using assms bk(1) by (simp add: smtpTablesOK_def gomap_insertIgnore gomap_keyed)
  moreover have "list_all (\<lambda>(i, r). r = globalReference) (tbReferences ?d)"
    unfolding refs using assms by (auto simp: smtpTablesOK_def insertIgnore_def list_all_iff)
  ultimately show ?thesis using ch bk fp by (simp add: smtpTablesOK_def)
qed

lemma cleared_not_legacy [simp]: "\<not> directLegacyPredicate clearedSMTP"
  by (simp add: directLegacyPredicate_def clearedSMTP_def)

lemma counts_of_migrated:
  assumes "smtpTablesOK sha2 db"
  shows "postCountSQL (migrated sha2 db) = cohortCount db" "orphanCountSQL (migrated sha2 db) = 0"
proof -
  let ?d = "migrated sha2 db"
  have ok: "smtpTablesOK sha2 ?d" by (rule smtpTablesOK_migrated [OF assms])
  have row: "\<exists>r. map_of (tbChannels ?d) i = Some r \<and> map_of (tbReferences ?d) i = Some globalReference \<and>
      \<not> directLegacyPredicate (nrSMTP r)" if "(i, b) \<in> set (tbBackup ?d)" for i b
  proof -
    have in_backup: "map_of (tbBackup (backupSQL sha2 db)) i \<noteq> None"
      using that weak_map_of_SomeI [of i b] unfolding backup_of_migrated by fastforce
    have "fst ` set (tbBackup ?d) \<subseteq> fst ` set (tbChannels ?d)" using ok by (simp add: smtpTablesOK_def)
    then have "i \<in> fst ` set (tbChannels ?d)" using that by force
    then have "map_of (tbChannels ?d) i \<noteq> None" by (simp add: map_of_eq_None_iff)
    moreover have "tbReferences ?d = tbReferences (referenceSQL (backupSQL sha2 db))" by (simp add: migrated_def transformSQL_def)
    ultimately show ?thesis
      using channel_of_migrated [OF assms, of i] reference_of_backup [OF assms in_backup] in_backup by auto
  qed
  have all: "filter P (tbBackup ?d) = tbBackup ?d" if "\<And>i b. (i, b) \<in> set (tbBackup ?d) \<Longrightarrow> P (i, b)" for P
    using that by (auto simp: filter_id_conv)
  show "postCountSQL ?d = cohortCount db"
    unfolding postCountSQL_def
    by (subst all) (use row in \<open>fastforce+, simp add: cohortCount_backup [OF assms, symmetric] backup_of_migrated\<close>)
  have none: "filter P (tbBackup ?d) = []" if "\<And>i b. (i, b) \<in> set (tbBackup ?d) \<Longrightarrow> \<not> P (i, b)" for P
    using that by (auto simp: filter_empty_conv)
  show "orphanCountSQL ?d = 0"
    unfolding orphanCountSQL_def by (subst none) (use row in fastforce)+
qed

subsection \<open>Operations without faults\<close>

definition answered :: "dbAnswers \<Rightarrow> bool" where
  "answered an \<longleftrightarrow> (\<forall>n. sqFault an n = None)"

definition wanted :: "migrationOptions \<Rightarrow> int \<Rightarrow> bool" where
  "wanted options n \<longleftrightarrow> opReplacementReady options \<and> (opExpectedNonEmpty options \<longrightarrow> n \<noteq> 0)"

lemma Run_answered:
  assumes "smtpTablesOK sha2 db" "answered an" "wanted options (cohortCount db)"
  shows "Run sha2 an options db = (Inr (migrationReport (cohortCount db) (cohortCount db) (cohortCount db) 0 ''NOT_RUN'' ''PASS''),
    migrated sha2 db)"
  using assms counts_of_migrated [OF assms(1)] cohortCount_backup [OF assms(1)]
  by (simp add: Run_def runMigration_def ensureTables_def statement_def commitTx_def answered_def wanted_def Let_def flip: migrated_def)

lemma legacy_of_migrated:
  assumes "smtpTablesOK sha2 db"
  shows "legacyChannels (migrated sha2 db) = []"
proof -
  let ?d = "migrated sha2 db"
  have g: "gomap (tbChannels db)" "gomap (tbChannels ?d)"
    using assms smtpTablesOK_migrated [OF assms] by (simp_all add: smtpTablesOK_def)
  have "map_of (legacyChannels ?d) i = None" for i
    unfolding map_of_legacy [OF g(2)] channel_of_migrated [OF assms] map_of_backup map_of_legacy [OF g(1)]
    by (auto split: option.split)
  then have "map_of (legacyChannels ?d) = Map.empty" by (rule ext)
  then show ?thesis by simp
qed

lemma backup_again:
  assumes "smtpTablesOK sha2 db"
  shows "backupSQL sha2 (migrated sha2 db) = migrated sha2 db"
  using legacy_of_migrated [OF assms] by (simp add: backupSQL_def insertIgnore_def)

lemma migrated_again:
  assumes "smtpTablesOK sha2 db"
  shows "migrated sha2 (migrated sha2 db) = migrated sha2 db"
proof -
  let ?d = "migrated sha2 db"
  have ok: "smtpTablesOK sha2 ?d" by (rule smtpTablesOK_migrated [OF assms])
  have bk: "tbBackup (migrated sha2 ?d) = tbBackup ?d" unfolding backup_of_migrated [of sha2 ?d] backup_again [OF assms] ..
  have refs: "set (map fst (tbBackup ?d)) \<subseteq> fst ` set (tbReferences ?d)"
    by (auto simp: migrated_def transformSQL_def referenceSQL_def insertIgnore_keys image_keyed rev_image_eqI)
  have rf: "tbReferences (migrated sha2 ?d) = tbReferences ?d"
    using refs unfolding migrated_def [of sha2 ?d] backup_again [OF assms]
    by (force simp: transformSQL_def referenceSQL_def insertIgnore_def filter_empty_conv)
  have "tbChannels (migrated sha2 ?d) = tbChannels ?d"
  proof (rule gomap_eqI)
    show "gomap (tbChannels (migrated sha2 ?d))" using smtpTablesOK_migrated [OF ok] by (simp add: smtpTablesOK_def)
    show "map_of (tbChannels (migrated sha2 ?d)) i = map_of (tbChannels ?d) i" for i
      unfolding channel_of_migrated [OF ok] backup_again [OF assms] backup_of_migrated channel_of_migrated [OF assms]
      by (cases "map_of (tbChannels db) i") auto
  qed (rule channels_of_migrated)
  with bk rf show ?thesis by simp
qed

lemma channel_of_restored:
  "map_of (tbChannels (restored db)) i =
    map_option (\<lambda>r. case map_of (tbBackup db) i of None \<Rightarrow> r | Some b \<Rightarrow> r\<lparr>nrSMTP := bkSMTP b\<rparr>) (map_of (tbChannels db) i)"
  by (simp add: restored_def removeReferencesSQL_def restoreSQL_def) (rule map_of_keyed)

lemma restoredCount_all:
  assumes "smtpTablesOK sha2 db"
  shows "restoredCountSQL sha2 (restored db) = int (length (tbBackup db))"
proof -
  have bk: "tbBackup (restored db) = tbBackup db" by (simp add: restored_def removeReferencesSQL_def restoreSQL_def)
  have "\<exists>r. map_of (tbChannels (restored db)) i = Some r \<and> fingerprint sha2 i (nrSMTP r) = bkFingerprint b"
    if "(i, b) \<in> set (tbBackup db)" for i b
  proof -
    have m: "map_of (tbBackup db) i = Some b" using that assms by (simp add: smtpTablesOK_def gomap_def)
    have "i \<in> fst ` set (tbChannels db)" using that assms by (force simp: smtpTablesOK_def)
    then obtain r where "map_of (tbChannels db) i = Some r" by (metis map_of_eq_None_iff option.exhaust)
    moreover have "bkFingerprint b = fingerprint sha2 i (bkSMTP b)" using that assms by (force simp: smtpTablesOK_def list_all_iff)
    ultimately show ?thesis using m by (simp add: channel_of_restored)
  qed
  then have "filter (\<lambda>(i, b). case map_of (tbChannels (restored db)) i of None \<Rightarrow> False
      | Some r \<Rightarrow> fingerprint sha2 i (nrSMTP r) = bkFingerprint b) (tbBackup db) = tbBackup db"
    by (fastforce simp: filter_id_conv)
  then show ?thesis by (simp add: restoredCountSQL_def bk)
qed

lemma Restore_answered:
  assumes "smtpTablesOK sha2 db" "answered an" "wanted options (int (length (tbBackup db)))"
  shows "\<exists>report. Restore sha2 an options db = (Inr report, restored db) \<and> mrRestoreStatus report = ''PASS''"
  using assms restoredCount_all [OF assms(1)]
  by (simp add: Restore_def ensureTables_def statement_def commitTx_def answered_def wanted_def migrationReport_def Let_def flip: restored_def)

subsection \<open>Properties\<close>

text \<open>
  C20: the migration can be taken back.  On tables that were never migrated, with a server that
  answers every statement, the run succeeds, leaves no mail channel with SMTP settings of its own,
  changes no other channel, and is verified; the restoration then succeeds and puts every channel
  back exactly as it was.
\<close>

theorem migration_roundtrip:
  assumes "smtpTablesOK sha2 db" "tbBackup db = []" "answered an" "wanted options (cohortCount db)"
  shows "\<exists>report verified report' db' db''. Run sha2 an options db = (Inr report, db') \<and>
    legacyChannels db' = [] \<and>
    (\<forall>i. map_of (legacyChannels db) i = None \<longrightarrow> map_of (tbChannels db') i = map_of (tbChannels db) i) \<and>
    Verify an options db' = (Inr verified, db') \<and>
    Restore sha2 an options db' = (Inr report', db'') \<and> tbChannels db'' = tbChannels db"
proof -
  let ?d = "migrated sha2 db"
  have ok: "smtpTablesOK sha2 ?d" by (rule smtpTablesOK_migrated [OF assms(1)])
  have g: "gomap (tbChannels db)" using assms(1) by (simp add: smtpTablesOK_def)
  have count: "cohortCount ?d = cohortCount db"
    using cohortCount_backup [OF ok] cohortCount_backup [OF assms(1)] by (simp add: backup_again [OF assms(1)] backup_of_migrated)
  have size: "int (length (tbBackup ?d)) = cohortCount db"
    using cohortCount_backup [OF assms(1)] by (simp add: backup_of_migrated)
  obtain report' where r: "Restore sha2 an options ?d = (Inr report', restored ?d)"
    using Restore_answered [OF ok assms(3)] assms(4) size by auto
  have "postCountSQL ?d = cohortCount ?d" "orphanCountSQL ?d = 0"
    using counts_of_migrated [OF assms(1)] count by simp_all
  then obtain verified where v: "Verify an options ?d = (Inr verified, ?d)"
    using assms(3,4) size count
    by (simp add: Verify_def ensureTables_def statement_def answered_def wanted_def Let_def)
  have keep: "map_of (tbChannels ?d) i = map_of (tbChannels db) i" if "map_of (legacyChannels db) i = None" for i
    using that by (simp add: channel_of_migrated [OF assms(1)] map_of_backup assms(2) option.map_ident)
  have "tbChannels (restored ?d) = tbChannels db"
  proof (rule gomap_eqI [symmetric])
    show "map fst (tbChannels db) = map fst (tbChannels (restored ?d))"
      by (simp add: restored_def removeReferencesSQL_def restoreSQL_def keys_keyed channels_of_migrated case_prod_unfold comp_def)
    show "map_of (tbChannels db) i = map_of (tbChannels (restored ?d)) i" for i
      unfolding channel_of_restored backup_of_migrated channel_of_migrated [OF assms(1)] map_of_backup map_of_legacy [OF g] assms(2)
      by (cases "map_of (tbChannels db) i") auto
  qed (rule g)
  then show ?thesis
    using Run_answered [OF assms(1,3,4)] legacy_of_migrated [OF assms(1)] keep v r by blast
qed

text \<open>
  C19: the migration is atomic.  Whatever statement fails, and whatever the check after the
  transformation says, a run that reports an error has left the tables as they were; only when the
  commit itself failed may they be the completely migrated ones.
\<close>

theorem migration_atomic:
  assumes "runMigration sha2 an options afterTransform db = (Inl e, db')"
  shows "db' = db \<or> sqFault an 10 = Some e \<and> db' = migrated sha2 db"
  using assms
  by (auto simp: runMigration_def ensureTables_def statement_def commitTx_def migrated_def Let_def
      split: if_split_asm option.split_asm)

text \<open>
  C21: a second run changes nothing and reports the same.
\<close>

theorem migration_idempotent:
  assumes "smtpTablesOK sha2 db" "answered an" "answered an'" "wanted options (cohortCount db)"
    and "Run sha2 an options db = (r, db')"
  shows "Run sha2 an' options db' = (r, db') \<and> smtpTablesOK sha2 db'"
proof -
  have ok: "smtpTablesOK sha2 (migrated sha2 db)" by (rule smtpTablesOK_migrated [OF assms(1)])
  have count: "cohortCount (migrated sha2 db) = cohortCount db"
    using cohortCount_backup [OF ok] cohortCount_backup [OF assms(1)] by (simp add: backup_again [OF assms(1)] backup_of_migrated)
  show ?thesis
    using Run_answered [OF assms(1,2,4)] Run_answered [OF ok assms(3), of options] assms(4,5) ok count migrated_again [OF assms(1)]
    by simp
qed

text \<open>
  C22: a second migration loses settings.  When a channel that was migrated before has been given a
  mail server of its own again, the next run clears these settings too, but keeps the old backup,
  reports success, and the restoration brings back the settings from before the first migration.
\<close>

theorem remigration_loses_settings:
  assumes "smtpTablesOK sha2 db" "answered an" "wanted options (cohortCount db)"
    and "map_of (tbBackup db) i = Some b" "map_of (tbChannels db) i = Some r"
  shows "\<exists>report report' db' db''. Run sha2 an options db = (Inr report, db') \<and>
    map_of (tbChannels db') i = Some (r\<lparr>nrSMTP := clearedSMTP\<rparr>) \<and> map_of (tbBackup db') i = Some b \<and>
    Restore sha2 an options db' = (Inr report', db'') \<and> map_of (tbChannels db'') i = Some (r\<lparr>nrSMTP := bkSMTP b\<rparr>)"
proof -
  let ?d = "migrated sha2 db"
  have bk: "map_of (tbBackup ?d) i = Some b" using assms(4) by (simp add: backup_of_migrated map_of_backup)
  moreover have ch: "map_of (tbChannels ?d) i = Some (r\<lparr>nrSMTP := clearedSMTP\<rparr>)"
    using assms(4,5) by (simp add: channel_of_migrated [OF assms(1)] map_of_backup)
  moreover have "map_of (tbChannels (restored ?d)) i = Some (r\<lparr>nrSMTP := bkSMTP b\<rparr>)"
    by (simp add: channel_of_restored bk ch)
  moreover have "int (length (tbBackup ?d)) = cohortCount db"
    using cohortCount_backup [OF assms(1)] by (simp add: backup_of_migrated)
  ultimately show ?thesis
    using Run_answered [OF assms(1-3)] Restore_answered [OF smtpTablesOK_migrated [OF assms(1)] assms(2), of options] assms(3)
    by auto
qed

subsection \<open>Witnesses\<close>

definition directSMTP :: "string \<Rightarrow> smtpColumns" where
  "directSMTP host = clearedSMTP\<lparr>sqHost := Some host, sqPort := Some 587\<rparr>"

definition sampleTables :: "string \<Rightarrow> smtpTables" where
  "sampleTables host = \<lparr>tbChannels = [(''c1'', \<lparr>nrType = ''email'', nrSMTP = directSMTP host\<rparr>),
     (''c2'', \<lparr>nrType = ''slack'', nrSMTP = clearedSMTP\<rparr>)], tbBackup = [], tbReferences = []\<rparr>"

definition sampleAnswers :: dbAnswers where
  "sampleAnswers = \<lparr>sqFault = (\<lambda>_. None), sqCommitted = False\<rparr>"

definition sampleOptions :: migrationOptions where
  "sampleOptions = \<lparr>opReplacementReady = True, opExpectedNonEmpty = True\<rparr>"

text \<open>The sample after a migration and a new configuration of its mail channel.\<close>

definition configuredAgain :: smtpTables where
  "configuredAgain = (sampleTables ''new'')\<lparr>tbBackup := [(''c1'', \<lparr>bkSMTP = directSMTP ''old'',
     bkFingerprint = fingerprint (\<lambda>s. s) ''c1'' (directSMTP ''old'')\<rparr>)], tbReferences := [(''c1'', globalReference)]\<rparr>"

lemma sample_ok: "smtpTablesOK (\<lambda>s. s) (sampleTables host)" "answered sampleAnswers"
  "wanted sampleOptions (cohortCount (sampleTables host))"
  by (simp_all add: smtpTablesOK_def sampleTables_def gomap_def answered_def sampleAnswers_def wanted_def sampleOptions_def
      cohortCount_def legacyChannels_def directLegacyPredicate_def directSMTP_def)

lemma configuredAgain_ok: "smtpTablesOK (\<lambda>s. s) configuredAgain" "wanted sampleOptions (cohortCount configuredAgain)"
  by (simp_all add: configuredAgain_def smtpTablesOK_def sampleTables_def gomap_def wanted_def sampleOptions_def
      cohortCount_def legacyChannels_def directLegacyPredicate_def directSMTP_def)

theorem migration_roundtrip_witness:
  "\<exists>report report' db' db''. Run (\<lambda>s. s) sampleAnswers sampleOptions (sampleTables ''h'') = (Inr report, db') \<and>
    legacyChannels db' = [] \<and> Restore (\<lambda>s. s) sampleAnswers sampleOptions db' = (Inr report', db'') \<and>
    tbChannels db'' = tbChannels (sampleTables ''h'')"
  using migration_roundtrip [OF sample_ok(1) _ sample_ok(2) sample_ok(3), of "''h''"] by (auto simp: sampleTables_def)

theorem migration_atomic_witness:
  "let an = sampleAnswers\<lparr>sqFault := (\<lambda>n. if n = 7 then Some (ErrText ''gone'') else None)\<rparr>
   in snd (runMigration (\<lambda>s. s) an sampleOptions None (sampleTables ''h'')) = sampleTables ''h''"
proof -
  let ?an = "sampleAnswers\<lparr>sqFault := (\<lambda>n. if n = 7 then Some (ErrText ''gone'') else None)\<rparr>"
  have "runMigration (\<lambda>s. s) ?an sampleOptions None (sampleTables ''h'') =
      (Inl (ErrText ''gone''), snd (runMigration (\<lambda>s. s) ?an sampleOptions None (sampleTables ''h'')))"
    using cohortCount_backup [OF sample_ok(1), of "''h''"] sample_ok(3) [of "''h''"]
    by (simp add: runMigration_def ensureTables_def statement_def wanted_def sampleOptions_def sampleAnswers_def Let_def)
  from migration_atomic [OF this] show ?thesis by (simp add: Let_def)
qed

theorem migration_idempotent_witness:
  "let (r, db') = Run (\<lambda>s. s) sampleAnswers sampleOptions (sampleTables ''h'')
   in Run (\<lambda>s. s) sampleAnswers sampleOptions db' = (r, db')"
  using migration_idempotent [OF sample_ok(1) sample_ok(2) sample_ok(2) sample_ok(3) prod.collapse [symmetric], of "''h''"]
  unfolding case_prod_unfold Let_def by blast

theorem remigration_loses_settings_witness:
  "\<exists>report report' db' db''. Run (\<lambda>s. s) sampleAnswers sampleOptions configuredAgain = (Inr report, db') \<and>
    Restore (\<lambda>s. s) sampleAnswers sampleOptions db' = (Inr report', db'') \<and>
    map_of (tbChannels configuredAgain) ''c1'' = Some \<lparr>nrType = ''email'', nrSMTP = directSMTP ''new''\<rparr> \<and>
    map_of (tbChannels db'') ''c1'' = Some \<lparr>nrType = ''email'', nrSMTP = directSMTP ''old''\<rparr>"
proof -
  have m: "map_of (tbBackup configuredAgain) ''c1'' = Some \<lparr>bkSMTP = directSMTP ''old'',
      bkFingerprint = fingerprint (\<lambda>s. s) ''c1'' (directSMTP ''old'')\<rparr>"
    "map_of (tbChannels configuredAgain) ''c1'' = Some \<lparr>nrType = ''email'', nrSMTP = directSMTP ''new''\<rparr>"
    by (simp_all add: configuredAgain_def sampleTables_def)
  from remigration_loses_settings [OF configuredAgain_ok(1) sample_ok(2) configuredAgain_ok(2) m]
  obtain report report' db' db'' where "Run (\<lambda>s. s) sampleAnswers sampleOptions configuredAgain = (Inr report, db')"
    "Restore (\<lambda>s. s) sampleAnswers sampleOptions db' = (Inr report', db'')"
    "map_of (tbChannels db'') ''c1'' = Some \<lparr>nrType = ''email'', nrSMTP = directSMTP ''old''\<rparr>" by auto
  with m(2) show ?thesis by blast
qed

end
