(* ===== verification/Database_Setup.thy ===== *)
theory Database_Setup
  imports Store_Types Text_Tools
begin

text \<open>
  The connection and the embedded schema migrations of \<^verbatim>\<open>internal/database\<close>: the data source name,
  its masked form, and the runner that applies each file once.  The database server and the
  embedded files are parameters.
\<close>

subsection \<open>Data source names\<close>

definition NormalizeMySQLDSN :: "string \<Rightarrow> string result" where
  "NormalizeMySQLDSN raw0 =
     (let raw = (if HasPrefix raw0 ''mysql://'' then TrimPrefix raw0 ''mysql://'' else raw0) in
      if strContains raw ''://'' then Inl (ErrText ''DATABASE_URL must use mysql:// or native go mysql dsn'')
      else if \<not> strContains raw ''parseTime=true''
      then Inr (raw @ (if strContains raw ''?'' then ''&'' else ''?'') @ ''parseTime=true'')
      else Inr raw)"

text \<open>\<^verbatim>\<open>strings.Index\<close> and \<^verbatim>\<open>strings.LastIndex\<close> of one byte; \<open>- 1\<close> when there is none.\<close>

definition indexByte :: "string \<Rightarrow> char \<Rightarrow> int" where
  "indexByte s c = (if c \<in> set s then int (length (takeWhile (\<lambda>d. d \<noteq> c) s)) else - 1)"

definition lastIndexOf :: "string \<Rightarrow> char \<Rightarrow> int" where
  "lastIndexOf s c = (if c \<in> set s then int (length s) - 1 - int (length (takeWhile (\<lambda>d. d \<noteq> c) (rev s))) else - 1)"

definition MaskDSN :: "string \<Rightarrow> string" where
  "MaskDSN raw0 =
     (let raw = (if HasPrefix raw0 ''mysql://'' then TrimPrefix raw0 ''mysql://'' else raw0);
          amp = lastIndexOf raw (CHR ''@''); colon = indexByte raw (CHR '':'')
      in if amp > 0 \<and> colon > 0 \<and> colon < amp then take (nat (colon + 1)) raw @ ''****'' @ drop (nat amp) raw else raw)"

text \<open>
  Opening the pool: \<open>open\<close> and \<open>ping\<close> are the driver's answers.  A pool that does not answer is closed.
\<close>

definition OpenFromEnv :: "goenv \<Rightarrow> (string \<Rightarrow> goerr option) \<Rightarrow> goerr option \<Rightarrow> string result" where
  "OpenFromEnv env openErr pingErr =
     (let raw = getenv env ''DATABASE_URL'' in
      if raw = [] then Inl (ErrText ''DATABASE_URL is required'')
      else case NormalizeMySQLDSN raw of
        Inl e \<Rightarrow> Inl e
      | Inr dsn \<Rightarrow>
         (case openErr dsn of Some e \<Rightarrow> Inl e | None \<Rightarrow> (case pingErr of Some e \<Rightarrow> Inl e | None \<Rightarrow> Inr dsn)))"

subsection \<open>Migrations\<close>

definition splitSQLStatements :: "string \<Rightarrow> string list" where
  "splitSQLStatements sqlText = filter (\<lambda>stmt. stmt \<noteq> []) (map TrimSpace (splitByte (CHR '';'') sqlText))"

text \<open>
  The server: \<open>mgExec\<close> runs a statement, which may fail and may have changed the database all the same;
  \<open>mgApplied\<close> looks an identifier up in \<^verbatim>\<open>schema_migrations\<close> and \<open>mgRecord\<close> inserts it.  An embedded file
  is its name, whether it is a directory, and the answer of reading it.
\<close>

record 'db migrationServer =
  mgExec :: "string \<Rightarrow> 'db \<Rightarrow> goerr option \<times> 'db"
  mgApplied :: "string \<Rightarrow> 'db \<Rightarrow> bool result"
  mgRecord :: "string \<Rightarrow> 'db \<Rightarrow> goerr option \<times> 'db"

record migrationEntry =
  meName :: string
  meIsDir :: bool
  meBody :: "string result"

fun applyStatements :: "'db migrationServer \<Rightarrow> string list \<Rightarrow> 'db \<Rightarrow> goerr option \<times> 'db" where
  "applyStatements sv [] db = (None, db)"
| "applyStatements sv (stmt # stmts) db =
     (case mgExec sv stmt db of
        (Some e, db') \<Rightarrow> (Some e, db')
      | (None, db') \<Rightarrow> applyStatements sv stmts db')"

definition applyEntry :: "'db migrationServer \<Rightarrow> migrationEntry \<Rightarrow> 'db \<Rightarrow> goerr option \<times> 'db" where
  "applyEntry sv entry db =
     (if meIsDir entry \<or> \<not> HasSuffix (meName entry) ''.sql'' then (None, db)
      else case mgApplied sv (meName entry) db of
        Inl e \<Rightarrow> (Some e, db)
      | Inr True \<Rightarrow> (None, db)
      | Inr False \<Rightarrow>
         (case meBody entry of
            Inl e \<Rightarrow> (Some e, db)
          | Inr body \<Rightarrow>
             (case applyStatements sv (splitSQLStatements body) db of
                (Some e, db') \<Rightarrow> (Some e, db')
              | (None, db') \<Rightarrow> mgRecord sv (meName entry) db')))"

fun applyEntries :: "'db migrationServer \<Rightarrow> migrationEntry list \<Rightarrow> 'db \<Rightarrow> goerr option \<times> 'db" where
  "applyEntries sv [] db = (None, db)"
| "applyEntries sv (entry # entries) db =
     (case applyEntry sv entry db of
        (Some e, db') \<Rightarrow> (Some e, db')
      | (None, db') \<Rightarrow> applyEntries sv entries db')"

definition createMigrationsTable :: string where
  "createMigrationsTable = ''CREATE TABLE IF NOT EXISTS schema_migrations (
  id VARCHAR(255) PRIMARY KEY,
  applied_at DATETIME NOT NULL DEFAULT CURRENT_TIMESTAMP
)''"

definition RunEmbeddedMigrations ::
  "'db migrationServer \<Rightarrow> migrationEntry list result \<Rightarrow> 'db \<Rightarrow> goerr option \<times> 'db" where
  "RunEmbeddedMigrations sv entries db =
     (case mgExec sv createMigrationsTable db of
        (Some e, db') \<Rightarrow> (Some e, db')
      | (None, db') \<Rightarrow>
         (case entries of Inl e \<Rightarrow> (Some e, db') | Inr es \<Rightarrow> applyEntries sv es db'))"

subsection \<open>Facts\<close>

text \<open>
  The laws of the record of applied files: an identifier that was recorded is found, and nothing
  else removes one.
\<close>

definition recordLaws :: "'db migrationServer \<Rightarrow> bool" where
  "recordLaws sv \<longleftrightarrow>
     (\<forall>i db db'. mgRecord sv i db = (None, db') \<longrightarrow> mgApplied sv i db' = Inr True) \<and>
     (\<forall>i db r db' j. mgRecord sv i db = (r, db') \<longrightarrow> mgApplied sv j db = Inr True \<longrightarrow> mgApplied sv j db' = Inr True) \<and>
     (\<forall>s db r db' j. mgExec sv s db = (r, db') \<longrightarrow> mgApplied sv j db = Inr True \<longrightarrow> mgApplied sv j db' = Inr True)"

definition doneEntry :: "'db migrationServer \<Rightarrow> 'db \<Rightarrow> migrationEntry \<Rightarrow> bool" where
  "doneEntry sv db e \<longleftrightarrow> meIsDir e \<or> \<not> HasSuffix (meName e) ''.sql'' \<or> mgApplied sv (meName e) db = Inr True"

lemma recordLawsD:
  assumes "recordLaws sv"
  shows "mgRecord sv i db = (None, db') \<Longrightarrow> mgApplied sv i db' = Inr True"
    "mgRecord sv i db = (r, db') \<Longrightarrow> mgApplied sv j db = Inr True \<Longrightarrow> mgApplied sv j db' = Inr True"
    "mgExec sv s db = (r, db') \<Longrightarrow> mgApplied sv j db = Inr True \<Longrightarrow> mgApplied sv j db' = Inr True"
  using assms unfolding recordLaws_def by blast+

lemma statements_keep:
  "recordLaws sv \<Longrightarrow> applyStatements sv ss db = (r, db') \<Longrightarrow> mgApplied sv j db = Inr True \<Longrightarrow> mgApplied sv j db' = Inr True"
proof (induction ss arbitrary: db)
  case (Cons s ss)
  then show ?case by (auto split: prod.splits option.splits dest: recordLawsD(3))
qed simp

lemma entry_keep: "recordLaws sv \<Longrightarrow> applyEntry sv e db = (r, db') \<Longrightarrow> doneEntry sv db x \<Longrightarrow> doneEntry sv db' x"
  by (auto simp: applyEntry_def doneEntry_def split: if_split_asm sum.split_asm bool.split_asm prod.split_asm option.split_asm
      dest: statements_keep recordLawsD(2))

lemma entry_done: "recordLaws sv \<Longrightarrow> applyEntry sv e db = (None, db') \<Longrightarrow> doneEntry sv db' e"
  by (auto simp: applyEntry_def doneEntry_def split: if_split_asm sum.split_asm bool.split_asm prod.split_asm option.split_asm
      dest: recordLawsD(1))

lemma entries_done:
  "recordLaws sv \<Longrightarrow> applyEntries sv es db = (None, db') \<Longrightarrow>
   (\<forall>e\<in>set es. doneEntry sv db' e) \<and> (\<forall>x. doneEntry sv db x \<longrightarrow> doneEntry sv db' x)"
proof (induction es arbitrary: db)
  case (Cons e es)
  then obtain db1 where e: "applyEntry sv e db = (None, db1)" "applyEntries sv es db1 = (None, db')"
    by (auto split: prod.splits option.splits)
  then have "doneEntry sv db1 e" "\<forall>x. doneEntry sv db x \<longrightarrow> doneEntry sv db1 x"
    using entry_done [OF Cons.prems(1) e(1)] entry_keep [OF Cons.prems(1) e(1)] by simp_all
  with Cons.IH [OF Cons.prems(1) e(2)] show ?case by auto
qed simp

lemma done_skipped: "(\<forall>e\<in>set es. doneEntry sv db e) \<Longrightarrow> applyEntries sv es db = (None, db)"
  by (induction es) (auto simp: applyEntry_def doneEntry_def)

text \<open>After a successful run every file is recorded, and the next run executes none of them again.\<close>

theorem migrations_run_once:
  assumes "recordLaws sv" "RunEmbeddedMigrations sv (Inr es) db = (None, db')"
    and "mgExec sv createMigrationsTable db' = (None, db'')"
  shows "RunEmbeddedMigrations sv (Inr es) db' = (None, db'')"
proof -
  have "\<forall>e\<in>set es. doneEntry sv db' e"
    using assms(2) entries_done [OF assms(1)] by (auto simp: RunEmbeddedMigrations_def split: prod.splits option.splits)
  then have "\<forall>e\<in>set es. doneEntry sv db'' e" using recordLawsD(3) [OF assms(1,3)] by (auto simp: doneEntry_def)
  then show ?thesis using assms(3) done_skipped by (simp add: RunEmbeddedMigrations_def)
qed

text \<open>
  A statement that fails leaves the statements before it in the database but the file unrecorded, so
  the next run begins the file again.
\<close>

lemma failed_file_restarts:
  assumes "\<not> meIsDir e" "HasSuffix (meName e) ''.sql''" "mgApplied sv (meName e) db = Inr False" "meBody e = Inr body"
    and "splitSQLStatements body = done_stmts @ stmt # rest" "applyStatements sv done_stmts db = (None, db1)"
    and "mgExec sv stmt db1 = (Some err, db2)"
  shows "applyEntry sv e db = (Some err, db2)"
proof -
  have "applyStatements sv (xs @ stmt # rest) d = (Some err, db2)" if "applyStatements sv xs d = (None, db1)" for xs d
    using that assms(7) by (induction xs arbitrary: d) (auto split: prod.splits option.splits)
  then show ?thesis using assms by (simp add: applyEntry_def)
qed

text \<open>A normalised name asks for parsed times, names no other scheme and is normal.\<close>

lemma sublist_marked: "sublist xs (ys @ c # zs) \<Longrightarrow> c \<notin> set xs \<Longrightarrow> sublist xs ys \<or> sublist xs zs"
  by (auto simp: sublist_append sublist_Cons_right prefix_Cons dest: suffix_imp_sublist prefix_imp_sublist)

lemma NormalizeMySQLDSN_normal:
  assumes "NormalizeMySQLDSN raw = Inr dsn"
  shows "strContains dsn ''parseTime=true'' \<and> \<not> strContains dsn ''://'' \<and> NormalizeMySQLDSN dsn = Inr dsn"
proof -
  obtain r where r: "\<not> strContains r ''://''" and d: "dsn = r \<and> strContains r ''parseTime=true'' \<or>
      (\<exists>c\<in>{CHR ''&'', CHR ''?''}. dsn = r @ c # ''parseTime=true'')"
    using assms by (auto simp: NormalizeMySQLDSN_def Let_def split: if_split_asm)
  have times: "strContains dsn ''parseTime=true''"
    using d by (auto simp: strContains_sublist sublist_append sublist_Cons_right)
  have scheme: "\<not> strContains dsn ''://''"
    using r d sublist_marked [of "''://''" r _ "''parseTime=true''"]
    by (auto simp: strContains_sublist sublist_Cons_right sublist_Nil_right)
  then have "\<not> HasPrefix dsn ''mysql://''"
    by (auto simp: strContains_sublist HasPrefix_prefix prefix_def sublist_append sublist_Cons_right)
  with times scheme show ?thesis by (simp add: NormalizeMySQLDSN_def)
qed

end
