(* ===== verification/Float_Rounding.thy ===== *)
theory Float_Rounding
  imports Go_Values
begin

text \<open>
  Facts on the rounding of \<^verbatim>\<open>float64\<close> (\<open>round64\<close> of \<open>Go_Values\<close>) that bounds on computed percentages need:
  it is monotone on what is not negative, and it keeps small integers.
\<close>

lemma powi_rat_mono: "k \<le> m \<Longrightarrow> (2::rat) powi k \<le> 2 powi m"
  by (rule power_int_increasing) auto

lemma bitlen_int_bounds:
  assumes "0 < (p::int)"
  obtains a where "bitlen p = int a + 1" "2 ^ a \<le> p" "p < 2 ^ (a + 1)"
proof
  define a where "a = nat (bitlen p) - 1"
  have pos: "0 < bitlen p" using assms by (simp add: bitlen_nonneg order_less_le bitlen_eq_zero_iff)
  then show "bitlen p = int a + 1" by (simp add: a_def)
  have "nat (bitlen p - 1) = a" using pos by (simp add: a_def nat_diff_distrib)
  then show "2 ^ a \<le> p" using bitlen_bounds [OF assms] by simp
  show "p < 2 ^ (a + 1)" using bitlen_bounds [OF assms] pos by (simp add: a_def nat_diff_distrib)
qed

lemma ilog2_bounds:
  assumes "0 < x"
  shows "2 powi ilog2 x \<le> x" "x < 2 powi (ilog2 x + 1)"
proof -
  obtain p q where pq: "quotient_of x = (p, q)" by fastforce
  have q: "0 < q" using quotient_of_denom_pos [OF pq] .
  have x: "x = of_int p / of_int q" using quotient_of_div [OF pq] .
  have p: "0 < p" using assms x q by (simp add: zero_less_divide_iff)
  obtain a where a: "bitlen p = int a + 1" "2 ^ a \<le> p" "p < 2 ^ (a + 1)" using bitlen_int_bounds [OF p] by blast
  obtain b where b: "bitlen q = int b + 1" "2 ^ b \<le> q" "q < 2 ^ (b + 1)" using bitlen_int_bounds [OF q] by blast
  have ar: "(2::rat) ^ a \<le> of_int p" "(of_int p :: rat) < 2 ^ (a + 1)"
    using a(2,3) by (metis of_int_le_iff of_int_numeral of_int_power, metis of_int_less_iff of_int_numeral of_int_power)
  have br: "(2::rat) ^ b \<le> of_int q" "(of_int q :: rat) < 2 ^ (b + 1)"
    using b(2,3) by (metis of_int_le_iff of_int_numeral of_int_power, metis of_int_less_iff of_int_numeral of_int_power)
  define e where "e = int a - int b"
  have e: "(2::rat) powi e = 2 ^ a / 2 ^ b" by (simp add: e_def power_int_diff)
  have lo: "(2::rat) powi (e - 1) \<le> x"
  proof -
    have "(2::rat) powi (e - 1) = 2 ^ a / 2 ^ (b + 1)" by (simp add: e_def power_int_diff)
    also have "\<dots> \<le> of_int p / of_int q" using ar(1) br p q by (intro frac_le) auto
    finally show ?thesis by (simp add: x)
  qed
  have hi: "x < 2 powi (e + 1)"
  proof -
    have "(of_int p :: rat) / of_int q < 2 ^ (a + 1) / 2 ^ b" using ar br p q by (intro frac_less) auto
    also have "\<dots> = (2::rat) powi (e + 1)" by (simp add: e_def power_int_diff power_int_add)
    finally show ?thesis by (simp add: x)
  qed
  have i: "ilog2 x = (if 2 powi e \<le> x then e else e - 1)" by (simp add: ilog2_def pq a b e_def)
  show "2 powi ilog2 x \<le> x" "x < 2 powi (ilog2 x + 1)" using i lo hi by auto
qed

lemma roundEven_mono: "r \<le> s \<Longrightarrow> roundEven r \<le> roundEven s"
proof -
  assume le: "r \<le> s"
  have f: "\<lfloor>r\<rfloor> \<le> \<lfloor>s\<rfloor>" using le by (rule floor_mono)
  have b: "\<lfloor>t\<rfloor> \<le> roundEven t \<and> roundEven t \<le> \<lfloor>t\<rfloor> + 1" for t by (simp add: roundEven_def Let_def)
  show ?thesis
  proof (cases "\<lfloor>r\<rfloor> = \<lfloor>s\<rfloor>")
    case True
    then show ?thesis using le by (auto simp: roundEven_def Let_def)
  next
    case False
    then show ?thesis using f b [of r] b [of s] by linarith
  qed
qed

definition roundVal :: "rat \<Rightarrow> rat" where
  "roundVal x = of_int (roundEven (x / ulp64 x)) * ulp64 x"

lemma round64_roundVal:
  "0 \<le> x \<Longrightarrow> roundVal x < 2 powi 1024 \<Longrightarrow> round64 x = Fin (roundVal x) \<and> 0 \<le> roundVal x"
proof -
  assume x: "0 \<le> x" and "roundVal x < 2 powi 1024"
  have "0 \<le> roundVal x" unfolding roundVal_def
    using x ulp64_pos [of x] by (intro mult_nonneg_nonneg) (simp_all add: roundEven_nonneg)
  moreover have "- (2 powi 1024) < (0::rat)" by simp
  ultimately show ?thesis using \<open>roundVal x < 2 powi 1024\<close>
    by (auto simp: round64_def roundVal_def Let_def roundEven_def)
qed

text \<open>A multiple of the unit in the last place bounds the rounded value whenever it bounds the value.\<close>

lemma roundVal_le: "x \<le> of_int n * ulp64 x \<Longrightarrow> roundVal x \<le> of_int n * ulp64 x"
proof -
  assume "x \<le> of_int n * ulp64 x"
  then have "x / ulp64 x \<le> of_int n" using ulp64_pos [of x] by (simp add: pos_divide_le_eq)
  then have "roundEven (x / ulp64 x) \<le> n" using roundEven_mono roundEven_of_int by metis
  then show ?thesis unfolding roundVal_def using ulp64_pos [of x] by simp
qed

lemma roundVal_ge: "of_int n * ulp64 x \<le> x \<Longrightarrow> of_int n * ulp64 x \<le> roundVal x"
proof -
  assume "of_int n * ulp64 x \<le> x"
  then have "of_int n \<le> x / ulp64 x" using ulp64_pos [of x] by (simp add: pos_le_divide_eq)
  then have "n \<le> roundEven (x / ulp64 x)" using roundEven_mono roundEven_of_int by metis
  then show ?thesis unfolding roundVal_def using ulp64_pos [of x] by simp
qed

lemma powi_multiple:
  assumes "max (ilog2 \<bar>x\<bar>) (- 1022) - 52 \<le> k"
  shows "(2::rat) powi k = of_int (2 ^ nat (k - (max (ilog2 \<bar>x\<bar>) (- 1022) - 52))) * ulp64 x"
proof -
  define e where "e = max (ilog2 \<bar>x\<bar>) (- 1022) - 52"
  have "(2::rat) powi k = 2 powi ((k - e) + e)" by simp
  also have "\<dots> = 2 powi (k - e) * 2 powi e" by (subst power_int_add) simp_all
  also have "(2::rat) powi (k - e) = of_int (2 ^ nat (k - e))"
    using assms by (simp add: e_def power_int_def)
  finally show ?thesis by (simp add: e_def ulp64_def)
qed

theorem roundVal_mono:
  assumes "0 < x" "x \<le> y"
  shows "roundVal x \<le> roundVal y"
proof -
  have l: "ilog2 x \<le> ilog2 y"
  proof (rule ccontr)
    assume "\<not> ilog2 x \<le> ilog2 y"
    then have "(2::rat) powi (ilog2 y + 1) \<le> 2 powi ilog2 x" by (intro powi_rat_mono) simp
    then show False using ilog2_bounds [of x] ilog2_bounds [of y] assms by linarith
  qed
  let ?ex = "max (ilog2 \<bar>x\<bar>) (- 1022)" and ?ey = "max (ilog2 \<bar>y\<bar>) (- 1022)"
  show ?thesis
  proof (cases "?ex = ?ey")
    case True
    then have "ulp64 x = ulp64 y" by (simp add: ulp64_def)
    moreover have "x / ulp64 y \<le> y / ulp64 y" using assms ulp64_pos [of y] by (intro divide_right_mono) auto
    ultimately show ?thesis unfolding roundVal_def using roundEven_mono ulp64_pos [of y] by simp
  next
    case False
    then have lt: "?ex < ?ey" using l assms by auto
    then have ey: "?ey = ilog2 y" using assms by auto
    have "x < 2 powi (ilog2 x + 1)" using ilog2_bounds assms by blast
    also have "(2::rat) powi (ilog2 x + 1) \<le> 2 powi ?ey" using lt assms by (intro powi_rat_mono) auto
    finally have "x \<le> 2 powi ?ey" by simp
    moreover have "(2::rat) powi ?ey = of_int (2 ^ nat (?ey - (?ex - 52))) * ulp64 x"
      using lt by (intro powi_multiple) auto
    ultimately have "roundVal x \<le> 2 powi ?ey" by (metis roundVal_le)
    moreover have "(2::rat) powi ?ey = of_int (2 ^ nat (?ey - (?ey - 52))) * ulp64 y"
      by (intro powi_multiple) auto
    moreover have "(2::rat) powi ?ey \<le> y" using ey ilog2_bounds [of y] assms by auto
    ultimately show ?thesis by (metis roundVal_ge order_trans)
  qed
qed

lemma roundVal_of_int: "0 < n \<Longrightarrow> n < 2 ^ 53 \<Longrightarrow> roundVal (of_int n) = of_int n"
proof -
  assume n: "0 < n" "n < 2 ^ 53"
  have "ilog2 (of_int n) \<le> int 53 - 1" using n by (intro ilog2_of_int_le) auto
  then have le: "max (ilog2 \<bar>of_int n\<bar>) (- 1022) - 52 \<le> 0" using n by simp
  have "(2::rat) powi 0 = of_int (2 ^ nat (0 - (max (ilog2 \<bar>of_int n\<bar>) (- 1022) - 52))) * ulp64 (of_int n)"
    by (rule powi_multiple [OF le])
  then obtain m :: int where m: "(1::rat) = of_int m * ulp64 (of_int n)" by (metis power_int_0_right)
  then have "(of_int n :: rat) = of_int (n * m) * ulp64 (of_int n)" by simp
  then show "roundVal (of_int n) = of_int n" by (metis antisym order_refl roundVal_ge roundVal_le)
qed

lemma roundVal_powi: "- 1022 \<le> k \<Longrightarrow> roundVal (2 powi k) = 2 powi k"
proof -
  assume "- 1022 \<le> k"
  have "ilog2 (2 powi k) \<le> k"
  proof (rule ccontr)
    assume "\<not> ilog2 (2 powi k) \<le> k"
    then have "(2::rat) powi k < 2 powi ilog2 (2 powi k)" by (intro power_int_strict_increasing) auto
    moreover have "(2::rat) powi ilog2 (2 powi k) \<le> 2 powi k" by (rule ilog2_bounds) simp
    ultimately show False by simp
  qed
  then have "(2::rat) powi k = of_int (2 ^ nat (k - (max (ilog2 \<bar>2 powi k\<bar>) (- 1022) - 52))) * ulp64 (2 powi k)"
    using \<open>- 1022 \<le> k\<close> by (intro powi_multiple) auto
  then show ?thesis by (metis antisym order_refl roundVal_ge roundVal_le)
qed

lemma round64_mono_Fin:
  assumes "0 \<le> x" "x \<le> y" "0 < y" "roundVal y < 2 powi 1024"
  obtains a b where "round64 x = Fin a" "round64 y = Fin b" "0 \<le> a" "a \<le> b"
proof (cases "x = 0")
  case True
  have "round64 y = Fin (roundVal y)" "0 \<le> roundVal y" using round64_roundVal [of y] assms by auto
  moreover have "round64 x = Fin 0" using True by (simp add: round64_def)
  ultimately show thesis using that by blast
next
  case False
  then have le: "roundVal x \<le> roundVal y" using roundVal_mono assms by simp
  have "round64 x = Fin (roundVal x)" "0 \<le> roundVal x" using round64_roundVal [of x] assms le by auto
  moreover have "round64 y = Fin (roundVal y)" using round64_roundVal [of y] assms by auto
  ultimately show thesis using that le by blast
qed

end
