(* ===== verification/Host_Metrics.thy ===== *)
theory Host_Metrics
  imports Control_Client Text_Tools Float_Rounding "HOL-Library.Word"
begin

text \<open>
  The host and process metrics of \<^verbatim>\<open>internal/control/hostmetrics.go\<close> and \<^verbatim>\<open>hostmetrics_unix.go\<close>: what the
  files under \<^verbatim>\<open>/proc\<close>, \<^verbatim>\<open>statfs\<close> and the Go runtime say, as the percentages and rates that the service
  reports of itself.  A \<^verbatim>\<open>uint64\<close> is a \<open>64 word\<close>; the file contents are parameters.
\<close>

subsection \<open>Arithmetic of float64\<close>

text \<open>Addition, multiplication and division; a zero divisor is taken as positive, and the code has none.\<close>

definition fneg :: "float64 \<Rightarrow> float64" where
  "fneg x = (case x of NaN \<Rightarrow> NaN | PosInf \<Rightarrow> NegInf | NegInf \<Rightarrow> PosInf | Fin a \<Rightarrow> Fin (- a))"

definition fadd :: "float64 \<Rightarrow> float64 \<Rightarrow> float64" where
  "fadd x y = fsub x (fneg y)"

definition signedInf :: "rat \<Rightarrow> float64" where
  "signedInf s = (if s = 0 then NaN else if s > 0 then PosInf else NegInf)"

definition fsign :: "float64 \<Rightarrow> rat" where
  "fsign x = (case x of NaN \<Rightarrow> 0 | PosInf \<Rightarrow> 1 | NegInf \<Rightarrow> - 1 | Fin a \<Rightarrow> sgn a)"

definition fmul :: "float64 \<Rightarrow> float64 \<Rightarrow> float64" where
  "fmul x y = (case (x, y) of (Fin a, Fin b) \<Rightarrow> round64 (a * b) | _ \<Rightarrow> signedInf (fsign x * fsign y))"

definition fdiv :: "float64 \<Rightarrow> float64 \<Rightarrow> float64" where
  "fdiv x y = (case (x, y) of
     (Fin a, Fin b) \<Rightarrow> if b = 0 then signedInf (sgn a) else round64 (a / b)
   | (Fin a, NaN) \<Rightarrow> NaN
   | (Fin a, _) \<Rightarrow> Fin 0
   | (_, Fin b) \<Rightarrow> signedInf (fsign x * (if b < 0 then - 1 else 1))
   | _ \<Rightarrow> NaN)"

definition floatWord :: "64 word \<Rightarrow> float64" where
  "floatWord w = round64 (of_nat (unat w))"

text \<open>\<^verbatim>\<open>Duration.Seconds\<close>; the quotient and the remainder of Go are truncated.\<close>

definition durationSeconds :: "int \<Rightarrow> float64" where
  "durationSeconds d = (let q = sgn d * (\<bar>d\<bar> div second); r = sgn d * (\<bar>d\<bar> mod second)
     in fadd (round64 (of_int q)) (fdiv (round64 (of_int r)) (Fin (10 ^ 9))))"

text \<open>\<^verbatim>\<open>strconv.ParseUint(s, 10, 64)\<close>.\<close>

definition ParseUint :: "string \<Rightarrow> 64 word option" where
  "ParseUint s = (if s \<noteq> [] \<and> list_all isDigit s \<and> digitsValue s < 2 ^ 64 then Some (of_nat (digitsValue s)) else None)"

subsection \<open>Processor times\<close>

record cpuTimes =
  cpTotal :: "64 word"
  cpIdle :: "64 word"

definition cpuUsedPercent :: "cpuTimes \<Rightarrow> cpuTimes \<Rightarrow> float64 option" where
  "cpuUsedPercent previous current =
     (if cpTotal current \<le> cpTotal previous \<or> cpIdle current < cpIdle previous then None
      else
        (let totalDelta = cpTotal current - cpTotal previous; idleDelta = cpIdle current - cpIdle previous in
         if idleDelta > totalDelta then None
         else Some (fmul (fdiv (floatWord (totalDelta - idleDelta)) (floatWord totalDelta)) (Fin 100))))"

fun parseUints :: "string list \<Rightarrow> 64 word list option" where
  "parseUints [] = Some []"
| "parseUints (f # fs) =
     (case ParseUint f of None \<Rightarrow> None | Some v \<Rightarrow> map_option (\<lambda>vs. v # vs) (parseUints fs))"

fun parseProcStatLines :: "string list \<Rightarrow> cpuTimes option" where
  "parseProcStatLines [] = None"
| "parseProcStatLines (line # rest) =
     (let fields = Fields line in
      if length fields < 5 \<or> hd fields \<noteq> ''cpu'' then parseProcStatLines rest
      else
        (let limit = (if length fields > 9 then 9 else length fields) in
         case parseUints (take (limit - 1) (tl fields)) of
           None \<Rightarrow> None
         | Some vals \<Rightarrow>
             (let total = sum_list vals; idle = (vals ! 3) + (if length vals > 4 then vals ! 4 else 0) in
              if total = 0 \<or> idle > total then None else Some \<lparr>cpTotal = total, cpIdle = idle\<rparr>)))"

definition parseProcStatCPUTimes :: "string \<Rightarrow> cpuTimes option" where
  "parseProcStatCPUTimes s = parseProcStatLines (splitByte (CHR 0x0A) s)"

text \<open>A file that cannot be read is \<open>None\<close>.\<close>

definition cpuTimeCounters :: "string option \<Rightarrow> cpuTimes option" where
  "cpuTimeCounters procStat = (case procStat of None \<Rightarrow> None | Some s \<Rightarrow> parseProcStatCPUTimes s)"

text \<open>The metrics and the sample that is kept for the next call; a nil map is the empty one here.\<close>

definition cpuMetrics :: "string option \<Rightarrow> cpuTimes option \<Rightarrow> float64 gomap \<times> cpuTimes option" where
  "cpuMetrics procStat previous =
     (case cpuTimeCounters procStat of
        None \<Rightarrow> ([], previous)
      | Some current \<Rightarrow>
         (case previous of
            None \<Rightarrow> ([], Some current)
          | Some p \<Rightarrow>
             (case cpuUsedPercent p current of
                None \<Rightarrow> ([], Some current)
              | Some usedPercent \<Rightarrow> ([(''node.cpu.used_percent'', usedPercent)], Some current))))"

subsection \<open>Memory and load\<close>

definition metricOf :: "float64 gomap \<Rightarrow> string \<Rightarrow> float64" where
  "metricOf m k = (case map_of m k of None \<Rightarrow> Fin 0 | Some v \<Rightarrow> v)"

definition memInfoKey :: "string \<Rightarrow> string option" where
  "memInfoKey f =
     (if f = ''MemTotal'' then Some ''node.memory.total_bytes''
      else if f = ''MemFree'' then Some ''node.memory.free_bytes''
      else if f = ''MemAvailable'' then Some ''node.memory.available_bytes''
      else if f = ''Buffers'' then Some ''node.memory.buffers_bytes''
      else if f = ''Cached'' then Some ''node.memory.cached_bytes''
      else None)"

definition memInfoLine :: "goenv \<Rightarrow> float64 gomap \<Rightarrow> string \<Rightarrow> float64 gomap" where
  "memInfoLine env vals line =
     (let fields = Fields line in
      if length fields < 2 then vals
      else case parseFloat env (fields ! 1) of
        None \<Rightarrow> vals
      | Some parsed \<Rightarrow>
         (case memInfoKey (TrimSuffix (fields ! 0) '':'') of
            None \<Rightarrow> vals
          | Some k \<Rightarrow> AList.update k (fmul parsed (Fin 1024)) vals))"

definition procMemInfoMetrics :: "goenv \<Rightarrow> string option \<Rightarrow> float64 gomap" where
  "procMemInfoMetrics env meminfo =
     (case meminfo of
        None \<Rightarrow> []
      | Some s \<Rightarrow>
         (let vals = foldl (memInfoLine env) [] (splitByte (CHR 0x0A) s);
              total = metricOf vals ''node.memory.total_bytes''
          in if fgt total (Fin 0) then
               (let a = metricOf vals ''node.memory.available_bytes'';
                    available = (if fle a (Fin 0) then metricOf vals ''node.memory.free_bytes'' else a);
                    used = fsub total available
                in if fge used (Fin 0)
                   then AList.update ''node.memory.used_percent'' (fmul (fdiv used total) (Fin 100))
                          (AList.update ''node.memory.used_bytes'' used vals)
                   else vals)
             else vals))"

definition procLoadMetrics :: "goenv \<Rightarrow> string option \<Rightarrow> float64 gomap" where
  "procLoadMetrics env loadavg =
     (case loadavg of
        None \<Rightarrow> []
      | Some s \<Rightarrow>
         (let fields = Fields s in
          if length fields < 3 then []
          else List.map_filter (\<lambda>(k, f). map_option (\<lambda>v. (k, v)) (parseFloat env f))
            [(''node.load1'', fields ! 0), (''node.load5'', fields ! 1), (''node.load15'', fields ! 2)]))"

subsection \<open>The file system\<close>

record statfs =
  sfBsize :: int
  sfBlocks :: "64 word"
  sfBavail :: "64 word"
  sfFiles :: "64 word"
  sfFfree :: "64 word"

definition inodeUsedPercent :: "64 word \<Rightarrow> 64 word \<Rightarrow> float64" where
  "inodeUsedPercent files free =
     (if files = 0 then Fin 0 else fmul (fdiv (floatWord (files - free)) (floatWord files)) (Fin 100))"

definition filesystemMetrics :: "statfs option \<Rightarrow> float64 gomap" where
  "filesystemMetrics st =
     (case st of
        None \<Rightarrow> []
      | Some s \<Rightarrow>
         (let blockSize = round64 (of_int (sfBsize s)); total = fmul (floatWord (sfBlocks s)) blockSize;
              free = fmul (floatWord (sfBavail s)) blockSize
          in if fle total (Fin 0) then []
             else
               (let used = fsub total free in
                [(''node.filesystem.root.size_bytes'', total), (''node.filesystem.root.free_bytes'', free),
                 (''node.filesystem.root.used_bytes'', used),
                 (''node.filesystem.root.used_percent'', fmul (fdiv used total) (Fin 100)),
                 (''node.filesystem.root.files'', floatWord (sfFiles s)),
                 (''node.filesystem.root.files_free'', floatWord (sfFfree s)),
                 (''node.filesystem.root.files_percent'', inodeUsedPercent (sfFiles s) (sfFfree s))])))"

subsection \<open>The network\<close>

definition networkLine :: "goenv \<Rightarrow> float64 \<times> float64 \<Rightarrow> string \<Rightarrow> float64 \<times> float64" where
  "networkLine env totals line =
     (case splitByte (CHR '':'') line of
        [name, counters] \<Rightarrow>
          (let iface = TrimSpace name; fields = Fields counters in
           if iface = [] \<or> iface = ''lo'' \<or> length fields < 16 then totals
           else
             (case parseFloat env (fields ! 0) of None \<Rightarrow> fst totals | Some rx \<Rightarrow> fadd (fst totals) rx,
              case parseFloat env (fields ! 8) of None \<Rightarrow> snd totals | Some tx \<Rightarrow> fadd (snd totals) tx))
      | _ \<Rightarrow> totals)"

definition networkByteCounters :: "goenv \<Rightarrow> string option \<Rightarrow> (float64 \<times> float64) option" where
  "networkByteCounters env netDev =
     (case netDev of
        None \<Rightarrow> None
      | Some s \<Rightarrow>
         (let (rxTotal, txTotal) = foldl (networkLine env) (Fin 0, Fin 0) (splitByte (CHR 0x0A) s)
          in if feq rxTotal (Fin 0) \<and> feq txTotal (Fin 0) then None else Some (rxTotal, txTotal)))"

record networkSample =
  nsAt :: instant
  nsRx :: float64
  nsTx :: float64

text \<open>\<^verbatim>\<open>now.Sub\<close> saturates.\<close>

definition timeSub :: "instant \<Rightarrow> instant \<Rightarrow> int" where
  "timeSub t u = max (- (2 ^ 63)) (min (2 ^ 63 - 1) (t - u))"

definition rateMetrics :: "string \<Rightarrow> string \<Rightarrow> float64 \<Rightarrow> float64 gomap" where
  "rateMetrics perSecName kbpsName perSec =
     (if fge perSec (Fin 0) then [(perSecName, perSec), (kbpsName, fdiv (fmul perSec (Fin 8)) (Fin 1000))] else [])"

definition networkMetrics ::
  "goenv \<Rightarrow> string option \<Rightarrow> instant \<Rightarrow> networkSample option \<Rightarrow> float64 gomap \<times> networkSample option" where
  "networkMetrics env netDev now previous =
     (case networkByteCounters env netDev of
        None \<Rightarrow> ([], previous)
      | Some (rx, tx) \<Rightarrow>
          ([(''node.network.rx_bytes_total'', rx), (''node.network.tx_bytes_total'', tx)] @
           (case previous of
              None \<Rightarrow> []
            | Some p \<Rightarrow>
               (let elapsed = durationSeconds (timeSub now (nsAt p)) in
                if fgt elapsed (Fin 0) then
                  rateMetrics ''node.network.rx_bytes_per_sec'' ''node.network.rx_kbps'' (fdiv (fsub rx (nsRx p)) elapsed) @
                  rateMetrics ''node.network.tx_bytes_per_sec'' ''node.network.tx_kbps'' (fdiv (fsub tx (nsTx p)) elapsed)
                else [])),
           Some \<lparr>nsAt = now, nsRx = rx, nsTx = tx\<rparr>))"

subsection \<open>All of them\<close>

definition isFinite :: "float64 \<Rightarrow> bool" where
  "isFinite v \<longleftrightarrow> (case v of Fin _ \<Rightarrow> True | _ \<Rightarrow> False)"

definition mergeFloatMetrics :: "float64 gomap list \<Rightarrow> float64 gomap" where
  "mergeFloatMetrics inputs =
     foldl (\<lambda>out (k, v). if TrimSpace k = [] \<or> \<not> isFinite v then out else AList.update (TrimSpace k) v out) [] (concat inputs)"

text \<open>What the Go runtime says.\<close>

record goRuntime =
  grNumCPU :: int
  grNumGoroutine :: int
  grHeapAlloc :: "64 word"
  grHeapSys :: "64 word"
  grHeapObjects :: "64 word"
  grPauseTotalNs :: "64 word"
  grSinceStart :: int

record hostReads =
  hoRuntime :: goRuntime
  hoProcStat :: "string option"
  hoMemInfo :: "string option"
  hoLoadAvg :: "string option"
  hoStatfs :: "statfs option"
  hoNetDev :: "string option"
  hoNow :: instant

record hostSamples =
  hsCPU :: "cpuTimes option"
  hsNetwork :: "networkSample option"

definition NodeHostMetrics :: "goenv \<Rightarrow> hostReads \<Rightarrow> hostSamples \<Rightarrow> float64 gomap \<times> hostSamples" where
  "NodeHostMetrics env h st =
     (let rt = hoRuntime h;
          process = [(''node.cpu_count'', round64 (of_int (grNumCPU rt))),
            (''process.goroutines'', round64 (of_int (grNumGoroutine rt))),
            (''process.heap_alloc_bytes'', floatWord (grHeapAlloc rt)), (''process.heap_sys_bytes'', floatWord (grHeapSys rt)),
            (''process.heap_objects'', floatWord (grHeapObjects rt)), (''process.uptime_seconds'', durationSeconds (grSinceStart rt)),
            (''process.gc_pause_seconds_total'', fdiv (floatWord (grPauseTotalNs rt)) (Fin (10 ^ 9)))];
          (cpu, cpuSample) = cpuMetrics (hoProcStat h) (hsCPU st);
          (network, networkSample) = networkMetrics env (hoNetDev h) (hoNow h) (hsNetwork st)
      in (mergeFloatMetrics [process, cpu, procMemInfoMetrics env (hoMemInfo h), procLoadMetrics env (hoLoadAvg h),
            filesystemMetrics (hoStatfs h), network], \<lparr>hsCPU = cpuSample, hsNetwork = networkSample\<rparr>))"

text \<open>\<^verbatim>\<open>NodeRuntimeMetrics\<close> of \<^verbatim>\<open>internal/control/client.go\<close>.\<close>

definition NodeRuntimeMetrics :: "goenv \<Rightarrow> hostReads \<Rightarrow> hostSamples \<Rightarrow> any gomap \<times> hostSamples" where
  "NodeRuntimeMetrics env h st =
     (let (host, st') = NodeHostMetrics env h st; rt = hoRuntime h;
          m0 = map (\<lambda>(k, v). (k, AFloat64 v)) host;
          m1 = AList.update ''observability.goroutines'' (AInt KInt (grNumGoroutine rt)) m0;
          m2 = AList.update ''observability.heap_alloc_bytes'' (AInt KUint64 (uint (grHeapAlloc rt))) m1;
          m3 = AList.update ''observability.heap_sys_bytes'' (AInt KUint64 (uint (grHeapSys rt))) m2;
          m4 = AList.update ''observability.heap_objects'' (AInt KUint64 (uint (grHeapObjects rt))) m3
      in (AList.update ''observability.uptime_seconds'' (AFloat64 (durationSeconds (grSinceStart rt))) m4, st'))"

subsection \<open>What the reported values satisfy\<close>

lemma unat_pos_word: "w \<noteq> 0 \<Longrightarrow> 1 \<le> (of_nat (unat (w :: 64 word)) :: rat)"
  by (metis One_nat_def Suc_leI gr0I of_nat_1 of_nat_le_iff unat_eq_zero)

lemma unat_word_le: "(of_nat (unat (w :: 64 word)) :: rat) \<le> 2 powi 64"
proof -
  have "unat w < 2 ^ 64" using unsigned_less [of w, where 'a = nat] by simp
  then have "(of_nat (unat w) :: rat) \<le> of_nat (2 ^ 64)" by (metis less_imp_le of_nat_le_iff)
  then show ?thesis by simp
qed

lemma roundVal_big: "0 < y \<Longrightarrow> y \<le> 2 powi 64 \<Longrightarrow> roundVal y < 2 powi 1024"
proof -
  assume "0 < y" "y \<le> 2 powi 64"
  then have "roundVal y \<le> 2 powi 64" using roundVal_mono [of y "2 powi 64"] by (simp add: roundVal_powi del: power_int_numeral)
  also have "(2::rat) powi 64 < 2 powi 1024" by (rule power_int_strict_increasing) auto
  finally show ?thesis .
qed

text \<open>A part of a whole, as a percentage, is between 0 and 100 in spite of the rounding.\<close>

lemma percent_range:
  assumes "0 \<le> a" "a \<le> b" "1 \<le> b" "b \<le> 2 powi 64"
  shows "\<exists>r. fmul (fdiv (round64 a) (round64 b)) (Fin 100) = Fin r \<and> 0 \<le> r \<and> r \<le> 100"
proof -
  have big: "roundVal b < 2 powi 1024" using roundVal_big assms by simp
  obtain x y where xy: "round64 a = Fin x" "round64 b = Fin y" "0 \<le> x" "x \<le> y"
    using round64_mono_Fin [of a b] assms big by auto
  have "roundVal 1 \<le> roundVal b" using roundVal_mono [of 1 b] assms by simp
  moreover have one: "roundVal 1 = 1" using roundVal_of_int [of 1] by simp
  moreover have "y = roundVal b" using round64_roundVal [of b] assms big xy by auto
  ultimately have y: "1 \<le> y" by simp
  have big1: "roundVal 1 < 2 powi 1024" by (simp add: one)
  obtain q where q: "round64 (x / y) = Fin q" "0 \<le> q" "q \<le> 1"
    using round64_mono_Fin [of "x / y" 1] xy y big1 round64_roundVal [of 1] by (auto simp: one)
  have hundred: "roundVal 100 = 100" using roundVal_of_int [of 100] by simp
  then have big100: "roundVal 100 < 2 powi 1024" by simp
  obtain r where "round64 (q * 100) = Fin r" "0 \<le> r" "r \<le> 100"
    using round64_mono_Fin [of "q * 100" 100] q big100 round64_roundVal [of 100] by (auto simp: hundred)
  then show ?thesis using xy y q by (simp add: fdiv_def fmul_def)
qed

definition percentage :: "float64 \<Rightarrow> bool" where
  "percentage v \<longleftrightarrow> (\<exists>r. v = Fin r \<and> 0 \<le> r \<and> r \<le> 100)"

lemma percent_of_words: "u \<le> t \<Longrightarrow> t \<noteq> 0 \<Longrightarrow> percentage (fmul (fdiv (floatWord u) (floatWord t)) (Fin 100))"
  unfolding percentage_def floatWord_def
  by (intro percent_range unat_pos_word unat_word_le of_nat_0_le_iff) (simp_all only: of_nat_le_iff word_le_nat_alt not_False_eq_True)

lemma word_minus_le: "(i :: 64 word) \<le> t \<Longrightarrow> t - i \<le> t"
  by (simp add: word_le_nat_alt unat_sub)

lemma cpuUsedPercent_range: "cpuUsedPercent p c = Some u \<Longrightarrow> percentage u"
  by (auto simp: cpuUsedPercent_def Let_def linorder_not_less not_le intro!: percent_of_words word_minus_le split: if_splits)

lemma inodeUsedPercent_range: "free \<le> files \<Longrightarrow> percentage (inodeUsedPercent files free)"
proof (cases "files = 0")
  case False
  then show "free \<le> files \<Longrightarrow> ?thesis" by (simp add: inodeUsedPercent_def percent_of_words word_minus_le)
qed (simp add: inodeUsedPercent_def percentage_def)

text \<open>A rate is not negative, nor are its multiples.\<close>

lemma fge_0_cases: "fge v (Fin 0) \<longleftrightarrow> (\<exists>r. v = Fin r \<and> 0 \<le> r) \<or> v = PosInf"
  by (cases v) (auto simp: fge_def)

lemma fmul_nonneg: "fge v (Fin 0) \<Longrightarrow> 0 < c \<Longrightarrow> fge (fmul v (Fin c)) (Fin 0)"
proof -
  assume "fge v (Fin 0)" "0 < c"
  then consider r where "v = Fin r" "0 \<le> r" | "v = PosInf" by (auto simp: fge_0_cases)
  then show ?thesis
  proof cases
    case 1
    then show ?thesis using \<open>0 < c\<close> by (simp add: fmul_def round64_nonneg)
  next
    case 2
    then show ?thesis using \<open>0 < c\<close> by (simp add: fmul_def signedInf_def fsign_def fge_0_cases)
  qed
qed

lemma fdiv_nonneg: "fge v (Fin 0) \<Longrightarrow> 0 < c \<Longrightarrow> fge (fdiv v (Fin c)) (Fin 0)"
proof -
  assume "fge v (Fin 0)" "0 < c"
  then consider r where "v = Fin r" "0 \<le> r" | "v = PosInf" by (auto simp: fge_0_cases)
  then show ?thesis
  proof cases
    case 1
    then show ?thesis using \<open>0 < c\<close> by (simp add: fdiv_def round64_nonneg)
  next
    case 2
    then show ?thesis using \<open>0 < c\<close> by (simp add: fdiv_def signedInf_def fsign_def fge_0_cases)
  qed
qed

text \<open>What an entry under a name must satisfy.\<close>

definition rateNames :: "string list" where
  "rateNames = [''node.network.rx_bytes_per_sec'', ''node.network.rx_kbps'', ''node.network.tx_bytes_per_sec'',
     ''node.network.tx_kbps'']"

definition saneEntry :: "string \<times> float64 \<Rightarrow> bool" where
  "saneEntry e \<longleftrightarrow> (TrimSpace (fst e) = ''node.cpu.used_percent'' \<longrightarrow> percentage (snd e)) \<and>
     (TrimSpace (fst e) \<in> set rateNames \<longrightarrow> fge (snd e) (Fin 0))"

definition otherName :: "string \<Rightarrow> bool" where
  "otherName k \<longleftrightarrow> TrimSpace k \<notin> set (''node.cpu.used_percent'' # rateNames)"

lemma otherName_sane: "otherName k \<Longrightarrow> saneEntry (k, v)"
  by (simp add: otherName_def saneEntry_def)

lemma cpuMetrics_sane: "list_all saneEntry (fst (cpuMetrics ps prev))"
  by (auto simp: cpuMetrics_def saneEntry_def rateNames_def go_eval dest: cpuUsedPercent_range
    split: option.splits)

lemma rateMetrics_sane:
  "list_all saneEntry (rateMetrics ''node.network.rx_bytes_per_sec'' ''node.network.rx_kbps'' v)"
  "list_all saneEntry (rateMetrics ''node.network.tx_bytes_per_sec'' ''node.network.tx_kbps'' v)"
  by (simp_all add: rateMetrics_def saneEntry_def rateNames_def go_eval fmul_nonneg fdiv_nonneg)

lemma networkMetrics_sane: "list_all saneEntry (fst (networkMetrics env nd now prev))"
  by (simp add: networkMetrics_def rateMetrics_sane otherName_sane otherName_def rateNames_def go_eval Let_def
    split: option.split prod.split)

definition memNames :: "string list" where
  "memNames = [''node.memory.total_bytes'', ''node.memory.free_bytes'', ''node.memory.available_bytes'',
     ''node.memory.buffers_bytes'', ''node.memory.cached_bytes'', ''node.memory.used_percent'', ''node.memory.used_bytes'']"

lemma memNames_other: "k \<in> set memNames \<Longrightarrow> otherName k"
  by (auto simp: memNames_def otherName_def rateNames_def go_eval)

lemma memInfoLine_names:
  "fst ` set vals \<subseteq> set memNames \<Longrightarrow> fst ` set (memInfoLine env vals line) \<subseteq> set memNames"
  by (auto simp: memInfoLine_def Let_def memInfoKey_def memNames_def dom_update split: option.splits if_splits)

lemma procMemInfo_names: "fst ` set (procMemInfoMetrics env mi) \<subseteq> set memNames"
proof (cases mi)
  case (Some s)
  have fold: "fst ` set (foldl (memInfoLine env) vals ls) \<subseteq> set memNames" if "fst ` set vals \<subseteq> set memNames" for vals ls
    using that by (induction ls arbitrary: vals) (simp_all add: memInfoLine_names)
  have two: "fst ` set (AList.update ''node.memory.used_percent'' p (AList.update ''node.memory.used_bytes'' u vals)) \<subseteq> set memNames"
    if "fst ` set vals \<subseteq> set memNames" for p u vals
    using that by (auto simp: dom_update memNames_def)
  define v where "v = foldl (memInfoLine env) [] (splitByte (CHR 0x0A) s)"
  have v: "fst ` set v \<subseteq> set memNames" using fold [of "[]"] by (simp add: v_def)
  have opt: "fst ` set (if a then if b then x else v else v) \<subseteq> set memNames"
    if "fst ` set x \<subseteq> set memNames" for a b x using that v by simp
  show ?thesis unfolding procMemInfoMetrics_def Some option.case v_def [symmetric] Let_def by (intro opt two v)
qed (simp add: procMemInfoMetrics_def)

lemma procMemInfo_sane: "list_all saneEntry (procMemInfoMetrics env mi)"
  unfolding list_all_iff using procMemInfo_names memNames_other otherName_sane by (metis imageI prod.collapse subsetD)

lemma procLoad_sane: "list_all saneEntry (procLoadMetrics env la)"
  by (auto simp: procLoadMetrics_def List.map_filter_def Let_def otherName_sane otherName_def rateNames_def go_eval
    split: option.splits)

lemma filesystemMetrics_sane: "list_all saneEntry (filesystemMetrics st)"
  by (simp add: filesystemMetrics_def Let_def otherName_sane otherName_def rateNames_def go_eval split: option.split)

lemma merge_step:
  assumes "distinct (map fst out)" "\<forall>e\<in>set out. isFinite (snd e) \<and> fst e \<noteq> [] \<and> TrimSpace (fst e) = fst e \<and> saneEntry e"
    "list_all saneEntry inputs"
  shows "let out' = foldl (\<lambda>out (k, v). if TrimSpace k = [] \<or> \<not> isFinite v then out else AList.update (TrimSpace k) v out) out inputs
     in distinct (map fst out') \<and>
        (\<forall>e\<in>set out'. isFinite (snd e) \<and> fst e \<noteq> [] \<and> TrimSpace (fst e) = fst e \<and> saneEntry e)"
  using assms
proof (induction inputs arbitrary: out)
  case (Cons e es)
  obtain k v where e: "e = (k, v)" by fastforce
  show ?case
  proof (cases "TrimSpace k = [] \<or> \<not> isFinite v")
    case True
    then show ?thesis using Cons e by auto
  next
    case False
    have "\<forall>x\<in>set (AList.update (TrimSpace k) v out). x = (TrimSpace k, v) \<or> x \<in> set out"
      using set_update_subset [of "TrimSpace k" v out] by auto
    moreover have "saneEntry (TrimSpace k, v)" using Cons.prems(3) e by (simp add: saneEntry_def)
    ultimately have "\<forall>e\<in>set (AList.update (TrimSpace k) v out).
        isFinite (snd e) \<and> fst e \<noteq> [] \<and> TrimSpace (fst e) = fst e \<and> saneEntry e"
      using Cons.prems(2) False by auto
    moreover have "distinct (map fst (AList.update (TrimSpace k) v out))"
      using Cons.prems(1) by (rule distinct_update)
    ultimately show ?thesis using Cons.IH [of "AList.update (TrimSpace k) v out"] Cons.prems(3) e False by simp
  qed
qed simp

lemma process_sane:
  "list_all saneEntry [(''node.cpu_count'', a), (''process.goroutines'', b), (''process.heap_alloc_bytes'', c),
     (''process.heap_sys_bytes'', d), (''process.heap_objects'', e), (''process.uptime_seconds'', f),
     (''process.gc_pause_seconds_total'', g)]"
  by (simp add: otherName_sane otherName_def rateNames_def go_eval)

lemma mergeFloatMetrics_sane:
  assumes "\<forall>m\<in>set ms. list_all saneEntry m"
  shows "distinct (map fst (mergeFloatMetrics ms))"
    "\<forall>e\<in>set (mergeFloatMetrics ms). isFinite (snd e) \<and> fst e \<noteq> [] \<and> TrimSpace (fst e) = fst e \<and> saneEntry e"
proof -
  have "list_all saneEntry (concat ms)" using assms by (auto simp: list_all_iff)
  from merge_step [OF _ _ this, of "[]"]
  show "distinct (map fst (mergeFloatMetrics ms))"
    "\<forall>e\<in>set (mergeFloatMetrics ms). isFinite (snd e) \<and> fst e \<noteq> [] \<and> TrimSpace (fst e) = fst e \<and> saneEntry e"
    unfolding mergeFloatMetrics_def Let_def by simp_all
qed

lemma NodeHostMetrics_merge:
  "\<exists>ms. fst (NodeHostMetrics env h st) = mergeFloatMetrics ms \<and> (\<forall>x\<in>set ms. list_all saneEntry x)"
  unfolding NodeHostMetrics_def Let_def
  using process_sane cpuMetrics_sane [of "hoProcStat h" "hsCPU st"] procMemInfo_sane procLoad_sane filesystemMetrics_sane
    networkMetrics_sane [of env "hoNetDev h" "hoNow h" "hsNetwork st"]
  by (simp only: split_beta fst_conv) (rule exI, rule conjI [OF refl], auto simp only: list.set ball_simps)

text \<open>
  C23: Whatever the files of the host contain, the reported host metrics have distinct, trimmed, nonempty names and
  finite values; the processor percentage lies between 0 and 100 although its counters wrap and its quotient is
  rounded, and no network rate is negative.
\<close>

theorem NodeHostMetrics_sane:
  "let m = fst (NodeHostMetrics env h st) in
     distinct (map fst m) \<and>
     list_all (\<lambda>(k, v). isFinite v \<and> k \<noteq> [] \<and> TrimSpace k = k) m \<and>
     (case map_of m ''node.cpu.used_percent'' of None \<Rightarrow> True | Some v \<Rightarrow> percentage v) \<and>
     list_all (\<lambda>k. case map_of m k of None \<Rightarrow> True | Some v \<Rightarrow> fge v (Fin 0)) rateNames"
proof -
  define m where "m = fst (NodeHostMetrics env h st)"
  obtain ms where ms: "m = mergeFloatMetrics ms" "\<forall>x\<in>set ms. list_all saneEntry x"
    using NodeHostMetrics_merge m_def by blast
  note sane = mergeFloatMetrics_sane [OF ms(2), folded ms(1)]
  have at: "saneEntry (k, v) \<and> TrimSpace k = k" if "map_of m k = Some v" for k v
    using sane(2) map_of_SomeD [OF that] by force
  have "list_all (\<lambda>(k, v). isFinite v \<and> k \<noteq> [] \<and> TrimSpace k = k) m" using sane(2) by (auto simp: list_all_iff)
  moreover have "case map_of m ''node.cpu.used_percent'' of None \<Rightarrow> True | Some v \<Rightarrow> percentage v"
    using at by (auto simp: saneEntry_def split: option.split)
  moreover have "list_all (\<lambda>k. case map_of m k of None \<Rightarrow> True | Some v \<Rightarrow> fge v (Fin 0)) rateNames"
    unfolding list_all_iff
  proof
    fix k assume k: "k \<in> set rateNames"
    show "case map_of m k of None \<Rightarrow> True | Some v \<Rightarrow> fge v (Fin 0)"
      using at [of k] k by (auto simp: saneEntry_def split: option.split)
  qed
  ultimately show ?thesis using sane(1) by (simp add: m_def [symmetric])
qed

text \<open>
  The share of used inodes is a percentage only while no more are free than there are; a file system that reports
  more makes the unsigned difference wrap.
\<close>

lemma round64_stays_big: "2 powi 63 \<le> x \<Longrightarrow> round64 x = PosInf \<or> (\<exists>r. round64 x = Fin r \<and> 2 powi 63 \<le> r)"
proof -
  assume x: "2 powi 63 \<le> x"
  have "(0::rat) < 2 powi 63" by simp
  then have x0: "0 < x" using x by (rule less_le_trans)
  have "(2::rat) powi 63 \<le> roundVal x" using roundVal_mono [of "2 powi 63" x] x roundVal_powi [of 63] by (simp del: power_int_numeral)
  moreover have "round64 x = PosInf" if "\<not> roundVal x < 2 powi 1024"
    using that x0 by (simp add: round64_def roundVal_def Let_def del: power_int_numeral)
  ultimately show ?thesis using round64_roundVal [of x] x0 by (cases "roundVal x < 2 powi 1024") auto
qed

lemma inodeUsedPercent_wraps: "\<not> percentage (inodeUsedPercent 1 2)"
proof -
  have u: "unat (1 - 2 :: 64 word) = 2 ^ 64 - 1" by (simp add: unsigned_minus_1_eq_mask mask_eq_exp_minus_1)
  have "round64 (of_nat (2 ^ 64 - 1)) = PosInf \<or> (\<exists>r. round64 (of_nat (2 ^ 64 - 1)) = Fin r \<and> 2 powi 63 \<le> r)"
    by (rule round64_stays_big) simp
  moreover have one: "floatWord 1 = Fin 1" using round64_exact_int [of 1] by (simp add: floatWord_def)
  moreover have "\<not> percentage (fmul (fdiv PosInf (Fin 1)) (Fin 100))"
    by (simp add: fdiv_def fmul_def fsign_def signedInf_def percentage_def)
  moreover have "\<not> percentage (fmul (fdiv (Fin r) (Fin 1)) (Fin 100))" if r: "2 powi 63 \<le> r" for r
  proof -
    consider "round64 r = PosInf" | q where "round64 r = Fin q" "2 powi 63 \<le> q" using round64_stays_big [OF r] by blast
    then show ?thesis
    proof cases
      case 2
      then have "round64 (q * 100) = PosInf \<or> (\<exists>r. round64 (q * 100) = Fin r \<and> 2 powi 63 \<le> r)"
        by (intro round64_stays_big) simp
      then show ?thesis using 2 by (auto simp: fdiv_def fmul_def percentage_def)
    qed (simp add: fdiv_def fmul_def fsign_def signedInf_def percentage_def)
  qed
  ultimately show ?thesis unfolding inodeUsedPercent_def floatWord_def u by auto
qed

end
