(* ===== verification/Control_Agent.thy ===== *)
theory Control_Agent
  imports Host_Metrics
begin

text \<open>
  Registration and heartbeat of \<^verbatim>\<open>internal/control/client.go\<close>.  The HTTP exchange is a parameter: a
  request yields a transport error or the status of the first answer, for redirects are not
  followed.  An operation returns its error, \<open>None\<close> for nil, with the requests it sent.
\<close>

subsection \<open>What is sent\<close>

record registrationBody =
  rgServiceID :: string
  rgServiceType :: string
  rgServiceName :: string
  rgPublicURL :: string
  rgVersion :: string
  rgCommit :: string
  rgBuildDate :: string
  rgCapabilities :: "any gomap"
  rgHostname :: string
  rgOS :: string
  rgArch :: string

record heartbeatBody =
  hbServiceID :: string
  hbStatus :: string
  hbVersion :: string
  hbCommit :: string
  hbBuildDate :: string
  hbCapabilities :: "any gomap"
  hbHostname :: string
  hbOS :: string
  hbArch :: string
  hbMetrics :: "any gomap"

datatype agentPayload = PRegister registrationBody | PHeartbeat heartbeatBody

record agentRequest =
  agURL :: string
  agAuthorization :: string
  agPayload :: agentPayload

text \<open>The variables of package \<^verbatim>\<open>version\<close>, which the linker sets, and the constants of package \<^verbatim>\<open>runtime\<close>.\<close>

record buildInfo =
  biVersion :: string
  biCommit :: string
  biBuildDate :: string
  biOS :: string
  biArch :: string

definition versionCurrent :: "buildInfo \<Rightarrow> string" where
  "versionCurrent bi = (if biVersion bi = [] then ''dev'' else biVersion bi)"

text \<open>What one call takes from the host; \<open>None\<close> is the error of \<^verbatim>\<open>os.Hostname\<close>.\<close>

record agentHost =
  ahHostname :: "string option"
  ahReads :: hostReads

definition serviceCapabilities :: "any gomap" where
  "serviceCapabilities =
     [(''signal_ingest'', ABool True), (''incident_detection'', ABool True), (''diagnostics'', ABool True),
      (''remediation'', ABool True), (''notification_channels'', ABool True),
      (''notification_deliveries'', ABool True), (''health_endpoint'', ABool True)]"

definition reportHostname :: "agentHost \<Rightarrow> string" where
  "reportHostname h = (case ahHostname h of None \<Rightarrow> [] | Some hostname \<Rightarrow> TrimSpace hostname)"

text \<open>\<^verbatim>\<open>json.Marshal\<close> fails on a number that is not finite.\<close>

fun jsonFinite :: "any \<Rightarrow> bool" where
  "jsonFinite (AFloat32 v) = isFinite v"
| "jsonFinite (AFloat64 v) = isFinite v"
| "jsonFinite (AList xs) = list_all jsonFinite xs"
| "jsonFinite (AMap m) = list_all (\<lambda>e. jsonFinite (snd e)) m"
| "jsonFinite _ = True"

fun payloadFinite :: "agentPayload \<Rightarrow> bool" where
  "payloadFinite (PRegister b) = list_all (\<lambda>e. jsonFinite (snd e)) (rgCapabilities b)"
| "payloadFinite (PHeartbeat b) =
     (list_all (\<lambda>e. jsonFinite (snd e)) (hbCapabilities b) \<and> list_all (\<lambda>e. jsonFinite (snd e)) (hbMetrics b))"

subsection \<open>The operations\<close>

definition clientPost ::
  "goenv \<Rightarrow> (agentRequest \<Rightarrow> int result) \<Rightarrow> Client \<Rightarrow> string \<Rightarrow> agentPayload \<Rightarrow> goerr option \<times> agentRequest list" where
  "clientPost env http c endpoint payload =
     (case validateHTTPURL env (clBaseURL c) ''CONTROL_PANEL_URL'' of
        Some e \<Rightarrow> (Some e, [])
      | None \<Rightarrow>
          if \<not> payloadFinite payload then (Some (ErrText ''json: unsupported value''), [])
          else
            (let target = rev (dropWhile (\<lambda>ch. ch = CHR ''/'') (rev (clBaseURL c))) @ ''/'' @
                   dropWhile (\<lambda>ch. ch = CHR ''/'') endpoint
             in case urlParse env target of
               None \<Rightarrow> (Some (ErrText ''parse''), [])
             | Some _ \<Rightarrow>
                (let req = \<lparr>agURL = target, agAuthorization = ''Bearer '' @ clToken c, agPayload = payload\<rparr> in
                 case http req of
                   Inl e \<Rightarrow> (Some (ErrText ''control panel request failed''), [req])
                 | Inr status \<Rightarrow>
                     if status < 200 \<or> status \<ge> 300
                     then (Some (ErrText (''control panel request returned HTTP '' @ FormatInt status)), [req])
                     else (None, [req]))))"

definition Register ::
  "goenv \<Rightarrow> buildInfo \<Rightarrow> (agentRequest \<Rightarrow> int result) \<Rightarrow> agentHost \<Rightarrow> Client \<Rightarrow> goerr option \<times> agentRequest list" where
  "Register env bi http h c =
     (if TrimSpace (clConfigError c) \<noteq> [] then (Some (ErrText (clConfigError c)), [])
      else if \<not> Enabled c then (Some (ErrText ''control panel registration is not configured''), [])
      else case validateServicePublicURL env (clServicePublicURL c) ''SERVICE_PUBLIC_URL'' of
        Some e \<Rightarrow> (Some e, [])
      | None \<Rightarrow> clientPost env http c ''/services/register''
          (PRegister \<lparr>rgServiceID = clServiceID c, rgServiceType = ServiceType, rgServiceName = clServiceName c,
             rgPublicURL = clServicePublicURL c, rgVersion = clVersion c, rgCommit = biCommit bi,
             rgBuildDate = biBuildDate bi, rgCapabilities = serviceCapabilities, rgHostname = reportHostname h,
             rgOS = biOS bi, rgArch = biArch bi\<rparr>))"

text \<open>The samples of the rates change when the metrics are read.\<close>

definition Heartbeat ::
  "goenv \<Rightarrow> buildInfo \<Rightarrow> (agentRequest \<Rightarrow> int result) \<Rightarrow> agentHost \<Rightarrow> Client \<Rightarrow> hostSamples
     \<Rightarrow> (goerr option \<times> agentRequest list) \<times> hostSamples" where
  "Heartbeat env bi http h c st =
     (if TrimSpace (clConfigError c) \<noteq> [] then ((Some (ErrText (clConfigError c)), []), st)
      else if \<not> Enabled c then ((Some (ErrText ''control panel heartbeat is not configured''), []), st)
      else
        (let (metrics, st') = NodeRuntimeMetrics env (ahReads h) st in
         (clientPost env http c ''/services/heartbeat''
            (PHeartbeat \<lparr>hbServiceID = clServiceID c, hbStatus = ''online'', hbVersion = clVersion c,
               hbCommit = biCommit bi, hbBuildDate = biBuildDate bi, hbCapabilities = serviceCapabilities,
               hbHostname = reportHostname h, hbOS = biOS bi, hbArch = biArch bi, hbMetrics = metrics\<rparr>), st')))"

text \<open>
  The heartbeat loop: each round has its exchange and its host, and says whether the context was
  done when the ticker was awaited.  The errors are what the callback is given.
\<close>

record heartbeatRound =
  hrdHTTP :: "agentRequest \<Rightarrow> int result"
  hrdHost :: agentHost
  hrdDone :: bool

definition heartbeatInterval :: "Client \<Rightarrow> int" where
  "heartbeatInterval c = (if clHeartbeatEvery c \<le> 0 then 30 * second else clHeartbeatEvery c)"

fun RunHeartbeatLoop ::
  "goenv \<Rightarrow> buildInfo \<Rightarrow> Client \<Rightarrow> heartbeatRound list \<Rightarrow> hostSamples \<Rightarrow> goerr list \<times> agentRequest list" where
  "RunHeartbeatLoop env bi c [] st = ([], [])"
| "RunHeartbeatLoop env bi c (r # rs) st =
     (let ((err, sent), st') = Heartbeat env bi (hrdHTTP r) (hrdHost r) c st;
          errs = (case err of None \<Rightarrow> [] | Some e \<Rightarrow> [e])
      in if hrdDone r then (errs, sent)
         else let (errs', sent') = RunHeartbeatLoop env bi c rs st' in (errs @ errs', sent @ sent'))"

subsection \<open>Facts\<close>

text \<open>A post sends at most one request, and only after the address passed its check.\<close>

lemma clientPost_cases:
  assumes "clientPost env http c endpoint payload = (err, sent)"
  shows "sent = [] \<and> err \<noteq> None \<or>
    (\<exists>r. sent = [r] \<and> agPayload r = payload \<and> agAuthorization r = ''Bearer '' @ clToken c \<and>
       validateHTTPURL env (clBaseURL c) ''CONTROL_PANEL_URL'' = None \<and> payloadFinite payload \<and>
       (err = None \<longleftrightarrow> (\<exists>status. http r = Inr status \<and> 200 \<le> status \<and> status < 300)))"
proof (cases "validateHTTPURL env (clBaseURL c) ''CONTROL_PANEL_URL'' = None \<and> payloadFinite payload")
  case True
  define target where "target = rev (dropWhile (\<lambda>ch. ch = CHR ''/'') (rev (clBaseURL c))) @ ''/'' @
    dropWhile (\<lambda>ch. ch = CHR ''/'') endpoint"
  define r where "r = \<lparr>agURL = target, agAuthorization = ''Bearer '' @ clToken c, agPayload = payload\<rparr>"
  show ?thesis
  proof (cases "urlParse env target")
    case None
    then show ?thesis using assms True by (auto simp: clientPost_def Let_def target_def)
  next
    case (Some u)
    then have "(err, sent) = (case http r of
        Inl e \<Rightarrow> (Some (ErrText ''control panel request failed''), [r])
      | Inr status \<Rightarrow> if status < 200 \<or> status \<ge> 300
          then (Some (ErrText (''control panel request returned HTTP '' @ FormatInt status)), [r]) else (None, [r]))"
      using assms Some True unfolding clientPost_def target_def [symmetric] Let_def r_def by simp
    then show ?thesis using True by (cases "http r") (auto simp: r_def split: if_splits)
  qed
next
  case False
  have "sent = [] \<and> (\<exists>e. err = Some e)"
  proof (cases "validateHTTPURL env (clBaseURL c) ''CONTROL_PANEL_URL''")
    case None
    then show ?thesis using assms False by (auto simp: clientPost_def)
  next
    case (Some e)
    then have "(err, sent) = (Some e, [])" using assms by (simp add: clientPost_def)
    then show ?thesis by simp
  qed
  then show ?thesis by blast
qed

definition payloadService :: "agentPayload \<Rightarrow> string" where
  "payloadService p = (case p of PRegister b \<Rightarrow> rgServiceID b | PHeartbeat b \<Rightarrow> hbServiceID b)"

definition isHeartbeat :: "agentPayload \<Rightarrow> bool" where
  "isHeartbeat p = (case p of PRegister _ \<Rightarrow> False | PHeartbeat _ \<Rightarrow> True)"

text \<open>What a sent request satisfies: it is of the kind asked for, of the service of the client, and bears its token.\<close>

definition agentRequestOK :: "goenv \<Rightarrow> Client \<Rightarrow> bool \<Rightarrow> agentRequest \<Rightarrow> bool" where
  "agentRequestOK env c heartbeat r \<longleftrightarrow> payloadService (agPayload r) = clServiceID c \<and>
     isHeartbeat (agPayload r) = heartbeat \<and> agAuthorization r = ''Bearer '' @ clToken c \<and>
     validateHTTPURL env (clBaseURL c) ''CONTROL_PANEL_URL'' = None"

lemma Register_sent:
  assumes "Register env bi http h c = (err, sent)"
  shows "sent = [] \<and> err \<noteq> None \<or> (\<exists>r. sent = [r] \<and> agentRequestOK env c False r)"
proof -
  have "sent = [] \<and> err \<noteq> None \<or> (\<exists>p. clientPost env http c ''/services/register'' p = (err, sent) \<and>
      payloadService p = clServiceID c \<and> \<not> isHeartbeat p)"
    using assms by (auto simp: Register_def payloadService_def isHeartbeat_def split: if_splits option.splits)
  then show ?thesis
  proof (elim disjE exE conjE)
    fix p assume p: "clientPost env http c ''/services/register'' p = (err, sent)" "payloadService p = clServiceID c"
      "\<not> isHeartbeat p"
    show ?thesis using clientPost_cases [OF p(1)] p(2,3) by (auto simp: agentRequestOK_def)
  qed simp
qed

lemma Heartbeat_sent:
  assumes "Heartbeat env bi http h c st = ((err, sent), st')"
  shows "sent = [] \<or> (\<exists>r. sent = [r] \<and> agentRequestOK env c True r)"
proof (cases "sent = []")
  case False
  then obtain p where p: "clientPost env http c ''/services/heartbeat'' p = (err, sent)"
      "payloadService p = clServiceID c" "isHeartbeat p"
    using assms by (auto simp: Heartbeat_def payloadService_def isHeartbeat_def split: if_splits prod.splits)
  show ?thesis using False clientPost_cases [OF p(1)] p(2,3) by (auto simp: agentRequestOK_def)
qed simp

text \<open>Every request of the heartbeat loop is a heartbeat of the client.\<close>

lemma RunHeartbeatLoop_sent:
  "list_all (agentRequestOK env c True) (snd (RunHeartbeatLoop env bi c rs st))"
proof (induction rs arbitrary: st)
  case (Cons r rs)
  obtain err sent st' where hb: "Heartbeat env bi (hrdHTTP r) (hrdHost r) c st = ((err, sent), st')"
    by (metis surj_pair)
  have "list_all (agentRequestOK env c True) sent" using Heartbeat_sent [OF hb] by auto
  then show ?case using Cons.IH [of st'] by (cases "RunHeartbeatLoop env bi c rs st'") (simp add: hb Let_def)
qed simp

text \<open>
  The metrics of a heartbeat always have an encoding, so \<^verbatim>\<open>json.Marshal\<close> does not fail: the host metrics are
  finite, and so is the time since the start, which comes from the monotonic clock.
\<close>

lemma round64_finite: "0 \<le> x \<Longrightarrow> x \<le> 2 powi 64 \<Longrightarrow> isFinite (round64 x)"
proof (cases "x = 0")
  case False
  assume x: "0 \<le> x" "x \<le> 2 powi 64"
  then show ?thesis using False round64_roundVal [of x] roundVal_big [of x] by (auto simp: isFinite_def)
qed (simp add: round64_def isFinite_def)

lemma durationSeconds_finite:
  assumes "0 \<le> d" "d < 2 ^ 63"
  shows "isFinite (durationSeconds d)"
proof -
  define q r where "q = d div second" and "r = d mod second"
  have sq: "sgn d * (\<bar>d\<bar> div second) = q" "sgn d * (\<bar>d\<bar> mod second) = r"
    using assms by (auto simp: q_def r_def sgn_if)
  have q: "0 \<le> q" "q < 2 ^ 53"
  proof -
    show "0 \<le> q" using assms by (simp add: q_def)
    have "q \<le> d div 2 ^ 10" unfolding q_def using assms by (intro zdiv_mono2) auto
    also have "\<dots> < 2 ^ 53" using assms by simp
    finally show "q < 2 ^ 53" .
  qed
  have r: "0 \<le> r" "r < second" by (simp_all add: r_def)
  have "round64 (of_int q) = Fin (of_int q)" "round64 (of_int r) = Fin (of_int r)"
    using q r by (auto intro!: round64_exact_int)
  moreover have "roundVal 1 = 1" using roundVal_of_int [of 1] by simp
  then obtain f where f: "round64 (of_int r / 10 ^ 9) = Fin f" "0 \<le> f" "f \<le> 1"
    using round64_mono_Fin [of "of_int r / 10 ^ 9" 1] r round64_roundVal [of 1] by (auto simp: divide_le_eq)
  moreover have "isFinite (round64 (of_int q + f))"
  proof (rule round64_finite)
    have "(of_int q :: rat) < of_int (2 ^ 53)" using q(2) by (simp only: of_int_less_iff)
    then show "of_int q + f \<le> 2 powi 64" using f(3) by simp
  qed (use q f in simp)
  ultimately show ?thesis unfolding durationSeconds_def Let_def sq by (simp add: fadd_def fneg_def fdiv_def)
qed

lemma NodeRuntimeMetrics_finite:
  assumes "0 \<le> grSinceStart (hoRuntime h)" "grSinceStart (hoRuntime h) < 2 ^ 63"
  shows "list_all (\<lambda>e. jsonFinite (snd e)) (fst (NodeRuntimeMetrics env h st))"
proof -
  have up: "list_all (\<lambda>e. jsonFinite (snd e)) (AList.update k v m)"
    if "jsonFinite v" "list_all (\<lambda>e. jsonFinite (snd e)) m" for k v and m :: "any gomap"
    using that set_update_subset [of k v m] by (auto simp: list_all_iff)
  obtain ms where ms: "fst (NodeHostMetrics env h st) = mergeFloatMetrics ms" "\<forall>x\<in>set ms. list_all saneEntry x"
    using NodeHostMetrics_merge by blast
  have "list_all (\<lambda>e. jsonFinite (snd e)) (map (\<lambda>(k, v). (k, AFloat64 v)) (fst (NodeHostMetrics env h st)))"
    using mergeFloatMetrics_sane(2) [OF ms(2)] ms(1) by (auto simp: list_all_iff)
  moreover have "jsonFinite (AFloat64 (durationSeconds (grSinceStart (hoRuntime h))))"
    using durationSeconds_finite assms by simp
  ultimately show ?thesis unfolding NodeRuntimeMetrics_def Let_def split_beta fst_conv by (intro up) simp_all
qed

end
