(* ===== verification/Service_Main.thy ===== *)
theory Service_Main
  imports Control_Agent Auth Database_Setup
begin

text \<open>
  The process of \<^verbatim>\<open>cmd/observability/main.go\<close>: the checks at its start, the address it listens on, the
  wait for the database, and the loop that registers the service with the Control Panel and sends its
  heartbeats.  The answers of the file system, of the database and of the Control Panel are inputs.
\<close>

subsection \<open>The address\<close>

text \<open>\<^verbatim>\<open>net.SplitHostPort\<close> with the texts of its errors.\<close>

definition addrError :: "string \<Rightarrow> string \<Rightarrow> goerr" where
  "addrError addr why = ErrText (if addr = [] then why else ''address '' @ addr @ '': '' @ why)"

definition missingPort :: string where
  "missingPort = ''missing port in address''"

definition tooManyColons :: string where
  "tooManyColons = ''too many colons in address''"

definition splitChecked :: "string \<Rightarrow> string \<Rightarrow> string \<Rightarrow> string \<Rightarrow> string \<Rightarrow> (string \<times> string) result" where
  "splitChecked hostport host forOpen forClose port =
     (if CHR ''['' \<in> set forOpen then Inl (addrError hostport ''unexpected '[' in address'')
      else if CHR '']'' \<in> set forClose then Inl (addrError hostport ''unexpected ']' in address'')
      else Inr (host, port))"

definition SplitHostPort :: "string \<Rightarrow> (string \<times> string) result" where
  "SplitHostPort hostport =
     (let i = lastIndexOf hostport (CHR '':'') in
      if i < 0 then Inl (addrError hostport missingPort)
      else if hd hostport = CHR ''['' then
        (let e = indexByte hostport (CHR '']'') in
         if e < 0 then Inl (addrError hostport ''missing ']' in address'')
         else if e + 1 = int (length hostport) then Inl (addrError hostport missingPort)
         else if e + 1 = i then
           splitChecked hostport (take (nat e - 1) (tl hostport)) (tl hostport) (drop (nat e + 1) hostport)
             (drop (nat i + 1) hostport)
         else if hostport ! (nat e + 1) = CHR '':'' then Inl (addrError hostport tooManyColons)
         else Inl (addrError hostport missingPort))
      else
        (let host = take (nat i) hostport in
         if CHR '':'' \<in> set host then Inl (addrError hostport tooManyColons)
         else splitChecked hostport host hostport hostport (drop (nat i + 1) hostport)))"

definition observabilityBindAddrFromEnv :: "goenv \<Rightarrow> string result" where
  "observabilityBindAddrFromEnv env =
     (let raw = TrimSpace (getenv env ''OBSERVABILITY_BIND_ADDR'');
          addr = (if raw = [] then ''127.0.0.1:8080'' else raw)
      in case SplitHostPort addr of
           Inl e \<Rightarrow> Inl (ErrText (''must be host:port: '' @ errorText e))
         | Inr (_, portText) \<Rightarrow>
            (case ParseInt portText of
               None \<Rightarrow> Inl (ErrText ''port must be an integer'')
             | Some port \<Rightarrow>
                 if port < 1024 \<or> port > 65535
                 then Inl (ErrText (''port '' @ FormatInt port @ '' is outside the supported range 1024-65535''))
                 else Inr addr))"

subsection \<open>The database\<close>

text \<open>
  One attempt: what opening answered and what the clock then says.  \<open>None\<close> means that the attempts
  given did not end the wait.
\<close>

record 'db openAttempt =
  oaResult :: "'db result"
  oaNow :: instant

fun openDatabaseWithRetry :: "instant \<Rightarrow> int \<Rightarrow> 'db openAttempt list \<Rightarrow> 'db result option" where
  "openDatabaseWithRetry deadline interval [] = None"
| "openDatabaseWithRetry deadline interval (a # as) =
     (case oaResult a of
        Inr db \<Rightarrow> Some (Inr db)
      | Inl e \<Rightarrow>
          if oaNow a + interval > deadline then Some (Inl e)
          else openDatabaseWithRetry deadline interval as)"

subsection \<open>The registration loop\<close>

definition requireMatchingUpdaterIdentity ::
  "ctlenv \<Rightarrow> fileRead \<Rightarrow> fileRead \<Rightarrow> string \<Rightarrow> UpdaterIdentityLatch \<Rightarrow> goerr option \<times> UpdaterIdentityLatch" where
  "requireMatchingUpdaterIdentity ct stat file serviceID l =
     (case ResolveFromEnv ct stat file l of
        (Inl e, l') \<Rightarrow> (Some e, l')
      | (Inr identity, l') \<Rightarrow>
          if TrimSpace serviceID \<noteq> uiServiceID identity then (Some ErrUpdaterIdentityDrift, l') else (None, l'))"

definition controlPanelRegistrationInterval :: "Client \<Rightarrow> int" where
  "controlPanelRegistrationInterval c =
     (if Enabled c \<and> clHeartbeatEvery c > 0 then clHeartbeatEvery c else 10 * second)"

text \<open>The last state and the lines that are logged.\<close>

definition logRegistrationStateChange :: "string \<Rightarrow> string \<Rightarrow> string \<Rightarrow> string \<times> string list" where
  "logRegistrationStateChange lastState state line =
     (if state = lastState then (lastState, []) else (state, [line]))"

record loopState =
  rlLast :: string
  rlRegistered :: string
  rlLatch :: UpdaterIdentityLatch
  rlSamples :: hostSamples

text \<open>
  What one round takes from outside: the reads of the node configuration by the client, by the two
  calls that resolve the identity, and by the test whether it is pending; the exchange; the host; and
  whether the context was done when the timer was awaited.
\<close>

record loopRound =
  rdClientFile :: fileRead
  rdStat :: fileRead
  rdFile :: fileRead
  rdPendingStat :: fileRead
  rdHTTP :: "agentRequest \<Rightarrow> int result"
  rdHost :: agentHost
  rdDone :: bool

text \<open>A request, and whether the Control Panel accepted it.\<close>

datatype agentEvent = Sent agentRequest bool

record roundResult =
  rrState :: loopState
  rrEvents :: "agentEvent list"
  rrLog :: "string list"
  rrWait :: int
  rrFatal :: "goerr option"

definition stateResult :: "loopState \<Rightarrow> string \<Rightarrow> agentEvent list \<Rightarrow> int \<Rightarrow> string \<Rightarrow> string \<Rightarrow> roundResult" where
  "stateResult s registered events wait state line =
     (let (last, log) = logRegistrationStateChange (rlLast s) state line in
      \<lparr>rrState = s\<lparr>rlLast := last, rlRegistered := registered\<rparr>, rrEvents = events, rrLog = log, rrWait = wait,
       rrFatal = None\<rparr>)"

definition eventsOf :: "goerr option \<times> agentRequest list \<Rightarrow> agentEvent list" where
  "eventsOf r = map (\<lambda>q. Sent q (fst r = None)) (snd r)"

definition heartbeatStep :: "ctlenv \<Rightarrow> buildInfo \<Rightarrow> loopRound \<Rightarrow> Client \<Rightarrow> loopState \<Rightarrow> roundResult" where
  "heartbeatStep ct bi rd client s =
     (let (r, samples) = Heartbeat (ctGo ct) bi (rdHTTP rd) (rdHost rd) client (rlSamples s);
          s' = s\<lparr>rlSamples := samples\<rparr>; wait = controlPanelRegistrationInterval client
      in case fst r of
           Some e \<Rightarrow> stateResult s' (rlRegistered s') (eventsOf r) wait (''heartbeat-failed:'' @ errorText e)
             (''control panel heartbeat failed: '' @ errorText e)
         | None \<Rightarrow> \<lparr>rrState = s'\<lparr>rlLast := ''online:'' @ clServiceID client\<rparr>, rrEvents = eventsOf r, rrLog = [],
             rrWait = wait, rrFatal = None\<rparr>)"

definition registerRound :: "ctlenv \<Rightarrow> buildInfo \<Rightarrow> loopRound \<Rightarrow> Client \<Rightarrow> loopState \<Rightarrow> roundResult" where
  "registerRound ct bi rd client s =
     (let wait = controlPanelRegistrationInterval client in
      if rlRegistered s \<noteq> clServiceID client then
        (let r = Register (ctGo ct) bi (rdHTTP rd) (rdHost rd) client in
         case fst r of
           Some e \<Rightarrow> stateResult s [] (eventsOf r) wait (''register-failed:'' @ errorText e)
             (''control panel registration failed: '' @ errorText e)
         | None \<Rightarrow>
            (let reg = stateResult s (clServiceID client) (eventsOf r) wait (''registered:'' @ clServiceID client)
                   (''registered with control panel as '' @ clServiceID client);
                 hb = heartbeatStep ct bi rd client (rrState reg)
             in hb\<lparr>rrEvents := rrEvents reg @ rrEvents hb, rrLog := rrLog reg @ rrLog hb\<rparr>))
      else heartbeatStep ct bi rd client s)"

definition registrationRound :: "ctlenv \<Rightarrow> buildInfo \<Rightarrow> loopRound \<Rightarrow> loopState \<Rightarrow> roundResult" where
  "registrationRound ct bi rd s0 =
     (let client = FromEnv ct (rdClientFile rd); wait = controlPanelRegistrationInterval client;
          path = NodeConfigPathFromEnv (ctGo ct);
          (err, l) = requireMatchingUpdaterIdentity ct (rdStat rd) (rdFile rd) (clServiceID client) (rlLatch s0);
          s = s0\<lparr>rlLatch := l\<rparr>;
          pending = stateResult s [] [] wait (''pending:'' @ path) (''node config pending: waiting for '' @ path)
      in case err of
           Some e \<Rightarrow>
             if e = ErrUpdaterIdentityPending then pending
             else \<lparr>rrState = s, rrEvents = [], rrLog = [], rrWait = wait, rrFatal = Some e\<rparr>
         | None \<Rightarrow>
             if TrimSpace (clConfigError client) \<noteq> []
             then stateResult s (rlRegistered s) [] wait (''invalid:'' @ clConfigError client)
                    (''node config invalid: '' @ clConfigError client)
             else if \<not> Enabled client
             then (if NodeConfigPendingFromEnv (ctGo ct) (rdPendingStat rd) then pending
                   else stateResult s [] [] wait ''disabled''
                     ''control panel registration is not configured; waiting for AUTOSTREAM_NODE_CONFIG'')
             else if TrimSpace (clServicePublicURL client) = []
             then stateResult s [] [] wait (''missing-public-url:'' @ clServiceID client)
                    ''node config invalid: missing api.host or api.port''
             else registerRound ct bi rd client s)"

text \<open>The loop ends when its context is done or with the process; its result has the events of all its rounds.\<close>

fun runControlPanelRegistrationLoop ::
  "ctlenv \<Rightarrow> buildInfo \<Rightarrow> loopRound list \<Rightarrow> loopState \<Rightarrow> agentEvent list \<times> goerr option \<times> loopState" where
  "runControlPanelRegistrationLoop ct bi [] s = ([], None, s)"
| "runControlPanelRegistrationLoop ct bi (rd # rds) s =
     (let r = registrationRound ct bi rd s in
      if rrFatal r \<noteq> None \<or> rdDone rd then (rrEvents r, rrFatal r, rrState r)
      else (let (events, rest) = runControlPanelRegistrationLoop ct bi rds (rrState r) in (rrEvents r @ events, rest)))"

subsection \<open>The start of the process\<close>

record 'db startInputs =
  siStat1 :: fileRead
  siFile1 :: fileRead
  siClientFile :: fileRead
  siStat2 :: fileRead
  siFile2 :: fileRead
  siStart :: instant
  siAttempts :: "'db openAttempt list"
  siMigrations :: "'db \<Rightarrow> goerr option \<times> 'db"
  siTokenFile :: fileRead

record 'db startedService =
  ssAddr :: string
  ssDB :: 'db
  ssSecretKey :: string
  ssIdentity :: UpdaterIdentityLatch
  ssIngestVerifier :: Verifier
  ssAdminVerifier :: Verifier

text \<open>The left value is the line of \<^verbatim>\<open>log.Fatalf\<close>; \<open>None\<close> means that the process still waits for the database.\<close>

definition startAfterDatabase ::
  "ctlenv \<Rightarrow> 'db startInputs \<Rightarrow> string \<Rightarrow> UpdaterIdentityLatch \<Rightarrow> 'db \<Rightarrow> string + 'db startedService" where
  "startAfterDatabase ct si addr l db =
     (case siMigrations si db of
        (Some e, _) \<Rightarrow> Inl (''run migrations failed: '' @ errorText e)
      | (None, db') \<Rightarrow>
         (let nodeToken = NodeRuntimeTokenFromEnv (ctGo ct) (ctUnquote ct) (siTokenFile si) in
          Inr \<lparr>ssAddr = addr, ssDB = db', ssSecretKey = getenv (ctGo ct) ''AUTOSTREAM_SECRET_ENCRYPTION_KEY'',
               ssIdentity = l, ssIngestVerifier = zeroVerifier,
               ssAdminVerifier = (if nodeToken \<noteq> [] then WithRawTokenScopes (ctGo ct) zeroVerifier nodeToken [''*'']
                                  else zeroVerifier)\<rparr>))"

definition startChecked ::
  "ctlenv \<Rightarrow> 'db startInputs \<Rightarrow> string \<Rightarrow> goerr option \<Rightarrow> UpdaterIdentityLatch \<Rightarrow> (string + 'db startedService) option" where
  "startChecked ct si addr matching l =
     (if matching \<noteq> None \<and> matching \<noteq> Some ErrUpdaterIdentityPending
      then Some (Inl (''invalid updater identity: '' @ errorText (the matching)))
      else if getenv (ctGo ct) ''DATABASE_URL'' = []
      then Some (Inl ''DATABASE_URL is required; observability does not support production memory storage'')
      else if getenv (ctGo ct) ''AUTOSTREAM_SECRET_ENCRYPTION_KEY'' = []
      then Some (Inl ''AUTOSTREAM_SECRET_ENCRYPTION_KEY is required when DATABASE_URL is configured'')
      else case openDatabaseWithRetry (siStart si + 60 * second) (2 * second) (siAttempts si) of
        None \<Rightarrow> None
      | Some (Inl e) \<Rightarrow> Some (Inl (''open mariadb failed: '' @ errorText e))
      | Some (Inr db) \<Rightarrow> Some (startAfterDatabase ct si addr l db))"

definition startService :: "ctlenv \<Rightarrow> 'db startInputs \<Rightarrow> (string + 'db startedService) option" where
  "startService ct si =
     (case observabilityBindAddrFromEnv (ctGo ct) of
        Inl e \<Rightarrow> Some (Inl (''invalid OBSERVABILITY_BIND_ADDR: '' @ errorText e))
      | Inr addr \<Rightarrow>
      (case ConfigRevisionFromEnv (ctGo ct) of
        Inl e \<Rightarrow> Some (Inl (''invalid AUTOSTREAM_CONFIG_REVISION: '' @ errorText e))
      | Inr _ \<Rightarrow>
         (let (r1, l1) = ResolveFromEnv ct (siStat1 si) (siFile1 si) (NewUpdaterIdentityLatch ServiceType);
              client = FromEnv ct (siClientFile si);
              (r2, l2) = requireMatchingUpdaterIdentity ct (siStat2 si) (siFile2 si) (clServiceID client) l1
          in case r1 of
            Inl e \<Rightarrow>
              if e \<noteq> ErrUpdaterIdentityPending then Some (Inl (''invalid updater identity: '' @ errorText e))
              else startChecked ct si addr r2 l2
          | Inr _ \<Rightarrow> startChecked ct si addr r2 l2)))"

subsection \<open>The loop sends only what it may\<close>

text \<open>The services that a list of events registered, and heartbeats only of services registered before them.\<close>

fun knownAfter :: "string list \<Rightarrow> agentEvent list \<Rightarrow> string list" where
  "knownAfter known [] = known"
| "knownAfter known (Sent q ok # es) =
     knownAfter (if ok \<and> \<not> isHeartbeat (agPayload q) then payloadService (agPayload q) # known else known) es"

fun covered :: "string list \<Rightarrow> agentEvent list \<Rightarrow> bool" where
  "covered known [] = True"
| "covered known (Sent q ok # es) =
     ((isHeartbeat (agPayload q) \<longrightarrow> payloadService (agPayload q) \<in> set known) \<and> covered (knownAfter known [Sent q ok]) es)"

lemma covered_append [simp]: "covered k (es @ es') = (covered k es \<and> covered (knownAfter k es) es')"
  by (induction k es rule: covered.induct) auto

lemma knownAfter_append [simp]: "knownAfter k (es @ es') = knownAfter (knownAfter k es) es'"
  by (induction k es rule: knownAfter.induct) auto

lemma knownAfter_from:
  "x \<in> set (knownAfter k es) \<Longrightarrow> x \<notin> set k \<Longrightarrow>
     \<exists>q. Sent q True \<in> set es \<and> \<not> isHeartbeat (agPayload q) \<and> payloadService (agPayload q) = x"
  by (induction k es rule: knownAfter.induct) (auto split: if_splits)

lemma knownAfter_mono: "x \<in> set k \<Longrightarrow> x \<in> set (knownAfter k es)"
  by (induction k es rule: knownAfter.induct) auto

definition registeredIn :: "string list \<Rightarrow> loopState \<Rightarrow> bool" where
  "registeredIn known s \<longleftrightarrow> rlRegistered s = [] \<or> rlRegistered s \<in> set known"

lemma stateResult_fields [simp]:
  "rrEvents (stateResult s g es w st l) = es" "rlRegistered (rrState (stateResult s g es w st l)) = g"
  "rlLatch (rrState (stateResult s g es w st l)) = rlLatch s" "rrFatal (stateResult s g es w st l) = None"
  by (simp_all add: stateResult_def split: prod.split)

lemma heartbeatStep_facts:
  assumes "heartbeatStep ct bi rd client s = r"
  shows "rlRegistered (rrState r) = rlRegistered s \<and> rlLatch (rrState r) = rlLatch s \<and>
    (rrEvents r = [] \<or> (\<exists>q ok. rrEvents r = [Sent q ok] \<and> agentRequestOK (ctGo ct) client True q))"
proof -
  obtain err sent samples where hb:
      "Heartbeat (ctGo ct) bi (rdHTTP rd) (rdHost rd) client (rlSamples s) = ((err, sent), samples)"
    by (metis surj_pair)
  show ?thesis using assms Heartbeat_sent [OF hb]
    by (cases err) (auto simp: heartbeatStep_def hb Let_def eventsOf_def)
qed

lemma registerRound_facts:
  assumes "registerRound ct bi rd client s = r" "registeredIn known s" "clServiceID client \<noteq> []"
  shows "covered known (rrEvents r) \<and> registeredIn (knownAfter known (rrEvents r)) (rrState r) \<and>
    rlLatch (rrState r) = rlLatch s \<and>
    (\<forall>q ok. Sent q ok \<in> set (rrEvents r) \<longrightarrow> (\<exists>hb. agentRequestOK (ctGo ct) client hb q))"
proof (cases "rlRegistered s = clServiceID client")
  case True
  then have r: "heartbeatStep ct bi rd client s = r" using assms(1) by (simp add: registerRound_def)
  show ?thesis using heartbeatStep_facts [OF r] True assms(2,3)
    by (auto simp: registeredIn_def agentRequestOK_def)
next
  case False
  obtain err sent where rg: "Register (ctGo ct) bi (rdHTTP rd) (rdHost rd) client = (err, sent)" by fastforce
  note sent = Register_sent [OF rg]
  show ?thesis
  proof (cases err)
    case (Some e)
    then have "rrEvents r = eventsOf (err, sent)" "rlRegistered (rrState r) = []" "rlLatch (rrState r) = rlLatch s"
      using assms(1) False rg by (auto simp: registerRound_def)
    then show ?thesis using sent by (auto simp: registeredIn_def eventsOf_def agentRequestOK_def)
  next
    case None
    then obtain q where q: "sent = [q]" "agentRequestOK (ctGo ct) client False q" using sent by blast
    define wait where "wait = controlPanelRegistrationInterval client"
    define reg where "reg = stateResult s (clServiceID client) (eventsOf (err, sent)) wait
      (''registered:'' @ clServiceID client) (''registered with control panel as '' @ clServiceID client)"
    define hb where "hb = heartbeatStep ct bi rd client (rrState reg)"
    have r: "r = hb\<lparr>rrEvents := rrEvents reg @ rrEvents hb, rrLog := rrLog reg @ rrLog hb\<rparr>"
      using assms(1) False rg None unfolding registerRound_def wait_def [symmetric] hb_def reg_def Let_def by simp
    have "rrEvents reg = [Sent q True]" "rlRegistered (rrState reg) = clServiceID client" "rlLatch (rrState reg) = rlLatch s"
      by (simp_all add: reg_def eventsOf_def q None)
    then show ?thesis using heartbeatStep_facts [OF hb_def [symmetric]] q(2)
      by (auto simp: r registeredIn_def agentRequestOK_def)
  qed
qed

lemma latchBind_Inr:
  "latchBind c l = (Inr i, l') \<Longrightarrow> i = c \<and> uiServiceID i \<noteq> [] \<and> ulBound l' \<and> ulIdentity l' = i"
  by (auto simp: latchBind_def split: if_splits)

lemma ResolveFromEnv_Inr:
  "ResolveFromEnv ct stat fl l = (Inr i, l') \<Longrightarrow> uiServiceID i \<noteq> [] \<and> ulBound l' \<and> ulIdentity l' = i"
  using latchBind_Inr [of _ l i l'] by (auto simp: ResolveFromEnv_def Let_def split: sum.splits if_splits)

lemma requireMatching_latch:
  assumes "requireMatchingUpdaterIdentity ct stat fl sid l = (err, l')"
  shows "(ulBound l \<longrightarrow> l' = l) \<and> (err = None \<longrightarrow> ulBound l' \<and> TrimSpace sid = uiServiceID (ulIdentity l') \<and> TrimSpace sid \<noteq> [])"
proof -
  obtain r l'' where r: "ResolveFromEnv ct stat fl l = (r, l'')" by fastforce
  have l'': "l'' = l'" using assms r by (auto simp: requireMatchingUpdaterIdentity_def split: sum.splits if_splits)
  have "ulBound l \<longrightarrow> l' = l" using ResolveFromEnv_bound [of l ct stat fl] r l'' by simp
  moreover have "ulBound l' \<and> TrimSpace sid = uiServiceID (ulIdentity l') \<and> TrimSpace sid \<noteq> []" if ok: "err = None"
  proof -
    obtain i where i: "r = Inr i" "TrimSpace sid = uiServiceID i"
      using assms r ok by (auto simp: requireMatchingUpdaterIdentity_def split: sum.splits if_splits)
    then have "uiServiceID i \<noteq> [] \<and> ulBound l' \<and> ulIdentity l' = i"
      using r l'' ResolveFromEnv_Inr [of ct stat fl l i l'] by simp
    then show ?thesis using i by simp
  qed
  ultimately show ?thesis by blast
qed

lemma registrationRound_facts:
  assumes "registrationRound ct bi rd s = r" "registeredIn known s"
  shows "covered known (rrEvents r) \<and> registeredIn (knownAfter known (rrEvents r)) (rrState r) \<and>
    (ulBound (rlLatch s) \<longrightarrow> rlLatch (rrState r) = rlLatch s) \<and>
    (\<forall>q ok. Sent q ok \<in> set (rrEvents r) \<longrightarrow> ulBound (rlLatch (rrState r)) \<and>
       TrimSpace (payloadService (agPayload q)) = uiServiceID (ulIdentity (rlLatch (rrState r))) \<and>
       (\<exists>hb. agentRequestOK (ctGo ct) (FromEnv ct (rdClientFile rd)) hb q))"
proof -
  define client where "client = FromEnv ct (rdClientFile rd)"
  obtain err l where m: "requireMatchingUpdaterIdentity ct (rdStat rd) (rdFile rd) (clServiceID client) (rlLatch s) = (err, l)"
    by fastforce
  note latch = requireMatching_latch [OF m]
  define s1 where "s1 = s\<lparr>rlLatch := l\<rparr>"
  have s1: "registeredIn known s1" "rlLatch s1 = l" using assms(2) by (simp_all add: s1_def registeredIn_def)
  note unfolded = assms(1) [unfolded registrationRound_def Let_def client_def [symmetric] m prod.case s1_def [symmetric]]
  show ?thesis
  proof (cases "err = None \<and> TrimSpace (clConfigError client) = [] \<and> Enabled client \<and> TrimSpace (clServicePublicURL client) \<noteq> []")
    case True
    then have "registerRound ct bi rd client s1 = r" using unfolded by simp
    moreover have "clServiceID client \<noteq> []" using latch True by auto
    ultimately show ?thesis
      using registerRound_facts [of ct bi rd client s1 r known] s1 latch True unfolding client_def [symmetric]
      by (auto simp: agentRequestOK_def)
  next
    case False
    have "rrEvents r = [] \<and> (rlRegistered (rrState r) = [] \<or> rlRegistered (rrState r) = rlRegistered s1) \<and> rlLatch (rrState r) = l"
    proof (cases err)
      case None
      then show ?thesis using unfolded False s1(2) by (auto split: if_splits)
    next
      case (Some e)
      then show ?thesis using unfolded s1(2) by (auto split: if_splits)
    qed
    then show ?thesis using s1 latch by (auto simp: registeredIn_def)
  qed
qed

lemma loop_facts:
  assumes "runControlPanelRegistrationLoop ct bi rds s = (events, fatal, s')" "registeredIn known s"
  shows "covered known events \<and> (ulBound (rlLatch s) \<longrightarrow> rlLatch s' = rlLatch s) \<and>
    (\<forall>q ok. Sent q ok \<in> set events \<longrightarrow> ulBound (rlLatch s') \<and>
       TrimSpace (payloadService (agPayload q)) = uiServiceID (ulIdentity (rlLatch s')) \<and>
       (\<exists>rd\<in>set rds. \<exists>hb. agentRequestOK (ctGo ct) (FromEnv ct (rdClientFile rd)) hb q))"
  using assms
proof (induction rds arbitrary: s events known)
  case (Cons rd rds)
  define r where "r = registrationRound ct bi rd s"
  note step = registrationRound_facts [OF r_def [symmetric] Cons.prems(2)]
  show ?case
  proof (cases "rrFatal r \<noteq> None \<or> rdDone rd")
    case True
    then have "events = rrEvents r" "s' = rrState r" using Cons.prems(1) by (auto simp: Let_def r_def)
    then show ?thesis using step by auto
  next
    case False
    obtain es where rest: "runControlPanelRegistrationLoop ct bi rds (rrState r) = (es, fatal, s')" "events = rrEvents r @ es"
      using Cons.prems(1) False by (auto simp: Let_def r_def split: prod.splits)
    have "registeredIn (knownAfter known (rrEvents r)) (rrState r)" using step by blast
    from Cons.IH [OF rest(1) this] show ?thesis using step rest(2) by auto
  qed
qed simp

text \<open>
  C16: The registration loop speaks only for the one identity of the process.  Over any sequence of rounds, whatever the
  files, the Control Panel and the timer do, every request carries the service id to which the latch is bound and the
  token of a configuration whose address passed its check, and every heartbeat comes after a registration of
  the same service that the Control Panel accepted.
\<close>

theorem registration_loop_safe:
  assumes "runControlPanelRegistrationLoop ct bi rds s = (events, fatal, s')" "rlRegistered s = []"
    "events = pre @ Sent q ok # post"
  shows "TrimSpace (payloadService (agPayload q)) = uiServiceID (ulIdentity (rlLatch s')) \<and>
    (\<exists>rd\<in>set rds. let c = FromEnv ct (rdClientFile rd) in payloadService (agPayload q) = clServiceID c \<and>
       agAuthorization q = ''Bearer '' @ clToken c \<and> validateHTTPURL (ctGo ct) (clBaseURL c) ''CONTROL_PANEL_URL'' = None) \<and>
    (isHeartbeat (agPayload q) \<longrightarrow> (\<exists>q'. Sent q' True \<in> set pre \<and> \<not> isHeartbeat (agPayload q') \<and>
       payloadService (agPayload q') = payloadService (agPayload q)))"
proof -
  have f: "covered [] events" "TrimSpace (payloadService (agPayload q)) = uiServiceID (ulIdentity (rlLatch s'))"
    "\<exists>rd\<in>set rds. \<exists>hb. agentRequestOK (ctGo ct) (FromEnv ct (rdClientFile rd)) hb q"
    using loop_facts [OF assms(1), of "[]"] assms(2,3) by (auto simp: registeredIn_def)
  have "payloadService (agPayload q) \<in> set (knownAfter [] pre)" if "isHeartbeat (agPayload q)"
    using f(1) that by (simp add: assms(3))
  then show ?thesis using f(2,3) knownAfter_from [of _ "[]" pre] by (fastforce simp: agentRequestOK_def Let_def)
qed

text \<open>A round of a configured service whose Control Panel accepts everything.\<close>

definition agentCtl :: ctlenv where
  "agentCtl = \<lparr>ctGo = (concreteEnv [(''CONTROL_PANEL_URL'', ''https://panel''), (''CONTROL_PANEL_TOKEN'', ''abc''),
       (''SERVICE_PUBLIC_URL'', ''https://obs'')])
       \<lparr>urlParse := (\<lambda>u. Some \<lparr>urlScheme = ''https'', urlHost = ''panel'', urlHostname = ''panel'', urlUser = None,
          urlPath = [], urlRawQuery = [], urlFragment = []\<rparr>)\<rparr>,
     ctUnquote = (\<lambda>_. None), ctDuration = (\<lambda>_. None), ctVersion = ''dev''\<rparr>"

definition sampleBuild :: buildInfo where
  "sampleBuild = \<lparr>biVersion = ''1.0'', biCommit = ''c'', biBuildDate = ''d'', biOS = ''linux'', biArch = ''amd64''\<rparr>"

definition sampleHost :: agentHost where
  "sampleHost = \<lparr>ahHostname = None, ahReads = \<lparr>hoRuntime = \<lparr>grNumCPU = 4, grNumGoroutine = 9, grHeapAlloc = 1, grHeapSys = 2,
     grHeapObjects = 3, grPauseTotalNs = 0, grSinceStart = 5\<rparr>, hoProcStat = None, hoMemInfo = None, hoLoadAvg = None,
     hoStatfs = None, hoNetDev = None, hoNow = 1\<rparr>\<rparr>"

definition agentRound :: loopRound where
  "agentRound = \<lparr>rdClientFile = FileMissing, rdStat = FileMissing, rdFile = FileMissing, rdPendingStat = FileMissing,
     rdHTTP = (\<lambda>_. Inr 200), rdHost = sampleHost, rdDone = True\<rparr>"

definition startState :: loopState where
  "startState = \<lparr>rlLast = [], rlRegistered = [], rlLatch = NewUpdaterIdentityLatch ''observability'',
     rlSamples = \<lparr>hsCPU = None, hsNetwork = None\<rparr>\<rparr>"

definition agentClient :: Client where
  "agentClient = \<lparr>clBaseURL = ''https://panel'', clToken = ''abc'', clServiceID = ''observability-01'',
     clServiceName = ''Observability'', clServicePublicURL = ''https://obs'', clVersion = ''dev'',
     clHeartbeatEvery = 30 * second, clConfigError = [], clTimeout = 5 * second\<rparr>"

lemma agentClient_env: "FromEnv agentCtl FileMissing = agentClient"
  by (simp add: FromEnv_def applyNodeConfigFromEnv_def agentCtl_def agentClient_def concreteEnv_def envDefault_def
      envDuration_def NodeConfigPathFromEnv_def Let_def go_eval)

lemma agentClient_post:
  "payloadFinite p \<Longrightarrow> \<exists>q. clientPost (ctGo agentCtl) (\<lambda>_. Inr 200) agentClient e p = (None, [q]) \<and> agPayload q = p"
  by (simp add: clientPost_def validateHTTPURL_def validateHTTPURLWithAllowedHTTPHost_def agentCtl_def agentClient_def Let_def)

lemma agentClient_enabled: "Enabled agentClient" "TrimSpace (clConfigError agentClient) = []"
  "TrimSpace (clServicePublicURL agentClient) = ''https://obs''" "clServiceID agentClient = ''observability-01''"
  by (simp_all add: Enabled_def agentClient_def go_eval)

lemma agentClient_identity:
  "requireMatchingUpdaterIdentity agentCtl FileMissing FileMissing ''observability-01'' (NewUpdaterIdentityLatch ''observability'') =
     (None, \<lparr>ulServiceType = ''observability'', ulIdentity = \<lparr>uiServiceID = ''observability-01'',
        uiServiceType = ''observability'', uiConfigRevision = 1\<rparr>, ulBound = True\<rparr>)"
proof -
  have env: "ConfigRevisionFromEnv (ctGo agentCtl) = Inr 1" "\<not> NodeConfigPendingFromEnv (ctGo agentCtl) FileMissing"
    by (simp_all add: ConfigRevisionFromEnv_def NodeConfigPendingFromEnv_def NodeConfigPathFromEnv_def agentCtl_def
        concreteEnv_def go_eval)
  have "TrimSpace ''observability-01'' = ''observability-01''" "TrimSpace ''observability'' = ''observability''"
    by (simp_all add: go_eval)
  then show ?thesis
    by (simp add: requireMatchingUpdaterIdentity_def ResolveFromEnv_def env agentClient_env agentClient_enabled
        NewUpdaterIdentityLatch_def ServiceType_def latchBind_def)
qed

lemma agent_validates: "validateServicePublicURL (ctGo agentCtl) u n = None"
  by (simp add: validateServicePublicURL_def validateHTTPURLWithAllowedHTTPHost_def agentCtl_def)

lemma agent_Register:
  "\<exists>q. Register (ctGo agentCtl) sampleBuild (\<lambda>_. Inr 200) sampleHost agentClient = (None, [q])"
proof -
  have "Register (ctGo agentCtl) sampleBuild (\<lambda>_. Inr 200) sampleHost agentClient =
    clientPost (ctGo agentCtl) (\<lambda>_. Inr 200) agentClient ''/services/register''
          (PRegister \<lparr>rgServiceID = clServiceID agentClient, rgServiceType = ServiceType, rgServiceName = clServiceName agentClient,
             rgPublicURL = clServicePublicURL agentClient, rgVersion = clVersion agentClient, rgCommit = biCommit sampleBuild,
             rgBuildDate = biBuildDate sampleBuild, rgCapabilities = serviceCapabilities, rgHostname = reportHostname sampleHost,
             rgOS = biOS sampleBuild, rgArch = biArch sampleBuild\<rparr>)"
    (is "_ = clientPost _ _ _ _ ?p")
    unfolding Register_def by (simp add: agentClient_enabled agent_validates)
  moreover have "payloadFinite ?p" by (simp add: serviceCapabilities_def)
  ultimately show ?thesis using agentClient_post by metis
qed

lemma agent_Heartbeat:
  "\<exists>q st'. Heartbeat (ctGo agentCtl) sampleBuild (\<lambda>_. Inr 200) sampleHost agentClient st = ((None, [q]), st') \<and>
     isHeartbeat (agPayload q)"
proof -
  obtain m st' where m: "NodeRuntimeMetrics (ctGo agentCtl) (ahReads sampleHost) st = (m, st')" by fastforce
  have "list_all (\<lambda>e. jsonFinite (snd e)) m"
    using NodeRuntimeMetrics_finite [of "ahReads sampleHost" "ctGo agentCtl" st] m by (simp add: sampleHost_def)
  then have p: "payloadFinite (PHeartbeat \<lparr>hbServiceID = clServiceID agentClient, hbStatus = ''online'', hbVersion = clVersion agentClient,
               hbCommit = biCommit sampleBuild, hbBuildDate = biBuildDate sampleBuild, hbCapabilities = serviceCapabilities,
               hbHostname = reportHostname sampleHost, hbOS = biOS sampleBuild, hbArch = biArch sampleBuild, hbMetrics = m\<rparr>)"
    (is "payloadFinite ?p") by (simp add: serviceCapabilities_def)
  have "Heartbeat (ctGo agentCtl) sampleBuild (\<lambda>_. Inr 200) sampleHost agentClient st =
      (clientPost (ctGo agentCtl) (\<lambda>_. Inr 200) agentClient ''/services/heartbeat'' ?p, st')"
    unfolding Heartbeat_def by (simp add: agentClient_enabled m)
  then show ?thesis using agentClient_post [OF p, of "''/services/heartbeat''"] by (auto simp: isHeartbeat_def)
qed

lemma agent_run:
  obtains q h s' where "runControlPanelRegistrationLoop agentCtl sampleBuild [agentRound] startState =
      ([Sent q True, Sent h True], None, s')" "isHeartbeat (agPayload h)"
proof -
  obtain q where q: "Register (ctGo agentCtl) sampleBuild (\<lambda>_. Inr 200) sampleHost agentClient = (None, [q])"
    using agent_Register by blast
  obtain h st' where h: "Heartbeat (ctGo agentCtl) sampleBuild (\<lambda>_. Inr 200) sampleHost agentClient (rlSamples startState) =
      ((None, [h]), st')" "isHeartbeat (agPayload h)"
    using agent_Heartbeat by blast
  have rd: "rdClientFile agentRound = FileMissing" "rdStat agentRound = FileMissing" "rdFile agentRound = FileMissing"
    "rdHTTP agentRound = (\<lambda>_. Inr 200)" "rdHost agentRound = sampleHost" "rdDone agentRound"
    by (simp_all add: agentRound_def)
  have st: "rlLatch startState = NewUpdaterIdentityLatch ''observability''" "rlRegistered startState = []"
    by (simp_all add: startState_def)
  let ?r = "registrationRound agentCtl sampleBuild agentRound startState"
  have "rrEvents ?r = [Sent q True, Sent h True] \<and> rrFatal ?r = None"
    by (simp add: registrationRound_def rd st agentClient_env agentClient_enabled agentClient_identity Let_def registerRound_def q
        heartbeatStep_def eventsOf_def stateResult_def logRegistrationStateChange_def h split: prod.split)
  then show thesis using that [of q h "rrState ?r"] h(2) rd(6) by (simp add: Let_def)
qed

theorem registration_loop_safe_witness:
  "\<exists>q h s'. runControlPanelRegistrationLoop agentCtl sampleBuild [agentRound] startState = ([Sent q True, Sent h True], None, s') \<and>
     isHeartbeat (agPayload h) \<and> payloadService (agPayload q) = payloadService (agPayload h) \<and>
     TrimSpace (payloadService (agPayload h)) = uiServiceID (ulIdentity (rlLatch s'))"
proof -
  obtain q h s' where run: "runControlPanelRegistrationLoop agentCtl sampleBuild [agentRound] startState =
      ([Sent q True, Sent h True], None, s')" "isHeartbeat (agPayload h)"
    by (rule agent_run)
  have "rlRegistered startState = []" by (simp add: startState_def)
  from registration_loop_safe [OF run(1) this, of "[Sent q True]" h True "[]"] run show ?thesis by auto
qed

subsection \<open>A started process\<close>

lemma observabilityBindAddrFromEnv_Inr:
  assumes "observabilityBindAddrFromEnv env = Inr addr"
  shows "\<exists>host portText port. SplitHostPort addr = Inr (host, portText) \<and> ParseInt portText = Some port \<and>
    1024 \<le> port \<and> port \<le> 65535"
  using assms by (auto simp: observabilityBindAddrFromEnv_def Let_def split: sum.splits option.splits if_splits)

lemma startService_Inr:
  assumes "startService ct si = Some (Inr sv)"
  obtains addr db r l where "observabilityBindAddrFromEnv (ctGo ct) = Inr addr"
    "getenv (ctGo ct) ''DATABASE_URL'' \<noteq> []" "getenv (ctGo ct) ''AUTOSTREAM_SECRET_ENCRYPTION_KEY'' \<noteq> []"
    "openDatabaseWithRetry (siStart si + 60 * second) (2 * second) (siAttempts si) = Some (Inr db)"
    "startAfterDatabase ct si addr l db = Inr sv"
proof -
  obtain addr r l where "observabilityBindAddrFromEnv (ctGo ct) = Inr addr" "startChecked ct si addr r l = Some (Inr sv)"
    using assms by (auto simp: startService_def Let_def split: sum.splits prod.splits if_splits)
  then show thesis using that
    by (auto simp: startChecked_def split: if_splits option.splits sum.splits)
qed

lemma zero_refuses: "\<not> VerifyRequest env zeroVerifier h" "AuthorizeRequest env zeroVerifier h scope = (False, False)"
  by (simp_all add: VerifyRequest_def VerifyToken_def VerifyTokenSubject_def AuthorizeRequest_def AuthorizeToken_def
      zeroVerifier_def split: option.split)

lemma node_token_authority:
  assumes "TrimSpace t \<noteq> []"
  shows "AuthorizeToken env (WithRawTokenScopes env zeroVerifier t [''*'']) raw scope =
    (let ok = raw \<noteq> [] \<and> HashToken env raw = HashToken env (TrimSpace t) in (ok, ok))"
proof (cases "raw = []")
  case True
  then show ?thesis by (simp add: AuthorizeToken_def VerifyTokenSubject_def zeroVerifier_def)
next
  case False
  have star: "TrimSpace ''*'' = ''*''" by (simp add: go_eval)
  show ?thesis
    using assms False grant_hashes [OF assms, of env zeroVerifier "[''*'']"]
      grant_other_hashes [of "HashToken env raw" env t zeroVerifier "[''*'']"]
    by (auto simp: AuthorizeToken_def VerifyTokenSubject_def Let_def grant_scopes star scopeSet_def zeroVerifier_def)
qed

text \<open>
  C18: A process that has started listens on a port between 1024 and 65535, has a database and a key, accepts no
  token as that of a service, and accepts for its protected requests exactly the token of the node configuration, for every scope; without a
  node configuration it accepts none.
\<close>

theorem started_service_authority:
  assumes "startService ct si = Some (Inr sv)"
  shows "(\<exists>host portText port. SplitHostPort (ssAddr sv) = Inr (host, portText) \<and> ParseInt portText = Some port \<and>
      1024 \<le> port \<and> port \<le> 65535) \<and>
    (\<exists>a\<in>set (siAttempts si). isl (oaResult a) = False) \<and> ssSecretKey sv \<noteq> [] \<and>
    \<not> VerifyRequest (ctGo ct) (ssIngestVerifier sv) h \<and>
    AuthorizeRequest (ctGo ct) (ssAdminVerifier sv) h scope =
      (let t = TrimSpace (NodeRuntimeTokenFromEnv (ctGo ct) (ctUnquote ct) (siTokenFile si));
           ok = (case CutPrefix h ''Bearer '' of
                   None \<Rightarrow> False
                 | Some raw \<Rightarrow> t \<noteq> [] \<and> TrimSpace raw \<noteq> [] \<and> HashToken (ctGo ct) (TrimSpace raw) = HashToken (ctGo ct) t)
       in (ok, ok))"
proof -
  define t where "t = NodeRuntimeTokenFromEnv (ctGo ct) (ctUnquote ct) (siTokenFile si)"
  obtain addr db l where st: "observabilityBindAddrFromEnv (ctGo ct) = Inr addr"
    "getenv (ctGo ct) ''AUTOSTREAM_SECRET_ENCRYPTION_KEY'' \<noteq> []"
    "openDatabaseWithRetry (siStart si + 60 * second) (2 * second) (siAttempts si) = Some (Inr db)"
    "startAfterDatabase ct si addr l db = Inr sv"
    using startService_Inr [OF assms] by metis
  then have sv: "ssAddr sv = addr" "ssSecretKey sv = getenv (ctGo ct) ''AUTOSTREAM_SECRET_ENCRYPTION_KEY''"
    "ssIngestVerifier sv = zeroVerifier"
    "ssAdminVerifier sv = (if t \<noteq> [] then WithRawTokenScopes (ctGo ct) zeroVerifier t [''*''] else zeroVerifier)"
    by (auto simp: startAfterDatabase_def t_def Let_def split: prod.splits option.splits)
  have opened: "\<exists>a\<in>set as. isl (oaResult a) = False" if "openDatabaseWithRetry d i as = Some (Inr db)" for d i as
    using that by (induction as) (auto split: sum.splits if_splits)
  have blank: "WithRawTokenScopes (ctGo ct) zeroVerifier t [''*''] = zeroVerifier" if "TrimSpace t = []"
    using that by (simp add: WithRawTokenScopes_def)
  have "AuthorizeRequest (ctGo ct) (ssAdminVerifier sv) h scope =
      (let ok = (case CutPrefix h ''Bearer '' of None \<Rightarrow> False
         | Some raw \<Rightarrow> TrimSpace t \<noteq> [] \<and> TrimSpace raw \<noteq> [] \<and> HashToken (ctGo ct) (TrimSpace raw) = HashToken (ctGo ct) (TrimSpace t))
       in (ok, ok))"
  proof (cases "TrimSpace t = []")
    case True
    then have "ssAdminVerifier sv = zeroVerifier" using sv(4) blank by simp
    then show ?thesis using True by (simp add: zero_refuses split: option.split)
  next
    case False
    then have "ssAdminVerifier sv = WithRawTokenScopes (ctGo ct) zeroVerifier t [''*'']" using sv(4) by auto
    then show ?thesis using False by (simp add: AuthorizeRequest_def node_token_authority Let_def split: option.split)
  qed
  then show ?thesis using observabilityBindAddrFromEnv_Inr [OF st(1)] opened [OF st(3)] st(2) sv(1-3)
    unfolding t_def [symmetric] by (simp add: zero_refuses Let_def)
qed

definition prodCtl :: ctlenv where
  "prodCtl = \<lparr>ctGo = concreteEnv [(''DATABASE_URL'', ''mysql://db''), (''AUTOSTREAM_SECRET_ENCRYPTION_KEY'', ''key'')],
     ctUnquote = (\<lambda>_. None), ctDuration = (\<lambda>_. None), ctVersion = ''dev''\<rparr>"

definition prodInputs :: "unit startInputs" where
  "prodInputs = \<lparr>siStat1 = FileMissing, siFile1 = FileMissing, siClientFile = FileMissing, siStat2 = FileMissing,
     siFile2 = FileMissing, siStart = 0, siAttempts = [\<lparr>oaResult = Inr (), oaNow = 1\<rparr>], siMigrations = (\<lambda>db. (None, db)),
     siTokenFile = FileMissing\<rparr>"

lemma prod_bind: "observabilityBindAddrFromEnv (ctGo prodCtl) = Inr ''127.0.0.1:8080''"
proof -
  have "TrimSpace (getenv (ctGo prodCtl) ''OBSERVABILITY_BIND_ADDR'') = []" by (simp add: prodCtl_def concreteEnv_def)
  moreover have "SplitHostPort ''127.0.0.1:8080'' = Inr (''127.0.0.1'', ''8080'')"
    by (simp add: SplitHostPort_def lastIndexOf_def indexByte_def splitChecked_def)
  moreover have "ParseInt ''8080'' = Some 8080" by code_simp
  ultimately show ?thesis by (simp add: observabilityBindAddrFromEnv_def)
qed

theorem started_service_authority_witness:
  "\<exists>sv. startService prodCtl prodInputs = Some (Inr sv) \<and>
     AuthorizeRequest (ctGo prodCtl) (ssAdminVerifier sv) ''Bearer x'' ''observability.read'' = (False, False)"
proof -
  have env: "ConfigRevisionFromEnv (ctGo prodCtl) = Inr 1" "\<not> NodeConfigPendingFromEnv (ctGo prodCtl) FileMissing"
    "clServiceID (FromEnv prodCtl FileMissing) = ''observability-01''" "clConfigError (FromEnv prodCtl FileMissing) = []"
    "NodeRuntimeTokenFromEnv (ctGo prodCtl) (ctUnquote prodCtl) FileMissing = []"
    by (simp_all add: ConfigRevisionFromEnv_def NodeConfigPendingFromEnv_def NodeConfigPathFromEnv_def prodCtl_def
        concreteEnv_def FromEnv_def applyNodeConfigFromEnv_def envDefault_def NodeRuntimeTokenFromEnv_def Let_def go_eval)
  have trim: "TrimSpace ''observability-01'' = ''observability-01''" "TrimSpace ''observability'' = ''observability''"
    by (simp_all add: go_eval)
  have vars: "getenv (ctGo prodCtl) ''DATABASE_URL'' = ''mysql://db''"
    "getenv (ctGo prodCtl) ''AUTOSTREAM_SECRET_ENCRYPTION_KEY'' = ''key''"
    by (simp_all add: prodCtl_def concreteEnv_def)
  have "\<exists>sv. startService prodCtl prodInputs = Some (Inr sv)"
    by (simp add: startService_def prod_bind env prodInputs_def ResolveFromEnv_def NewUpdaterIdentityLatch_def ServiceType_def
        latchBind_def requireMatchingUpdaterIdentity_def trim startChecked_def vars startAfterDatabase_def)
  then obtain sv where sv: "startService prodCtl prodInputs = Some (Inr sv)" by blast
  have "siTokenFile prodInputs = FileMissing" by (simp add: prodInputs_def)
  then show ?thesis using sv started_service_authority [OF sv, of "''Bearer x''" "''observability.read''"] env(5)
    by (auto split: option.splits)
qed

text \<open>
  A configuration file that is unreadable or of another type ends the process: the round resolves the identity from the
  same file before it reaches the branch that would report the configuration as invalid and wait.
\<close>

lemma invalid_config_fatal:
  assumes "rdFile rd = rdClientFile rd" "TrimSpace (clConfigError (FromEnv ct (rdClientFile rd))) \<noteq> []"
    "rdStat rd \<noteq> FileMissing" "ConfigRevisionFromEnv (ctGo ct) = Inr revision" "ulServiceType (rlLatch s) = ServiceType"
  shows "rrFatal (registrationRound ct bi rd s) = Some (ErrText (clConfigError (FromEnv ct (rdClientFile rd)))) \<and>
    rrEvents (registrationRound ct bi rd s) = []"
  using assms by (simp add: registrationRound_def requireMatchingUpdaterIdentity_def ResolveFromEnv_def
      NodeConfigPendingFromEnv_def Let_def)

text \<open>The wait for the database ends: every failed attempt costs at least the interval.\<close>

lemma openDatabase_ends:
  assumes "0 < interval" "start \<le> deadline" "\<forall>k<length as. start + int k * interval \<le> oaNow (as ! k)" "deadline - start < int (length as) * interval"
  shows "openDatabaseWithRetry deadline interval as \<noteq> None"
  using assms
proof (induction as arbitrary: start)
  case (Cons a as)
  show ?case
  proof (cases "oaResult a")
    case (Inl e)
    show ?thesis
    proof (cases "oaNow a + interval > deadline")
      case False
      have "start \<le> oaNow a" using Cons.prems(3) by (auto dest: spec [of _ 0])
      then have "start + interval \<le> deadline" using False by simp
      moreover have "\<forall>k<length as. (start + interval) + int k * interval \<le> oaNow (as ! k)"
        using Cons.prems(3) by (auto simp: algebra_simps dest: spec [of _ "Suc _"])
      moreover have "deadline - (start + interval) < int (length as) * interval"
        using Cons.prems(4) by (simp add: algebra_simps)
      ultimately show ?thesis using Cons.IH [of "start + interval"] Cons.prems(1) Inl False by simp
    qed (simp add: Inl)
  qed simp
qed simp

end
