(* ===== verification/Configure_Command.thy ===== *)
theory Configure_Command
  imports Service_Main
begin

text \<open>
  The command that pairs the service with a node, from \<^verbatim>\<open>internal/control/configure_command.go\<close> (Unix build): its
  flags, the request to the Control Panel, the checks of the answer and the file it writes.  Files and
  directories are explicit; a call of the operating system fails as \<open>osenv\<close> says.
\<close>

subsection \<open>Paths\<close>

text \<open>\<^verbatim>\<open>filepath.Clean\<close>, \<^verbatim>\<open>Dir\<close> and \<^verbatim>\<open>Base\<close>.\<close>

definition cleanStep :: "bool \<Rightarrow> string list \<Rightarrow> string \<Rightarrow> string list" where
  "cleanStep rooted out c =
     (if c = [] \<or> c = ''.'' then out
      else if c = ''..'' then
        (if out \<noteq> [] \<and> last out \<noteq> ''..'' then butlast out else if rooted then out else out @ [c])
      else out @ [c])"

definition CleanPath :: "string \<Rightarrow> string" where
  "CleanPath path =
     (let rooted = HasPrefix path ''/'';
          out = foldl (cleanStep rooted) [] (splitByte (CHR ''/'') path)
      in if rooted then ''/'' @ strJoin out ''/'' else if out = [] then ''.'' else strJoin out ''/'')"

definition afterSlash :: "string \<Rightarrow> string" where
  "afterSlash s = rev (takeWhile (\<lambda>c. c \<noteq> CHR ''/'') (rev s))"

definition DirPath :: "string \<Rightarrow> string" where
  "DirPath path = CleanPath (rev (dropWhile (\<lambda>c. c \<noteq> CHR ''/'') (rev path)))"

definition BasePath :: "string \<Rightarrow> string" where
  "BasePath path =
     (if path = [] then ''.''
      else (let p = rev (dropWhile (\<lambda>c. c = CHR ''/'') (rev path)) in if p = [] then ''/'' else afterSlash p))"

subsection \<open>The file system\<close>

text \<open>Modes are the numbers of the permission bits; an owner is a pair of user and group.\<close>

record fsEntry =
  feBody :: string
  feMode :: nat
  feOwner :: "int \<times> int"

record fsState =
  fsFiles :: "(string \<times> fsEntry) list"
  fsDirs :: "(string \<times> nat \<times> int \<times> int) list"

text \<open>
  \<open>oeFault\<close> gives the error of the numbered call; \<open>oeMade\<close> and \<open>oeWritten\<close> say how far a failed creation of
  directories or a failed write came; \<open>oeSuffixes\<close> are the numbers drawn for the name of the temporary file.
\<close>

record osenv =
  oeFault :: "nat \<Rightarrow> goerr option"
  oeMade :: nat
  oeWritten :: nat
  oeUser :: "int \<times> int"
  oeUmasked :: "nat \<Rightarrow> nat"
  oeLookupGroup :: "string \<Rightarrow> string result"
  oeSuffixes :: "nat list"

definition nodeConfigDirMode :: nat where "nodeConfigDirMode = 488"
definition nodeConfigFileMode :: nat where "nodeConfigFileMode = 416"
definition nodeConfigSecureDir :: string where "nodeConfigSecureDir = ''/etc/autostream-observability''"
definition nodeConfigServiceGroup :: string where "nodeConfigServiceGroup = ''autostream''"

text \<open>The directories above a path and the path itself, outermost first.\<close>

definition ancestors :: "string \<Rightarrow> string list" where
  "ancestors path =
     (let rooted = HasPrefix path ''/''; comps = filter (\<lambda>c. c \<noteq> []) (splitByte (CHR ''/'') path)
      in map (\<lambda>n. (if rooted then ''/'' else []) @ strJoin (take n comps) ''/'') [1..<length comps + 1])"

definition addDirs :: "osenv \<Rightarrow> string list \<Rightarrow> fsState \<Rightarrow> fsState" where
  "addDirs os ps fs = fs\<lparr>fsDirs := fsDirs fs @ map (\<lambda>p. (p, oeUmasked os nodeConfigDirMode, oeUser os)) ps\<rparr>"

definition mkdirAll :: "osenv \<Rightarrow> string \<Rightarrow> fsState \<Rightarrow> goerr option \<times> fsState" where
  "mkdirAll os path fs =
     (let missing = filter (\<lambda>p. map_of (fsDirs fs) p = None) (ancestors path) in
      if list_ex (\<lambda>p. map_of (fsFiles fs) p \<noteq> None) (path # ancestors path) then (Some (ErrText ''not a directory''), fs)
      else case oeFault os 0 of
        Some e \<Rightarrow> (Some e, addDirs os (take (oeMade os) missing) fs)
      | None \<Rightarrow> (None, addDirs os missing fs))"

definition touch :: "string \<Rightarrow> (fsEntry \<Rightarrow> fsEntry) \<Rightarrow> fsState \<Rightarrow> fsState" where
  "touch path f fs = fs\<lparr>fsFiles := map (\<lambda>(p, e). (p, if p = path then f e else e)) (fsFiles fs)\<rparr>"

definition chmodPath :: "string \<Rightarrow> nat \<Rightarrow> fsState \<Rightarrow> fsState" where
  "chmodPath path m fs = (touch path (\<lambda>e. e\<lparr>feMode := m\<rparr>) fs)
     \<lparr>fsDirs := map (\<lambda>(p, d). (p, if p = path then (m, snd d) else d)) (fsDirs fs)\<rparr>"

definition chownPath :: "string \<Rightarrow> int \<times> int \<Rightarrow> fsState \<Rightarrow> fsState" where
  "chownPath path o' fs = (touch path (\<lambda>e. e\<lparr>feOwner := o'\<rparr>) fs)
     \<lparr>fsDirs := map (\<lambda>(p, d). (p, if p = path then (fst d, o') else d)) (fsDirs fs)\<rparr>"

text \<open>The first drawn name that is free, as \<^verbatim>\<open>os.CreateTemp\<close> finds it.\<close>

definition tempName :: "string \<Rightarrow> string \<Rightarrow> nat \<Rightarrow> string" where
  "tempName dir base n =
     (if HasSuffix dir ''/'' then dir else dir @ ''/'') @ ''.'' @ base @ ''.tmp-'' @ natDigits n"

definition createTemp :: "osenv \<Rightarrow> string \<Rightarrow> string \<Rightarrow> fsState \<Rightarrow> string result" where
  "createTemp os dir base fs =
     (if CHR ''/'' \<in> set base then Inl (ErrText ''pattern contains path separator'')
      else case oeFault os 3 of
        Some e \<Rightarrow> Inl e
      | None \<Rightarrow>
         (case find (\<lambda>p. map_of (fsFiles fs) p = None \<and> map_of (fsDirs fs) p = None) (map (tempName dir base) (oeSuffixes os)) of
            None \<Rightarrow> Inl (ErrText ''file exists'')
          | Some p \<Rightarrow> Inr p))"

definition removeFile :: "osenv \<Rightarrow> string \<Rightarrow> fsState \<Rightarrow> fsState" where
  "removeFile os path fs =
     (case oeFault os 12 of Some e \<Rightarrow> fs | None \<Rightarrow> fs\<lparr>fsFiles := AList.delete path (fsFiles fs)\<rparr>)"

definition renameFile :: "osenv \<Rightarrow> string \<Rightarrow> string \<Rightarrow> fsState \<Rightarrow> goerr option \<times> fsState" where
  "renameFile os old new fs =
     (case oeFault os 9 of
        Some e \<Rightarrow> (Some e, fs)
      | None \<Rightarrow>
          if map_of (fsDirs fs) new \<noteq> None then (Some (ErrText ''file exists''), fs)
          else case map_of (fsFiles fs) old of
            None \<Rightarrow> (Some (ErrText ''no such file''), fs)
          | Some e \<Rightarrow> (None, fs\<lparr>fsFiles := AList.update new e (AList.delete old (fsFiles fs))\<rparr>))"

subsection \<open>Writing the configuration\<close>

definition wrapErr :: "string \<Rightarrow> goerr \<Rightarrow> goerr" where
  "wrapErr what e = ErrText (what @ '': '' @ errorText e)"

definition shouldApplyAutostreamNodeOwnership :: "osenv \<Rightarrow> string \<Rightarrow> bool" where
  "shouldApplyAutostreamNodeOwnership os path =
     (if fst (oeUser os) \<noteq> 0 then False
      else (let cleanPath = CleanPath path; secureDir = CleanPath nodeConfigSecureDir
            in cleanPath = secureDir \<or> HasPrefix cleanPath (secureDir @ ''/'')))"

definition chownRootAutostream :: "osenv \<Rightarrow> nat \<Rightarrow> string \<Rightarrow> fsState \<Rightarrow> goerr option \<times> fsState" where
  "chownRootAutostream os n path fs =
     (case oeLookupGroup os nodeConfigServiceGroup of
        Inl e \<Rightarrow> (Some (wrapErr ''lookup group'' e), fs)
      | Inr gidText \<Rightarrow>
         (case ParseInt gidText of
            None \<Rightarrow> (Some (ErrText ''parse group''), fs)
          | Some gid \<Rightarrow>
             (case oeFault os n of
                Some e \<Rightarrow> (Some (wrapErr ''chown root:autostream'' e), fs)
              | None \<Rightarrow> (None, chownPath path (0, gid) fs))))"

definition secureNodeConfigDir :: "osenv \<Rightarrow> string \<Rightarrow> fsState \<Rightarrow> goerr option \<times> fsState" where
  "secureNodeConfigDir os path fs =
     (if \<not> shouldApplyAutostreamNodeOwnership os path then (None, fs)
      else case chownRootAutostream os 1 path fs of
        (Some e, fs1) \<Rightarrow> (Some (wrapErr ''secure config directory'' e), fs1)
      | (None, fs1) \<Rightarrow>
         (case oeFault os 2 of
            Some e \<Rightarrow> (Some (wrapErr ''chmod config directory'' e), fs1)
          | None \<Rightarrow> (None, chmodPath path nodeConfigDirMode fs1)))"

definition chmodConfig :: "osenv \<Rightarrow> nat \<Rightarrow> string \<Rightarrow> fsState \<Rightarrow> goerr option \<times> fsState" where
  "chmodConfig os n path fs =
     (case oeFault os n of
        Some e \<Rightarrow> (Some (wrapErr ''chmod config'' e), fs)
      | None \<Rightarrow> (None, chmodPath path nodeConfigFileMode fs))"

definition secureNodeConfigFile :: "osenv \<Rightarrow> nat \<Rightarrow> string \<Rightarrow> fsState \<Rightarrow> goerr option \<times> fsState" where
  "secureNodeConfigFile os n path fs =
     (if shouldApplyAutostreamNodeOwnership os path then
        (case chownRootAutostream os n path fs of
           (Some e, fs1) \<Rightarrow> (Some (wrapErr ''secure config file'' e), fs1)
         | (None, fs1) \<Rightarrow> chmodConfig os (n + 1) path fs1)
      else chmodConfig os (n + 1) path fs)"

text \<open>What is done with the temporary file; the second value says whether it is kept.\<close>

definition fillTemp :: "osenv \<Rightarrow> string \<Rightarrow> string \<Rightarrow> string \<Rightarrow> fsState \<Rightarrow> (goerr option \<times> bool) \<times> fsState" where
  "fillTemp os tmpName cleanPath body fs0 =
     (case oeFault os 4 of
        Some e \<Rightarrow> ((Some (wrapErr ''chmod temp config'' e), False), fs0)
      | None \<Rightarrow>
         (let fs1 = chmodPath tmpName nodeConfigFileMode fs0 in
          case secureNodeConfigFile os 5 tmpName fs1 of
            (Some e, fs2) \<Rightarrow> ((Some e, False), fs2)
          | (None, fs2) \<Rightarrow>
             (case oeFault os 7 of
                Some e \<Rightarrow> ((Some (wrapErr ''write temp config'' e), False),
                             touch tmpName (\<lambda>f. f\<lparr>feBody := take (oeWritten os) body\<rparr>) fs2)
              | None \<Rightarrow>
                 (let fs3 = touch tmpName (\<lambda>f. f\<lparr>feBody := body\<rparr>) fs2 in
                  case oeFault os 8 of
                    Some e \<Rightarrow> ((Some (wrapErr ''close temp config'' e), False), fs3)
                  | None \<Rightarrow>
                     (case renameFile os tmpName cleanPath fs3 of
                        (Some e, fs4) \<Rightarrow> ((Some (wrapErr ''install config'' e), False), fs4)
                      | (None, fs4) \<Rightarrow>
                         (case secureNodeConfigFile os 10 cleanPath fs4 of (err, fs5) \<Rightarrow> ((err, True), fs5)))))))"

definition writeNodeConfigFile :: "osenv \<Rightarrow> string \<Rightarrow> string \<Rightarrow> fsState \<Rightarrow> goerr option \<times> fsState" where
  "writeNodeConfigFile os path body fs =
     (let cleanPath = CleanPath (TrimSpace path); dir = DirPath cleanPath in
      case mkdirAll os dir fs of
        (Some e, fs1) \<Rightarrow> (Some (wrapErr ''create config directory'' e), fs1)
      | (None, fs1) \<Rightarrow>
         (case secureNodeConfigDir os dir fs1 of
            (Some e, fs2) \<Rightarrow> (Some e, fs2)
          | (None, fs2) \<Rightarrow>
             (case createTemp os dir (BasePath cleanPath) fs2 of
                Inl e \<Rightarrow> (Some (wrapErr ''create temp config'' e), fs2)
              | Inr tmpName \<Rightarrow>
                 (case fillTemp os tmpName cleanPath body
                     (fs2\<lparr>fsFiles := fsFiles fs2 @ [(tmpName, \<lparr>feBody = [], feMode = oeUmasked os 384, feOwner = oeUser os\<rparr>)]\<rparr>) of
                    ((err, keepTemp), fs3) \<Rightarrow> (err, if keepTemp then fs3 else removeFile os tmpName fs3)))))"

subsection \<open>The flags\<close>

record configureFlags =
  cfPanelURL :: string
  cfToken :: string
  cfNode :: string
  cfConfig :: string
  cfTimeout :: int

definition defaultFlags :: configureFlags where
  "defaultFlags = \<lparr>cfPanelURL = [], cfToken = [], cfNode = [], cfConfig = ''/etc/autostream-observability/config.yml'',
     cfTimeout = 15 * second\<rparr>"

definition setFlag :: "ctlenv \<Rightarrow> string \<Rightarrow> string \<Rightarrow> configureFlags \<Rightarrow> configureFlags result" where
  "setFlag ct name v fl =
     (if name = ''panel-url'' then Inr (fl\<lparr>cfPanelURL := v\<rparr>)
      else if name = ''token'' then Inr (fl\<lparr>cfToken := v\<rparr>)
      else if name = ''node'' then Inr (fl\<lparr>cfNode := v\<rparr>)
      else if name = ''config'' then Inr (fl\<lparr>cfConfig := v\<rparr>)
      else (case ctDuration ct v of
              None \<Rightarrow> Inl (ErrText ''invalid value for flag -timeout'')
            | Some d \<Rightarrow> Inr (fl\<lparr>cfTimeout := d\<rparr>)))"

definition knownFlag :: "string \<Rightarrow> goerr option" where
  "knownFlag name =
     (if name \<in> {''panel-url'', ''token'', ''node'', ''config'', ''timeout''} then None
      else if name = ''help'' \<or> name = ''h'' then Some (ErrText ''flag: help requested'')
      else Some (ErrText (''flag provided but not defined: -'' @ name)))"

text \<open>\<^verbatim>\<open>FlagSet.Parse\<close>: the flags and the arguments after them.\<close>

fun parseFlags :: "ctlenv \<Rightarrow> string list \<Rightarrow> configureFlags \<Rightarrow> (configureFlags \<times> string list) result" where
  "parseFlags ct [] fl = Inr (fl, [])"
| "parseFlags ct (s # args) fl =
     (if length s < 2 \<or> hd s \<noteq> CHR ''-'' then Inr (fl, s # args)
      else if s = ''--'' then Inr (fl, args)
      else
        (let name0 = (if s ! 1 = CHR ''-'' then drop 2 s else drop 1 s) in
         if name0 = [] \<or> hd name0 = CHR ''-'' \<or> hd name0 = CHR ''=''
         then Inl (ErrText (''bad flag syntax: '' @ s))
         else
           (case cutByte (CHR ''='') name0 of
              Some (name, v) \<Rightarrow>
                (case knownFlag name of
                   Some e \<Rightarrow> Inl e
                 | None \<Rightarrow> (case setFlag ct name v fl of Inl e \<Rightarrow> Inl e | Inr fl' \<Rightarrow> parseFlags ct args fl'))
            | None \<Rightarrow>
                (case knownFlag name0 of
                   Some e \<Rightarrow> Inl e
                 | None \<Rightarrow>
                    (case args of
                       [] \<Rightarrow> Inl (ErrText (''flag needs an argument: -'' @ name0))
                     | v # args' \<Rightarrow>
                         (case setFlag ct name0 v fl of Inl e \<Rightarrow> Inl e | Inr fl' \<Rightarrow> parseFlags ct args' fl'))))))"

subsection \<open>The request\<close>

record configureRequest =
  cqURL :: string
  cqNodeID :: string
  cqConfigureToken :: string
  cqVersion :: string
  cqCommit :: string
  cqBuildDate :: string
  cqHostname :: string
  cqOS :: string
  cqArch :: string

text \<open>An answer: its status, the content of its body and the error of reading it; and the decoders of JSON.\<close>

record configureAnswer =
  caStatus :: int
  caBody :: string
  caReadError :: "goerr option"

record configureNet =
  cnDo :: "configureRequest \<Rightarrow> configureAnswer result"
  cnErrorCode :: "string \<Rightarrow> string"
  cnResponse :: "string \<Rightarrow> (string \<times> string) result"

definition configureHostname :: "agentHost \<Rightarrow> string" where
  "configureHostname h = (case ahHostname h of None \<Rightarrow> [] | Some hostname \<Rightarrow> TrimSpace hostname)"

definition configureRequestPayload :: "buildInfo \<Rightarrow> agentHost \<Rightarrow> string \<Rightarrow> string \<Rightarrow> string \<Rightarrow> configureRequest" where
  "configureRequestPayload bi h url nodeID configureToken =
     \<lparr>cqURL = url, cqNodeID = nodeID, cqConfigureToken = configureToken, cqVersion = versionCurrent bi, cqCommit = biCommit bi,
      cqBuildDate = biBuildDate bi, cqHostname = configureHostname h, cqOS = biOS bi, cqArch = biArch bi\<rparr>"

definition maxConfigureResponseBytes :: nat where
  "maxConfigureResponseBytes = 2 ^ 20"

definition readLimitedConfigureBody :: "configureAnswer \<Rightarrow> string result" where
  "readLimitedConfigureBody a =
     (let body = take (maxConfigureResponseBytes + 1) (caBody a) in
      case caReadError a of
        Some e \<Rightarrow> Inl e
      | None \<Rightarrow> if length body > maxConfigureResponseBytes
                then Inl (ErrText ''control panel configure response is too large'') else Inr body)"

definition configText :: "configureNet \<Rightarrow> int \<Rightarrow> string \<Rightarrow> string result" where
  "configText cn status body =
     (if status < 200 \<or> status \<ge> 300 then
        (let code = cnErrorCode cn body in
         if code \<noteq> [] then Inl (ErrText (''control panel configure failed: HTTP '' @ FormatInt status @ '' code '' @ code))
         else Inl (ErrText (''control panel configure failed: HTTP '' @ FormatInt status)))
      else (case cnResponse cn body of
         Inl e \<Rightarrow> Inl (wrapErr ''decode control panel configure response'' e)
       | Inr (configYML, configurationYML) \<Rightarrow>
          (let first = TrimSpace configYML; yml = (if first = [] then TrimSpace configurationYML else first) in
           if yml = [] then Inl (ErrText ''control panel configure response did not include config_yml'')
           else Inr (yml @ [CHR 0x0A]))))"

definition fetchNodeConfig ::
  "goenv \<Rightarrow> buildInfo \<Rightarrow> agentHost \<Rightarrow> configureNet \<Rightarrow> string \<Rightarrow> string \<Rightarrow> string \<Rightarrow> string result \<times> configureRequest list" where
  "fetchNodeConfig env bi h cn panelURL nodeID configureToken =
     (let url = rev (dropWhile (\<lambda>ch. ch = CHR ''/'') (rev panelURL)) @ ''/api/node-agent/configure'';
          req = configureRequestPayload bi h url nodeID configureToken
      in case urlParse env url of
           None \<Rightarrow> (Inl (ErrText ''parse''), [])
         | Some _ \<Rightarrow>
            (case cnDo cn req of
               Inl e \<Rightarrow> (Inl (wrapErr ''control panel configure request failed'' e), [req])
             | Inr a \<Rightarrow>
                (case readLimitedConfigureBody a of
                   Inl e \<Rightarrow> (Inl e, [req])
                 | Inr body \<Rightarrow> (configText cn (caStatus a) body, [req]))))"

subsection \<open>The command\<close>

definition configureChecks :: "goenv \<Rightarrow> configureFlags \<Rightarrow> goerr option" where
  "configureChecks env fl =
     (if TrimSpace (cfPanelURL fl) = [] then Some (ErrText ''--panel-url is required'')
      else if TrimSpace (cfToken fl) = [] then Some (ErrText ''--token is required'')
      else if TrimSpace (cfNode fl) = [] then Some (ErrText ''--node is required'')
      else if TrimSpace (cfConfig fl) = [] then Some (ErrText ''--config is required'')
      else if cfTimeout fl \<le> 0 then Some (ErrText ''--timeout must be positive'')
      else validateHTTPURL env (cfPanelURL fl) ''--panel-url'')"

definition receivedConfig :: "ctlenv \<Rightarrow> string \<Rightarrow> string \<Rightarrow> string \<Rightarrow> nodeAgentConfig result" where
  "receivedConfig ct rawType nodeID configYML =
     (case parseNodeAgentConfig (ctUnquote ct) configYML of
        Inl e \<Rightarrow> Inl (wrapErr ''received invalid config.yml'' e)
      | Inr cfg \<Rightarrow>
         (let expectedType = TrimSpace rawType in
          if expectedType \<noteq> [] \<and> ncNodeType cfg \<noteq> expectedType
          then Inl (ErrText (''received config for node.type '' @ ncNodeType cfg @ '', but this binary expects '' @ expectedType))
          else if ncNodeID cfg \<noteq> TrimSpace nodeID
          then Inl (ErrText (''received config for node '' @ ncNodeID cfg @ '', but requested '' @ TrimSpace nodeID))
          else Inr cfg))"

definition RunConfigureCommand ::
  "ctlenv \<Rightarrow> buildInfo \<Rightarrow> agentHost \<Rightarrow> configureNet \<Rightarrow> osenv \<Rightarrow> string list \<Rightarrow> string \<Rightarrow> fsState
     \<Rightarrow> (string result \<times> configureRequest list) \<times> fsState" where
  "RunConfigureCommand ct bi h cn os args expectedType fs =
     (case parseFlags ct args defaultFlags of
        Inl e \<Rightarrow> ((Inl e, []), fs)
      | Inr (fl, rest) \<Rightarrow>
          if rest \<noteq> [] then ((Inl (ErrText (''unexpected argument '' @ hd rest)), []), fs)
          else (case configureChecks (ctGo ct) fl of
             Some e \<Rightarrow> ((Inl e, []), fs)
           | None \<Rightarrow>
              (case fetchNodeConfig (ctGo ct) bi h cn (TrimSpace (cfPanelURL fl)) (TrimSpace (cfNode fl)) (TrimSpace (cfToken fl)) of
                 (Inl e, sent) \<Rightarrow> ((Inl e, sent), fs)
               | (Inr configYML, sent) \<Rightarrow>
                  (case receivedConfig ct expectedType (cfNode fl) configYML of
                     Inl e \<Rightarrow> ((Inl e, sent), fs)
                   | Inr cfg \<Rightarrow>
                      (case writeNodeConfigFile os (cfConfig fl) configYML fs of
                         (Some e, fs') \<Rightarrow> ((Inl e, sent), fs')
                       | (None, fs') \<Rightarrow>
                          ((Inr (''configure succeeded: wrote '' @ CleanPath (cfConfig fl) @ '' for node '' @ ncNodeID cfg @ '' ('' @
                              ncNodeType cfg @ '')'' @ [CHR 0x0A]), sent), fs'))))))"

subsection \<open>What a write changes\<close>

lemma map_of_touch [simp]:
  "map_of (fsFiles (touch path f fs)) q = (if q = path then map_option f (map_of (fsFiles fs) q) else map_of (fsFiles fs) q)"
proof -
  have "map_of (map (\<lambda>(p, e). (p, if p = path then f e else e)) al) q =
      (if q = path then map_option f (map_of al q) else map_of al q)" for al
    by (induction al) auto
  then show ?thesis by (simp add: touch_def)
qed

lemma map_of_chmod [simp]:
  "map_of (fsFiles (chmodPath path m fs)) q =
     (if q = path then map_option (\<lambda>e. e\<lparr>feMode := m\<rparr>) (map_of (fsFiles fs) q) else map_of (fsFiles fs) q)"
  unfolding chmodPath_def by simp

lemma map_of_chown [simp]:
  "map_of (fsFiles (chownPath path ow fs)) q =
     (if q = path then map_option (\<lambda>e. e\<lparr>feOwner := ow\<rparr>) (map_of (fsFiles fs) q) else map_of (fsFiles fs) q)"
  unfolding chownPath_def by simp

definition sameFiles :: "string set \<Rightarrow> fsState \<Rightarrow> fsState \<Rightarrow> bool" where
  "sameFiles ps fs fs' \<longleftrightarrow> (\<forall>q. q \<notin> ps \<longrightarrow> map_of (fsFiles fs') q = map_of (fsFiles fs) q)"

lemma sameFiles_refl [simp]: "sameFiles ps fs fs"
  by (simp add: sameFiles_def)

lemma sameFiles_trans: "sameFiles ps fs fs' \<Longrightarrow> sameFiles ps fs' fs'' \<Longrightarrow> sameFiles ps fs fs''"
  by (simp add: sameFiles_def)

text \<open>Securing a path keeps the content of its file; without an error the file has the mode of a configuration.\<close>

lemma chown_facts:
  assumes "chownRootAutostream os n path fs = (err, fs')"
  shows "sameFiles {path} fs fs' \<and>
    (\<forall>e. map_of (fsFiles fs) path = Some e \<longrightarrow>
       (\<exists>e'. map_of (fsFiles fs') path = Some e' \<and> feBody e' = feBody e \<and> feMode e' = feMode e \<and>
          (err = None \<longrightarrow> fst (feOwner e') = 0)))"
  using assms by (auto simp: chownRootAutostream_def sameFiles_def split: sum.splits option.splits)

lemma secure_facts:
  assumes "secureNodeConfigFile os n path fs = (err, fs')" "map_of (fsFiles fs) path = Some e"
  shows "sameFiles {path} fs fs' \<and>
    (\<exists>e'. map_of (fsFiles fs') path = Some e' \<and> feBody e' = feBody e \<and>
       (feMode e' = feMode e \<or> feMode e' = nodeConfigFileMode) \<and>
       (err = None \<longrightarrow> feMode e' = nodeConfigFileMode \<and>
          (shouldApplyAutostreamNodeOwnership os path \<longrightarrow> fst (feOwner e') = 0)))"
proof (cases "shouldApplyAutostreamNodeOwnership os path")
  case False
  then show ?thesis using assms
    by (auto simp: secureNodeConfigFile_def chmodConfig_def sameFiles_def split: option.splits)
next
  case True
  obtain r fs1 where c: "chownRootAutostream os n path fs = (r, fs1)" by fastforce
  obtain e1 where e1: "map_of (fsFiles fs1) path = Some e1" "feBody e1 = feBody e" "feMode e1 = feMode e"
      "r = None \<longrightarrow> fst (feOwner e1) = 0" "sameFiles {path} fs fs1"
    using chown_facts [OF c] assms(2) by blast
  show ?thesis using assms(1) True c e1
    by (cases r; cases "oeFault os (n + 1)")
      (auto simp: secureNodeConfigFile_def chmodConfig_def sameFiles_def)
qed

lemma rename_facts:
  assumes "renameFile os old new fs = (err, fs')" "map_of (fsFiles fs) old = Some e" "old \<noteq> new"
  shows "err \<noteq> None \<and> fs' = fs \<or>
    err = None \<and> sameFiles {old, new} fs fs' \<and> map_of (fsFiles fs') old = None \<and> map_of (fsFiles fs') new = Some e"
proof (cases "oeFault os 9")
  case None
  then show ?thesis using assms
    by (cases "map_of (fsDirs fs) new") (auto simp: renameFile_def sameFiles_def update_conv' delete_conv')
next
  case (Some x)
  then have "(Some x, fs) = (err, fs')" using assms(1) by (simp add: renameFile_def)
  then show ?thesis by auto
qed

lemma fillTemp_facts:
  assumes "fillTemp os tmp clean body fs = ((err, keep), fs')" "map_of (fsFiles fs) tmp = Some e" "tmp \<noteq> clean"
  shows "sameFiles {tmp, clean} fs fs' \<and> (keep \<longrightarrow> map_of (fsFiles fs') tmp = None) \<and> (err = None \<longrightarrow> keep) \<and>
    (if keep then (\<exists>e'. map_of (fsFiles fs') clean = Some e' \<and> feBody e' = body \<and> feMode e' = nodeConfigFileMode \<and>
                    (err = None \<longrightarrow> shouldApplyAutostreamNodeOwnership os clean \<longrightarrow> fst (feOwner e') = 0))
     else map_of (fsFiles fs') clean = map_of (fsFiles fs) clean)"
proof (cases "oeFault os 4")
  case (Some x)
  then show ?thesis using assms(1) by (auto simp: fillTemp_def)
next
  case None
  define fs1 where "fs1 = chmodPath tmp nodeConfigFileMode fs"
  obtain r fs2 where s: "secureNodeConfigFile os 5 tmp fs1 = (r, fs2)" by fastforce
  have e1: "map_of (fsFiles fs1) tmp = Some (e\<lparr>feMode := nodeConfigFileMode\<rparr>)" using assms(2) by (simp add: fs1_def)
  have same1: "sameFiles {tmp} fs fs1" by (simp add: fs1_def sameFiles_def)
  obtain e2 where e2: "sameFiles {tmp} fs1 fs2" "map_of (fsFiles fs2) tmp = Some e2" "feMode e2 = nodeConfigFileMode"
    using secure_facts [OF s e1] by auto
  have same2: "sameFiles {tmp} fs fs2" using same1 e2(1) by (rule sameFiles_trans)
  show ?thesis
  proof (cases "r \<noteq> None \<or> oeFault os 7 \<noteq> None")
    case True
    then have "\<not> keep" "err \<noteq> None" "sameFiles {tmp} fs fs'"
      using assms(1) None s same2 by (auto simp: fillTemp_def fs1_def [symmetric] sameFiles_def split: option.splits)
    then show ?thesis using assms(3) by (auto simp: sameFiles_def)
  next
    case ok: False
    define fs3 where "fs3 = touch tmp (\<lambda>f. f\<lparr>feBody := body\<rparr>) fs2"
    have e3: "map_of (fsFiles fs3) tmp = Some (e2\<lparr>feBody := body\<rparr>)" using e2(2) by (simp add: fs3_def)
    have same3: "sameFiles {tmp} fs fs3" using same2 by (simp add: fs3_def sameFiles_def)
    obtain r4 fs4 where rn: "renameFile os tmp clean fs3 = (r4, fs4)" by fastforce
    note rename = rename_facts [OF rn e3 assms(3)]
    show ?thesis
    proof (cases "oeFault os 8 \<noteq> None \<or> r4 \<noteq> None")
      case True
      then have "\<not> keep" "err \<noteq> None" "fs' = fs3"
        using assms(1) None s ok rn rename by (auto simp: fillTemp_def fs1_def [symmetric] fs3_def [symmetric] split: option.splits)
      then show ?thesis using assms(3) same3 by (auto simp: sameFiles_def)
    next
      case False
      then have fin: "secureNodeConfigFile os 10 clean fs4 = (err, fs')" "keep"
        using assms(1) None s ok rn by (auto simp: fillTemp_def fs1_def [symmetric] fs3_def [symmetric] split: prod.splits)
      have f4: "sameFiles {tmp, clean} fs3 fs4" "map_of (fsFiles fs4) tmp = None" "map_of (fsFiles fs4) clean = Some (e2\<lparr>feBody := body\<rparr>)"
        using rename False by auto
      then show ?thesis using secure_facts [OF fin(1) f4(3)] fin(2) e2(3) same3 assms(3)
        by (auto simp: sameFiles_def)
    qed
  qed
qed

text \<open>A temporary name is never the path that is written.\<close>

lemma natDigits_no_slash: "CHR ''/'' \<notin> set (natDigits n)" "natDigits n \<noteq> []"
  using natDigits_digits [of n] by (auto simp: list_all_iff isDigit_def b2n_def)

lemma afterSlash_append: "CHR ''/'' \<notin> set x \<Longrightarrow> afterSlash (d @ CHR ''/'' # x) = x"
proof -
  assume "CHR ''/'' \<notin> set x"
  then have "takeWhile (\<lambda>c. c \<noteq> CHR ''/'') (rev x @ CHR ''/'' # rev d) = rev x"
    by (subst takeWhile_append2) auto
  then show ?thesis by (simp add: afterSlash_def)
qed

lemma tempName_not_base:
  assumes "CHR ''/'' \<notin> set (BasePath path)" "path \<noteq> []"
  shows "tempName dir (BasePath path) n \<noteq> path"
proof
  define x where "x = ''.'' @ BasePath path @ ''.tmp-'' @ natDigits n"
  assume eq: "tempName dir (BasePath path) n = path"
  have x: "CHR ''/'' \<notin> set x" "x \<noteq> []" using assms(1) natDigits_no_slash by (auto simp: x_def)
  obtain d where d: "tempName dir (BasePath path) n = d @ CHR ''/'' # x"
  proof (cases "HasSuffix dir ''/''")
    case True
    then obtain d where "dir = d @ ''/''" by (metis HasSuffix_def append_take_drop_id)
    then show thesis using that True by (simp add: tempName_def x_def)
  next
    case False
    then show thesis using that by (simp add: tempName_def x_def)
  qed
  have path: "path = d @ CHR ''/'' # x" using d eq by simp
  obtain y c where y: "x = y @ [c]" using x(2) by (metis rev_exhaust)
  then have "c \<noteq> CHR ''/''" using x(1) by auto
  then have "rev (dropWhile (\<lambda>c. c = CHR ''/'') (rev path)) = path" by (simp add: path y)
  then have "BasePath path = afterSlash path" using assms(2) by (simp add: BasePath_def)
  also have "\<dots> = x" unfolding path by (rule afterSlash_append [OF x(1)])
  finally have "length (BasePath path) = length x" by simp
  moreover have "length x > length (BasePath path)" by (simp add: x_def)
  ultimately show False by simp
qed

lemma mkdirAll_facts:
  assumes "mkdirAll os dir fs = (err, fs')"
  shows "fsFiles fs' = fsFiles fs \<and> (err = None \<longrightarrow> map_of (fsFiles fs) dir = None)"
proof (cases "list_ex (\<lambda>p. map_of (fsFiles fs) p \<noteq> None) (dir # ancestors dir)")
  case True
  have "(err, fs') = (Some (ErrText ''not a directory''), fs)"
    using assms unfolding mkdirAll_def Let_def by (simp only: True if_True)
  then show ?thesis by simp
next
  case False
  have add: "fsFiles (addDirs os ps fs) = fsFiles fs" for ps by (simp add: addDirs_def)
  have "map_of (fsFiles fs) dir = None" using False by simp
  moreover have "fsFiles fs' = fsFiles fs"
  proof (cases "oeFault os 0")
    case None
    show ?thesis using assms unfolding mkdirAll_def Let_def by (simp only: False if_False None option.case prod.inject) (metis add)
  next
    case (Some e)
    show ?thesis using assms unfolding mkdirAll_def Let_def by (simp only: False if_False Some option.case prod.inject) (metis add)
  qed
  ultimately show ?thesis by simp
qed

lemma secureDir_facts:
  assumes "secureNodeConfigDir os dir fs = (err, fs')" "map_of (fsFiles fs) dir = None"
  shows "sameFiles {} fs fs'"
proof (cases "shouldApplyAutostreamNodeOwnership os dir")
  case True
  obtain r fs1 where c: "chownRootAutostream os 1 dir fs = (r, fs1)" by fastforce
  have "sameFiles {} fs fs1"
    using c assms(2) by (auto simp: chownRootAutostream_def sameFiles_def split: sum.splits option.splits)
  then show ?thesis using assms c True
    by (cases r; cases "oeFault os 2") (auto simp: secureNodeConfigDir_def sameFiles_def)
qed (use assms in \<open>simp add: secureNodeConfigDir_def\<close>)

lemma createTemp_facts:
  assumes "createTemp os dir base fs = Inr t"
  shows "CHR ''/'' \<notin> set base \<and> (\<exists>n. t = tempName dir base n) \<and> map_of (fsFiles fs) t = None"
  using assms by (auto simp: createTemp_def find_Some_iff split: if_splits option.splits)

text \<open>
  Every other file keeps its content, no temporary file stays behind when it can be removed, and the
  target is either as before or complete; without an error it is complete.
\<close>

definition configInstalled :: "osenv \<Rightarrow> string \<Rightarrow> string \<Rightarrow> goerr option \<Rightarrow> fsState \<Rightarrow> bool" where
  "configInstalled os path body err fs' \<longleftrightarrow>
     (\<exists>e. map_of (fsFiles fs') path = Some e \<and> feBody e = body \<and> feMode e = nodeConfigFileMode \<and>
        (err = None \<longrightarrow> shouldApplyAutostreamNodeOwnership os path \<longrightarrow> fst (feOwner e) = 0))"

lemma writeNodeConfigFile_facts:
  assumes "writeNodeConfigFile os path body fs = (err, fs')" "CleanPath (TrimSpace path) = clean" "clean \<noteq> []"
  shows "(\<forall>q. q \<noteq> clean \<longrightarrow> map_of (fsFiles fs) q \<noteq> None \<or> oeFault os 12 = None \<longrightarrow>
           map_of (fsFiles fs') q = map_of (fsFiles fs) q) \<and>
    (map_of (fsFiles fs') clean = map_of (fsFiles fs) clean \<and> err \<noteq> None \<or> configInstalled os clean body err fs')"
proof -
  define dir where "dir = DirPath clean"
  obtain r1 fs1 where m: "mkdirAll os dir fs = (r1, fs1)" by fastforce
  note mk = mkdirAll_facts [OF m]
  obtain r2 fs2 where sd: "secureNodeConfigDir os dir fs1 = (r2, fs2)" by fastforce
  note unfolded = assms(1) [unfolded writeNodeConfigFile_def assms(2) Let_def dir_def [symmetric] m]
  show ?thesis
  proof (cases r1)
    case (Some e)
    then show ?thesis using unfolded mk by auto
  next
    case None
    have same: "map_of (fsFiles fs2) q = map_of (fsFiles fs) q" for q
      using secureDir_facts [OF sd] mk None by (simp add: sameFiles_def)
    note unfolded2 = unfolded [unfolded None prod.case option.case sd]
    show ?thesis
    proof (cases r2)
      case (Some e)
      then show ?thesis using unfolded2 same by auto
    next
      case None2: None
      note unfolded3 = unfolded2 [unfolded None2 prod.case option.case]
      show ?thesis
      proof (cases "createTemp os dir (BasePath clean) fs2")
        case (Inl e)
        then show ?thesis using unfolded3 same by auto
      next
        case (Inr tmp)
        note ct = createTemp_facts [OF Inr]
        have ne: "tmp \<noteq> clean" using ct tempName_not_base [of clean] assms(3) by auto
        define fs3 where "fs3 = fs2\<lparr>fsFiles := fsFiles fs2 @
          [(tmp, \<lparr>feBody = [], feMode = oeUmasked os 384, feOwner = oeUser os\<rparr>)]\<rparr>"
        obtain r4 keep fs4 where ft: "fillTemp os tmp clean body fs3 = ((r4, keep), fs4)" by (metis surj_pair)
        have "map_of (fsFiles fs3) tmp = Some \<lparr>feBody = [], feMode = oeUmasked os 384, feOwner = oeUser os\<rparr>"
          using ct by (simp add: fs3_def map_add_Some_iff)
        note fill = fillTemp_facts [OF ft this ne]
        have res: "err = r4" "fs' = (if keep then fs4 else removeFile os tmp fs4)"
          using unfolded3 Inr ft by (auto simp: fs3_def [symmetric])
        have old: "map_of (fsFiles fs3) q = map_of (fsFiles fs) q" if "q \<noteq> tmp" for q
          using that same [of q] by (simp add: fs3_def map_add_def split: option.split)
        have gone: "map_of (fsFiles fs) tmp = None" using ct same by simp
        show ?thesis
        proof (cases keep)
          case True
          have kept: "map_of (fsFiles fs') q = map_of (fsFiles fs) q" if "q \<noteq> clean" for q
            using fill res True old [of q] gone that by (cases "q = tmp") (auto simp: sameFiles_def)
          have "configInstalled os clean body err fs'"
            using fill res True unfolding configInstalled_def by auto
          then show ?thesis using kept by blast
        next
          case False
          have rm: "map_of (fsFiles fs') q = (if q = tmp \<and> oeFault os 12 = None then None else map_of (fsFiles fs4) q)" for q
            using res(2) False by (auto simp: removeFile_def delete_conv' split: option.splits)
          have kept: "map_of (fsFiles fs4) q = map_of (fsFiles fs) q" if "q \<noteq> tmp" for q
            using fill old [of q] that False ne by (cases "q = clean") (auto simp: sameFiles_def)
          have "map_of (fsFiles fs') q = map_of (fsFiles fs) q" if "map_of (fsFiles fs) q \<noteq> None \<or> oeFault os 12 = None" for q
            using that rm [of q] kept [of q] gone by (cases "q = tmp") auto
          moreover have "err \<noteq> None" using fill res False by auto
          moreover have "map_of (fsFiles fs') clean = map_of (fsFiles fs) clean" using rm [of clean] kept [of clean] ne by auto
          ultimately show ?thesis by blast
        qed
      qed
    qed
  qed
qed

lemma CleanPath_nonempty: "CleanPath p \<noteq> []"
proof -
  have "list_all (\<lambda>c. c \<noteq> []) (foldl (cleanStep r) out cs)" if "list_all (\<lambda>c. c \<noteq> []) out" for r out cs
    using that
  proof (induction cs arbitrary: out)
    case (Cons c cs)
    have "list_all (\<lambda>c. c \<noteq> []) (cleanStep r out c)"
      using Cons.prems by (auto simp: cleanStep_def list_all_iff dest: in_set_butlastD)
    then show ?case using Cons.IH by simp
  qed simp
  then have "list_all (\<lambda>c. c \<noteq> []) (foldl (cleanStep r) [] cs)" for r cs by simp
  moreover have "strJoin out sep \<noteq> []" if "out \<noteq> []" "list_all (\<lambda>c. c \<noteq> []) out" for out sep
    using that by (induction out sep rule: strJoin.induct) auto
  ultimately show ?thesis by (auto simp: CleanPath_def Let_def)
qed

subsection \<open>What the command does\<close>

lemma fetchNodeConfig_sent:
  assumes "fetchNodeConfig env bi h cn panelURL nodeID token = (r, sent)"
  shows "length sent \<le> 1 \<and> list_all (\<lambda>q. cqNodeID q = nodeID \<and> cqConfigureToken q = token) sent"
  using assms by (auto simp: fetchNodeConfig_def Let_def configureRequestPayload_def split: option.splits sum.splits)

lemma receivedConfig_Inr:
  assumes "receivedConfig ct ty nodeID yml = Inr cfg"
  shows "loadNodeAgentConfig (ctUnquote ct) (FileBody yml) = Some (Inr cfg) \<and> ncNodeID cfg = TrimSpace nodeID \<and>
    (TrimSpace ty = [] \<or> ncNodeType cfg = TrimSpace ty)"
  using assms by (auto simp: receivedConfig_def loadNodeAgentConfig_def Let_def split: sum.splits if_splits)

text \<open>
  C17: Pairing writes only what was asked for.  The one-time token goes out at most once, to an address that
  passed its check.  Whatever call fails, every other file keeps its content, and the target is as
  before, with an error reported, or it holds completely, readable by the group only, a document that
  loads as the configuration of the requested node and of the expected service type.
\<close>

theorem configure_writes_requested:
  assumes "RunConfigureCommand ct bi h cn os args expectedType fs = ((r, sent), fs')"
    "parseFlags ct args defaultFlags = Inr (fl, rest)" "CleanPath (TrimSpace (cfConfig fl)) = target"
  shows "length sent \<le> 1 \<and>
    list_all (\<lambda>q. cqNodeID q = TrimSpace (cfNode fl) \<and> cqConfigureToken q = TrimSpace (cfToken fl) \<and>
      validateHTTPURL (ctGo ct) (cfPanelURL fl) ''--panel-url'' = None) sent \<and>
    (\<forall>q. q \<noteq> target \<and> map_of (fsFiles fs) q \<noteq> None \<longrightarrow> map_of (fsFiles fs') q = map_of (fsFiles fs) q) \<and>
    (isl r \<and> map_of (fsFiles fs') target = map_of (fsFiles fs) target \<or>
     (\<exists>e cfg. map_of (fsFiles fs') target = Some e \<and> feMode e = 416 \<and>
        loadNodeAgentConfig (ctUnquote ct) (FileBody (feBody e)) = Some (Inr cfg) \<and> ncNodeID cfg = TrimSpace (cfNode fl) \<and>
        (TrimSpace expectedType = [] \<or> ncNodeType cfg = TrimSpace expectedType)))"
proof (cases "rest = [] \<and> configureChecks (ctGo ct) fl = None")
  case False
  then have "sent = []" "isl r" "fs' = fs" using assms(1,2) by (auto simp: RunConfigureCommand_def split: if_splits option.splits)
  then show ?thesis by simp
next
  case True
  then have valid: "validateHTTPURL (ctGo ct) (cfPanelURL fl) ''--panel-url'' = None"
    by (auto simp: configureChecks_def split: if_splits)
  obtain y sent' where f: "fetchNodeConfig (ctGo ct) bi h cn (TrimSpace (cfPanelURL fl)) (TrimSpace (cfNode fl)) (TrimSpace (cfToken fl)) =
      (y, sent')" by fastforce
  have run: "((r, sent), fs') = (case y of Inl e \<Rightarrow> ((Inl e, sent'), fs) | Inr configYML \<Rightarrow>
      (case receivedConfig ct expectedType (cfNode fl) configYML of
         Inl e \<Rightarrow> ((Inl e, sent'), fs)
       | Inr cfg \<Rightarrow>
          (case writeNodeConfigFile os (cfConfig fl) configYML fs of
             (Some e, fs') \<Rightarrow> ((Inl e, sent'), fs')
           | (None, fs') \<Rightarrow>
              ((Inr (''configure succeeded: wrote '' @ CleanPath (cfConfig fl) @ '' for node '' @ ncNodeID cfg @ '' ('' @
                  ncNodeType cfg @ '')'' @ [CHR 0x0A]), sent'), fs'))))"
    using assms(1,2) True f by (simp add: RunConfigureCommand_def split: sum.split)
  have s: "sent = sent'" using run by (auto split: sum.splits prod.splits option.splits)
  have sentOK: "length sent \<le> 1 \<and> list_all (\<lambda>q. cqNodeID q = TrimSpace (cfNode fl) \<and> cqConfigureToken q = TrimSpace (cfToken fl) \<and>
      validateHTTPURL (ctGo ct) (cfPanelURL fl) ''--panel-url'' = None) sent"
    using fetchNodeConfig_sent [OF f] valid by (simp add: s)
  show ?thesis
  proof (cases "\<exists>yml cfg. y = Inr yml \<and> receivedConfig ct expectedType (cfNode fl) yml = Inr cfg")
    case False
    then have "isl r" "fs' = fs" using run by (auto split: sum.splits)
    then show ?thesis using sentOK by simp
  next
    case True
    then obtain yml cfg where yml: "y = Inr yml" "receivedConfig ct expectedType (cfNode fl) yml = Inr cfg" by blast
    obtain err fs1 where w: "writeNodeConfigFile os (cfConfig fl) yml fs = (err, fs1)" by fastforce
    have r: "fs' = fs1" "isl r \<longleftrightarrow> err \<noteq> None" using run yml w by (auto split: option.splits)
    have "target \<noteq> []" using assms(3) CleanPath_nonempty by blast
    note written = writeNodeConfigFile_facts [OF w assms(3) this, folded r(1)]
    have "isl r \<and> map_of (fsFiles fs') target = map_of (fsFiles fs) target \<or>
        (\<exists>e. map_of (fsFiles fs') target = Some e \<and> feMode e = 416 \<and> feBody e = yml)"
      using written r(2) by (auto simp: configInstalled_def nodeConfigFileMode_def)
    then show ?thesis using sentOK written receivedConfig_Inr [OF yml(2)] by blast
  qed
qed

text \<open>A client that reads such a document speaks for the requested node.\<close>

lemma configured_client:
  assumes "loadNodeAgentConfig (ctUnquote ct) (FileBody body) = Some (Inr cfg)" "ncNodeType cfg = ServiceType"
    "NodeConfigPathFromEnv (ctGo ct) \<noteq> []"
  shows "clServiceID (FromEnv ct (FileBody body)) = ncNodeID cfg \<and> clConfigError (FromEnv ct (FileBody body)) = [] \<and>
    clToken (FromEnv ct (FileBody body)) = ncToken cfg"
  using assms by (simp add: FromEnv_def applyNodeConfigFromEnv_def Let_def)

definition pairOS :: osenv where
  "pairOS = \<lparr>oeFault = (\<lambda>_. None), oeMade = 0, oeWritten = 0, oeUser = (1000, 1000), oeUmasked = id,
     oeLookupGroup = (\<lambda>_. Inl (ErrText ''none'')), oeSuffixes = [7]\<rparr>"

definition pairNet :: configureNet where
  "pairNet = \<lparr>cnDo = (\<lambda>_. Inr \<lparr>caStatus = 200, caBody = ''x'', caReadError = None\<rparr>), cnErrorCode = (\<lambda>_. []),
     cnResponse = (\<lambda>_. Inr (butlast (renderNodeConfig sampleConfig), []))\<rparr>"

definition pairFS :: fsState where
  "pairFS = \<lparr>fsFiles = [(''etc/other'', \<lparr>feBody = ''o'', feMode = 420, feOwner = (0, 0)\<rparr>)], fsDirs = [(''etc'', 493, 0, 0)]\<rparr>"

definition pairArgs :: "string list" where
  "pairArgs = [''--panel-url=https://panel'', ''-token'', ''t'', ''--node'', ''obs-01'', ''--config'', ''etc/c.yml'']"

definition pairFlags :: configureFlags where
  "pairFlags = \<lparr>cfPanelURL = ''https://panel'', cfToken = ''t'', cfNode = ''obs-01'', cfConfig = ''etc/c.yml'', cfTimeout = 15 * second\<rparr>"

lemma pair_flags: "parseFlags agentCtl pairArgs defaultFlags = Inr (pairFlags, [])"
  by (simp add: pairArgs_def pairFlags_def defaultFlags_def knownFlag_def setFlag_def Let_def)

lemma pair_write: "fst (writeNodeConfigFile pairOS ''etc/c.yml'' body pairFS) = None"
proof -
  have paths: "TrimSpace ''etc/c.yml'' = ''etc/c.yml''" "CleanPath ''etc/c.yml'' = ''etc/c.yml''" "DirPath ''etc/c.yml'' = ''etc''"
    "BasePath ''etc/c.yml'' = ''c.yml''" "ancestors ''etc'' = [''etc'']"
    by (simp_all add: go_eval CleanPath_def cleanStep_def HasPrefix_def DirPath_def BasePath_def afterSlash_def ancestors_def)
  have "tempName ''etc'' ''c.yml'' 7 = ''etc/.c.yml.tmp-7''"
    by (simp add: tempName_def HasSuffix_def natDigits.simps digitChar_def n2b_def char_of_def bit_0)
  then show ?thesis
    by (simp add: writeNodeConfigFile_def paths mkdirAll_def pairOS_def pairFS_def addDirs_def secureNodeConfigDir_def
        shouldApplyAutostreamNodeOwnership_def createTemp_def fillTemp_def secureNodeConfigFile_def chmodConfig_def
        chmodPath_def touch_def renameFile_def)
qed

lemma pair_text:
  "TrimSpace (butlast (renderNodeConfig sampleConfig)) @ [CHR 0x0A] = renderNodeConfig sampleConfig"
  "TrimSpace (butlast (renderNodeConfig sampleConfig)) \<noteq> []"
proof -
  have port: "natDigits 8080 = ''8080''"
    by (simp add: natDigits.simps [of 8080] natDigits.simps [of 808] natDigits.simps [of 80] natDigits.simps [of 8]
        digitChar_def n2b_def char_of_def bit_0)
  have shape: "renderNodeConfig sampleConfig \<noteq> []" "last (renderNodeConfig sampleConfig) = CHR 0x0A"
    "butlast (renderNodeConfig sampleConfig) \<noteq> []" "graphic (hd (butlast (renderNodeConfig sampleConfig)))"
    "graphic (last (butlast (renderNodeConfig sampleConfig)))"
    by (simp_all add: renderNodeConfig_def configLines_def sampleConfig_def graphic_def b2n_def FormatInt_def port)
  then have "TrimSpace (butlast (renderNodeConfig sampleConfig)) = butlast (renderNodeConfig sampleConfig)"
    by (intro TrimSpace_graphic) simp
  then show "TrimSpace (butlast (renderNodeConfig sampleConfig)) @ [CHR 0x0A] = renderNodeConfig sampleConfig"
    "TrimSpace (butlast (renderNodeConfig sampleConfig)) \<noteq> []"
    using append_butlast_last_id [OF shape(1)] shape(2,3) by simp_all
qed

theorem configure_writes_requested_witness:
  "\<exists>r q fs' e cfg. RunConfigureCommand agentCtl sampleBuild sampleHost pairNet pairOS pairArgs ''observability'' pairFS = ((r, [q]), fs') \<and>
     \<not> isl r \<and> cqConfigureToken q = ''t'' \<and> map_of (fsFiles fs') ''etc/c.yml'' = Some e \<and>
     loadNodeAgentConfig (ctUnquote agentCtl) (FileBody (feBody e)) = Some (Inr cfg) \<and> ncNodeID cfg = ''obs-01''"
proof -
  have cfg: "parseNodeAgentConfig (ctUnquote agentCtl) (renderNodeConfig sampleConfig) = Inr sampleConfig"
    by (rule parse_render_config) (simp add: configOK_def sampleConfig_def plainScalar_def graphic_def b2n_def)
  have trims: "TrimSpace ''observability'' = ''observability''" "TrimSpace ''obs-01'' = ''obs-01''" "TrimSpace ''t'' = ''t''"
    "TrimSpace ''https://panel'' = ''https://panel''" "TrimSpace ''etc/c.yml'' = ''etc/c.yml''"
    by (simp_all add: go_eval)
  have checks: "configureChecks (ctGo agentCtl) pairFlags = None"
    by (simp add: configureChecks_def pairFlags_def trims validateHTTPURL_def validateHTTPURLWithAllowedHTTPHost_def agentCtl_def)
  obtain q where fetch: "fetchNodeConfig (ctGo agentCtl) sampleBuild sampleHost pairNet ''https://panel'' ''obs-01'' ''t'' =
      (Inr (renderNodeConfig sampleConfig), [q])"
    using pair_text by (simp add: fetchNodeConfig_def pairNet_def agentCtl_def readLimitedConfigureBody_def
        maxConfigureResponseBytes_def configText_def Let_def)
  have rc: "receivedConfig agentCtl ''observability'' ''obs-01'' (renderNodeConfig sampleConfig) = Inr sampleConfig"
    by (simp add: receivedConfig_def cfg trims) (simp add: sampleConfig_def)
  obtain fs' where w: "writeNodeConfigFile pairOS ''etc/c.yml'' (renderNodeConfig sampleConfig) pairFS = (None, fs')"
    using pair_write by (metis fst_conv surj_pair)
  have flags: "cfPanelURL pairFlags = ''https://panel''" "cfNode pairFlags = ''obs-01''" "cfToken pairFlags = ''t''"
    "cfConfig pairFlags = ''etc/c.yml''" by (simp_all add: pairFlags_def)
  obtain r where run: "RunConfigureCommand agentCtl sampleBuild sampleHost pairNet pairOS pairArgs ''observability'' pairFS = ((r, [q]), fs')"
      "\<not> isl r"
    by (simp add: RunConfigureCommand_def pair_flags checks flags trims fetch rc w)
  have "CleanPath (TrimSpace (cfConfig pairFlags)) = ''etc/c.yml''"
    by (simp add: flags trims CleanPath_def cleanStep_def HasPrefix_def)
  from configure_writes_requested [OF run(1) pair_flags this] run show ?thesis by (auto simp: flags trims)
qed

end
