(* ===== verification/MariaDB_Incidents.thy ===== *)
theory MariaDB_Incidents
  imports Incident_Spec
begin

text \<open>
  The incidents of \<^verbatim>\<open>internal/store/mariadb.go\<close>: the table, the SQL statements on it as functions, and the
  operations with their transactions.  A statement fails as \<open>sqlenv\<close> says; strings compare
  under the collation of the columns, a parameter; a \<^verbatim>\<open>DATETIME\<close> column keeps whole seconds.
\<close>

subsection \<open>The server\<close>

text \<open>
  \<open>dbFault\<close> is the error of the numbered statement of an operation, \<open>dbCommitted\<close> whether a commit that reported
  an error took effect, \<open>dbEq\<close> and \<open>dbLess\<close> the comparisons of its collation, \<open>dbReport\<close>, \<open>dbAttrs\<close> and \<open>dbStrings\<close> what a
  report, a map and a list of strings are after they went through a JSON column (or why the map cannot be encoded), and
  \<open>dbAccepts\<close> the error for an incident that does not fit its columns.
\<close>

record incidentRow =
  irID :: string
  irRule :: string
  irSeverity :: string
  irStatus :: string
  irSummaryJA :: string
  irServiceID :: string
  irStreamID :: "string option"
  irSignalID :: string
  irReport :: Report
  irOpenedAt :: instant
  irUpdatedAt :: instant
  irResolvedAt :: "instant option"
  irCount :: int
  irLastSeenAt :: "instant option"
  irResolvedBy :: "string option"
  irReason :: "string option"
  irDedupeKey :: "string option"

record sqlenv =
  dbFault :: "nat \<Rightarrow> goerr option"
  dbCommitted :: bool
  dbEq :: "string \<Rightarrow> string \<Rightarrow> bool"
  dbLess :: "string \<Rightarrow> string \<Rightarrow> bool"
  dbReport :: "Report \<Rightarrow> Report"
  dbAttrs :: "attrs \<Rightarrow> attrs result"
  dbStrings :: "string list option \<Rightarrow> string list option"
  dbAccepts :: "incidentRow \<Rightarrow> goerr option"

definition datetime :: "instant \<Rightarrow> instant" where
  "datetime t = t - t mod 10 ^ 9"

definition nullIf :: "sqlenv \<Rightarrow> string \<Rightarrow> string option" where
  "nullIf db s = (if dbEq db s [] then None else Some s)"

definition coalesce :: "string option \<Rightarrow> string" where
  "coalesce v = (case v of None \<Rightarrow> [] | Some s \<Rightarrow> s)"

lemma coalesce_simps [simp]: "coalesce None = []" "coalesce (Some s) = s"
  by (simp_all add: coalesce_def)

text \<open>A statement, and the commit of a transaction that made \<open>tx\<close> of \<open>tab\<close>.\<close>

definition sqlDo :: "sqlenv \<Rightarrow> nat \<Rightarrow> 's \<Rightarrow> 'a result \<times> 's \<Rightarrow> 'a result \<times> 's" where
  "sqlDo db n tab k = (case dbFault db n of Some e \<Rightarrow> (Inl e, tab) | None \<Rightarrow> k)"

definition sqlCommit :: "sqlenv \<Rightarrow> nat \<Rightarrow> 's \<Rightarrow> 's \<Rightarrow> 'a \<Rightarrow> 'a result \<times> 's" where
  "sqlCommit db n tab tx r =
     (case dbFault db n of Some e \<Rightarrow> (Inl e, if dbCommitted db then tx else tab) | None \<Rightarrow> (Inr r, tx))"

subsection \<open>Statements\<close>

definition scanIncident :: "incidentRow \<Rightarrow> Incident" where
  "scanIncident r = zeroIncident\<lparr>incID := irID r, incRule := irRule r, incSeverity := irSeverity r, incStatus := irStatus r,
     incSummaryJA := irSummaryJA r, incServiceID := irServiceID r, incStreamID := coalesce (irStreamID r),
     incSignalID := irSignalID r, incReport := irReport r, incOpenedAt := irOpenedAt r, incUpdatedAt := irUpdatedAt r,
     incResolvedAt := irResolvedAt r, incOccurrenceCount := irCount r,
     incLastSeenAt := (case irLastSeenAt r of None \<Rightarrow> irUpdatedAt r | Some t \<Rightarrow> t),
     incResolvedBySignalID := coalesce (irResolvedBy r), incResolutionReason := coalesce (irReason r)\<rparr>"

definition openRow :: "sqlenv \<Rightarrow> string \<Rightarrow> string \<Rightarrow> string \<Rightarrow> incidentRow \<Rightarrow> bool" where
  "openRow db rule serviceID streamID r \<longleftrightarrow>
     dbEq db (irRule r) rule \<and> dbEq db (irServiceID r) serviceID \<and> dbEq db (coalesce (irStreamID r)) streamID \<and>
     \<not> isTerminalIncidentStatus (irStatus r)"

definition findOpenIncidentQuery :: "sqlenv \<Rightarrow> string \<Rightarrow> string \<Rightarrow> string \<Rightarrow> incidentRow list \<Rightarrow> incidentRow option" where
  "findOpenIncidentQuery db rule serviceID streamID rows =
     (case sortSlice (\<lambda>a b. irUpdatedAt a > irUpdatedAt b) (filter (openRow db rule serviceID streamID) rows) of
        [] \<Rightarrow> None | r # _ \<Rightarrow> Some r)"

definition hasDedupeKey :: "sqlenv \<Rightarrow> string \<Rightarrow> incidentRow \<Rightarrow> bool" where
  "hasDedupeKey db key r \<longleftrightarrow> (case irDedupeKey r of None \<Rightarrow> False | Some k \<Rightarrow> dbEq db k key)"

definition findIncidentByDedupeKey :: "sqlenv \<Rightarrow> string \<Rightarrow> incidentRow list \<Rightarrow> incidentRow option" where
  "findIncidentByDedupeKey db key rows = List.find (hasDedupeKey db key) rows"

definition incidentByID :: "sqlenv \<Rightarrow> string \<Rightarrow> incidentRow list \<Rightarrow> incidentRow option" where
  "incidentByID db iid rows = List.find (\<lambda>r. dbEq db (irID r) iid) rows"

definition incidentDedupeKey :: "string \<Rightarrow> string \<Rightarrow> string \<Rightarrow> string" where
  "incidentDedupeKey rule serviceID streamID =
     strJoin [TrimSpace rule, TrimSpace serviceID, TrimSpace streamID] [CHR 0x00]"

definition updateRows :: "(incidentRow \<Rightarrow> bool) \<Rightarrow> (incidentRow \<Rightarrow> incidentRow) \<Rightarrow> incidentRow list \<Rightarrow> incidentRow list" where
  "updateRows p f rows = map (\<lambda>r. if p r then f r else r) rows"

text \<open>The unique keys of the table are the identifier and the deduplication key.\<close>

definition clashes :: "sqlenv \<Rightarrow> incidentRow \<Rightarrow> incidentRow \<Rightarrow> bool" where
  "clashes db row r \<longleftrightarrow> dbEq db (irID r) (irID row) \<or>
     (case irDedupeKey row of None \<Rightarrow> False | Some k \<Rightarrow> hasDedupeKey db k r)"

definition insertError :: "sqlenv \<Rightarrow> nat \<Rightarrow> incidentRow \<Rightarrow> incidentRow list \<Rightarrow> goerr option" where
  "insertError db n row rows =
     (case dbFault db n of
        Some e \<Rightarrow> Some e
      | None \<Rightarrow>
         (case dbAccepts db row of
            Some e \<Rightarrow> Some e
          | None \<Rightarrow>
              if list_ex (clashes db row) rows then Some (ErrText ''Duplicate entry'') else None))"

subsection \<open>Operations\<close>

definition repeatRow :: "sqlenv \<Rightarrow> Incident \<Rightarrow> incidentRow \<Rightarrow> incidentRow" where
  "repeatRow db e r = r\<lparr>irSeverity := incSeverity e, irSignalID := incSignalID e, irSummaryJA := incSummaryJA e,
     irReport := dbReport db (incReport e), irUpdatedAt := datetime (incUpdatedAt e),
     irLastSeenAt := Some (datetime (incLastSeenAt e)), irCount := incOccurrenceCount e\<rparr>"

definition newRow :: "sqlenv \<Rightarrow> Incident \<Rightarrow> incidentRow" where
  "newRow db i = \<lparr>irID = incID i, irRule = incRule i, irSeverity = incSeverity i, irStatus = incStatus i,
     irSummaryJA = incSummaryJA i, irServiceID = incServiceID i, irStreamID = nullIf db (incStreamID i),
     irSignalID = incSignalID i, irReport = dbReport db (incReport i), irOpenedAt = datetime (incOpenedAt i),
     irUpdatedAt = datetime (incUpdatedAt i), irResolvedAt = None, irCount = incOccurrenceCount i,
     irLastSeenAt = Some (datetime (incLastSeenAt i)), irResolvedBy = None, irReason = None,
     irDedupeKey = Some (incidentDedupeKey (incRule i) (incServiceID i) (incStreamID i))\<rparr>"

definition convergeOn ::
  "sqlenv \<Rightarrow> nat \<Rightarrow> tick \<Rightarrow> Incident \<Rightarrow> incidentRow \<Rightarrow> incidentRow list \<Rightarrow> (Incident \<times> bool) result \<times> incidentRow list" where
  "convergeOn db n t incident r rows =
     (let e = repeatIncident t incident (scanIncident r) in
      sqlDo db n rows
        (sqlCommit db (n + 1) rows (updateRows (\<lambda>x. dbEq db (irID x) (incID e)) (repeatRow db e) rows) (e, False)))"

text \<open>\<open>rival\<close> is what concurrent writers commit between the search and the insertion.\<close>

definition mdbUpsertIncident ::
  "sqlenv \<Rightarrow> (incidentRow list \<Rightarrow> incidentRow list) \<Rightarrow> tick \<Rightarrow> Incident \<Rightarrow> incidentRow list
     \<Rightarrow> (Incident \<times> bool) result \<times> incidentRow list" where
  "mdbUpsertIncident db rival t incident rows = guarded t rows
     (sqlDo db 0 rows (sqlDo db 1 rows
       (case findOpenIncidentQuery db (incRule incident) (incServiceID incident) (incStreamID incident) rows of
          Some r \<Rightarrow> convergeOn db 2 t incident r rows
        | None \<Rightarrow>
           (let i1 = (if incID incident = [] then incident\<lparr>incID := newID ''inc'' t\<rparr> else incident);
                i2 = (if incStatus i1 = [] then i1\<lparr>incStatus := ''open''\<rparr> else i1);
                i3 = i2\<lparr>incOpenedAt := tkNow t, incUpdatedAt := tkNow t, incLastSeenAt := tkNow t,
                        incOccurrenceCount := 1\<rparr>;
                rows' = rival rows
            in case insertError db 4 (newRow db i3) rows' of
                 None \<Rightarrow> sqlCommit db 5 rows' (rows' @ [newRow db i3]) (i3, True)
               | Some e \<Rightarrow>
                   if dbFault db 6 \<noteq> None then (Inl e, rows')
                   else (case findIncidentByDedupeKey db
                            (incidentDedupeKey (incRule incident) (incServiceID incident) (incStreamID incident)) rows' of
                           None \<Rightarrow> (Inl e, rows')
                         | Some r \<Rightarrow> convergeOn db 7 t incident r rows')))))"

definition mdbGetIncident :: "sqlenv \<Rightarrow> nat \<Rightarrow> string \<Rightarrow> incidentRow list \<Rightarrow> Incident result" where
  "mdbGetIncident db n iid rows =
     (case dbFault db n of
        Some e \<Rightarrow> Inl e
      | None \<Rightarrow> (case incidentByID db iid rows of None \<Rightarrow> Inl ErrNotFound | Some r \<Rightarrow> Inr (scanIncident r)))"

definition statusRow :: "sqlenv \<Rightarrow> tick \<Rightarrow> string \<Rightarrow> incidentRow \<Rightarrow> incidentRow" where
  "statusRow db t status r =
     (let terminal = isTerminalIncidentStatus status in
      r\<lparr>irStatus := status, irUpdatedAt := datetime (tkNow t),
        irResolvedAt := (if terminal then Some (datetime (tkNow t)) else None), irResolvedBy := None,
        irReason := (if terminal then Some ''manual'' else None),
        irDedupeKey := (if terminal then None else irDedupeKey r)\<rparr>)"

definition mdbUpdateIncidentStatus ::
  "sqlenv \<Rightarrow> tick \<Rightarrow> string \<Rightarrow> string \<Rightarrow> incidentRow list \<Rightarrow> Incident result \<times> incidentRow list" where
  "mdbUpdateIncidentStatus db t iid status rows = guarded t rows
     (if \<not> validIncidentStatus status then (Inl ErrInvalidStatus, rows)
      else sqlDo db 0 rows (sqlDo db 1 rows
        (case incidentByID db (TrimSpace iid) rows of
           None \<Rightarrow> (Inl ErrNotFound, rows)
         | Some r \<Rightarrow>
            (let current = scanIncident r in
             if incStatus current = status then (Inr (current\<lparr>incStatusChanged := False\<rparr>), rows)
             else if \<not> canTransitionIncidentStatus (incStatus current) status then (Inl ErrInvalidTransition, rows)
             else sqlDo db 2 rows
               (case sqlCommit db 3 rows (updateRows (\<lambda>x. dbEq db (irID x) iid) (statusRow db t status) rows) () of
                  (Inl e, rows') \<Rightarrow> (Inl e, rows')
                | (Inr _, rows') \<Rightarrow>
                   (map_sum id (\<lambda>updated. updated\<lparr>incStatusChanged := True\<rparr>) (mdbGetIncident db 4 iid rows'), rows'))))))"

definition resolvedSQL :: "sqlenv \<Rightarrow> tick \<Rightarrow> string \<Rightarrow> string \<Rightarrow> incidentRow \<Rightarrow> incidentRow" where
  "resolvedSQL db t signalID reason r =
     r\<lparr>irStatus := ''resolved'', irUpdatedAt := datetime (tkNow t), irResolvedAt := Some (datetime (tkNow t)),
       irResolvedBy := nullIf db (TrimSpace signalID), irReason := nullIf db (TrimSpace reason), irDedupeKey := None\<rparr>"

text \<open>The loop over the rules inside the transaction; the statements of the \<open>k\<close>-th rule have numbers of their own.\<close>

fun resolveRules ::
  "sqlenv \<Rightarrow> tick \<Rightarrow> string \<Rightarrow> string \<Rightarrow> string \<Rightarrow> string \<Rightarrow> nat \<Rightarrow> string list \<Rightarrow> incidentRow list
     \<Rightarrow> (Incident list \<times> incidentRow list) result" where
  "resolveRules db t serviceID streamID signalID reason k [] tx = Inr ([], tx)"
| "resolveRules db t serviceID streamID signalID reason k (rule # rules) tx =
     (case dbFault db (2 * k + 2) of
        Some e \<Rightarrow> Inl e
      | None \<Rightarrow>
         (case findOpenIncidentQuery db rule serviceID streamID tx of
            None \<Rightarrow> resolveRules db t serviceID streamID signalID reason (k + 1) rules tx
          | Some r \<Rightarrow>
             (case dbFault db (2 * k + 3) of
                Some e \<Rightarrow> Inl e
              | None \<Rightarrow>
                 (case resolveRules db t serviceID streamID signalID reason (k + 1) rules
                     (updateRows (\<lambda>x. dbEq db (irID x) (irID r)) (resolvedSQL db t signalID reason) tx) of
                    Inl e \<Rightarrow> Inl e
                  | Inr (resolved, tx') \<Rightarrow> Inr (resolveIncident t signalID reason (scanIncident r) # resolved, tx')))))"

definition mdbResolveActiveIncidents ::
  "sqlenv \<Rightarrow> tick \<Rightarrow> string list \<Rightarrow> string \<Rightarrow> string \<Rightarrow> string \<Rightarrow> string \<Rightarrow> incidentRow list
     \<Rightarrow> Incident list result \<times> incidentRow list" where
  "mdbResolveActiveIncidents db t rules serviceID streamID signalID reason rows = guarded t rows
     (sqlDo db 0 rows
       (case resolveRules db t serviceID streamID signalID reason 0 (uniqueNonEmptyStrings rules) rows of
          Inl e \<Rightarrow> (Inl e, rows)
        | Inr (resolved, tx) \<Rightarrow> sqlCommit db 1 rows tx resolved))"

text \<open>The server counts the rows an update changed, not those it matched.\<close>

definition mdbUpdateIncidentDiagnostic ::
  "sqlenv \<Rightarrow> tick \<Rightarrow> string \<Rightarrow> string \<Rightarrow> Report \<Rightarrow> incidentRow list \<Rightarrow> (Incident \<times> bool) result \<times> incidentRow list" where
  "mdbUpdateIncidentDiagnostic db t rawID rawSignalID rep rows = guarded t rows
     (let iid = TrimSpace rawID; expectedSignalID = TrimSpace rawSignalID in
      if iid = [] \<or> expectedSignalID = [] then (Inl ErrNotFound, rows)
      else sqlDo db 0 rows
        (let rows' = updateRows (\<lambda>r. dbEq db (irID r) iid \<and> dbEq db (irSignalID r) expectedSignalID)
               (\<lambda>r. r\<lparr>irReport := dbReport db rep, irUpdatedAt := datetime (tkNow t)\<rparr>) rows;
             affected = length (filter (\<lambda>(a, b). a \<noteq> b) (zip rows rows'))
         in (map_sum id (\<lambda>i. (i, affected \<noteq> 0)) (mdbGetIncident db 1 iid rows'), rows')))"

subsection \<open>The invariant of the table\<close>

text \<open>Documented behaviour of the collation: an equivalence in which only blank strings equal the empty one.\<close>

definition collationLaws :: "sqlenv \<Rightarrow> bool" where
  "collationLaws db \<longleftrightarrow> (\<forall>a. dbEq db a a) \<and> (\<forall>a b. dbEq db a b \<longrightarrow> dbEq db b a) \<and>
     (\<forall>a b c. dbEq db a b \<longrightarrow> dbEq db b c \<longrightarrow> dbEq db a c) \<and> (\<forall>a. dbEq db a [] \<longrightarrow> TrimSpace a = [])"

lemma collationD:
  assumes "collationLaws db"
  shows "dbEq db a a" "dbEq db a b \<Longrightarrow> dbEq db b a" "dbEq db a b \<Longrightarrow> dbEq db b c \<Longrightarrow> dbEq db a c" "dbEq db a [] \<Longrightarrow> TrimSpace a = []"
  using assms unfolding collationLaws_def by blast+

text \<open>
  A row that is not terminal carries the key of its rule, service and stream, a terminal one none; no two
  rows share an identifier or a key.
\<close>

definition keyedRow :: "incidentRow \<Rightarrow> bool" where
  "keyedRow r \<longleftrightarrow> irDedupeKey r =
     (if isTerminalIncidentStatus (irStatus r) then None
      else Some (incidentDedupeKey (irRule r) (irServiceID r) (coalesce (irStreamID r))))"

definition apart :: "sqlenv \<Rightarrow> incidentRow \<Rightarrow> incidentRow \<Rightarrow> bool" where
  "apart db a b \<longleftrightarrow> \<not> dbEq db (irID a) (irID b) \<and>
     (case irDedupeKey b of None \<Rightarrow> True | Some k \<Rightarrow> \<not> hasDedupeKey db k a)"

definition tableOK :: "sqlenv \<Rightarrow> incidentRow list \<Rightarrow> bool" where
  "tableOK db rows \<longleftrightarrow> list_all keyedRow rows \<and> sorted_wrt (apart db) rows"

lemma hasDedupeKey_iff: "hasDedupeKey db k r \<longleftrightarrow> (\<exists>k'. irDedupeKey r = Some k' \<and> dbEq db k' k)"
  by (simp add: hasDedupeKey_def split: option.split)

text \<open>An update that keeps identifiers and keeps or clears keys preserves the invariant.\<close>

lemma tableOK_update:
  assumes "tableOK db rows" "\<And>r. keyedRow r \<Longrightarrow> keyedRow (f r) \<and> irID (f r) = irID r \<and> (irDedupeKey (f r) = irDedupeKey r \<or> irDedupeKey (f r) = None)"
  shows "tableOK db (updateRows p f rows)"
proof -
  have all: "list_all keyedRow rows" "sorted_wrt (apart db) rows" using assms(1) by (simp_all add: tableOK_def)
  define g where "g = (\<lambda>r. if p r then f r else r)"
  have g: "keyedRow (g r) \<and> irID (g r) = irID r \<and> (irDedupeKey (g r) = irDedupeKey r \<or> irDedupeKey (g r) = None)" if "keyedRow r" for r
    using assms(2) [OF that] that by (simp add: g_def)
  have "apart db (g a) (g b)" if "apart db a b" "keyedRow a" "keyedRow b" for a b
    using that(1) g [OF that(2)] g [OF that(3)] by (auto simp: apart_def hasDedupeKey_iff split: option.splits)
  then have "sorted_wrt (apart db) (map g rows)"
    using all by (induction rows) (auto simp: list_all_iff)
  moreover have "list_all keyedRow (map g rows)" using all(1) g by (auto simp: list_all_iff)
  ultimately show ?thesis by (simp add: tableOK_def updateRows_def g_def)
qed

lemma repeatRow_keeps: "keyedRow r \<Longrightarrow> keyedRow (repeatRow db e r) \<and> irID (repeatRow db e r) = irID r \<and>
    (irDedupeKey (repeatRow db e r) = irDedupeKey r \<or> irDedupeKey (repeatRow db e r) = None)"
  by (simp add: repeatRow_def keyedRow_def)

lemma resolvedSQL_keeps: "keyedRow (resolvedSQL db t sg rs r) \<and> irID (resolvedSQL db t sg rs r) = irID r \<and>
    irDedupeKey (resolvedSQL db t sg rs r) = None"
  by (simp add: resolvedSQL_def keyedRow_def isTerminalIncidentStatus_def)

lemma tableOK_insert:
  assumes "tableOK db rows" "insertError db n row rows = None" "keyedRow row"
  shows "tableOK db (rows @ [row])"
proof -
  have "\<not> list_ex (clashes db row) rows"
    using assms(2) by (simp add: insertError_def split: option.splits if_splits)
  then have "\<forall>r\<in>set rows. apart db r row" by (auto simp: list_ex_iff apart_def clashes_def split: option.splits)
  then show ?thesis using assms by (auto simp: tableOK_def sorted_wrt_append)
qed

lemma newRow_keyed:
  assumes "collationLaws db" "\<not> isTerminalIncidentStatus (incStatus i)"
  shows "keyedRow (newRow db i)"
proof -
  have "incidentDedupeKey a b (coalesce (nullIf db s)) = incidentDedupeKey a b s" for a b s
    using collationD(4) [OF assms(1), of s] by (auto simp: nullIf_def coalesce_def incidentDedupeKey_def)
  then show ?thesis using assms(2) by (simp add: keyedRow_def newRow_def)
qed

lemma sqlDo_OK: "tableOK db' tab \<Longrightarrow> tableOK db' (snd k) \<Longrightarrow> tableOK db' (snd (sqlDo db n tab k))"
  by (simp add: sqlDo_def split: option.split)

lemma sqlCommit_OK: "tableOK db' tab \<Longrightarrow> tableOK db' tx \<Longrightarrow> tableOK db' (snd (sqlCommit db n tab tx r))"
  by (simp add: sqlCommit_def split: option.split)

lemma guarded_OK: "tableOK db' tab \<Longrightarrow> tableOK db' (snd k) \<Longrightarrow> tableOK db' (snd (guarded t tab k))"
  by (simp add: guarded_def split: option.split)

lemma convergeOn_OK: "tableOK db rows \<Longrightarrow> tableOK db (snd (convergeOn db n t i r rows))"
  unfolding convergeOn_def Let_def
  by (intro sqlDo_OK sqlCommit_OK tableOK_update repeatRow_keeps) auto

lemma mdbUpsertIncident_OK:
  assumes laws: "collationLaws db" and ok: "tableOK db rows" and rival: "tableOK db (rival rows)" and raw: "rawIncident i"
  shows "tableOK db (snd (mdbUpsertIncident db rival t i rows))"
proof -
  define i3 where "i3 = (if incStatus i = [] then i\<lparr>incID := newID ''inc'' t, incStatus := ''open''\<rparr> else i\<lparr>incID := newID ''inc'' t\<rparr>)
    \<lparr>incOpenedAt := tkNow t, incUpdatedAt := tkNow t, incLastSeenAt := tkNow t, incOccurrenceCount := 1\<rparr>"
  have "\<not> isTerminalIncidentStatus (incStatus i3)" using raw by (auto simp: i3_def rawIncident_def isTerminalIncidentStatus_def)
  then have key: "keyedRow (newRow db i3)" by (rule newRow_keyed [OF laws])
  have ins: "tableOK db (snd (case insertError db 4 (newRow db i3) (rival rows) of
      None \<Rightarrow> sqlCommit db 5 (rival rows) (rival rows @ [newRow db i3]) (i3, True)
    | Some e \<Rightarrow>
        if dbFault db 6 \<noteq> None then (Inl e, rival rows)
        else (case findIncidentByDedupeKey db (incidentDedupeKey (incRule i) (incServiceID i) (incStreamID i)) (rival rows) of
                None \<Rightarrow> (Inl e, rival rows)
              | Some r \<Rightarrow> convergeOn db 7 t i r (rival rows))))"
  proof (cases "insertError db 4 (newRow db i3) (rival rows)")
    case None
    then show ?thesis using tableOK_insert [OF rival None key] rival by (auto intro: sqlCommit_OK)
  next
    case (Some e)
    then show ?thesis using rival convergeOn_OK [OF rival] by (auto split: option.split)
  qed
  have i3: "(let i1 = (if incID i = [] then i\<lparr>incID := newID ''inc'' t\<rparr> else i);
      i2 = (if incStatus i1 = [] then i1\<lparr>incStatus := ''open''\<rparr> else i1)
    in i2\<lparr>incOpenedAt := tkNow t, incUpdatedAt := tkNow t, incLastSeenAt := tkNow t, incOccurrenceCount := 1\<rparr>) = i3"
    using raw by (simp add: i3_def rawIncident_def)
  show ?thesis
  proof (cases "findOpenIncidentQuery db (incRule i) (incServiceID i) (incStreamID i) rows")
    case (Some r)
    show ?thesis unfolding mdbUpsertIncident_def Some option.case
      by (intro guarded_OK sqlDo_OK convergeOn_OK ok)
  next
    case None
    show ?thesis unfolding mdbUpsertIncident_def None option.case
      by (intro guarded_OK sqlDo_OK ok) (use ins i3 in \<open>simp only: Let_def\<close>)
  qed
qed

text \<open>An identifier denotes at most one row.\<close>

lemma apart_unique:
  assumes "collationLaws db" "sorted_wrt (apart db) rows" "a \<in> set rows" "b \<in> set rows" "dbEq db (irID a) (irID b)"
  shows "a = b"
  using assms(2-5)
proof (induction rows)
  case (Cons x xs)
  note sym = collationD(2) [OF assms(1)]
  have no: "\<not> dbEq db (irID x) (irID y)" if "y \<in> set xs" for y using Cons.prems(1) that by (auto simp: apart_def)
  show ?case using Cons no sym by auto
qed simp

lemma statusRow_keeps:
  assumes "keyedRow r" "canTransitionIncidentStatus (irStatus r) status"
  shows "keyedRow (statusRow db t status r) \<and> irID (statusRow db t status r) = irID r \<and>
    (irDedupeKey (statusRow db t status r) = irDedupeKey r \<or> irDedupeKey (statusRow db t status r) = None)"
  using assms by (auto simp: keyedRow_def statusRow_def Let_def canTransitionIncidentStatus_def split: if_splits)

lemma statusUpdate_OK:
  assumes laws: "collationLaws db" and ok: "tableOK db rows" and r: "incidentByID db iid rows = Some r"
    and can: "canTransitionIncidentStatus (irStatus r) status"
  shows "tableOK db (updateRows (\<lambda>x. dbEq db (irID x) iid) (statusRow db t status) rows)"
proof -
  have rin: "r \<in> set rows" "dbEq db (irID r) iid" using r by (auto simp: incidentByID_def find_Some_iff)
  have "x = r" if "x \<in> set rows" "dbEq db (irID x) iid" for x
  proof -
    have "dbEq db (irID x) (irID r)" using collationD(3) [OF laws that(2)] collationD(2) [OF laws rin(2)] by blast
    then show ?thesis using apart_unique [OF laws _ that(1) rin(1)] ok by (simp add: tableOK_def)
  qed
  then have "updateRows (\<lambda>x. dbEq db (irID x) iid) (statusRow db t status) rows =
      updateRows (\<lambda>x. dbEq db (irID x) iid) (\<lambda>x. if canTransitionIncidentStatus (irStatus x) status then statusRow db t status x else x) rows"
    using can unfolding updateRows_def by (intro map_cong HOL.refl) auto
  also have "tableOK db \<dots>"
    by (rule tableOK_update [OF ok]) (use statusRow_keeps in auto)
  finally show ?thesis .
qed

lemma mdbUpdateIncidentStatus_OK:
  assumes laws: "collationLaws db" and ok: "tableOK db rows" and trimmed: "TrimSpace iid = iid"
  shows "tableOK db (snd (mdbUpdateIncidentStatus db t iid status rows))"
proof -
  define res where "res = (case incidentByID db iid rows of
     None \<Rightarrow> (Inl ErrNotFound, rows)
   | Some r \<Rightarrow>
      (let current = scanIncident r in
       if incStatus current = status then (Inr (current\<lparr>incStatusChanged := False\<rparr>), rows)
       else if \<not> canTransitionIncidentStatus (incStatus current) status then (Inl ErrInvalidTransition, rows)
       else sqlDo db 2 rows
         (case sqlCommit db 3 rows (updateRows (\<lambda>x. dbEq db (irID x) iid) (statusRow db t status) rows) () of
            (Inl e, rows') \<Rightarrow> (Inl e, rows')
          | (Inr _, rows') \<Rightarrow>
             (map_sum id (\<lambda>updated. updated\<lparr>incStatusChanged := True\<rparr>) (mdbGetIncident db 4 iid rows'), rows'))))"
  have "tableOK db (snd res)"
  proof (cases "incidentByID db iid rows")
    case None
    then show ?thesis using ok by (simp add: res_def)
  next
    case (Some r)
    show ?thesis
    proof (cases "incStatus (scanIncident r) \<noteq> status \<and> canTransitionIncidentStatus (incStatus (scanIncident r)) status")
      case True
      then have "tableOK db (updateRows (\<lambda>x. dbEq db (irID x) iid) (statusRow db t status) rows)"
        by (intro statusUpdate_OK [OF laws ok Some]) (simp add: scanIncident_def)
      from sqlCommit_OK [OF ok this, of db 3 "()"] show ?thesis using True ok
        by (auto simp: res_def Some Let_def intro!: sqlDo_OK split: prod.splits sum.splits)
    next
      case False
      then show ?thesis using ok by (auto simp: res_def Some Let_def)
    qed
  qed
  then show ?thesis unfolding mdbUpdateIncidentStatus_def trimmed res_def [symmetric]
    by (intro guarded_OK ok) (auto intro!: sqlDo_OK ok)
qed

lemma resolveRules_OK:
  "tableOK db rows \<Longrightarrow> resolveRules db t svc str sg r k rules rows = Inr (rs, tx) \<Longrightarrow> tableOK db tx"
proof (induction db t svc str sg r k rules rows arbitrary: rs tx rule: resolveRules.induct)
  case (2 db t svc str sg r k rule rules rows)
  show ?case
  proof (cases "findOpenIncidentQuery db rule svc str rows")
    case None
    then show ?thesis using 2 by (simp split: option.splits)
  next
    case (Some x)
    have "tableOK db (updateRows (\<lambda>y. dbEq db (irID y) (irID x)) (resolvedSQL db t sg r) rows)"
      using "2.prems"(1) resolvedSQL_keeps by (intro tableOK_update) auto
    then show ?thesis using Some 2 by (auto split: option.splits sum.splits)
  qed
qed simp

lemma mdbResolveActiveIncidents_OK:
  assumes "tableOK db rows"
  shows "tableOK db (snd (mdbResolveActiveIncidents db t rules svc str sg r rows))"
  unfolding mdbResolveActiveIncidents_def
  using assms resolveRules_OK [OF assms]
  by (intro guarded_OK sqlDo_OK assms) (auto intro!: sqlCommit_OK split: sum.split)

lemma mdbUpdateIncidentDiagnostic_OK:
  assumes "tableOK db rows"
  shows "tableOK db (snd (mdbUpdateIncidentDiagnostic db t iid sg rep rows))"
proof -
  have "tableOK db (updateRows p (\<lambda>r. r\<lparr>irReport := a, irUpdatedAt := b\<rparr>) rows)" for p a b
    using assms by (intro tableOK_update) (auto simp: keyedRow_def)
  then show ?thesis using assms unfolding mdbUpdateIncidentDiagnostic_def Let_def
    by (intro guarded_OK) (auto intro!: sqlDo_OK)
qed

end
