(* ===== verification/MariaDB_Refinement.thy ===== *)
theory MariaDB_Refinement
  imports MariaDB_Incidents
begin

text \<open>
  The incidents of the MariaDB store against those of the in-memory store: on a server that answers every statement
  and compares strings exactly, the two do the same, up to the whole seconds of a \<^verbatim>\<open>DATETIME\<close>.
\<close>

subsection \<open>The relation\<close>

definition exactDB :: sqlenv where
  "exactDB = \<lparr>dbFault = (\<lambda>_. None), dbCommitted = True, dbEq = (=), dbLess = (<), dbReport = id,
     dbAttrs = Inr, dbStrings = id, dbAccepts = (\<lambda>_. None)\<rparr>"

definition toRow :: "Incident \<Rightarrow> incidentRow" where
  "toRow i = (newRow exactDB i)\<lparr>irResolvedAt := map_option datetime (incResolvedAt i),
     irResolvedBy := nullIf exactDB (incResolvedBySignalID i), irReason := nullIf exactDB (incResolutionReason i),
     irDedupeKey := (if activeIncident i then Some (incidentKey i) else None)\<rparr>"

definition tableOf :: "Incident gomap \<Rightarrow> incidentRow list" where
  "tableOf m = map (\<lambda>(_, i). toRow i) m"

text \<open>Names without surrounding space and without NUL, and active rows that no signal has resolved.\<close>

definition plainName :: "string \<Rightarrow> bool" where
  "plainName s \<longleftrightarrow> TrimSpace s = s \<and> CHR 0x00 \<notin> set s"

definition plainIncident :: "Incident \<Rightarrow> bool" where
  "plainIncident i \<longleftrightarrow> plainName (incRule i) \<and> plainName (incServiceID i) \<and> plainName (incStreamID i) \<and>
     (activeIncident i \<longrightarrow> incResolvedBySignalID i = [] \<and> incResolutionReason i = [])"

definition plainMap :: "Incident gomap \<Rightarrow> bool" where
  "plainMap m \<longleftrightarrow> (\<forall>(k, i)\<in>set m. plainIncident i \<and> incID i = k)"

lemma split_at_NUL:
  "z \<notin> set a \<Longrightarrow> z \<notin> set a' \<Longrightarrow> a @ z # b = a' @ z # b' \<longleftrightarrow> a = a' \<and> b = b'"
proof (induction a arbitrary: a')
  case Nil
  then show ?case by (cases a') auto
next
  case (Cons x a)
  then show ?case by (cases a') auto
qed

lemma incidentKey_plain:
  assumes "plainIncident i" "plainName rule" "plainName svc"
  shows "incidentKey i = incidentKey (zeroIncident\<lparr>incRule := rule, incServiceID := svc, incStreamID := str\<rparr>) \<longleftrightarrow>
    incRule i = rule \<and> incServiceID i = svc \<and> incStreamID i = str"
  using assms by (simp add: incidentKey_def plainIncident_def plainName_def split_at_NUL)

lemma dedupeKey_plain: "plainName rule \<Longrightarrow> plainName svc \<Longrightarrow> plainName str \<Longrightarrow>
    incidentDedupeKey rule svc str = rule @ [CHR 0x00] @ svc @ [CHR 0x00] @ str"
  by (simp add: incidentDedupeKey_def plainName_def)

lemma exact_simps [simp]:
  "dbFault exactDB = (\<lambda>_. None)" "dbEq exactDB = (=)" "dbReport exactDB = id" "dbAccepts exactDB = (\<lambda>_. None)"
  "dbCommitted exactDB" "dbLess exactDB = (<)" "dbAttrs exactDB = Inr" "dbStrings exactDB = id"
  by (simp_all add: exactDB_def)

lemma sqlDo_exact [simp]: "sqlDo exactDB n tab k = k"
  by (simp add: sqlDo_def)

lemma sqlCommit_exact [simp]: "sqlCommit exactDB n tab tx r = (Inr r, tx)"
  by (simp add: sqlCommit_def)

lemma nullIf_exact [simp]: "nullIf exactDB s = (if s = [] then None else Some s)" "coalesce (nullIf exactDB s) = s"
  by (simp_all add: nullIf_def coalesce_def)

lemma datetime_idem [simp]: "datetime (datetime t) = datetime t"
proof -
  have "(t - t mod 10 ^ 9) mod 10 ^ 9 = 0" by (rule minus_mod_eq_mult_div [THEN arg_cong, THEN trans]) simp
  then show ?thesis by (simp only: datetime_def)
qed

lemma toRow_simps [simp]:
  "irID (toRow i) = incID i" "irRule (toRow i) = incRule i" "irServiceID (toRow i) = incServiceID i"
  "coalesce (irStreamID (toRow i)) = incStreamID i" "irStatus (toRow i) = incStatus i"
  "irSignalID (toRow i) = incSignalID i" "irSeverity (toRow i) = incSeverity i"
  "irDedupeKey (toRow i) = (if activeIncident i then Some (incidentKey i) else None)"
  by (simp_all add: toRow_def newRow_def)

lemma scan_toRow:
  "scanIncident (toRow i) = zeroIncident\<lparr>incID := incID i, incRule := incRule i, incSeverity := incSeverity i,
     incStatus := incStatus i, incSummaryJA := incSummaryJA i, incServiceID := incServiceID i, incStreamID := incStreamID i,
     incSignalID := incSignalID i, incReport := incReport i, incOpenedAt := datetime (incOpenedAt i),
     incUpdatedAt := datetime (incUpdatedAt i), incResolvedAt := map_option datetime (incResolvedAt i),
     incOccurrenceCount := incOccurrenceCount i, incLastSeenAt := datetime (incLastSeenAt i),
     incResolvedBySignalID := incResolvedBySignalID i, incResolutionReason := incResolutionReason i\<rparr>"
  by (simp add: scanIncident_def toRow_def newRow_def coalesce_def)

lemma toRow_scan [simp]: "toRow (scanIncident (toRow i)) = toRow i"
  unfolding scan_toRow by (simp add: toRow_def newRow_def activeIncident_def incidentKey_def option.map_comp comp_def)

lemma incID_scan [simp]: "incID (scanIncident (toRow i)) = incID i" "incSeverityChanged (scanIncident (toRow i)) = False"
  by (simp_all add: scan_toRow zeroIncident_def)

lemma toRow_persisted [simp]: "toRow (persisted i) = toRow i"
  by (simp add: toRow_def newRow_def persisted_def activeIncident_def incidentKey_def)

text \<open>Two results of the same meaning: the same row, and the same flags.\<close>

definition sameIncident :: "Incident \<Rightarrow> Incident \<Rightarrow> bool" where
  "sameIncident a b \<longleftrightarrow> toRow a = toRow b \<and> incSeverityChanged a = incSeverityChanged b \<and> incStatusChanged a = incStatusChanged b"

fun sameResult :: "('a \<Rightarrow> 'a \<Rightarrow> bool) \<Rightarrow> 'a result \<Rightarrow> 'a result \<Rightarrow> bool" where
  "sameResult R (Inl e) (Inl e') = (e = e')"
| "sameResult R (Inr a) (Inr b) = R a b"
| "sameResult R _ _ = False"

fun sameOutcome :: "outcome \<Rightarrow> outcome \<Rightarrow> bool" where
  "sameOutcome (Upserted a) (Upserted b) = sameResult (\<lambda>x y. sameIncident (fst x) (fst y) \<and> snd x = snd y) a b"
| "sameOutcome (Restated a) (Restated b) = sameResult sameIncident a b"
| "sameOutcome (Resolved a) (Resolved b) = sameResult (list_all2 sameIncident) a b"
| "sameOutcome (Diagnosed a) (Diagnosed b) = sameResult (\<lambda>x y. sameIncident (fst x) (fst y) \<and> snd x = snd y) a b"
| "sameOutcome _ _ = False"

subsection \<open>Searches and updates\<close>

lemma openRow_toRow:
  "plainIncident i \<Longrightarrow> plainName rule \<Longrightarrow> plainName svc \<Longrightarrow>
     openRow exactDB rule svc str (toRow i) \<longleftrightarrow> activeIncident i \<and>
       incidentKey i = incidentKey (zeroIncident\<lparr>incRule := rule, incServiceID := svc, incStreamID := str\<rparr>)"
  by (auto simp: openRow_def incidentKey_plain activeIncident_def)

lemma filter_at_most_one:
  assumes "\<And>x y. x \<in> set xs \<Longrightarrow> y \<in> set xs \<Longrightarrow> P x \<Longrightarrow> P y \<Longrightarrow> x = y" "distinct xs"
  shows "filter P xs = (case List.find P xs of None \<Rightarrow> [] | Some x \<Rightarrow> [x])"
  using assms
proof (induction xs)
  case (Cons a xs)
  show ?case
  proof (cases "P a")
    case True
    then have "filter P xs = []" using Cons.prems by (auto simp: filter_empty_conv)
    then show ?thesis using True by simp
  next
    case False
    then show ?thesis using Cons by simp
  qed
qed simp

lemma sortSlice_single [simp]: "sortSlice lt [x] = [x]" "sortSlice lt [] = []"
  by (simp_all add: sortSlice_def)

lemma findOpen_tableOf:
  assumes "storeOK s" "plainMap (incidents s)" "plainName rule" "plainName svc"
  shows "findOpenIncidentQuery exactDB rule svc str (tableOf (incidents s)) = map_option toRow (activeRow s (ruleKey rule svc str))"
proof -
  let ?P = "\<lambda>(k, e). activeIncident e \<and> incidentKey e = ruleKey rule svc str"
  have dist: "distinct (incidents s)" using assms(1) by (simp add: storeOK_def gomap_def distinct_map)
  have one: "filter ?P (incidents s) = (case List.find ?P (incidents s) of None \<Rightarrow> [] | Some x \<Rightarrow> [x])"
  proof (rule filter_at_most_one [OF _ dist])
    fix x y assume xy: "x \<in> set (incidents s)" "y \<in> set (incidents s)" "?P x" "?P y"
    obtain k i l j where *: "x = (k, i)" "y = (l, j)" by fastforce
    have "map_of (incidents s) k = Some i" "map_of (incidents s) l = Some j"
      using xy * assms(1) by (simp_all add: storeOK_def gomap_def)
    moreover from this have "k = l" using storeOK_unique [OF assms(1)] xy * by simp
    ultimately show "x = y" using * by simp
  qed
  have open_iff: "openRow exactDB rule svc str (toRow (snd x)) \<longleftrightarrow> ?P x" if "x \<in> set (incidents s)" for x
    using that assms(2-4) by (auto simp: plainMap_def openRow_toRow)
  have "filter (openRow exactDB rule svc str) (tableOf (incidents s)) = map (\<lambda>x. toRow (snd x)) (filter ?P (incidents s))"
    unfolding tableOf_def filter_map using open_iff by (auto simp: comp_def case_prod_unfold intro!: arg_cong [where f = "map _"] filter_cong)
  also have "\<dots> = (case refFind (incidents s) (ruleKey rule svc str) of None \<Rightarrow> [] | Some e \<Rightarrow> [toRow e])"
    unfolding one refFind_def by (cases "List.find ?P (incidents s)") auto
  finally show ?thesis
    by (cases "activeRow s (ruleKey rule svc str)") (simp_all add: findOpenIncidentQuery_def refFind_activeRow [OF assms(1)])
qed

lemma update_present:
  "distinct (map fst m) \<Longrightarrow> map_of m k \<noteq> None \<Longrightarrow> AList.update k v m = map (\<lambda>(k', v'). (k', if k' = k then v else v')) m"
proof (induction m)
  case (Cons x m)
  obtain k1 v1 where x: "x = (k1, v1)" by fastforce
  show ?case
  proof (cases "k1 = k")
    case True
    then have "\<forall>e\<in>set m. fst e \<noteq> k" using Cons.prems x by force
    then have "map (\<lambda>(k', v'). (k', if k' = k then v else v')) m = m" by (intro map_idI) auto
    then show ?thesis using x True by simp
  next
    case False
    then show ?thesis using Cons x by simp
  qed
qed simp

lemma update_absent: "map_of m k = None \<Longrightarrow> AList.update k v m = m @ [(k, v)]"
  by (induction m) auto

text \<open>An SQL update of one row is an update of the map at its key.\<close>

lemma updateRows_tableOf:
  assumes "gomap m" "plainMap m" "map_of m k = Some e" "f (toRow e) = toRow e'"
  shows "updateRows (\<lambda>x. irID x = k) f (tableOf m) = tableOf (AList.update k e' m)"
proof -
  have e: "toRow i = toRow e" if "(k, i) \<in> set m" for i using that assms(1,3) by (simp add: gomap_def)
  have "updateRows (\<lambda>x. irID x = k) f (tableOf m) = map (\<lambda>(k', i). if k' = k then toRow e' else toRow i) m"
    unfolding updateRows_def tableOf_def map_map
  proof (rule map_cong [OF HOL.refl])
    fix x assume x: "x \<in> set m"
    obtain k' i where ki: "x = (k', i)" by fastforce
    have "incID i = k'" using x ki assms(2) by (auto simp: plainMap_def)
    moreover have "f (toRow i) = toRow e'" if "k' = k" using e [of i] x ki that assms(4) by simp
    ultimately show "((\<lambda>r. if irID r = k then f r else r) \<circ> (\<lambda>(_, i). toRow i)) x =
        (case x of (k', i) \<Rightarrow> if k' = k then toRow e' else toRow i)"
      by (simp add: ki)
  qed
  also have "\<dots> = tableOf (AList.update k e' m)"
  proof -
    have "AList.update k e' m = map (\<lambda>(k', v'). (k', if k' = k then e' else v')) m"
      using assms(1,3) by (intro update_present) (auto simp: gomap_def)
    then show ?thesis unfolding tableOf_def by (simp only: map_map) (intro map_cong HOL.refl, auto)
  qed
  finally show ?thesis .
qed

subsection \<open>The operations\<close>

lemma repeat_toRow:
  "repeatRow exactDB (repeatIncident t i (scanIncident (toRow e))) (toRow e) = toRow (repeatIncident t i e)"
  "toRow (repeatIncident t i (scanIncident (toRow e))) = toRow (repeatIncident t i e)"
  "incSeverityChanged (repeatIncident t i (scanIncident (toRow e))) = incSeverityChanged (repeatIncident t i e)"
  "incID (repeatIncident t i (scanIncident (toRow e))) = incID e"
  "incStatusChanged (repeatIncident t i (scanIncident (toRow e))) = False"
  unfolding scan_toRow
  by (simp_all add: repeatIncident_def Let_def repeatRow_def toRow_def newRow_def activeIncident_def incidentKey_def
      zeroIncident_def option.map_comp comp_def)

lemma upsert_agrees:
  assumes "storeOK s" "plainMap (incidents s)" "tkCtx t = None" "rawIncident i" "map_of (incidents s) (newID ''inc'' t) = None"
    "plainName (incRule i)" "plainName (incServiceID i)" "plainName (incStreamID i)"
    "incResolvedBySignalID i = []" "incResolutionReason i = []"
  shows "\<exists>r. mdbUpsertIncident exactDB id t i (tableOf (incidents s)) = (r, tableOf (incidents (snd (UpsertIncident t i s)))) \<and>
    sameOutcome (Upserted r) (Upserted (fst (UpsertIncident t i s)))"
proof -
  have key: "incidentKey (zeroIncident\<lparr>incRule := incRule i, incServiceID := incServiceID i, incStreamID := incStreamID i\<rparr>) = incidentKey i"
    by (simp add: incidentKey_def)
  note find = findOpen_tableOf [OF assms(1,2,6,7), of "incStreamID i", unfolded key]
  note ref = UpsertIncident_ref [OF assms(1,3,4), unfolded refUpsert_def refFind_activeRow [OF assms(1)]]
  show ?thesis
  proof (cases "activeRow s (incidentKey i)")
    case (Some e)
    have e: "map_of (incidents s) (incID e) = Some e" using Some activeRow_iff [OF assms(1)] by simp
    then have "rowOK (incID e) e" by (rule storeOK_row [OF assms(1)])
    then have flag: "incStatusChanged (repeatIncident t i e) = False" by (simp add: rowOK_def repeatIncident_def Let_def)
    have up: "updateRows (\<lambda>x. irID x = incID e) (repeatRow exactDB (repeatIncident t i (scanIncident (toRow e)))) (tableOf (incidents s)) =
        tableOf (AList.update (incID e) (persisted (repeatIncident t i e)) (incidents s))"
      by (rule updateRows_tableOf [OF _ assms(2) e]) (use assms(1) in \<open>simp_all add: storeOK_def repeat_toRow\<close>)
    have "mdbUpsertIncident exactDB id t i (tableOf (incidents s)) =
        (Inr (repeatIncident t i (scanIncident (toRow e)), False),
         tableOf (AList.update (incID e) (persisted (repeatIncident t i e)) (incidents s)))"
      using up by (simp add: mdbUpsertIncident_def guarded_def assms(3) find Some convergeOn_def Let_def repeat_toRow)
    then show ?thesis using ref Some by (simp add: sameIncident_def repeat_toRow flag)
  next
    case None
    define i3 where "i3 = openedRow t i"
    have i3: "(let i1 = (if incID i = [] then i\<lparr>incID := newID ''inc'' t\<rparr> else i);
        i2 = (if incStatus i1 = [] then i1\<lparr>incStatus := ''open''\<rparr> else i1)
      in i2\<lparr>incOpenedAt := tkNow t, incUpdatedAt := tkNow t, incLastSeenAt := tkNow t, incOccurrenceCount := 1\<rparr>) = i3"
      using assms(4) by (auto simp: i3_def rawIncident_def openedRow_def)
    have row: "newRow exactDB i3 = toRow i3"
      using assms(4,6-10) by (simp add: toRow_def i3_def newRow_def openedRow_def rawIncident_def activeIncident_def
          isTerminalIncidentStatus_def dedupeKey_plain incidentKey_def nullIf_def)
    have act: "activeIncident i3" "incidentKey i3 = incidentKey i" "incID i3 = newID ''inc'' t" by (simp_all add: i3_def)
    have free: "\<not> list_ex (clashes exactDB (toRow i3)) (tableOf (incidents s))"
    proof
      assume "list_ex (clashes exactDB (toRow i3)) (tableOf (incidents s))"
      then obtain k e where e: "(k, e) \<in> set (incidents s)" "clashes exactDB (toRow i3) (toRow e)"
        by (auto simp: list_ex_iff tableOf_def)
      then have m: "map_of (incidents s) k = Some e" "incID e = k"
        using assms(1,2) by (auto simp: storeOK_def gomap_def plainMap_def)
      have "incID e \<noteq> newID ''inc'' t" using m assms(5) by auto
      then have "activeIncident e" "incidentKey e = incidentKey i"
        using e(2) act by (auto simp: clashes_def hasDedupeKey_def split: if_splits)
      then have "activeRow s (incidentKey i) = Some e" using activeRow_iff [OF assms(1)] m by simp
      then show False using None by simp
    qed
    have "mdbUpsertIncident exactDB id t i (tableOf (incidents s)) = (Inr (i3, True), tableOf (incidents s) @ [toRow i3])"
      using i3 free unfolding mdbUpsertIncident_def
      by (simp add: guarded_def assms(3) find None Let_def insertError_def row)
    moreover have "tableOf (incidents s) @ [toRow i3] = tableOf (AList.update (newID ''inc'' t) i3 (incidents s))"
      using assms(5) by (simp add: update_absent tableOf_def)
    ultimately show ?thesis using ref None by (simp add: sameIncident_def i3_def)
  qed
qed

lemma incidentByID_tableOf:
  assumes "gomap m" "plainMap m"
  shows "incidentByID exactDB iid (tableOf m) = map_option toRow (map_of m iid)"
proof -
  have "List.find (\<lambda>r. irID r = iid) (tableOf m) = map_option toRow (map_of m iid)" using assms(2)
    by (induction m) (auto simp: tableOf_def plainMap_def)
  then show ?thesis by (simp add: incidentByID_def)
qed

lemma plainMap_update:
  "plainMap m \<Longrightarrow> plainIncident e \<Longrightarrow> incID e = k \<Longrightarrow> plainMap (AList.update k e m)"
  using set_update_subset [of k e m] by (auto simp: plainMap_def)

lemma plain_restatus: "plainIncident e \<Longrightarrow> plainIncident (persisted (restatus t status e))"
  by (auto simp: plainIncident_def persisted_def restatus_def activeIncident_def)

lemma status_toRow:
  assumes "plainIncident e" "activeIncident e"
  shows "statusRow exactDB t status (toRow e) = toRow (restatus t status e)"
  using assms by (auto simp: statusRow_def toRow_def newRow_def restatus_def activeIncident_def incidentKey_def Let_def plainIncident_def)

lemma status_agrees:
  assumes "storeOK s" "plainMap (incidents s)" "tkCtx t = None" "TrimSpace iid = iid"
  shows "\<exists>r. mdbUpdateIncidentStatus exactDB t iid status (tableOf (incidents s)) =
      (r, tableOf (incidents (snd (UpdateIncidentStatus t iid status s)))) \<and>
    sameOutcome (Restated r) (Restated (fst (UpdateIncidentStatus t iid status s)))"
proof -
  have g: "gomap (incidents s)" using assms(1) by (simp add: storeOK_def)
  note find = incidentByID_tableOf [OF g assms(2)]
  note ref = UpdateIncidentStatus_ref [OF assms(1,3), of iid status]
  show ?thesis
  proof (cases "map_of (incidents s) iid")
    case None
    then have "mdbUpdateIncidentStatus exactDB t iid status (tableOf (incidents s)) =
        (Inl (if validIncidentStatus status then ErrNotFound else ErrInvalidStatus), tableOf (incidents s))"
      by (simp add: mdbUpdateIncidentStatus_def guarded_def assms(3,4) find)
    then show ?thesis using ref None by (simp add: refStatus_def prod_eq_iff)
  next
    case (Some e)
    have ok: "rowOK iid e" by (rule storeOK_row [OF assms(1) Some])
    then have st: "validIncidentStatus (incStatus e)" "incID e = iid" by (simp_all add: rowOK_def)
    have scan: "incStatus (scanIncident (toRow e)) = incStatus e" "incSeverityChanged (scanIncident (toRow e)) = False"
      "incStatusChanged (scanIncident (toRow e)) = False"
      by (simp_all add: scan_toRow zeroIncident_def)
    have toRow_flag: "toRow (x\<lparr>incStatusChanged := b\<rparr>) = toRow x" for x b
      by (simp add: toRow_def newRow_def activeIncident_def incidentKey_def)
    show ?thesis
    proof (cases "validIncidentStatus status \<and> incStatus e \<noteq> status \<and> canTransitionIncidentStatus (incStatus e) status")
      case True
      have act: "activeIncident e" using True by (auto simp: activeIncident_def canTransitionIncidentStatus_def)
      have plain: "plainIncident e" using assms(2) Some by (auto simp: plainMap_def dest: map_of_SomeD)
      define e' where "e' = persisted (restatus t status e)"
      have up: "updateRows (\<lambda>x. irID x = iid) (statusRow exactDB t status) (tableOf (incidents s)) = tableOf (AList.update iid e' (incidents s))"
        by (rule updateRows_tableOf [OF g assms(2) Some]) (simp add: status_toRow [OF plain act] e'_def)
      have rank: "statusRank (incStatus e) < statusRank status" using True st canTransition_rank by blast
      have g': "gomap (AList.update iid e' (incidents s))" using g by (simp add: gomap_def distinct_update)
      have p': "plainMap (AList.update iid e' (incidents s))"
        by (rule plainMap_update [OF assms(2)]) (use plain_restatus [OF plain] st in \<open>simp_all add: e'_def persisted_def\<close>)
      have "mdbUpdateIncidentStatus exactDB t iid status (tableOf (incidents s)) =
          (Inr ((scanIncident (toRow e'))\<lparr>incStatusChanged := True\<rparr>), tableOf (AList.update iid e' (incidents s)))"
        using True up by (simp add: mdbUpdateIncidentStatus_def guarded_def assms(3,4) find Some scan Let_def mdbGetIncident_def
            incidentByID_tableOf [OF g' p'] update_conv')
      moreover have "sameIncident ((scanIncident (toRow e'))\<lparr>incStatusChanged := True\<rparr>) (restatus t status e)"
      proof -
        have "incSeverityChanged (restatus t status e) = False" "incStatusChanged (restatus t status e)"
          using ok by (simp_all add: rowOK_def restatus_def)
        then show ?thesis unfolding sameIncident_def toRow_flag toRow_scan e'_def toRow_persisted by simp
      qed
      ultimately show ?thesis using ref Some True rank by (simp add: refStatus_def prod_eq_iff e'_def)
    next
      case no: False
      consider "\<not> validIncidentStatus status" | "validIncidentStatus status" "incStatus e = status"
        | "validIncidentStatus status" "incStatus e \<noteq> status" "\<not> canTransitionIncidentStatus (incStatus e) status"
        using no by blast
      then show ?thesis
      proof cases
        case 1
        then have "mdbUpdateIncidentStatus exactDB t iid status (tableOf (incidents s)) = (Inl ErrInvalidStatus, tableOf (incidents s))"
          by (simp add: mdbUpdateIncidentStatus_def guarded_def assms(3))
        then show ?thesis using ref Some 1 by (simp add: refStatus_def prod_eq_iff)
      next
        case 2
        then have "mdbUpdateIncidentStatus exactDB t iid status (tableOf (incidents s)) =
            (Inr ((scanIncident (toRow e))\<lparr>incStatusChanged := False\<rparr>), tableOf (incidents s))"
          by (simp add: mdbUpdateIncidentStatus_def guarded_def assms(3,4) find Some scan Let_def)
        moreover have "sameIncident ((scanIncident (toRow e))\<lparr>incStatusChanged := False\<rparr>) (e\<lparr>incStatusChanged := False\<rparr>)"
          using ok scan by (simp add: sameIncident_def toRow_flag rowOK_def)
        ultimately show ?thesis using ref Some 2 by (simp add: refStatus_def prod_eq_iff)
      next
        case 3
        then have "mdbUpdateIncidentStatus exactDB t iid status (tableOf (incidents s)) = (Inl ErrInvalidTransition, tableOf (incidents s))"
          by (simp add: mdbUpdateIncidentStatus_def guarded_def assms(3,4) find Some scan Let_def)
        moreover have "\<not> statusRank (incStatus e) < statusRank status" using 3 st canTransition_rank by blast
        ultimately show ?thesis using ref Some 3 by (simp add: refStatus_def prod_eq_iff)
      qed
    qed
  qed
qed

lemma resolved_toRow: "resolvedSQL exactDB t sg r (toRow e) = toRow (resolveIncident t sg r e)"
  by (simp add: resolvedSQL_def toRow_def newRow_def resolveIncident_def activeIncident_def isTerminalIncidentStatus_def)

lemma sameIncident_resolved:
  "incSeverityChanged e = False \<Longrightarrow> sameIncident (resolveIncident t sg r (scanIncident (toRow e))) (resolveIncident t sg r e)"
  unfolding scan_toRow
  by (simp add: sameIncident_def resolveIncident_def toRow_def newRow_def activeIncident_def incidentKey_def zeroIncident_def)

text \<open>One rule after the other, the two loops stay in step.\<close>

lemma rules_agree:
  assumes "storeOK s" "plainMap (incidents s)" "list_all plainName rules" "plainName svc"
  shows "\<exists>rs rs' s'. resolveRules exactDB t svc str sg r k rules (tableOf (incidents s)) = Inr (rs, tableOf (incidents s')) \<and>
    foldl (resolveRule t svc str sg r) (acc, s) rules = (acc @ rs', s') \<and> list_all2 sameIncident rs rs'"
  using assms
proof (induction rules arbitrary: s acc k)
  case (Cons rule rules)
  have plain: "plainName rule" using Cons.prems(3) by simp
  note find = findOpen_tableOf [OF Cons.prems(1,2) plain Cons.prems(4), of str]
  show ?case
  proof (cases "map_of (activeIncidents s) (ruleKey rule svc str)")
    case None
    then have "activeRow s (ruleKey rule svc str) = None" by (simp add: activeRow_def)
    then show ?thesis
      using Cons.IH [OF Cons.prems(1,2) _ Cons.prems(4), of "k + 1" acc] Cons.prems(3) find resolveRule_none [OF None, of t sg r acc]
      by simp
  next
    case (Some iid)
    obtain e where e: "map_of (incidents s) iid = Some e" "activeIncident e" "incidentKey e = ruleKey rule svc str"
      "resolveRule t svc str sg r (acc, s) rule =
         (acc @ [resolveIncident t sg r e],
          s\<lparr>incidents := AList.update iid (persisted (resolveIncident t sg r e)) (incidents s),
            activeIncidents := AList.delete (ruleKey rule svc str) (activeIncidents s)\<rparr>)"
      by (rule resolveRule_some [OF Cons.prems(1) Some])
    define s1 where "s1 = s\<lparr>incidents := AList.update iid (persisted (resolveIncident t sg r e)) (incidents s),
            activeIncidents := AList.delete (ruleKey rule svc str) (activeIncidents s)\<rparr>"
    have ok1: "storeOK s1" using resolveRule_storeOK [OF Cons.prems(1), of t svc str sg r acc rule] by (simp add: e(4) s1_def)
    have row: "rowOK iid e" by (rule storeOK_row [OF Cons.prems(1) e(1)])
    have iid: "incID e = iid" using row by (simp add: rowOK_def)
    have "plainIncident e" using Cons.prems(2) e(1) by (auto simp: plainMap_def dest: map_of_SomeD)
    then have "plainIncident (persisted (resolveIncident t sg r e))"
      by (auto simp: plainIncident_def persisted_def resolveIncident_def activeIncident_def isTerminalIncidentStatus_def)
    then have plain1: "plainMap (incidents s1)"
      unfolding s1_def using plainMap_update [OF Cons.prems(2)] iid by (simp add: persisted_def resolveIncident_def)
    have act: "activeRow s (ruleKey rule svc str) = Some e" using Some e(1) by (simp add: activeRow_def)
    have up: "updateRows (\<lambda>x. irID x = iid) (resolvedSQL exactDB t sg r) (tableOf (incidents s)) = tableOf (incidents s1)"
      unfolding s1_def
      using updateRows_tableOf [OF _ Cons.prems(2) e(1), of "resolvedSQL exactDB t sg r" "persisted (resolveIncident t sg r e)"] Cons.prems(1)
      by (simp add: storeOK_def resolved_toRow)
    obtain rs rs' s' where ih: "resolveRules exactDB t svc str sg r (k + 1) rules (tableOf (incidents s1)) = Inr (rs, tableOf (incidents s'))"
      "foldl (resolveRule t svc str sg r) (acc @ [resolveIncident t sg r e], s1) rules = ((acc @ [resolveIncident t sg r e]) @ rs', s')"
      "list_all2 sameIncident rs rs'"
      using Cons.IH [OF ok1 plain1 _ Cons.prems(4), of "k + 1" "acc @ [resolveIncident t sg r e]"] Cons.prems(3) by auto
    have "incSeverityChanged e = False" using row by (simp add: rowOK_def)
    note same = sameIncident_resolved [OF this, of t sg r]
    show ?thesis
    proof (intro exI conjI)
      show "resolveRules exactDB t svc str sg r k (rule # rules) (tableOf (incidents s)) =
          Inr (resolveIncident t sg r (scanIncident (toRow e)) # rs, tableOf (incidents s'))"
        using find act up ih(1) iid by simp
      show "foldl (resolveRule t svc str sg r) (acc, s) (rule # rules) = (acc @ (resolveIncident t sg r e # rs'), s')"
        using ih(2) e(4) by (simp add: s1_def)
      show "list_all2 sameIncident (resolveIncident t sg r (scanIncident (toRow e)) # rs) (resolveIncident t sg r e # rs')"
        using same ih(3) by simp
    qed
  qed
qed simp

lemma resolve_agrees:
  assumes "storeOK s" "plainMap (incidents s)" "tkCtx t = None" "list_all plainName (uniqueNonEmptyStrings rules)" "plainName svc"
  shows "\<exists>rs. mdbResolveActiveIncidents exactDB t rules svc str sg r (tableOf (incidents s)) =
      (rs, tableOf (incidents (snd (ResolveActiveIncidents t rules svc str sg r s)))) \<and>
    sameOutcome (Resolved rs) (Resolved (fst (ResolveActiveIncidents t rules svc str sg r s)))"
proof -
  obtain rs rs' s' where step: "resolveRules exactDB t svc str sg r 0 (uniqueNonEmptyStrings rules) (tableOf (incidents s)) = Inr (rs, tableOf (incidents s'))"
    "foldl (resolveRule t svc str sg r) ([], s) (uniqueNonEmptyStrings rules) = ([] @ rs', s')" "list_all2 sameIncident rs rs'"
    using rules_agree [OF assms(1,2,4,5)] by blast
  then show ?thesis by (simp add: mdbResolveActiveIncidents_def ResolveActiveIncidents_def guarded_def assms(3))
qed

lemma changed_rows:
  "length (filter (\<lambda>(a, b). a \<noteq> b) (zip rows (updateRows p f rows))) = 0 \<longleftrightarrow> (\<forall>r\<in>set rows. p r \<longrightarrow> f r = r)"
  by (induction rows) (auto simp: updateRows_def)

lemma diagnostic_agrees:
  assumes "storeOK s" "plainMap (incidents s)" "tkCtx t = None"
    "\<And>e. map_of (incidents s) (TrimSpace iid) = Some e \<Longrightarrow> incSignalID e \<noteq> TrimSpace sg \<or> incReport e \<noteq> rep \<or>
       datetime (incUpdatedAt e) \<noteq> datetime (tkNow t)"
  shows "\<exists>r. mdbUpdateIncidentDiagnostic exactDB t iid sg rep (tableOf (incidents s)) =
      (r, tableOf (incidents (snd (UpdateIncidentDiagnostic t iid sg rep s)))) \<and>
    sameOutcome (Diagnosed r) (Diagnosed (fst (UpdateIncidentDiagnostic t iid sg rep s)))"
proof -
  have g: "gomap (incidents s)" using assms(1) by (simp add: storeOK_def)
  define p where "p = (\<lambda>r :: incidentRow. irID r = TrimSpace iid \<and> irSignalID r = TrimSpace sg)"
  define f where "f = (\<lambda>r :: incidentRow. r\<lparr>irReport := rep, irUpdatedAt := datetime (tkNow t)\<rparr>)"
  show ?thesis
  proof (cases "TrimSpace iid = [] \<or> TrimSpace sg = []")
    case True
    then show ?thesis
      by (auto simp: mdbUpdateIncidentDiagnostic_def UpdateIncidentDiagnostic_def guarded_def assms(3) Let_def)
  next
    case ids: False
    have run: "mdbUpdateIncidentDiagnostic exactDB t iid sg rep (tableOf (incidents s)) =
        (map_sum id (\<lambda>i. (i, \<not> (\<forall>r\<in>set (tableOf (incidents s)). p r \<longrightarrow> f r = r)))
           (mdbGetIncident exactDB 1 (TrimSpace iid) (updateRows p f (tableOf (incidents s)))),
         updateRows p f (tableOf (incidents s)))"
      using ids unfolding changed_rows [symmetric]
      by (simp add: mdbUpdateIncidentDiagnostic_def guarded_def assms(3) Let_def p_def [symmetric] f_def [symmetric])
    show ?thesis
    proof (cases "map_of (incidents s) (TrimSpace iid)")
      case None
      then have "\<not> p r" if "r \<in> set (tableOf (incidents s))" for r
        using that assms(2) by (force simp: p_def tableOf_def plainMap_def map_of_eq_None_iff)
      then have "updateRows p f (tableOf (incidents s)) = tableOf (incidents s)" unfolding updateRows_def by (intro map_idI) auto
      then show ?thesis using None ids
        by (simp add: run mdbGetIncident_def incidentByID_tableOf [OF g assms(2)] UpdateIncidentDiagnostic_def guarded_def assms(3))
    next
      case (Some e)
      have row: "rowOK (TrimSpace iid) e" by (rule storeOK_row [OF assms(1) Some])
      have only: "i = e" if "(k, i) \<in> set (incidents s)" "incID i = TrimSpace iid" for k i
      proof -
        have "k = incID i" using that(1) assms(2) by (auto simp: plainMap_def)
        then have "map_of (incidents s) (TrimSpace iid) = Some i" using that map_of_is_SomeI [OF _ that(1)] g by (simp add: gomap_def)
        then show ?thesis using Some by simp
      qed
      have ein: "toRow e \<in> set (tableOf (incidents s))" using map_of_SomeD [OF Some] by (force simp: tableOf_def)
      have toRow_flag: "sameIncident (scanIncident (toRow x)) x" if "incSeverityChanged x = False" "incStatusChanged x = False" for x
        using that by (simp add: sameIncident_def) (simp add: scan_toRow zeroIncident_def)
      show ?thesis
      proof (cases "incSignalID e = TrimSpace sg")
        case False
        then have "\<not> p r" if "r \<in> set (tableOf (incidents s))" for r using that only by (auto simp: p_def tableOf_def)
        moreover from this have "updateRows p f (tableOf (incidents s)) = tableOf (incidents s)" unfolding updateRows_def by (intro map_idI) auto
        ultimately show ?thesis using Some ids False row toRow_flag [of e]
          by (simp add: run mdbGetIncident_def incidentByID_tableOf [OF g assms(2)] UpdateIncidentDiagnostic_def guarded_def assms(3) rowOK_def)
      next
        case True
        define e' where "e' = e\<lparr>incReport := rep, incUpdatedAt := tkNow t\<rparr>"
        have fe: "f (toRow e) = toRow e'" by (simp add: f_def toRow_def newRow_def e'_def activeIncident_def incidentKey_def)
        have "updateRows p f (tableOf (incidents s)) = updateRows (\<lambda>r. irID r = TrimSpace iid) f (tableOf (incidents s))"
          unfolding updateRows_def using only True by (intro map_cong HOL.refl) (auto simp: p_def tableOf_def)
        also have "\<dots> = tableOf (AList.update (TrimSpace iid) e' (incidents s))" by (rule updateRows_tableOf [OF g assms(2) Some]) (rule fe)
        finally have up: "updateRows p f (tableOf (incidents s)) = tableOf (AList.update (TrimSpace iid) e' (incidents s))" .
        have "toRow e' \<noteq> toRow e"
        proof
          assume "toRow e' = toRow e"
          then have "irReport (toRow e') = irReport (toRow e)" "irUpdatedAt (toRow e') = irUpdatedAt (toRow e)" by simp_all
          then show False using assms(4) [OF Some] True by (simp add: toRow_def newRow_def e'_def)
        qed
        moreover have "p (toRow e)" using row True by (simp add: p_def rowOK_def)
        ultimately have changed: "\<not> (\<forall>r\<in>set (tableOf (incidents s)). p r \<longrightarrow> f r = r)" using ein fe by auto
        have plain: "plainIncident e'" using assms(2) Some by (auto simp: plainMap_def e'_def plainIncident_def activeIncident_def dest: map_of_SomeD)
        have "incID e' = TrimSpace iid" using row by (simp add: e'_def rowOK_def)
        note p' = plainMap_update [OF assms(2) plain this]
        have g': "gomap (AList.update (TrimSpace iid) e' (incidents s))" using g by (simp add: gomap_def distinct_update)
        have "sameIncident (scanIncident (toRow e')) e'" using row by (intro toRow_flag) (simp_all add: e'_def rowOK_def)
        then show ?thesis using Some ids True changed
          by (simp add: run up mdbGetIncident_def incidentByID_tableOf [OF g' p'] update_conv' UpdateIncidentDiagnostic_def guarded_def
              assms(3) Let_def e'_def [symmetric])
      qed
    qed
  qed
qed

subsection \<open>Runs\<close>

fun mdbOp :: "sqlenv \<Rightarrow> (incidentRow list \<Rightarrow> incidentRow list) \<Rightarrow> tick \<Rightarrow> incidentOp \<Rightarrow> incidentRow list \<Rightarrow> outcome \<times> incidentRow list" where
  "mdbOp db rival t (OpUpsert i) rows = apfst Upserted (mdbUpsertIncident db rival t i rows)"
| "mdbOp db rival t (OpStatus iid st) rows = apfst Restated (mdbUpdateIncidentStatus db t iid st rows)"
| "mdbOp db rival t (OpResolve rules svc str sg r) rows = apfst Resolved (mdbResolveActiveIncidents db t rules svc str sg r rows)"
| "mdbOp db rival t (OpDiagnostic iid sg rep) rows = apfst Diagnosed (mdbUpdateIncidentDiagnostic db t iid sg rep rows)"

text \<open>
  Calls on which the two stores can agree: a live context, plain names, a fresh identifier, a trimmed one for a
  status, and a diagnostic update that changes the row it matches.
\<close>

fun plainOp :: "tick \<Rightarrow> incidentOp \<Rightarrow> incidentRow list \<Rightarrow> bool" where
  "plainOp t (OpUpsert i) rows \<longleftrightarrow> tkCtx t = None \<and> rawIncident i \<and> list_all (\<lambda>r. irID r \<noteq> newID ''inc'' t) rows \<and>
     plainName (incRule i) \<and> plainName (incServiceID i) \<and> plainName (incStreamID i) \<and>
     incResolvedBySignalID i = [] \<and> incResolutionReason i = []"
| "plainOp t (OpStatus iid st) rows \<longleftrightarrow> tkCtx t = None \<and> TrimSpace iid = iid"
| "plainOp t (OpResolve rules svc str sg r) rows \<longleftrightarrow>
     tkCtx t = None \<and> list_all plainName (uniqueNonEmptyStrings rules) \<and> plainName svc"
| "plainOp t (OpDiagnostic iid sg rep) rows \<longleftrightarrow> tkCtx t = None \<and>
     list_all (\<lambda>r. irID r = TrimSpace iid \<and> irSignalID r = TrimSpace sg \<longrightarrow>
       irReport r \<noteq> rep \<or> irUpdatedAt r \<noteq> datetime (tkNow t)) rows"

type_synonym incidentCalls = "(tick \<times> incidentOp) list"

fun mdbRun :: "incidentCalls \<Rightarrow> incidentRow list \<Rightarrow> outcome list \<times> incidentRow list" where
  "mdbRun [] rows = ([], rows)"
| "mdbRun ((t, oper) # calls) rows =
     (let (r, rows') = mdbOp exactDB id t oper rows in apfst (Cons r) (mdbRun calls rows'))"

fun memRun :: "incidentCalls \<Rightarrow> MemoryStore \<Rightarrow> outcome list \<times> MemoryStore" where
  "memRun [] s = ([], s)"
| "memRun ((t, oper) # calls) s = (let (r, s') = storeOp t oper s in apfst (Cons r) (memRun calls s'))"

fun plainRun :: "incidentCalls \<Rightarrow> incidentRow list \<Rightarrow> bool" where
  "plainRun [] rows \<longleftrightarrow> True"
| "plainRun ((t, oper) # calls) rows \<longleftrightarrow> plainOp t oper rows \<and> plainRun calls (snd (mdbOp exactDB id t oper rows))"

lemma fresh_tableOf: "plainMap m \<Longrightarrow> list_all (\<lambda>r. irID r \<noteq> k) (tableOf m) \<Longrightarrow> map_of m k = None"
  by (force simp: plainMap_def tableOf_def list_all_iff map_of_eq_None_iff)

lemma storeOp_agrees:
  assumes "storeOK s" "plainMap (incidents s)" "plainOp t oper (tableOf (incidents s))"
  shows "\<exists>r. mdbOp exactDB id t oper (tableOf (incidents s)) = (r, tableOf (incidents (snd (storeOp t oper s)))) \<and>
    sameOutcome r (fst (storeOp t oper s))"
proof (cases oper)
  case (OpUpsert i)
  then show ?thesis using upsert_agrees [OF assms(1,2), of t i] fresh_tableOf [OF assms(2)] assms(3) by fastforce
next
  case (OpStatus iid st)
  then show ?thesis using status_agrees [OF assms(1,2), of t iid st] assms(3) by fastforce
next
  case (OpResolve rules svc str sg r)
  then show ?thesis using resolve_agrees [OF assms(1,2), of t rules svc str sg r] assms(3) by fastforce
next
  case (OpDiagnostic iid sg rep)
  have "incSignalID e \<noteq> TrimSpace sg \<or> incReport e \<noteq> rep \<or> datetime (incUpdatedAt e) \<noteq> datetime (tkNow t)"
    if "map_of (incidents s) (TrimSpace iid) = Some e" for e
  proof -
    have "toRow e \<in> set (tableOf (incidents s))" "irID (toRow e) = TrimSpace iid"
      using map_of_SomeD [OF that] assms(2) by (force simp: tableOf_def plainMap_def)+
    then show ?thesis using assms(3) OpDiagnostic by (fastforce simp: list_all_iff toRow_def newRow_def)
  qed
  then show ?thesis using diagnostic_agrees [OF assms(1,2), of t iid sg rep] assms(3) OpDiagnostic by fastforce
qed

lemma storeOp_storeOK:
  assumes "storeOK s" "callable t oper (incidents s)"
  shows "storeOK (snd (storeOp t oper s))"
  using assms by (cases oper) (simp_all add: UpsertIncident_storeOK UpdateIncidentStatus_storeOK
      ResolveActiveIncidents_storeOK UpdateIncidentDiagnostic_storeOK)

lemma plain_rows:
  "plainIncident e \<Longrightarrow> plainIncident (persisted (repeatIncident t i e))"
  "plainIncident e \<Longrightarrow> plainIncident (resolvedRow t names svc str sg r e)"
  "plainIncident e \<Longrightarrow> plainIncident (e\<lparr>incReport := rep, incUpdatedAt := now\<rparr>)"
  by (auto simp: plainIncident_def persisted_def repeatIncident_def activeIncident_def resolvedRow_def resolveIncident_def
      isTerminalIncidentStatus_def Let_def)

lemma storeOp_plain:
  assumes "storeOK s" "plainMap (incidents s)" "plainOp t oper (tableOf (incidents s))"
  shows "plainMap (incidents (snd (storeOp t oper s)))"
proof -
  have call: "callable t oper (incidents s)" and ctx: "tkCtx t = None"
    using assms(3) fresh_tableOf [OF assms(2)] by (cases oper; simp)+
  have known: "plainIncident e \<and> incID e = k" if "map_of (incidents s) k = Some e" for k e
    using that assms(2) by (auto simp: plainMap_def dest: map_of_SomeD)
  have eq: "incidents (snd (storeOp t oper s)) = snd (refOp t oper (incidents s))"
    using storeOp_refines [OF assms(1) ctx call] by (metis snd_apsnd)
  show ?thesis
  proof (cases oper)
    case (OpUpsert i)
    have "plainIncident (openedRow t i)" using assms(3) OpUpsert by (simp add: plainIncident_def openedRow_def)
    moreover have "plainIncident e" if "activeRow s (incidentKey i) = Some e" for e
      using that known activeRow_iff [OF assms(1)] by auto
    ultimately show ?thesis unfolding eq using OpUpsert assms(2)
      by (auto simp: refUpsert_def refFind_activeRow [OF assms(1)] intro!: plainMap_update plain_rows split: option.split)
  next
    case (OpStatus iid st)
    then show ?thesis unfolding eq using assms(2) known [of iid]
      by (auto simp: refStatus_def intro!: plainMap_update plain_restatus split: option.split)
  next
    case (OpResolve rules svc str sg r)
    have "incID (resolvedRow t names svc str sg r e) = incID e" for names e by (simp add: resolvedRow_def)
    then show ?thesis unfolding eq using assms(2) OpResolve
      by (auto simp: refResolve_def Let_def plainMap_def intro!: plain_rows)
  next
    case (OpDiagnostic iid sg rep)
    then show ?thesis unfolding eq using assms(2) known [of "TrimSpace iid"]
      by (auto simp: refDiagnostic_def intro!: plainMap_update plain_rows split: option.split)
  qed
qed

lemma runs_agree:
  assumes "storeOK s" "plainMap (incidents s)" "plainRun calls (tableOf (incidents s))"
  shows "list_all2 sameOutcome (fst (mdbRun calls (tableOf (incidents s)))) (fst (memRun calls s)) \<and>
    snd (mdbRun calls (tableOf (incidents s))) = tableOf (incidents (snd (memRun calls s)))"
  using assms
proof (induction calls arbitrary: s)
  case (Cons c calls)
  obtain t oper where c: "c = (t, oper)" by fastforce
  have plain: "plainOp t oper (tableOf (incidents s))" using Cons.prems(3) c by simp
  have call: "callable t oper (incidents s)" using plain fresh_tableOf [OF Cons.prems(2)] by (cases oper) simp_all
  obtain r s' where step: "storeOp t oper s = (r, s')" by fastforce
  obtain r' where sql: "mdbOp exactDB id t oper (tableOf (incidents s)) = (r', tableOf (incidents s'))" "sameOutcome r' r"
    using storeOp_agrees [OF Cons.prems(1,2) plain] step by auto
  show ?case
    using Cons.IH [of s'] storeOp_storeOK [OF Cons.prems(1) call] storeOp_plain [OF Cons.prems(1,2) plain] Cons.prems(3) sql
    by (simp add: c step)
qed simp

text \<open>
  C39: any sequence of incident calls gives the same answers and leaves the same rows in the MariaDB store as in
  the in-memory store, up to the whole seconds of its columns, when the server answers every statement, compares strings
  exactly and nobody else writes, and the calls are plain: their context is live, new identifiers are fresh, names have no
  surrounding space and no NUL, and no diagnostic update leaves the row that it matches as it was.
\<close>

theorem mariadb_agrees_with_memory:
  assumes "plainRun calls []"
  shows "list_all2 sameOutcome (fst (mdbRun calls [])) (fst (memRun calls NewMemoryStore)) \<and>
    snd (mdbRun calls []) = tableOf (incidents (snd (memRun calls NewMemoryStore)))"
  using runs_agree [OF storeOK_empty, of calls] assms by (simp add: NewMemoryStore_def plainMap_def tableOf_def)

definition plainCalls :: incidentCalls where
  "plainCalls = [(clock 5, OpUpsert (sampleIncident ''rtmp_disconnected'' ''warning'')),
     (clock 6, OpStatus (newID ''inc'' (clock 5)) ''acknowledged''),
     (clock 7, OpResolve [''rtmp_disconnected''] ''svc'' ''stream'' ''sig_2'' ''recovered'')]"

lemma plainName_samples [simp]:
  "plainName ''rtmp_disconnected''" "plainName ''svc''" "plainName ''stream''"
  by (simp_all add: plainName_def go_eval)

lemma newID_trimmed [simp]: "TrimSpace (newID ''inc'' t) = newID ''inc'' t"
proof (rule TrimSpace_graphic, intro disjI2 conjI)
  show "graphic (hd (newID ''inc'' t))" by (simp add: newID_def go_eval split: option.split)
  have "graphic c" if "c \<in> set (hexEncode b)" for c b using hexEncode_hex [OF that] by (auto simp: graphic_def b2n_def)
  moreover have "graphic (last ''inc_id_unavailable'')" "graphic (last ''inc_'')" by (simp_all add: go_eval)
  ultimately show "graphic (last (newID ''inc'' t))" 
    by (auto simp: newID_def last_append split: option.split dest: last_in_set)
qed

theorem mariadb_agrees_with_memory_witness:
  "list_all2 sameOutcome (fst (mdbRun plainCalls [])) (fst (memRun plainCalls NewMemoryStore)) \<and>
   snd (mdbRun plainCalls []) = tableOf (incidents (snd (memRun plainCalls NewMemoryStore)))"
proof (rule mariadb_agrees_with_memory)
  have "uniqueNonEmptyStrings [''rtmp_disconnected''] = [''rtmp_disconnected'']"
    by (simp add: uniqueNonEmptyStrings_def go_eval)
  then show "plainRun plainCalls []" by (simp add: plainCalls_def) (simp add: sampleIncident_def zeroIncident_def)
qed

end
