(* ===== verification/MariaDB_Faults.thy ===== *)
theory MariaDB_Faults
  imports MariaDB_Refinement
begin

text \<open>
  The incidents table under failing statements and concurrent writers, and where its answers differ from those of
  the in-memory store.
\<close>

subsection \<open>Faults and concurrent writers\<close>
















text \<open>The report of an incident evaluated again within the second, with the same result, counts as not updated.\<close>

theorem diagnostic_same_second:
  assumes "storeOK s" "plainMap (incidents s)" "tkCtx t = None" "TrimSpace iid = iid" "iid \<noteq> []"
    "map_of (incidents s) iid = Some e" "incSignalID e = TrimSpace sg" "TrimSpace sg \<noteq> []" "incReport e = rep"
    "datetime (incUpdatedAt e) = datetime (tkNow t)"
  shows "map_sum id snd (fst (mdbUpdateIncidentDiagnostic exactDB t iid sg rep (tableOf (incidents s)))) = Inr False"
    "map_sum id snd (fst (UpdateIncidentDiagnostic t iid sg rep s)) = Inr True"
proof -
  have g: "gomap (incidents s)" using assms(1) by (simp add: storeOK_def)
  have same: "r\<lparr>irReport := rep, irUpdatedAt := datetime (tkNow t)\<rparr> = r"
    if r: "r \<in> set (tableOf (incidents s))" "irID r = iid" for r
  proof -
    obtain k i where i: "(k, i) \<in> set (incidents s)" "r = toRow i" using r(1) unfolding tableOf_def by auto
    have "k = iid" using i r(2) assms(2) by (auto simp: plainMap_def)
    then have "i = e" using i(1) g assms(6) by (auto simp: gomap_def)
    then show ?thesis using i(2) assms(9,10) by (simp add: toRow_def newRow_def)
  qed
  have up: "updateRows (\<lambda>r. irID r = iid \<and> irSignalID r = TrimSpace sg)
      (\<lambda>r. r\<lparr>irReport := rep, irUpdatedAt := datetime (tkNow t)\<rparr>) (tableOf (incidents s)) = tableOf (incidents s)"
    unfolding updateRows_def using same by (intro map_idI) auto
  have none: "filter (\<lambda>(a, b). a \<noteq> b) (zip xs xs) = []" for xs :: "incidentRow list" by (induction xs) auto
  show "map_sum id snd (fst (mdbUpdateIncidentDiagnostic exactDB t iid sg rep (tableOf (incidents s)))) = Inr False"
    using up none assms(3-8) by (simp add: mdbUpdateIncidentDiagnostic_def guarded_def Let_def mdbGetIncident_def incidentByID_tableOf [OF g assms(2)])
  show "map_sum id snd (fst (UpdateIncidentDiagnostic t iid sg rep s)) = Inr True"
    using assms(3-8) by (simp add: UpdateIncidentDiagnostic_def guarded_def Let_def)
qed

end
