(* ===== verification/MariaDB_Store.thy ===== *)
theory MariaDB_Store
  imports MariaDB_Refinement Metrics
begin

text \<open>
  The other tables of \<^verbatim>\<open>internal/store/mariadb.go\<close>: signals, metric queries, notification deliveries, remediation
  actions and the buckets of the shared rate limiter.  Rows the \<^verbatim>\<open>ORDER BY\<close> of a query leaves
  equal come in the order of the table.
\<close>

subsection \<open>Statements\<close>

definition sqlQuery :: "sqlenv \<Rightarrow> 'a result \<Rightarrow> 'a result" where
  "sqlQuery db r = (case dbFault db 0 of Some e \<Rightarrow> Inl e | None \<Rightarrow> r)"

definition sqlInsert :: "sqlenv \<Rightarrow> ('r \<Rightarrow> string) \<Rightarrow> 'r \<Rightarrow> 'a \<Rightarrow> 'r list \<Rightarrow> 'a result \<times> 'r list" where
  "sqlInsert db key row out rows = sqlDo db 0 rows
     (if list_ex (\<lambda>r. dbEq db (key r) (key row)) rows then (Inl (ErrText ''Duplicate entry''), rows)
      else (Inr out, rows @ [row]))"

text \<open>An update of the rows that satisfy \<open>p\<close>, with the number of rows it changed.\<close>

definition sqlUpdate :: "('r \<Rightarrow> bool) \<Rightarrow> ('r \<Rightarrow> 'r) \<Rightarrow> 'r list \<Rightarrow> nat \<times> 'r list" where
  "sqlUpdate p f rows =
     (length (filter (\<lambda>r. p r \<and> f r \<noteq> r) rows), map (\<lambda>r. if p r then f r else r) rows)"

subsection \<open>Signals\<close>

record signalRow =
  srID :: string
  srType :: string
  srName :: string
  srServiceID :: string
  srServiceType :: string
  srStreamID :: "string option"
  srStatus :: "string option"
  srValue :: "float64 option"
  srAttributes :: attrs
  srOccurredAt :: instant
  srCreatedAt :: instant

definition signalRowOf :: "sqlenv \<Rightarrow> attrs \<Rightarrow> Signal \<Rightarrow> signalRow" where
  "signalRowOf db a s = \<lparr>srID = sigID s, srType = sigType s, srName = sigName s, srServiceID = sigServiceID s,
     srServiceType = sigServiceType s, srStreamID = nullIf db (sigStreamID s), srStatus = nullIf db (sigStatus s),
     srValue = sigValue s, srAttributes = a, srOccurredAt = datetime (sigTimestamp s), srCreatedAt = datetime (sigCreatedAt s)\<rparr>"

text \<open>The signal with its identifier, times and attributes filled in.\<close>

definition stampSignal :: "tick \<Rightarrow> Signal \<Rightarrow> Signal" where
  "stampSignal t signal =
     (let now = tkNow t;
          s1 = (if sigID signal = [] then signal\<lparr>sigID := newID ''sig'' t\<rparr> else signal);
          s2 = (if IsZero (sigTimestamp s1) then s1\<lparr>sigTimestamp := now\<rparr> else s1);
          s3 = s2\<lparr>sigCreatedAt := now\<rparr>
      in if sigAttributes s3 = None then s3\<lparr>sigAttributes := Some []\<rparr> else s3)"

definition mdbSaveSignal :: "sqlenv \<Rightarrow> tick \<Rightarrow> Signal \<Rightarrow> signalRow list \<Rightarrow> Signal result \<times> signalRow list" where
  "mdbSaveSignal db t signal rows = guarded t rows
     (let s = stampSignal t signal in
      case dbAttrs db (sigAttributes s) of
        Inl e \<Rightarrow> (Inl e, rows)
      | Inr a \<Rightarrow> sqlInsert db srID (signalRowOf db a s) s rows)"

definition scanSignal :: "signalRow \<Rightarrow> Signal" where
  "scanSignal r = \<lparr>sigID = srID r, sigType = srType r, sigName = srName r, sigServiceID = srServiceID r,
     sigServiceType = srServiceType r, sigStreamID = coalesce (srStreamID r), sigStatus = coalesce (srStatus r),
     sigValue = srValue r, sigAttributes = srAttributes r, sigTimestamp = srOccurredAt r, sigCreatedAt = srCreatedAt r\<rparr>"

text \<open>\<^verbatim>\<open>ORDER BY occurred_at DESC, created_at DESC, id DESC\<close>.\<close>

definition laterSignal :: "sqlenv \<Rightarrow> signalRow \<Rightarrow> signalRow \<Rightarrow> bool" where
  "laterSignal db a b \<longleftrightarrow> srOccurredAt b < srOccurredAt a \<or> srOccurredAt a = srOccurredAt b \<and>
     (srCreatedAt b < srCreatedAt a \<or> srCreatedAt a = srCreatedAt b \<and> dbLess db (srID b) (srID a))"

definition metricRow :: "sqlenv \<Rightarrow> string \<Rightarrow> string \<Rightarrow> string \<Rightarrow> signalRow \<Rightarrow> bool" where
  "metricRow db name serviceID streamID r \<longleftrightarrow> dbEq db (srName r) (TrimSpace name) \<and>
     dbEq db (srServiceID r) (TrimSpace serviceID) \<and> dbEq db (coalesce (srStreamID r)) (TrimSpace streamID) \<and> srValue r \<noteq> None"

definition mdbLatestMetricValue ::
  "sqlenv \<Rightarrow> tick \<Rightarrow> string \<Rightarrow> string \<Rightarrow> string \<Rightarrow> signalRow list \<Rightarrow> float64 option result" where
  "mdbLatestMetricValue db t name serviceID streamID rows = reading t (sqlQuery db
     (case sortSlice (laterSignal db) (filter (metricRow db name serviceID streamID) rows) of
        [] \<Rightarrow> Inr None
      | r # _ \<Rightarrow> Inr (srValue r)))"

definition mdbListSignals :: "sqlenv \<Rightarrow> int \<Rightarrow> signalRow list \<Rightarrow> Signal list result" where
  "mdbListSignals db limit rows = sqlQuery db
     (Inr (map scanSignal (take (clampLimit limit) (sortSlice (\<lambda>a b. srCreatedAt a > srCreatedAt b) rows))))"

definition mdbGetSignal :: "sqlenv \<Rightarrow> tick \<Rightarrow> string \<Rightarrow> signalRow list \<Rightarrow> Signal result" where
  "mdbGetSignal db t sid rows = reading t (sqlQuery db
     (case List.find (\<lambda>r. dbEq db (srID r) (TrimSpace sid)) rows of
        None \<Rightarrow> Inl ErrNotFound
      | Some r \<Rightarrow> Inr (scanSignal r)))"

text \<open>The query of \<^verbatim>\<open>metricSnapshotQuery\<close>: of each series in the window the newest rows, oldest first.\<close>

definition sameSeries :: "sqlenv \<Rightarrow> signalRow \<Rightarrow> signalRow \<Rightarrow> bool" where
  "sameSeries db a b \<longleftrightarrow> dbEq db (srName a) (srName b) \<and> dbEq db (srServiceID a) (srServiceID b) \<and>
     dbEq db (srServiceType a) (srServiceType b) \<and> dbEq db (coalesce (srStreamID a)) (coalesce (srStreamID b))"

definition metricSnapshotQuery :: "sqlenv \<Rightarrow> instant \<Rightarrow> int \<Rightarrow> signalRow list \<Rightarrow> signalRow list" where
  "metricSnapshotQuery db since maxPoints rows =
     (let points = filter (\<lambda>r. srValue r \<noteq> None \<and> srOccurredAt r \<ge> since) rows;
          rank = (\<lambda>r. length (filter (\<lambda>x. sameSeries db x r \<and> laterSignal db x r) points) + 1)
      in sortSlice (\<lambda>a b. laterSignal db b a) (filter (\<lambda>r. int (rank r) \<le> maxPoints) points))"

definition mdbListMetricSnapshots :: "sqlenv \<Rightarrow> tick \<Rightarrow> MetricQuery \<Rightarrow> signalRow list \<Rightarrow> MetricSnapshot list result" where
  "mdbListMetricSnapshots db t q rows = reading t
     (let since = (if IsZero (mqSince q) then tkNow t - 3 * 3600 * 10 ^ 9 else mqSince q)
      in sqlQuery db (Inr (metricSnapshotsFromSignals
           (map scanSignal (metricSnapshotQuery db since (maxPointsOf q) rows)) (q\<lparr>mqSince := since\<rparr>))))"

subsection \<open>Incident lists\<close>

definition laterIncident :: "sqlenv \<Rightarrow> incidentRow \<Rightarrow> incidentRow \<Rightarrow> bool" where
  "laterIncident db a b \<longleftrightarrow> irUpdatedAt b < irUpdatedAt a \<or> irUpdatedAt a = irUpdatedAt b \<and> dbLess db (irID b) (irID a)"

definition mdbListIncidents :: "sqlenv \<Rightarrow> incidentRow list \<Rightarrow> Incident list result" where
  "mdbListIncidents db rows = sqlQuery db (Inr (map scanIncident (take 200 (sortSlice (laterIncident db) rows))))"

definition mdbListIncidentHistory ::
  "sqlenv \<Rightarrow> tick \<Rightarrow> int \<Rightarrow> instant \<Rightarrow> string \<Rightarrow> string \<Rightarrow> incidentRow list \<Rightarrow> Incident list result" where
  "mdbListIncidentHistory db t limit before beforeID status rows = reading t
     (let byStatus = (\<lambda>r. TrimSpace status = [] \<or> dbEq db (irStatus r) (TrimSpace status));
          byTime = (\<lambda>r. IsZero before \<or> irUpdatedAt r < before \<or>
             irUpdatedAt r = before \<and> dbLess db (irID r) (TrimSpace beforeID))
      in sqlQuery db (Inr (map scanIncident
           (take (clampLimit limit) (sortSlice (laterIncident db) (filter (\<lambda>r. byStatus r \<and> byTime r) rows))))))"

subsection \<open>Notification deliveries\<close>

record storedDelivery =
  dlID :: string
  dlEventType :: string
  dlChannel :: string
  dlTarget :: string
  dlIncidentID :: "string option"
  dlStatus :: string
  dlError :: "string option"
  dlMetadata :: attrs
  dlCreatedAt :: instant

definition storedDeliveryOf :: "sqlenv \<Rightarrow> attrs \<Rightarrow> NotificationDelivery \<Rightarrow> storedDelivery" where
  "storedDeliveryOf db a d = \<lparr>dlID = ndID d, dlEventType = ndEventType d, dlChannel = ndChannel d, dlTarget = ndTarget d,
     dlIncidentID = nullIf db (ndIncidentID d), dlStatus = ndStatus d, dlError = nullIf db (ndError d), dlMetadata = a,
     dlCreatedAt = datetime (ndCreatedAt d)\<rparr>"

definition mdbSaveNotificationDelivery ::
  "goenv \<Rightarrow> sqlenv \<Rightarrow> tick \<Rightarrow> NotificationDelivery \<Rightarrow> storedDelivery list \<Rightarrow> NotificationDelivery result \<times> storedDelivery list" where
  "mdbSaveNotificationDelivery env db t delivery rows = guarded t rows
     (let d1 = (if ndID delivery = [] then delivery\<lparr>ndID := newID ''ntf'' t\<rparr> else delivery);
          d2 = (if IsZero (ndCreatedAt d1) then d1\<lparr>ndCreatedAt := tkNow t\<rparr> else d1);
          d3 = (if ndMetadata d2 = None then d2\<lparr>ndMetadata := Some []\<rparr> else d2);
          d4 = sanitizeNotificationDelivery env d3
      in case dbAttrs db (ndMetadata d4) of
           Inl e \<Rightarrow> (Inl e, rows)
         | Inr a \<Rightarrow> sqlInsert db dlID (storedDeliveryOf db a d4) d4 rows)"

definition scanDelivery :: "storedDelivery \<Rightarrow> NotificationDelivery" where
  "scanDelivery r = \<lparr>ndID = dlID r, ndEventType = dlEventType r, ndChannel = dlChannel r, ndTarget = dlTarget r,
     ndIncidentID = coalesce (dlIncidentID r), ndStatus = dlStatus r, ndError = coalesce (dlError r),
     ndMetadata = dlMetadata r, ndCreatedAt = dlCreatedAt r\<rparr>"

definition mdbListNotificationDeliveries :: "goenv \<Rightarrow> sqlenv \<Rightarrow> storedDelivery list \<Rightarrow> NotificationDelivery list result" where
  "mdbListNotificationDeliveries env db rows = sqlQuery db
     (Inr (map (\<lambda>r. sanitizeNotificationDelivery env (scanDelivery r))
        (take 200 (sortSlice (\<lambda>a b. dlCreatedAt a > dlCreatedAt b) rows))))"

subsection \<open>Remediation actions\<close>

record actionRow =
  arID :: string
  arIncidentID :: string
  arAction :: string
  arMode :: string
  arStatus :: string
  arSafeAuto :: bool
  arRequiresApproval :: bool
  arResult :: "string option"
  arCreatedAt :: instant
  arUpdatedAt :: instant
  arExecutedAt :: "instant option"

definition actionRowOf :: "sqlenv \<Rightarrow> RemediationAction \<Rightarrow> actionRow" where
  "actionRowOf db a = \<lparr>arID = raID a, arIncidentID = raIncidentID a, arAction = raAction a, arMode = raMode a,
     arStatus = raStatus a, arSafeAuto = raSafeAuto a, arRequiresApproval = raRequiresApproval a,
     arResult = nullIf db (raResult a), arCreatedAt = datetime (raCreatedAt a), arUpdatedAt = datetime (raUpdatedAt a),
     arExecutedAt = map_option datetime (raExecutedAt a)\<rparr>"

definition mdbCreateRemediationAction ::
  "sqlenv \<Rightarrow> tick \<Rightarrow> RemediationAction \<Rightarrow> actionRow list \<Rightarrow> RemediationAction result \<times> actionRow list" where
  "mdbCreateRemediationAction db t action rows = guarded t rows
     (let a1 = (if raID action = [] then action\<lparr>raID := newID ''rem'' t\<rparr> else action);
          a2 = (if raStatus a1 = [] then a1\<lparr>raStatus := ''suggested''\<rparr> else a1);
          a3 = a2\<lparr>raCreatedAt := tkNow t, raUpdatedAt := tkNow t\<rparr>
      in sqlInsert db arID (actionRowOf db a3) a3 rows)"

definition scanRemediationAction :: "actionRow \<Rightarrow> RemediationAction" where
  "scanRemediationAction r = \<lparr>raID = arID r, raIncidentID = arIncidentID r, raAction = arAction r, raMode = arMode r,
     raStatus = arStatus r, raSafeAuto = arSafeAuto r, raRequiresApproval = arRequiresApproval r,
     raResult = coalesce (arResult r), raCreatedAt = arCreatedAt r, raUpdatedAt = arUpdatedAt r,
     raExecutedAt = arExecutedAt r\<rparr>"

definition mdbListRemediationActions :: "sqlenv \<Rightarrow> actionRow list \<Rightarrow> RemediationAction list result" where
  "mdbListRemediationActions db rows = sqlQuery db
     (Inr (map scanRemediationAction (take 200 (sortSlice (\<lambda>a b. arUpdatedAt a > arUpdatedAt b) rows))))"

definition mdbGetRemediationAction :: "sqlenv \<Rightarrow> string \<Rightarrow> actionRow list \<Rightarrow> RemediationAction result" where
  "mdbGetRemediationAction db aid rows = sqlQuery db
     (case List.find (\<lambda>r. dbEq db (arID r) aid) rows of None \<Rightarrow> Inl ErrNotFound | Some r \<Rightarrow> Inr (scanRemediationAction r))"

definition mdbUpdateRemediationAction ::
  "sqlenv \<Rightarrow> tick \<Rightarrow> RemediationAction \<Rightarrow> actionRow list \<Rightarrow> RemediationAction result \<times> actionRow list" where
  "mdbUpdateRemediationAction db t action rows = guarded t rows
     (let a = action\<lparr>raUpdatedAt := tkNow t\<rparr> in sqlDo db 0 rows
        (case sqlUpdate (\<lambda>r. dbEq db (arID r) (raID a))
           (\<lambda>r. r\<lparr>arStatus := raStatus a, arResult := nullIf db (raResult a), arUpdatedAt := datetime (raUpdatedAt a),
                  arExecutedAt := map_option datetime (raExecutedAt a)\<rparr>) rows of
           (affected, rows') \<Rightarrow> (if affected = 0 then Inl ErrNotFound else Inr a, rows')))"

subsection \<open>The shared rate limiter\<close>

record bucketRow =
  brKey :: string
  brWindowStart :: instant
  brHits :: int
  brUpdatedAt :: instant

definition unixEpoch :: instant where
  "unixEpoch = 62135596800 * 10 ^ 9"

text \<open>Go's remainder has the sign of the dividend.\<close>

definition goRemainder :: "int \<Rightarrow> int \<Rightarrow> int" where
  "goRemainder a b = sgn a * (\<bar>a\<bar> mod \<bar>b\<bar>)"

definition rateLimitWindowStart :: "instant \<Rightarrow> int \<Rightarrow> instant" where
  "rateLimitWindowStart now win =
     (if win \<le> 0 then now
      else (let nanos = wrap64 (now - unixEpoch) in unixEpoch + wrap64 (nanos - goRemainder nanos win)))"

text \<open>The search and the write of the transaction: the answer, and the table it would commit.\<close>

definition countHit :: "sqlenv \<Rightarrow> string \<Rightarrow> instant \<Rightarrow> int \<Rightarrow> instant \<Rightarrow> bucketRow list \<Rightarrow> bool \<times> bucketRow list" where
  "countHit db bucketKey windowStart limit now tx =
     (let put = (\<lambda>f. map (\<lambda>x. if dbEq db (brKey x) bucketKey then f x else x) tx) in
      case List.find (\<lambda>x. dbEq db (brKey x) bucketKey) tx of
        None \<Rightarrow> (True, tx @ [\<lparr>brKey = bucketKey, brWindowStart = datetime windowStart, brHits = 1, brUpdatedAt = datetime now\<rparr>])
      | Some r \<Rightarrow>
          if brWindowStart r \<noteq> windowStart
          then (True, put (\<lambda>x. x\<lparr>brWindowStart := datetime windowStart, brHits := 1, brUpdatedAt := datetime now\<rparr>))
          else if brHits r \<ge> limit then (False, put (\<lambda>x. x\<lparr>brUpdatedAt := datetime now\<rparr>))
          else (True, put (\<lambda>x. x\<lparr>brHits := brHits x + 1, brUpdatedAt := datetime now\<rparr>)))"

definition AllowRateLimit ::
  "sqlenv \<Rightarrow> tick \<Rightarrow> string \<Rightarrow> int \<Rightarrow> int \<Rightarrow> instant \<Rightarrow> bucketRow list \<Rightarrow> bool result \<times> bucketRow list" where
  "AllowRateLimit db t bucketKey win limit now rows = guarded t rows
     (if bucketKey = [] \<or> win \<le> 0 \<or> limit \<le> 0 then (Inr False, rows)
      else
        (let windowStart = rateLimitWindowStart now win;
             cleanupBefore = windowStart + wrap64 (- 2 * win)
         in sqlDo db 0 rows (sqlDo db 1 rows (sqlDo db 2 rows
              (case countHit db bucketKey windowStart limit now (filter (\<lambda>r. \<not> brUpdatedAt r < cleanupBefore) rows) of
                 (ok, tx) \<Rightarrow> sqlDo db 3 rows (sqlCommit db 4 rows tx ok))))))"

subsection \<open>Lemmas on the shared rate limiter\<close>

text \<open>The window of an instant that \<^verbatim>\<open>UnixNano\<close> can represent, for a window of whole seconds.\<close>

definition windowOf :: "int \<Rightarrow> instant \<Rightarrow> instant" where
  "windowOf win now = unixEpoch + win * ((now - unixEpoch) div win)"

definition wholeSeconds :: "int \<Rightarrow> bool" where
  "wholeSeconds win \<longleftrightarrow> 0 < win \<and> 2 * win < 2 ^ 63 \<and> win mod 10 ^ 9 = 0"

definition unixTime :: "instant \<Rightarrow> bool" where
  "unixTime now \<longleftrightarrow> unixEpoch \<le> now \<and> now < unixEpoch + 2 ^ 63"

lemma rateLimitWindowStart_eq:
  assumes "wholeSeconds win" "unixTime now"
  shows "rateLimitWindowStart now win = windowOf win now"
proof -
  define u where "u = now - unixEpoch"
  have u: "0 \<le> u" "u < 2 ^ 63" and w: "0 < win" using assms by (simp_all add: u_def unixTime_def wholeSeconds_def)
  have rem: "goRemainder u win = u mod win" using u w by (auto simp: goRemainder_def sgn_if)
  have div_eq: "u - u mod win = win * (u div win)" by (rule minus_mod_eq_mult_div)
  have "in64 u" using u by (simp add: in64_def)
  moreover have "0 \<le> u - u mod win" "u - u mod win \<le> u"
    using u w pos_mod_sign [of win u] zmod_le_nonneg_dividend [of u win] by auto
  then have "in64 (u - u mod win)" using u by (simp add: in64_def)
  ultimately show ?thesis using w
    by (simp add: rateLimitWindowStart_def windowOf_def u_def [symmetric] wrap64_id rem) (simp add: div_eq)
qed

lemma windowOf_mono: "0 < win \<Longrightarrow> a \<le> b \<Longrightarrow> windowOf win a \<le> windowOf win b"
  by (simp add: windowOf_def zdiv_mono1)

lemma windowOf_le: "0 < win \<Longrightarrow> windowOf win now \<le> now"
proof -
  assume "0 < win"
  then have "0 \<le> (now - unixEpoch) mod win" by simp
  moreover have "win * ((now - unixEpoch) div win) = now - unixEpoch - (now - unixEpoch) mod win"
    by (rule minus_mod_eq_mult_div [symmetric])
  ultimately show ?thesis unfolding windowOf_def by linarith
qed

lemma datetime_div: "datetime t = 10 ^ 9 * (t div 10 ^ 9)"
  by (simp add: datetime_def minus_mod_eq_mult_div)

lemma windowOf_seconds:
  assumes "wholeSeconds win"
  shows "datetime (windowOf win now) = windowOf win now" "windowOf win now \<le> datetime now"
proof -
  have "10 ^ 9 dvd win" using assms by (simp add: wholeSeconds_def mod_eq_0_iff_dvd)
  moreover have "(10 :: int) ^ 9 dvd unixEpoch" by (simp add: unixEpoch_def)
  ultimately have dvd: "10 ^ 9 dvd windowOf win now" by (simp add: windowOf_def)
  then show "datetime (windowOf win now) = windowOf win now" by (simp add: datetime_def)
  obtain k where k: "windowOf win now = 10 ^ 9 * k" using dvd by (auto elim: dvdE)
  have "windowOf win now \<le> now" using assms by (intro windowOf_le) (simp add: wholeSeconds_def)
  then have "k \<le> now div 10 ^ 9" using k zdiv_mono1 [of "10 ^ 9 * k" now "10 ^ 9"] by simp
  then show "windowOf win now \<le> datetime now" unfolding datetime_div k by simp
qed

text \<open>
  Keys are apart, a bucket was touched in its window or later, never counted more than the limit, and has no window later
  than \<open>w\<close>.
\<close>

definition bucketsOK :: "sqlenv \<Rightarrow> int \<Rightarrow> instant \<Rightarrow> bucketRow list \<Rightarrow> bool" where
  "bucketsOK db limit w rows \<longleftrightarrow> sorted_wrt (\<lambda>a b. \<not> dbEq db (brKey a) (brKey b)) rows \<and>
     (\<forall>r\<in>set rows. brWindowStart r \<le> w \<and> brWindowStart r \<le> brUpdatedAt r \<and> 0 \<le> brHits r \<and> brHits r \<le> limit)"

text \<open>At least \<open>n\<close> hits are on record for the key in the window.\<close>

definition recorded :: "sqlenv \<Rightarrow> string \<Rightarrow> instant \<Rightarrow> nat \<Rightarrow> bucketRow list \<Rightarrow> bool" where
  "recorded db k w n rows \<longleftrightarrow> n = 0 \<or>
     (\<exists>r\<in>set rows. dbEq db (brKey r) k \<and> brWindowStart r = w \<and> int n \<le> brHits r)"

lemma bucketsOK_unique:
  assumes "collationLaws db" "bucketsOK db limit w rows" "a \<in> set rows" "b \<in> set rows" "dbEq db (brKey a) (brKey b)"
  shows "a = b"
proof -
  have "sorted_wrt (\<lambda>a b. \<not> dbEq db (brKey a) (brKey b)) rows" using assms(2) by (simp add: bucketsOK_def)
  then show ?thesis using assms(3-5) collationD(2) [OF assms(1)] by (induction rows) auto
qed

lemma bucketsOK_filter: "bucketsOK db limit w rows \<Longrightarrow> bucketsOK db limit w (filter P rows)"
  by (simp add: bucketsOK_def sorted_wrt_filter)

lemma bucketsOK_later: "bucketsOK db limit w rows \<Longrightarrow> w \<le> w' \<Longrightarrow> bucketsOK db limit w' rows"
  by (force simp: bucketsOK_def)

lemma bucketsOK_put:
  assumes "bucketsOK db limit w rows"
    "\<And>x. x \<in> set rows \<Longrightarrow> P x \<Longrightarrow> brKey (f x) = brKey x \<and> brWindowStart (f x) \<le> w \<and>
       brWindowStart (f x) \<le> brUpdatedAt (f x) \<and> 0 \<le> brHits (f x) \<and> brHits (f x) \<le> limit"
  shows "bucketsOK db limit w (map (\<lambda>x. if P x then f x else x) rows)"
proof -
  have "sorted_wrt (\<lambda>a b. \<not> dbEq db (brKey a) (brKey b)) rows" using assms(1) by (simp add: bucketsOK_def)
  then have "sorted_wrt (\<lambda>a b. \<not> dbEq db (brKey (if P a then f a else a)) (brKey (if P b then f b else b))) rows"
    by (rule sorted_wrt_mono_rel [rotated]) (use assms(2) in auto)
  then show ?thesis using assms by (auto simp: bucketsOK_def sorted_wrt_map)
qed

lemma countHit_OK:
  assumes laws: "collationLaws db" and ok: "bucketsOK db limit w tx" and lim: "0 < limit"
    and w: "datetime w = w" "w \<le> datetime now"
  shows "bucketsOK db limit w (snd (countHit db k w limit now tx))"
proof (cases "List.find (\<lambda>x. dbEq db (brKey x) k) tx")
  case None
  then have "\<forall>x\<in>set tx. \<not> dbEq db (brKey x) k" by (simp add: find_None_iff)
  then show ?thesis unfolding countHit_def Let_def None option.case
    using ok lim w by (simp add: bucketsOK_def sorted_wrt_append)
next
  case (Some r)
  have r: "r \<in> set tx" "dbEq db (brKey r) k" using Some by (auto simp: find_Some_iff)
  have only: "x = r" if "x \<in> set tx" "dbEq db (brKey x) k" for x
    using bucketsOK_unique [OF laws ok that(1) r(1)] collationD(3) [OF laws that(2)] collationD(2) [OF laws r(2)] by blast
  have row: "brWindowStart r \<le> w" "0 \<le> brHits r" "brHits r \<le> limit" using ok r(1) by (auto simp: bucketsOK_def)
  have put: "bucketsOK db limit w (map (\<lambda>x. if dbEq db (brKey x) k then f x else x) tx)"
    if "brKey (f r) = brKey r" "brWindowStart (f r) \<le> w" "brWindowStart (f r) \<le> brUpdatedAt (f r)" "0 \<le> brHits (f r)"
      "brHits (f r) \<le> limit" for f
    by (rule bucketsOK_put [OF ok]) (use only that in blast)
  have reset: "bucketsOK db limit w (map (\<lambda>x. if dbEq db (brKey x) k
      then x\<lparr>brWindowStart := datetime w, brHits := 1, brUpdatedAt := datetime now\<rparr> else x) tx)"
    by (rule put) (use row lim w in auto)
  have touch: "bucketsOK db limit w (map (\<lambda>x. if dbEq db (brKey x) k then x\<lparr>brUpdatedAt := datetime now\<rparr> else x) tx)"
    by (rule put) (use row lim w in auto)
  have count: "bucketsOK db limit w (map (\<lambda>x. if dbEq db (brKey x) k
      then x\<lparr>brHits := brHits x + 1, brUpdatedAt := datetime now\<rparr> else x) tx)" if "\<not> limit \<le> brHits r"
    by (rule put) (use that row lim w in auto)
  show ?thesis unfolding countHit_def Let_def Some option.case
    using reset touch count by (simp split: if_split)
qed

lemma countHit_recorded:
  assumes laws: "collationLaws db" and ok: "bucketsOK db limit w tx" and lim: "0 < limit"
    and w: "datetime w = w" and n: "recorded db k w n tx"
  shows "recorded db k w (if fst (countHit db key w limit now tx) \<and> dbEq db key k then Suc n else n)
    (snd (countHit db key w limit now tx))"
proof -
  note eq = collationD [OF laws]
  have keep: "recorded db k w n (map (\<lambda>x. if dbEq db (brKey x) key then f x else x) tx)" if "\<not> dbEq db key k" for f
  proof -
    have "\<not> dbEq db (brKey x) key" if "dbEq db (brKey x) k" for x using that \<open>\<not> dbEq db key k\<close> eq(2,3) by blast
    then show ?thesis using n by (force simp: recorded_def)
  qed
  show ?thesis
  proof (cases "List.find (\<lambda>x. dbEq db (brKey x) key) tx")
    case None
    then have none: "\<not> dbEq db (brKey x) key" if "x \<in> set tx" for x using that by (auto simp: find_None_iff)
    show ?thesis
    proof (cases "dbEq db key k")
      case True
      have "\<not> dbEq db (brKey x) k" if "x \<in> set tx" for x using none [OF that] eq(3) eq(2) [OF True] by blast
      then have "n = 0" using n by (auto simp: recorded_def)
      then show ?thesis using None True w by (simp add: countHit_def recorded_def)
    next
      case False
      then show ?thesis using None n by (auto simp: countHit_def recorded_def)
    qed
  next
    case (Some r)
    have r: "r \<in> set tx" "dbEq db (brKey r) key" using Some by (auto simp: find_Some_iff)
    have row: "0 \<le> brHits r" using ok r(1) by (auto simp: bucketsOK_def)
    show ?thesis
    proof (cases "dbEq db key k")
      case False
      then show ?thesis using keep [OF False] by (simp add: countHit_def Let_def Some)
    next
      case True
      have rk: "dbEq db (brKey r) k" using r(2) True eq(3) by blast
      have only: "x = r" if "x \<in> set tx" "dbEq db (brKey x) k" for x
        using bucketsOK_unique [OF laws ok that(1) r(1)] eq(3) [OF that(2)] eq(2) [OF rk] by blast
      have here: "0 < n \<Longrightarrow> brWindowStart r = w \<and> int n \<le> brHits r" using n only by (auto simp: recorded_def)
      have put: "recorded db k w m (map (\<lambda>x. if dbEq db (brKey x) key then f x else x) tx)"
        if "brKey (f r) = brKey r" "brWindowStart (f r) = w" "int m \<le> brHits (f r)" for f m
        unfolding recorded_def using r rk that by (intro disjI2 bexI [of _ "f r"]) (auto simp: image_iff intro!: bexI [of _ r])
      consider "brWindowStart r \<noteq> w" | "brWindowStart r = w" "limit \<le> brHits r" | "brWindowStart r = w" "brHits r < limit"
        by linarith
      then show ?thesis
      proof cases
        case 1
        then have "n = 0" using here by auto
        then show ?thesis using 1 True w by (simp add: countHit_def Let_def Some put)
      next
        case 2
        then have "n = 0 \<or> int n \<le> brHits r" using here by auto
        moreover have "recorded db k w 0 rows" for rows by (simp add: recorded_def)
        ultimately show ?thesis using 2 True by (cases "n = 0") (simp_all add: countHit_def Let_def Some put)
      next
        case 3
        then have "int n \<le> brHits r" using here row by (cases "n = 0") auto
        then show ?thesis using 3 True by (simp add: countHit_def Let_def Some put)
      qed
    qed
  qed
qed

lemma countHit_cong: "dbEq env = dbEq db \<Longrightarrow> countHit env = countHit db"
  by (simp only: countHit_def [abs_def])

text \<open>What a call leaves: the table as it was, or the one of the transaction; only a committed hit is granted.\<close>

lemma AllowRateLimit_result:
  assumes "0 < win" "0 < limit"
  obtains "snd (AllowRateLimit db t k win limit now rows) = rows" "fst (AllowRateLimit db t k win limit now rows) \<noteq> Inr True"
  | "snd (AllowRateLimit db t k win limit now rows) = snd (countHit db k (rateLimitWindowStart now win) limit now
        (filter (\<lambda>r. \<not> brUpdatedAt r < rateLimitWindowStart now win + wrap64 (- 2 * win)) rows))"
    "fst (AllowRateLimit db t k win limit now rows) = Inr True \<Longrightarrow> fst (countHit db k (rateLimitWindowStart now win) limit now
        (filter (\<lambda>r. \<not> brUpdatedAt r < rateLimitWindowStart now win + wrap64 (- 2 * win)) rows))"
proof -
  obtain ok tx where hit: "countHit db k (rateLimitWindowStart now win) limit now
      (filter (\<lambda>r. \<not> brUpdatedAt r < rateLimitWindowStart now win + wrap64 (- 2 * win)) rows) = (ok, tx)" by fastforce
  have "snd (AllowRateLimit db t k win limit now rows) = rows \<and> fst (AllowRateLimit db t k win limit now rows) \<noteq> Inr True \<or>
    snd (AllowRateLimit db t k win limit now rows) = tx \<and> (fst (AllowRateLimit db t k win limit now rows) = Inr True \<longrightarrow> ok)"
    unfolding AllowRateLimit_def Let_def hit prod.case by (auto simp: guarded_def sqlDo_def sqlCommit_def split: option.split)
  then show thesis using that hit by force
qed

lemma AllowRateLimit_step:
  assumes laws: "collationLaws db" and env: "dbEq env = dbEq db" and win: "wholeSeconds win" "unixTime now" and lim: "0 < limit"
    and ok: "bucketsOK db limit (windowOf win now) rows"
  shows "bucketsOK db limit (windowOf win now) (snd (AllowRateLimit env t key win limit now rows))"
    "recorded db k (windowOf win now) n rows \<Longrightarrow> recorded db k (windowOf win now)
       (if fst (AllowRateLimit env t key win limit now rows) = Inr True \<and> dbEq db key k then Suc n else n)
       (snd (AllowRateLimit env t key win limit now rows))"
proof -
  have pos: "0 < win" using win(1) by (simp add: wholeSeconds_def)
  define tx where "tx = filter (\<lambda>r. \<not> brUpdatedAt r < windowOf win now + wrap64 (- 2 * win)) rows"
  have ok': "bucketsOK db limit (windowOf win now) tx" unfolding tx_def by (rule bucketsOK_filter [OF ok])
  note ws = rateLimitWindowStart_eq [OF win]
  note case_result = AllowRateLimit_result [OF pos lim, of env t key now rows, unfolded ws tx_def [symmetric] countHit_cong [OF env]]
  show "bucketsOK db limit (windowOf win now) (snd (AllowRateLimit env t key win limit now rows))"
    by (rule case_result) (simp_all add: ok countHit_OK [OF laws ok' lim windowOf_seconds [OF win(1)]])
  assume n: "recorded db k (windowOf win now) n rows"
  have "wrap64 (- 2 * win) = - 2 * win" using win(1) by (intro wrap64_id) (simp add: wholeSeconds_def in64_def)
  then have kept: "recorded db k (windowOf win now) n tx"
    using n ok pos by (fastforce simp: recorded_def tx_def bucketsOK_def)
  note hit = countHit_recorded [OF laws ok' lim windowOf_seconds(1) [OF win(1)] kept, of key now]
  have fewer: "recorded db k w m rs" if "recorded db k w (Suc m) rs" for w m rs using that by (auto simp: recorded_def)
  show "recorded db k (windowOf win now)
      (if fst (AllowRateLimit env t key win limit now rows) = Inr True \<and> dbEq db key k then Suc n else n)
      (snd (AllowRateLimit env t key win limit now rows))"
    by (rule case_result) (use n hit fewer in \<open>auto split: if_splits\<close>)
qed

text \<open>A sequence of calls, each with its own faults, and the log of the granted ones.\<close>

type_synonym limitCalls = "(sqlenv \<times> tick \<times> string \<times> instant) list"

fun sharedRun :: "int \<Rightarrow> int \<Rightarrow> limitCalls \<Rightarrow> bucketRow list \<Rightarrow> (string \<times> instant) list \<times> bucketRow list" where
  "sharedRun win limit [] rows = ([], rows)"
| "sharedRun win limit ((db, t, key, now) # calls) rows =
     (let (r, rows1) = AllowRateLimit db t key win limit now rows;
          (granted, rows2) = sharedRun win limit calls rows1
      in (if r = Inr True then (key, now) # granted else granted, rows2))"

definition inWindowOf :: "sqlenv \<Rightarrow> string \<Rightarrow> int \<Rightarrow> instant \<Rightarrow> string \<times> instant \<Rightarrow> bool" where
  "inWindowOf db k win w g \<longleftrightarrow> dbEq db (fst g) k \<and> rateLimitWindowStart (snd g) win = w"

lemma sharedRun_times: "g \<in> set (fst (sharedRun win limit calls rows)) \<Longrightarrow> snd g \<in> (\<lambda>(_, _, _, now). now) ` set calls"
  by (induction win limit calls rows rule: sharedRun.induct) (auto simp: Let_def split: prod.splits if_splits)

lemma sharedRun_bound:
  assumes laws: "collationLaws db" and win: "wholeSeconds win" and lim: "0 < limit"
    and env: "\<forall>(env, _, _, now)\<in>set calls. dbEq env = dbEq db \<and> unixTime now \<and> w0 \<le> windowOf win now"
    and sorted: "sorted (map (\<lambda>(_, _, _, now). now) calls)"
    and ok: "bucketsOK db limit w0 rows" and n: "recorded db k w n rows" "int n \<le> limit"
  shows "int (length (filter (inWindowOf db k win w) (fst (sharedRun win limit calls rows))) + n) \<le> limit"
  using env sorted ok n
proof (induction calls arbitrary: rows n w0)
  case (Cons c calls)
  obtain env t key now where c: "c = (env, t, key, now)" by (cases c) auto
  define W where "W = windowOf win now"
  have pos: "0 < win" using win by (simp add: wholeSeconds_def)
  have now: "dbEq env = dbEq db" "unixTime now" "w0 \<le> W" using Cons.prems(1) by (auto simp: c W_def)
  have later: "unixTime x \<and> W \<le> windowOf win x" if "(a, b, d, x) \<in> set calls" for a b d x
    using Cons.prems(1,2) that windowOf_mono [OF pos, of now x] by (force simp: c W_def)
  have ok: "bucketsOK db limit W rows" by (rule bucketsOK_later [OF Cons.prems(3) now(3)])
  note step = AllowRateLimit_step [OF laws now(1) win now(2) lim ok [unfolded W_def], where t = t and key = key, folded W_def]
  obtain r rows1 where call: "AllowRateLimit env t key win limit now rows = (r, rows1)" by fastforce
  have ok1: "bucketsOK db limit W rows1" using step(1) call by simp
  have rest: "\<forall>(env, _, _, x)\<in>set calls. dbEq env = dbEq db \<and> unixTime x \<and> W \<le> windowOf win x"
    using Cons.prems(1) later by (fastforce simp: c)
  have sorted1: "sorted (map (\<lambda>(_, _, _, x). x) calls)" using Cons.prems(2) by (simp add: c)
  note IH = Cons.IH [OF rest sorted1 ok1]
  have split: "filter (inWindowOf db k win w) (fst (sharedRun win limit (c # calls) rows)) =
      (if r = Inr True \<and> dbEq db key k \<and> W = w then [(key, now)] else []) @
      filter (inWindowOf db k win w) (fst (sharedRun win limit calls rows1))"
    using rateLimitWindowStart_eq [OF win now(2)] by (auto simp: c call Let_def inWindowOf_def W_def split: prod.split)
  have most: "int m \<le> limit" if "recorded db k w m rs" "bucketsOK db limit W rs" for m rs
    using that lim by (force simp: recorded_def bucketsOK_def)
  consider "W = w" | "W < w" | "w < W" by linarith
  then show ?case
  proof cases
    case 1
    then have "recorded db k w (if r = Inr True \<and> dbEq db key k then Suc n else n) rows1"
      using step(2) [where k = k and n = n] Cons.prems(4) call by simp
    from IH [OF this most [OF this ok1]] show ?thesis unfolding split using 1 by (auto split: if_splits)
  next
    case 2
    have "n = 0" using 2 ok Cons.prems(4) by (auto simp: recorded_def bucketsOK_def)
    moreover have "recorded db k w 0 rows1" by (simp add: recorded_def)
    ultimately show ?thesis unfolding split using 2 IH lim by fastforce
  next
    case 3
    have "\<not> inWindowOf db k win w g" if g: "g \<in> set (fst (sharedRun win limit calls rows1))" for g
    proof -
      obtain a b d where "(a, b, d, snd g) \<in> set calls" using sharedRun_times [OF g] by auto
      then show ?thesis using later 3 rateLimitWindowStart_eq [OF win] by (fastforce simp: inWindowOf_def)
    qed
    then show ?thesis unfolding split using 3 Cons.prems(5) by simp
  qed
qed simp

text \<open>Whatever statements and commits of the shared rate limiter fail, while the clock does not go back a bucket is granted at
  most the burst in each window.\<close>

theorem shared_rate_limit_bounded:
  assumes "collationLaws db" "wholeSeconds win" "0 < limit"
    "\<forall>(env, _, _, now)\<in>set calls. dbEq env = dbEq db \<and> unixTime now" "sorted (map (\<lambda>(_, _, _, now). now) calls)"
  shows "int (length (filter (inWindowOf db k win w) (fst (sharedRun win limit calls [])))) \<le> limit"
proof (cases calls)
  case (Cons c cs)
  obtain e t key first where c: "c = (e, t, key, first)" by (cases c) auto
  have pos: "0 < win" using assms(2) by (simp add: wholeSeconds_def)
  have "\<forall>(env, _, _, now)\<in>set calls. dbEq env = dbEq db \<and> unixTime now \<and> windowOf win first \<le> windowOf win now"
    using assms(4,5) windowOf_mono [OF pos, of first] by (force simp: Cons c)
  from sharedRun_bound [OF assms(1-3) this assms(5), of "[]" k w 0] show ?thesis
    using assms(3) by (simp add: bucketsOK_def recorded_def)
qed (use assms(3) in simp)

definition minuteCalls :: limitCalls where
  "minuteCalls = map (\<lambda>n. (exactDB, clock 1, ''admin:192.0.2.1'', unixEpoch + n * 10 ^ 9)) [0, 59, 60]"

theorem shared_rate_limit_bounded_witness:
  "int (length (filter (inWindowOf exactDB ''admin:192.0.2.1'' (60 * 10 ^ 9) unixEpoch)
     (fst (sharedRun (60 * 10 ^ 9) 1 minuteCalls [])))) \<le> 1"
proof (rule shared_rate_limit_bounded)
  show "collationLaws exactDB" by (simp add: collationLaws_def)
qed (simp_all add: minuteCalls_def wholeSeconds_def unixTime_def unixEpoch_def)

subsection \<open>Signals read back\<close>

lemma hd_sorted:
  assumes "\<And>x y. lt x y \<longleftrightarrow> (key x :: 'b::linorder) > key y" "sortSlice lt xs = y # ys" "r \<in> set xs"
  shows "key r \<le> key y"
proof -
  have "sorted_wrt (\<lambda>x y. key y \<le> key x) (y # ys)" using sorted_sortSlice_desc [of lt key xs, OF assms(1)] assms(2) by simp
  moreover have "r \<in> set (y # ys)" using assms(2,3) by (metis set_sortSlice)
  ultimately show ?thesis by auto
qed

lemma sortSlice_snoc: "sortSlice lt (xs @ [x]) = insertBy lt x (sortSlice lt xs)"
  by (simp add: sortSlice_def)

lemma exact_laterSignal: "laterSignal exactDB a b \<longleftrightarrow>
    (srOccurredAt a, srCreatedAt a, srID a) > (srOccurredAt b, srCreatedAt b, srID b)"
  by (auto simp: laterSignal_def less_prod_def)

lemma SaveSignal_stamp: "SaveSignal t s m = guarded t m (Inr (stampSignal t s), m\<lparr>signals := signals m @ [stampSignal t s]\<rparr>)"
  by (simp add: SaveSignal_def stampSignal_def Let_def)

lemma saved_signal:
  assumes "mdbSaveSignal exactDB t s rows = (Inr s', rows')"
  shows "tkCtx t = None" "rows' = rows @ [signalRowOf exactDB (sigAttributes s') s']" "\<forall>r\<in>set rows. srID r \<noteq> sigID s'"
    "SaveSignal t s m = (Inr s', m\<lparr>signals := signals m @ [s']\<rparr>)"
proof -
  show ctx: "tkCtx t = None" using assms by (cases "tkCtx t") (simp_all add: mdbSaveSignal_def)
  have ins: "sqlInsert exactDB srID (signalRowOf exactDB (sigAttributes (stampSignal t s)) (stampSignal t s)) (stampSignal t s) rows =
      (Inr s', rows')"
    using assms ctx by (simp add: mdbSaveSignal_def Let_def)
  have s': "s' = stampSignal t s" using ins by (simp add: sqlInsert_def split: if_splits)
  show "rows' = rows @ [signalRowOf exactDB (sigAttributes s') s']" "\<forall>r\<in>set rows. srID r \<noteq> sigID s'"
    using ins unfolding s' by (auto simp: sqlInsert_def list_ex_iff signalRowOf_def split: if_splits)
  show "SaveSignal t s m = (Inr s', m\<lparr>signals := signals m @ [s']\<rparr>)" using ctx by (simp add: SaveSignal_stamp s')
qed

text \<open>A saved signal is read back under its identifier as it was returned, up to the whole seconds of its times.\<close>

theorem saved_signal_roundtrip:
  assumes "mdbSaveSignal exactDB t s rows = (Inr s', rows')" "tkCtx u = None" "TrimSpace (sigID s') = sigID s'"
  shows "mdbGetSignal exactDB u (sigID s') rows' =
    Inr (s'\<lparr>sigTimestamp := datetime (sigTimestamp s'), sigCreatedAt := datetime (sigCreatedAt s')\<rparr>)"
proof -
  note saved = saved_signal [OF assms(1)]
  have "List.find (\<lambda>r. srID r = sigID s') rows' = Some (signalRowOf exactDB (sigAttributes s') s')"
    using saved(3) unfolding saved(2) by (induction rows) (auto simp: signalRowOf_def)
  then show ?thesis using assms(2,3)
    by (simp add: mdbGetSignal_def sqlQuery_def scanSignal_def signalRowOf_def coalesce_def)
qed

text \<open>The database takes the sample with the latest client time as the previous one, the in-memory store the sample saved last; so
  a sample from a clock that is ahead stays the previous value of its series while later ones are saved.\<close>

theorem latest_metric_pinned:
  assumes "mdbSaveSignal exactDB t s rows = (Inr s', rows')" "metricMatch name svc str s'" "tkCtx u = None"
    "r \<in> set rows" "metricRow exactDB name svc str r" "datetime (sigTimestamp s') < srOccurredAt r"
  shows "mdbLatestMetricValue exactDB u name svc str rows' = mdbLatestMetricValue exactDB u name svc str rows \<and>
    LatestMetricValue u name svc str (snd (SaveSignal t s m)) = Inr (sigValue s')"
proof -
  note saved = saved_signal [OF assms(1)]
  define x where "x = signalRowOf exactDB (sigAttributes s') s'"
  define ms where "ms = filter (metricRow exactDB name svc str) rows"
  have r: "r \<in> set ms" using assms(4,5) by (simp add: ms_def)
  then obtain y ys where ys: "sortSlice (laterSignal exactDB) ms = y # ys"
    by (metis list.exhaust set_sortSlice empty_iff empty_set)
  have "(srOccurredAt r, srCreatedAt r, srID r) \<le> (srOccurredAt y, srCreatedAt y, srID y)"
    by (rule hd_sorted [OF exact_laterSignal ys r])
  then have "srOccurredAt r \<le> srOccurredAt y" by (auto simp: less_eq_prod_def)
  then have "\<not> laterSignal exactDB x y" using assms(6) by (auto simp: laterSignal_def x_def signalRowOf_def)
  then have "sortSlice (laterSignal exactDB) (ms @ [x]) = y # insertBy (laterSignal exactDB) x ys"
    by (simp add: sortSlice_snoc ys)
  then have "mdbLatestMetricValue exactDB u name svc str rows' = mdbLatestMetricValue exactDB u name svc str rows"
    using assms(3) ys by (simp add: mdbLatestMetricValue_def saved(2) x_def [symmetric] ms_def [symmetric])
  moreover have "LatestMetricValue u name svc str (snd (SaveSignal t s m)) = Inr (sigValue s')"
    using assms(2,3) by (simp add: LatestMetricValue_def saved(4))
  ultimately show ?thesis ..
qed

text \<open>A sample saved at instant 3, and a table with a sample dated a quarter of an hour ahead.\<close>

definition savedSample :: Signal where
  "savedSample = (sampleSignal ''encoder.dropped_frames'' 30 7)\<lparr>sigCreatedAt := 3\<rparr>"

definition aheadTable :: "signalRow list" where
  "aheadTable = [signalRowOf exactDB (Some []) ((sampleSignal ''encoder.dropped_frames'' 900 (10 ^ 12))\<lparr>sigID := ''sig_0''\<rparr>)]"

lemma savedSample_saved:
  "mdbSaveSignal exactDB (clock 3) (sampleSignal ''encoder.dropped_frames'' 30 7) aheadTable =
     (Inr savedSample, aheadTable @ [signalRowOf exactDB (Some []) savedSample])"
  by (simp add: mdbSaveSignal_def stampSignal_def savedSample_def sampleSignal_def aheadTable_def sqlInsert_def signalRowOf_def)

lemma sample_names [simp]:
  "TrimSpace ''encoder.dropped_frames'' = ''encoder.dropped_frames''" "TrimSpace ''svc'' = ''svc''"
  "TrimSpace ''stream'' = ''stream''" "TrimSpace ''sig_1'' = ''sig_1''"
  by (simp_all add: go_eval)

theorem saved_signal_roundtrip_witness:
  "mdbGetSignal exactDB (clock 4) ''sig_1'' (aheadTable @ [signalRowOf exactDB (Some []) savedSample]) =
     Inr (savedSample\<lparr>sigTimestamp := datetime 7, sigCreatedAt := datetime 3\<rparr>)"
  using saved_signal_roundtrip [OF savedSample_saved, of "clock 4"] by (simp add: savedSample_def sampleSignal_def)

theorem latest_metric_pinned_witness:
  "mdbLatestMetricValue exactDB (clock 4) ''encoder.dropped_frames'' ''svc'' ''stream''
     (aheadTable @ [signalRowOf exactDB (Some []) savedSample]) = Inr (Some (Fin 900)) \<and>
   LatestMetricValue (clock 4) ''encoder.dropped_frames'' ''svc'' ''stream''
     (snd (SaveSignal (clock 3) (sampleSignal ''encoder.dropped_frames'' 30 7) NewMemoryStore)) = Inr (Some (Fin 30))"
proof -
  have row: "metricRow exactDB ''encoder.dropped_frames'' ''svc'' ''stream'' (hd aheadTable)"
    by (simp add: aheadTable_def metricRow_def signalRowOf_def sampleSignal_def coalesce_def)
  have "datetime (sigTimestamp savedSample) < srOccurredAt (hd aheadTable)"
    by (simp add: aheadTable_def savedSample_def sampleSignal_def signalRowOf_def datetime_def)
  from latest_metric_pinned [OF savedSample_saved _ _ _ row this, of "clock 4" NewMemoryStore] row show ?thesis
    by (simp add: aheadTable_def savedSample_def sampleSignal_def metricMatch_def mdbLatestMetricValue_def sqlQuery_def
        signalRowOf_def)
qed

subsection \<open>Actions updated again\<close>

text \<open>An update of a remediation action that changes nothing, within the second of the previous one, is answered not found although the
  action is there.\<close>

theorem unchanged_update_not_found:
  assumes "distinct (map arID rows)" "tkCtx t = None" "mdbGetRemediationAction exactDB (raID a) rows = Inr found"
    "raStatus found = raStatus a" "raResult found = raResult a" "raExecutedAt found = map_option datetime (raExecutedAt a)"
    "raUpdatedAt found = datetime (tkNow t)" "list_all (\<lambda>r. arResult r \<noteq> Some []) rows"
  shows "mdbUpdateRemediationAction exactDB t a rows = (Inl ErrNotFound, rows)"
proof -
  obtain row where row: "List.find (\<lambda>r. arID r = raID a) rows = Some row" "found = scanRemediationAction row"
    using assms(3) by (auto simp: mdbGetRemediationAction_def sqlQuery_def split: option.splits)
  then have rin: "row \<in> set rows" "arID row = raID a" by (auto simp: find_Some_iff)
  have "arResult row = nullIf exactDB (raResult a)"
    using assms(5,8) row(2) rin(1)
    by (cases "arResult row") (auto simp: scanRemediationAction_def list_all_iff)
  then have same: "row\<lparr>arStatus := raStatus a, arResult := nullIf exactDB (raResult a), arUpdatedAt := datetime (tkNow t),
      arExecutedAt := map_option datetime (raExecutedAt a)\<rparr> = row"
    using assms(4,6,7) row(2) by (cases row) (simp add: scanRemediationAction_def)
  have only: "r = row" if "r \<in> set rows" "arID r = raID a" for r
    using that rin assms(1) by (auto simp: distinct_map inj_on_def)
  have up: "sqlUpdate (\<lambda>r. arID r = raID a) (\<lambda>r. r\<lparr>arStatus := raStatus a, arResult := nullIf exactDB (raResult a),
      arUpdatedAt := datetime (tkNow t), arExecutedAt := map_option datetime (raExecutedAt a)\<rparr>) rows = (0, rows)"
    unfolding sqlUpdate_def using only same by (auto simp: filter_empty_conv intro!: map_idI)
  show ?thesis using assms(2) up by (simp add: mdbUpdateRemediationAction_def Let_def del: nullIf_exact)
qed

definition blockedAction :: RemediationAction where
  "blockedAction = \<lparr>raID = ''rem_1'', raIncidentID = ''inc_1'', raAction = ''restart_encoder'', raMode = ''manual_approval'',
     raStatus = ''blocked'', raSafeAuto = False, raRequiresApproval = True, raResult = ''blocked'',
     raCreatedAt = 0, raUpdatedAt = 0, raExecutedAt = None\<rparr>"

theorem unchanged_update_not_found_witness:
  "mdbUpdateRemediationAction exactDB (clock 5) blockedAction [actionRowOf exactDB blockedAction] =
     (Inl ErrNotFound, [actionRowOf exactDB blockedAction])"
  by (rule unchanged_update_not_found [where found = "scanRemediationAction (actionRowOf exactDB blockedAction)"])
    (simp_all add: mdbGetRemediationAction_def sqlQuery_def scanRemediationAction_def actionRowOf_def blockedAction_def datetime_def)

end
