(* ===== verification/MariaDB_Channels.thy ===== *)
theory MariaDB_Channels
  imports MariaDB_Store Channel_Requests
begin

text \<open>
  The notification channels of \<^verbatim>\<open>internal/store/mariadb.go\<close> and the encryption of their secrets in
  \<^verbatim>\<open>internal/store/secret_crypto.go\<close>.  AES-GCM is a parameter, \<^verbatim>\<open>base64.RawStdEncoding\<close> is modelled.
\<close>

subsection \<open>Base 64 without padding\<close>

definition base64Alphabet :: string where
  "base64Alphabet = ''ABCDEFGHIJKLMNOPQRSTUVWXYZabcdefghijklmnopqrstuvwxyz0123456789+/''"

definition base64Char :: "nat \<Rightarrow> char" where
  "base64Char n = base64Alphabet ! n"

definition base64Value :: "char \<Rightarrow> nat option" where
  "base64Value c = (let k = length (takeWhile (\<lambda>x. x \<noteq> c) base64Alphabet) in if k < 64 then Some k else None)"

fun base64Groups :: "nat list \<Rightarrow> nat list" where
  "base64Groups [] = []"
| "base64Groups [a] = [a div 4, a mod 4 * 16]"
| "base64Groups [a, b] = [a div 4, a mod 4 * 16 + b div 16, b mod 16 * 4]"
| "base64Groups (a # b # c # bs) = [a div 4, a mod 4 * 16 + b div 16, b mod 16 * 4 + c div 64, c mod 64] @ base64Groups bs"

definition EncodeToString :: "string \<Rightarrow> string" where
  "EncodeToString s = map base64Char (base64Groups (map b2n s))"

text \<open>The decoder leaves out line breaks and drops the spare bits of an incomplete group.\<close>

fun base64Bytes :: "nat list \<Rightarrow> nat list option" where
  "base64Bytes [] = Some []"
| "base64Bytes [x] = None"
| "base64Bytes [x, y] = Some [x * 4 + y div 16]"
| "base64Bytes [x, y, z] = Some [x * 4 + y div 16, y mod 16 * 16 + z div 4]"
| "base64Bytes (x # y # z # w # xs) =
     map_option (\<lambda>bs. [x * 4 + y div 16, y mod 16 * 16 + z div 4, z mod 4 * 64 + w] @ bs) (base64Bytes xs)"

definition DecodeString :: "string \<Rightarrow> string option" where
  "DecodeString s =
     (let values = map base64Value (filter (\<lambda>c. c \<noteq> CHR 0x0D \<and> c \<noteq> CHR 0x0A) s)
      in if None \<in> set values then None else map_option (map n2b) (base64Bytes (map the values)))"

lemma takeWhile_distinct: "distinct xs \<Longrightarrow> n < length xs \<Longrightarrow> length (takeWhile (\<lambda>x. x \<noteq> xs ! n) xs) = n"
proof (induction xs arbitrary: n)
  case (Cons a xs)
  show ?case
  proof (cases n)
    case (Suc m)
    then have "xs ! m \<in> set xs" using Cons.prems by simp
    then show ?thesis using Cons Suc by auto
  qed simp
qed simp

lemma base64_table: "distinct base64Alphabet" "length base64Alphabet = 64" "CHR 0x0D \<notin> set base64Alphabet"
    "CHR 0x0A \<notin> set base64Alphabet"
  by (simp_all add: base64Alphabet_def)

lemma base64_char: "n < 64 \<Longrightarrow> base64Value (base64Char n) = Some n \<and> base64Char n \<noteq> CHR 0x0D \<and> base64Char n \<noteq> CHR 0x0A"
proof -
  assume n: "n < 64"
  then have "base64Char n \<in> set base64Alphabet" by (simp add: base64Char_def base64_table(2))
  then have "base64Char n \<noteq> CHR 0x0D \<and> base64Char n \<noteq> CHR 0x0A" using base64_table(3,4) by metis
  moreover have "length (takeWhile (\<lambda>x. x \<noteq> base64Char n) base64Alphabet) = n"
    unfolding base64Char_def by (rule takeWhile_distinct) (simp_all add: base64_table(1,2) n)
  ultimately show ?thesis using n by (simp add: base64Value_def)
qed

lemma base64_digit:
  fixes a b c :: nat
  assumes "a < 256" "b < 256" "c < 256"
  shows "a div 4 < 64" "a mod 4 * 16 + b div 16 < 64" "b mod 16 * 4 + c div 64 < 64"
proof -
  have "b div 16 < 16" "c div 64 < 4" and div4: "a div 4 < 64" using assms by (simp_all add: less_mult_imp_div_less)
  moreover have "a mod 4 < 4" "b mod 16 < 16" by simp_all
  ultimately show "a div 4 < 64" "a mod 4 * 16 + b div 16 < 64" "b mod 16 * 4 + c div 64 < 64" by linarith+
qed

lemma base64_byte:
  "b < 256 \<Longrightarrow> b div 16 div 16 = (0 :: nat)" "b < 256 \<Longrightarrow> b div 16 mod 16 * 16 + b mod 16 = (b :: nat)"
  "c < 256 \<Longrightarrow> c div 64 div 4 = (0 :: nat)" "c < 256 \<Longrightarrow> c div 64 mod 4 * 64 + c mod 64 = (c :: nat)"
  by (simp_all add: less_mult_imp_div_less)

lemma base64Groups_digits: "list_all (\<lambda>a. a < 256) bs \<Longrightarrow> list_all (\<lambda>n. n < 64) (base64Groups bs)"
  using base64_digit [where b = 0 and c = 0] base64_digit by (induction bs rule: base64Groups.induct) auto

lemma base64Bytes_Groups: "list_all (\<lambda>a. a < 256) bs \<Longrightarrow> base64Bytes (base64Groups bs) = Some bs"
  by (induction bs rule: base64Groups.induct) (simp_all add: base64_byte)

lemma DecodeString_EncodeToString: "DecodeString (EncodeToString s) = Some s"
proof -
  have bytes: "list_all (\<lambda>a. a < 256) (map b2n s)" by (simp add: list_all_iff b2n_def)
  define ds where "ds = base64Groups (map b2n s)"
  have digits: "\<forall>n\<in>set ds. n < 64" using base64Groups_digits [OF bytes] by (simp add: ds_def list_all_iff)
  have "filter (\<lambda>c. c \<noteq> CHR 0x0D \<and> c \<noteq> CHR 0x0A) (map base64Char ds) = map base64Char ds"
    using digits base64_char by (auto simp: filter_id_conv)
  moreover have "map base64Value (map base64Char ds) = map Some ds" using digits base64_char by simp
  moreover have "base64Bytes ds = Some (map b2n s)" unfolding ds_def by (rule base64Bytes_Groups [OF bytes])
  moreover have "map n2b (map b2n s) = s" by (simp add: comp_def n2b_def b2n_def)
  ultimately show ?thesis
    unfolding DecodeString_def EncodeToString_def ds_def [symmetric] Let_def by (auto simp del: map_map simp: map_map [of the Some] comp_def)
qed

lemma EncodeToString_nonempty: "s \<noteq> [] \<Longrightarrow> EncodeToString s \<noteq> []"
  by (cases "map b2n s" rule: base64Groups.cases) (auto simp: EncodeToString_def)

subsection \<open>Secrets\<close>

text \<open>Sealing and opening under a key and a nonce.\<close>

record gcm =
  gcSeal :: "string \<Rightarrow> string \<Rightarrow> string \<Rightarrow> string"
  gcOpen :: "string \<Rightarrow> string \<Rightarrow> string \<Rightarrow> string option"

text \<open>\<^verbatim>\<open>aes.NewCipher\<close>, applied to the digest of the key material.\<close>

definition cipherKey :: "goenv \<Rightarrow> string \<Rightarrow> string result" where
  "cipherKey env keyMaterial =
     (let key = sha256 env keyMaterial in
      if length key \<in> {16, 24, 32} then Inr key
      else Inl (ErrText (''crypto/aes: invalid key size '' @ FormatInt (int (length key)))))"

text \<open>\<open>drawn\<close> are the random bytes of the nonce, \<open>None\<close> when there are none to be had.\<close>

definition encryptSecret :: "goenv \<Rightarrow> gcm \<Rightarrow> string option \<Rightarrow> string \<Rightarrow> string \<Rightarrow> (string \<times> string) result" where
  "encryptSecret env g drawn plain keyMaterial =
     (if keyMaterial = [] then Inl ErrSecretKeyRequired
      else case cipherKey env keyMaterial of
        Inl e \<Rightarrow> Inl e
      | Inr key \<Rightarrow>
         (case drawn of
            None \<Rightarrow> Inl (ErrText ''rand'')
          | Some nonce \<Rightarrow> Inr (EncodeToString (gcSeal g key nonce plain), EncodeToString nonce)))"

text \<open>\<^verbatim>\<open>gcm.Open\<close> panics on a nonce that does not have 12 bytes; here that is an error like the others.\<close>

definition decryptSecret :: "goenv \<Rightarrow> gcm \<Rightarrow> string \<Rightarrow> string \<Rightarrow> string \<Rightarrow> string result" where
  "decryptSecret env g ciphertext nonce keyMaterial =
     (if keyMaterial = [] then Inl ErrSecretKeyRequired
      else case cipherKey env keyMaterial of
        Inl e \<Rightarrow> Inl e
      | Inr key \<Rightarrow>
         (case DecodeString ciphertext of
            None \<Rightarrow> Inl (ErrText ''illegal base64 data'')
          | Some sealed \<Rightarrow>
             (case DecodeString nonce of
                None \<Rightarrow> Inl (ErrText ''illegal base64 data'')
              | Some nonceBytes \<Rightarrow>
                  if length nonceBytes \<noteq> 12 then Inl (ErrText ''crypto/cipher: incorrect nonce length given to GCM'')
                  else (case gcOpen g key nonceBytes sealed of
                      None \<Rightarrow> Inl (ErrText ''cipher: message authentication failed'')
                    | Some plain \<Rightarrow> Inr plain))))"

text \<open>Documented behaviour of GCM: what was sealed opens under the same key and nonce, and a sealed text carries a tag.\<close>

definition gcmLaws :: "gcm \<Rightarrow> bool" where
  "gcmLaws g \<longleftrightarrow> (\<forall>k n p. gcOpen g k n (gcSeal g k n p) = Some p \<and> length (gcSeal g k n p) = length p + 16)"

lemma decrypt_encrypt:
  assumes "gcmLaws g" "encryptSecret env g (Some nonce) plain key = Inr (c, n)" "length nonce = 12"
  shows "decryptSecret env g c n key = Inr plain" "c \<noteq> []"
proof -
  obtain k where k: "key \<noteq> []" "cipherKey env key = Inr k" "c = EncodeToString (gcSeal g k nonce plain)" "n = EncodeToString nonce"
    using assms(2) by (auto simp: encryptSecret_def split: if_splits sum.splits)
  have "gcSeal g k nonce plain \<noteq> []" using assms(1) by (metis gcmLaws_def list.size(3) add_is_0 zero_neq_numeral)
  then show "c \<noteq> []" using k(3) EncodeToString_nonempty by simp
  show "decryptSecret env g c n key = Inr plain"
    using k assms(1,3) by (simp add: decryptSecret_def DecodeString_EncodeToString gcmLaws_def)
qed

subsection \<open>The table\<close>

text \<open>A list in a JSON column may be the JSON \<^verbatim>\<open>null\<close> of a nil slice; the recipients may also be missing in the row.\<close>

record channelColumns =
  tcID :: string
  tcName :: string
  tcType :: string
  tcEnabled :: bool
  tcWebhookCiphertext :: "string option"
  tcWebhookNonce :: "string option"
  tcMaskedWebhookURL :: "string option"
  tcEmailRecipients :: "string list option option"
  tcSMTPHost :: "string option"
  tcSMTPPort :: "int option"
  tcSMTPTLS :: bool
  tcSMTPFrom :: "string option"
  tcSMTPUsername :: "string option"
  tcSMTPCiphertext :: "string option"
  tcSMTPNonce :: "string option"
  tcSMTPPasswordConfigured :: bool
  tcMaskedEmailTarget :: "string option"
  tcSeverityFilter :: "string list option"
  tcEventTypeFilter :: "string list option"
  tcCreatedAt :: instant
  tcUpdatedAt :: instant

text \<open>What an insertion or update writes of a channel, the secrets apart.\<close>

definition writeColumns :: "sqlenv \<Rightarrow> (string \<times> string) \<times> (string \<times> string) \<Rightarrow> NotificationChannel \<Rightarrow> channelColumns \<Rightarrow> channelColumns" where
  "writeColumns db secrets c r = r\<lparr>tcName := chName c, tcType := chType c, tcEnabled := chEnabled c,
     tcWebhookCiphertext := nullIf db (fst (fst secrets)), tcWebhookNonce := nullIf db (snd (fst secrets)),
     tcMaskedWebhookURL := nullIf db (chMaskedWebhookURL c), tcEmailRecipients := Some (dbStrings db (chEmailRecipients c)),
     tcSMTPHost := nullIf db (chSMTPHost c), tcSMTPPort := (if chSMTPPort c = 0 then None else Some (chSMTPPort c)),
     tcSMTPTLS := chSMTPTLS c, tcSMTPFrom := nullIf db (chSMTPFrom c), tcSMTPUsername := nullIf db (chSMTPUsername c),
     tcSMTPCiphertext := nullIf db (fst (snd secrets)), tcSMTPNonce := nullIf db (snd (snd secrets)),
     tcSMTPPasswordConfigured := chSMTPPasswordConfigured c, tcMaskedEmailTarget := nullIf db (chMaskedEmailTarget c),
     tcSeverityFilter := dbStrings db (chSeverityFilter c), tcEventTypeFilter := dbStrings db (chEventTypeFilter c),
     tcUpdatedAt := datetime (chUpdatedAt c)\<rparr>"

definition newColumns :: "NotificationChannel \<Rightarrow> channelColumns" where
  "newColumns c = \<lparr>tcID = chID c, tcName = [], tcType = [], tcEnabled = False, tcWebhookCiphertext = None, tcWebhookNonce = None,
     tcMaskedWebhookURL = None, tcEmailRecipients = None, tcSMTPHost = None, tcSMTPPort = None, tcSMTPTLS = False,
     tcSMTPFrom = None, tcSMTPUsername = None, tcSMTPCiphertext = None, tcSMTPNonce = None, tcSMTPPasswordConfigured = False,
     tcMaskedEmailTarget = None, tcSeverityFilter = None, tcEventTypeFilter = None, tcCreatedAt = datetime (chCreatedAt c),
     tcUpdatedAt = 0\<rparr>"

text \<open>The ciphertexts and nonces of the webhook address and of the SMTP password: a channel keeps only the secret of its type.\<close>

definition channelSecrets ::
  "goenv \<Rightarrow> gcm \<Rightarrow> string option \<Rightarrow> string \<Rightarrow> NotificationChannel \<Rightarrow> ((string \<times> string) \<times> (string \<times> string)) result" where
  "channelSecrets env g drawn keyMaterial c =
     (if chType c = ''email'' then
        (if chSMTPPassword c = [] then Inr (([], []), ([], []))
         else map_sum id (\<lambda>smtp. (([], []), smtp)) (encryptSecret env g drawn (chSMTPPassword c) keyMaterial))
      else map_sum id (\<lambda>webhook. (webhook, ([], []))) (encryptSecret env g drawn (chWebhookURL c) keyMaterial))"

definition openSecret :: "goenv \<Rightarrow> gcm \<Rightarrow> string \<Rightarrow> string option \<Rightarrow> string option \<Rightarrow> string option result" where
  "openSecret env g keyMaterial ciphertext nonce =
     (if coalesce ciphertext = [] then Inr None
      else map_sum id Some (decryptSecret env g (coalesce ciphertext) (coalesce nonce) keyMaterial))"

definition scanNotificationChannel :: "goenv \<Rightarrow> gcm \<Rightarrow> string \<Rightarrow> channelColumns \<Rightarrow> NotificationChannel result" where
  "scanNotificationChannel env g keyMaterial r =
     (let c = \<lparr>chID = tcID r, chName = tcName r, chType = tcType r, chEnabled = tcEnabled r, chUseGlobalSMTP = False,
        chUseGlobalSMTPSet = False, chWebhookURL = [], chMaskedWebhookURL = coalesce (tcMaskedWebhookURL r),
        chEmailRecipients = (case tcEmailRecipients r of None \<Rightarrow> Some [] | Some rs \<Rightarrow> rs),
        chSMTPHost = coalesce (tcSMTPHost r), chSMTPPort = (case tcSMTPPort r of None \<Rightarrow> 0 | Some p \<Rightarrow> p),
        chSMTPTLS = tcSMTPTLS r, chSMTPFrom = coalesce (tcSMTPFrom r), chSMTPUsername = coalesce (tcSMTPUsername r),
        chSMTPPassword = [], chSMTPPasswordConfigured = tcSMTPPasswordConfigured r,
        chMaskedEmailTarget = coalesce (tcMaskedEmailTarget r), chSeverityFilter = tcSeverityFilter r,
        chEventTypeFilter = tcEventTypeFilter r, chCreatedAt = tcCreatedAt r, chUpdatedAt = tcUpdatedAt r\<rparr>
      in case openSecret env g keyMaterial (tcWebhookCiphertext r) (tcWebhookNonce r) of
           Inl e \<Rightarrow> Inl e
         | Inr url \<Rightarrow>
            (let c1 = (case url of None \<Rightarrow> c | Some u \<Rightarrow> c\<lparr>chWebhookURL := u\<rparr>) in
             case openSecret env g keyMaterial (tcSMTPCiphertext r) (tcSMTPNonce r) of
               Inl e \<Rightarrow> Inl e
             | Inr password \<Rightarrow>
                (let c2 = (case password of None \<Rightarrow> c1 | Some p \<Rightarrow> c1\<lparr>chSMTPPassword := p, chSMTPPasswordConfigured := True\<rparr>)
                 in Inr (normalizeNotificationChannelSecrets env c2))))"

subsection \<open>Operations\<close>

text \<open>The rows of a list are read one after the other; the first that cannot be read ends it.\<close>

fun scanChannels :: "goenv \<Rightarrow> gcm \<Rightarrow> string \<Rightarrow> channelColumns list \<Rightarrow> NotificationChannel list result" where
  "scanChannels env g keyMaterial [] = Inr []"
| "scanChannels env g keyMaterial (r # rows) =
     (case scanNotificationChannel env g keyMaterial r of
        Inl e \<Rightarrow> Inl e
      | Inr c \<Rightarrow> map_sum id (Cons c) (scanChannels env g keyMaterial rows))"

definition mdbListNotificationChannels ::
  "goenv \<Rightarrow> gcm \<Rightarrow> string \<Rightarrow> sqlenv \<Rightarrow> channelColumns list \<Rightarrow> NotificationChannel list result" where
  "mdbListNotificationChannels env g keyMaterial db rows = sqlQuery db
     (scanChannels env g keyMaterial (sortSlice (\<lambda>a b. tcCreatedAt a < tcCreatedAt b) rows))"

definition mdbCreateNotificationChannel ::
  "goenv \<Rightarrow> gcm \<Rightarrow> string \<Rightarrow> sqlenv \<Rightarrow> tick \<Rightarrow> string option \<Rightarrow> NotificationChannel \<Rightarrow> channelColumns list
     \<Rightarrow> NotificationChannel result \<times> channelColumns list" where
  "mdbCreateNotificationChannel env g keyMaterial db t drawn channel rows = guarded t rows
     (let c1 = (if chID channel = [] then channel\<lparr>chID := newID ''ntc'' t\<rparr> else channel);
          c2 = c1\<lparr>chType := normalizeChannelType (chType c1)\<rparr>;
          c3 = normalizeNotificationChannelSecrets env c2;
          c4 = c3\<lparr>chCreatedAt := tkNow t, chUpdatedAt := tkNow t\<rparr>
      in case channelSecrets env g drawn keyMaterial c4 of
           Inl e \<Rightarrow> (Inl e, rows)
         | Inr secrets \<Rightarrow> sqlInsert db tcID (writeColumns db secrets c4 (newColumns c4)) (publicChannel env c4) rows)"

definition mdbGetNotificationChannel ::
  "goenv \<Rightarrow> gcm \<Rightarrow> string \<Rightarrow> sqlenv \<Rightarrow> string \<Rightarrow> channelColumns list \<Rightarrow> NotificationChannel result" where
  "mdbGetNotificationChannel env g keyMaterial db cid rows = sqlQuery db
     (case List.find (\<lambda>r. dbEq db (tcID r) cid) rows of
        None \<Rightarrow> Inl ErrNotFound
      | Some r \<Rightarrow> scanNotificationChannel env g keyMaterial r)"

definition mdbUpdateNotificationChannel ::
  "goenv \<Rightarrow> gcm \<Rightarrow> string \<Rightarrow> sqlenv \<Rightarrow> tick \<Rightarrow> string option \<Rightarrow> NotificationChannel \<Rightarrow> channelColumns list
     \<Rightarrow> NotificationChannel result \<times> channelColumns list" where
  "mdbUpdateNotificationChannel env g keyMaterial db t drawn channel rows = guarded t rows
     (case mdbGetNotificationChannel env g keyMaterial db (chID channel) rows of
        Inl e \<Rightarrow> (Inl e, rows)
      | Inr existing \<Rightarrow>
          (let e = (normalizeNotificationChannelSecrets env (mergeChannel channel existing))\<lparr>chUpdatedAt := tkNow t\<rparr> in
           case channelSecrets env g drawn keyMaterial e of
             Inl err \<Rightarrow> (Inl err, rows)
           | Inr secrets \<Rightarrow> sqlDo db 1 rows
               (case sqlUpdate (\<lambda>r. dbEq db (tcID r) (chID e)) (writeColumns db secrets e) rows of
                  (affected, rows') \<Rightarrow> (if affected = 0 then Inl ErrNotFound else Inr (publicChannel env e), rows'))))"

definition mdbDeleteNotificationChannel ::
  "sqlenv \<Rightarrow> string \<Rightarrow> channelColumns list \<Rightarrow> unit result \<times> channelColumns list" where
  "mdbDeleteNotificationChannel db cid rows = sqlDo db 0 rows
     (let kept = filter (\<lambda>r. \<not> dbEq db (tcID r) cid) rows
      in (if length kept = length rows then Inl ErrNotFound else Inr (), kept))"

subsection \<open>Channels read back\<close>

text \<open>A mail channel as the normalisation leaves it.\<close>

definition mailSettled :: "NotificationChannel \<Rightarrow> bool" where
  "mailSettled c \<longleftrightarrow> (chUseGlobalSMTP c \<longleftrightarrow> \<not> hasLegacySMTPConfiguration c) \<and> (\<not> chUseGlobalSMTP c \<longrightarrow> chSMTPPort c \<noteq> 0) \<and>
     (TrimSpace (chSMTPPassword c) \<noteq> [] \<longrightarrow> chSMTPPasswordConfigured c) \<and> chMaskedWebhookURL c = [] \<and>
     chMaskedEmailTarget c = maskEmailRecipients (case chEmailRecipients c of None \<Rightarrow> [] | Some rs \<Rightarrow> rs)"

lemma chooseSMTP_global: "chUseGlobalSMTP (chooseSMTP c) \<longleftrightarrow> \<not> hasLegacySMTPConfiguration (chooseSMTP c)"
proof -
  have keep: "hasLegacySMTPConfiguration (d\<lparr>chUseGlobalSMTP := b\<rparr>) = hasLegacySMTPConfiguration d" for d b
    by (simp add: hasLegacySMTPConfiguration_def)
  show ?thesis by (auto simp: chooseSMTP_def Let_def keep)
qed

lemma normalized_settled:
  assumes "chType c = ''email''"
  shows "mailSettled (normalizeNotificationChannelSecrets env c)" "chType (normalizeNotificationChannelSecrets env c) = ''email''"
proof -
  define d where "d = chooseSMTP c"
  have global: "chUseGlobalSMTP d \<longleftrightarrow> \<not> hasLegacySMTPConfiguration d" unfolding d_def by (rule chooseSMTP_global)
  have type: "chType d = ''email''" using assms by (simp add: d_def chooseSMTP_def Let_def)
  show "mailSettled (normalizeNotificationChannelSecrets env c)" "chType (normalizeNotificationChannelSecrets env c) = ''email''"
    using global type assms
    unfolding normalizeNotificationChannelSecrets_def d_def [symmetric] mailSettled_def hasLegacySMTPConfiguration_def
    by (auto simp: Let_def)
qed

lemma settled_read:
  assumes "chType c = ''email''" "mailSettled c"
  shows "normalizeNotificationChannelSecrets env
      (c\<lparr>chUseGlobalSMTP := False, chUseGlobalSMTPSet := False, chWebhookURL := u, chCreatedAt := t, chUpdatedAt := t'\<rparr>) =
    c\<lparr>chUseGlobalSMTPSet := False, chWebhookURL := u, chCreatedAt := t, chUpdatedAt := t'\<rparr>"
proof -
  define d where "d = c\<lparr>chUseGlobalSMTP := False, chUseGlobalSMTPSet := False, chWebhookURL := u, chCreatedAt := t, chUpdatedAt := t'\<rparr>"
  have "hasLegacySMTPConfiguration d = hasLegacySMTPConfiguration c" by (simp add: d_def hasLegacySMTPConfiguration_def)
  then have choice: "chooseSMTP d = d\<lparr>chUseGlobalSMTP := chUseGlobalSMTP c\<rparr>"
    using assms(2) by (auto simp: chooseSMTP_def mailSettled_def d_def Let_def)
  have "chType d = ''email''" using assms(1) by (simp add: d_def)
  then show ?thesis
    unfolding d_def [symmetric] normalizeNotificationChannelSecrets_def choice using assms(2)
    by (cases c) (auto simp: d_def mailSettled_def Let_def)
qed

text \<open>An explicit choice of a mail server of one's own comes with settings for it.\<close>

definition decidedSMTP :: "NotificationChannel \<Rightarrow> bool" where
  "decidedSMTP c \<longleftrightarrow> (chUseGlobalSMTPSet c \<longrightarrow> chUseGlobalSMTP c \<or> hasLegacySMTPConfiguration c)"

lemma normalized_cleared:
  assumes "chType c = ''email''" "decidedSMTP c" "n = normalizeNotificationChannelSecrets env c" "chUseGlobalSMTPSet n" "chUseGlobalSMTP n"
  shows "clearLegacySMTPConfiguration n = n"
proof -
  have "chUseGlobalSMTPSet c" using assms(1,3,4) by (auto simp: normalizeNotificationChannelSecrets_def chooseSMTP_def Let_def split: if_splits)
  moreover have "chUseGlobalSMTP c"
  proof (rule ccontr)
    assume "\<not> chUseGlobalSMTP c"
    with calculation assms show False
      by (auto simp: decidedSMTP_def normalizeNotificationChannelSecrets_def chooseSMTP_def Let_def split: if_splits)
  qed
  ultimately show ?thesis using assms(1,3)
    by (cases c) (simp add: normalizeNotificationChannelSecrets_def chooseSMTP_def clearLegacySMTPConfiguration_def
        hasLegacySMTPConfiguration_def Let_def)
qed

lemma settled_again:
  assumes "chType c = ''email''" "mailSettled c" "chUseGlobalSMTPSet c \<and> chUseGlobalSMTP c \<longrightarrow> clearLegacySMTPConfiguration c = c"
  shows "normalizeNotificationChannelSecrets env c = c"
proof -
  have same: "c\<lparr>chUseGlobalSMTP := b\<rparr> = c" if "b = chUseGlobalSMTP c" for b using that by (cases c) simp
  have "chooseSMTP c = c" using assms(2,3) same by (auto simp: chooseSMTP_def mailSettled_def Let_def)
  then show ?thesis using assms(1,2) by (cases c) (auto simp: normalizeNotificationChannelSecrets_def mailSettled_def Let_def)
qed

lemma nullIf_coalesce [simp]: "coalesce (if s = [] then None else Some s) = s"
  by simp

lemma openSecret_sealed:
  assumes "gcmLaws g" "length nonce = 12" "encryptSecret env g (Some nonce) plain key = Inr (c, n)"
  shows "openSecret env g key (Some c) (if n = [] then None else Some n) = Inr (Some plain)" "c \<noteq> []"
  using decrypt_encrypt [OF assms(1,3,2)] by (simp_all add: openSecret_def)

lemma normalized_id: "chID (normalizeNotificationChannelSecrets env c) = chID c"
proof -
  have "chID (chooseSMTP c) = chID c" by (simp add: chooseSMTP_def clearLegacySMTPConfiguration_def Let_def)
  then show ?thesis by (simp add: normalizeNotificationChannelSecrets_def Let_def)
qed

lemma mdbCreate_cases:
  assumes "mdbCreateNotificationChannel env g key exactDB t drawn channel rows = (Inr c, rows')"
  obtains c2 secrets where "chType c2 = normalizeChannelType (chType channel)"
    "c2 = channel\<lparr>chID := chID c2, chType := chType c2\<rparr>"
    "channelSecrets env g drawn key ((normalizeNotificationChannelSecrets env c2)\<lparr>chCreatedAt := tkNow t, chUpdatedAt := tkNow t\<rparr>) = Inr secrets"
    "c = publicChannel env ((normalizeNotificationChannelSecrets env c2)\<lparr>chCreatedAt := tkNow t, chUpdatedAt := tkNow t\<rparr>)"
    "\<forall>r\<in>set rows. tcID r \<noteq> chID c2"
    "rows' = rows @ [writeColumns exactDB secrets ((normalizeNotificationChannelSecrets env c2)\<lparr>chCreatedAt := tkNow t, chUpdatedAt := tkNow t\<rparr>)
       (newColumns ((normalizeNotificationChannelSecrets env c2)\<lparr>chCreatedAt := tkNow t, chUpdatedAt := tkNow t\<rparr>))]"
proof -
  define c2 where "c2 = (let c1 = (if chID channel = [] then channel\<lparr>chID := newID ''ntc'' t\<rparr> else channel)
      in c1\<lparr>chType := normalizeChannelType (chType c1)\<rparr>)"
  define c4 where "c4 = (normalizeNotificationChannelSecrets env c2)\<lparr>chCreatedAt := tkNow t, chUpdatedAt := tkNow t\<rparr>"
  have ids: "chID c4 = chID c2"
    by (simp add: c4_def normalized_id)
  have ctx: "tkCtx t = None" using assms by (cases "tkCtx t") (simp_all add: mdbCreateNotificationChannel_def)
  have "mdbCreateNotificationChannel env g key exactDB t drawn channel rows =
      (case channelSecrets env g drawn key c4 of
         Inl e \<Rightarrow> (Inl e, rows)
       | Inr secrets \<Rightarrow> sqlInsert exactDB tcID (writeColumns exactDB secrets c4 (newColumns c4)) (publicChannel env c4) rows)"
    unfolding mdbCreateNotificationChannel_def guarded_def ctx c4_def c2_def Let_def option.case ..
  then obtain secrets where sec: "channelSecrets env g drawn key c4 = Inr secrets"
    and ins: "sqlInsert exactDB tcID (writeColumns exactDB secrets c4 (newColumns c4)) (publicChannel env c4) rows = (Inr c, rows')"
    using assms by (cases "channelSecrets env g drawn key c4") simp_all
  define row where "row = writeColumns exactDB secrets c4 (newColumns c4)"
  have rowID: "tcID row = chID c2" by (simp add: row_def writeColumns_def newColumns_def ids)
  have fresh: "\<forall>r\<in>set rows. tcID r \<noteq> chID c2" "c = publicChannel env c4" "rows' = rows @ [row]"
    using ins unfolding row_def [symmetric] sqlInsert_def exact_simps sqlDo_exact rowID
    by (auto simp: list_ex_iff split: if_splits)
  have "chType c2 = normalizeChannelType (chType channel)" "c2 = channel\<lparr>chID := chID c2, chType := chType c2\<rparr>"
    by (simp_all add: c2_def Let_def)
  from that [OF this, of secrets, folded c4_def, folded row_def, OF sec fresh(2,1,3)] show ?thesis .
qed

lemma exact_columns [simp]: "writeColumns exactDB secrets c r = r\<lparr>tcName := chName c, tcType := chType c, tcEnabled := chEnabled c,
     tcWebhookCiphertext := nullIf exactDB (fst (fst secrets)), tcWebhookNonce := nullIf exactDB (snd (fst secrets)),
     tcMaskedWebhookURL := nullIf exactDB (chMaskedWebhookURL c), tcEmailRecipients := Some (chEmailRecipients c),
     tcSMTPHost := nullIf exactDB (chSMTPHost c), tcSMTPPort := (if chSMTPPort c = 0 then None else Some (chSMTPPort c)),
     tcSMTPTLS := chSMTPTLS c, tcSMTPFrom := nullIf exactDB (chSMTPFrom c), tcSMTPUsername := nullIf exactDB (chSMTPUsername c),
     tcSMTPCiphertext := nullIf exactDB (fst (snd secrets)), tcSMTPNonce := nullIf exactDB (snd (snd secrets)),
     tcSMTPPasswordConfigured := chSMTPPasswordConfigured c, tcMaskedEmailTarget := nullIf exactDB (chMaskedEmailTarget c),
     tcSeverityFilter := chSeverityFilter c, tcEventTypeFilter := chEventTypeFilter c,
     tcUpdatedAt := datetime (chUpdatedAt c)\<rparr>"
  by (simp add: writeColumns_def)

lemma port_read [simp]: "(case if p = 0 then None else Some p of None \<Rightarrow> 0 | Some q \<Rightarrow> q) = (p :: int)"
  by simp

text \<open>What a stored row is read as, before the normalisation.\<close>

lemma scan_written:
  assumes "gcmLaws g" "length nonce = 12" "channelSecrets env g (Some nonce) key c = Inr secrets"
  shows "scanNotificationChannel env g key (writeColumns exactDB secrets c r) =
    Inr (normalizeNotificationChannelSecrets env (c\<lparr>chID := tcID r, chUseGlobalSMTP := False, chUseGlobalSMTPSet := False,
      chWebhookURL := (if chType c = ''email'' then [] else chWebhookURL c),
      chSMTPPassword := (if chType c = ''email'' then chSMTPPassword c else []),
      chSMTPPasswordConfigured := (chSMTPPasswordConfigured c \<or> chType c = ''email'' \<and> chSMTPPassword c \<noteq> []),
      chCreatedAt := tcCreatedAt r, chUpdatedAt := datetime (chUpdatedAt c)\<rparr>))"
proof (cases "chType c = ''email''")
  case email: True
  show ?thesis
  proof (cases "chSMTPPassword c = []")
    case True
    then have sec: "secrets = (([], []), ([], []))" using email assms(3) by (simp add: channelSecrets_def)
    have none: "openSecret env g key None None = Inr None" by (simp add: openSecret_def)
    show ?thesis using email True by (cases c) (simp add: scanNotificationChannel_def sec none)
  next
    case False
    then obtain ct n where enc: "encryptSecret env g (Some nonce) (chSMTPPassword c) key = Inr (ct, n)" "secrets = (([], []), (ct, n))"
      using email assms(3) by (cases "encryptSecret env g (Some nonce) (chSMTPPassword c) key") (auto simp: channelSecrets_def)
    have none: "openSecret env g key None None = Inr None" by (simp add: openSecret_def)
    note sealed = openSecret_sealed [OF assms(1,2) enc(1)]
    show ?thesis using email False sealed(2) by (cases c) (simp add: scanNotificationChannel_def enc(2) none sealed(1))
  qed
next
  case False
  then obtain ct n where enc: "encryptSecret env g (Some nonce) (chWebhookURL c) key = Inr (ct, n)" "secrets = ((ct, n), ([], []))"
    using assms(3) by (cases "encryptSecret env g (Some nonce) (chWebhookURL c) key") (auto simp: channelSecrets_def)
  have none: "openSecret env g key None None = Inr None" by (simp add: openSecret_def)
  note sealed = openSecret_sealed [OF assms(1,2) enc(1)]
  show ?thesis using False sealed(2) by (cases c) (simp add: scanNotificationChannel_def enc(2) none sealed(1))
qed

lemma normalized_password:
  "chType c = ''email'' \<Longrightarrow> chSMTPPassword (normalizeNotificationChannelSecrets env c) \<in> {[], chSMTPPassword c}"
proof -
  have "chSMTPPassword (chooseSMTP c) \<in> {[], chSMTPPassword c}" by (simp add: chooseSMTP_def clearLegacySMTPConfiguration_def Let_def)
  then show "chType c = ''email'' \<Longrightarrow> chSMTPPassword (normalizeNotificationChannelSecrets env c) \<in> {[], chSMTPPassword c}"
    unfolding normalizeNotificationChannelSecrets_def Let_def by simp
qed

lemma settled_times: "mailSettled (c\<lparr>chCreatedAt := t, chUpdatedAt := t'\<rparr>) = mailSettled c"
proof -
  have "hasLegacySMTPConfiguration (c\<lparr>chCreatedAt := t, chUpdatedAt := t'\<rparr>) = hasLegacySMTPConfiguration c"
    by (simp add: hasLegacySMTPConfiguration_def)
  then show ?thesis by (simp add: mailSettled_def)
qed

lemma stored_read_back:
  assumes "decidedSMTP c2" "chSMTPPassword c2 = [] \<or> TrimSpace (chSMTPPassword c2) \<noteq> []"
    "c = publicChannel env ((normalizeNotificationChannelSecrets env c2)\<lparr>chCreatedAt := t, chUpdatedAt := t\<rparr>)"
    "c4 = (normalizeNotificationChannelSecrets env c2)\<lparr>chCreatedAt := t, chUpdatedAt := t\<rparr>"
  shows "normalizeNotificationChannelSecrets env (c4\<lparr>chUseGlobalSMTP := False, chUseGlobalSMTPSet := False,
      chWebhookURL := (if chType c4 = ''email'' then [] else chWebhookURL c4),
      chSMTPPassword := (if chType c4 = ''email'' then chSMTPPassword c4 else []),
      chSMTPPasswordConfigured := (chSMTPPasswordConfigured c4 \<or> chType c4 = ''email'' \<and> chSMTPPassword c4 \<noteq> []),
      chCreatedAt := datetime t, chUpdatedAt := datetime t\<rparr>) =
    c\<lparr>chUseGlobalSMTP := (chType c = ''email'' \<and> chUseGlobalSMTP c), chUseGlobalSMTPSet := False,
      chWebhookURL := (if chType c = ''email'' then [] else chWebhookURL c),
      chSMTPPassword := (if chType c = ''email'' then chSMTPPassword c else []),
      chCreatedAt := datetime t, chUpdatedAt := datetime t\<rparr>" (is ?read)
    "chID c = chID c4"
proof -
  define n where "n = normalizeNotificationChannelSecrets env c2"
  have c4: "c4 = n\<lparr>chCreatedAt := t, chUpdatedAt := t\<rparr>" by (simp add: assms(4) n_def)
  show "chID c = chID c4" using assms(3,4) by (simp add: publicChannel_def normalized_id)
  show ?read
  proof (cases "chType c2 = ''email''")
    case True
    have n: "mailSettled n" "chType n = ''email''" unfolding n_def by (rule normalized_settled [OF True])+
    then have s4: "mailSettled c4" "chType c4 = ''email''" by (simp_all add: c4 settled_times)
    have "clearLegacySMTPConfiguration c4 = c4" if "chUseGlobalSMTPSet c4 \<and> chUseGlobalSMTP c4"
    proof -
      have "clearLegacySMTPConfiguration n = n"
        by (rule normalized_cleared [OF True assms(1) n_def]) (use that c4 in simp_all)
      then show ?thesis unfolding c4 by (cases n) (simp add: clearLegacySMTPConfiguration_def)
    qed
    then have c: "c = c4" using settled_again [OF s4(2,1)] assms(3,4) by (simp add: publicChannel_def)
    have "chSMTPPassword c4 \<in> {[], chSMTPPassword c2}" using normalized_password [OF True, of env] by (simp add: c4 n_def)
    then have conf: "(chSMTPPasswordConfigured c4 \<or> chSMTPPassword c4 \<noteq> []) = chSMTPPasswordConfigured c4"
      using assms(2) s4(1) by (auto simp: mailSettled_def)
    show ?thesis
      using settled_read [OF s4(2,1), where env = env and u = "[]" and t = "datetime t" and t' = "datetime t"] s4(2) conf
      unfolding c by (cases c4) simp
  next
    case False
    then have "chType n = chType c2" "chMaskedWebhookURL n = maskWebhookURL env (chWebhookURL n)"
      by (simp_all add: n_def normalizeNotificationChannelSecrets_def)
    with False have "chType c4 \<noteq> ''email''" "chMaskedWebhookURL c4 = maskWebhookURL env (chWebhookURL c4)" by (simp_all add: c4)
    moreover from this have "c = c4" using assms(3,4)
      by (cases c4) (simp add: publicChannel_def normalizeNotificationChannelSecrets_def)
    ultimately show ?thesis by (cases c4) (simp add: normalizeNotificationChannelSecrets_def)
  qed
qed

lemma newID_columns: "tcID (newColumns c) = chID c" "tcCreatedAt (newColumns c) = datetime (chCreatedAt c)"
    "c\<lparr>chID := chID c\<rparr> = c"
  by (simp_all add: newColumns_def)

text \<open>
  A created channel is read back as it was returned, with the secret of its type decrypted.  What the table does not keep
  is the other secret, the explicit choice of the mail server, and the fraction of the times.
\<close>

theorem created_channel_roundtrip:
  assumes "gcmLaws g" "length nonce = 12" "decidedSMTP channel"
    "chSMTPPassword channel = [] \<or> TrimSpace (chSMTPPassword channel) \<noteq> []"
    "mdbCreateNotificationChannel env g key exactDB t (Some nonce) channel rows = (Inr c, rows')"
  shows "mdbGetNotificationChannel env g key exactDB (chID c) rows' =
    Inr (c\<lparr>chUseGlobalSMTP := (chType c = ''email'' \<and> chUseGlobalSMTP c), chUseGlobalSMTPSet := False,
      chWebhookURL := (if chType c = ''email'' then [] else chWebhookURL c),
      chSMTPPassword := (if chType c = ''email'' then chSMTPPassword c else []),
      chCreatedAt := datetime (tkNow t), chUpdatedAt := datetime (tkNow t)\<rparr>)"
proof -
  obtain c2 secrets where c2: "c2 = channel\<lparr>chID := chID c2, chType := chType c2\<rparr>"
    and sec: "channelSecrets env g (Some nonce) key ((normalizeNotificationChannelSecrets env c2)\<lparr>chCreatedAt := tkNow t, chUpdatedAt := tkNow t\<rparr>) = Inr secrets"
    and c: "c = publicChannel env ((normalizeNotificationChannelSecrets env c2)\<lparr>chCreatedAt := tkNow t, chUpdatedAt := tkNow t\<rparr>)"
    and fresh: "\<forall>r\<in>set rows. tcID r \<noteq> chID c2"
    and rows': "rows' = rows @ [writeColumns exactDB secrets ((normalizeNotificationChannelSecrets env c2)\<lparr>chCreatedAt := tkNow t, chUpdatedAt := tkNow t\<rparr>)
       (newColumns ((normalizeNotificationChannelSecrets env c2)\<lparr>chCreatedAt := tkNow t, chUpdatedAt := tkNow t\<rparr>))]"
    by (rule mdbCreate_cases [OF assms(5)])
  define c4 where "c4 = (normalizeNotificationChannelSecrets env c2)\<lparr>chCreatedAt := tkNow t, chUpdatedAt := tkNow t\<rparr>"
  have dec: "decidedSMTP c2" "chSMTPPassword c2 = [] \<or> TrimSpace (chSMTPPassword c2) \<noteq> []"
    using assms(3,4) by (subst c2, simp add: decidedSMTP_def hasLegacySMTPConfiguration_def)+
  note read_back = stored_read_back [OF dec c c4_def]
  have ids: "chID c4 = chID c2" by (simp add: c4_def normalized_id)
  define row where "row = writeColumns exactDB secrets c4 (newColumns c4)"
  have "tcID row = chID c" using read_back(2) by (simp add: row_def newColumns_def)
  moreover have "\<forall>r\<in>set rows. tcID r \<noteq> chID c" using fresh read_back(2) ids by simp
  ultimately have "List.find (\<lambda>r. tcID r = chID c) (rows @ [row]) = Some row" by (induction rows) auto
  moreover have "tkNow t = chCreatedAt c4" "tkNow t = chUpdatedAt c4" by (simp_all add: c4_def)
  ultimately show ?thesis
    using scan_written [OF assms(1,2) sec [folded c4_def], of "newColumns c4"] read_back(1) rows' [folded c4_def, folded row_def]
    by (simp add: mdbGetNotificationChannel_def sqlQuery_def row_def newID_columns del: exact_columns)
qed

text \<open>A cipher that only appends a tag satisfies the laws.\<close>

definition tagGCM :: gcm where
  "tagGCM = \<lparr>gcSeal = (\<lambda>_ _ p. p @ replicate 16 (CHR ''t'')), gcOpen = (\<lambda>_ _ c. Some (take (length c - 16) c))\<rparr>"

definition hookChannel :: NotificationChannel where
  "hookChannel = \<lparr>chID = ''c1'', chName = ''c'', chType = ''discord'', chEnabled = True, chUseGlobalSMTP = False,
     chUseGlobalSMTPSet = False, chWebhookURL = ''https://x'', chMaskedWebhookURL = [], chEmailRecipients = None,
     chSMTPHost = [], chSMTPPort = 0, chSMTPTLS = False, chSMTPFrom = [], chSMTPUsername = [], chSMTPPassword = [],
     chSMTPPasswordConfigured = False, chMaskedEmailTarget = [], chSeverityFilter = Some [''critical''], chEventTypeFilter = None,
     chCreatedAt = 0, chUpdatedAt = 0\<rparr>"

theorem created_channel_roundtrip_witness:
  "\<exists>c d rows. mdbCreateNotificationChannel (concreteEnv []) tagGCM ''k'' exactDB (clock 1) (Some (replicate 12 (CHR ''n''))) hookChannel []
      = (Inr c, rows) \<and>
    mdbGetNotificationChannel (concreteEnv []) tagGCM ''k'' exactDB ''c1'' rows = Inr d \<and> chType d = ''discord'' \<and>
    chWebhookURL d = ''https://x'' \<and> chSeverityFilter d = Some [''critical'']"
proof -
  have type: "normalizeChannelType ''discord'' = ''discord''" by (simp add: normalizeChannelType_def go_eval)
  have key: "cipherKey (concreteEnv []) ''k'' = Inr (sha256 (concreteEnv []) ''k'')"
    using concreteEnv_sha256 [of "[]"] by (simp add: cipherKey_def sha256Sized_def Let_def)
  obtain c rows where run: "mdbCreateNotificationChannel (concreteEnv []) tagGCM ''k'' exactDB (clock 1)
      (Some (replicate 12 (CHR ''n''))) hookChannel [] = (Inr c, rows)"
    and c: "chType c = ''discord''" "chWebhookURL c = ''https://x''" "chSeverityFilter c = Some [''critical'']" "chID c = ''c1''"
    by (simp add: mdbCreateNotificationChannel_def hookChannel_def type normalizeNotificationChannelSecrets_def channelSecrets_def
        encryptSecret_def key sqlInsert_def publicChannel_def Let_def del: exact_columns)
  have "decidedSMTP hookChannel" "gcmLaws tagGCM" "length (replicate 12 (CHR ''n'')) = 12"
    "chSMTPPassword hookChannel = [] \<or> TrimSpace (chSMTPPassword hookChannel) \<noteq> []"
    by (simp_all add: decidedSMTP_def hookChannel_def gcmLaws_def tagGCM_def)
  from created_channel_roundtrip [OF this(2,3,1,4) run] run c show ?thesis by simp
qed

subsection \<open>A channel that changes its type\<close>

lemma merge_chID: "chID (mergeChannel ch ex) = chID ex"
  unfolding mergeChannel_def let_push [where f = chID]
  by (simp add: Let_def if_distrib [where f = chID] option.case_distrib [where h = chID] clearLegacySMTPConfiguration_def
      case_option_same cong: if_cong option.case_cong)

lemma scan_id: "scanNotificationChannel env g key r = Inr c \<Longrightarrow> chID c = tcID r"
  by (auto simp: scanNotificationChannel_def Let_def normalized_id split: sum.splits option.splits)

text \<open>An update that is answered wrote its channel over the row it had read.\<close>

lemma mdbUpdate_cases:
  assumes "mdbUpdateNotificationChannel env g key exactDB t drawn channel rows = (Inr c, rows')"
  obtains existing e secrets r where "List.find (\<lambda>r. tcID r = chID channel) rows = Some r"
    "scanNotificationChannel env g key r = Inr existing"
    "e = (normalizeNotificationChannelSecrets env (mergeChannel channel existing))\<lparr>chUpdatedAt := tkNow t\<rparr>" "chID e = chID channel"
    "channelSecrets env g drawn key e = Inr secrets" "c = publicChannel env e"
    "rows' = map (\<lambda>r. if tcID r = chID channel then writeColumns exactDB secrets e r else r) rows"
proof -
  have ctx: "tkCtx t = None" using assms by (cases "tkCtx t") (simp_all add: mdbUpdateNotificationChannel_def)
  then obtain existing where get: "mdbGetNotificationChannel env g key exactDB (chID channel) rows = Inr existing"
    using assms by (cases "mdbGetNotificationChannel env g key exactDB (chID channel) rows")
      (simp_all add: mdbUpdateNotificationChannel_def)
  then obtain r where r: "List.find (\<lambda>r. tcID r = chID channel) rows = Some r" "scanNotificationChannel env g key r = Inr existing"
    by (auto simp: mdbGetNotificationChannel_def sqlQuery_def split: option.splits)
  define e where "e = (normalizeNotificationChannelSecrets env (mergeChannel channel existing))\<lparr>chUpdatedAt := tkNow t\<rparr>"
  have "tcID r = chID channel" using r(1) by (auto simp: find_Some_iff)
  then have id: "chID e = chID channel" using scan_id [OF r(2)] by (simp add: e_def normalized_id merge_chID)
  obtain secrets where sec: "channelSecrets env g drawn key e = Inr secrets"
    using assms ctx get by (cases "channelSecrets env g drawn key e")
      (simp_all add: mdbUpdateNotificationChannel_def Let_def e_def [symmetric])
  have "c = publicChannel env e" "rows' = map (\<lambda>r. if tcID r = chID channel then writeColumns exactDB secrets e r else r) rows"
    using assms ctx get sec id
    by (auto simp: mdbUpdateNotificationChannel_def Let_def e_def [symmetric] sqlUpdate_def simp del: exact_columns split: if_splits)
  from that [OF r e_def id sec this] show ?thesis .
qed

text \<open>
  A mail channel that becomes a webhook channel is answered with its password, which the in-memory store keeps.  The
  table has lost it, yet still records that a password is configured.
\<close>

theorem retyped_channel_loses_password:
  assumes "gcmLaws g" "length nonce = 12" "chType c \<noteq> ''email''"
    "mdbUpdateNotificationChannel env g key exactDB t (Some nonce) channel rows = (Inr c, rows')"
  shows "\<exists>d. mdbGetNotificationChannel env g key exactDB (chID channel) rows' = Inr d \<and> chWebhookURL d = chWebhookURL c \<and>
    chSMTPPassword d = [] \<and> chSMTPPasswordConfigured d = chSMTPPasswordConfigured c"
proof -
  obtain existing e secrets r where r: "List.find (\<lambda>r. tcID r = chID channel) rows = Some r"
    and e: "e = (normalizeNotificationChannelSecrets env (mergeChannel channel existing))\<lparr>chUpdatedAt := tkNow t\<rparr>"
    and id: "chID e = chID channel" and sec: "channelSecrets env g (Some nonce) key e = Inr secrets"
    and c: "c = publicChannel env e"
    and rows': "rows' = map (\<lambda>r. if tcID r = chID channel then writeColumns exactDB secrets e r else r) rows"
    by (rule mdbUpdate_cases [OF assms(4)])
  have keepID: "tcID (writeColumns exactDB secrets e r) = tcID r" for r by simp
  have "List.find (\<lambda>r. tcID r = chID channel) rows' = Some (writeColumns exactDB secrets e r)"
    using r unfolding rows' by (induction rows) (auto simp: keepID simp del: exact_columns split: if_splits)
  then have get: "mdbGetNotificationChannel env g key exactDB (chID channel) rows' = scanNotificationChannel env g key (writeColumns exactDB secrets e r)"
    by (simp add: mdbGetNotificationChannel_def sqlQuery_def del: exact_columns)
  have type: "chType e \<noteq> ''email''"
  proof
    assume email: "chType e = ''email''"
    then have "chType c = ''email''" unfolding c publicChannel_def by (rule normalized_settled(2))
    with assms(3) show False by simp
  qed
  then have "c = e\<lparr>chMaskedWebhookURL := maskWebhookURL env (chWebhookURL e)\<rparr>"
    by (simp add: c publicChannel_def normalizeNotificationChannelSecrets_def)
  then show ?thesis using type
    by (simp add: get scan_written [OF assms(1,2) sec] normalizeNotificationChannelSecrets_def del: exact_columns)
qed

end
