(* ===== verification/Spec2Isabelle.thy ===== *)
theory Spec2Isabelle
  imports Detection Diagnostics Incident_Spec Metrics Channels Redaction Remediation Rate_Limit Dedupe Auth Signal_Guard
    Node_Config Control_Client Request_Limits Email_Message Server_Queries Channel_Properties V2_Migration Database_Setup Host_Metrics
    Control_Agent Service_Main Configure_Command MariaDB_Faults MariaDB_Store MariaDB_Channels
begin

text \<open>
  \<^bold>\<open>Verification of the Autostream observability service.\<close>

  The program (Go, under \<^verbatim>\<open>src/\<close>) receives signals from the services of a streaming platform,
  evaluates them against detection rules, keeps incidents, notifies operators over webhooks and
  mail, and offers remediation actions that the Control Panel executes.

  \<^bold>\<open>Parts and theories.\<close>  Each theory opens with the source file it models.

  \<^item> \<open>Prelude\<close>, \<open>Go_Strings\<close>, \<open>Go_Values\<close>, \<open>Go_Sort\<close>: what the program uses of Go.  Strings are byte
    strings; a map is an association list with distinct keys (\<open>gomap\<close>), its order being the order of
    iteration; \<open>None\<close> is a nil slice, map or pointer; \<open>int\<close> and \<open>int64\<close> are integers with \<open>wrap64\<close> at
    every operation that can overflow; \<open>float64\<close> has NaN, the infinities and rounded subtraction;
    errors are the left values of a sum.  The environment, \<^verbatim>\<open>strconv.ParseFloat\<close>, SHA-256 and
    \<^verbatim>\<open>url.Parse\<close> are fields of \<open>goenv\<close>.
  \<^item> \<open>Detection\<close> (\<^verbatim>\<open>internal/detection/rules.go\<close>) and \<open>Diagnostics\<close> (\<^verbatim>\<open>internal/diagnostics/report.go\<close>):
    thresholds, the rule and recovery tables, the reports.
  \<^item> \<open>Store_Types\<close>, \<open>Channels\<close>, \<open>Redaction\<close>, \<open>Memory_Store\<close>, \<open>Metrics\<close> (\<^verbatim>\<open>internal/store\<close>): the records of
    the store, the public view of channels, the sanitiser of deliveries, every operation of the
    in-memory store, and the metric snapshots.  An operation takes a \<open>tick\<close>: the error of its context,
    its clock reading and its random bytes.
  \<^item> \<open>Incident_Lifecycle\<close> and \<open>Incident_Spec\<close>: the store as a state machine (\<open>store_step\<close>, \<open>store_run\<close>)
    with its invariant \<open>storeOK\<close>, the life of a row (\<open>rowLater\<close>), and a reference store without an
    index that the indexed store refines.
  \<^item> \<open>MariaDB_Incidents\<close>, \<open>MariaDB_Store\<close>, \<open>MariaDB_Channels\<close> (\<^verbatim>\<open>internal/store/mariadb.go\<close>,
    \<^verbatim>\<open>internal/store/secret_crypto.go\<close>): the store on a database.  The tables are lists of rows, the statements
    functions on them; the failures of the server, its collation and what a value becomes in a JSON column are fields of \<open>sqlenv\<close>, and \<open>rival\<close> stands for what other writers commit inside an insertion.
    \<open>MariaDB_Refinement\<close> compares its incidents with those of the in-memory store, \<open>MariaDB_Faults\<close> has runs with
    failing statements and concurrent writers (\<open>mdb_run\<close>).
  \<^item> \<open>Local_Transition\<close>, \<open>Remediation\<close> (\<^verbatim>\<open>internal/remediation\<close>): local transitions with idempotency keys
    and fences, the action policy, proposals.
  \<^item> \<open>Rate_Limit\<close>, \<open>Dedupe\<close> (\<^verbatim>\<open>internal/httpapi\<close>): the request limiter and the notification deduper.
  \<^item> \<open>Auth\<close> (\<^verbatim>\<open>internal/auth/token.go\<close>), \<open>Signal_Guard\<close> (validation and redaction of signals in
    \<^verbatim>\<open>internal/httpapi/server.go\<close>), \<open>Node_Config\<close> and \<open>Control_Client\<close> (\<^verbatim>\<open>internal/control\<close>,
    \<^verbatim>\<open>internal/httpapi/updater_identity.go\<close>), \<open>Request_Limits\<close> (routes, client addresses and buckets).
  \<^item> \<open>Float_Rounding\<close> and \<open>Host_Metrics\<close> (\<^verbatim>\<open>internal/control/hostmetrics*.go\<close>): the metrics of the Unix build from the
    contents of the files they read.  \<open>Control_Agent\<close> (registration and heartbeat requests), \<open>Service_Main\<close>
    (\<^verbatim>\<open>cmd/observability/main.go\<close>: the start and the registration loop) and \<open>Configure_Command\<close> (the command that
    fetches and writes the node configuration, over a file system whose calls can fail).
  \<^item> \<open>V2_Migration\<close> (\<^verbatim>\<open>internal/store/v2migration\<close>): the migration of channel settings with its backup, verification and
    restoration.  \<open>Database_Setup\<close> (\<^verbatim>\<open>internal/database\<close>): the connection settings and the runner of the schema files.
  \<^item> \<open>Webhook\<close>, \<open>Webhook_Client\<close>, \<open>Text_Tools\<close>, \<open>Notification_Labels\<close>, \<open>Notification_Message\<close>, \<open>Email_Message\<close>
    (\<^verbatim>\<open>internal/notifications/webhook.go\<close>): addresses, dialling, retries and fan-out; the environment
    and the redirects; trimming, truncation and escaping of texts; the labels; the content of a
    notification and its Slack, Discord and generic payloads; the mail (page, plain text, headers) and
    the SMTP session.  Two laws of the mail library (\<open>mailLaws\<close>) are hypotheses.
  \<^item> \<open>Channel_Requests\<close> (\<^verbatim>\<open>internal/httpapi/server.go\<close>): the meaning of a decoded channel or event request.
  \<^item> \<open>Server\<close>, \<open>Server_Channels\<close>, \<open>Server_Queries\<close> (\<^verbatim>\<open>internal/httpapi/server.go\<close>): the handlers: those
    of signals, incidents and remediation, those of channels and events, and those that only report.
    A handler maps the state \<open>Server\<close> to a response and the next state; \<open>world\<close> numbers what the calls
    of a request take from outside.  A handler is one step of a run, with one exception: the update of a channel reads and
    writes the store at two moments, and other requests may be served in between (rule \<open>overlapped\<close> of \<open>server_run\<close>;
    \<open>serial_run\<close> has the runs without it).  \<open>Server_Safety\<close> and \<open>Server_Frames\<close> have the frames of the
    handlers, \<open>Channel_Safety\<close> what they keep of the stored channels, \<open>Server_Properties\<close> the properties
    of an ingest request, \<open>Server_Runs\<close> the runs of the server, \<open>Channel_Properties\<close> the properties of
    channels and events.

  \<^bold>\<open>What is shown.\<close>

  \<^item> Incidents: along any run there is at most one active incident per rule, service and stream, no
    row is lost, closed rows stay closed, and the index is equivalent to a search of the rows;
    history pages list each row once.  On a server that answers every statement the MariaDB
    store answers plain calls as the in-memory store does, and it keeps the uniqueness of active incidents whatever fails and
    whoever else writes.
  \<^item> Detection: a signal never raises and recovers the same rule; an accepted signal is stored once
    and leaves exactly the incidents it asks for; counters are judged by their increase.
  \<^item> Server: a refused request changes nothing, a bound token speaks only for its service, every
    handler is a run of the store, an executed retry was accepted by the Control Panel.
  \<^item> Secrets: stored attributes, shown signals and stored deliveries carry no secret-like text.
  \<^item> Remediation: the decision table of execution, approval before execution, exactly-once local
    transitions, valid proposals only.
  \<^item> Notifications: exact fan-out, exact retries, suppression of repeats, retry of the failed part
    only, a bounded table, addresses, redirects and connections that never lead inside; every stored
    channel stays valid along any run of requests served one after the other.
  \<^item> Messages: no text of an incident adds markup to Slack, tags to the HTML page or headers to a
    mail; Discord's limits are kept; nothing is sent before TLS where TLS is asked for.
  \<^item> The process: the checks of the start and what its verifiers accept, one identity and one token over all rounds of the
    registration loop, a configuration file that is written completely or not at all, sane host metrics.
  \<^item> Migration: atomic up to the commit, idempotent, and undone exactly by the restoration.
  \<^item> Limits and configuration: the sliding window of the in-memory limiter, the fixed window of the shared one, the latch of
    the updater identity, the round trip of the node configuration.
  \<^item> Defects: a NaN threshold silences its rule, a NUL byte makes incident keys collide, a huge window setting turns the
    limiter off, \<^verbatim>\<open>HEAD\<close> requests are not limited, a mail is repeated when only its QUIT fails, a redirect to itself
    is followed until the deadline, an update of a mail channel can bring settings that are not checked, two overlapping updates
    can store an address that the policy of its type refuses, a second migration loses settings, and in the MariaDB store an
    update that changes nothing within a second is answered not found, a sample from a clock ahead pins its counter, and a mail
    channel that changes its type loses its password but not the mark that there is one.

  \<^bold>\<open>Interfaces.\<close>  The contracts between components are locales, interpreted on the model: the
  laws of an incident store (\<open>incident_store\<close>) in \<open>Incident_Spec\<close>, and the elementary steps of an
  evaluation (\<open>evaluation_frame\<close>) in \<open>Server_Safety\<close>, interpreted once for the stored signals and
  once for the deduper.

  \<^bold>\<open>Hypotheses.\<close>  An identifier drawn for a new incident is not taken (random identifiers); a SHA-256
  digest has 32 bytes (\<open>sha256Sized\<close>); \<open>liveWorld\<close>, where a property claims success, says that no
  context is cancelled during the request; the collation of the database is an equivalence in which only blank strings equal the
  empty one (\<open>collationLaws\<close>); what AES-GCM sealed opens again under the same key and nonce (\<open>gcmLaws\<close>).

  \<^bold>\<open>Termination.\<close>  Every function is total: loops over slices are structural recursions, and the
  eviction, decoding and retry loops have measures (entries left, bytes left, attempts left).  Only
  the redirects of an exchange need fuel (\<open>follow\<close>): the number of requests that fit before the
  deadline, for the code sets no other bound.

  \<^bold>\<open>Not modelled.\<close>  The Windows build of the host metrics and of the file replacement, the landing page, routing, JSON decoding and the encoding of responses, the
  HTTP listener with its timeouts and the shutdown.  In the MariaDB store the row that an operation reads back after its
  commit is taken at once, so other writers show only in the insertions (\<open>rival\<close>) and between operations.
\<close>

end
